(* ===== verification/Prelude.thy ===== *)
theory Prelude
  imports Complex_Main "HOL-Library.Word"
begin

text \<open>
  The vocabulary the component theories share: the C integer types and the operations of
  C that HOL writes differently (division and conversion that truncate towards zero, the
  extraction of single bytes from an integer, big-endian 32-bit fields), fixed-size
  buffers as lists updated by index, and the collections of rewrite rules that the
  component proofs use.

  C \<open>int\<close> and \<open>long long\<close> quantities whose values stay far from their limits
  (frequencies in Hz, filter edges, indices) are \<open>int\<close> or \<open>nat\<close>; protocol bytes, counters
  that wrap and bit masks are words of their width.
\<close>

unbundle bit_operations_syntax

type_synonym byte = "8 word"
type_synonym u16 = "16 word"
type_synonym u32 = "32 word"

named_theorems frame_simps \<open>what an operation leaves unchanged\<close>
named_theorems byte_simps \<open>evaluation of byte fields\<close>

subsection \<open>C arithmetic\<close>

definition c_div :: "int \<Rightarrow> int \<Rightarrow> int" where
  "c_div a b = sgn a * sgn b * (\<bar>a\<bar> div \<bar>b\<bar>)"

definition c_trunc :: "real \<Rightarrow> int" where
  "c_trunc x = (if 0 \<le> x then \<lfloor>x\<rfloor> else \<lceil>x\<rceil>)"

lemma c_div_nonneg [simp]: "0 \<le> a \<Longrightarrow> 0 < b \<Longrightarrow> c_div a b = a div b"
  by (cases "a = 0") (auto simp: c_div_def)

lemma c_div_neg: "a < 0 \<Longrightarrow> 0 < b \<Longrightarrow> c_div a b = - ((- a) div b)"
  by (auto simp: c_div_def)

lemma c_div_bounds:
  assumes "0 < b"
  shows "\<bar>c_div a b * b\<bar> \<le> \<bar>a\<bar>" and "\<bar>a - c_div a b * b\<bar> < b"
proof -
  have q: "\<bar>a\<bar> = (\<bar>a\<bar> div b) * b + \<bar>a\<bar> mod b" and m: "0 \<le> \<bar>a\<bar> mod b" "\<bar>a\<bar> mod b < b"
    using assms by auto
  have e: "c_div a b * b = sgn a * ((\<bar>a\<bar> div b) * b)"
    using assms by (simp add: c_div_def)
  have nn: "0 \<le> (\<bar>a\<bar> div b) * b"
    using assms by (simp add: pos_imp_zdiv_nonneg_iff)
  show "\<bar>c_div a b * b\<bar> \<le> \<bar>a\<bar>"
  proof -
    have "\<bar>c_div a b * b\<bar> \<le> (\<bar>a\<bar> div b) * b"
      unfolding e using nn by (cases "a = 0") (auto simp: abs_mult)
    also have "\<dots> \<le> \<bar>a\<bar>" using q m by linarith
    finally show ?thesis .
  qed
  have "a = sgn a * \<bar>a\<bar>" by (simp add: mult_sgn_abs)
  then have "a - c_div a b * b = sgn a * (\<bar>a\<bar> mod b)"
    unfolding e using q by (metis add_diff_cancel_left' right_diff_distrib')
  then show "\<bar>a - c_div a b * b\<bar> < b"
    using m assms by (cases "a = 0") (auto simp: abs_mult)
qed

lemma c_div_mult_self [simp]: "0 < b \<Longrightarrow> c_div (q * b) b = q"
proof (cases "0 \<le> q")
  case True
  then show "0 < b \<Longrightarrow> ?thesis" by simp
next
  case False
  assume b: "0 < b"
  with False have "q * b < 0" by (simp add: mult_neg_pos)
  with b show ?thesis by (simp add: c_div_neg flip: mult_minus_left)
qed

lemma c_trunc_of_int [simp]: "c_trunc (of_int n) = n"
  by (simp add: c_trunc_def)

subsection \<open>Bytes of an integer\<close>

text \<open>
  \<open>byte_at k x\<close> is the C expression \<open>(x >> k) & 0xFF\<close>, or the assignment of
  \<open>x >> k\<close> to an \<open>unsigned char\<close>: the arithmetic shift rounds towards minus infinity and
  the conversion keeps the low eight bits.
\<close>

definition byte_at :: "nat \<Rightarrow> int \<Rightarrow> byte" where
  "byte_at k x = word_of_int (x div 2 ^ k)"

definition be32 :: "int \<Rightarrow> byte list" where
  "be32 x = [byte_at 24 x, byte_at 16 x, byte_at 8 x, byte_at 0 x]"

text \<open>The value of a big-endian field, as the receiver of the bytes reads it.\<close>

definition of_be :: "byte list \<Rightarrow> int" where
  "of_be bs = foldl (\<lambda>acc b. 256 * acc + uint b) 0 bs"

lemma uint_byte_at [byte_simps]: "uint (byte_at k x) = (x div 2 ^ k) mod 256"
  by (simp add: byte_at_def uint_word_of_int)

lemma length_be32 [simp]: "length (be32 x) = 4"
  by (simp add: be32_def)

theorem of_be_be32: "of_be (be32 x) = x mod 2 ^ 32"
proof -
  have step: "y mod m = 256 * ((y div 256) mod c) + y mod 256" if "0 < c" "m = 256 * c" for y m c :: int
    unfolding that(2) using that(1) by (intro zmod_zmult2_eq) simp
  have "x mod 4294967296 = 256 * ((x div 256) mod 16777216) + x mod 256"
    by (rule step) simp_all
  moreover have "(x div 256) mod 16777216 = 256 * ((x div 256 div 256) mod 65536) + (x div 256) mod 256"
    by (rule step) simp_all
  moreover have "(x div 256 div 256) mod 65536
      = 256 * ((x div 256 div 256 div 256) mod 256) + (x div 256 div 256) mod 256"
    by (rule step) simp_all
  moreover have "x div 256 div 256 = x div 65536" "x div 256 div 256 div 256 = x div 16777216"
    by (simp_all flip: zdiv_zmult2_eq)
  moreover have "of_be (be32 x) =
      256 * (256 * (256 * (x div 16777216 mod 256) + x div 65536 mod 256) + x div 256 mod 256) + x mod 256"
    by (simp add: be32_def of_be_def uint_byte_at)
  moreover have "x mod 2 ^ 32 = x mod 4294967296" by simp
  ultimately show ?thesis by (simp only:)
qed

lemma of_be_be32_id: "0 \<le> x \<Longrightarrow> x < 2 ^ 32 \<Longrightarrow> of_be (be32 x) = x"
  by (simp add: of_be_be32)

subsection \<open>Buffers\<close>

text \<open>Writing a run of bytes into a fixed-size buffer, as \<open>memcpy\<close> or a run of stores does.\<close>

fun put_bytes :: "nat \<Rightarrow> 'a list \<Rightarrow> 'a list \<Rightarrow> 'a list" where
  "put_bytes i [] buf = buf"
| "put_bytes i (b # bs) buf = put_bytes (Suc i) bs (buf[i := b])"

lemma length_put_bytes [simp]: "length (put_bytes i bs buf) = length buf"
  by (induction i bs buf rule: put_bytes.induct) auto

lemma nth_put_bytes:
  "i + length bs \<le> length buf \<Longrightarrow> j < length buf \<Longrightarrow>
   put_bytes i bs buf ! j = (if i \<le> j \<and> j < i + length bs then bs ! (j - i) else buf ! j)"
proof (induction i bs buf rule: put_bytes.induct)
  case (1 i buf)
  then show ?case by auto
next
  case (2 i b bs buf)
  then have "put_bytes (Suc i) bs (buf[i := b]) ! j =
      (if Suc i \<le> j \<and> j < Suc i + length bs then bs ! (j - Suc i) else (buf[i := b]) ! j)"
    by simp
  then show ?case
    using 2 by (auto simp: nth_Cons' nth_list_update Suc_diff_Suc)
qed

lemma take_drop_put_bytes:
  "i + length bs \<le> length buf \<Longrightarrow> take (length bs) (drop i (put_bytes i bs buf)) = bs"
  by (rule nth_equalityI) (auto simp: nth_put_bytes)

lemma fold_invariant_list:
  "P s \<Longrightarrow> (\<And>x s. x \<in> set xs \<Longrightarrow> P s \<Longrightarrow> P (f x s)) \<Longrightarrow> P (fold f xs s)"
  by (induction xs arbitrary: s) auto

end
