(* ===== verification/Radio_State.thy ===== *)
theory Radio_State
  imports Prelude
begin

text \<open>
  The data model: the structs and enums of the headers under \<^verbatim>\<open>src/src\<close> and the global
  variables of \<^verbatim>\<open>radio.c\<close>, \<^verbatim>\<open>band.c\<close> and \<^verbatim>\<open>vfo.c\<close> that the operations
  of the program read and write, collected in one record \<open>radio_state\<close> that every operation
  takes and returns.

  Fixed arrays indexed by a small id (\<open>vfo[]\<close>, \<open>receiver[]\<close>, \<open>adc[]\<close>,
  \<open>RXTXprofile[]\<close>) are functions of the index; tables are lists. Pointers that alias
  (the band stack arrays, which \<open>radio_change_region\<close> swaps) are names into the
  explicit store \<open>stacks\<close>. C flags that only hold 0 or 1 are booleans. Every call of code
  outside the model (the WDSP library, the GTK main loop, the network layer, the hardware
  packets) is an entry of the trace \<open>out\<close>, appended in program order.
\<close>

subsection \<open>Enumerations\<close>

datatype mode = modeLSB | modeUSB | modeDSB | modeCWL | modeCWU | modeFMN
  | modeAM | modeDIGU | modeSPEC | modeDIGL | modeSAM | modeDRM

definition mode_string :: "mode \<Rightarrow> string" where
  "mode_string m = (case m of
     modeLSB \<Rightarrow> ''LSB'' | modeUSB \<Rightarrow> ''USB'' | modeDSB \<Rightarrow> ''DSB'' | modeCWL \<Rightarrow> ''CWL''
   | modeCWU \<Rightarrow> ''CWU'' | modeFMN \<Rightarrow> ''FMN'' | modeAM \<Rightarrow> ''AM'' | modeDIGU \<Rightarrow> ''DIGU''
   | modeSPEC \<Rightarrow> ''SPEC'' | modeDIGL \<Rightarrow> ''DIGL'' | modeSAM \<Rightarrow> ''SAM'' | modeDRM \<Rightarrow> ''DRM'')"

definition is_cw :: "mode \<Rightarrow> bool" where
  "is_cw m \<longleftrightarrow> m = modeCWU \<or> m = modeCWL"

datatype protocol = ORIGINAL_PROTOCOL | NEW_PROTOCOL | SOAPYSDR_PROTOCOL
datatype filter_board = NO_FILTER_BOARD | ALEX | APOLLO | CHARLY25 | N2ADR
datatype sat_mode = SAT_NONE | SAT_MODE | RSAT_MODE
datatype capture_state = CAP_INIT | CAP_RECORDING | CAP_RECORD_DONE | CAP_AVAIL | CAP_XMIT
  | CAP_XMIT_DONE | CAP_REPLAY | CAP_REPLAY_DONE | CAP_GOTOSLEEP | CAP_SLEEPING
datatype region = REGION_OTHER | REGION_UK | REGION_WRC15

datatype device = DEVICE_METIS | DEVICE_HERMES | DEVICE_HERMES2 | DEVICE_ANGELIA | DEVICE_ORION
  | DEVICE_HERMES_LITE | DEVICE_HERMES_LITE2 | DEVICE_ORION2 | DEVICE_G2E | DEVICE_STEMLAB
  | DEVICE_STEMLAB_Z20 | DEVICE_OZY
  | NEW_DEVICE_ATLAS | NEW_DEVICE_HERMES | NEW_DEVICE_HERMES2 | NEW_DEVICE_ANGELIA
  | NEW_DEVICE_ORION | NEW_DEVICE_ORION2 | NEW_DEVICE_HERMES_LITE | NEW_DEVICE_SATURN
  | NEW_DEVICE_SATURN2 | NEW_DEVICE_G2E | NEW_DEVICE_HERMES_LITE2 | SOAPYSDR_USB_DEVICE

text \<open>The constants of \<open>enum _band_enum\<close>; \<open>filterF0 .. filterVar2\<close> are 0 to 11.\<close>

abbreviation (input) "band136 \<equiv> 0 :: nat"
abbreviation (input) "band472 \<equiv> 1 :: nat"
abbreviation (input) "band160 \<equiv> 2 :: nat"
abbreviation (input) "band80 \<equiv> 3 :: nat"
abbreviation (input) "band60 \<equiv> 4 :: nat"
abbreviation (input) "band40 \<equiv> 5 :: nat"
abbreviation (input) "band30 \<equiv> 6 :: nat"
abbreviation (input) "band20 \<equiv> 7 :: nat"
abbreviation (input) "band6 \<equiv> 12 :: nat"
abbreviation (input) "band144 \<equiv> 14 :: nat"
abbreviation (input) "band430 \<equiv> 16 :: nat"
abbreviation (input) "bandAIR \<equiv> 21 :: nat"
abbreviation (input) "bandWWV \<equiv> 22 :: nat"
abbreviation (input) "bandGen \<equiv> 23 :: nat"
abbreviation (input) "BANDS \<equiv> 24 :: nat"
abbreviation (input) "XVTRS \<equiv> 10 :: nat"
abbreviation (input) "FILTERS \<equiv> 12 :: nat"
abbreviation (input) "filterVar1 \<equiv> 10 :: nat"
abbreviation (input) "filterVar2 \<equiv> 11 :: nat"

subsection \<open>Structs\<close>

record bandstack_entry =
  bse_frequency :: int
  bse_ctun :: bool
  bse_ctun_frequency :: int
  bse_mode :: mode
  bse_filter :: nat
  bse_deviation :: int
  bse_ctcss_enabled :: bool
  bse_ctcss :: nat

text \<open>
  The names of the static \<open>BANDSTACK_ENTRY\<close> arrays: one for each band and transverter,
  and three for the 60m band, one for each region.
\<close>

datatype stack_name = StackOf nat | Stack60_UK | Stack60_OTHER | Stack60_WRC15

record bandstack =
  bs_entries :: nat
  bs_current :: nat
  bs_entry :: stack_name

record band =
  b_title :: string
  b_stack :: bandstack
  OCrx :: byte
  OCtx :: byte
  gaincalib :: int
  RxAntenna :: int
  TxAntenna :: int
  pa_calibration :: real
  frequencyMin :: int
  frequencyMax :: int
  frequencyLO :: int
  errorLO :: int
  disablePA :: bool
  b_RFgain :: real
  b_AGCgain :: real
  b_preamp :: int
  b_dither :: int
  b_attenuation :: int
  b_alexAttenuation :: int
  b_panlow :: int
  b_panhigh :: int
  b_panstep :: int

record channel =
  ch_frequency :: int
  ch_width :: int

record vfo =
  v_band :: nat
  v_bandstack :: nat
  v_frequency :: int
  v_ctun :: bool
  v_ctun_frequency :: int
  v_rit_enabled :: bool
  v_rit_step :: int
  v_rit :: int
  v_xit_enabled :: bool
  v_xit :: int
  v_lo :: int
  v_offset :: int
  v_mode :: mode
  v_step :: int
  v_filter :: nat
  v_deviation :: int
  v_cwPeak :: int

record filter =
  f_low :: int
  f_high :: int
  f_title :: string

record receiver =
  rx_id :: nat
  rx_adc :: nat
  rx_sample_rate :: int
  rx_filter_low :: int
  rx_filter_high :: int
  rx_deviation :: int
  rx_agc_fixed :: bool
  rx_agc_gain :: real
  rx_panlow :: int
  rx_panhigh :: int
  rx_panstep :: int
  rx_notch_enable :: "nat \<Rightarrow> bool"
  rx_notch_center :: "nat \<Rightarrow> real"
  rx_notch_width :: "nat \<Rightarrow> real"
  rx_notch_min_width :: real
  rx_zoom :: int
  rx_pan :: int
  rx_samples :: int
  rx_txrxmax :: int
  rx_txrxcount :: int
  rx_displaying :: bool

record transmitter =
  tx_filter_low :: int
  tx_filter_high :: int
  tx_use_rx_filter :: bool
  tx_ctcss_enabled :: bool
  tx_ctcss :: nat
  tx_antenna :: int
  tx_drive :: real
  tx_tune_drive :: real
  tx_tune_use_drive :: bool
  tx_drive_level :: int
  tx_drive_scale :: real
  tx_drive_iscal :: real
  tx_do_scale :: bool
  tx_default_filter_low :: int
  tx_default_filter_high :: int
  tx_deviation :: int
  tx_attenuation :: int
  tx_tune :: bool
  tx_twotone :: bool
  tx_puresignal :: bool
  tx_ps_oneshot :: bool
  tx_cfc :: bool
  tx_compressor :: bool
  tx_out_of_band :: bool
  tx_displaying :: bool

record adc =
  adc_antenna :: int
  adc_attenuation :: int
  adc_gain :: real
  adc_dither :: int
  adc_random :: int
  adc_preamp :: int
  adc_alex_attenuation :: int
  adc_filter_bypass :: bool
  adc_overload :: bool

text \<open>
  The fields of \<open>struct _rxtxprofile\<close> that act on the VFO, on the AGC type and on the
  transmit filter; the others are settings of the DSP library.
\<close>

record rxtxprofile =
  p_filter :: nat
  p_cwPeak :: int
  p_rit_step :: int
  p_step :: int
  p_agc_fixed :: bool
  p_use_rx_filter :: bool
  p_default_filter_low :: int
  p_default_filter_high :: int

subsection \<open>Calls out of the model\<close>

datatype remote_command =
    Send_band nat nat | Send_bandstack nat nat | Send_mode nat mode | Send_cwpeak nat int
  | Send_filter_sel nat nat | Send_vfo_atob | Send_vfo_btoa | Send_vfo_swap
  | Send_vfo_stepsize nat int | Update_vfo_step nat int | Send_rit_step nat int
  | Update_vfo_move nat int bool | Send_vfo_move_to nat int bool | Send_xit nat | Send_rit nat
  | Send_vfo_frequency nat int | Send_ctun nat bool | Send_rx_filter_cut nat

datatype remote_setting =
    Send_rxprofile nat mode | Send_txprofile mode
  | Send_attenuation nat int | Send_rfgain nat real
  | Send_drive real | Send_txfilter | Send_split bool | Send_duplex bool | Send_recall nat | Send_store nat
  | Send_mox bool | Send_vox bool | Send_tune bool | Send_toggle_tune | Send_twotone bool
  | Startstop_rxspectrum nat bool | Startstop_txspectrum bool

datatype packet = High_priority | General_packet | Receive_specific | Transmit_specific

datatype dsp_call =
    Rx_set_offset nat int | Rx_set_bandpass nat int int | Rx_set_deviation nat int
  | Rx_set_cw_peak nat int | Rx_set_agc nat | Rx_set_mode nat mode | Rx_profile_dsp nat mode
  | Tx_set_mode mode | Tx_set_ctcss bool nat | Tx_profile_dsp mode
  | Tx_set_bandpass int int | Tx_set_deviation int

datatype switch_call =
    Rx_on nat | Rx_off nat bool | Rx_set_displaying nat bool | Tx_on | Tx_off | Tx_set_displaying bool
  | Idle_set_vox bool | Idle_set_duplex bool | Tx_reconfigure bool | Out_of_band_timer | Tx_singletone bool | Tx_set_compressor bool bool
  | Tx_ps_reset | Tx_ps_resume | Tx_ps_mox bool | Schedule_capture | Rx_set_notch nat
  | Soapy_rxtx | Soapy_txrx

text \<open>Calls made by the actions of knobs, buttons and MIDI controls.\<close>

datatype panel_call =
    Rx_set_af_gain nat | Rx_set_noise nat | Rx_set_squelch nat | Rx_update_zoom nat | Rx_update_pan nat
  | Rx_change_sample_rate nat int | Tx_set_mic_gain | Vox_dsp bool real | Twotone_generator bool | Twotone_timer
  | Ps_feed_zeros | Ps_setparams | Keyer_update | Keyer_event bool bool | Queue_cw_key bool int | Queue_cw_text nat
  | Start_menu nat | Popup_slider nat | Update_toolbar | Menu_changed | Iconify | Shutdown
  | Protocol_stop | Protocol_run | Capture_start | Capture_end | Xmit_captured_start | Xmit_captured_end
  | Timer_mox_off int | Idle_set_mox bool | Timer_repeat | Wait_ms int
  | Send_capture | Send_replay | Send_lock bool | Send_sat sat_mode | Send_rx_select nat | Send_diversity bool real real
  | Send_txmenu | Send_rxmenu nat | Send_sidetone_freq int | Send_psonoff bool

datatype effect =
    Cmd remote_command     \<comment> \<open>a command a remote client sends to the server\<close>
  | Setting remote_setting \<comment> \<open>a setting exchanged between client and server\<close>
  | Packet packet          \<comment> \<open>a packet to the radio\<close>
  | Dsp dsp_call           \<comment> \<open>a call of the WDSP library\<close>
  | Switch switch_call     \<comment> \<open>a call made by the receive/transmit switch\<close>
  | Panel panel_call       \<comment> \<open>a call made by an action\<close>
  | Vfo_update | Slider    \<comment> \<open>the display\<close>

subsection \<open>The state\<close>

record radio_state =
  vfo :: "nat \<Rightarrow> vfo"
  bands :: "band list"
  stacks :: "stack_name \<Rightarrow> bandstack_entry list"
  channels_60m :: "channel list"
  region :: region
  receiver :: "nat \<Rightarrow> receiver"
  receivers :: nat
  active_id :: nat
  transmitter :: "transmitter option"
  adc :: "nat \<Rightarrow> adc"
  RXTXprofile :: "mode \<Rightarrow> rxtxprofile"
  filters :: "mode \<Rightarrow> filter list"
  protocol :: protocol
  device :: device
  filter_board :: filter_board
  radio_fmin :: real
  radio_fmax :: real
  is_remote :: bool
  remoteclient_running :: bool
  locked :: bool
  split :: bool
  duplex :: bool
  diversity_enabled :: bool
  sat_mode :: sat_mode
  tx_out_of_band_allowed :: bool
  TxInhibit :: bool
  mox :: bool
  vox :: bool
  have_rx_att :: bool
  have_rx_gain :: bool
  pa_enabled :: bool
  atlas_penelope :: bool
  drive_digi_max :: real
  cw_sidetone :: int
  cw_keyer_internal :: bool
  pre_tune_mode :: mode
  pre_tune_cw_internal :: bool
  frequency_calibration :: int
  vox_enabled :: bool
  vox_triggered :: bool
  vox_count :: int
  vox_threshold :: real
  vox_hang :: real
  vox_min_hang :: real
  vox_max1 :: real
  capture_state :: capture_state
  have_feedback :: bool   \<comment> \<open>the two PureSignal feedback receivers exist\<close>
  alex_forward_max :: int
  full_tune :: bool
  memory_tune :: bool
  OCfull_tune_time :: int
  OCmemory_tune_time :: int
  tune_timeout :: int
  clock_ms :: int   \<comment> \<open>the result of \<open>gettimeofday\<close>\<close>
  suppress_popup_sliders :: int
  out :: "effect list"

definition emit :: "effect \<Rightarrow> radio_state \<Rightarrow> radio_state" where
  "emit e r = r\<lparr>out := out r @ [e]\<rparr>"

definition upd_vfo :: "nat \<Rightarrow> (vfo \<Rightarrow> vfo) \<Rightarrow> radio_state \<Rightarrow> radio_state" where
  "upd_vfo i f r = r\<lparr>vfo := (vfo r)(i := f (vfo r i))\<rparr>"

definition upd_rx :: "nat \<Rightarrow> (receiver \<Rightarrow> receiver) \<Rightarrow> radio_state \<Rightarrow> radio_state" where
  "upd_rx i f r = r\<lparr>receiver := (receiver r)(i := f (receiver r i))\<rparr>"

definition upd_adc :: "nat \<Rightarrow> (adc \<Rightarrow> adc) \<Rightarrow> radio_state \<Rightarrow> radio_state" where
  "upd_adc i f r = r\<lparr>adc := (adc r)(i := f (adc r i))\<rparr>"

definition upd_tx :: "(transmitter \<Rightarrow> transmitter) \<Rightarrow> radio_state \<Rightarrow> radio_state" where
  "upd_tx f r = r\<lparr>transmitter := map_option f (transmitter r)\<rparr>"

text \<open>\<open>band_get_band\<close>, and a store through the pointer it returns.\<close>

definition band_get_band :: "nat \<Rightarrow> radio_state \<Rightarrow> band" where
  "band_get_band b r = bands r ! b"

definition upd_band :: "nat \<Rightarrow> (band \<Rightarrow> band) \<Rightarrow> radio_state \<Rightarrow> radio_state" where
  "upd_band b f r = r\<lparr>bands := (bands r)[b := f (bands r ! b)]\<rparr>"

definition calibrated_frequency :: "int \<Rightarrow> radio_state \<Rightarrow> int" where
  "calibrated_frequency f r = c_div (f * (10000000 + frequency_calibration r)) 10000000"

definition vfo_get_tx_vfo :: "radio_state \<Rightarrow> nat" where
  "vfo_get_tx_vfo r = (let txvfo = active_id r in if split r then 1 - txvfo else txvfo)"

definition vfo_get_tx_mode :: "radio_state \<Rightarrow> mode" where
  "vfo_get_tx_mode r = v_mode (vfo r (vfo_get_tx_vfo r))"

definition vfo_get_tx_freq :: "radio_state \<Rightarrow> int" where
  "vfo_get_tx_freq r = (let v = vfo r (vfo_get_tx_vfo r)
     in if v_ctun v then v_ctun_frequency v else v_frequency v)"

definition radio_is_transmitting :: "radio_state \<Rightarrow> bool" where
  "radio_is_transmitting r =
     (case transmitter r of None \<Rightarrow> False | Some tx \<Rightarrow> mox r \<or> vox r \<or> tx_tune tx)"

text \<open>The packets are only sent when the radio runs protocol 2.\<close>

definition schedule :: "packet \<Rightarrow> radio_state \<Rightarrow> radio_state" where
  "schedule e r = (if protocol r = NEW_PROTOCOL then emit (Packet e) r else r)"

definition schedule_high_priority :: "radio_state \<Rightarrow> radio_state" where
  "schedule_high_priority = schedule High_priority"
definition schedule_general :: "radio_state \<Rightarrow> radio_state" where
  "schedule_general = schedule General_packet"
definition schedule_receive_specific :: "radio_state \<Rightarrow> radio_state" where
  "schedule_receive_specific = schedule Receive_specific"
definition schedule_transmit_specific :: "radio_state \<Rightarrow> radio_state" where
  "schedule_transmit_specific = schedule Transmit_specific"

subsection \<open>Reading after writing\<close>

lemmas state_defs = emit_def upd_vfo_def upd_rx_def upd_adc_def upd_tx_def upd_band_def
  schedule_def schedule_high_priority_def schedule_general_def
  schedule_receive_specific_def schedule_transmit_specific_def

lemma vfo_upd_vfo [simp]: "vfo (upd_vfo i f r) j = (if j = i then f (vfo r i) else vfo r j)"
  by (simp add: upd_vfo_def)

lemma vfo_emit [simp]: "vfo (emit e r) = vfo r"
  and vfo_schedule [simp]: "vfo (schedule p r) = vfo r"
  and vfo_upd_rx [simp]: "vfo (upd_rx i f r) = vfo r"
  and vfo_upd_adc [simp]: "vfo (upd_adc i g r) = vfo r"
  and vfo_upd_tx [simp]: "vfo (upd_tx h r) = vfo r"
  and vfo_upd_band [simp]: "vfo (upd_band b k r) = vfo r"
  by (simp_all add: state_defs)

lemma tx_vfo_lt: "active_id r < 2 \<Longrightarrow> vfo_get_tx_vfo r < 2"
  by (auto simp: vfo_get_tx_vfo_def Let_def)

end
