(* ===== verification/Band_Tables.thy ===== *)
theory Band_Tables
  imports Radio_State
begin

text \<open>
  The static tables of \<^verbatim>\<open>src/src/band.c\<close>: the band stack arrays, the 60m channels and
  the table \<open>bands\<close>, row by row, and the initial store that holds them. The columns that
  are the same in every row are written once, in \<open>bse\<close> and \<open>band_row\<close>.
\<close>

text \<open>A row \<open>{f, 0, 0LL, m, flt, 2500, 0, 0}\<close> of a band stack array.\<close>

definition bse :: "int \<Rightarrow> mode \<Rightarrow> nat \<Rightarrow> bandstack_entry" where
  "bse f m flt = \<lparr>bse_frequency = f, bse_ctun = False, bse_ctun_frequency = 0, bse_mode = m,
     bse_filter = flt, bse_deviation = 2500, bse_ctcss_enabled = False, bse_ctcss = 0\<rparr>"

definition bandstack_entries136 :: "bandstack_entry list" where
  "bandstack_entries136 = [
    bse 135800 modeCWL 6,
    bse 137100 modeCWL 6]"

definition bandstack_entries472 :: "bandstack_entry list" where
  "bandstack_entries472 = [
    bse 472100 modeCWL 6,
    bse 475100 modeCWL 6]"

definition bandstack_entries160 :: "bandstack_entry list" where
  "bandstack_entries160 = [
    bse 1810000 modeCWL 6,
    bse 1835000 modeCWU 6,
    bse 1845000 modeUSB 5]"

definition bandstack_entries80 :: "bandstack_entry list" where
  "bandstack_entries80 = [
    bse 3501000 modeCWL 6,
    bse 3751000 modeLSB 5,
    bse 3850000 modeLSB 5]"

definition bandstack_entries60_WRC15 :: "bandstack_entry list" where
  "bandstack_entries60_WRC15 = [
    bse 5352750 modeCWU 6,
    bse 5357000 modeUSB 5,
    bse 5363000 modeUSB 5]"

definition bandstack_entries60_OTHER :: "bandstack_entry list" where
  "bandstack_entries60_OTHER = [
    bse 5332000 modeUSB 5,
    bse 5348000 modeUSB 5,
    bse 5358500 modeUSB 5,
    bse 5373000 modeUSB 5,
    bse 5405000 modeUSB 5]"

definition bandstack_entries60_UK :: "bandstack_entry list" where
  "bandstack_entries60_UK = [
    bse 5261250 modeUSB 5,
    bse 5280000 modeUSB 5,
    bse 5290250 modeUSB 5,
    bse 5302500 modeUSB 5,
    bse 5318000 modeUSB 5,
    bse 5335500 modeUSB 5,
    bse 5356000 modeUSB 5,
    bse 5368250 modeUSB 5,
    bse 5380000 modeUSB 5,
    bse 5398250 modeUSB 5,
    bse 5405000 modeUSB 5]"

definition bandstack_entries40 :: "bandstack_entry list" where
  "bandstack_entries40 = [
    bse 7001000 modeCWL 6,
    bse 7152000 modeLSB 5,
    bse 7255000 modeLSB 5]"

definition bandstack_entries30 :: "bandstack_entry list" where
  "bandstack_entries30 = [
    bse 10120000 modeCWU 6,
    bse 10130000 modeCWU 6,
    bse 10140000 modeCWU 6]"

definition bandstack_entries20 :: "bandstack_entry list" where
  "bandstack_entries20 = [
    bse 14010000 modeCWU 6,
    bse 14150000 modeUSB 5,
    bse 14230000 modeUSB 5,
    bse 14336000 modeUSB 5]"

definition bandstack_entries17 :: "bandstack_entry list" where
  "bandstack_entries17 = [
    bse 18068600 modeCWU 6,
    bse 18125000 modeUSB 5,
    bse 18140000 modeUSB 5]"

definition bandstack_entries15 :: "bandstack_entry list" where
  "bandstack_entries15 = [
    bse 21001000 modeCWU 6,
    bse 21255000 modeUSB 5,
    bse 21300000 modeUSB 5]"

definition bandstack_entries12 :: "bandstack_entry list" where
  "bandstack_entries12 = [
    bse 24895000 modeCWU 6,
    bse 24900000 modeUSB 5,
    bse 24910000 modeUSB 5]"

definition bandstack_entries10 :: "bandstack_entry list" where
  "bandstack_entries10 = [
    bse 28010000 modeCWU 6,
    bse 28300000 modeUSB 5,
    bse 28400000 modeUSB 5]"

definition bandstack_entries6 :: "bandstack_entry list" where
  "bandstack_entries6 = [
    bse 50010000 modeCWU 6,
    bse 50125000 modeUSB 5,
    bse 50200000 modeUSB 5]"

definition bandstack_entries70 :: "bandstack_entry list" where
  "bandstack_entries70 = [
    bse 70010000 modeCWU 6,
    bse 70200000 modeUSB 5,
    bse 70250000 modeUSB 5]"

definition bandstack_entries144 :: "bandstack_entry list" where
  "bandstack_entries144 = [
    bse 144010000 modeCWU 6,
    bse 144200000 modeUSB 5,
    bse 144250000 modeUSB 5,
    bse 145600000 modeFMN 0,
    bse 145725000 modeFMN 0,
    bse 145900000 modeFMN 0]"

definition bandstack_entries220 :: "bandstack_entry list" where
  "bandstack_entries220 = [
    bse 220010000 modeCWU 6,
    bse 220200000 modeUSB 5,
    bse 220250000 modeUSB 5]"

definition bandstack_entries430 :: "bandstack_entry list" where
  "bandstack_entries430 = [
    bse 430010000 modeCWU 6,
    bse 432100000 modeUSB 5,
    bse 432300000 modeUSB 5]"

definition bandstack_entries902 :: "bandstack_entry list" where
  "bandstack_entries902 = [
    bse 902010000 modeCWU 6,
    bse 902100000 modeUSB 5,
    bse 902300000 modeUSB 5]"

definition bandstack_entries1240 :: "bandstack_entry list" where
  "bandstack_entries1240 = [
    bse 1240010000 modeCWU 6,
    bse 1240100000 modeUSB 5,
    bse 1240300000 modeUSB 5]"

definition bandstack_entries2300 :: "bandstack_entry list" where
  "bandstack_entries2300 = [
    bse 2300010000 modeCWU 6,
    bse 2300100000 modeUSB 5,
    bse 2300300000 modeUSB 5]"

definition bandstack_entries3400 :: "bandstack_entry list" where
  "bandstack_entries3400 = [
    bse 3400010000 modeCWU 6,
    bse 3400100000 modeUSB 5,
    bse 3400300000 modeUSB 5]"

definition bandstack_entriesAIR :: "bandstack_entry list" where
  "bandstack_entriesAIR = [
    bse 118800000 modeAM 3,
    bse 120000000 modeAM 3,
    bse 121700000 modeAM 3,
    bse 124100000 modeAM 3,
    bse 126600000 modeAM 3,
    bse 136500000 modeAM 3]"

definition bandstack_entriesGEN :: "bandstack_entry list" where
  "bandstack_entriesGEN = [
    bse 909000 modeAM 3,
    bse 5975000 modeAM 3,
    bse 13845000 modeAM 3]"

definition bandstack_entriesWWV :: "bandstack_entry list" where
  "bandstack_entriesWWV = [
    bse 2500000 modeSAM 3,
    bse 5000000 modeSAM 3,
    bse 10000000 modeSAM 3,
    bse 15000000 modeSAM 3,
    bse 20000000 modeSAM 3,
    bse 25000000 modeSAM 3]"

text \<open>The ten transverter arrays have equal contents.\<close>

definition bandstack_entries_xvtr :: "bandstack_entry list" where
  "bandstack_entries_xvtr = [
    bse 0 modeUSB 6,
    bse 0 modeUSB 6,
    bse 0 modeUSB 6]"

definition band_channels_60m_UK :: "channel list" where
  "band_channels_60m_UK = [
    \<lparr>ch_frequency = 5261250, ch_width = 5500\<rparr>,
    \<lparr>ch_frequency = 5280000, ch_width = 8000\<rparr>,
    \<lparr>ch_frequency = 5290250, ch_width = 3500\<rparr>,
    \<lparr>ch_frequency = 5302500, ch_width = 9000\<rparr>,
    \<lparr>ch_frequency = 5318000, ch_width = 10000\<rparr>,
    \<lparr>ch_frequency = 5335500, ch_width = 5000\<rparr>,
    \<lparr>ch_frequency = 5356000, ch_width = 4000\<rparr>,
    \<lparr>ch_frequency = 5368250, ch_width = 12500\<rparr>,
    \<lparr>ch_frequency = 5380000, ch_width = 4000\<rparr>,
    \<lparr>ch_frequency = 5398250, ch_width = 6500\<rparr>,
    \<lparr>ch_frequency = 5405000, ch_width = 3000\<rparr>]"

definition band_channels_60m_WRC15 :: "channel list" where
  "band_channels_60m_WRC15 = [
    \<lparr>ch_frequency = 5359000, ch_width = 15000\<rparr>]"

definition band_channels_60m_OTHER :: "channel list" where
  "band_channels_60m_OTHER = [
    \<lparr>ch_frequency = 5332000, ch_width = 2800\<rparr>,
    \<lparr>ch_frequency = 5348000, ch_width = 2800\<rparr>,
    \<lparr>ch_frequency = 5359000, ch_width = 15000\<rparr>,
    \<lparr>ch_frequency = 5373000, ch_width = 2800\<rparr>,
    \<lparr>ch_frequency = 5405000, ch_width = 2800\<rparr>]"

text \<open>The static arrays by name.\<close>

definition init_stacks :: "stack_name \<Rightarrow> bandstack_entry list" where
  "init_stacks n = (case n of
     Stack60_UK \<Rightarrow> bandstack_entries60_UK
   | Stack60_OTHER \<Rightarrow> bandstack_entries60_OTHER
   | Stack60_WRC15 \<Rightarrow> bandstack_entries60_WRC15
   | StackOf b \<Rightarrow>
      (if b = 0 then bandstack_entries136
       else if b = 1 then bandstack_entries472
       else if b = 2 then bandstack_entries160
       else if b = 3 then bandstack_entries80
       else if b = 5 then bandstack_entries40
       else if b = 6 then bandstack_entries30
       else if b = 7 then bandstack_entries20
       else if b = 8 then bandstack_entries17
       else if b = 9 then bandstack_entries15
       else if b = 10 then bandstack_entries12
       else if b = 11 then bandstack_entries10
       else if b = 12 then bandstack_entries6
       else if b = 13 then bandstack_entries70
       else if b = 14 then bandstack_entries144
       else if b = 15 then bandstack_entries220
       else if b = 16 then bandstack_entries430
       else if b = 17 then bandstack_entries902
       else if b = 18 then bandstack_entries1240
       else if b = 19 then bandstack_entries2300
       else if b = 20 then bandstack_entries3400
       else if b = 21 then bandstack_entriesAIR
       else if b = 22 then bandstack_entriesWWV
       else if b = 23 then bandstack_entriesGEN
       else bandstack_entries_xvtr))"

definition band_row :: "string \<Rightarrow> nat \<Rightarrow> nat \<Rightarrow> stack_name \<Rightarrow> int \<Rightarrow> int \<Rightarrow> bool \<Rightarrow> band" where
  "band_row title n cur stk fmin fmax nopa = \<lparr>b_title = title,
     b_stack = \<lparr>bs_entries = n, bs_current = cur, bs_entry = stk\<rparr>,
     OCrx = 0, OCtx = 0, gaincalib = 0, RxAntenna = 0, TxAntenna = 0, pa_calibration = 53,
     frequencyMin = fmin, frequencyMax = fmax, frequencyLO = 0, errorLO = 0, disablePA = nopa,
     b_RFgain = 0, b_AGCgain = 80, b_preamp = 0, b_dither = 0, b_attenuation = 0,
     b_alexAttenuation = 0, b_panlow = - 140, b_panhigh = - 40, b_panstep = 20\<rparr>"

definition init_bands :: "band list" where
  "init_bands = [
    band_row ''136kHz'' 2 0 (StackOf 0) 135700 137800 False,
    band_row ''472kHz'' 2 0 (StackOf 1) 472000 479000 False,
    band_row ''160'' 3 1 (StackOf 2) 1800000 2000000 False,
    band_row ''80'' 3 1 (StackOf 3) 3500000 4000000 False,
    band_row ''60'' 5 1 Stack60_OTHER 5250000 5450000 False,
    band_row ''40'' 3 1 (StackOf 5) 7000000 7300000 False,
    band_row ''30'' 3 1 (StackOf 6) 10100000 10150000 False,
    band_row ''20'' 4 1 (StackOf 7) 14000000 14350000 False,
    band_row ''17'' 3 1 (StackOf 8) 18068000 18168000 False,
    band_row ''15'' 3 1 (StackOf 9) 21000000 21450000 False,
    band_row ''12'' 3 1 (StackOf 10) 24890000 24990000 False,
    band_row ''10'' 3 1 (StackOf 11) 28000000 29700000 False,
    band_row ''6'' 3 1 (StackOf 12) 50000000 54000000 False,
    band_row ''4'' 3 1 (StackOf 13) 70000000 70500000 False,
    band_row ''144'' 6 1 (StackOf 14) 144000000 148000000 False,
    band_row ''220'' 3 1 (StackOf 15) 220000000 224980000 False,
    band_row ''430'' 3 1 (StackOf 16) 420000000 450000000 False,
    band_row ''902'' 3 1 (StackOf 17) 902000000 928000000 False,
    band_row ''1240'' 3 1 (StackOf 18) 1240000000 1300000000 False,
    band_row ''2300'' 3 1 (StackOf 19) 2300000000 2450000000 False,
    band_row ''3400'' 3 1 (StackOf 20) 3400000000 3410000000 False,
    band_row ''AIR'' 6 1 (StackOf 21) 108000000 137000000 False,
    band_row ''WWV'' 6 1 (StackOf 22) 0 0 False,
    band_row ''GEN'' 3 1 (StackOf 23) 0 0 False,
    band_row '''' 3 0 (StackOf 24) 0 0 True,
    band_row '''' 3 0 (StackOf 25) 0 0 True,
    band_row '''' 3 0 (StackOf 26) 0 0 True,
    band_row '''' 3 0 (StackOf 27) 0 0 True,
    band_row '''' 3 0 (StackOf 28) 0 0 True,
    band_row '''' 3 0 (StackOf 29) 0 0 True,
    band_row '''' 3 0 (StackOf 30) 0 0 True,
    band_row '''' 3 0 (StackOf 31) 0 0 True,
    band_row '''' 3 0 (StackOf 32) 0 0 True,
    band_row '''' 3 0 (StackOf 33) 0 0 True]"

end
