(* ===== verification/Bands.thy ===== *)
theory Bands
  imports Band_Tables
begin

text \<open>
  The band component (\<^verbatim>\<open>src/src/band.c\<close>): the region of the 60m band, the map
  from frequencies to bands, and the check that stops transmissions outside a band. The
  lemmas give the well-formedness of the band stacks, the exact meaning of both functions
  and, for the built-in table, that the amateur bands do not overlap, so that the search
  order does not matter.
\<close>

subsection \<open>Band stacks and regions\<close>

definition bandstack_get_bandstack :: "nat \<Rightarrow> radio_state \<Rightarrow> bandstack" where
  "bandstack_get_bandstack b r = b_stack (bands r ! b)"

definition upd_bandstack :: "nat \<Rightarrow> (bandstack \<Rightarrow> bandstack) \<Rightarrow> radio_state \<Rightarrow> radio_state" where
  "upd_bandstack b f = upd_band b (\<lambda>bd. bd\<lparr>b_stack := f (b_stack bd)\<rparr>)"

text \<open>\<open>bandstack->entry[i]\<close>, through the array the band stack points to.\<close>

definition stack_entry :: "nat \<Rightarrow> nat \<Rightarrow> radio_state \<Rightarrow> bandstack_entry" where
  "stack_entry b i r = stacks r (bs_entry (bandstack_get_bandstack b r)) ! i"

definition radio_change_region :: "region \<Rightarrow> radio_state \<Rightarrow> radio_state" where
  "radio_change_region reg r = (let r = r\<lparr>region := reg\<rparr> in
     case reg of
       REGION_UK \<Rightarrow> upd_bandstack band60
         (\<lambda>s. s\<lparr>bs_entries := 11, bs_current := 0, bs_entry := Stack60_UK\<rparr>)
         (r\<lparr>channels_60m := band_channels_60m_UK\<rparr>)
     | REGION_OTHER \<Rightarrow> upd_bandstack band60
         (\<lambda>s. s\<lparr>bs_entries := 5, bs_current := 0, bs_entry := Stack60_OTHER\<rparr>)
         (r\<lparr>channels_60m := band_channels_60m_OTHER\<rparr>)
     | REGION_WRC15 \<Rightarrow> upd_bandstack band60
         (\<lambda>s. s\<lparr>bs_entries := 1, bs_current := 0, bs_entry := Stack60_WRC15\<rparr>)
         (r\<lparr>channels_60m := band_channels_60m_WRC15\<rparr>))"

text \<open>
  What keeps every access to a band stack inside its array: the number of entries never
  exceeds the array, and the current entry is one of them.
\<close>

definition stack_ok :: "radio_state \<Rightarrow> bandstack \<Rightarrow> bool" where
  "stack_ok r s \<longleftrightarrow> bs_current s < bs_entries s \<and> bs_entries s \<le> length (stacks r (bs_entry s))"

definition bands_ok :: "radio_state \<Rightarrow> bool" where
  "bands_ok r \<longleftrightarrow> length (bands r) = BANDS + XVTRS
     \<and> (\<forall>b < BANDS + XVTRS. stack_ok r (bandstack_get_bandstack b r))
     \<and> length (stacks r Stack60_UK) = 11 \<and> length (stacks r Stack60_OTHER) = 5
     \<and> length (stacks r Stack60_WRC15) = 3"

lemma length_init_bands [simp]: "length init_bands = 34"
  by (simp add: init_bands_def)

lemmas stack_tables = bandstack_entries136_def bandstack_entries472_def bandstack_entries160_def
  bandstack_entries80_def bandstack_entries60_WRC15_def bandstack_entries60_OTHER_def
  bandstack_entries60_UK_def bandstack_entries40_def bandstack_entries30_def
  bandstack_entries20_def bandstack_entries17_def bandstack_entries15_def
  bandstack_entries12_def bandstack_entries10_def bandstack_entries6_def
  bandstack_entries70_def bandstack_entries144_def bandstack_entries220_def
  bandstack_entries430_def bandstack_entries902_def bandstack_entries1240_def
  bandstack_entries2300_def bandstack_entries3400_def bandstack_entriesAIR_def
  bandstack_entriesGEN_def bandstack_entriesWWV_def bandstack_entries_xvtr_def

lemma b_stack_row [simp]:
  "b_stack (band_row t n c s lo hi d) = \<lparr>bs_entries = n, bs_current = c, bs_entry = s\<rparr>"
  by (simp add: band_row_def)

lemma init_stacks_ok:
  "list_all (\<lambda>bd. bs_current (b_stack bd) < bs_entries (b_stack bd)
     \<and> bs_entries (b_stack bd) = length (init_stacks (bs_entry (b_stack bd)))) init_bands"
  by (simp add: init_bands_def init_stacks_def stack_tables)

lemma bands_ok_init:
  assumes "bands r = init_bands" and "stacks r = init_stacks"
  shows "bands_ok r"
proof -
  have "stack_ok r (b_stack (init_bands ! b))" if "b < 34" for b
    using init_stacks_ok that assms(2) by (auto simp: list_all_length stack_ok_def)
  moreover have "length (init_stacks Stack60_UK) = 11 \<and> length (init_stacks Stack60_OTHER) = 5
      \<and> length (init_stacks Stack60_WRC15) = 3"
    by (simp add: init_stacks_def stack_tables)
  ultimately show ?thesis
    using assms by (simp add: bands_ok_def bandstack_get_bandstack_def)
qed

lemma bands_upd_bandstack:
  "b < length (bands r) \<Longrightarrow> bandstack_get_bandstack c (upd_bandstack b f r) =
     (if c = b then f (bandstack_get_bandstack b r) else bandstack_get_bandstack c r)"
  by (simp add: bandstack_get_bandstack_def upd_bandstack_def upd_band_def nth_list_update)

lemma stacks_upd_bandstack [simp]: "stacks (upd_bandstack b f r) = stacks r"
  and length_bands_upd_bandstack [simp]: "length (bands (upd_bandstack b f r)) = length (bands r)"
  and vfo_upd_bandstack [simp]: "vfo (upd_bandstack b f r) = vfo r"
  by (simp_all add: upd_bandstack_def upd_band_def)

lemma bandstack_region [simp]:
  "bandstack_get_bandstack b (r\<lparr>region := reg\<rparr>) = bandstack_get_bandstack b r"
  "bandstack_get_bandstack b (r\<lparr>channels_60m := c\<rparr>) = bandstack_get_bandstack b r"
  by (simp_all add: bandstack_get_bandstack_def)

lemma change_region_ok:
  assumes "bands_ok r"
  shows "bands_ok (radio_change_region reg r)"
  using assms
  by (cases reg)
    (auto simp: bands_ok_def radio_change_region_def Let_def bands_upd_bandstack stack_ok_def)

subsection \<open>Finding the band of a frequency\<close>

definition in_band :: "int \<Rightarrow> band \<Rightarrow> bool" where
  "in_band f bd \<longleftrightarrow> b_title bd \<noteq> [] \<and> frequencyMin bd \<le> f \<and> f \<le> frequencyMax bd"

text \<open>One of the two \<open>for\<close> loops: the first band in the index range that matches.\<close>

definition search_bands :: "int \<Rightarrow> nat \<Rightarrow> nat \<Rightarrow> radio_state \<Rightarrow> nat option" where
  "search_bands f lo hi r = find (\<lambda>b. in_band f (bands r ! b)) [lo..<hi]"

definition near_wwv :: "int \<Rightarrow> bool" where
  "near_wwv f \<longleftrightarrow> \<bar>f - 2500000\<bar> \<le> 1000 \<or> \<bar>f - 5000000\<bar> \<le> 1000 \<or> \<bar>f - 10000000\<bar> \<le> 1000
     \<or> \<bar>f - 15000000\<bar> \<le> 1000 \<or> \<bar>f - 20000000\<bar> \<le> 1000 \<or> \<bar>f - 25000000\<bar> \<le> 1000"

definition get_band_from_frequency :: "int \<Rightarrow> radio_state \<Rightarrow> nat" where
  "get_band_from_frequency f r = (
     let found = (if radio_fmin r \<le> of_int f \<and> of_int f \<le> radio_fmax r
                  then search_bands f 0 BANDS r else None);
         found = (case search_bands f BANDS (BANDS + XVTRS) r of Some b \<Rightarrow> Some b | None \<Rightarrow> found)
     in case found of
          Some b \<Rightarrow> b
        | None \<Rightarrow> if near_wwv f then bandWWV else bandGen)"

lemma search_bands_Some:
  "search_bands f m n r = Some b \<longleftrightarrow>
     m \<le> b \<and> b < n \<and> in_band f (bands r ! b) \<and> (\<forall>c. m \<le> c \<and> c < b \<longrightarrow> \<not> in_band f (bands r ! c))"
proof -
  have "(\<exists>i < n - m. in_band f (bands r ! (m + i)) \<and> b = m + i
          \<and> (\<forall>j < i. \<not> in_band f (bands r ! (m + j)))) \<longleftrightarrow>
        m \<le> b \<and> b < n \<and> in_band f (bands r ! b) \<and> (\<forall>c. m \<le> c \<and> c < b \<longrightarrow> \<not> in_band f (bands r ! c))"
    (is "?L = ?R")
  proof
    assume ?L then show ?R by (auto dest: le_Suc_ex)
  next
    assume ?R
    then show ?L by (intro exI [of _ "b - m"]) auto
  qed
  then show ?thesis
    unfolding search_bands_def find_Some_iff by auto
qed

lemma search_bands_None:
  "search_bands f m n r = None \<longleftrightarrow> (\<forall>b. m \<le> b \<and> b < n \<longrightarrow> \<not> in_band f (bands r ! b))"
  by (auto simp: search_bands_def find_None_iff)

lemma get_band_lt: "get_band_from_frequency f r < BANDS + XVTRS"
proof -
  have lt: "b < 34" if "search_bands f m n r = Some b" "n \<le> 34" for m n b
    using that by (simp add: search_bands_Some)
  show ?thesis
    unfolding get_band_from_frequency_def Let_def
    using lt [of 0 BANDS] lt [of BANDS "BANDS + XVTRS"]
    by (auto split: option.splits)
qed

lemma get_band_cong: "bands r' = bands r \<Longrightarrow> radio_fmin r' = radio_fmin r \<Longrightarrow>
    radio_fmax r' = radio_fmax r \<Longrightarrow> get_band_from_frequency f r' = get_band_from_frequency f r"
  by (simp add: get_band_from_frequency_def search_bands_def)

text \<open>The contract of the search, as the comments of the source state it.\<close>

lemma get_band_spec:
  "case get_band_from_frequency f r of b \<Rightarrow>
     in_band f (bands r ! b) \<and> (b < BANDS \<longrightarrow> radio_fmin r \<le> of_int f \<and> of_int f \<le> radio_fmax r)
   \<or> (\<forall>c. BANDS \<le> c \<and> c < BANDS + XVTRS \<longrightarrow> \<not> in_band f (bands r ! c))
     \<and> b = (if near_wwv f then bandWWV else bandGen)"
  by (auto simp: get_band_from_frequency_def search_bands_Some search_bands_None Let_def
      split: option.splits if_splits)

lemma get_band_xvtr:
  assumes "BANDS \<le> c" and "c < BANDS + XVTRS" and "in_band f (bands r ! c)"
  shows "BANDS \<le> get_band_from_frequency f r"
proof (cases "search_bands f BANDS (BANDS + XVTRS) r")
  case None
  with assms show ?thesis by (auto simp: search_bands_None)
next
  case (Some b)
  then have "get_band_from_frequency f r = b"
    unfolding get_band_from_frequency_def Let_def by (simp only: option.case)
  moreover have "BANDS \<le> b" using Some by (simp add: search_bands_Some)
  ultimately show ?thesis by simp
qed

text \<open>In the built-in table no two of the first 22 bands share a frequency.\<close>

fun disjoint_edges :: "(int \<times> int) list \<Rightarrow> bool" where
  "disjoint_edges [] = True"
| "disjoint_edges ((lo, hi) # xs) =
     (list_all (\<lambda>(lo', hi'). hi < lo' \<or> hi' < lo) xs \<and> disjoint_edges xs)"

lemma band_row_sel [simp]:
  "frequencyMin (band_row t n c s lo hi d) = lo"
  "frequencyMax (band_row t n c s lo hi d) = hi"
  "b_title (band_row t n c s lo hi d) = t"
  by (simp_all add: band_row_def)

definition band_edges :: "band \<Rightarrow> int \<times> int" where
  "band_edges bd = (frequencyMin bd, frequencyMax bd)"

lemma disjoint_edgesD:
  "disjoint_edges (map band_edges xs) \<Longrightarrow> i < length xs \<Longrightarrow> j < length xs \<Longrightarrow>
   in_band f (xs ! i) \<Longrightarrow> in_band f (xs ! j) \<Longrightarrow> i = j"
proof (induction xs arbitrary: i j)
  case Nil
  then show ?case by simp
next
  case (Cons x xs)
  have out: False if "in_band f x" "in_band f (xs ! k)" "k < length xs" for k
    using Cons.prems(1) that by (force simp: list_all_length in_band_def band_edges_def)
  show ?case
    using Cons out by (cases i; cases j) (auto simp: band_edges_def)
qed

lemma init_band_edges:
  "map band_edges (take 23 init_bands) =
    [(135700, 137800), (472000, 479000), (1800000, 2000000), (3500000, 4000000), (5250000, 5450000),
     (7000000, 7300000), (10100000, 10150000), (14000000, 14350000), (18068000, 18168000),
     (21000000, 21450000), (24890000, 24990000), (28000000, 29700000), (50000000, 54000000),
     (70000000, 70500000), (144000000, 148000000), (220000000, 224980000), (420000000, 450000000),
     (902000000, 928000000), (1240000000, 1300000000), (2300000000, 2450000000),
     (3400000000, 3410000000), (108000000, 137000000), (0, 0)]"
  by (simp add: init_bands_def band_edges_def)

lemma init_bands_disjoint: "disjoint_edges (map band_edges (take 23 init_bands))"
  unfolding init_band_edges by simp

lemma init_xvtr_unassigned: "BANDS \<le> c \<Longrightarrow> c < BANDS + XVTRS \<Longrightarrow> b_title (init_bands ! c) = []"
proof -
  have "list_all (\<lambda>bd. b_title bd = []) (drop BANDS init_bands)"
    by (simp add: init_bands_def)
  then show "BANDS \<le> c \<Longrightarrow> c < BANDS + XVTRS \<Longrightarrow> ?thesis"
    by (auto simp: list_all_length dest: spec [of _ "c - BANDS"])
qed

lemma get_band_init:
  assumes "bands r = init_bands" and "b < bandGen" and "in_band f (init_bands ! b)"
    and "radio_fmin r \<le> of_int f" and "of_int f \<le> radio_fmax r"
  shows "get_band_from_frequency f r = b"
proof -
  have uniq: "c = b" if "c < bandGen" "in_band f (init_bands ! c)" for c
    using disjoint_edgesD [OF init_bands_disjoint, of c b f] that assms by simp
  have "search_bands f 0 BANDS r = Some b"
    unfolding search_bands_Some assms(1)
  proof (intro conjI allI impI)
    show "0 \<le> b" "b < BANDS" "in_band f (init_bands ! b)" using assms(2,3) by simp_all
    show "\<not> in_band f (init_bands ! c)" if "0 \<le> c \<and> c < b" for c
      using uniq [of c] that assms(2) by auto
  qed
  moreover have "search_bands f BANDS (BANDS + XVTRS) r = None"
    using assms(1) by (auto simp: search_bands_None in_band_def init_xvtr_unassigned)
  ultimately show ?thesis
    using assms by (simp add: get_band_from_frequency_def)
qed

subsection \<open>Whether transmitting is allowed\<close>

text \<open>The edges \<open>flow\<close> and \<open>fhigh\<close> of the transmitted signal.\<close>

definition tx_edges :: "transmitter \<Rightarrow> radio_state \<Rightarrow> int \<times> int" where
  "tx_edges tx r = (let txfreq = vfo_get_tx_freq r in
     case vfo_get_tx_mode r of
       modeCWU \<Rightarrow> (txfreq, txfreq)
     | modeCWL \<Rightarrow> (txfreq, txfreq)
     | _ \<Rightarrow> (txfreq + tx_filter_low tx, txfreq + tx_filter_high tx))"

definition in_channel :: "int \<Rightarrow> int \<Rightarrow> channel \<Rightarrow> bool" where
  "in_channel flow fhigh ch \<longleftrightarrow> ch_frequency ch - c_div (ch_width ch) 2 \<le> flow
     \<and> fhigh \<le> ch_frequency ch + c_div (ch_width ch) 2"

definition TransmitAllowed :: "radio_state \<Rightarrow> bool" where
  "TransmitAllowed r = (case transmitter r of
     None \<Rightarrow> False
   | Some tx \<Rightarrow>
     if tx_out_of_band_allowed r then True else
     let txb = v_band (vfo r (vfo_get_tx_vfo r)) in
     if txb = bandGen \<or> txb = bandWWV \<or> txb = bandAIR then False else
     let txband = band_get_band txb r; (flow, fhigh) = tx_edges tx r in
     if txb = band60 then list_ex (in_channel flow fhigh) (channels_60m r)
     else frequencyMin txband \<le> flow \<and> fhigh \<le> frequencyMax txband)"

lemma TransmitAllowed_iff:
  assumes "transmitter r = Some tx" and "\<not> tx_out_of_band_allowed r"
    and "txb = v_band (vfo r (vfo_get_tx_vfo r))" and "tx_edges tx r = (lo, hi)"
  shows "TransmitAllowed r \<longleftrightarrow> txb \<notin> {bandGen, bandWWV, bandAIR} \<and>
    (if txb = band60 then \<exists>ch \<in> set (channels_60m r). in_channel lo hi ch
     else frequencyMin (bands r ! txb) \<le> lo \<and> hi \<le> frequencyMax (bands r ! txb))"
  using assms by (auto simp: TransmitAllowed_def Let_def list_ex_iff band_get_band_def)

text \<open>Every 60m channel of every region lies inside the 60m band of the table.\<close>

lemma channels_in_band60:
  "ch \<in> set (channels_60m (radio_change_region reg r)) \<Longrightarrow>
   5250000 \<le> ch_frequency ch - c_div (ch_width ch) 2 \<and>
   ch_frequency ch + c_div (ch_width ch) 2 \<le> 5450000"
  by (cases reg)
    (auto simp: radio_change_region_def upd_bandstack_def upd_band_def Let_def
      band_channels_60m_UK_def band_channels_60m_OTHER_def band_channels_60m_WRC15_def)

end
