(* ===== verification/Transmitter.thy ===== *)
theory Transmitter
  imports Bands
begin

text \<open>
  The parts of the transmitter that the VFO, the bands and the packets depend on: the drive
  level (\<open>calcLevel\<close>, \<open>radio_calc_drive_level\<close> and \<open>radio_set_drive\<close> of
  \<^verbatim>\<open>src/src/radio.c\<close>) and the transmit filter (\<open>tx_set_filter\<close>,
  \<open>tx_set_mode\<close> of \<^verbatim>\<open>src/src/transmitter.c\<close>). The C \<open>double\<close> computations
  are modelled over the reals, without rounding.
\<close>

subsection \<open>Drive level\<close>

text \<open>
  \<open>log10(0)\<close> is minus infinity in C and \<open>pow\<close> then returns 0; the first case below
  writes that out, because \<open>log 10 0\<close> is 0 in HOL.
\<close>

definition actual_volts :: "real \<Rightarrow> real \<Rightarrow> real" where
  "actual_volts d gbb = (
     let target_volts = (if d = 0 then 0
            else sqrt (10 powr ((10 * log 10 (d * 1000) - gbb) * 0.1) * 0.05));
         volts = min (target_volts / 0.8) 1;
         volts = volts * (1 / 0.98)
     in if volts < 0 then 0 else if 1 < volts then 1 else volts)"

definition calcLevel :: "real \<Rightarrow> radio_state \<Rightarrow> int" where
  "calcLevel d r = c_trunc
     (actual_volts d (pa_calibration (band_get_band (v_band (vfo r (vfo_get_tx_vfo r))) r)) * 255)"

text \<open>The attenuator steps of the HermesLite-II: threshold, drive level, scale per unit.\<close>

definition hl2_steps :: "(int \<times> int \<times> real) list" where
  "hl2_steps = [
    (240, 240, 0.0039215), (227, 224, 0.0041539), (214, 208, 0.0044000), (202, 192, 0.0046607),
    (191, 176, 0.0049369), (180, 160, 0.0052295), (170, 144, 0.0055393), (160, 128, 0.0058675),
    (151, 112, 0.0062152), (143, 96, 0.0065835), (135, 80, 0.0069736), (127, 64, 0.0073868),
    (120, 48, 0.0078245), (113, 32, 0.0082881), (107, 16, 0.0087793)]"

fun hl2_drive_in :: "(int \<times> int \<times> real) list \<Rightarrow> int \<Rightarrow> int \<times> real" where
  "hl2_drive_in [] level = (0, of_int level * 0.0092995)"
| "hl2_drive_in ((thr, lev, sc) # steps) level =
     (if thr < level then (lev, of_int level * sc) else hl2_drive_in steps level)"

definition hl2_drive :: "int \<Rightarrow> int \<times> real" where
  "hl2_drive = hl2_drive_in hl2_steps"

definition drive_settings :: "int \<Rightarrow> radio_state \<Rightarrow> transmitter \<Rightarrow> transmitter" where
  "drive_settings level r tx = (
     let tx = tx\<lparr>tx_do_scale := False, tx_drive_level := level\<rparr>;
         tx = (if device r \<in> {NEW_DEVICE_ATLAS, DEVICE_OZY, DEVICE_METIS} \<and> atlas_penelope r
               then let sc = of_int level * 0.0039215 in
                    tx\<lparr>tx_drive_scale := sc, tx_drive_level := 255, tx_drive_iscal := 0.9999 / sc,
                       tx_do_scale := True\<rparr>
               else tx)
     in if device r = DEVICE_HERMES_LITE2 \<or> device r = NEW_DEVICE_HERMES_LITE2
        then let (lev, sc) = hl2_drive level in
             tx\<lparr>tx_drive_level := lev, tx_drive_scale := sc, tx_drive_iscal := 0.9999 / sc,
                tx_do_scale := True\<rparr>
        else tx)"

definition radio_calc_drive_level :: "radio_state \<Rightarrow> radio_state" where
  "radio_calc_drive_level r = (case transmitter r of
     None \<Rightarrow> r
   | Some tx \<Rightarrow>
     let level = (if tx_tune tx \<and> \<not> tx_tune_use_drive tx then calcLevel (tx_tune_drive tx) r
                  else calcLevel (tx_drive tx) r)
     in schedule_high_priority (upd_tx (drive_settings level r) r))"

definition radio_set_drive :: "real \<Rightarrow> radio_state \<Rightarrow> radio_state" where
  "radio_set_drive v r = (case transmitter r of
     None \<Rightarrow> r
   | Some tx \<Rightarrow>
     let value = (if vfo_get_tx_mode r \<in> {modeDIGU, modeDIGL} \<and> drive_digi_max r < v
                  then drive_digi_max r else v);
         r = emit Slider (upd_tx (\<lambda>t. t\<lparr>tx_drive := value\<rparr>) r)
     in if is_remote r then emit (Setting (Send_drive value)) r
        else if protocol r \<in> {ORIGINAL_PROTOCOL, NEW_PROTOCOL} then radio_calc_drive_level r
        else r)"

lemma clamp_unit:
  "0 \<le> (if v < 0 then 0 else if 1 < v then 1 else v :: real)"
  "(if v < 0 then 0 else if 1 < v then 1 else v :: real) \<le> 1"
  by auto

lemma actual_volts_bounds: "0 \<le> actual_volts d g" "actual_volts d g \<le> 1"
  unfolding actual_volts_def Let_def by (rule clamp_unit)+

lemma c_trunc_scaled: "0 \<le> a \<Longrightarrow> a \<le> 1 \<Longrightarrow> 0 \<le> c_trunc (a * 255) \<and> c_trunc (a * 255) \<le> 255"
  by (simp add: c_trunc_def floor_le_iff)

lemma calcLevel_bounds: "0 \<le> calcLevel d r \<and> calcLevel d r \<le> 255"
  unfolding calcLevel_def by (intro c_trunc_scaled actual_volts_bounds)

text \<open>More requested power never gives a lower level.\<close>

lemma actual_volts_mono:
  assumes "0 \<le> d" and "d \<le> e"
  shows "actual_volts d g \<le> actual_volts e g"
proof (cases "d = 0")
  case True
  then have "actual_volts d g = 0" by (simp add: actual_volts_def)
  then show ?thesis using actual_volts_bounds(1) [of e g] by simp
next
  case False
  with assms have d: "0 < d" "0 < e" "e \<noteq> 0" by auto
  have "log 10 (d * 1000) \<le> log 10 (e * 1000)"
    using d assms(2) by simp
  then have "10 powr ((10 * log 10 (d * 1000) - g) * 0.1) \<le> 10 powr ((10 * log 10 (e * 1000) - g) * 0.1)"
    by (intro powr_mono) auto
  then have "sqrt (10 powr ((10 * log 10 (d * 1000) - g) * 0.1) * 0.05)
      \<le> sqrt (10 powr ((10 * log 10 (e * 1000) - g) * 0.1) * 0.05)" (is "?a \<le> ?b")
    by simp
  then have "min (?a / 0.8) 1 * (1 / 0.98) \<le> min (?b / 0.8) 1 * (1 / 0.98)"
    by (intro mult_right_mono min.mono divide_right_mono) auto
  then show ?thesis
    using False d(3) unfolding actual_volts_def Let_def by auto
qed

lemma calcLevel_mono: "0 \<le> d \<Longrightarrow> d \<le> e \<Longrightarrow> calcLevel d r \<le> calcLevel e r"
  using actual_volts_mono [of d e] actual_volts_bounds(1)
  by (auto simp: calcLevel_def c_trunc_def intro!: floor_mono)

text \<open>\<open>tx_set_filter\<close>: the edges of the transmit filter in IQ space.\<close>

definition profiles_copy_rxtxprofile :: "mode \<Rightarrow> radio_state \<Rightarrow> radio_state" where
  "profiles_copy_rxtxprofile m r = (
     let p = RXTXprofile r; x = p m in
     if m = modeCWU \<or> m = modeCWL then r\<lparr>RXTXprofile := p(modeCWU := x, modeCWL := x)\<rparr>
     else if m = modeDIGU \<or> m = modeDIGL then r\<lparr>RXTXprofile := p(modeDIGU := x, modeDIGL := x)\<rparr>
     else if m = modeLSB \<or> m = modeUSB \<or> m = modeDSB
       then r\<lparr>RXTXprofile := p(modeLSB := x, modeUSB := x, modeDSB := x)\<rparr>
     else r)"

definition rx_filter_part :: "mode \<Rightarrow> filter \<Rightarrow> int \<times> int \<Rightarrow> int \<times> int" where
  "rx_filter_part rxmode f = (\<lambda>(low, high).
     if rxmode \<in> {modeDSB, modeAM, modeSAM, modeSPEC} then (low, f_high f)
     else if rxmode \<in> {modeLSB, modeDIGL} then (- f_high f, - f_low f)
     else if rxmode \<in> {modeUSB, modeDIGU} then (f_low f, f_high f)
     else (low, high))"

definition tx_filter_edges :: "mode \<Rightarrow> int \<times> int \<Rightarrow> int \<times> int" where
  "tx_filter_edges txmode = (\<lambda>(low, high). case txmode of
       modeCWL \<Rightarrow> (- 150, 150) | modeCWU \<Rightarrow> (- 150, 150)
     | modeDSB \<Rightarrow> (- high, high) | modeAM \<Rightarrow> (- high, high)
     | modeSAM \<Rightarrow> (- high, high) | modeSPEC \<Rightarrow> (- high, high)
     | modeFMN \<Rightarrow> (- 3000, 3000)
     | modeLSB \<Rightarrow> (- high, - low) | modeDIGL \<Rightarrow> (- high, - low)
     | modeUSB \<Rightarrow> (low, high) | modeDIGU \<Rightarrow> (low, high)
     | modeDRM \<Rightarrow> (7000, 17000))"

definition tx_set_filter :: "radio_state \<Rightarrow> radio_state" where
  "tx_set_filter r = (case transmitter r of
     None \<Rightarrow> r
   | Some tx \<Rightarrow>
     if is_remote r then emit (Setting Send_txfilter) r else
     let txmode = vfo_get_tx_mode r;
         p = (RXTXprofile r txmode)\<lparr>p_use_rx_filter := tx_use_rx_filter tx,
               p_default_filter_low := tx_default_filter_low tx,
               p_default_filter_high := tx_default_filter_high tx\<rparr>;
         r = profiles_copy_rxtxprofile txmode (r\<lparr>RXTXprofile := (RXTXprofile r)(txmode := p)\<rparr>);
         rxvfo = vfo r (active_id r);
         edges = (tx_default_filter_low tx, tx_default_filter_high tx);
         edges = (if tx_use_rx_filter tx
                  then rx_filter_part (v_mode rxvfo) (filters r (v_mode rxvfo) ! v_filter rxvfo) edges
                  else edges);
         (lo, hi) = tx_filter_edges txmode edges;
         dev = v_deviation (vfo r (vfo_get_tx_vfo r));
         r = upd_tx (\<lambda>t. t\<lparr>tx_deviation := dev, tx_filter_low := lo, tx_filter_high := hi\<rparr>) r
     in emit (Dsp (Tx_set_deviation dev)) (emit (Dsp (Tx_set_bandpass lo hi)) r))"

definition tx_set_mode :: "mode \<Rightarrow> radio_state \<Rightarrow> radio_state" where
  "tx_set_mode m r = (case transmitter r of
     None \<Rightarrow> r
   | Some tx \<Rightarrow>
     let r = (if m \<in> {modeDIGU, modeDIGL} \<and> drive_digi_max r + 0.5 < tx_drive tx
              then radio_set_drive (drive_digi_max r) r else r)
     in tx_set_filter (emit (Dsp (Tx_set_mode m)) r))"

text \<open>
  The hardware attenuation and the sample scale that \<open>hl2_drive\<close> picks: the scale never
  exceeds 1 (the samples cannot overflow), it is at least 0.94 above level 107, and level and
  hardware step come from the table.
\<close>

lemma hl2_drive_scale:
  assumes "0 \<le> level" and "level \<le> 255" and "hl2_drive level = (lev, sc)"
  shows "0 \<le> sc \<and> sc \<le> 1 \<and> (107 < level \<longrightarrow> 0.94 \<le> sc)"
    and "0 \<le> lev \<and> lev \<le> 240 \<and> lev mod 16 = 0"
proof -
  have "real_of_int level \<le> real_of_int 255" "0 \<le> real_of_int level"
    using assms(1,2) by linarith+
  with assms show "0 \<le> sc \<and> sc \<le> 1 \<and> (107 < level \<longrightarrow> 0.94 \<le> sc)"
    unfolding hl2_drive_def hl2_steps_def
    by (simp split: if_splits; linarith)
  show "0 \<le> lev \<and> lev \<le> 240 \<and> lev mod 16 = 0"
    using assms unfolding hl2_drive_def hl2_steps_def by (auto split: if_splits)
qed

end
