(* ===== verification/Frame.thy ===== *)
theory Frame
  imports Receivers
begin

text \<open>
  Frame conditions. The operations of the receiver, the transmitter and the VFO change few of
  the fields of the state: the VFOs, the band table and its stacks, the receivers, the
  transmitter, the ADC settings, the mode profiles, the slider counter and the trace.
  \<open>static\<close> blanks these, so that \<open>static (f r) = static r\<close> says that \<open>f\<close> leaves
  everything else alone, and \<open>staticD\<close> reads off the single fields.
\<close>

definition static :: "radio_state \<Rightarrow> radio_state" where
  "static r = r\<lparr>vfo := \<lambda>_. undefined, bands := [], stacks := \<lambda>_. [], receiver := \<lambda>_. undefined,
     transmitter := map_option (\<lambda>_. undefined) (transmitter r), adc := \<lambda>_. undefined,
     RXTXprofile := \<lambda>_. undefined, suppress_popup_sliders := 0, out := []\<rparr>"

lemma staticD:
  assumes "static r' = static r"
  shows "channels_60m r' = channels_60m r" "region r' = region r" "receivers r' = receivers r"
    "active_id r' = active_id r" "filters r' = filters r" "protocol r' = protocol r"
    "device r' = device r" "filter_board r' = filter_board r" "radio_fmin r' = radio_fmin r"
    "radio_fmax r' = radio_fmax r" "is_remote r' = is_remote r" "locked r' = locked r"
    "split r' = split r" "duplex r' = duplex r" "sat_mode r' = sat_mode r"
    "tx_out_of_band_allowed r' = tx_out_of_band_allowed r" "TxInhibit r' = TxInhibit r"
    "mox r' = mox r" "vox r' = vox r" "have_rx_att r' = have_rx_att r"
    "have_rx_gain r' = have_rx_gain r" "pa_enabled r' = pa_enabled r"
    "cw_sidetone r' = cw_sidetone r" "(transmitter r' = None) = (transmitter r = None)"
    "diversity_enabled r' = diversity_enabled r" "cw_keyer_internal r' = cw_keyer_internal r"
proof -
  have f: "g (static r') = g (static r)" for g :: "radio_state \<Rightarrow> 'b"
    using assms by simp
  show "channels_60m r' = channels_60m r" "region r' = region r" "receivers r' = receivers r"
    "active_id r' = active_id r" "filters r' = filters r" "protocol r' = protocol r"
    "device r' = device r" "filter_board r' = filter_board r" "radio_fmin r' = radio_fmin r"
    "radio_fmax r' = radio_fmax r" "is_remote r' = is_remote r" "locked r' = locked r"
    "split r' = split r" "duplex r' = duplex r" "sat_mode r' = sat_mode r"
    "tx_out_of_band_allowed r' = tx_out_of_band_allowed r" "TxInhibit r' = TxInhibit r"
    "mox r' = mox r" "vox r' = vox r" "have_rx_att r' = have_rx_att r"
    "have_rx_gain r' = have_rx_gain r" "pa_enabled r' = pa_enabled r"
    "cw_sidetone r' = cw_sidetone r" "diversity_enabled r' = diversity_enabled r"
    "cw_keyer_internal r' = cw_keyer_internal r"
    using f [of channels_60m] f [of region] f [of receivers] f [of active_id] f [of filters]
      f [of protocol] f [of device] f [of filter_board] f [of radio_fmin] f [of radio_fmax]
      f [of is_remote] f [of locked] f [of split] f [of duplex] f [of sat_mode]
      f [of tx_out_of_band_allowed] f [of TxInhibit] f [of mox] f [of vox] f [of have_rx_att]
      f [of have_rx_gain] f [of pa_enabled] f [of cw_sidetone] f [of diversity_enabled]
      f [of cw_keyer_internal]
    by (simp_all add: static_def)
  show "(transmitter r' = None) = (transmitter r = None)"
    using f [of transmitter] by (cases "transmitter r'"; cases "transmitter r") (simp_all add: static_def)
qed

lemma static_writes [frame_simps]:
  "static (r\<lparr>vfo := a\<rparr>) = static r" "static (r\<lparr>bands := b\<rparr>) = static r"
  "static (r\<lparr>stacks := c\<rparr>) = static r" "static (r\<lparr>receiver := d\<rparr>) = static r"
  "static (r\<lparr>adc := e\<rparr>) = static r" "static (r\<lparr>RXTXprofile := f\<rparr>) = static r"
  "static (r\<lparr>suppress_popup_sliders := g\<rparr>) = static r" "static (r\<lparr>out := h\<rparr>) = static r"
  by (simp_all add: static_def)

lemma static_basic [frame_simps]:
  "static (emit e r) = static r" "static (upd_vfo i f r) = static r"
  "static (upd_rx i g r) = static r" "static (upd_adc i h r) = static r"
  "static (upd_tx k r) = static r" "static (upd_band b l r) = static r"
  "static (schedule p r) = static r" "static (upd_bandstack b m r) = static r"
  "static (schedule_high_priority r) = static r" "static (schedule_general r) = static r"
  "static (schedule_receive_specific r) = static r"
  "static (schedule_transmit_specific r) = static r"
  by (simp_all add: state_defs upd_bandstack_def static_def option.map_comp comp_def)

lemma static_tx [frame_simps]:
  "static (radio_calc_drive_level r) = static r"
  "static (profiles_copy_rxtxprofile m r) = static r"
  by (simp_all add: radio_calc_drive_level_def profiles_copy_rxtxprofile_def Let_def frame_simps
      split: option.split)

lemma static_drive [frame_simps]: "static (radio_set_drive v r) = static r"
  by (simp add: radio_set_drive_def Let_def frame_simps split: option.split)

lemma static_tx_filter [frame_simps]: "static (tx_set_filter r) = static r"
  by (simp add: tx_set_filter_def Let_def frame_simps split: option.split prod.split)

lemma static_tx_mode [frame_simps]: "static (tx_set_mode m r) = static r"
  by (simp add: tx_set_mode_def Let_def frame_simps split: option.split)

lemma static_rx [frame_simps]:
  "static (rx_set_offset i r) = static r" "static (rx_set_filter i r) = static r"
  by (simp_all add: rx_set_offset_def rx_set_filter_def Let_def frame_simps split: prod.split)

lemma static_rx_filter [frame_simps]: "static (rx_filter_changed i r) = static r"
  by (simp add: rx_filter_changed_def Let_def frame_simps split: option.split)

lemma static_rx_freq [frame_simps]:
  "static (rx_frequency_changed i r) = static r" "static (rx_mode_changed i r) = static r"
  by (simp_all add: rx_frequency_changed_def rx_mode_changed_def Let_def frame_simps)

lemma static_rx_vfo [frame_simps]:
  "static (rx_set_frequency i f r) = static r" "static (rx_vfo_changed i r) = static r"
  by (simp_all add: rx_set_frequency_def rx_vfo_changed_def frame_simps)

lemma static_profile [frame_simps]:
  "static (profiles_load_rx_profile i m r) = static r" "static (profiles_load_tx_profile m r) = static r"
  by (simp_all add: profiles_load_rx_profile_def profiles_load_tx_profile_def Let_def frame_simps
      split: option.split)

lemma static_rxtx_profile [frame_simps]: "static (profiles_load_rxtx_profile i r) = static r"
  by (simp add: profiles_load_rxtx_profile_def Let_def frame_simps)

lemma static_setters [frame_simps]:
  "static (store_by_band i f r) = static r" "static (radio_set_rf_gain i v r) = static r"
  "static (radio_set_attenuation i w r) = static r" "static (radio_set_agc_gain i v r) = static r"
  "static (radio_set_panhigh i w r) = static r" "static (radio_set_panlow i w r) = static r"
  "static (radio_set_panstep i w r) = static r" "static (radio_set_c25_att i w r) = static r"
  by (simp_all add: store_by_band_def radio_set_rf_gain_def radio_set_attenuation_def
      radio_set_agc_gain_def radio_set_panhigh_def radio_set_panlow_def radio_set_panstep_def
      radio_set_c25_att_def Let_def frame_simps split: prod.split)

text \<open>
  A step of a handler is a \<open>let\<close>. For any observation \<open>g\<close> of the state, the first rule
  threads \<open>g x = g r\<close> through a bound state, the second skips a binding of another
  type, the others follow the branches.
\<close>

lemma frame_letI:
  fixes e :: radio_state
  assumes "g e = g r" and "\<And>x. g x = g r \<Longrightarrow> g (f x) = g r"
  shows "g (let x = e in f x) = g r"
  using assms by simp

lemma frame_skipI:
  assumes "\<And>x. g (f x) = g r"
  shows "g (let x = e in f x) = g r"
  using assms by simp

lemma frame_ifI:
  assumes "b \<Longrightarrow> g x = g r" and "\<not> b \<Longrightarrow> g y = g r"
  shows "g (if b then x else y) = g r"
  using assms by simp

lemma frame_optionI:
  assumes "g x = g r" and "\<And>a. g (f a) = g r"
  shows "g (case z of None \<Rightarrow> x | Some a \<Rightarrow> f a) = g r"
  using assms by (cases z) simp_all

lemma frame_pairI:
  assumes "\<And>a b. g (f a b) = g r"
  shows "g (case z of (a, b) \<Rightarrow> f a b) = g r"
  using assms by (cases z) simp

lemmas static_intros = frame_letI [where g = static] frame_skipI [where g = static]
  frame_ifI [where g = static] frame_optionI [where g = static] frame_pairI [where g = static]

lemmas vfo_intros = frame_letI [where g = vfo] frame_skipI [where g = vfo]
  frame_ifI [where g = vfo] frame_optionI [where g = vfo] frame_pairI [where g = vfo]

text \<open>What the band and band stack functions read of the band table.\<close>

definition row_view :: "band \<Rightarrow> string \<times> bandstack \<times> int \<times> int \<times> int \<times> int" where
  "row_view b = (b_title b, b_stack b, frequencyMin b, frequencyMax b, frequencyLO b, errorLO b)"

definition band_view :: "radio_state \<Rightarrow> (string \<times> bandstack \<times> int \<times> int \<times> int \<times> int) list
    \<times> (stack_name \<Rightarrow> bandstack_entry list)" where
  "band_view r = (map row_view (bands r), stacks r)"

lemmas view_intros = frame_letI [where g = band_view] frame_skipI [where g = band_view]
  frame_ifI [where g = band_view] frame_optionI [where g = band_view] frame_pairI [where g = band_view]

definition filters_view :: "radio_state \<Rightarrow> nat \<Rightarrow> int \<times> int \<times> int" where
  "filters_view r i = (rx_filter_low (receiver r i), rx_filter_high (receiver r i),
     rx_sample_rate (receiver r i))"

lemmas fview_intros = frame_letI [where g = filters_view] frame_skipI [where g = filters_view]
  frame_ifI [where g = filters_view] frame_optionI [where g = filters_view]
  frame_pairI [where g = filters_view]

lemma static_band_settings [frame_simps]: "static (radio_apply_band_settings flag i r) = static r"
  unfolding radio_apply_band_settings_def
  by (intro static_intros; simp add: frame_simps)

lemma static_tx_vfo [frame_simps]: "static (radio_tx_vfo_changed r) = static r"
  unfolding radio_tx_vfo_changed_def
  by (intro static_intros; simp add: frame_simps)

subsection \<open>The VFOs\<close>

lemma vfo_tx [simp]:
  "vfo (radio_calc_drive_level r) = vfo r" "vfo (profiles_copy_rxtxprofile m r) = vfo r"
  by (simp_all add: radio_calc_drive_level_def profiles_copy_rxtxprofile_def Let_def
      schedule_high_priority_def split: option.split)

lemma vfo_packets [simp]:
  "vfo (schedule_high_priority r) = vfo r" "vfo (schedule_general r) = vfo r"
  "vfo (schedule_receive_specific r) = vfo r" "vfo (schedule_transmit_specific r) = vfo r"
  by (simp_all add: state_defs)

lemma vfo_tx_set [simp]:
  "vfo (radio_set_drive v r) = vfo r" "vfo (tx_set_filter r) = vfo r"
  unfolding radio_set_drive_def tx_set_filter_def
  by (intro vfo_intros; simp)+

lemma vfo_tx_mode [simp]: "vfo (tx_set_mode m r) = vfo r"
  unfolding tx_set_mode_def by (intro vfo_intros; simp)

lemma vfo_rx_filter [simp]:
  "vfo (rx_set_offset i r) = vfo r" "vfo (rx_set_filter i r) = vfo r"
  "vfo (rx_filter_changed i r) = vfo r" "vfo (rx_mode_changed i r) = vfo r"
proof -
  show o: "vfo (rx_set_offset i r) = vfo r" for r
    unfolding rx_set_offset_def by (intro vfo_intros; simp)
  have f: "vfo (rx_set_filter i r) = vfo r" for r
    unfolding rx_set_filter_def by (intro vfo_intros; simp)
  then show "vfo (rx_set_filter i r) = vfo r" .
  have c: "vfo (rx_filter_changed i r) = vfo r" for r
    unfolding rx_filter_changed_def by (intro vfo_intros; simp add: f)
  then show "vfo (rx_filter_changed i r) = vfo r" .
  show "vfo (rx_mode_changed i r) = vfo r"
    by (simp add: rx_mode_changed_def o c)
qed

lemma vfo_rx_freq [simp]:
  "vfo (rx_frequency_changed i r) = (vfo r)(i := new_offset (receiver r i) (vfo r i))"
  by (auto simp: rx_frequency_changed_def Let_def)

lemma vfo_rx_vfo [simp]:
  "vfo (rx_vfo_changed i r) = (vfo r)(i := new_offset (receiver r i) (vfo r i))"
  by (simp add: rx_vfo_changed_def)

definition profile_vfo :: "rxtxprofile \<Rightarrow> vfo \<Rightarrow> vfo" where
  "profile_vfo p v = v\<lparr>v_filter := p_filter p, v_cwPeak := p_cwPeak p,
     v_rit_step := p_rit_step p, v_step := p_step p\<rparr>"

lemma vfo_tx_profile [simp]: "vfo (profiles_load_tx_profile m r) = vfo r"
  unfolding profiles_load_tx_profile_def by (intro vfo_intros; simp)

lemma vfo_profile [simp]:
  "vfo (profiles_load_rxtx_profile i r) =
     (if is_remote r then vfo r
      else (vfo r)(i := profile_vfo (RXTXprofile r (v_mode (vfo r i))) (vfo r i)))"
  by (auto simp: profiles_load_rxtx_profile_def profiles_load_rx_profile_def Let_def profile_vfo_def)

lemma vfo_setters [simp]:
  "vfo (store_by_band i f r) = vfo r" "vfo (radio_set_rf_gain i v r) = vfo r"
  "vfo (radio_set_attenuation i w r) = vfo r" "vfo (radio_set_agc_gain i v r) = vfo r"
  "vfo (radio_set_panhigh i w r) = vfo r" "vfo (radio_set_panlow i w r) = vfo r"
  "vfo (radio_set_panstep i w r) = vfo r" "vfo (radio_set_c25_att i w r) = vfo r"
  by (simp_all add: store_by_band_def radio_set_rf_gain_def radio_set_attenuation_def
      radio_set_agc_gain_def radio_set_panhigh_def radio_set_panlow_def radio_set_panstep_def
      radio_set_c25_att_def Let_def split: prod.split)

lemma vfo_band_settings [simp]: "vfo (radio_apply_band_settings flag i r) = vfo r"
  unfolding radio_apply_band_settings_def by (intro vfo_intros; simp)

lemma vfo_tx_vfo_changed [simp]: "vfo (radio_tx_vfo_changed r) = vfo r"
  unfolding radio_tx_vfo_changed_def by (intro vfo_intros; simp)

subsection \<open>The band table\<close>

lemma band_view_upd_band:
  "(\<And>x. row_view (g x) = row_view x) \<Longrightarrow> band_view (upd_band b g r) = band_view r"
  by (cases "b < length (bands r)")
    (simp_all add: band_view_def upd_band_def map_update list_update_beyond,
      metis length_map list_update_id nth_map)

lemma band_view_writes [simp]:
  "band_view (r\<lparr>vfo := a\<rparr>) = band_view r" "band_view (r\<lparr>receiver := d\<rparr>) = band_view r"
  "band_view (r\<lparr>adc := e\<rparr>) = band_view r" "band_view (r\<lparr>RXTXprofile := f\<rparr>) = band_view r"
  "band_view (r\<lparr>suppress_popup_sliders := g\<rparr>) = band_view r" "band_view (r\<lparr>out := h\<rparr>) = band_view r"
  "band_view (r\<lparr>transmitter := k\<rparr>) = band_view r"
  by (simp_all add: band_view_def)

lemma band_view_basic [simp]:
  "band_view (emit e r) = band_view r" "band_view (upd_vfo i f r) = band_view r"
  "band_view (upd_rx i g r) = band_view r" "band_view (upd_adc i h r) = band_view r"
  "band_view (upd_tx k r) = band_view r"
  "band_view (schedule p r) = band_view r"
  "band_view (schedule_high_priority r) = band_view r" "band_view (schedule_general r) = band_view r"
  "band_view (schedule_receive_specific r) = band_view r"
  "band_view (schedule_transmit_specific r) = band_view r"
  by (simp_all add: state_defs)

lemma band_view_tx [simp]:
  "band_view (radio_calc_drive_level r) = band_view r"
  "band_view (profiles_copy_rxtxprofile m r) = band_view r"
  by (simp_all add: radio_calc_drive_level_def profiles_copy_rxtxprofile_def Let_def split: option.split)

lemma band_view_tx_set [simp]:
  "band_view (radio_set_drive v r) = band_view r" "band_view (tx_set_filter r) = band_view r"
  unfolding radio_set_drive_def tx_set_filter_def by (intro view_intros; simp)+

lemma band_view_tx_mode [simp]: "band_view (tx_set_mode m r) = band_view r"
  unfolding tx_set_mode_def by (intro view_intros; simp)

lemma band_view_rx_filter [simp]:
  "band_view (rx_set_offset i r) = band_view r" "band_view (rx_set_filter i r) = band_view r"
  unfolding rx_set_offset_def rx_set_filter_def by (intro view_intros; simp)+

lemma band_view_filter_changed [simp]: "band_view (rx_filter_changed i r) = band_view r"
  unfolding rx_filter_changed_def by (intro view_intros; simp)

lemma band_view_freq [simp]:
  "band_view (rx_frequency_changed i r) = band_view r" "band_view (rx_mode_changed i r) = band_view r"
  by (simp_all add: rx_frequency_changed_def rx_mode_changed_def Let_def)

lemma band_view_rx_vfo [simp]:
  "band_view (rx_set_frequency i f r) = band_view r" "band_view (rx_vfo_changed i r) = band_view r"
  by (simp_all add: rx_set_frequency_def rx_vfo_changed_def)

lemma band_view_profile [simp]:
  "band_view (profiles_load_rx_profile i m r) = band_view r"
  "band_view (profiles_load_tx_profile m r) = band_view r"
  unfolding profiles_load_rx_profile_def profiles_load_tx_profile_def
  by (intro view_intros; simp)+

lemma band_view_rxtx_profile [simp]: "band_view (profiles_load_rxtx_profile i r) = band_view r"
  unfolding profiles_load_rxtx_profile_def by (intro view_intros; simp)

lemma band_view_store:
  "(\<And>x. row_view (g x) = row_view x) \<Longrightarrow> band_view (store_by_band i g r) = band_view r"
  by (simp add: store_by_band_def band_view_upd_band)

lemma band_view_setters [simp]:
  "band_view (radio_set_rf_gain i v r) = band_view r"
  "band_view (radio_set_attenuation i w r) = band_view r" "band_view (radio_set_agc_gain i v r) = band_view r"
  "band_view (radio_set_panhigh i w r) = band_view r" "band_view (radio_set_panlow i w r) = band_view r"
  "band_view (radio_set_panstep i w r) = band_view r" "band_view (radio_set_c25_att i w r) = band_view r"
  by (simp_all add: radio_set_rf_gain_def radio_set_attenuation_def
      radio_set_agc_gain_def radio_set_panhigh_def radio_set_panlow_def radio_set_panstep_def
      radio_set_c25_att_def Let_def band_view_store row_view_def split: prod.split)

lemma band_view_band_settings [simp]: "band_view (radio_apply_band_settings flag i r) = band_view r"
  unfolding radio_apply_band_settings_def by (intro view_intros; simp)

lemma band_view_tx_vfo_changed [simp]: "band_view (radio_tx_vfo_changed r) = band_view r"
  unfolding radio_tx_vfo_changed_def by (intro view_intros; simp)

lemma band_viewD:
  assumes "band_view r' = band_view r"
  shows "stacks r' = stacks r" and "length (bands r') = length (bands r)"
    and "b < length (bands r) \<Longrightarrow> row_view (bands r' ! b) = row_view (bands r ! b)"
proof -
  have m: "map row_view (bands r') = map row_view (bands r)" and s: "stacks r' = stacks r"
    using assms by (simp_all add: band_view_def)
  show "stacks r' = stacks r" by (rule s)
  show l: "length (bands r') = length (bands r)" by (metis m length_map)
  show "row_view (bands r' ! b) = row_view (bands r ! b)" if "b < length (bands r)"
    using m l that by (metis nth_map)
qed

lemma bandstack_view:
  assumes "band_view r' = band_view r" and "b < length (bands r)"
  shows "bandstack_get_bandstack b r' = bandstack_get_bandstack b r"
  using band_viewD(3) [OF assms] by (simp add: bandstack_get_bandstack_def row_view_def)

lemma bands_ok_view:
  assumes "band_view r' = band_view r"
  shows "bands_ok r' = bands_ok r"
  using band_viewD(1,2) [OF assms] bandstack_view [OF assms]
  by (auto simp: bands_ok_def stack_ok_def)

lemma get_band_view:
  assumes "band_view r' = band_view r" and "static r' = static r" and "length (bands r) = 34"
  shows "get_band_from_frequency f r' = get_band_from_frequency f r"
proof -
  have "in_band f (bands r' ! b) = in_band f (bands r ! b)" if "b < 34" for b
    using band_viewD(3) [OF assms(1), of b] that assms(3) by (simp add: in_band_def row_view_def)
  then have s: "search_bands f m n r' = search_bands f m n r" if "n \<le> 34" for m n
    using that by (auto simp: search_bands_def intro!: find_cong)
  show ?thesis
    unfolding get_band_from_frequency_def staticD(9,10) [OF assms(2)] by (simp only: s)
qed

subsection \<open>The passband of the receivers\<close>

lemma filters_view_writes [simp]:
  "filters_view (r\<lparr>vfo := a\<rparr>) = filters_view r" "filters_view (r\<lparr>bands := d\<rparr>) = filters_view r"
  "filters_view (r\<lparr>adc := e\<rparr>) = filters_view r" "filters_view (r\<lparr>RXTXprofile := f\<rparr>) = filters_view r"
  "filters_view (r\<lparr>suppress_popup_sliders := g\<rparr>) = filters_view r"
  "filters_view (r\<lparr>out := h\<rparr>) = filters_view r" "filters_view (r\<lparr>transmitter := k\<rparr>) = filters_view r"
  by (simp_all add: filters_view_def fun_eq_iff)

lemma filters_view_upd_rx:
  "(\<And>x. rx_filter_low (g x) = rx_filter_low x \<and> rx_filter_high (g x) = rx_filter_high x
     \<and> rx_sample_rate (g x) = rx_sample_rate x) \<Longrightarrow> filters_view (upd_rx i g r) = filters_view r"
  by (simp add: filters_view_def upd_rx_def fun_eq_iff)

lemma filters_view_basic [simp]:
  "filters_view (emit e r) = filters_view r" "filters_view (upd_vfo i f r) = filters_view r"
  "filters_view (upd_band b g r) = filters_view r" "filters_view (upd_adc i h r) = filters_view r"
  "filters_view (upd_tx k r) = filters_view r" "filters_view (schedule p r) = filters_view r"
  "filters_view (schedule_high_priority r) = filters_view r"
  "filters_view (schedule_general r) = filters_view r"
  "filters_view (schedule_receive_specific r) = filters_view r"
  "filters_view (schedule_transmit_specific r) = filters_view r"
  "filters_view (store_by_band i g r) = filters_view r"
  by (simp_all add: state_defs store_by_band_def)

lemma filters_view_setters [simp]:
  "filters_view (radio_set_rf_gain i v r) = filters_view r"
  "filters_view (radio_set_attenuation i w r) = filters_view r"
  "filters_view (radio_set_agc_gain i v r) = filters_view r"
  "filters_view (radio_set_panhigh i w r) = filters_view r"
  "filters_view (radio_set_panlow i w r) = filters_view r"
  "filters_view (radio_set_panstep i w r) = filters_view r"
  "filters_view (radio_set_c25_att i w r) = filters_view r"
  by (simp_all add: radio_set_rf_gain_def radio_set_attenuation_def
      radio_set_agc_gain_def radio_set_panhigh_def radio_set_panlow_def radio_set_panstep_def
      radio_set_c25_att_def Let_def filters_view_upd_rx split: prod.split)

lemma filters_view_drive [simp]: "filters_view (radio_calc_drive_level r) = filters_view r"
  by (simp add: radio_calc_drive_level_def Let_def split: option.split)

lemma filters_view_band_settings [simp]:
  "filters_view (radio_apply_band_settings flag i r) = filters_view r"
  unfolding radio_apply_band_settings_def by (intro fview_intros; simp)

lemma filters_view_freq [simp]: "filters_view (rx_frequency_changed i r) = filters_view r"
  by (simp add: rx_frequency_changed_def rx_set_offset_def Let_def)

end
