(* ===== verification/Vfo.thy ===== *)
theory Vfo
  imports Frame
begin

text \<open>
  The VFO component (\<^verbatim>\<open>src/src/vfo.c\<close>): the two dials, their band and band stack,
  mode, filter, RIT and XIT, the operations of the user, of CAT commands and of remote clients
  on them, and the two loops of \<^verbatim>\<open>src/src/band.c\<close> that step through the bands.
  Each definition is the whole C function: the remote branch, the guards, the coupling of the
  dials in the SAT modes and every call it makes.
\<close>

subsection \<open>Steps and rounding\<close>

definition steps :: "int list" where
  "steps = [1, 10, 25, 50, 100, 250, 500, 1000, 5000, 6250, 9000, 10000, 12500, 100000, 250000,
     500000, 1000000]"

definition ROUND :: "int \<Rightarrow> int \<Rightarrow> int \<Rightarrow> int" where
  "ROUND freq nsteps st = (
     let f = c_div (freq + c_div st 2) st;
         f = f + nsteps
     in f * st)"

definition clamp_step :: "int \<Rightarrow> nat" where
  "clamp_step index = (let index = (if index < 0 then 0 else index);
     index = (if 17 \<le> index then 16 else index) in nat index)"

definition vfo_get_step_from_index :: "int \<Rightarrow> int" where
  "vfo_get_step_from_index index = steps ! clamp_step index"

definition vfo_id_get_stepindex :: "nat \<Rightarrow> radio_state \<Rightarrow> nat" where
  "vfo_id_get_stepindex i r =
     (case List.find (\<lambda>k. steps ! k = v_step (vfo r i)) [0..<17] of Some k \<Rightarrow> k | None \<Rightarrow> 4)"

definition vfo_id_set_step_from_index :: "nat \<Rightarrow> int \<Rightarrow> radio_state \<Rightarrow> radio_state" where
  "vfo_id_set_step_from_index i index r = (
     let st = steps ! clamp_step index; r = upd_vfo i (\<lambda>v. v\<lparr>v_step := st\<rparr>) r in
     if is_remote r then emit (Cmd (Send_vfo_stepsize i st)) r
     else if i = 0 then
       let m = v_mode (vfo r i)
       in profiles_copy_rxtxprofile m
            (r\<lparr>RXTXprofile := (RXTXprofile r)(m := (RXTXprofile r m)\<lparr>p_step := st\<rparr>)\<rparr>)
     else r)"

subsection \<open>Bands and band stacks\<close>

text \<open>
  The defaults \<open>vfo_restore_state\<close> sets before it reads the stored values. \<open>v\<close> is the
  memory of the VFO before: \<open>ctun_frequency\<close> has no default.
\<close>

definition vfo_defaults :: "radio_state \<Rightarrow> vfo \<Rightarrow> vfo" where
  "vfo_defaults r v = (
     let v = (if radio_fmin r < 430000000 \<and> 440000000 < radio_fmax r
              then v\<lparr>v_band := band430, v_bandstack := 0, v_frequency := 434010000\<rparr>
              else if radio_fmin r < 144000000 \<and> 146000000 < radio_fmax r
              then v\<lparr>v_band := band144, v_bandstack := 0, v_frequency := 145000000\<rparr>
              else v\<lparr>v_band := band20, v_bandstack := 0, v_frequency := 14010000\<rparr>)
     in v\<lparr>v_mode := modeCWU, v_filter := 4, v_cwPeak := 0, v_lo := 0, v_offset := 0,
          v_rit_enabled := False, v_rit := 0, v_xit_enabled := False, v_xit := 0, v_ctun := False,
          v_deviation := 2500, v_step := 100, v_rit_step := 10\<rparr>)"

definition vfo_save_bandstack :: "radio_state \<Rightarrow> radio_state" where
  "vfo_save_bandstack r = (
     let v = vfo r 0; b = v_band v;
         r = upd_bandstack b (\<lambda>s. s\<lparr>bs_current := v_bandstack v\<rparr>) r;
         name = bs_entry (bandstack_get_bandstack b r);
         entry = stack_entry b (v_bandstack v) r;
         entry = entry\<lparr>bse_frequency := v_frequency v, bse_mode := v_mode v, bse_filter := v_filter v,
                   bse_ctun := v_ctun v, bse_ctun_frequency := v_ctun_frequency v,
                   bse_deviation := v_deviation v\<rparr>;
         entry = (case transmitter r of
                    None \<Rightarrow> entry
                  | Some tx \<Rightarrow> entry\<lparr>bse_ctcss_enabled := tx_ctcss_enabled tx, bse_ctcss := tx_ctcss tx\<rparr>)
     in r\<lparr>stacks := (stacks r)(name := (stacks r name)[v_bandstack v := entry])\<rparr>)"

definition vfo_id_adjust_band :: "nat \<Rightarrow> int \<Rightarrow> radio_state \<Rightarrow> radio_state" where
  "vfo_id_adjust_band v f r = (
     let b = v_band (vfo r v); band = band_get_band b r in
     if frequencyMin band \<le> f + 25000 \<and> f - 25000 \<le> frequencyMax band then r else
     let new_band = get_band_from_frequency f r in
     if b \<noteq> new_band then
       let r = upd_vfo v (\<lambda>x. x\<lparr>v_band := new_band\<rparr>) r;
           bandstack = bandstack_get_bandstack new_band r;
           r = upd_vfo v (\<lambda>x. x\<lparr>v_bandstack := bs_current bandstack\<rparr>) r
       in radio_apply_band_settings True v r
     else r)"

definition vfo_vfos_changed :: "radio_state \<Rightarrow> radio_state" where
  "vfo_vfos_changed r = (
     let r = rx_vfo_changed 0 r;
         r = radio_tx_vfo_changed r;
         r = radio_apply_band_settings True 0 r;
         r = (if receivers r = 2 then radio_apply_band_settings True 1 (rx_vfo_changed 1 r) else r);
         r = schedule_transmit_specific r
     in emit Vfo_update r)"

text \<open>One half of \<open>vfo_xvtr_changed\<close>; \<open>running\<close> says that the receiver is told.\<close>

definition xvtr_check :: "nat \<Rightarrow> bool \<Rightarrow> radio_state \<Rightarrow> radio_state" where
  "xvtr_check i running r = (
     if v_band (vfo r i) < BANDS then r else
     let band = band_get_band (v_band (vfo r i)) r;
         lo = frequencyLO band + errorLO band;
         r = upd_vfo i (\<lambda>v. v\<lparr>v_lo := lo\<rparr>) r;
         f = real_of_int (v_frequency (vfo r i))
     in if real_of_int lo + radio_fmax r < f \<or> f < real_of_int lo + radio_fmin r then
          let r = upd_vfo i (\<lambda>v. v\<lparr>v_frequency :=
                    c_trunc (real_of_int lo + (radio_fmin r + radio_fmax r) / 2), v_ctun := False\<rparr>) r;
              r = vfo_id_adjust_band i (v_frequency (vfo r i)) r
          in if running then rx_set_frequency i (v_frequency (vfo r i)) r else r
        else r)"

definition vfo_xvtr_changed :: "radio_state \<Rightarrow> radio_state" where
  "vfo_xvtr_changed r = (
     let r = xvtr_check 0 True r;
         r = xvtr_check 1 (receivers r = 2) r
     in emit Vfo_update (schedule_high_priority (schedule_general r)))"

text \<open>The stores that load a band stack entry into a VFO, and those into the transmitter.\<close>

definition load_entry :: "bandstack_entry \<Rightarrow> vfo \<Rightarrow> vfo" where
  "load_entry e v = v\<lparr>v_frequency := bse_frequency e, v_ctun := bse_ctun e,
     v_ctun_frequency := bse_ctun_frequency e, v_mode := bse_mode e, v_filter := bse_filter e,
     v_deviation := bse_deviation e\<rparr>"

definition load_ctcss :: "bandstack_entry \<Rightarrow> radio_state \<Rightarrow> radio_state" where
  "load_ctcss e r = (if transmitter r \<noteq> None then
       emit (Dsp (Tx_set_ctcss (bse_ctcss_enabled e) (bse_ctcss e)))
         (upd_tx (\<lambda>tx. tx\<lparr>tx_ctcss_enabled := bse_ctcss_enabled e, tx_ctcss := bse_ctcss e\<rparr>) r)
     else r)"

definition dial :: "vfo \<Rightarrow> int" where
  "dial v = (if v_ctun v then v_ctun_frequency v else v_frequency v)"

text \<open>
  What both functions below do after loading an entry: the band check, the CTCSS setting of
  the transmitter, and the profile of a new mode.
\<close>

definition enter_entry :: "nat \<Rightarrow> mode \<Rightarrow> bandstack_entry \<Rightarrow> radio_state \<Rightarrow> radio_state" where
  "enter_entry i oldmode entry r = (
     let r = vfo_id_adjust_band i (dial (vfo r i)) r;
         r = load_ctcss entry r
     in if i < receivers r \<and> oldmode \<noteq> v_mode (vfo r i) then profiles_load_rxtx_profile i r else r)"

text \<open>The early return of \<open>vfo_id_band_changed\<close>: the radio cannot tune to the new band.\<close>

definition band_unsuitable :: "nat \<Rightarrow> radio_state \<Rightarrow> bool" where
  "band_unsuitable b r = (
     let band = band_get_band b r; bandstack = bandstack_get_bandstack b r;
         f = bse_frequency (stack_entry b (bs_current bandstack) r) - (frequencyLO band + errorLO band)
     in real_of_int f < radio_fmin r \<or> radio_fmax r < real_of_int f)"

definition select_stack :: "nat \<Rightarrow> nat \<Rightarrow> radio_state \<Rightarrow> radio_state" where
  "select_stack i b r = (
     let bandstack = bandstack_get_bandstack b r in
     if b = v_band (vfo r i) then
       let n = v_bandstack (vfo r i) + 1;
           n = (if bs_entries bandstack \<le> n then 0 else n);
           r = upd_vfo i (\<lambda>v. v\<lparr>v_bandstack := n\<rparr>) r
       in if i = 0 then upd_bandstack b (\<lambda>s. s\<lparr>bs_current := n\<rparr>) r else r
     else upd_vfo i (\<lambda>v. v\<lparr>v_bandstack := bs_current bandstack\<rparr>) r)"

definition vfo_id_band_changed :: "nat \<Rightarrow> nat \<Rightarrow> radio_state \<Rightarrow> radio_state" where
  "vfo_id_band_changed i b r = (
     if is_remote r then emit (Cmd (Send_band i b)) r else
     let oldmode = v_mode (vfo r i); oldband = v_band (vfo r i) in
     if b \<noteq> oldband \<and> band_unsuitable b r then r else
     let r = (if i = 0 then vfo_save_bandstack r else r);
         r = select_stack i b r;
         band = band_get_band b r;
         entry = stack_entry b (v_bandstack (vfo r i)) r;
         r = upd_vfo i (\<lambda>v. (load_entry entry v)\<lparr>v_band := b, v_lo := frequencyLO band + errorLO band\<rparr>) r;
         r = enter_entry i oldmode entry r;
         r = (if oldband \<noteq> v_band (vfo r i) then radio_apply_band_settings True i r else r)
     in vfo_vfos_changed r)"

definition vfo_id_bandstack_changed :: "nat \<Rightarrow> nat \<Rightarrow> radio_state \<Rightarrow> radio_state" where
  "vfo_id_bandstack_changed i b r = (
     let oldmode = v_mode (vfo r i); bd = v_band (vfo r i);
         oldstack = bs_current (bandstack_get_bandstack bd r);
         r = (if i = 0 then upd_bandstack bd (\<lambda>s. s\<lparr>bs_current := b\<rparr>) (vfo_save_bandstack r) else r)
     in if is_remote r then emit (Cmd (Send_bandstack oldstack b)) r else
     let entry = stack_entry bd b r;
         r = upd_vfo i (\<lambda>v. (load_entry entry v)\<lparr>v_bandstack := b\<rparr>) r
     in vfo_vfos_changed (enter_entry i oldmode entry r))"

definition vfo_bandstack_changed :: "nat \<Rightarrow> radio_state \<Rightarrow> radio_state" where
  "vfo_bandstack_changed b r = vfo_id_bandstack_changed (active_id r) b r"

subsection \<open>Mode, deviation, CW peak filter and filter\<close>

definition vfo_id_mode_changed :: "nat \<Rightarrow> mode \<Rightarrow> radio_state \<Rightarrow> radio_state" where
  "vfo_id_mode_changed i m r = (
     if is_remote r then emit (Cmd (Send_mode i m)) r else
     let r = upd_vfo i (\<lambda>v. v\<lparr>v_mode := m\<rparr>) r;
         r = (if i < receivers r
              then rx_filter_changed i (rx_mode_changed i (profiles_load_rxtx_profile i r)) else r);
         r = (if transmitter r \<noteq> None then tx_set_mode (vfo_get_tx_mode r) r else r)
     in emit Vfo_update (schedule_transmit_specific (schedule_high_priority r)))"

definition vfo_mode_changed :: "mode \<Rightarrow> radio_state \<Rightarrow> radio_state" where
  "vfo_mode_changed m r = vfo_id_mode_changed (active_id r) m r"

definition vfo_id_deviation_changed :: "nat \<Rightarrow> int \<Rightarrow> radio_state \<Rightarrow> radio_state" where
  "vfo_id_deviation_changed i dev r = (
     let r = upd_vfo i (\<lambda>v. v\<lparr>v_deviation := dev\<rparr>) r;
         r = (if i < receivers r then rx_filter_changed i r else r)
     in emit Vfo_update r)"

definition vfo_deviation_changed :: "int \<Rightarrow> radio_state \<Rightarrow> radio_state" where
  "vfo_deviation_changed dev r = vfo_id_deviation_changed (active_id r) dev r"

definition vfo_id_cwpeak_changed :: "nat \<Rightarrow> int \<Rightarrow> radio_state \<Rightarrow> radio_state" where
  "vfo_id_cwpeak_changed i p r = (
     let r = upd_vfo i (\<lambda>v. v\<lparr>v_cwPeak := p\<rparr>) r;
         r = (if is_remote r then emit (Cmd (Send_cwpeak i p)) r else
              let r = (if i = 0 then
                         let m = v_mode (vfo r i)
                         in profiles_copy_rxtxprofile m
                              (r\<lparr>RXTXprofile := (RXTXprofile r)(m := (RXTXprofile r m)\<lparr>p_cwPeak := p\<rparr>)\<rparr>)
                       else r)
              in if i < receivers r then emit (Dsp (Rx_set_cw_peak i p)) r else r)
     in emit Vfo_update r)"

definition vfo_cwpeak_changed :: "int \<Rightarrow> radio_state \<Rightarrow> radio_state" where
  "vfo_cwpeak_changed p r = vfo_id_cwpeak_changed (active_id r) p r"

definition vfo_id_filter_changed :: "nat \<Rightarrow> nat \<Rightarrow> radio_state \<Rightarrow> radio_state" where
  "vfo_id_filter_changed i f r = (
     let r = upd_vfo i (\<lambda>v. v\<lparr>v_filter := f\<rparr>) r in
     if is_remote r then emit (Cmd (Send_filter_sel i f)) r else
     let r = (if i = 0 then
                let m = v_mode (vfo r i)
                in profiles_copy_rxtxprofile m
                     (r\<lparr>RXTXprofile := (RXTXprofile r)(m := (RXTXprofile r m)\<lparr>p_filter := f\<rparr>)\<rparr>)
              else r);
         r = (if f = filterVar1 \<or> f = filterVar2 then fold rx_filter_changed [0..<receivers r] r
              else if i < receivers r then rx_filter_changed i r else r)
     in emit Vfo_update r)"

definition vfo_filter_changed :: "nat \<Rightarrow> radio_state \<Rightarrow> radio_state" where
  "vfo_filter_changed f r = vfo_id_filter_changed (active_id r) f r"

subsection \<open>Copying and exchanging the VFOs\<close>

definition vfo_a_to_b :: "radio_state \<Rightarrow> radio_state" where
  "vfo_a_to_b r = (
     if is_remote r then emit (Cmd Send_vfo_atob) r else
     let oldmode = v_mode (vfo r 1);
         r = r\<lparr>vfo := (vfo r)(1 := vfo r 0)\<rparr>;
         r = (if v_mode (vfo r 1) \<noteq> oldmode \<and> receivers r = 2 then profiles_load_rxtx_profile 1 r else r)
     in vfo_vfos_changed r)"

definition vfo_b_to_a :: "radio_state \<Rightarrow> radio_state" where
  "vfo_b_to_a r = (
     if is_remote r then emit (Cmd Send_vfo_btoa) r else
     let oldmode = v_mode (vfo r 0);
         r = r\<lparr>vfo := (vfo r)(0 := vfo r 1)\<rparr>;
         r = (if v_mode (vfo r 0) \<noteq> oldmode then profiles_load_rxtx_profile 0 r else r)
     in vfo_vfos_changed r)"

definition vfo_a_swap_b :: "radio_state \<Rightarrow> radio_state" where
  "vfo_a_swap_b r = (
     if is_remote r then emit (Cmd Send_vfo_swap) r else
     let temp = vfo r 0;
         r = r\<lparr>vfo := (vfo r)(0 := vfo r 1, 1 := temp)\<rparr>;
         r = (if v_mode (vfo r 0) \<noteq> v_mode (vfo r 1) then
                let r = profiles_load_rxtx_profile 0 r
                in if receivers r = 2 then profiles_load_rxtx_profile 1 r else r
              else r)
     in vfo_vfos_changed r)"

subsection \<open>Moving the dials\<close>

text \<open>
  The \<open>switch (sat_mode)\<close> that the three functions below end with. The band of the other
  VFO \<open>sid\<close> is checked at the dial of \<open>src\<close>: \<open>sid\<close> everywhere except in the
  \<open>SAT_MODE\<close> case of \<open>vfo_id_move_to\<close>, which reads \<open>vfo[id].ctun_frequency\<close>.
\<close>

definition sat_dial :: "nat \<Rightarrow> nat \<Rightarrow> int \<Rightarrow> radio_state \<Rightarrow> radio_state" where
  "sat_dial src sid delta r = (
     if v_ctun (vfo r sid) then
       let r = upd_vfo sid (\<lambda>v. v\<lparr>v_ctun_frequency := v_ctun_frequency v + delta\<rparr>) r
       in vfo_id_adjust_band sid (v_ctun_frequency (vfo r src)) r
     else
       let r = upd_vfo sid (\<lambda>v. v\<lparr>v_frequency := v_frequency v + delta\<rparr>) r
       in vfo_id_adjust_band sid (v_frequency (vfo r sid)) r)"

definition sat_shift :: "nat \<Rightarrow> nat \<Rightarrow> int \<Rightarrow> radio_state \<Rightarrow> radio_state" where
  "sat_shift src sid delta r = (
     let r = sat_dial src sid delta r
     in if sid < receivers r then rx_frequency_changed sid r else r)"

definition sat_follow :: "nat \<Rightarrow> nat \<Rightarrow> int \<Rightarrow> radio_state \<Rightarrow> radio_state" where
  "sat_follow src i delta r = (
     let sid = 1 - i in
     case sat_mode r of
       SAT_NONE \<Rightarrow> r
     | SAT_MODE \<Rightarrow> sat_shift src sid delta r
     | RSAT_MODE \<Rightarrow> sat_shift sid sid (- delta) r)"

text \<open>The receiver whose sample rate limits CTUN moves of VFO \<open>i\<close>.\<close>

definition ctun_rx :: "nat \<Rightarrow> radio_state \<Rightarrow> receiver" where
  "ctun_rx i r = (if i < receivers r then receiver r i else receiver r (active_id r))"

definition ctun_blocked :: "nat \<Rightarrow> int \<Rightarrow> radio_state \<Rightarrow> bool" where
  "ctun_blocked i f r = (
     let myrx = ctun_rx i r; frequency = v_frequency (vfo r i); half = c_div (rx_sample_rate myrx) 2
     in f + rx_filter_low myrx \<le> frequency - half \<or> frequency + half \<le> f + rx_filter_high myrx)"

text \<open>Setting the dial of VFO \<open>i\<close>, with the band check that follows.\<close>

definition set_dial :: "nat \<Rightarrow> int \<Rightarrow> radio_state \<Rightarrow> radio_state" where
  "set_dial i f r = vfo_id_adjust_band i f
     (upd_vfo i (\<lambda>v. if v_ctun v then v\<lparr>v_ctun_frequency := f\<rparr> else v\<lparr>v_frequency := f\<rparr>) r)"

definition vfo_id_step :: "nat \<Rightarrow> int \<Rightarrow> radio_state \<Rightarrow> radio_state" where
  "vfo_id_step i st r = (
     if is_remote r then emit (Cmd (Update_vfo_step i st)) r else
     if locked r then r else
     let old = dial (vfo r i); f = ROUND old st (v_step (vfo r i)) in
     if v_ctun (vfo r i) \<and> ctun_blocked i f r then r else
     let r = set_dial i f r;
         r = sat_follow (1 - i) i (f - old) r;
         r = (if i < receivers r then rx_frequency_changed i r else r)
     in emit Vfo_update r)"

definition vfo_step :: "int \<Rightarrow> radio_state \<Rightarrow> radio_state" where
  "vfo_step st r = (if is_remote r then emit (Cmd (Update_vfo_step (active_id r) st)) r
     else vfo_id_step (active_id r) st r)"

definition move_target :: "nat \<Rightarrow> int \<Rightarrow> bool \<Rightarrow> radio_state \<Rightarrow> int" where
  "move_target i hz rnd r = (
     let v = vfo r i in
     if v_ctun v then
       let f = v_ctun_frequency v + hz
       in if rnd \<and> v_mode v \<noteq> modeCWL \<and> v_mode v \<noteq> modeCWU then ROUND f 0 (v_step v) else f
     else
       let f = v_frequency v - hz in if rnd then ROUND f 0 (v_step v) else f)"

definition vfo_id_move :: "nat \<Rightarrow> int \<Rightarrow> bool \<Rightarrow> radio_state \<Rightarrow> radio_state" where
  "vfo_id_move i hz rnd r = (
     if locked r then r else
     if is_remote r then emit (Cmd (Update_vfo_move i hz rnd)) r else
     let old = dial (vfo r i) in
     if v_ctun (vfo r i) \<and> ctun_blocked i (v_ctun_frequency (vfo r i) + hz) r then r else
     let f = move_target i hz rnd r;
         r = set_dial i f r;
         r = sat_follow (1 - i) i (f - old) r;
         r = (if i < receivers r then rx_frequency_changed i r else r)
     in emit Vfo_update r)"

definition vfo_id_move_to :: "nat \<Rightarrow> int \<Rightarrow> bool \<Rightarrow> radio_state \<Rightarrow> radio_state" where
  "vfo_id_move_to i f rnd r = (
     if is_remote r then emit (Cmd (Send_vfo_move_to i f rnd)) r else
     let f = (if rnd then ROUND f 0 (v_step (vfo r i)) else f) in
     if locked r then r else
     let old = dial (vfo r i);
         r = set_dial i f r;
         r = sat_follow i i (f - old) r;
         r = (if i < receivers r then rx_vfo_changed i r else r)
     in emit Vfo_update r)"

definition vfo_id_set_rit_step :: "nat \<Rightarrow> int \<Rightarrow> radio_state \<Rightarrow> radio_state" where
  "vfo_id_set_rit_step i st r = (
     if is_remote r then emit (Cmd (Send_rit_step i st)) r else
     let r = upd_vfo i (\<lambda>v. v\<lparr>v_rit_step := st\<rparr>) r;
         r = (if i = 0 then
                let m = v_mode (vfo r i)
                in profiles_copy_rxtxprofile m
                     (r\<lparr>RXTXprofile := (RXTXprofile r)(m := (RXTXprofile r m)\<lparr>p_rit_step := st\<rparr>)\<rparr>)
              else r)
     in emit Vfo_update r)"

definition vfo_set_rit_step :: "int \<Rightarrow> radio_state \<Rightarrow> radio_state" where
  "vfo_set_rit_step st r = (if is_remote r then emit (Cmd (Send_rit_step (active_id r) st)) r
     else vfo_id_set_rit_step (active_id r) st r)"

subsection \<open>RIT and XIT\<close>

definition clamp_it :: "int \<Rightarrow> int" where
  "clamp_it value = (let value = (if 9999 < value then 9999 else value)
     in if value < - 9999 then - 9999 else value)"

definition vfo_id_xit_value :: "nat \<Rightarrow> int \<Rightarrow> radio_state \<Rightarrow> radio_state" where
  "vfo_id_xit_value i value r = (
     let value = clamp_it value;
         r = upd_vfo i (\<lambda>v. v\<lparr>v_xit := value, v_xit_enabled := value \<noteq> 0\<rparr>) r;
         r = (if is_remote r then emit (Cmd (Send_xit i)) r else schedule_high_priority r)
     in emit Vfo_update r)"

definition vfo_id_xit_onoff :: "nat \<Rightarrow> bool \<Rightarrow> radio_state \<Rightarrow> radio_state" where
  "vfo_id_xit_onoff i enable r = (
     let r = upd_vfo i (\<lambda>v. v\<lparr>v_xit_enabled := enable\<rparr>) r;
         r = (if is_remote r then emit (Cmd (Send_xit i)) r else schedule_high_priority r)
     in emit Vfo_update r)"

definition vfo_id_xit_toggle :: "nat \<Rightarrow> radio_state \<Rightarrow> radio_state" where
  "vfo_id_xit_toggle i r = vfo_id_xit_onoff i (\<not> v_xit_enabled (vfo r i)) r"

definition vfo_id_rit_value :: "nat \<Rightarrow> int \<Rightarrow> radio_state \<Rightarrow> radio_state" where
  "vfo_id_rit_value i value r = (
     let value = clamp_it value;
         r = upd_vfo i (\<lambda>v. v\<lparr>v_rit := value, v_rit_enabled := value \<noteq> 0\<rparr>) r
     in if is_remote r then emit (Cmd (Send_rit i)) r
        else emit Vfo_update (if i < receivers r then rx_frequency_changed i r else r))"

definition vfo_id_rit_onoff :: "nat \<Rightarrow> bool \<Rightarrow> radio_state \<Rightarrow> radio_state" where
  "vfo_id_rit_onoff i enable r = (
     let r = upd_vfo i (\<lambda>v. v\<lparr>v_rit_enabled := enable\<rparr>) r
     in emit Vfo_update (if is_remote r then emit (Cmd (Send_rit i)) r
          else if i < receivers r then rx_frequency_changed i r else r))"

definition vfo_id_rit_toggle :: "nat \<Rightarrow> radio_state \<Rightarrow> radio_state" where
  "vfo_id_rit_toggle i r = vfo_id_rit_onoff i (\<not> v_rit_enabled (vfo r i)) r"

definition vfo_id_rit_incr :: "nat \<Rightarrow> int \<Rightarrow> radio_state \<Rightarrow> radio_state" where
  "vfo_id_rit_incr i incr r = vfo_id_rit_value i (v_rit (vfo r i) + incr) r"

definition vfo_id_xit_incr :: "nat \<Rightarrow> int \<Rightarrow> radio_state \<Rightarrow> radio_state" where
  "vfo_id_xit_incr i incr r = vfo_id_xit_value i (v_xit (vfo r i) + incr) r"

definition vfo_xit_value :: "int \<Rightarrow> radio_state \<Rightarrow> radio_state" where
  "vfo_xit_value value r = vfo_id_xit_value (vfo_get_tx_vfo r) value r"
definition vfo_xit_toggle :: "radio_state \<Rightarrow> radio_state" where
  "vfo_xit_toggle r = vfo_id_xit_toggle (vfo_get_tx_vfo r) r"
definition vfo_xit_onoff :: "bool \<Rightarrow> radio_state \<Rightarrow> radio_state" where
  "vfo_xit_onoff enable r = vfo_id_xit_onoff (vfo_get_tx_vfo r) enable r"
definition vfo_xit_incr :: "int \<Rightarrow> radio_state \<Rightarrow> radio_state" where
  "vfo_xit_incr incr r = vfo_id_xit_incr (vfo_get_tx_vfo r) incr r"

subsection \<open>Setting a frequency, CTUN\<close>

definition vfo_id_set_frequency :: "nat \<Rightarrow> int \<Rightarrow> radio_state \<Rightarrow> radio_state" where
  "vfo_id_set_frequency i f r = (
     if is_remote r then emit (Cmd (Send_vfo_frequency i f)) r else
     let r = vfo_id_adjust_band i f r;
         r = (if i = 0 then rx_set_frequency 0 f r else r);
         r = (if i = 1 then
                if receivers r = 2 then rx_set_frequency 1 f r
                else upd_vfo 1 (\<lambda>v. let v = v\<lparr>v_frequency := f\<rparr> in
                       if v_ctun v then v\<lparr>v_ctun := False, v_offset := 0, v_ctun_frequency := f\<rparr> else v) r
              else r)
     in emit Vfo_update r)"

definition move_notches :: "int \<Rightarrow> receiver \<Rightarrow> receiver" where
  "move_notches d rx = rx\<lparr>rx_notch_center := (\<lambda>i. if i < 3 \<and> rx_notch_enable rx i
     then rx_notch_center rx i + real_of_int d else rx_notch_center rx i)\<rparr>"

definition vfo_id_ctun_update :: "nat \<Rightarrow> bool \<Rightarrow> radio_state \<Rightarrow> radio_state" where
  "vfo_id_ctun_update i state r = (
     if is_remote r then emit (Cmd (Send_ctun i state)) r else
     if v_ctun (vfo r i) = state then r else
     let r = upd_vfo i (\<lambda>v. v\<lparr>v_ctun := state\<rparr>) r in
     if state then
       let r = upd_vfo i (\<lambda>v. v\<lparr>v_ctun_frequency := v_frequency v, v_offset := 0\<rparr>) r;
           r = vfo_id_adjust_band i (v_ctun_frequency (vfo r i)) r
       in if i < receivers r then rx_set_frequency i (v_ctun_frequency (vfo r i)) r else r
     else
       let r = (if i < receivers r
                then upd_rx i (move_notches (v_frequency (vfo r i) - v_ctun_frequency (vfo r i))) r else r);
           r = upd_vfo i (\<lambda>v. v\<lparr>v_frequency := v_ctun_frequency v, v_offset := 0\<rparr>) r;
           r = vfo_id_adjust_band i (v_frequency (vfo r i)) r
       in if i < receivers r then rx_set_frequency i (v_ctun_frequency (vfo r i)) r else r)"

subsection \<open>Stepping through the bands\<close>

text \<open>The two loops of \<^verbatim>\<open>band.c\<close>; \<open>None\<close> is a loop that does not end.\<close>

definition band_next :: "nat \<Rightarrow> nat" where
  "band_next b = (if BANDS + XVTRS \<le> b + 1 then 0 else b + 1)"

definition band_prev :: "nat \<Rightarrow> nat" where
  "band_prev b = (if b = 0 then BANDS + XVTRS - 1 else b - 1)"

partial_function (option) band_loop ::
  "(nat \<Rightarrow> nat) \<Rightarrow> nat \<Rightarrow> nat \<Rightarrow> radio_state \<Rightarrow> radio_state option" where
  "band_loop next i b r = (
     let b = next b in
     if b_title (band_get_band b r) \<noteq> [] then
       let r = vfo_id_band_changed i b r
       in if v_band (vfo r i) = b then Some r else band_loop next i b r
     else band_loop next i b r)"

definition band_plus :: "nat \<Rightarrow> radio_state \<Rightarrow> radio_state option" where
  "band_plus i r = band_loop band_next i (v_band (vfo r i)) r"

definition band_minus :: "nat \<Rightarrow> radio_state \<Rightarrow> radio_state option" where
  "band_minus i r = band_loop band_prev i (v_band (vfo r i)) r"

end
