(* ===== verification/Vfo_Facts.thy ===== *)
theory Vfo_Facts
  imports Vfo
begin

text \<open>
  What the VFO operations of theory \<open>Vfo\<close> guarantee: rounding and tuning steps, the
  coupling of the dials in the SAT modes, the band of the dial, the CTUN window, the limits of
  RIT and XIT, copying and exchanging the VFOs, and the band stacks.
\<close>

subsection \<open>Dials\<close>

lemma dial_simps [simp]:
  "dial (v\<lparr>v_band := b\<rparr>) = dial v" "dial (v\<lparr>v_bandstack := n\<rparr>) = dial v"
  "dial (v\<lparr>v_lo := lo\<rparr>) = dial v" "dial (v\<lparr>v_offset := lo\<rparr>) = dial v"
  "dial (v\<lparr>v_rit := lo\<rparr>) = dial v" "dial (v\<lparr>v_rit_enabled := e\<rparr>) = dial v"
  by (simp_all add: dial_def)

lemma dial_new_offset [simp]: "dial (new_offset rx v) = dial v"
  by (simp add: dial_def new_offset_def Let_def)

lemma new_offset_simps [simp]:
  "v_band (new_offset rx v) = v_band v" "v_bandstack (new_offset rx v) = v_bandstack v"
  "v_mode (new_offset rx v) = v_mode v" "v_ctun (new_offset rx v) = v_ctun v"
  "v_lo (new_offset rx v) = v_lo v" "v_ctun_frequency (new_offset rx v) = v_ctun_frequency v"
  "v_step (new_offset rx v) = v_step v" "v_rit (new_offset rx v) = v_rit v"
  "v_xit (new_offset rx v) = v_xit v" "v_filter (new_offset rx v) = v_filter v"
  "v_rit_enabled (new_offset rx v) = v_rit_enabled v"
  "v_xit_enabled (new_offset rx v) = v_xit_enabled v"
  by (simp_all add: new_offset_def Let_def)

lemma new_offset_frequency: "\<not> v_ctun v \<Longrightarrow> v_frequency (new_offset rx v) = v_frequency v"
  by (simp add: new_offset_def Let_def)

lemma profile_vfo_simps [simp]:
  "dial (profile_vfo p v) = dial v" "v_mode (profile_vfo p v) = v_mode v"
  "v_band (profile_vfo p v) = v_band v" "v_bandstack (profile_vfo p v) = v_bandstack v"
  "v_ctun (profile_vfo p v) = v_ctun v" "v_ctun_frequency (profile_vfo p v) = v_ctun_frequency v"
  "v_frequency (profile_vfo p v) = v_frequency v" "v_lo (profile_vfo p v) = v_lo v"
  by (simp_all add: profile_vfo_def dial_def)

subsection \<open>The band of a dial\<close>

definition adj_band :: "nat \<Rightarrow> int \<Rightarrow> radio_state \<Rightarrow> nat" where
  "adj_band i f r = (let bd = bands r ! v_band (vfo r i) in
     if frequencyMin bd - 25000 \<le> f \<and> f \<le> frequencyMax bd + 25000
     then v_band (vfo r i) else get_band_from_frequency f r)"

definition adj_stack :: "nat \<Rightarrow> int \<Rightarrow> radio_state \<Rightarrow> nat" where
  "adj_stack i f r = (if adj_band i f r = v_band (vfo r i) then v_bandstack (vfo r i)
     else bs_current (bandstack_get_bandstack (adj_band i f r) r))"

lemma bandstack_upd_vfo [simp]:
  "bandstack_get_bandstack b (upd_vfo i f r) = bandstack_get_bandstack b r"
  "stack_entry b n (upd_vfo i f r) = stack_entry b n r"
  by (simp_all add: bandstack_get_bandstack_def stack_entry_def upd_vfo_def)

lemma vfo_adjust_band:
  "vfo (vfo_id_adjust_band i f r) =
     (vfo r)(i := (vfo r i)\<lparr>v_band := adj_band i f r, v_bandstack := adj_stack i f r\<rparr>)"
proof (cases "frequencyMin (bands r ! v_band (vfo r i)) \<le> f + 25000
    \<and> f - 25000 \<le> frequencyMax (bands r ! v_band (vfo r i))")
  case True
  then have "adj_band i f r = v_band (vfo r i)" by (auto simp: adj_band_def Let_def)
  with True show ?thesis
    by (simp add: vfo_id_adjust_band_def band_get_band_def adj_stack_def Let_def)
next
  case False
  then have b: "adj_band i f r = get_band_from_frequency f r" by (auto simp: adj_band_def Let_def)
  show ?thesis
  proof (cases "v_band (vfo r i) = get_band_from_frequency f r")
    case True
    have "vfo_id_adjust_band i f r = r"
      using False True by (simp only: vfo_id_adjust_band_def band_get_band_def Let_def) simp
    moreover have "(vfo r i)\<lparr>v_band := adj_band i f r, v_bandstack := adj_stack i f r\<rparr> = vfo r i"
      using True b by (simp add: adj_stack_def)
    ultimately show ?thesis by simp
  next
    case ne: False
    with False b show ?thesis
      by (auto simp: vfo_id_adjust_band_def band_get_band_def adj_stack_def Let_def)
  qed
qed

lemma view_adjust_band [simp]: "band_view (vfo_id_adjust_band i f r) = band_view r"
  unfolding vfo_id_adjust_band_def by (intro view_intros; simp)

lemma static_adjust_band [frame_simps]: "static (vfo_id_adjust_band i f r) = static r"
  unfolding vfo_id_adjust_band_def by (intro static_intros; simp add: frame_simps)

lemma fview_adjust_band [simp]: "filters_view (vfo_id_adjust_band i f r) = filters_view r"
  unfolding vfo_id_adjust_band_def by (intro fview_intros; simp)

lemma dial_adjust_band [simp]: "dial (vfo (vfo_id_adjust_band i f r) j) = dial (vfo r j)"
  by (simp add: vfo_adjust_band)

lemma fields_adjust_band [simp]:
  "v_ctun (vfo (vfo_id_adjust_band i f r) j) = v_ctun (vfo r j)"
  "v_mode (vfo (vfo_id_adjust_band i f r) j) = v_mode (vfo r j)"
  "v_lo (vfo (vfo_id_adjust_band i f r) j) = v_lo (vfo r j)"
  "v_frequency (vfo (vfo_id_adjust_band i f r) j) = v_frequency (vfo r j)"
  "v_ctun_frequency (vfo (vfo_id_adjust_band i f r) j) = v_ctun_frequency (vfo r j)"
  by (simp_all add: vfo_adjust_band)

text \<open>The operations that move a dial.\<close>

lemma dial_set_dial [simp]: "dial (vfo (set_dial i f r) j) = (if j = i then f else dial (vfo r j))"
  by (simp add: set_dial_def) (simp add: dial_def)

lemma static_set_dial [frame_simps]: "static (set_dial i f r) = static r"
  by (simp add: set_dial_def frame_simps)

lemma dial_sat_shift:
  "dial (vfo (sat_shift src sid d r) j) = (if j = sid then dial (vfo r j) + d else dial (vfo r j))"
  by (simp add: sat_shift_def sat_dial_def Let_def) (simp add: dial_def)

lemma dial_sat_follow:
  assumes "i < 2"
  shows "dial (vfo (sat_follow src i d r) j) = dial (vfo r j) +
    (if j = 1 - i then (case sat_mode r of SAT_NONE \<Rightarrow> 0 | SAT_MODE \<Rightarrow> d | RSAT_MODE \<Rightarrow> - d) else 0)"
  by (simp add: sat_follow_def Let_def dial_sat_shift split: sat_mode.split)

lemma vfo_emit_fun: "vfo (emit e r) = vfo r" by simp

lemma sat_mode_set_dial [simp]: "sat_mode (set_dial i f r) = sat_mode r"
  by (rule staticD(15)) (simp add: frame_simps)

definition coupled :: "sat_mode \<Rightarrow> (nat \<Rightarrow> vfo) \<Rightarrow> int" where
  "coupled m v = (case m of SAT_NONE \<Rightarrow> 0 | SAT_MODE \<Rightarrow> dial (v 0) - dial (v 1)
     | RSAT_MODE \<Rightarrow> dial (v 0) + dial (v 1))"

lemma dial_rx_changed [simp]:
  "dial (vfo (rx_vfo_changed i r) j) = dial (vfo r j)"
  "dial (vfo (rx_frequency_changed i r) j) = dial (vfo r j)"
  by simp_all

text \<open>How far a dial moves when dial \<open>i\<close> goes from \<open>old\<close> to \<open>f\<close>.\<close>

definition moved :: "nat \<Rightarrow> nat \<Rightarrow> int \<Rightarrow> radio_state \<Rightarrow> int" where
  "moved i j d r = (if j = i then d
     else (case sat_mode r of SAT_NONE \<Rightarrow> 0 | SAT_MODE \<Rightarrow> d | RSAT_MODE \<Rightarrow> - d))"

lemma dial_follow_set:
  assumes "i < 2" and "j < 2"
  shows "dial (vfo (sat_follow src i (f - dial (vfo r i)) (set_dial i f r)) j)
    = dial (vfo r j) + moved i j (f - dial (vfo r i)) r"
  using assms by (auto simp: dial_sat_follow less_2_cases_iff moved_def)

lemma dial_step:
  assumes "i < 2" and "j < 2" and "\<not> is_remote r" and "\<not> locked r"
    and "f = ROUND (dial (vfo r i)) n (v_step (vfo r i))" and "\<not> (v_ctun (vfo r i) \<and> ctun_blocked i f r)"
  shows "dial (vfo (vfo_id_step i n r) j) = dial (vfo r j) + moved i j (f - dial (vfo r i)) r"
  using assms(3,4,6) dial_follow_set [OF assms(1,2), of "1 - i" f r]
  by (auto simp: vfo_id_step_def Let_def assms(5) [symmetric] simp del: vfo_rx_freq)

lemma dial_move:
  assumes "i < 2" and "j < 2" and "\<not> is_remote r" and "\<not> locked r"
    and "f = move_target i hz rnd r"
    and "\<not> (v_ctun (vfo r i) \<and> ctun_blocked i (v_ctun_frequency (vfo r i) + hz) r)"
  shows "dial (vfo (vfo_id_move i hz rnd r) j) = dial (vfo r j) + moved i j (f - dial (vfo r i)) r"
  using assms(3,4,6) dial_follow_set [OF assms(1,2), of "1 - i" f r]
  by (auto simp: vfo_id_move_def Let_def assms(5) [symmetric] simp del: vfo_rx_freq)

lemma dial_move_to:
  assumes "i < 2" and "j < 2" and "\<not> is_remote r" and "\<not> locked r"
    and "f = (if rnd then ROUND f0 0 (v_step (vfo r i)) else f0)"
  shows "dial (vfo (vfo_id_move_to i f0 rnd r) j) = dial (vfo r j) + moved i j (f - dial (vfo r i)) r"
  using assms(3,4) dial_follow_set [OF assms(1,2), of i f r]
  unfolding vfo_id_move_to_def Let_def assms(5) [symmetric] by (simp del: vfo_rx_vfo)

lemma coupled_moved:
  assumes "i < 2" and "\<And>j. j < 2 \<Longrightarrow> dial (v' j) = dial (v j) + moved i j d r"
  shows "coupled (sat_mode r) v' = coupled (sat_mode r) v"
  using assms(1) assms(2) [of 0] assms(2) [of 1]
  by (cases "sat_mode r") (auto simp: coupled_def moved_def less_2_cases_iff)

lemma move_refused:
  "is_remote r \<or> locked r \<Longrightarrow> vfo (vfo_id_step i n r) = vfo r"
  "is_remote r \<or> locked r \<Longrightarrow> vfo (vfo_id_move i hz rnd r) = vfo r"
  "is_remote r \<or> locked r \<Longrightarrow> vfo (vfo_id_move_to i f rnd r) = vfo r"
  "v_ctun (vfo r i) \<and> ctun_blocked i (ROUND (dial (vfo r i)) n (v_step (vfo r i))) r \<Longrightarrow>
     vfo (vfo_id_step i n r) = vfo r"
  "v_ctun (vfo r i) \<and> ctun_blocked i (v_ctun_frequency (vfo r i) + hz) r \<Longrightarrow>
     vfo (vfo_id_move i hz rnd r) = vfo r"
  by (auto simp: vfo_id_step_def vfo_id_move_def vfo_id_move_to_def Let_def)


subsection \<open>Rounding\<close>

lemma ROUND_dvd: "st dvd ROUND f n st"
  by (simp add: ROUND_def Let_def)

lemma ROUND_shift: "ROUND f n st = ROUND f 0 st + n * st"
  by (simp add: ROUND_def Let_def algebra_simps)

lemma ROUND_near:
  assumes "0 < st" and "0 \<le> f"
  shows "2 * \<bar>ROUND f 0 st - f\<bar> \<le> st"
proof -
  have m: "ROUND f 0 st = (f + st div 2) div st * st"
    using assms by (simp add: ROUND_def Let_def)
  have "2 * \<bar>p - f\<bar> \<le> st"
    if "f + h = p + q" "0 \<le> q" "q < st" "2 * h \<le> st" "st \<le> 2 * h + 1" for p q h
    using that by (cases "f \<le> p") simp_all
  from this [of "st div 2" "(f + st div 2) div st * st" "(f + st div 2) mod st"]
  show ?thesis unfolding m using assms(1) by simp
qed

lemma ROUND_grid:
  assumes "0 < st" and "0 \<le> k"
  shows "ROUND (k * st) n st = (k + n) * st"
  using assms by (simp add: ROUND_def Let_def algebra_simps div_add1_eq)

text \<open>What a turn of the knob by \<open>n\<close> steps of size \<open>st\<close> should do to a dial.\<close>

definition grid_step :: "int \<Rightarrow> int \<Rightarrow> int \<Rightarrow> int \<Rightarrow> bool" where
  "grid_step st n old new \<longleftrightarrow> st dvd new \<and> 2 * \<bar>new - (old + n * st)\<bar> \<le> st
     \<and> (st dvd old \<longrightarrow> new = old + n * st)"

lemma ROUND_grid_step:
  assumes "0 < st" and "0 \<le> old"
  shows "grid_step st n old (ROUND old n st)"
proof -
  have "old = old div st * st" if "st dvd old" using that by simp
  then have "st dvd old \<longrightarrow> ROUND old n st = old + n * st"
    using ROUND_grid [of st "old div st" n] assms
    by (auto simp: pos_imp_zdiv_nonneg_iff algebra_simps)
  then show ?thesis
    using ROUND_dvd [of st old n] ROUND_near [of st old] ROUND_shift [of old n st] assms
    by (simp add: grid_step_def)
qed

text \<open>
  One turn of the tuning knob by \<open>n\<close> ticks on an unlocked radio either leaves every dial
  alone (the passband would leave the CTUN window) or puts the dial on a multiple of the step
  size, at most half a step away from the dial plus \<open>n\<close> steps; a dial that already is a
  multiple moves by exactly \<open>n\<close> steps.
\<close>

lemma step_on_grid:
  assumes "i < 2" and "\<not> is_remote r" and "\<not> locked r"
    and "0 < v_step (vfo r i)" and "0 \<le> dial (vfo r i)"
  shows "vfo (vfo_id_step i n r) = vfo r \<and> v_ctun (vfo r i)
    \<or> grid_step (v_step (vfo r i)) n (dial (vfo r i)) (dial (vfo (vfo_id_step i n r) i))"
proof (cases "v_ctun (vfo r i) \<and> ctun_blocked i (ROUND (dial (vfo r i)) n (v_step (vfo r i))) r")
  case True
  then show ?thesis using move_refused(4) [of r i n] by blast
next
  case False
  have "dial (vfo (vfo_id_step i n r) i) = ROUND (dial (vfo r i)) n (v_step (vfo r i))"
    using dial_step [OF assms(1,1,2,3) refl, of n] False by (simp add: moved_def)
  then show ?thesis using ROUND_grid_step [OF assms(4,5)] by simp
qed

subsection \<open>The CTUN window\<close>

text \<open>
  The passband of every running receiver in CTUN mode lies in the spectrum the radio samples,
  provided its filter is no wider than that.
\<close>

definition fits :: "radio_state \<Rightarrow> bool" where
  "fits r \<longleftrightarrow> (\<forall>i < receivers r. - c_div (rx_sample_rate (receiver r i)) 2 \<le> rx_filter_low (receiver r i)
     \<and> rx_filter_high (receiver r i) \<le> c_div (rx_sample_rate (receiver r i)) 2)"

definition in_window :: "nat \<Rightarrow> radio_state \<Rightarrow> bool" where
  "in_window i r \<longleftrightarrow> (v_ctun (vfo r i) \<longrightarrow> \<not> ctun_out_of_range (receiver r i) (vfo r i))"

lemma filters_viewD:
  assumes "filters_view r' = filters_view r"
  shows "rx_filter_low (receiver r' i) = rx_filter_low (receiver r i)"
    "rx_filter_high (receiver r' i) = rx_filter_high (receiver r i)"
    "rx_sample_rate (receiver r' i) = rx_sample_rate (receiver r i)"
  using fun_cong [OF assms, of i] by (simp_all add: filters_view_def)

lemma fits_frame:
  assumes "filters_view r' = filters_view r" and "static r' = static r"
  shows "fits r' = fits r"
  using filters_viewD [OF assms(1)] staticD(3) [OF assms(2)] by (simp add: fits_def)

lemma in_window_frame:
  assumes "filters_view r' = filters_view r" and "vfo r' i = vfo r i"
  shows "in_window i r' = in_window i r"
  using filters_viewD [OF assms(1)] assms(2) by (simp add: in_window_def ctun_out_of_range_def)

lemma in_window_rx_freq:
  assumes "fits r" and "i < receivers r"
  shows "in_window i (rx_frequency_changed i r)"
proof -
  have "filters_view (rx_frequency_changed i r) = filters_view r" by simp
  note view = filters_viewD [OF this, of i]
  have "\<not> ctun_out_of_range (receiver r i) (new_offset (receiver r i) v)" if "v_ctun v" for v
    using assms that by (auto simp: fits_def new_offset_def ctun_out_of_range_def Let_def)
  then show ?thesis
    using view by (simp add: in_window_def ctun_out_of_range_def)
qed

lemma in_window_other: "j \<noteq> i \<Longrightarrow> in_window j (rx_frequency_changed i r) = in_window j r"
  by (rule in_window_frame) simp_all

lemma fits_rx_freq [simp]: "fits (rx_frequency_changed i r) = fits r"
  by (rule fits_frame) (simp_all add: frame_simps)

lemma window_emit [simp]: "fits (emit e r) = fits r" "in_window i (emit e r) = in_window i r"
  by (rule fits_frame in_window_frame; simp add: frame_simps)+

lemma fview_set_dial [simp]: "filters_view (set_dial i f r) = filters_view r"
  by (simp add: set_dial_def)

lemma receivers_rx_freq [simp]: "receivers (rx_frequency_changed i r) = receivers r"
  by (rule staticD(3)) (simp add: frame_simps)

lemma receivers_set_dial [simp]: "receivers (set_dial i f r) = receivers r"
  by (rule staticD(3)) (simp add: frame_simps)

lemma fits_set_dial [simp]: "fits (set_dial i f r) = fits r"
  by (rule fits_frame) (simp_all add: frame_simps)

lemma set_dial_other [simp]: "j \<noteq> i \<Longrightarrow> vfo (set_dial i f r) j = vfo r j"
  by (simp add: set_dial_def vfo_adjust_band)

lemma static_sat_dial [frame_simps]: "static (sat_dial src sid d r) = static r"
  unfolding sat_dial_def by (intro static_intros; simp add: frame_simps)

lemma static_sat_shift [frame_simps]: "static (sat_shift src sid d r) = static r"
  unfolding sat_shift_def by (intro static_intros; simp add: frame_simps)

lemma static_sat_follow [frame_simps]: "static (sat_follow src i d r) = static r"
  by (simp add: sat_follow_def Let_def frame_simps split: sat_mode.split)

lemma window_sat_shift:
  assumes "fits r" and "sid < receivers r \<Longrightarrow> in_window sid r"
  shows "sid < receivers r \<Longrightarrow> in_window sid (sat_shift src sid d r)"
    and "j \<noteq> sid \<Longrightarrow> in_window j (sat_shift src sid d r) = in_window j r"
    and "fits (sat_shift src sid d r)"
proof -
  define q where "q = sat_dial src sid d r"
  have fv: "filters_view q = filters_view r"
    unfolding q_def sat_dial_def by (intro fview_intros; simp)
  have st: "static q = static r" unfolding q_def by (simp add: frame_simps)
  have ot: "vfo q j = vfo r j" if "j \<noteq> sid" for j
    using that unfolding q_def sat_dial_def by (simp add: Let_def vfo_adjust_band)
  have fq: "fits q" using fits_frame [OF fv st] assms(1) by simp
  have rq: "receivers q = receivers r" by (rule staticD(3) [OF st])
  have eq: "sat_shift src sid d r = (if sid < receivers r then rx_frequency_changed sid q else q)"
    using rq by (simp add: sat_shift_def q_def)
  show "sid < receivers r \<Longrightarrow> in_window sid (sat_shift src sid d r)"
    unfolding eq using in_window_rx_freq [OF fq] rq by simp
  show "j \<noteq> sid \<Longrightarrow> in_window j (sat_shift src sid d r) = in_window j r"
    unfolding eq using in_window_other [of j sid q] in_window_frame [OF fv ot, of j] by simp
  show "fits (sat_shift src sid d r)"
    unfolding eq using fq by simp
qed

lemma window_sat_follow:
  assumes "fits r" and "i < 2" and "\<And>j. j < receivers r \<Longrightarrow> j \<noteq> i \<Longrightarrow> in_window j r" and "receivers r \<le> 2"
  shows "j < receivers r \<Longrightarrow> j \<noteq> i \<Longrightarrow> in_window j (sat_follow src i d r)"
    and "fits (sat_follow src i d r)"
proof -
  have ne: "1 - i \<noteq> i" using assms(2) by (auto simp: less_2_cases_iff)
  have w: "1 - i < receivers r \<Longrightarrow> in_window (1 - i) r" using assms(3) ne by blast
  note s = window_sat_shift [OF assms(1) w]
  show "fits (sat_follow src i d r)"
    using s(3) assms(1) by (simp add: sat_follow_def Let_def split: sat_mode.split)
  assume j: "j < receivers r" "j \<noteq> i"
  then have "j = 1 - i" using assms(2,4) by (auto simp: less_2_cases_iff)
  then show "in_window j (sat_follow src i d r)"
    using s(1) w j by (auto simp: sat_follow_def Let_def split: sat_mode.split)
qed

definition windows_ok :: "radio_state \<Rightarrow> bool" where
  "windows_ok r \<longleftrightarrow> (\<forall>i < receivers r. in_window i r)"

lemma receivers_emit [simp]: "receivers (emit e r) = receivers r"
  by (simp add: emit_def)

lemma windows_final:
  assumes "fits q" and "receivers q = n" and "\<And>j. j < n \<Longrightarrow> j \<noteq> i \<Longrightarrow> in_window j q"
  shows "windows_ok (emit e (if i < n then rx_frequency_changed i q else q))"
proof -
  have "in_window j (if i < n then rx_frequency_changed i q else q)" if "j < n" for j
    using assms in_window_rx_freq [of q i] in_window_other [of j i q] that
    by (cases "j = i") simp_all
  then show ?thesis
    using assms(2) by (cases "i < n") (simp_all add: windows_ok_def)
qed

lemma windows_moved:
  assumes "i < 2" and "receivers r \<le> 2" and "fits r" and "windows_ok r"
    and q_def: "q = sat_follow src i d (set_dial i f r)"
  shows "windows_ok (emit e (if i < receivers q then rx_frequency_changed i q else q))"
proof -
  have s: "static q = static r" by (simp add: q_def frame_simps)
  have w: "in_window j (set_dial i f r)" if "j < receivers r" "j \<noteq> i" for j
    using in_window_frame [of "set_dial i f r" r j] assms(4) that by (simp add: windows_ok_def)
  have "fits q" and "\<And>j. j < receivers r \<Longrightarrow> j \<noteq> i \<Longrightarrow> in_window j q"
    using window_sat_follow [OF _ assms(1), of "set_dial i f r"] assms(2,3) w
    by (simp_all add: q_def)
  then show ?thesis
    using staticD(3) [OF s] by (intro windows_final) auto
qed

lemma rx_set_frequency_eq:
  "rx_set_frequency i f r = rx_frequency_changed i
     (upd_vfo i (\<lambda>v. if v_ctun v then v\<lparr>v_ctun_frequency := f\<rparr> else v\<lparr>v_frequency := f\<rparr>) r)"
  by (simp add: rx_set_frequency_def)

lemma windows_set_frequency:
  assumes "i < 2" and "receivers r \<in> {1, 2}" and "fits r" and "windows_ok r"
  shows "windows_ok (vfo_id_set_frequency i f r)"
proof -
  define q where "q = vfo_id_adjust_band i f r"
  have rq: "receivers q = receivers r" unfolding q_def by (rule staticD(3)) (simp add: frame_simps)
  have fq: "fits (upd_vfo i g q)" for g
    using assms(3) fits_frame [of "upd_vfo i g q" r] by (simp add: q_def frame_simps)
  have wq: "in_window j (upd_vfo i g q)" if "j < receivers r" "j \<noteq> i" for j g
    using in_window_frame [of "upd_vfo i g q" r j] assms(4) that
    by (simp add: windows_ok_def q_def vfo_adjust_band)
  show ?thesis
  proof (cases "is_remote r")
    case True
    then show ?thesis using assms(4) by (simp add: vfo_id_set_frequency_def windows_ok_def emit_def in_window_def)
  next
    case False
    have run: "windows_ok (emit Vfo_update (rx_set_frequency i f q))" if "i < receivers r"
      using windows_final [OF fq, of _ "receivers r" i Vfo_update] rq wq that
      unfolding rx_set_frequency_eq by (simp add: upd_vfo_def)
    have idle: "windows_ok (emit Vfo_update (upd_vfo i g q))" if "\<not> i < receivers r" for g
      using windows_final [OF fq, of _ "receivers r" i Vfo_update] rq wq that by (simp add: upd_vfo_def)
    show ?thesis
      using False run idle assms(1,2) rq
      by (auto simp: vfo_id_set_frequency_def Let_def less_2_cases_iff q_def)
  qed
qed

lemma windows_noop: "vfo r' = vfo r \<Longrightarrow> receiver r' = receiver r \<Longrightarrow> receivers r' = receivers r \<Longrightarrow>
   windows_ok r' = windows_ok r"
  by (simp add: windows_ok_def in_window_def)

text \<open>The passband of a receiver with its dial at \<open>f\<close> would not lie inside the sampled spectrum.\<close>

definition leaves_spectrum :: "receiver \<Rightarrow> vfo \<Rightarrow> int \<Rightarrow> bool" where
  "leaves_spectrum rx v f \<longleftrightarrow> f + rx_filter_low rx \<le> v_frequency v - c_div (rx_sample_rate rx) 2
     \<or> v_frequency v + c_div (rx_sample_rate rx) 2 \<le> f + rx_filter_high rx"

lemma blocked_leaves: "i < receivers r \<Longrightarrow> ctun_blocked i f r = leaves_spectrum (receiver r i) (vfo r i) f"
  by (simp add: ctun_blocked_def ctun_rx_def leaves_spectrum_def Let_def)

text \<open>VFO \<open>i\<close> after an operation: its dial is \<open>f\<close>, and the spectrum has not been moved.\<close>

definition tuned_to :: "nat \<Rightarrow> int \<Rightarrow> radio_state \<Rightarrow> radio_state \<Rightarrow> bool" where
  "tuned_to i f r r' \<longleftrightarrow> v_ctun_frequency (vfo r' i) = f \<and> v_frequency (vfo r' i) = v_frequency (vfo r i)"

lemma set_dial_ctun:
  assumes "v_ctun (vfo r i)"
  shows "v_ctun_frequency (vfo (set_dial i f r) i) = f" "v_frequency (vfo (set_dial i f r) i) = v_frequency (vfo r i)"
    "v_ctun (vfo (set_dial i f r) i)"
  using assms by (simp_all add: set_dial_def)

lemma sat_follow_same:
  assumes "i < 2"
  shows "vfo (sat_follow src i d r) i = vfo r i"
proof -
  have "vfo (sat_dial s (1 - i) k r) i = vfo r i" for s k
    using assms by (auto simp: sat_dial_def Let_def vfo_adjust_band less_2_cases_iff)
  then show ?thesis using assms
    by (auto simp: sat_follow_def sat_shift_def Let_def less_2_cases_iff split: sat_mode.split)
qed

lemma fview_sat_follow: "filters_view (sat_follow src i d r) = filters_view r"
proof -
  have d: "filters_view (sat_dial src sid k r) = filters_view r" for sid k and src
    unfolding sat_dial_def by (intro fview_intros; simp)
  have "filters_view (sat_shift src sid k r) = filters_view r" for sid k and src
    unfolding sat_shift_def by (intro fview_intros; simp add: d)
  then show ?thesis by (simp add: sat_follow_def Let_def split: sat_mode.split)
qed

lemma receivers_sat_follow [simp]: "receivers (sat_follow src i d r) = receivers r"
  by (rule staticD(3)) (simp add: frame_simps)

lemma tuned:
  assumes "i < 2" and "i < receivers r" and "v_ctun (vfo r i)" and "\<not> leaves_spectrum (receiver r i) (vfo r i) f"
  shows "tuned_to i f r (emit e (rx_frequency_changed i (sat_follow src i d (set_dial i f r))))"
proof -
  define q where "q = sat_follow src i d (set_dial i f r)"
  have v: "v_ctun_frequency (vfo q i) = f" "v_frequency (vfo q i) = v_frequency (vfo r i)" "v_ctun (vfo q i)"
    using assms(1,3) by (simp_all add: q_def sat_follow_same set_dial_ctun)
  have "filters_view q = filters_view r" by (simp add: q_def fview_sat_follow)
  note fv = filters_viewD [OF this, of i]
  have "\<not> ctun_out_of_range (receiver q i) (vfo q i)"
    using assms(4) v fv by (simp add: ctun_out_of_range_def leaves_spectrum_def Let_def)
  then show ?thesis
    using v by (simp add: tuned_to_def new_offset_def Let_def flip: q_def)
qed

lemma tuned_step:
  assumes "i < 2" and "i < receivers r" and "v_ctun (vfo r i)" and "\<not> is_remote r" and "\<not> locked r"
  defines "old \<equiv> v_ctun_frequency (vfo r i)" and "stop \<equiv> leaves_spectrum (receiver r i) (vfo r i)"
  shows "new = ROUND old n (v_step (vfo r i)) \<Longrightarrow> tuned_to i (if stop new then old else new) r (vfo_id_step i n r)"
    and "tuned_to i (if stop (old + hz) then old else old + hz) r (vfo_id_move i hz False r)"
proof -
  have same: "tuned_to i old r r" by (simp add: tuned_to_def old_def)
  note tune = tuned [OF assms(1-3), folded stop_def]
  show "tuned_to i (if stop new then old else new) r (vfo_id_step i n r)" if "new = ROUND old n (v_step (vfo r i))"
    using tune [of new] same assms(2-5) that
    by (simp add: vfo_id_step_def dial_def blocked_leaves [OF assms(2)] Let_def old_def stop_def)
  show "tuned_to i (if stop (old + hz) then old else old + hz) r (vfo_id_move i hz False r)"
    using tune [of "old + hz"] same assms(2-5)
    by (simp add: vfo_id_move_def move_target_def dial_def blocked_leaves [OF assms(2)] Let_def old_def stop_def)
qed

text \<open>
  C21. Tuning in steps, dragging and setting a frequency keep the passband of every running
  receiver in CTUN mode inside the sampled spectrum, provided each filter is no wider than the
  spectrum. Steps and unrounded dragging do that without moving the spectrum itself: a running
  CTUN receiver gets the new frequency exactly if its passband then lies inside, and stays where
  it is otherwise.
\<close>

theorem ctun_window_kept:
  assumes "i < 2" and "receivers r \<in> {1, 2}" and "fits r" and "windows_ok r"
  shows "windows_ok (vfo_id_step i n r) \<and> windows_ok (vfo_id_move i hz rnd r) \<and> windows_ok (vfo_id_set_frequency i f r)
    \<and> (i < receivers r \<and> v_ctun (vfo r i) \<and> \<not> is_remote r \<and> \<not> locked r \<longrightarrow>
       (let old = v_ctun_frequency (vfo r i); new = ROUND old n (v_step (vfo r i)); stop = leaves_spectrum (receiver r i) (vfo r i)
        in tuned_to i (if stop new then old else new) r (vfo_id_step i n r)
           \<and> tuned_to i (if stop (old + hz) then old else old + hz) r (vfo_id_move i hz False r)))"
proof (intro conjI impI)
  have le: "receivers r \<le> 2" using assms(2) by auto
  note moved = windows_moved [OF assms(1) le assms(3,4) refl]
  show "windows_ok (vfo_id_set_frequency i f r)"
    by (rule windows_set_frequency [OF assms])
  show "windows_ok (vfo_id_step i n r)"
    using moved assms(4) windows_noop [of "emit e r" r for e]
    by (simp add: vfo_id_step_def Let_def) (simp add: emit_def)
  show "windows_ok (vfo_id_move i hz rnd r)"
    using moved assms(4) windows_noop [of "emit e r" r for e]
    by (simp add: vfo_id_move_def Let_def) (simp add: emit_def)
qed (use tuned_step [OF assms(1)] in \<open>simp add: Let_def\<close>)

end
