(* ===== verification/Vfo_Bands.thy ===== *)
theory Vfo_Bands
  imports Vfo_Facts
begin

text \<open>
  The VFO and the band stacks: which band a frequency selects, how the band stacks remember
  the VFO when the band changes, copying and exchanging the VFOs, and the loops that step
  through the bands.
\<close>

subsection \<open>After a large change of the VFOs\<close>

lemma vfos_changed_frame [simp]:
  "dial (vfo (vfo_vfos_changed r) j) = dial (vfo r j)"
  "v_band (vfo (vfo_vfos_changed r) j) = v_band (vfo r j)"
  "v_bandstack (vfo (vfo_vfos_changed r) j) = v_bandstack (vfo r j)"
  "v_mode (vfo (vfo_vfos_changed r) j) = v_mode (vfo r j)"
  "v_ctun (vfo (vfo_vfos_changed r) j) = v_ctun (vfo r j)"
  "v_lo (vfo (vfo_vfos_changed r) j) = v_lo (vfo r j)"
  "v_rit (vfo (vfo_vfos_changed r) j) = v_rit (vfo r j)"
  "v_xit (vfo (vfo_vfos_changed r) j) = v_xit (vfo r j)"
  "v_ctun_frequency (vfo (vfo_vfos_changed r) j) = v_ctun_frequency (vfo r j)"
  "v_step (vfo (vfo_vfos_changed r) j) = v_step (vfo r j)"
  by (simp_all add: vfo_vfos_changed_def Let_def)

lemma vfos_changed_frequency:
  "\<not> v_ctun (vfo r j) \<Longrightarrow> v_frequency (vfo (vfo_vfos_changed r) j) = v_frequency (vfo r j)"
  by (auto simp: vfo_vfos_changed_def Let_def new_offset_frequency)

lemma view_vfos_changed [simp]: "band_view (vfo_vfos_changed r) = band_view r"
  unfolding vfo_vfos_changed_def by (intro view_intros; simp)

lemma static_vfos_changed [frame_simps]: "static (vfo_vfos_changed r) = static r"
  unfolding vfo_vfos_changed_def by (intro static_intros; simp add: frame_simps)

lemma load_entry_simps [simp]:
  "v_mode (load_entry e v) = bse_mode e" "v_ctun (load_entry e v) = bse_ctun e"
  "v_frequency (load_entry e v) = bse_frequency e"
  "v_ctun_frequency (load_entry e v) = bse_ctun_frequency e"
  "v_bandstack (load_entry e v) = v_bandstack v" "v_band (load_entry e v) = v_band v"
  "v_rit (load_entry e v) = v_rit v" "v_xit (load_entry e v) = v_xit v"
  by (simp_all add: load_entry_def)

lemma load_ctcss_frame [simp]:
  "vfo (load_ctcss e r) = vfo r" "band_view (load_ctcss e r) = band_view r"
  by (simp_all add: load_ctcss_def)

lemma static_load_ctcss [frame_simps]: "static (load_ctcss e r) = static r"
  by (simp add: load_ctcss_def frame_simps)

subsection \<open>Setting a frequency\<close>

text \<open>
  Setting a frequency on a local radio (the frequency menu, the number pad, CAT) puts it
  on the dial of the VFO, whether or not a receiver runs there, and touches neither the mode of
  this VFO nor anything of the other VFO. The band is kept when the frequency is at most 25 kHz
  outside of it, and is otherwise the band of the frequency.
\<close>

lemma set_frequency_correct:
  assumes "i < 2" and "\<not> is_remote r" and "receivers r \<in> {1, 2}"
  shows "dial (vfo (vfo_id_set_frequency i f r) i) = f
    \<and> v_mode (vfo (vfo_id_set_frequency i f r) i) = v_mode (vfo r i)
    \<and> v_band (vfo (vfo_id_set_frequency i f r) i) =
        (if frequencyMin (bands r ! v_band (vfo r i)) - 25000 \<le> f
            \<and> f \<le> frequencyMax (bands r ! v_band (vfo r i)) + 25000
         then v_band (vfo r i) else get_band_from_frequency f r)
    \<and> vfo (vfo_id_set_frequency i f r) (1 - i) = vfo r (1 - i)"
proof -
  define q where "q = vfo_id_adjust_band i f r"
  have rq: "receivers q = receivers r" unfolding q_def by (rule staticD(3)) (simp add: frame_simps)
  have vq: "vfo q = (vfo r)(i := (vfo r i)\<lparr>v_band := adj_band i f r, v_bandstack := adj_stack i f r\<rparr>)"
    by (simp add: q_def vfo_adjust_band)
  define g :: "vfo \<Rightarrow> vfo" where "g v = (if v_ctun v then v\<lparr>v_ctun_frequency := f\<rparr> else v\<lparr>v_frequency := f\<rparr>)" for v
  define h :: "vfo \<Rightarrow> vfo" where "h v = (let v = v\<lparr>v_frequency := f\<rparr> in
      if v_ctun v then v\<lparr>v_ctun := False, v_offset := 0, v_ctun_frequency := f\<rparr> else v)" for v
  have gh: "dial (g v) = f" "dial (h v) = f" "v_mode (g v) = v_mode v" "v_mode (h v) = v_mode v"
    "v_band (g v) = v_band v" "v_band (h v) = v_band v" for v
    by (simp_all add: g_def h_def dial_def Let_def)
  have eq: "vfo_id_set_frequency i f r = emit Vfo_update (
      if i = 0 \<or> receivers r = 2 then rx_frequency_changed i (upd_vfo i g q) else upd_vfo i h q)"
    using assms(1,2) rq
    by (auto simp: vfo_id_set_frequency_def Let_def rx_set_frequency_def q_def g_def [abs_def]
        h_def [abs_def] less_2_cases_iff)
  have "1 - i \<noteq> i" using assms(1) by (auto simp: less_2_cases_iff)
  then show ?thesis
    unfolding eq using gh vq by (simp add: adj_band_def Let_def)
qed

text \<open>So entering a frequency undoes the coupling of the dials in the SAT modes.\<close>

lemma set_frequency_uncouples:
  assumes "i < 2" and "\<not> is_remote r" and "receivers r \<in> {1, 2}" and "sat_mode r \<noteq> SAT_NONE" and "f \<noteq> dial (vfo r i)"
  shows "coupled (sat_mode r) (vfo (vfo_id_set_frequency i f r)) \<noteq> coupled (sat_mode r) (vfo r)"
  using set_frequency_correct [OF assms(1-3), of f] assms(1,4,5)
  by (cases "sat_mode r") (auto simp: coupled_def less_2_cases_iff)

subsection \<open>Saving the VFO in its band stack\<close>

text \<open>VFO A points to a band of the table and to one of its band stack entries.\<close>

definition vfo_ok :: "nat \<Rightarrow> radio_state \<Rightarrow> bool" where
  "vfo_ok i r \<longleftrightarrow> v_band (vfo r i) < BANDS + XVTRS
     \<and> v_bandstack (vfo r i) < bs_entries (bandstack_get_bandstack (v_band (vfo r i)) r)"

definition stacks_distinct :: "radio_state \<Rightarrow> bool" where
  "stacks_distinct r \<longleftrightarrow> (\<forall>b < BANDS + XVTRS. \<forall>c < BANDS + XVTRS. b \<noteq> c \<longrightarrow>
     bs_entry (bandstack_get_bandstack b r) \<noteq> bs_entry (bandstack_get_bandstack c r))"

definition saved_entry :: "radio_state \<Rightarrow> bandstack_entry" where
  "saved_entry r = (
     let v = vfo r 0; e = stack_entry (v_band v) (v_bandstack v) r
     in e\<lparr>bse_frequency := v_frequency v, bse_mode := v_mode v, bse_filter := v_filter v,
          bse_ctun := v_ctun v, bse_ctun_frequency := v_ctun_frequency v,
          bse_deviation := v_deviation v,
          bse_ctcss_enabled := (case transmitter r of None \<Rightarrow> bse_ctcss_enabled e | Some tx \<Rightarrow> tx_ctcss_enabled tx),
          bse_ctcss := (case transmitter r of None \<Rightarrow> bse_ctcss e | Some tx \<Rightarrow> tx_ctcss tx)\<rparr>)"

lemma save_bandstack:
  assumes "bands_ok r" and "v_band (vfo r 0) < 34"
  defines "v \<equiv> vfo r 0" and "s \<equiv> vfo_save_bandstack r"
  shows "vfo s = vfo r" and "static s = static r" and "length (bands s) = length (bands r)"
    and "bandstack_get_bandstack b s = (if b = v_band v
           then (bandstack_get_bandstack b r)\<lparr>bs_current := v_bandstack v\<rparr> else bandstack_get_bandstack b r)"
    and "stacks s = (let n = bs_entry (bandstack_get_bandstack (v_band v) r)
           in (stacks r)(n := (stacks r n)[v_bandstack v := saved_entry r]))"
proof -
  have l: "length (bands r) = 34" using assms(1) by (simp add: bands_ok_def)
  have e: "stack_entry c n (upd_bandstack b (\<lambda>s. s\<lparr>bs_current := x\<rparr>) r) = stack_entry c n r" for b c n x
    by (cases "b < length (bands r)")
      (auto simp: stack_entry_def bands_upd_bandstack,
       simp add: bandstack_get_bandstack_def upd_bandstack_def upd_band_def list_update_beyond)
  have t: "transmitter (upd_bandstack b f r) = transmitter r" for b f
    by (simp add: upd_bandstack_def upd_band_def)
  show "vfo s = vfo r"
    by (simp add: s_def vfo_save_bandstack_def Let_def)
  show "static s = static r"
    unfolding s_def vfo_save_bandstack_def by (intro static_intros; simp add: frame_simps)
  show "length (bands s) = length (bands r)"
    by (simp add: s_def vfo_save_bandstack_def Let_def)
  show "bandstack_get_bandstack b s = (if b = v_band v
           then (bandstack_get_bandstack b r)\<lparr>bs_current := v_bandstack v\<rparr> else bandstack_get_bandstack b r)"
    using bands_upd_bandstack [of "v_band v" r b "\<lambda>s. s\<lparr>bs_current := v_bandstack v\<rparr>"] assms(2) l
    by (simp add: s_def v_def vfo_save_bandstack_def Let_def bandstack_get_bandstack_def)
  show "stacks s = (let n = bs_entry (bandstack_get_bandstack (v_band v) r)
           in (stacks r)(n := (stacks r n)[v_bandstack v := saved_entry r]))"
    using bands_upd_bandstack [of "v_band v" r _ "\<lambda>s. s\<lparr>bs_current := v_bandstack v\<rparr>"] assms(2) l e t
    by (simp add: s_def v_def vfo_save_bandstack_def Let_def saved_entry_def split: option.split)
qed

lemma saved_entry_simps [simp]:
  "bse_frequency (saved_entry r) = v_frequency (vfo r 0)"
  "bse_ctun (saved_entry r) = v_ctun (vfo r 0)"
  "bse_ctun_frequency (saved_entry r) = v_ctun_frequency (vfo r 0)"
  "bse_mode (saved_entry r) = v_mode (vfo r 0)"
  "bse_deviation (saved_entry r) = v_deviation (vfo r 0)"
  by (simp_all add: saved_entry_def Let_def)

lemma save_bandstack_ok:
  assumes "bands_ok r" and "vfo_ok 0 r"
  shows "bands_ok (vfo_save_bandstack r)"
    and "stacks_distinct r \<Longrightarrow> stacks_distinct (vfo_save_bandstack r)"
    and "vfo_ok i r \<Longrightarrow> vfo_ok i (vfo_save_bandstack r)"
proof -
  have v: "v_band (vfo r 0) < 34"
    "v_bandstack (vfo r 0) < bs_entries (bandstack_get_bandstack (v_band (vfo r 0)) r)"
    using assms(2) by (simp_all add: vfo_ok_def)
  note s = save_bandstack [OF assms(1) v(1)]
  have len: "length (stacks (vfo_save_bandstack r) n) = length (stacks r n)" for n
    by (simp add: s(5) Let_def)
  show "bands_ok (vfo_save_bandstack r)"
    using assms(1) v(2) by (simp add: bands_ok_def stack_ok_def s(3,4) len)
  show "stacks_distinct r \<Longrightarrow> stacks_distinct (vfo_save_bandstack r)"
    by (simp add: stacks_distinct_def s(4))
  show "vfo_ok i r \<Longrightarrow> vfo_ok i (vfo_save_bandstack r)"
    by (auto simp: vfo_ok_def s(1,4))
qed

subsection \<open>Changing the band\<close>

text \<open>What \<open>enter_entry\<close> and the rest of a band change keep.\<close>

definition settled :: "radio_state \<Rightarrow> radio_state \<Rightarrow> bool" where
  "settled r' r \<longleftrightarrow> band_view r' = band_view r \<and> static r' = static r \<and> (\<forall>k.
     dial (vfo r' k) = dial (vfo r k) \<and> v_mode (vfo r' k) = v_mode (vfo r k)
     \<and> v_ctun (vfo r' k) = v_ctun (vfo r k) \<and> v_rit (vfo r' k) = v_rit (vfo r k)
     \<and> v_xit (vfo r' k) = v_xit (vfo r k) \<and> v_band (vfo r' k) = v_band (vfo r k)
     \<and> v_bandstack (vfo r' k) = v_bandstack (vfo r k))"

lemma settled_trans: "settled t s \<Longrightarrow> settled s r \<Longrightarrow> settled t r"
  by (simp add: settled_def)

lemma settled_steps:
  "settled (vfo_vfos_changed r) r" "settled (radio_apply_band_settings flag i r) r"
  "settled (load_ctcss e r) r" "settled (profiles_load_rxtx_profile i r) r"
  by (simp_all add: settled_def frame_simps) (simp add: profile_vfo_def)

lemma enter_entry_settled:
  "settled (enter_entry i m e r) (vfo_id_adjust_band i (dial (vfo r i)) r)"
proof -
  define q where "q = load_ctcss e (vfo_id_adjust_band i (dial (vfo r i)) r)"
  have q: "settled q (vfo_id_adjust_band i (dial (vfo r i)) r)"
    by (simp only: q_def settled_steps)
  have "enter_entry i m e r = (if i < receivers q \<and> m \<noteq> v_mode (vfo q i)
      then profiles_load_rxtx_profile i q else q)"
    by (simp only: enter_entry_def Let_def q_def)
  then show ?thesis
    using q settled_trans [OF settled_steps(4) q] by (auto simp only: split: if_split)
qed

lemma band_change_end:
  "settled (vfo_vfos_changed (if c then radio_apply_band_settings True i (enter_entry i m e r)
       else enter_entry i m e r)) (vfo_id_adjust_band i (dial (vfo r i)) r)"
  using settled_trans [OF settled_steps(1) settled_trans [OF settled_steps(2) enter_entry_settled]]
    settled_trans [OF settled_steps(1) enter_entry_settled] by (auto simp only: split: if_split)

text \<open>The state in which \<open>vfo_id_band_changed\<close> picks the entry to load.\<close>

definition selected :: "nat \<Rightarrow> nat \<Rightarrow> radio_state \<Rightarrow> radio_state" where
  "selected i b r = select_stack i b (if i = 0 then vfo_save_bandstack r else r)"

definition selected_entry :: "nat \<Rightarrow> nat \<Rightarrow> radio_state \<Rightarrow> bandstack_entry" where
  "selected_entry i b r = stack_entry b (v_bandstack (vfo (selected i b r) i)) (selected i b r)"

definition entry_dial :: "bandstack_entry \<Rightarrow> int" where
  "entry_dial e = (if bse_ctun e then bse_ctun_frequency e else bse_frequency e)"

definition loaded :: "nat \<Rightarrow> nat \<Rightarrow> bandstack_entry \<Rightarrow> radio_state \<Rightarrow> radio_state" where
  "loaded i b e r = upd_vfo i (\<lambda>v. (load_entry e v)\<lparr>v_band := b,
     v_lo := frequencyLO (band_get_band b r) + errorLO (band_get_band b r)\<rparr>) r"

lemma dial_loaded: "dial (vfo (loaded i b e r) i) = entry_dial e"
  by (simp add: loaded_def dial_def entry_dial_def)

lemma band_changed_settled:
  assumes "\<not> is_remote r" and "b = v_band (vfo r i) \<or> \<not> band_unsuitable b r"
    and "e = selected_entry i b r"
  shows "settled (vfo_id_band_changed i b r)
    (vfo_id_adjust_band i (entry_dial e) (loaded i b e (selected i b r)))"
proof -
  have early: "(b \<noteq> v_band (vfo r i) \<and> band_unsuitable b r) = False" using assms(2) by auto
  have "vfo_id_band_changed i b r = vfo_vfos_changed
     (let u = enter_entry i (v_mode (vfo r i)) e (loaded i b e (selected i b r))
      in if v_band (vfo r i) \<noteq> v_band (vfo u i) then radio_apply_band_settings True i u else u)"
    unfolding vfo_id_band_changed_def Let_def early loaded_def assms(3) selected_entry_def selected_def
    using assms(1) by (simp only: if_False)
  then show ?thesis
    using band_change_end [of _ i "v_mode (vfo r i)" e "loaded i b e (selected i b r)"]
    by (simp add: Let_def dial_loaded)
qed

subsection \<open>The invariant of the VFOs\<close>

definition it_ok :: "vfo \<Rightarrow> bool" where
  "it_ok v \<longleftrightarrow> \<bar>v_rit v\<bar> \<le> 9999 \<and> \<bar>v_xit v\<bar> \<le> 9999"

definition vfos_ok :: "radio_state \<Rightarrow> bool" where
  "vfos_ok r \<longleftrightarrow> bands_ok r \<and> stacks_distinct r
     \<and> (\<forall>i < 2. vfo_ok i r \<and> it_ok (vfo r i))"

lemma vfos_ok_keep:
  assumes "vfos_ok r" and "band_view r' = band_view r"
    and "\<And>k. k < 2 \<Longrightarrow> v_band (vfo r' k) = v_band (vfo r k) \<and> v_bandstack (vfo r' k) = v_bandstack (vfo r k)"
    and "\<And>k. k < 2 \<Longrightarrow> it_ok (vfo r' k)"
  shows "vfos_ok r'"
proof -
  have l: "length (bands r) = 34" using assms(1) by (simp add: vfos_ok_def bands_ok_def)
  have s: "bandstack_get_bandstack b r' = bandstack_get_bandstack b r" if "b < 34" for b
    using bandstack_view [OF assms(2)] that l by simp
  show ?thesis
    using assms(1,3,4) bands_ok_view [OF assms(2)] s
    by (auto simp: vfos_ok_def stacks_distinct_def vfo_ok_def)
qed

lemma vfos_ok_settled:
  assumes "settled r' r" and "vfos_ok r" shows "vfos_ok r'"
  using assms by (intro vfos_ok_keep [OF assms(2)]) (auto simp: settled_def vfos_ok_def it_ok_def)

lemma vfos_ok_upd:
  assumes "vfos_ok r" and "\<And>v. v_band (g v) = v_band v \<and> v_bandstack (g v) = v_bandstack v"
    and "\<And>v. it_ok v \<Longrightarrow> it_ok (g v)"
  shows "vfos_ok (upd_vfo i g r)"
  using assms by (intro vfos_ok_keep [OF assms(1)]) (auto simp: vfos_ok_def)

lemma settled_more:
  "settled (emit e r) r" "settled (rx_frequency_changed i r) r" "settled (rx_vfo_changed i r) r"
  "settled (rx_filter_changed i r) r" "settled (rx_mode_changed i r) r"
  "settled (schedule_high_priority r) r" "settled (schedule_general r) r"
  "settled (schedule_transmit_specific r) r" "settled (tx_set_mode m r) r"
  "settled (profiles_copy_rxtxprofile m r) r"
  by (simp_all add: settled_def frame_simps)

lemmas vfos_ok_basic = settled_more [THEN vfos_ok_settled] settled_steps [THEN vfos_ok_settled]

lemma vfos_ok_adjust:
  assumes "vfos_ok r"
  shows "vfos_ok (vfo_id_adjust_band i f r)"
proof -
  define q where "q = vfo_id_adjust_band i f r"
  have v: "band_view q = band_view r" by (simp add: q_def)
  have l: "length (bands r) = 34" using assms by (simp add: vfos_ok_def bands_ok_def)
  have s: "bandstack_get_bandstack b q = bandstack_get_bandstack b r" if "b < 34" for b
    using bandstack_view [OF v] that l by simp
  have cur: "bs_current (bandstack_get_bandstack b r) < bs_entries (bandstack_get_bandstack b r)"
    if "b < 34" for b
    using assms that by (auto simp: vfos_ok_def bands_ok_def stack_ok_def)
  have b: "adj_band i f r < 34" if "i < 2"
    using assms that get_band_lt [of f r] by (auto simp: adj_band_def Let_def vfos_ok_def vfo_ok_def)
  have n: "adj_stack i f r < bs_entries (bandstack_get_bandstack (adj_band i f r) r)" if "i < 2"
    using assms that cur [OF b [OF that]] by (auto simp: adj_stack_def vfos_ok_def vfo_ok_def)
  have vq: "vfo q = (vfo r)(i := (vfo r i)\<lparr>v_band := adj_band i f r, v_bandstack := adj_stack i f r\<rparr>)"
    by (simp add: q_def vfo_adjust_band)
  have "vfo_ok k q" if k: "k < 2" for k
    using assms s n b k unfolding vfo_ok_def vq by (cases "k = i") (auto simp: vfos_ok_def vfo_ok_def)
  moreover have "it_ok (vfo q k)" if "k < 2" for k
    using assms that unfolding vq by (auto simp: vfos_ok_def it_ok_def)
  moreover have "stacks_distinct q" using assms s by (simp add: vfos_ok_def stacks_distinct_def)
  moreover have "bands_ok q" using assms bands_ok_view [OF v] by (simp add: vfos_ok_def)
  ultimately show ?thesis unfolding vfos_ok_def q_def by blast
qed

lemma bands_upd_bandstack_view:
  assumes "vfos_ok r" and "b < 34" and "n < bs_entries (bandstack_get_bandstack b r)"
  shows "vfos_ok (upd_bandstack b (\<lambda>s. s\<lparr>bs_current := n\<rparr>) r)"
proof -
  have l: "b < length (bands r)" using assms(1,2) by (simp add: vfos_ok_def bands_ok_def)
  note s = bands_upd_bandstack [OF l, of _ "\<lambda>s. s\<lparr>bs_current := n\<rparr>"]
  show ?thesis
    using assms by (auto simp: vfos_ok_def bands_ok_def stacks_distinct_def vfo_ok_def stack_ok_def s)
qed

lemma vfos_ok_save: "vfos_ok r \<Longrightarrow> vfos_ok (vfo_save_bandstack r)"
  using save_bandstack_ok [of r] save_bandstack(1) [of r]
  by (auto simp: vfos_ok_def vfo_ok_def)

text \<open>Pointing VFO \<open>i\<close> to an entry of a band.\<close>

lemma vfos_ok_point:
  assumes "vfos_ok r" and "v_band (g (vfo r i)) < 34"
    and "v_bandstack (g (vfo r i)) < bs_entries (bandstack_get_bandstack (v_band (g (vfo r i))) r)"
    and "\<And>v. it_ok v \<Longrightarrow> it_ok (g v)"
  shows "vfos_ok (upd_vfo i g r)"
proof -
  have v: "band_view (upd_vfo i g r) = band_view r" by simp
  show ?thesis
    using assms bands_ok_view [OF v] by (auto simp: vfos_ok_def stacks_distinct_def vfo_ok_def)
qed

lemma current_ok: "vfos_ok r \<Longrightarrow> b < 34 \<Longrightarrow>
    bs_current (bandstack_get_bandstack b r) < bs_entries (bandstack_get_bandstack b r)"
  by (auto simp: vfos_ok_def bands_ok_def stack_ok_def)

lemma it_ok_point:
  "it_ok v \<Longrightarrow> it_ok (v\<lparr>v_bandstack := n\<rparr>)"
  "it_ok v \<Longrightarrow> it_ok ((load_entry e v)\<lparr>v_band := b, v_lo := lo\<rparr>)"
  "it_ok v \<Longrightarrow> it_ok ((load_entry e v)\<lparr>v_bandstack := b\<rparr>)"
  by (simp_all add: it_ok_def)

text \<open>
  The two ways to pick an entry: the next entry of the same band, and the current entry of
  another band.
\<close>

lemma select_same:
  assumes "vfos_ok r" and "i < 2" and "b = v_band (vfo r i)"
  defines "n \<equiv> (if bs_entries (bandstack_get_bandstack b r) \<le> v_bandstack (vfo r i) + 1 then 0
    else v_bandstack (vfo r i) + 1)"
  shows "vfo (select_stack i b r) = (vfo r)(i := (vfo r i)\<lparr>v_bandstack := n\<rparr>)"
    and "n < bs_entries (bandstack_get_bandstack b (select_stack i b r))" and "vfos_ok (select_stack i b r)"
proof -
  have n: "n < bs_entries (bandstack_get_bandstack b r)" and b: "b < 34"
    using assms by (auto simp: n_def vfos_ok_def vfo_ok_def)
  then have u: "vfos_ok (upd_vfo i (\<lambda>v. v\<lparr>v_bandstack := n\<rparr>) r)"
    using assms(1,3) by (intro vfos_ok_point) (auto intro: it_ok_point)
  have eq: "select_stack i b r = (let q = upd_vfo i (\<lambda>v. v\<lparr>v_bandstack := n\<rparr>) r
      in if i = 0 then upd_bandstack b (\<lambda>s. s\<lparr>bs_current := n\<rparr>) q else q)"
    using assms(3) by (simp add: select_stack_def n_def Let_def)
  show "vfo (select_stack i b r) = (vfo r)(i := (vfo r i)\<lparr>v_bandstack := n\<rparr>)"
    by (simp add: eq Let_def upd_vfo_def)
  define q where "q = upd_vfo i (\<lambda>v. v\<lparr>v_bandstack := n\<rparr>) r"
  have l: "b < length (bands q)" using u b by (simp add: q_def vfos_ok_def bands_ok_def)
  have nq: "n < bs_entries (bandstack_get_bandstack b q)" using n by (simp add: q_def)
  have "select_stack i b r = (if i = 0 then upd_bandstack b (\<lambda>s. s\<lparr>bs_current := n\<rparr>) q else q)"
    by (simp only: eq Let_def q_def)
  note eq' = this
  show "n < bs_entries (bandstack_get_bandstack b (select_stack i b r))"
    unfolding eq' using nq bands_upd_bandstack [OF l] by simp
  show "vfos_ok (select_stack i b r)"
    unfolding eq' using u bands_upd_bandstack_view [OF _ b nq] by (simp add: q_def [symmetric])
qed

lemma select_other:
  assumes "vfos_ok r" and "i < 2" and "b \<noteq> v_band (vfo r i)" and "b < 34"
  defines "n \<equiv> bs_current (bandstack_get_bandstack b r)"
  shows "select_stack i b r = upd_vfo i (\<lambda>v. v\<lparr>v_bandstack := n\<rparr>) r"
  using assms by (simp add: select_stack_def Let_def)

lemma vfos_ok_selected:
  assumes "vfos_ok r" and "i < 2" and "b < 34"
  shows "vfos_ok (loaded i b e (selected i b r))"
proof -
  define s where "s = (if i = 0 then vfo_save_bandstack r else r)"
  have s: "vfos_ok s" using assms(1) by (simp add: s_def vfos_ok_save)
  show ?thesis
  proof (cases "b = v_band (vfo s i)")
    case True
    note sel = select_same [OF s assms(2) True]
    show ?thesis
      unfolding loaded_def selected_def s_def [symmetric]
      using sel assms(3) by (intro vfos_ok_point) (auto intro: it_ok_point)
  next
    case False
    then have eq: "loaded i b e (selected i b r) = upd_vfo i (\<lambda>v. (load_entry e
       (v\<lparr>v_bandstack := bs_current (bandstack_get_bandstack b s)\<rparr>))\<lparr>v_band := b, v_lo := frequencyLO (band_get_band b s) + errorLO (band_get_band b s)\<rparr>) s"
      using select_other [OF s assms(2) _ assms(3)]
      by (simp add: loaded_def selected_def s_def [symmetric] upd_vfo_def band_get_band_def load_entry_def)
    show ?thesis
      unfolding eq using s assms(3) current_ok [OF s assms(3)]
      by (intro vfos_ok_point) (auto simp: it_ok_def)
  qed
qed

lemma vfos_ok_band_changed:
  assumes "vfos_ok r" and "i < 2" and "b < 34"
  shows "vfos_ok (vfo_id_band_changed i b r)"
proof (cases "is_remote r \<or> b \<noteq> v_band (vfo r i) \<and> band_unsuitable b r")
  case True
  then have "vfo_id_band_changed i b r \<in> {emit (Cmd (Send_band i b)) r, r}"
    unfolding vfo_id_band_changed_def by (auto simp: Let_def)
  then show ?thesis using assms(1) vfos_ok_basic(1) by auto
next
  case False
  then have "settled (vfo_id_band_changed i b r) (vfo_id_adjust_band i (entry_dial (selected_entry i b r))
      (loaded i b (selected_entry i b r) (selected i b r)))"
    by (intro band_changed_settled) auto
  then show ?thesis
    by (rule vfos_ok_settled) (intro vfos_ok_adjust vfos_ok_selected assms)
qed

lemma vfos_ok_bandstack_changed:
  assumes "vfos_ok r" and "i < 2" and "b < bs_entries (bandstack_get_bandstack (v_band (vfo r i)) r)"
  shows "vfos_ok (vfo_id_bandstack_changed i b r)"
proof -
  define bd where "bd = v_band (vfo r i)"
  define s where "s = (if i = 0 then upd_bandstack bd (\<lambda>s. s\<lparr>bs_current := b\<rparr>) (vfo_save_bandstack r) else r)"
  have bd: "bd < 34" "b < bs_entries (bandstack_get_bandstack bd r)"
    using assms by (auto simp: bd_def vfos_ok_def vfo_ok_def)
  have okr: "bands_ok r" "v_band (vfo r 0) < 34" using assms(1) by (auto simp: vfos_ok_def vfo_ok_def)
  note sv = save_bandstack [OF okr]
  have b': "b < bs_entries (bandstack_get_bandstack bd (vfo_save_bandstack r))"
    using bd by (auto simp: sv(4))
  have s: "vfos_ok s"
    unfolding s_def using bands_upd_bandstack_view [OF vfos_ok_save [OF assms(1)] bd(1) b'] assms(1) by simp
  have sb: "v_band (vfo s i) = bd" "b < bs_entries (bandstack_get_bandstack bd s)"
    using bd b' bands_upd_bandstack [of bd "vfo_save_bandstack r"] sv(1,3) okr(1)
    by (auto simp: s_def bd_def bands_ok_def)
  have eq: "vfo_id_bandstack_changed i b r =
    (if is_remote s then emit (Cmd (Send_bandstack (bs_current (bandstack_get_bandstack bd r)) b)) s
     else let e = stack_entry bd b s in vfo_vfos_changed (enter_entry i (v_mode (vfo r i)) e
       (upd_vfo i (\<lambda>v. (load_entry e v)\<lparr>v_bandstack := b\<rparr>) s)))"
    unfolding vfo_id_bandstack_changed_def Let_def bd_def s_def ..
  have p: "vfos_ok (upd_vfo i (\<lambda>v. (load_entry e v)\<lparr>v_bandstack := b\<rparr>) s)" for e
    using s sb bd by (intro vfos_ok_point) (auto intro: it_ok_point)
  show ?thesis
    unfolding eq Let_def
    using vfos_ok_basic(1) [OF s] vfos_ok_basic(11) [OF vfos_ok_settled [OF enter_entry_settled
        vfos_ok_adjust [OF p]]] by simp
qed

subsection \<open>Every operation keeps the invariant\<close>

lemma profiles_write_settled: "settled (r\<lparr>RXTXprofile := p\<rparr>) r"
  by (simp add: settled_def static_def)

lemmas vfos_ok_profiles = vfos_ok_settled [OF profiles_write_settled]

lemma it_ok_clamp: "\<bar>clamp_it x\<bar> \<le> 9999"
  by (simp add: clamp_it_def Let_def abs_le_iff)

lemma it_ok_fields [simp]:
  "it_ok (v\<lparr>v_mode := m\<rparr>) = it_ok v" "it_ok (v\<lparr>v_deviation := d\<rparr>) = it_ok v"
  "it_ok (v\<lparr>v_cwPeak := d\<rparr>) = it_ok v" "it_ok (v\<lparr>v_filter := f\<rparr>) = it_ok v"
  "it_ok (v\<lparr>v_frequency := d\<rparr>) = it_ok v" "it_ok (v\<lparr>v_ctun_frequency := d\<rparr>) = it_ok v"
  "it_ok (v\<lparr>v_ctun := c\<rparr>) = it_ok v" "it_ok (v\<lparr>v_offset := d\<rparr>) = it_ok v"
  "it_ok (v\<lparr>v_lo := d\<rparr>) = it_ok v" "it_ok (v\<lparr>v_step := d\<rparr>) = it_ok v"
  "it_ok (v\<lparr>v_rit_step := d\<rparr>) = it_ok v" "it_ok (v\<lparr>v_rit_enabled := c\<rparr>) = it_ok v"
  "it_ok (v\<lparr>v_xit_enabled := c\<rparr>) = it_ok v"
  by (simp_all add: it_ok_def)

text \<open>
  An operation is a chain of bindings and branches over steps that keep the invariant; the
  rules below follow its text.
\<close>

lemma vfos_ok_let:
  fixes e :: radio_state
  assumes "vfos_ok e" and "\<And>x. vfos_ok x \<Longrightarrow> vfos_ok (f x)"
  shows "vfos_ok (let x = e in f x)"
  using assms by simp

lemma vfos_ok_skip: "(\<And>x. vfos_ok (f x)) \<Longrightarrow> vfos_ok (let x = e in f x)"
  by simp

lemma vfos_ok_if: "(b \<Longrightarrow> vfos_ok x) \<Longrightarrow> (\<not> b \<Longrightarrow> vfos_ok y) \<Longrightarrow> vfos_ok (if b then x else y)"
  by simp

lemma vfos_ok_sat: "vfos_ok x \<Longrightarrow> vfos_ok y \<Longrightarrow> vfos_ok z \<Longrightarrow>
    vfos_ok (case m of SAT_NONE \<Rightarrow> x | SAT_MODE \<Rightarrow> y | RSAT_MODE \<Rightarrow> z)"
  by (cases m) simp_all

lemma vfos_ok_upd_rx: "vfos_ok r \<Longrightarrow> vfos_ok (upd_rx i g r)"
  by (rule vfos_ok_settled) (simp_all add: settled_def frame_simps)

lemmas vfos_intros = vfos_ok_let vfos_ok_skip vfos_ok_if vfos_ok_sat vfos_ok_basic vfos_ok_profiles
  vfos_ok_adjust vfos_ok_upd_rx vfos_ok_upd

lemma vfos_ok_rx_set_frequency: "vfos_ok r \<Longrightarrow> vfos_ok (rx_set_frequency i f r)"
  unfolding rx_set_frequency_def by (intro vfos_intros; simp)

lemma vfos_ok_set_dial: "vfos_ok r \<Longrightarrow> vfos_ok (set_dial i f r)"
  unfolding set_dial_def by (intro vfos_intros; simp)

lemma vfos_ok_sat_shift: "vfos_ok r \<Longrightarrow> vfos_ok (sat_shift src sid d r)"
  unfolding sat_shift_def sat_dial_def by (intro vfos_intros; simp)

lemma vfos_ok_sat_follow: "vfos_ok r \<Longrightarrow> vfos_ok (sat_follow src i d r)"
  unfolding sat_follow_def by (intro vfos_intros vfos_ok_sat_shift; simp)

lemma vfos_ok_moves:
  assumes "vfos_ok r"
  shows "vfos_ok (vfo_id_step i n r)" and "vfos_ok (vfo_id_move i hz rnd r)"
    and "vfos_ok (vfo_id_move_to i f rnd r)"
  unfolding vfo_id_step_def vfo_id_move_def vfo_id_move_to_def
  by (intro vfos_intros vfos_ok_sat_follow vfos_ok_set_dial assms; simp)+

lemma vfos_ok_rit_xit:
  assumes "vfos_ok r"
  shows "vfos_ok (vfo_id_rit_value i x r)" "vfos_ok (vfo_id_xit_value i x r)"
    "vfos_ok (vfo_id_rit_onoff i e r)" "vfos_ok (vfo_id_xit_onoff i e r)"
  unfolding vfo_id_rit_value_def vfo_id_xit_value_def vfo_id_rit_onoff_def vfo_id_xit_onoff_def
    Let_def [of "clamp_it x"]
  by (intro vfos_intros assms; simp add: it_ok_def it_ok_clamp)+

lemma vfos_ok_set_frequency: "vfos_ok r \<Longrightarrow> vfos_ok (vfo_id_set_frequency i f r)"
  unfolding vfo_id_set_frequency_def
  by (intro vfos_intros vfos_ok_rx_set_frequency; simp add: Let_def)

lemma vfos_ok_ctun: "vfos_ok r \<Longrightarrow> vfos_ok (vfo_id_ctun_update i state r)"
  unfolding vfo_id_ctun_update_def
  by (intro vfos_intros vfos_ok_rx_set_frequency; simp)

lemma vfos_ok_xvtr: "vfos_ok r \<Longrightarrow> vfos_ok (xvtr_check i run r)"
  unfolding xvtr_check_def
  by (intro vfos_intros vfos_ok_rx_set_frequency; simp)

lemma vfos_ok_fold: "vfos_ok r \<Longrightarrow> vfos_ok (fold rx_filter_changed is r)"
  by (rule fold_invariant_list) (auto intro: vfos_ok_basic)

lemma vfos_ok_settings:
  assumes "vfos_ok r"
  shows "vfos_ok (vfo_id_mode_changed i m r)" "vfos_ok (vfo_id_deviation_changed i d r)"
    "vfos_ok (vfo_id_cwpeak_changed i p r)" "vfos_ok (vfo_id_filter_changed i f r)"
    "vfos_ok (vfo_id_set_step_from_index i k r)" "vfos_ok (vfo_id_set_rit_step i s r)"
    "vfos_ok (vfo_xvtr_changed r)"
  unfolding vfo_id_mode_changed_def vfo_id_deviation_changed_def vfo_id_cwpeak_changed_def
    vfo_id_filter_changed_def vfo_id_set_step_from_index_def vfo_id_set_rit_step_def vfo_xvtr_changed_def
  by (intro vfos_intros vfos_ok_fold vfos_ok_xvtr assms; simp)+

text \<open>The stores that overwrite a whole VFO.\<close>

lemma vfos_ok_store:
  assumes "vfos_ok r" and "\<And>k. k < 2 \<Longrightarrow> v k \<in> {vfo r 0, vfo r 1}"
  shows "vfos_ok (r\<lparr>vfo := v\<rparr>)"
proof -
  have "vfo_ok k (r\<lparr>vfo := v\<rparr>) \<and> it_ok (v k)" if "k < 2" for k
    using assms(1) assms(2) [OF that]
    by (auto simp: vfos_ok_def vfo_ok_def bandstack_get_bandstack_def)
  then show ?thesis
    using assms(1) bands_ok_view [of "r\<lparr>vfo := v\<rparr>" r]
    by (simp add: vfos_ok_def stacks_distinct_def bandstack_get_bandstack_def)
qed

lemma vfos_ok_copies:
  assumes "vfos_ok r"
  shows "vfos_ok (vfo_a_to_b r)" "vfos_ok (vfo_b_to_a r)" "vfos_ok (vfo_a_swap_b r)"
  unfolding vfo_a_to_b_def vfo_b_to_a_def vfo_a_swap_b_def Let_def [of "vfo r 0"]
  by (intro vfos_intros vfos_ok_store assms; auto simp: less_2_cases_iff)+

subsection \<open>Reachable states\<close>

text \<open>One user action, CAT command or menu entry that acts on the VFOs.\<close>

inductive vfo_op :: "radio_state \<Rightarrow> radio_state \<Rightarrow> bool" where
  op_band: "i < 2 \<Longrightarrow> b < BANDS + XVTRS \<Longrightarrow> vfo_op r (vfo_id_band_changed i b r)"
| op_stack: "i < 2 \<Longrightarrow> b < bs_entries (bandstack_get_bandstack (v_band (vfo r i)) r) \<Longrightarrow>
    vfo_op r (vfo_id_bandstack_changed i b r)"
| op_mode: "vfo_op r (vfo_id_mode_changed i m r)"
| op_deviation: "vfo_op r (vfo_id_deviation_changed i d r)"
| op_cwpeak: "vfo_op r (vfo_id_cwpeak_changed i p r)"
| op_filter: "vfo_op r (vfo_id_filter_changed i f r)"
| op_a_to_b: "vfo_op r (vfo_a_to_b r)"
| op_b_to_a: "vfo_op r (vfo_b_to_a r)"
| op_swap: "vfo_op r (vfo_a_swap_b r)"
| op_step: "vfo_op r (vfo_id_step i n r)"
| op_move: "vfo_op r (vfo_id_move i hz rnd r)"
| op_move_to: "vfo_op r (vfo_id_move_to i f rnd r)"
| op_set_frequency: "vfo_op r (vfo_id_set_frequency i f r)"
| op_ctun: "vfo_op r (vfo_id_ctun_update i state r)"
| op_rit: "vfo_op r (vfo_id_rit_value i x r)"
| op_rit_onoff: "vfo_op r (vfo_id_rit_onoff i e r)"
| op_xit: "vfo_op r (vfo_id_xit_value i x r)"
| op_xit_onoff: "vfo_op r (vfo_id_xit_onoff i e r)"
| op_step_size: "vfo_op r (vfo_id_set_step_from_index i k r)"
| op_rit_step: "vfo_op r (vfo_id_set_rit_step i s r)"
| op_xvtr: "vfo_op r (vfo_xvtr_changed r)"

lemma vfo_op_ok: "vfo_op r r' \<Longrightarrow> vfos_ok r \<Longrightarrow> vfos_ok r'"
  by (induction rule: vfo_op.induct)
    (simp_all add: vfos_ok_band_changed vfos_ok_bandstack_changed vfos_ok_settings
      vfos_ok_copies vfos_ok_moves vfos_ok_set_frequency vfos_ok_ctun vfos_ok_rit_xit)

lemma init_names:
  "map (\<lambda>b. bs_entry (b_stack b)) init_bands =
     map (\<lambda>b. if b = band60 then Stack60_OTHER else StackOf b) [0..<34]"
  by (simp add: init_bands_def upt_rec)

lemma stack_name_init:
  "b < 34 \<Longrightarrow> bs_entry (b_stack (init_bands ! b)) = (if b = band60 then Stack60_OTHER else StackOf b)"
  using arg_cong [OF init_names, of "\<lambda>xs. xs ! b"] by (simp add: nth_append)

lemma vfos_ok_init:
  assumes "bands r = init_bands" and "stacks r = init_stacks"
    and "\<And>i. i < 2 \<Longrightarrow> \<exists>v. vfo r i = vfo_defaults r v"
  shows "vfos_ok r"
proof -
  have ok: "bands_ok r" by (rule bands_ok_init [OF assms(1,2)])
  have "stacks_distinct r"
    using stack_name_init by (auto simp: stacks_distinct_def bandstack_get_bandstack_def assms(1))
  moreover have "vfo_ok i r \<and> it_ok (vfo r i)" if i: "i < 2" for i
  proof -
    have b: "v_band (vfo r i) < 34" and n: "v_bandstack (vfo r i) = 0"
      and "it_ok (vfo r i)"
      using assms(3) [OF i] by (auto simp: vfo_defaults_def Let_def it_ok_def)
    moreover have "0 < bs_entries (bandstack_get_bandstack (v_band (vfo r i)) r)"
      using ok b by (auto simp: bands_ok_def stack_ok_def intro: le_less_trans)
    ultimately show ?thesis by (simp add: vfo_ok_def)
  qed
  ultimately show ?thesis using ok by (simp add: vfos_ok_def)
qed


text \<open>
  \<open>radio_change_region\<close> is not such an operation. It shortens the 60m band stack to one
  entry (region WRC15) but leaves a VFO that is on one of the other entries where it is: the
  next band change then stores through an index beyond the entries.
\<close>

lemma change_region_breaks_vfo:
  assumes "vfos_ok r" and "v_band (vfo r 0) = band60" and "0 < v_bandstack (vfo r 0)"
  shows "\<not> vfo_ok 0 (radio_change_region REGION_WRC15 r) \<and> bands_ok (radio_change_region REGION_WRC15 r)"
proof -
  have l: "length (bands r) = 34" using assms(1) by (simp add: vfos_ok_def bands_ok_def)
  have "v_bandstack (vfo (radio_change_region REGION_WRC15 r) 0) = v_bandstack (vfo r 0)"
    "v_band (vfo (radio_change_region REGION_WRC15 r) 0) = band60"
    "bs_entries (bandstack_get_bandstack band60 (radio_change_region REGION_WRC15 r)) = 1"
    using assms(2) l by (simp_all add: radio_change_region_def Let_def bands_upd_bandstack)
  then show ?thesis
    using assms(1,3) change_region_ok [of r] by (simp add: vfo_ok_def vfos_ok_def)
qed

end
