(* ===== verification/Vfo_Trips.thy ===== *)
theory Vfo_Trips
  imports Vfo_Bands
begin

text \<open>
  Round trips of the VFOs: leaving a band and coming back, exchanging the VFOs twice, switching
  CTUN on and off, choosing a step by its index, and the loops through the bands.
\<close>

subsection \<open>Leaving a band and coming back\<close>

text \<open>The dial fits the band it is on: no band check will move it.\<close>

definition dial_in_band :: "radio_state \<Rightarrow> bool" where
  "dial_in_band r \<longleftrightarrow> (let v = vfo r 0; bd = bands r ! v_band v in
     frequencyMin bd - 25000 \<le> dial v \<and> dial v \<le> frequencyMax bd + 25000)"

lemma edges_view:
  assumes "band_view r' = band_view r" and "b < length (bands r)"
  shows "frequencyMin (bands r' ! b) = frequencyMin (bands r ! b)"
    "frequencyMax (bands r' ! b) = frequencyMax (bands r ! b)"
    "frequencyLO (bands r' ! b) = frequencyLO (bands r ! b)"
    "errorLO (bands r' ! b) = errorLO (bands r ! b)"
    "b_title (bands r' ! b) = b_title (bands r ! b)"
  using band_viewD(3) [OF assms] by (simp_all add: row_view_def)

lemma edges_save:
  assumes "b < length (bands r)"
  shows "frequencyMin (bands (vfo_save_bandstack r) ! b) = frequencyMin (bands r ! b)"
    "frequencyMax (bands (vfo_save_bandstack r) ! b) = frequencyMax (bands r ! b)"
    "frequencyLO (bands (vfo_save_bandstack r) ! b) = frequencyLO (bands r ! b)"
    "errorLO (bands (vfo_save_bandstack r) ! b) = errorLO (bands r ! b)"
    "b_title (bands (vfo_save_bandstack r) ! b) = b_title (bands r ! b)"
proof -
  have "bands (vfo_save_bandstack r) ! b = (bands r ! b)\<lparr>b_stack := b_stack (bands (vfo_save_bandstack r) ! b)\<rparr>"
    using assms
    by (cases "b = v_band (vfo r 0)")
      (simp_all add: vfo_save_bandstack_def Let_def upd_bandstack_def upd_band_def)
  then obtain s where "bands (vfo_save_bandstack r) ! b = (bands r ! b)\<lparr>b_stack := s\<rparr>" by blast
  then show "frequencyMin (bands (vfo_save_bandstack r) ! b) = frequencyMin (bands r ! b)"
    "frequencyMax (bands (vfo_save_bandstack r) ! b) = frequencyMax (bands r ! b)"
    "frequencyLO (bands (vfo_save_bandstack r) ! b) = frequencyLO (bands r ! b)"
    "errorLO (bands (vfo_save_bandstack r) ! b) = errorLO (bands r ! b)"
    "b_title (bands (vfo_save_bandstack r) ! b) = b_title (bands r ! b)"
    by simp_all
qed

lemma stack_entry_view:
  assumes "band_view r' = band_view r" and "b < length (bands r)"
  shows "stack_entry b n r' = stack_entry b n r"
  using bandstack_view [OF assms] band_viewD(1) [OF assms(1)] by (simp add: stack_entry_def)

text \<open>The first half: VFO A goes from its band to another one.\<close>

lemma leave_band:
  assumes "vfos_ok r" and "\<not> is_remote r" and "b < 34" and "b \<noteq> v_band (vfo r 0)"
    and "\<not> band_unsuitable b r"
  defines "r' \<equiv> vfo_id_band_changed 0 b r"
  shows "band_view r' = band_view (vfo_save_bandstack r)" and "static r' = static r"
    and "v_band (vfo r' 0) = b \<or> v_band (vfo r' 0) = get_band_from_frequency (dial (vfo r' 0)) r"
proof -
  have ok: "bands_ok r" "v_band (vfo r 0) < 34" using assms(1) by (auto simp: vfos_ok_def vfo_ok_def)
  note sv = save_bandstack [OF ok]
  have s: "vfos_ok (vfo_save_bandstack r)" by (rule vfos_ok_save [OF assms(1)])
  have sel: "selected 0 b r = upd_vfo 0 (\<lambda>v. v\<lparr>v_bandstack :=
      bs_current (bandstack_get_bandstack b (vfo_save_bandstack r))\<rparr>) (vfo_save_bandstack r)"
    using select_other [OF s _ _ assms(3), of 0] assms(4) sv(1) by (simp add: selected_def)
  define e where "e = selected_entry 0 b r"
  have st: "settled r' (vfo_id_adjust_band 0 (entry_dial e) (loaded 0 b e (selected 0 b r)))"
    unfolding r'_def using assms(2,5) by (intro band_changed_settled) (auto simp: e_def)
  show v: "band_view r' = band_view (vfo_save_bandstack r)"
    using st by (simp add: settled_def loaded_def sel)
  show "static r' = static r"
    using st sv(2) by (simp add: settled_def loaded_def sel frame_simps)
  let ?l = "loaded 0 b e (selected 0 b r)"
  have "dial (vfo r' 0) = entry_dial e"
    using st by (simp add: settled_def dial_loaded)
  moreover have "v_band (vfo r' 0) = adj_band 0 (entry_dial e) ?l"
    using st by (simp add: settled_def vfo_adjust_band)
  moreover have "get_band_from_frequency f ?l = get_band_from_frequency f (vfo_save_bandstack r)" for f
    using ok(1) sv(3) by (intro get_band_view) (simp_all add: loaded_def sel frame_simps bands_ok_def)
  moreover have "get_band_from_frequency f (vfo_save_bandstack r) = get_band_from_frequency f r" for f
  proof -
    have "in_band f (bands (vfo_save_bandstack r) ! c) = in_band f (bands r ! c)" if "c < 34" for c
      using edges_save [of c r] that ok(1) by (simp add: in_band_def bands_ok_def)
    then have s: "search_bands f m n (vfo_save_bandstack r) = search_bands f m n r" if "n \<le> 34" for m n
      using that by (auto simp: search_bands_def intro!: find_cong)
    show ?thesis
      unfolding get_band_from_frequency_def staticD(9,10) [OF sv(2)] by (simp only: s)
  qed
  ultimately show "v_band (vfo r' 0) = b \<or> v_band (vfo r' 0) = get_band_from_frequency (dial (vfo r' 0)) r"
    by (simp add: adj_band_def Let_def loaded_def)
qed


subsection \<open>Exchanging the VFOs\<close>

text \<open>The identity of a VFO: everything but what a mode profile or an offset sets.\<close>

definition vfo_core :: "vfo \<Rightarrow> nat \<times> nat \<times> int \<times> bool \<times> mode \<times> int \<times> int \<times> int" where
  "vfo_core v = (v_band v, v_bandstack v, dial v, v_ctun v, v_mode v, v_lo v, v_rit v, v_xit v)"

lemma vfo_core_simps [simp]:
  "vfo_core (vfo (vfo_vfos_changed r) k) = vfo_core (vfo r k)"
  "vfo_core (vfo (profiles_load_rxtx_profile i r) k) = vfo_core (vfo r k)"
  by (simp_all add: vfo_core_def) (simp add: profile_vfo_def dial_def)

lemma static_copies [frame_simps]:
  "static (vfo_a_to_b r) = static r" "static (vfo_b_to_a r) = static r" "static (vfo_a_swap_b r) = static r"
  unfolding vfo_a_to_b_def vfo_b_to_a_def vfo_a_swap_b_def
  by (intro static_intros; simp add: frame_simps)+

lemma copies_core:
  assumes "\<not> is_remote r"
  shows "vfo_core (vfo (vfo_a_to_b r) k) = vfo_core (if k = 1 then vfo r 0 else vfo r k)"
    and "vfo_core (vfo (vfo_b_to_a r) k) = vfo_core (if k = 0 then vfo r 1 else vfo r k)"
    and "vfo_core (vfo (vfo_a_swap_b r) k) =
      vfo_core (if k = 0 then vfo r 1 else if k = 1 then vfo r 0 else vfo r k)"
  using assms by (simp_all add: vfo_a_to_b_def vfo_b_to_a_def vfo_a_swap_b_def Let_def del: vfo_profile)

text \<open>
  Exchanging the VFOs exchanges their bands, band stack entries, dials, modes, CTUN states,
  LO offsets, RIT and XIT, also when the mode profiles are loaded in between; doing it twice
  restores both, and copying A to B makes the two equal.
\<close>

lemma swap_twice:
  assumes "\<not> is_remote r"
  shows "vfo_core (vfo (vfo_a_swap_b (vfo_a_swap_b r)) k) = vfo_core (vfo r k)
    \<and> vfo_core (vfo (vfo_a_swap_b r) 0) = vfo_core (vfo r 1)
    \<and> vfo_core (vfo (vfo_a_to_b r) 1) = vfo_core (vfo (vfo_a_to_b r) 0)
    \<and> vfo_core (vfo (vfo_b_to_a (vfo_a_to_b r)) k) = vfo_core (vfo (vfo_a_to_b r) k)"
proof -
  have "\<not> is_remote (vfo_a_swap_b r)" "\<not> is_remote (vfo_a_to_b r)"
    using assms staticD(11) [of "vfo_a_swap_b r" r] staticD(11) [of "vfo_a_to_b r" r]
    by (simp_all add: frame_simps)
  then show ?thesis
    using assms by (simp add: copies_core)
qed

subsection \<open>Tuning steps by index\<close>

lemma steps_distinct: "distinct steps" "length steps = 17"
  by (simp_all add: steps_def)

lemma clamp_step_lt: "clamp_step k < 17"
  by (simp add: clamp_step_def Let_def nat_less_iff)

text \<open>
  After a step size is chosen by an index, the step index read back is that index, clamped
  to the table.
\<close>

lemma step_index_roundtrip:
  "vfo_id_get_stepindex i (vfo_id_set_step_from_index i k r) = clamp_step k
   \<and> v_step (vfo (vfo_id_set_step_from_index i k r) i) = vfo_get_step_from_index k"
proof -
  have v: "v_step (vfo (vfo_id_set_step_from_index i k r) i) = steps ! clamp_step k"
    by (simp add: vfo_id_set_step_from_index_def Let_def)
  have "List.find (\<lambda>n. steps ! n = steps ! clamp_step k) [0..<17] = Some (clamp_step k)"
    using steps_distinct clamp_step_lt [of k]
    by (auto simp: find_Some_iff nth_eq_iff_index_eq intro!: exI [of _ "clamp_step k"])
  then show ?thesis using v by (simp add: vfo_id_get_stepindex_def vfo_get_step_from_index_def)
qed

subsection \<open>Stepping through the bands\<close>

definition lands :: "nat \<Rightarrow> int \<Rightarrow> radio_state \<Rightarrow> bool" where
  "lands b f r \<longleftrightarrow> frequencyMin (bands r ! b) - 25000 \<le> f \<and> f \<le> frequencyMax (bands r ! b) + 25000
     \<or> get_band_from_frequency f r = b"

text \<open>The entries of every band stack tune to their band, and so does the dial.\<close>

definition entries_land :: "radio_state \<Rightarrow> bool" where
  "entries_land r \<longleftrightarrow> (\<forall>b < BANDS + XVTRS. b_title (bands r ! b) \<noteq> [] \<longrightarrow>
     (\<forall>n < bs_entries (bandstack_get_bandstack b r). lands b (entry_dial (stack_entry b n r)) r))"

lemma lands_cong:
  assumes "\<And>c. c < 34 \<Longrightarrow> in_band f (bands r' ! c) = in_band f (bands r ! c)"
    and "frequencyMin (bands r' ! b) = frequencyMin (bands r ! b)"
    and "frequencyMax (bands r' ! b) = frequencyMax (bands r ! b)" and "static r' = static r"
  shows "lands b f r' = lands b f r"
proof -
  have s: "search_bands f m n r' = search_bands f m n r" if "n \<le> 34" for m n
    using that assms(1) by (auto simp: search_bands_def intro!: find_cong)
  have "get_band_from_frequency f r' = get_band_from_frequency f r"
    unfolding get_band_from_frequency_def staticD(9,10) [OF assms(4)] by (simp only: s)
  then show ?thesis by (simp add: lands_def assms(2,3))
qed

lemma adj_band_lands: "lands (v_band (vfo r i)) f r \<Longrightarrow> adj_band i f r = v_band (vfo r i)"
  by (auto simp: lands_def adj_band_def Let_def)

text \<open>The entry a band change picks is an entry of that band, or the dial just saved there.\<close>

lemma stack_entry_saved:
  assumes "vfos_ok r" and "b < 34" and "n < bs_entries (bandstack_get_bandstack b r)"
  shows "stack_entry b n (vfo_save_bandstack r) = stack_entry b n r
    \<or> b = v_band (vfo r 0) \<and> stack_entry b n (vfo_save_bandstack r) = saved_entry r"
proof -
  have ok: "bands_ok r" "v_band (vfo r 0) < 34" using assms(1) by (auto simp: vfos_ok_def vfo_ok_def)
  note sv = save_bandstack [OF ok]
  have name: "bs_entry (bandstack_get_bandstack b (vfo_save_bandstack r)) = bs_entry (bandstack_get_bandstack b r)"
    by (simp add: sv(4))
  have len: "n < length (stacks r (bs_entry (bandstack_get_bandstack b r)))"
    using assms(2,3) ok(1) by (auto simp: bands_ok_def stack_ok_def intro: less_le_trans)
  show ?thesis
  proof (cases "b = v_band (vfo r 0)")
    case True
    then show ?thesis
      using len name
      by (cases "n = v_bandstack (vfo r 0)") (simp_all add: stack_entry_def sv(5) Let_def)
  next
    case False
    then have "bs_entry (bandstack_get_bandstack b r) \<noteq> bs_entry (bandstack_get_bandstack (v_band (vfo r 0)) r)"
      using assms(1,2) ok(2) by (simp add: vfos_ok_def stacks_distinct_def)
    then show ?thesis
      using name by (simp add: stack_entry_def sv(5) Let_def)
  qed
qed

lemma table_upd_vfo [simp]: "stacks (upd_vfo i g r) = stacks r" "bands (upd_vfo i g r) = bands r"
  by (simp_all add: upd_vfo_def)

lemma stack_entry_select:
  assumes "vfos_ok s" and "i < 2" and "b < 34"
  shows "stack_entry b n (select_stack i b s) = stack_entry b n s"
proof -
  have "b < length (bands s)" using assms by (simp add: vfos_ok_def bands_ok_def)
  then show ?thesis
    by (auto simp: select_stack_def Let_def stack_entry_def bands_upd_bandstack)
qed

lemma selected_entry_cases:
  assumes "vfos_ok r" and "i < 2" and "b < 34"
  obtains n where "n < bs_entries (bandstack_get_bandstack b r)" "selected_entry i b r = stack_entry b n r"
  | "b = v_band (vfo r i)" "selected_entry i b r = saved_entry r" "i = 0"
proof -
  define s where "s = (if i = 0 then vfo_save_bandstack r else r)"
  have ok: "bands_ok r" "v_band (vfo r 0) < 34" using assms(1) by (auto simp: vfos_ok_def vfo_ok_def)
  note sv = save_bandstack [OF ok]
  have s: "vfos_ok s" using assms(1) by (simp add: s_def vfos_ok_save)
  have vs: "vfo s = vfo r" by (simp add: s_def sv(1))
  have ent: "bs_entries (bandstack_get_bandstack b s) = bs_entries (bandstack_get_bandstack b r)"
    by (simp add: s_def sv(4))
  define n where "n = v_bandstack (vfo (select_stack i b s) i)"
  have n: "n < bs_entries (bandstack_get_bandstack b s)"
  proof (cases "b = v_band (vfo s i)")
    case True
    then show ?thesis
      using select_same(1) [OF s assms(2) True] s assms(2,3) ent
      by (auto simp: n_def vfos_ok_def vfo_ok_def)
  next
    case False
    then show ?thesis
      using select_other [OF s assms(2) False assms(3)] current_ok [OF s assms(3)] by (simp add: n_def)
  qed
  have e: "selected_entry i b r = stack_entry b n s"
    by (simp add: selected_entry_def selected_def s_def [symmetric] n_def stack_entry_select [OF s assms(2,3)])
  show ?thesis
  proof (cases "i = 0")
    case True
    then show ?thesis
      using stack_entry_saved [OF assms(1,3), of n] n ent that e by (auto simp: s_def)
  next
    case False
    then show ?thesis using that(1) [of n] n e by (simp add: s_def)
  qed
qed

lemma in_band_selected:
  assumes "vfos_ok r" and "i < 2" and "b < 34" and "c < 34"
  shows "frequencyMin (bands (selected i b r) ! c) = frequencyMin (bands r ! c)"
    "frequencyMax (bands (selected i b r) ! c) = frequencyMax (bands r ! c)"
    "b_title (bands (selected i b r) ! c) = b_title (bands r ! c)"
    "static (selected i b r) = static r"
proof -
  define s where "s = (if i = 0 then vfo_save_bandstack r else r)"
  have ok: "bands_ok r" "v_band (vfo r 0) < 34" using assms(1) by (auto simp: vfos_ok_def vfo_ok_def)
  have l: "c < length (bands r)" using ok(1) assms(4) by (simp add: bands_ok_def)
  note e = edges_save [OF l] and sv = save_bandstack [OF ok]
  have sel: "selected i b r = select_stack i b s" by (simp add: selected_def s_def)
  have u: "row_eq (bands (upd_bandstack d g q) ! c) (bands q ! c)"
    if "row_eq = (\<lambda>x y. frequencyMin x = frequencyMin y \<and> frequencyMax x = frequencyMax y \<and> b_title x = b_title y)"
      "c < length (bands q)" for d g q row_eq
    using that by (cases "c = d") (simp_all add: upd_bandstack_def upd_band_def)
  have ls: "c < length (bands s)" using l sv(3) by (simp add: s_def)
  have v: "bands (upd_vfo i g s) = bands s" for g by (simp add: upd_vfo_def)
  show "frequencyMin (bands (selected i b r) ! c) = frequencyMin (bands r ! c)"
    "frequencyMax (bands (selected i b r) ! c) = frequencyMax (bands r ! c)"
    "b_title (bands (selected i b r) ! c) = b_title (bands r ! c)"
    using u [OF refl, of "upd_vfo i g s" for g] ls e unfolding sel
    by (auto simp: select_stack_def Let_def v s_def)
  show "static (selected i b r) = static r"
    using sv(2) by (auto simp: sel select_stack_def Let_def frame_simps s_def)
qed

lemma band_changed_lands:
  assumes "vfos_ok r" and "i < 2" and "b < 34" and "\<not> is_remote r"
    and "b = v_band (vfo r i) \<or> \<not> band_unsuitable b r"
    and "\<And>n. n < bs_entries (bandstack_get_bandstack b r) \<Longrightarrow> lands b (entry_dial (stack_entry b n r)) r"
    and "b = v_band (vfo r i) \<Longrightarrow> lands b (dial (vfo r i)) r"
  shows "v_band (vfo (vfo_id_band_changed i b r) i) = b"
proof -
  define e where "e = selected_entry i b r"
  have lands: "lands b (entry_dial e) r"
    using selected_entry_cases [OF assms(1-3)] assms(6,7)
    by (cases rule: selected_entry_cases [OF assms(1-3)])
      (auto simp: e_def entry_dial_def dial_def)
  define l where "l = loaded i b e (selected i b r)"
  have lb: "bands l = bands (selected i b r)" by (simp add: l_def loaded_def upd_vfo_def)
  note is_eq = in_band_selected [OF assms(1-3)]
  have "static l = static r" using is_eq(4) [OF assms(3)] by (simp add: l_def loaded_def frame_simps)
  then have "lands b (entry_dial e) l"
    using lands is_eq assms(3) by (subst lands_cong [of _ l r]) (simp_all add: lb in_band_def)
  moreover have vb: "v_band (vfo l i) = b" by (simp add: l_def loaded_def)
  ultimately have "adj_band i (entry_dial e) l = b" using adj_band_lands [of l i] by simp
  then show ?thesis
    using band_changed_settled [OF assms(4,5) e_def]
    by (simp add: settled_def l_def [symmetric] vfo_adjust_band)
qed

lemma band_next_mod: "b < 34 \<Longrightarrow> band_next b = (b + 1) mod 34"
  by (cases "b = 33") (auto simp: band_next_def)

lemma band_next_pow: "b < 34 \<Longrightarrow> (band_next ^^ n) b = (b + n) mod 34"
  by (induction n) (simp_all add: band_next_mod mod_Suc_eq)

lemma band_prev_next: "b < 34 \<Longrightarrow> band_prev (band_next b) = b"
  by (auto simp: band_prev_def band_next_def)

lemma band_prev_pow: "b < 34 \<Longrightarrow> (band_prev ^^ n) ((band_next ^^ n) b) = b"
proof (induction n arbitrary: b)
  case (Suc n)
  have "(band_prev ^^ Suc n) ((band_next ^^ Suc n) b) = (band_prev ^^ n) (band_prev (band_next ((band_next ^^ n) b)))"
    by (simp add: funpow_swap1)
  also have "\<dots> = b"
    using Suc by (simp add: band_prev_next band_next_pow)
  finally show ?case .
qed simp

lemma band_cycle: "b < 34 \<Longrightarrow> (band_next ^^ 34) b = b" "b < 34 \<Longrightarrow> (band_prev ^^ 34) b = b"
  using band_next_pow [of b 34] band_prev_pow [of b 34] by simp_all

lemma band_loop_found:
  assumes "\<And>c. c < 34 \<Longrightarrow> b_title (bands r ! c) \<noteq> [] \<Longrightarrow>
      v_band (vfo (vfo_id_band_changed i c r) i) = c \<or> vfo_id_band_changed i c r = r \<and> c \<noteq> v_band (vfo r i)"
    and "b_title (bands r ! v_band (vfo r i)) \<noteq> []"
    and "\<And>c. c < 34 \<Longrightarrow> next c < 34" and "b < 34" and "(next ^^ Suc k) b = v_band (vfo r i)"
  shows "\<exists>c < 34. b_title (bands r ! c) \<noteq> [] \<and> v_band (vfo (vfo_id_band_changed i c r) i) = c
    \<and> band_loop next i b r = Some (vfo_id_band_changed i c r)"
  using assms(4,5)
proof (induction k arbitrary: b)
  case 0
  then have n: "next b = v_band (vfo r i)" by simp
  then have v: "v_band (vfo (vfo_id_band_changed i (next b) r) i) = next b"
    using assms(1) [of "next b"] assms(2) assms(3) [of b] 0 by auto
  have "band_loop next i b r = Some (vfo_id_band_changed i (next b) r)"
    using v n assms(2) by (subst band_loop.simps) (simp add: band_get_band_def)
  then show ?case using v n assms(2) assms(3) [of b] 0 by auto
next
  case (Suc k)
  have nb: "next b < 34" using assms(3) Suc.prems(1) by simp
  have IH: "\<exists>c < 34. b_title (bands r ! c) \<noteq> [] \<and> v_band (vfo (vfo_id_band_changed i c r) i) = c
      \<and> band_loop next i (next b) r = Some (vfo_id_band_changed i c r)"
    using Suc.prems(2) by (intro Suc.IH nb) (simp add: funpow_swap1)
  show ?case
  proof (cases "b_title (bands r ! next b) \<noteq> [] \<and> v_band (vfo (vfo_id_band_changed i (next b) r) i) = next b")
    case True
    then have "band_loop next i b r = Some (vfo_id_band_changed i (next b) r)"
      by (subst band_loop.simps) (simp add: band_get_band_def)
    then show ?thesis using True nb by blast
  next
    case False
    then have "b_title (bands r ! next b) \<noteq> [] \<Longrightarrow> vfo_id_band_changed i (next b) r = r \<and> v_band (vfo r i) \<noteq> next b"
      using assms(1) [OF nb] by auto
    then have "band_loop next i b r = band_loop next i (next b) r"
      by (subst band_loop.simps) (auto simp: band_get_band_def Let_def)
    then show ?thesis using IH by simp
  qed
qed

text \<open>
  C25. The loops of the band-up and band-down commands end on a local radio whose band stack
  entries tune to their own band: they stop at a band that has a title and that the VFO really
  switched to, and the result is that one band change.
\<close>

theorem band_plus_minus_end:
  assumes "vfos_ok r" and "i < 2" and "\<not> is_remote r" and "entries_land r"
    and "lands (v_band (vfo r i)) (dial (vfo r i)) r" and "b_title (bands r ! v_band (vfo r i)) \<noteq> []"
  shows "(\<exists>c < BANDS + XVTRS. b_title (bands r ! c) \<noteq> [] \<and> v_band (vfo (vfo_id_band_changed i c r) i) = c
      \<and> band_plus i r = Some (vfo_id_band_changed i c r))
    \<and> (\<exists>c < BANDS + XVTRS. b_title (bands r ! c) \<noteq> [] \<and> v_band (vfo (vfo_id_band_changed i c r) i) = c
      \<and> band_minus i r = Some (vfo_id_band_changed i c r))"
proof -
  have b: "v_band (vfo r i) < 34" using assms(1,2) by (simp add: vfos_ok_def vfo_ok_def)
  have step: "v_band (vfo (vfo_id_band_changed i c r) i) = c
      \<or> vfo_id_band_changed i c r = r \<and> c \<noteq> v_band (vfo r i)"
    if c: "c < 34" "b_title (bands r ! c) \<noteq> []" for c
  proof (cases "c = v_band (vfo r i) \<or> \<not> band_unsuitable c r")
    case True
    then have "v_band (vfo (vfo_id_band_changed i c r) i) = c"
      using assms(3-5) c by (intro band_changed_lands [OF assms(1,2) c(1)]) (auto simp: entries_land_def)
    then show ?thesis by simp
  next
    case False
    then show ?thesis using assms(3) by (simp add: vfo_id_band_changed_def Let_def)
  qed
  have cyc: "(band_next ^^ Suc 33) (v_band (vfo r i)) = v_band (vfo r i)"
    "(band_prev ^^ Suc 33) (v_band (vfo r i)) = v_band (vfo r i)"
    using band_cycle [OF b] by (simp_all del: funpow.simps)
  have lt: "c < 34 \<Longrightarrow> band_next c < 34" "c < 34 \<Longrightarrow> band_prev c < 34" for c
    by (auto simp: band_next_def band_prev_def)
  show ?thesis
    unfolding band_plus_def band_minus_def
    using band_loop_found [OF step assms(6) lt(1) b cyc(1)] band_loop_found [OF step assms(6) lt(2) b cyc(2)]
    by simp
qed

text \<open>
  CTUN can be switched on and off at any time without moving the dial, its mode, or the
  other VFO.
\<close>

lemma ctun_update_dial:
  assumes "i < 2" and "\<not> is_remote r"
  shows "dial (vfo (vfo_id_ctun_update i state r) i) = dial (vfo r i)
    \<and> v_ctun (vfo (vfo_id_ctun_update i state r) i) = state
    \<and> v_mode (vfo (vfo_id_ctun_update i state r) i) = v_mode (vfo r i)
    \<and> vfo (vfo_id_ctun_update i state r) (1 - i) = vfo r (1 - i)"
proof -
  have ne: "1 - i \<noteq> i" using assms(1) by (auto simp: less_2_cases_iff)
  show ?thesis
  proof (cases "v_ctun (vfo r i) = state")
    case True
    then show ?thesis using assms(2) by (simp add: vfo_id_ctun_update_def)
  next
    case False
    then show ?thesis
      using assms(2) ne
      by (cases state) (simp_all add: vfo_id_ctun_update_def Let_def rx_set_frequency_eq
          vfo_adjust_band dial_def new_offset_frequency)
  qed
qed

end
