(* ===== verification/Filter_Tables.thy ===== *)
theory Filter_Tables
  imports Radio_State
begin

text \<open>
  The filter tables of \<^verbatim>\<open>src/src/filter.c\<close>: twelve filters for each mode, the last two
  (Var1 and Var2) adjustable, with their default edges.
\<close>

definition flt :: "int \<Rightarrow> int \<Rightarrow> string \<Rightarrow> filter" where
  "flt lo hi t = \<lparr>f_low = lo, f_high = hi, f_title = t\<rparr>"

definition filterLSB :: "filter list" where
  "filterLSB = [
    flt (- 5150) (- 150) ''5.0k'',
    flt (- 4550) (- 150) ''4.4k'',
    flt (- 3950) (- 150) ''3.8k'',
    flt (- 3450) (- 150) ''3.3k'',
    flt (- 3050) (- 150) ''2.9k'',
    flt (- 2850) (- 150) ''2.7k'',
    flt (- 2550) (- 150) ''2.4k'',
    flt (- 2250) (- 150) ''2.1k'',
    flt (- 1950) (- 150) ''1.8k'',
    flt (- 1150) (- 150) ''1.0k'',
    flt (- 2850) (- 150) ''Var1'',
    flt (- 2850) (- 150) ''Var2'']"

definition filterUSB :: "filter list" where
  "filterUSB = [
    flt 150 5150 ''5.0k'',
    flt 150 4550 ''4.4k'',
    flt 150 3950 ''3.8k'',
    flt 150 3450 ''3.3k'',
    flt 150 3050 ''2.9k'',
    flt 150 2850 ''2.7k'',
    flt 150 2550 ''2.4k'',
    flt 150 2250 ''2.1k'',
    flt 150 1950 ''1.8k'',
    flt 150 1150 ''1.0k'',
    flt 150 2850 ''Var1'',
    flt 150 2850 ''Var2'']"

definition filterDIGL :: "filter list" where
  "filterDIGL = [
    flt (- 5000) 0 ''5.0k'',
    flt (- 4000) 0 ''4.0k'',
    flt (- 3000) 0 ''3.0k'',
    flt (- 2750) (- 250) ''2.5k'',
    flt (- 2500) (- 500) ''2.0k'',
    flt (- 2250) (- 750) ''1.5k'',
    flt (- 2000) (- 1000) ''1.0k'',
    flt (- 1875) (- 1125) ''750'',
    flt (- 1750) (- 1250) ''500'',
    flt (- 1625) (- 1375) ''250'',
    flt (- 3000) 0 ''Var1'',
    flt (- 3000) 0 ''Var2'']"

definition filterDIGU :: "filter list" where
  "filterDIGU = [
    flt 0 5000 ''5.0k'',
    flt 0 4000 ''4.0k'',
    flt 0 3000 ''3.0k'',
    flt 250 2750 ''2.5k'',
    flt 500 2500 ''2.0k'',
    flt 750 2250 ''1.5k'',
    flt 1000 2000 ''1.0k'',
    flt 1125 1875 ''750'',
    flt 1250 1750 ''500'',
    flt 1375 1625 ''250'',
    flt 0 3000 ''Var1'',
    flt 0 3000 ''Var2'']"

definition filterCWL :: "filter list" where
  "filterCWL = [
    flt (- 500) 500 ''1.0k'',
    flt (- 400) 400 ''800'',
    flt (- 375) 375 ''750'',
    flt (- 300) 300 ''600'',
    flt (- 250) 250 ''500'',
    flt (- 200) 200 ''400'',
    flt (- 125) 125 ''250'',
    flt (- 50) 50 ''100'',
    flt (- 25) 25 ''50'',
    flt (- 13) 13 ''25'',
    flt (- 125) 125 ''Var1'',
    flt (- 125) 125 ''Var2'']"

definition filterCWU :: "filter list" where
  "filterCWU = [
    flt (- 500) 500 ''1.0k'',
    flt (- 400) 400 ''800'',
    flt (- 375) 375 ''750'',
    flt (- 300) 300 ''600'',
    flt (- 250) 250 ''500'',
    flt (- 200) 200 ''400'',
    flt (- 125) 125 ''250'',
    flt (- 50) 50 ''100'',
    flt (- 25) 25 ''50'',
    flt (- 13) 13 ''25'',
    flt (- 125) 125 ''Var1'',
    flt (- 125) 125 ''Var2'']"

definition filterDSB :: "filter list" where
  "filterDSB = [
    flt (- 8000) 8000 ''16k'',
    flt (- 6000) 6000 ''12k'',
    flt (- 5000) 5000 ''10k'',
    flt (- 4000) 4000 ''8k'',
    flt (- 3300) 3300 ''6.6k'',
    flt (- 2600) 2600 ''5.2k'',
    flt (- 2000) 2000 ''4.0k'',
    flt (- 1550) 1550 ''3.1k'',
    flt (- 1450) 1450 ''2.9k'',
    flt (- 1200) 1200 ''2.4k'',
    flt (- 3300) 3300 ''Var1'',
    flt (- 3300) 3300 ''Var2'']"

definition filterAM :: "filter list" where
  "filterAM = [
    flt (- 8000) 8000 ''16k'',
    flt (- 6000) 6000 ''12k'',
    flt (- 5000) 5000 ''10k'',
    flt (- 4000) 4000 ''8k'',
    flt (- 3300) 3300 ''6.6k'',
    flt (- 2600) 2600 ''5.2k'',
    flt (- 2000) 2000 ''4.0k'',
    flt (- 1550) 1550 ''3.1k'',
    flt (- 1450) 1450 ''2.9k'',
    flt (- 1200) 1200 ''2.4k'',
    flt (- 3300) 3300 ''Var1'',
    flt (- 3300) 3300 ''Var2'']"

definition filterSAM :: "filter list" where
  "filterSAM = [
    flt (- 8000) 8000 ''16k'',
    flt (- 6000) 6000 ''12k'',
    flt (- 5000) 5000 ''10k'',
    flt (- 4000) 4000 ''8k'',
    flt (- 3300) 3300 ''6.6k'',
    flt (- 2600) 2600 ''5.2k'',
    flt (- 2000) 2000 ''4.0k'',
    flt (- 1550) 1550 ''3.1k'',
    flt (- 1450) 1450 ''2.9k'',
    flt (- 1200) 1200 ''2.4k'',
    flt (- 3300) 3300 ''Var1'',
    flt (- 3300) 3300 ''Var2'']"

definition filterSPEC :: "filter list" where
  "filterSPEC = [
    flt (- 8000) 8000 ''16k'',
    flt (- 6000) 6000 ''12k'',
    flt (- 5000) 5000 ''10k'',
    flt (- 4000) 4000 ''8k'',
    flt (- 3300) 3300 ''6.6k'',
    flt (- 2600) 2600 ''5.2k'',
    flt (- 2000) 2000 ''4.0k'',
    flt (- 1550) 1550 ''3.1k'',
    flt (- 1450) 1450 ''2.9k'',
    flt (- 1200) 1200 ''2.4k'',
    flt (- 3300) 3300 ''Var1'',
    flt (- 3300) 3300 ''Var2'']"

definition filterDRM :: "filter list" where
  "filterDRM = [
    flt (- 8000) 8000 ''16k'',
    flt (- 6000) 6000 ''12k'',
    flt (- 5000) 5000 ''10k'',
    flt (- 4000) 4000 ''8k'',
    flt (- 3300) 3300 ''6.6k'',
    flt (- 2600) 2600 ''5.2k'',
    flt (- 2000) 2000 ''4.0k'',
    flt (- 1550) 1550 ''3.1k'',
    flt (- 1450) 1450 ''2.9k'',
    flt (- 1200) 1200 ''2.4k'',
    flt (- 3300) 3300 ''Var1'',
    flt (- 3300) 3300 ''Var2'']"

definition filterFMN :: "filter list" where
  "filterFMN = [
    flt 0 0 ''FM'',
    flt 0 0 ''FM'',
    flt 0 0 ''FM'',
    flt 0 0 ''FM'',
    flt 0 0 ''FM'',
    flt 0 0 ''FM'',
    flt 0 0 ''FM'',
    flt 0 0 ''FM'',
    flt 0 0 ''FM'',
    flt 0 0 ''FM'',
    flt 0 0 ''FM'',
    flt 0 0 ''FM'']"

definition filters_table :: "mode \<Rightarrow> filter list" where
  "filters_table m = (case m of
     modeLSB \<Rightarrow> filterLSB
   | modeUSB \<Rightarrow> filterUSB
   | modeDSB \<Rightarrow> filterDSB
   | modeCWL \<Rightarrow> filterCWL
   | modeCWU \<Rightarrow> filterCWU
   | modeFMN \<Rightarrow> filterFMN
   | modeAM \<Rightarrow> filterAM
   | modeDIGU \<Rightarrow> filterDIGU
   | modeSPEC \<Rightarrow> filterSPEC
   | modeDIGL \<Rightarrow> filterDIGL
   | modeSAM \<Rightarrow> filterSAM
   | modeDRM \<Rightarrow> filterDRM)"

definition var_default_low :: "mode \<Rightarrow> int" where
  "var_default_low m = (case m of
     modeLSB \<Rightarrow> (- 2850)
   | modeUSB \<Rightarrow> 150
   | modeDSB \<Rightarrow> (- 3300)
   | modeCWL \<Rightarrow> (- 125)
   | modeCWU \<Rightarrow> (- 125)
   | modeFMN \<Rightarrow> 0
   | modeAM \<Rightarrow> (- 3300)
   | modeDIGU \<Rightarrow> 0
   | modeSPEC \<Rightarrow> (- 3300)
   | modeDIGL \<Rightarrow> (- 3000)
   | modeSAM \<Rightarrow> (- 3300)
   | modeDRM \<Rightarrow> (- 3300))"

definition var_default_high :: "mode \<Rightarrow> int" where
  "var_default_high m = (case m of
     modeLSB \<Rightarrow> (- 150)
   | modeUSB \<Rightarrow> 2850
   | modeDSB \<Rightarrow> 3300
   | modeCWL \<Rightarrow> 125
   | modeCWU \<Rightarrow> 125
   | modeFMN \<Rightarrow> 0
   | modeAM \<Rightarrow> 3300
   | modeDIGU \<Rightarrow> 3000
   | modeSPEC \<Rightarrow> 3300
   | modeDIGL \<Rightarrow> 0
   | modeSAM \<Rightarrow> 3300
   | modeDRM \<Rightarrow> 3300)"

end
