(* ===== verification/Sample_Radio.thy ===== *)
theory Sample_Radio
  imports Vfo Filter_Tables
begin

text \<open>
  A concrete radio: the state of the program after start on an Anan-10E like device that runs
  protocol 1, with two receivers at 384 kHz, a transmitter, the built-in band and filter tables
  and both VFOs at their defaults. The examples beside the properties run on it.
\<close>

definition sample_rx :: "nat \<Rightarrow> receiver" where
  "sample_rx i = \<lparr>rx_id = i, rx_adc = 0, rx_sample_rate = 384000, rx_filter_low = 475,
     rx_filter_high = 725, rx_deviation = 2500, rx_agc_fixed = False, rx_agc_gain = 80,
     rx_panlow = - 140, rx_panhigh = - 40, rx_panstep = 20, rx_notch_enable = (\<lambda>_. False),
     rx_notch_center = (\<lambda>_. 0), rx_notch_width = (\<lambda>_. 50), rx_notch_min_width = 25,
     rx_zoom = 1, rx_pan = 0, rx_samples = 0, rx_txrxmax = 0, rx_txrxcount = 0,
     rx_displaying = True\<rparr>"

definition sample_tx :: transmitter where
  "sample_tx = \<lparr>tx_filter_low = 150, tx_filter_high = 2850, tx_use_rx_filter = False,
     tx_ctcss_enabled = False, tx_ctcss = 11, tx_antenna = 0, tx_drive = 50, tx_tune_drive = 10,
     tx_tune_use_drive = False, tx_drive_level = 0, tx_drive_scale = 1, tx_drive_iscal = 1,
     tx_do_scale = False, tx_default_filter_low = 150, tx_default_filter_high = 2850,
     tx_deviation = 2500, tx_attenuation = 0, tx_tune = False, tx_twotone = False,
     tx_puresignal = False, tx_ps_oneshot = False, tx_cfc = False, tx_compressor = False,
     tx_out_of_band = False, tx_displaying = False\<rparr>"

definition sample_adc :: adc where
  "sample_adc = \<lparr>adc_antenna = 0, adc_attenuation = 0, adc_gain = 14, adc_dither = 0,
     adc_random = 0, adc_preamp = 0, adc_alex_attenuation = 0, adc_filter_bypass = False,
     adc_overload = False\<rparr>"

definition sample_profile :: rxtxprofile where
  "sample_profile = \<lparr>p_filter = 4, p_cwPeak = 0, p_rit_step = 10, p_step = 100,
     p_agc_fixed = False, p_use_rx_filter = False, p_default_filter_low = 150,
     p_default_filter_high = 2850\<rparr>"

text \<open>The value \<open>vfo_defaults\<close> gives both VFOs: 20m, CW, 14.010 MHz.\<close>

definition sample_vfo :: vfo where
  "sample_vfo = \<lparr>v_band = band20, v_bandstack = 0, v_frequency = 14010000, v_ctun = False,
     v_ctun_frequency = 0, v_rit_enabled = False, v_rit_step = 10, v_rit = 0,
     v_xit_enabled = False, v_xit = 0, v_lo = 0, v_offset = 0, v_mode = modeCWU, v_step = 100,
     v_filter = 4, v_deviation = 2500, v_cwPeak = 0\<rparr>"

definition radio0 :: radio_state where
  "radio0 = \<lparr>vfo = (\<lambda>_. sample_vfo), bands = init_bands, stacks = init_stacks,
     channels_60m = band_channels_60m_OTHER, region = REGION_OTHER, receiver = sample_rx,
     receivers = 2, active_id = 0, transmitter = Some sample_tx, adc = (\<lambda>_. sample_adc),
     RXTXprofile = (\<lambda>_. sample_profile), filters = filters_table,
     protocol = ORIGINAL_PROTOCOL, device = DEVICE_HERMES, filter_board = ALEX,
     radio_fmin = 0, radio_fmax = 61440000, is_remote = False, remoteclient_running = False,
     locked = False, split = False, duplex = False, diversity_enabled = False,
     sat_mode = SAT_NONE, tx_out_of_band_allowed = False, TxInhibit = False, mox = False,
     vox = False, have_rx_att = True, have_rx_gain = False, pa_enabled = True,
     atlas_penelope = False, drive_digi_max = 100, cw_sidetone = 600, cw_keyer_internal = True,
     pre_tune_mode = modeLSB, pre_tune_cw_internal = False, frequency_calibration = 0,
     vox_enabled = False, vox_triggered = False, vox_count = 0, vox_threshold = 0.001,
     vox_hang = 250, vox_min_hang = 0, vox_max1 = 0, capture_state = CAP_INIT,
     have_feedback = True, alex_forward_max = 0, full_tune = False, memory_tune = False,
     OCfull_tune_time = 2800, OCmemory_tune_time = 550, tune_timeout = 0, clock_ms = 0,
     suppress_popup_sliders = 0, out = []\<rparr>"

lemma radio0_simps [simp]:
  "vfo radio0 i = sample_vfo" "bands radio0 = init_bands" "stacks radio0 = init_stacks"
  "receiver radio0 = sample_rx" "receivers radio0 = 2" "active_id radio0 = 0"
  "transmitter radio0 = Some sample_tx" "filters radio0 = filters_table"
  "radio_fmin radio0 = 0" "radio_fmax radio0 = 61440000" "\<not> is_remote radio0" "\<not> locked radio0"
  "\<not> split radio0" "\<not> duplex radio0" "sat_mode radio0 = SAT_NONE" "\<not> TxInhibit radio0"
  "\<not> mox radio0" "\<not> vox radio0" "\<not> tx_out_of_band_allowed radio0" "cw_sidetone radio0 = 600"
  "protocol radio0 = ORIGINAL_PROTOCOL"
  by (simp_all add: radio0_def)

lemma radio0_defaults: "vfo radio0 = (\<lambda>i. vfo_defaults radio0 sample_vfo)"
  by (auto simp: sample_vfo_def vfo_defaults_def Let_def)

lemmas sample_defs = sample_vfo_def sample_tx_def sample_rx_def

end
