(* ===== verification/Vfo_Examples.thy ===== *)
theory Vfo_Examples
  imports Vfo_Trips Sample_Radio
begin


lemma step_on_grid_example:
  "grid_step 100 3 14010000 (dial (vfo (vfo_id_step 0 3 radio0) 0))"
  using step_on_grid [of 0 radio0 3] by (simp add: dial_def sample_defs)

text \<open>
  A radio with VFO A in CTUN mode: a step of 300 Hz is done, dragging it by 200 kHz would leave
  the spectrum of 384 kHz and is refused.
\<close>

definition radio_ctun :: radio_state where
  "radio_ctun = upd_vfo 0 (\<lambda>v. v\<lparr>v_ctun := True, v_ctun_frequency := 14010000\<rparr>) radio0"

theorem ctun_window_kept_example:
  "windows_ok (vfo_id_step 0 3 radio_ctun)
   \<and> v_ctun_frequency (vfo (vfo_id_step 0 3 radio_ctun) 0) = 14010300 \<and> v_frequency (vfo (vfo_id_step 0 3 radio_ctun) 0) = 14010000
   \<and> v_ctun_frequency (vfo (vfo_id_move 0 200000 False radio_ctun) 0) = 14010000"
  using ctun_window_kept [of 0 radio_ctun 3 200000 False 0]
  by (simp add: windows_ok_def fits_def in_window_def radio_ctun_def ctun_out_of_range_def leaves_spectrum_def tuned_to_def
      ROUND_def upd_vfo_def sample_defs)

lemma set_frequency_correct_example:
  "dial (vfo (vfo_id_set_frequency 1 7100000 radio0) 1) = 7100000
   \<and> vfo (vfo_id_set_frequency 1 7100000 radio0) 0 = sample_vfo"
  using set_frequency_correct [of 1 radio0 7100000] by simp


text \<open>A radio whose VFO A is on the third 60m entry.\<close>

definition radio60 :: radio_state where
  "radio60 = upd_vfo 0 (\<lambda>v. v\<lparr>v_band := band60, v_bandstack := 2, v_frequency := 5358500\<rparr>) radio0"

lemma vfos_ok_radio0: "vfos_ok radio0"
  by (rule vfos_ok_init) (auto simp: radio0_defaults)

lemma vfos_ok_radio60: "vfos_ok radio60"
proof -
  have b: "bands radio60 = init_bands" "stacks radio60 = init_stacks"
    by (simp_all add: radio60_def upd_vfo_def)
  have "vfo_ok i radio60 \<and> it_ok (vfo radio60 i)" if "i < 2" for i
    using that by (auto simp: less_2_cases_iff vfo_ok_def it_ok_def bandstack_get_bandstack_def b)
      (simp_all add: radio60_def sample_defs init_bands_def)
  moreover have "stacks_distinct radio60"
    using vfos_ok_radio0 by (simp add: vfos_ok_def stacks_distinct_def bandstack_get_bandstack_def b)
  ultimately show ?thesis using bands_ok_init [OF b] by (simp add: vfos_ok_def)
qed

lemma change_region_breaks_vfo_example: "\<not> vfo_ok 0 (radio_change_region REGION_WRC15 radio60)"
  using change_region_breaks_vfo [OF vfos_ok_radio60] by (simp add: radio60_def)

text \<open>The built-in band stack entries tune to their own bands.\<close>

lemma ham_entries_in_band:
  "list_all (\<lambda>bd. list_all (\<lambda>e. frequencyMin bd - 25000 \<le> entry_dial e \<and> entry_dial e \<le> frequencyMax bd + 25000)
     (init_stacks (bs_entry (b_stack bd)))) (take 22 init_bands)"
  by (simp add: init_bands_def init_stacks_def stack_tables entry_dial_def bse_def band_row_def)

lemma other_entries_out_of_band:
  "list_all (\<lambda>e. list_all (\<lambda>bd. \<not> in_band (entry_dial e) bd) init_bands \<and> near_wwv (entry_dial e))
     bandstack_entriesWWV"
  "list_all (\<lambda>e. list_all (\<lambda>bd. \<not> in_band (entry_dial e) bd) init_bands \<and> \<not> near_wwv (entry_dial e))
     bandstack_entriesGEN"
  by (simp_all add: init_bands_def stack_tables entry_dial_def bse_def band_row_def in_band_def near_wwv_def)

lemma get_band_other:
  assumes "list_all (\<lambda>bd. \<not> in_band f bd) init_bands"
  shows "get_band_from_frequency f radio0 = (if near_wwv f then bandWWV else bandGen)"
proof -
  have "search_bands f m n radio0 = None" if "n \<le> 34" for m n
    using assms that by (auto simp: search_bands_None list_all_length)
  then show ?thesis by (simp add: get_band_from_frequency_def)
qed

lemma entries_land_radio0: "entries_land radio0"
proof -
  have "lands b (entry_dial (stack_entry b n radio0)) radio0"
    if "b < 34" "b_title (init_bands ! b) \<noteq> []" "n < bs_entries (bandstack_get_bandstack b radio0)" for b n
  proof -
    let ?es = "init_stacks (bs_entry (b_stack (init_bands ! b)))"
    have b: "b < 24" using that(1,2) init_xvtr_unassigned [of b] by fastforce
    have n: "n < length ?es"
      using bands_ok_init [of radio0] that(1,3)
      by (auto simp: bands_ok_def stack_ok_def bandstack_get_bandstack_def intro: less_le_trans)
    have e: "stack_entry b n radio0 = ?es ! n"
      by (simp add: stack_entry_def bandstack_get_bandstack_def)
    consider "b < 22" | "b = 22" | "b = 23" using b by linarith
    then show ?thesis
    proof cases
      case 1
      then show ?thesis
        using ham_entries_in_band n unfolding e
        by (auto simp: list_all_length lands_def)
    next
      case 2
      then have es: "?es = bandstack_entriesWWV" by (simp add: init_bands_def init_stacks_def)
      then show ?thesis
        using n other_entries_out_of_band(1) 2 unfolding e es
        by (auto simp: list_all_length lands_def get_band_other)
    next
      case 3
      then have es: "?es = bandstack_entriesGEN" by (simp add: init_bands_def init_stacks_def)
      then show ?thesis
        using n other_entries_out_of_band(2) 3 unfolding e es
        by (auto simp: list_all_length lands_def get_band_other)
    qed
  qed
  then show ?thesis by (simp add: entries_land_def)
qed

lemma lands_20m: "lands band20 14010000 radio0"
  by (simp add: lands_def init_bands_def band_row_def)

lemma suitable: "\<not> band_unsuitable band40 radio0"
  by (simp add: band_unsuitable_def Let_def band_get_band_def bandstack_get_bandstack_def stack_entry_def
      init_bands_def init_stacks_def stack_tables bse_def band_row_def)

lemma on_40m: "v_band (vfo (vfo_id_band_changed 0 band40 radio0) 0) = band40"
proof (rule band_changed_lands [OF vfos_ok_radio0])
  show "lands band40 (entry_dial (stack_entry band40 n radio0)) radio0"
    if "n < bs_entries (bandstack_get_bandstack band40 radio0)" for n
    using entries_land_radio0 that
    by (simp add: entries_land_def init_bands_def band_row_def)
qed (simp_all add: suitable sample_defs)

theorem band_plus_minus_end_example:
  "\<exists>c < BANDS + XVTRS. band_plus 0 radio0 = Some (vfo_id_band_changed 0 c radio0)"
proof -
  have "b_title (bands radio0 ! band20) \<noteq> []" by (simp add: init_bands_def band_row_def)
  then show ?thesis
    using band_plus_minus_end [OF vfos_ok_radio0, of 0] entries_land_radio0 lands_20m
    by (auto simp: sample_vfo_def dial_def)
qed


theorem ctun_update_dial_example: "dial (vfo (vfo_id_ctun_update 0 True radio0) 0) = 14010000"
  using ctun_update_dial [of 0 radio0 True]
  by (simp add: sample_vfo_def) (simp add: dial_def)

theorem swap_twice_example:
  "v_band (vfo (vfo_a_swap_b (vfo_a_swap_b radio60)) 0) = band60"
  using swap_twice [of radio60 0] by (simp add: vfo_core_def) (simp add: radio60_def upd_vfo_def)

end
