(* ===== verification/TxSwitch.thy ===== *)
theory TxSwitch
  imports Vfo_Trips
begin

text \<open>
  The receive/transmit switch (\<open>rxtx\<close>, \<open>radio_set_mox\<close>, \<open>radio_set_vox\<close>,
  \<open>radio_set_tune\<close> and the callbacks of the remote client in \<^verbatim>\<open>src/src/radio.c\<close>,
  and the VOX part of \<open>tx_add_mic_sample\<close> in \<^verbatim>\<open>src/src/transmitter.c\<close>). The GTK
  calls that move the panels are left out; the radio is built without GPIO.
\<close>

abbreviation (input) "PS_TX_FEEDBACK \<equiv> 2 :: nat"
abbreviation (input) "PS_RX_FEEDBACK \<equiv> 3 :: nat"

definition vox_cancel :: "radio_state \<Rightarrow> radio_state" where
  "vox_cancel r = r\<lparr>vox_count := 0, vox_triggered := False\<rparr>"

definition tx_set_out_of_band :: "radio_state \<Rightarrow> radio_state" where
  "tx_set_out_of_band r = emit (Switch Out_of_band_timer)
     (emit Vfo_update (upd_tx (\<lambda>tx. tx\<lparr>tx_out_of_band := True\<rparr>) r))"

definition clear_out_of_band_warning :: "radio_state \<Rightarrow> radio_state" where
  "clear_out_of_band_warning r = emit Vfo_update (upd_tx (\<lambda>tx. tx\<lparr>tx_out_of_band := False\<rparr>) r)"

text \<open>The first part of \<open>rxtx\<close>: a running capture, transmission or replay is aborted.\<close>

definition abort_capture :: "radio_state \<Rightarrow> radio_state" where
  "abort_capture r = (case capture_state r of
     CAP_RECORDING \<Rightarrow> emit (Switch Schedule_capture) (r\<lparr>capture_state := CAP_RECORD_DONE\<rparr>)
   | CAP_XMIT \<Rightarrow> emit (Switch Schedule_capture) (r\<lparr>capture_state := CAP_XMIT_DONE\<rparr>)
   | CAP_REPLAY \<Rightarrow> emit (Switch Schedule_capture) (r\<lparr>capture_state := CAP_REPLAY_DONE\<rparr>)
   | _ \<Rightarrow> r)"

text \<open>One pass of the loops over the receivers.\<close>

definition silence_rx :: "nat \<Rightarrow> radio_state \<Rightarrow> radio_state" where
  "silence_rx i r = (
     let r = upd_rx i (\<lambda>rx. rx\<lparr>rx_displaying := False\<rparr>) r in
     if is_remote r then emit (Setting (Startstop_rxspectrum i False)) r
     else emit (Switch (Rx_set_displaying i False)) (emit (Switch (Rx_off i (i + 1 = receivers r))) r))"

definition resume_rx :: "nat \<Rightarrow> nat \<Rightarrow> radio_state \<Rightarrow> radio_state" where
  "resume_rx do_silence i r = (
     let r = upd_rx i (\<lambda>rx. rx\<lparr>rx_displaying := True\<rparr>) r in
     if is_remote r then emit (Setting (Startstop_rxspectrum i True)) r
     else upd_rx i (\<lambda>rx. rx\<lparr>rx_samples := 0,
            rx_txrxmax := (if do_silence \<noteq> 0 then rx_sample_rate rx div 2 ^ do_silence else 0),
            rx_txrxcount := 0\<rparr>)
          (emit (Switch (Rx_set_displaying i True)) (emit (Switch (Rx_on i)) r)))"

definition rxtx_on :: "transmitter \<Rightarrow> radio_state \<Rightarrow> radio_state" where
  "rxtx_on tx r = (
     let r = (if is_remote r then r else
           let r = (if have_feedback r
                then upd_rx PS_TX_FEEDBACK (\<lambda>x. x\<lparr>rx_samples := 0\<rparr>)
                       (upd_rx PS_RX_FEEDBACK (\<lambda>x. x\<lparr>rx_samples := 0\<rparr>) r) else r)
           in r\<lparr>alex_forward_max := 0\<rparr>);
         r = (if duplex r then r else fold silence_rx [0..<receivers r] r);
         r = upd_tx (\<lambda>t. t\<lparr>tx_displaying := True\<rparr>) r
     in if is_remote r then emit (Setting (Startstop_txspectrum True)) r else
        let r = (if tx_puresignal tx then emit (Switch (Tx_ps_mox True)) r else r);
            r = emit (Switch (Tx_set_displaying True)) (emit (Switch Tx_on) r)
        in if protocol r = SOAPYSDR_PROTOCOL then emit (Switch Soapy_rxtx) r else r)"

definition rxtx_off :: "transmitter \<Rightarrow> radio_state \<Rightarrow> radio_state" where
  "rxtx_off tx r = (
     let r = upd_tx (\<lambda>t. t\<lparr>tx_displaying := False\<rparr>) r;
         r = (if is_remote r then emit (Setting (Startstop_txspectrum False)) r else
              let r = (if tx_puresignal tx then emit (Switch (Tx_ps_mox False)) r else r);
                  r = emit (Switch (Tx_set_displaying False)) (emit (Switch Tx_off) r)
              in if protocol r = SOAPYSDR_PROTOCOL then emit (Switch Soapy_txrx) r else r)
     in if duplex r then r else
        let do_silence = (if is_remote r then 0
              else if tx_tune tx then 5
              else if vfo_get_tx_mode r = modeCWU \<or> vfo_get_tx_mode r = modeCWL then 0 else 5)
        in fold (resume_rx do_silence) [0..<receivers r] r)"

definition rxtx :: "bool \<Rightarrow> radio_state \<Rightarrow> radio_state" where
  "rxtx state r = (case transmitter r of
     None \<Rightarrow> r
   | Some tx \<Rightarrow>
     let r = (if is_remote r then r else abort_capture r)
     in if state then rxtx_on tx r else rxtx_off tx r)"

subsection \<open>TUNE\<close>

definition tune_timeouts :: "radio_state \<Rightarrow> radio_state" where
  "tune_timeouts r = (
     let r = (if full_tune r \<and> OCfull_tune_time r \<noteq> 0
              then r\<lparr>tune_timeout := clock_ms r + OCfull_tune_time r\<rparr> else r)
     in if memory_tune r \<and> OCmemory_tune_time r \<noteq> 0
        then r\<lparr>tune_timeout := clock_ms r + OCmemory_tune_time r\<rparr> else r)"

definition silence_for_tune :: "nat \<Rightarrow> radio_state \<Rightarrow> radio_state" where
  "silence_for_tune i r = schedule_high_priority (emit (Switch (Rx_set_displaying i False))
     (upd_rx i (\<lambda>rx. rx\<lparr>rx_displaying := False\<rparr>)
       (emit (Switch (Rx_off i (i + 1 = receivers r))) r)))"

text \<open>The two branches after the first \<open>schedule_high_priority\<close> of \<open>radio_set_tune\<close>.\<close>

definition tune_on :: "radio_state \<Rightarrow> radio_state" where
  "tune_on r = (
     let r = (if duplex r then r else fold silence_for_tune [0..<receivers r] r);
         txmode = vfo_get_tx_mode r;
         r = r\<lparr>pre_tune_mode := txmode, pre_tune_cw_internal := cw_keyer_internal r\<rparr>;
         r = emit (Switch (Tx_singletone True)) r;
         r = (if txmode = modeCWL then tx_set_mode modeLSB (r\<lparr>cw_keyer_internal := False\<rparr>)
              else if txmode = modeCWU then tx_set_mode modeUSB (r\<lparr>cw_keyer_internal := False\<rparr>)
              else r);
         r = upd_tx (\<lambda>tx. tx\<lparr>tx_tune := True\<rparr>) r
     in rxtx True (radio_calc_drive_level r))"

definition tune_off :: "transmitter \<Rightarrow> radio_state \<Rightarrow> radio_state" where
  "tune_off tx r = (
     let r = emit (Switch (Tx_singletone False)) r;
         r = rxtx False r;
         r = (if pre_tune_mode r = modeCWL \<or> pre_tune_mode r = modeCWU
              then (tx_set_mode (pre_tune_mode r) r)\<lparr>cw_keyer_internal := pre_tune_cw_internal r\<rparr> else r);
         r = (if tx_puresignal tx \<and> \<not> tx_ps_oneshot tx then emit (Switch Tx_ps_resume) r else r);
         r = emit (Switch (Tx_set_compressor (tx_cfc tx) (tx_compressor tx))) r
     in radio_calc_drive_level (upd_tx (\<lambda>t. t\<lparr>tx_tune := False\<rparr>) r))"

text \<open>Ending MOX or VOX before tuning, and what precedes the carrier.\<close>

definition stop_mox_vox :: "radio_state \<Rightarrow> radio_state" where
  "stop_mox_vox r = (if vox r \<or> mox r then (rxtx False r)\<lparr>vox := False, mox := False\<rparr> else r)"

definition tune_prepare :: "transmitter \<Rightarrow> radio_state \<Rightarrow> radio_state" where
  "tune_prepare tx r = (
     let r = emit (Switch (Tx_set_compressor False False)) r;
         r = (if tx_puresignal tx \<and> \<not> tx_ps_oneshot tx then emit (Switch Tx_ps_reset) r else r)
     in tune_timeouts r)"

definition tune_switch :: "bool \<Rightarrow> transmitter \<Rightarrow> radio_state \<Rightarrow> radio_state" where
  "tune_switch state tx r = (
     let r = stop_mox_vox (vox_cancel r);
         r = (if state then tune_prepare tx r else r);
         r = schedule_high_priority r
     in if state then tune_on r else tune_off tx r)"

definition radio_set_tune :: "bool \<Rightarrow> radio_state \<Rightarrow> radio_state" where
  "radio_set_tune state r = (
     if is_remote r then emit (Setting (Send_tune state)) r else
     case transmitter r of None \<Rightarrow> r | Some tx \<Rightarrow>
     if state \<and> TxInhibit r then r else
     let out_of_band = (state \<and> \<not> TransmitAllowed r);
         state = (state \<and> TransmitAllowed r);
         r = (if out_of_band then tx_set_out_of_band r else r);
         r = (if tx_tune tx \<noteq> state then tune_switch state tx r else r)
     in emit Vfo_update (schedule_receive_specific (schedule_transmit_specific (schedule_high_priority r))))"

definition radio_toggle_tune :: "radio_state \<Rightarrow> radio_state" where
  "radio_toggle_tune r = (
     if is_remote r then emit (Setting Send_toggle_tune) r else
     case transmitter r of None \<Rightarrow> r
     | Some tx \<Rightarrow> emit Vfo_update (radio_set_tune (\<not> tx_tune tx) r))"

subsection \<open>MOX and VOX\<close>

definition radio_set_mox :: "bool \<Rightarrow> radio_state \<Rightarrow> radio_state" where
  "radio_set_mox state r = (
     if is_remote r then emit (Setting (Send_mox state)) r else
     let r = (if remoteclient_running r then emit (Setting (Send_mox state)) r else r) in
     case transmitter r of None \<Rightarrow> r | Some tx \<Rightarrow>
     let out_of_band = (state \<and> \<not> TransmitAllowed r);
         state = (state \<and> TransmitAllowed r);
         r = (if out_of_band then tx_set_out_of_band r else r)
     in if state \<and> TxInhibit r then r else
        let r = (if tx_tune tx then radio_set_tune False r else r);
            r = vox_cancel r;
            r = (if state \<noteq> radio_is_transmitting r then rxtx state r else r);
            r = upd_tx (\<lambda>t. t\<lparr>tx_tune := False\<rparr>) (r\<lparr>mox := state, vox := False\<rparr>)
        in emit Vfo_update (schedule_receive_specific (schedule_high_priority r)))"

definition radio_set_vox :: "bool \<Rightarrow> radio_state \<Rightarrow> radio_state" where
  "radio_set_vox state r = (
     if is_remote r then emit (Setting (Send_vox state)) r else
     case transmitter r of None \<Rightarrow> r | Some tx \<Rightarrow>
     if mox r \<or> tx_tune tx then r else
     if state \<and> TxInhibit r then r else
     emit Vfo_update (if vox r \<noteq> state then
         let r = (if remoteclient_running r then emit (Setting (Send_vox state)) r else r);
             r = (rxtx state r)\<lparr>vox := state\<rparr>
         in schedule_receive_specific (schedule_high_priority r)
       else r))"

text \<open>What the client does when the server announces a change.\<close>

definition radio_client_set_vox :: "bool \<Rightarrow> radio_state \<Rightarrow> radio_state" where
  "radio_client_set_vox state r = (case transmitter r of None \<Rightarrow> r | Some _ \<Rightarrow>
     let r = (if state \<noteq> radio_is_transmitting r then rxtx state r else r)
     in emit Vfo_update (upd_tx (\<lambda>t. t\<lparr>tx_tune := False\<rparr>) (r\<lparr>mox := False, vox := state\<rparr>)))"

definition radio_client_set_mox :: "bool \<Rightarrow> radio_state \<Rightarrow> radio_state" where
  "radio_client_set_mox state r = (case transmitter r of None \<Rightarrow> r | Some _ \<Rightarrow>
     let r = (if state \<noteq> radio_is_transmitting r then rxtx state r else r);
         r = vox_cancel r
     in emit Vfo_update (upd_tx (\<lambda>t. t\<lparr>tx_tune := False\<rparr>) (r\<lparr>mox := state, vox := False\<rparr>)))"

definition radio_client_set_twotone :: "bool \<Rightarrow> radio_state \<Rightarrow> radio_state" where
  "radio_client_set_twotone state r = emit Vfo_update (upd_tx (\<lambda>t. t\<lparr>tx_twotone := state\<rparr>) r)"

definition radio_client_set_tune :: "bool \<Rightarrow> radio_state \<Rightarrow> radio_state" where
  "radio_client_set_tune state r = (case transmitter r of None \<Rightarrow> r | Some tx \<Rightarrow>
     emit Vfo_update (if state \<noteq> tx_tune tx then
         let r = stop_mox_vox (vox_cancel r)
         in upd_tx (\<lambda>t. t\<lparr>tx_tune := state\<rparr>) (rxtx state r)
       else r))"

text \<open>
  The VOX part of \<open>tx_add_mic_sample\<close>: one microphone sample. The call of
  \<open>radio_set_vox\<close> is queued for the GTK thread.
\<close>

definition vox_sample :: "real \<Rightarrow> radio_state \<Rightarrow> radio_state" where
  "vox_sample s r = (case transmitter r of None \<Rightarrow> r | Some tx \<Rightarrow>
     let txmode = vfo_get_tx_mode r;
         quiet = (tx_tune tx \<or> txmode = modeCWL \<or> txmode = modeCWU);
         s = (if quiet then 0 else s);
         r = (if quiet then r\<lparr>vox_triggered := False, vox_count := 0\<rparr> else r);
         amplitude = \<bar>s\<bar>;
         r = (if vox_max1 r \<le> amplitude then r\<lparr>vox_max1 := amplitude\<rparr> else r)
     in if \<not> vox_enabled r then r
        else if vox_threshold r \<le> amplitude then
          let r = (if \<not> vox_triggered r then (emit (Switch (Idle_set_vox True)) r)\<lparr>vox_triggered := True\<rparr> else r)
          in r\<lparr>vox_count := c_trunc ((if vox_min_hang r < vox_hang r then vox_hang r else vox_min_hang r) * 48)\<rparr>
        else if 0 < vox_count r then
          let r = r\<lparr>vox_count := vox_count r - 1\<rparr>
          in if vox_count r = 0
             then (emit (Switch (Idle_set_vox False)) r)\<lparr>vox_triggered := False\<rparr> else r
        else r)"

end
