(* ===== verification/TxSwitch_Facts.thy ===== *)
theory TxSwitch_Facts
  imports TxSwitch
begin

text \<open>
  What the receive/transmit switch guarantees: MOX, VOX and TUNE exclude each other, the
  transmitter runs exactly when one of them is set and the receivers exactly when it does not,
  a forbidden or inhibited transmission does not start, tuning restores the CW settings, and VOX
  hangs for the time set.
\<close>

subsection \<open>What the steps of the switch read and write\<close>

definition sw_view :: "radio_state \<Rightarrow> (bool \<times> bool) option \<times> (nat \<Rightarrow> bool)" where
  "sw_view r = (map_option (\<lambda>t. (tx_tune t, tx_displaying t)) (transmitter r),
     \<lambda>i. rx_displaying (receiver r i))"

lemmas sw_intros = frame_letI [where g = sw_view] frame_skipI [where g = sw_view]
  frame_ifI [where g = sw_view] frame_optionI [where g = sw_view] frame_pairI [where g = sw_view]

lemma sw_view_upd_tx:
  "(\<And>t. tx_tune (f t) = tx_tune t \<and> tx_displaying (f t) = tx_displaying t) \<Longrightarrow>
   sw_view (upd_tx f r) = sw_view r"
  by (cases "transmitter r") (simp_all add: sw_view_def upd_tx_def)

lemma sw_view_upd_rx:
  "(\<And>x. rx_displaying (f x) = rx_displaying x) \<Longrightarrow> sw_view (upd_rx i f r) = sw_view r"
  by (auto simp: sw_view_def upd_rx_def)

lemma sw_view_basic [simp]:
  "sw_view (emit e r) = sw_view r" "sw_view (schedule p r) = sw_view r"
  "sw_view (schedule_high_priority r) = sw_view r" "sw_view (schedule_general r) = sw_view r"
  "sw_view (schedule_receive_specific r) = sw_view r" "sw_view (schedule_transmit_specific r) = sw_view r"
  "sw_view (r\<lparr>RXTXprofile := p'\<rparr>) = sw_view r" "sw_view (r\<lparr>cw_keyer_internal := b\<rparr>) = sw_view r"
  "sw_view (r\<lparr>mox := b\<rparr>) = sw_view r" "sw_view (r\<lparr>vox := b\<rparr>) = sw_view r"
  "sw_view (r\<lparr>vox_count := n\<rparr>) = sw_view r" "sw_view (r\<lparr>vox_triggered := b\<rparr>) = sw_view r"
  "sw_view (r\<lparr>capture_state := c\<rparr>) = sw_view r" "sw_view (r\<lparr>alex_forward_max := n\<rparr>) = sw_view r"
  "sw_view (r\<lparr>pre_tune_mode := m\<rparr>) = sw_view r" "sw_view (r\<lparr>pre_tune_cw_internal := b\<rparr>) = sw_view r"
  "sw_view (r\<lparr>tune_timeout := n\<rparr>) = sw_view r"
  by (simp_all add: sw_view_def state_defs)

lemma drive_settings_view [simp]:
  "tx_tune (drive_settings level r t) = tx_tune t" "tx_displaying (drive_settings level r t) = tx_displaying t"
  by (simp_all add: drive_settings_def Let_def split: prod.split)

lemma sw_view_drive [simp]: "sw_view (radio_calc_drive_level r) = sw_view r"
  by (simp add: radio_calc_drive_level_def Let_def sw_view_upd_tx split: option.split)

lemma sw_view_set_drive [simp]: "sw_view (radio_set_drive v r) = sw_view r"
  unfolding radio_set_drive_def by (intro sw_intros; simp add: sw_view_upd_tx)

lemma sw_view_tx_filter [simp]: "sw_view (profiles_copy_rxtxprofile m r) = sw_view r"
  "sw_view (tx_set_filter r) = sw_view r"
proof -
  show c: "sw_view (profiles_copy_rxtxprofile m r) = sw_view r" for m r
    by (simp add: profiles_copy_rxtxprofile_def Let_def)
  show "sw_view (tx_set_filter r) = sw_view r"
    unfolding tx_set_filter_def by (intro sw_intros; simp add: sw_view_upd_tx c)
qed

lemma sw_view_tx_mode [simp]: "sw_view (tx_set_mode m r) = sw_view r"
  unfolding tx_set_mode_def by (intro sw_intros; simp)

lemma sw_view_small [simp]:
  "sw_view (vox_cancel r) = sw_view r" "sw_view (abort_capture r) = sw_view r"
  "sw_view (tune_timeouts r) = sw_view r" "sw_view (tx_set_out_of_band r) = sw_view r"
proof -
  show "sw_view (vox_cancel r) = sw_view r" by (simp add: vox_cancel_def sw_view_def)
  show "sw_view (abort_capture r) = sw_view r"
    by (simp add: abort_capture_def split: capture_state.split)
  show "sw_view (tune_timeouts r) = sw_view r"
    unfolding tune_timeouts_def by (intro sw_intros; simp)
  show "sw_view (tx_set_out_of_band r) = sw_view r"
    by (simp add: tx_set_out_of_band_def sw_view_upd_tx)
qed

text \<open>The flags and settings outside that view.\<close>

definition sw_flags :: "radio_state \<Rightarrow> bool \<times> bool \<times> bool \<times> bool \<times> nat" where
  "sw_flags r = (mox r, vox r, is_remote r, duplex r, receivers r)"

lemma sw_flags_static: "static r' = static r \<Longrightarrow> sw_flags r' = sw_flags r"
  by (simp add: sw_flags_def staticD(3) [of r' r] staticD(11) [of r' r] staticD(14) [of r' r]
      staticD(18) [of r' r] staticD(19) [of r' r])

lemmas flag_intros = frame_letI [where g = sw_flags] frame_skipI [where g = sw_flags]
  frame_ifI [where g = sw_flags] frame_optionI [where g = sw_flags] frame_pairI [where g = sw_flags]

lemma sw_flags_basic [simp]:
  "sw_flags (emit e r) = sw_flags r" "sw_flags (schedule p r) = sw_flags r"
  "sw_flags (schedule_high_priority r) = sw_flags r" "sw_flags (schedule_general r) = sw_flags r"
  "sw_flags (schedule_receive_specific r) = sw_flags r" "sw_flags (schedule_transmit_specific r) = sw_flags r"
  "sw_flags (upd_tx f r) = sw_flags r" "sw_flags (upd_rx i g r) = sw_flags r"
  "sw_flags (tx_set_mode m r) = sw_flags r" "sw_flags (radio_calc_drive_level r) = sw_flags r"
  by (rule sw_flags_static, simp add: frame_simps)+

lemma sw_flags_writes [simp]:
  "sw_flags (r\<lparr>cw_keyer_internal := b\<rparr>) = sw_flags r" "sw_flags (r\<lparr>vox_count := n\<rparr>) = sw_flags r"
  "sw_flags (r\<lparr>vox_triggered := b\<rparr>) = sw_flags r" "sw_flags (r\<lparr>capture_state := c\<rparr>) = sw_flags r"
  "sw_flags (r\<lparr>alex_forward_max := n\<rparr>) = sw_flags r" "sw_flags (r\<lparr>pre_tune_mode := m\<rparr>) = sw_flags r"
  "sw_flags (r\<lparr>pre_tune_cw_internal := b\<rparr>) = sw_flags r" "sw_flags (r\<lparr>tune_timeout := n\<rparr>) = sw_flags r"
  by (simp_all add: sw_flags_def)

lemma sw_flags_small [simp]:
  "sw_flags (vox_cancel r) = sw_flags r" "sw_flags (abort_capture r) = sw_flags r"
  "sw_flags (tune_timeouts r) = sw_flags r" "sw_flags (tx_set_out_of_band r) = sw_flags r"
proof -
  show "sw_flags (vox_cancel r) = sw_flags r" by (simp add: vox_cancel_def sw_flags_def)
  show "sw_flags (abort_capture r) = sw_flags r"
    by (simp add: abort_capture_def split: capture_state.split)
  show "sw_flags (tune_timeouts r) = sw_flags r"
    unfolding tune_timeouts_def by (intro flag_intros; simp)
  show "sw_flags (tx_set_out_of_band r) = sw_flags r" by (simp add: tx_set_out_of_band_def)
qed

subsection \<open>One transition\<close>

definition displays :: "bool \<Rightarrow> radio_state \<Rightarrow> nat \<Rightarrow> bool" where
  "displays b r = (\<lambda>i. if \<not> duplex r \<and> i < receivers r then b else snd (sw_view r) i)"

lemma sw_view_silence_rx:
  "sw_view (silence_rx i r) = (fst (sw_view r), (snd (sw_view r))(i := False))"
  "sw_view (silence_for_tune i r) = (fst (sw_view r), (snd (sw_view r))(i := False))"
  "sw_view (resume_rx n i r) = (fst (sw_view r), (snd (sw_view r))(i := True))"
  by (auto simp: silence_rx_def silence_for_tune_def resume_rx_def Let_def sw_view_def upd_rx_def
      emit_def schedule_def schedule_high_priority_def)

lemma sw_flags_rx [simp]:
  "sw_flags (silence_rx i r) = sw_flags r" "sw_flags (silence_for_tune i r) = sw_flags r"
  "sw_flags (resume_rx n i r) = sw_flags r"
  by (simp_all add: silence_rx_def silence_for_tune_def resume_rx_def Let_def)

lemma fold_displays:
  assumes "\<And>i r. sw_view (f i r) = (fst (sw_view r), (snd (sw_view r))(i := b))"
    and "\<And>i r. sw_flags (f i r) = sw_flags r"
  shows "sw_view (fold f [0..<n] r) = (fst (sw_view r), \<lambda>i. if i < n then b else snd (sw_view r) i)
    \<and> sw_flags (fold f [0..<n] r) = sw_flags r"
  by (induction n) (auto simp: assms fun_eq_iff less_Suc_eq)

lemmas fold_silence = fold_displays [of silence_rx False, OF sw_view_silence_rx(1) sw_flags_rx(1)]
lemmas fold_tune = fold_displays [of silence_for_tune False, OF sw_view_silence_rx(2) sw_flags_rx(2)]
lemmas fold_resume = fold_displays [of "resume_rx n" True for n, OF sw_view_silence_rx(3) sw_flags_rx(3)]

lemma sw_view_tx_displaying:
  "sw_view (upd_tx (\<lambda>t. t\<lparr>tx_displaying := b\<rparr>) r) =
     (map_option (\<lambda>p. (fst p, b)) (fst (sw_view r)), snd (sw_view r))"
  "sw_view (upd_tx (\<lambda>t. t\<lparr>tx_tune := b\<rparr>) r) =
     (map_option (\<lambda>p. (b, snd p)) (fst (sw_view r)), snd (sw_view r))"
  by (simp_all add: sw_view_def upd_tx_def option.map_comp comp_def)

lemma sw_flagsD:
  assumes "sw_flags r' = sw_flags r"
  shows "mox r' = mox r" "vox r' = vox r" "is_remote r' = is_remote r" "duplex r' = duplex r"
    "receivers r' = receivers r"
  using assms by (simp_all add: sw_flags_def)

text \<open>
  \<open>rxtx\<close> switches the transmitter, and the receivers the other way round unless the radio
  runs duplex; it leaves MOX, VOX and TUNE alone.
\<close>

lemma rxtx_on_view:
  "sw_flags (rxtx_on tx r) = sw_flags r \<and>
   sw_view (rxtx_on tx r) = (map_option (\<lambda>p. (fst p, True)) (fst (sw_view r)), displays False r)"
proof -
  define a where "a = (if is_remote r then r else
      let r = (if have_feedback r then upd_rx PS_TX_FEEDBACK (\<lambda>x. x\<lparr>rx_samples := 0\<rparr>)
        (upd_rx PS_RX_FEEDBACK (\<lambda>x. x\<lparr>rx_samples := 0\<rparr>) r) else r)
      in r\<lparr>alex_forward_max := 0\<rparr>)"
  define b where "b = (if duplex a then a else fold silence_rx [0..<receivers a] a)"
  define c where "c = upd_tx (\<lambda>t. t\<lparr>tx_displaying := True\<rparr>) b"
  have a: "sw_view a = sw_view r" "sw_flags a = sw_flags r"
    unfolding a_def by (intro sw_intros flag_intros; simp add: sw_view_upd_rx)+
  have b: "sw_view b = (fst (sw_view r), displays False r)" "sw_flags b = sw_flags r"
    using a fold_silence [of "receivers a" a] sw_flagsD [OF a(2)]
    by (auto simp: b_def displays_def sw_view_def)
  have c: "sw_view c = (map_option (\<lambda>p. (fst p, True)) (fst (sw_view r)), displays False r)"
    "sw_flags c = sw_flags r"
    using b by (simp_all add: c_def sw_view_tx_displaying)
  have "rxtx_on tx r = (if is_remote c then emit (Setting (Startstop_txspectrum True)) c else
        let r = (if tx_puresignal tx then emit (Switch (Tx_ps_mox True)) c else c);
            r = emit (Switch (Tx_set_displaying True)) (emit (Switch Tx_on) r)
        in if protocol r = SOAPYSDR_PROTOCOL then emit (Switch Soapy_rxtx) r else r)"
    by (simp only: rxtx_on_def Let_def c_def b_def a_def)
  then show ?thesis using c by (simp add: Let_def)
qed

lemma rxtx_off_view:
  "sw_flags (rxtx_off tx r) = sw_flags r \<and>
   sw_view (rxtx_off tx r) = (map_option (\<lambda>p. (fst p, False)) (fst (sw_view r)), displays True r)"
proof -
  define a where "a = upd_tx (\<lambda>t. t\<lparr>tx_displaying := False\<rparr>) r"
  define b where "b = (if is_remote a then emit (Setting (Startstop_txspectrum False)) a else
      let r = (if tx_puresignal tx then emit (Switch (Tx_ps_mox False)) a else a);
          r = emit (Switch (Tx_set_displaying False)) (emit (Switch Tx_off) r)
      in if protocol r = SOAPYSDR_PROTOCOL then emit (Switch Soapy_txrx) r else r)"
  have a: "sw_view a = (map_option (\<lambda>p. (fst p, False)) (fst (sw_view r)), snd (sw_view r))"
    "sw_flags a = sw_flags r"
    by (simp_all add: a_def sw_view_tx_displaying)
  have b: "sw_view b = sw_view a" "sw_flags b = sw_flags r"
    using a(2) by (simp_all add: b_def Let_def)
  obtain n where "rxtx_off tx r = (if duplex b then b else fold (resume_rx n) [0..<receivers b] b)"
    unfolding rxtx_off_def Let_def b_def a_def by blast
  then show ?thesis
    using a b fold_resume [of n "receivers b" b] sw_flagsD [OF b(2)]
    by (auto simp: displays_def sw_view_def)
qed

lemma rxtx_view:
  assumes "transmitter r \<noteq> None"
  shows "sw_flags (rxtx s r) = sw_flags r"
    and "sw_view (rxtx s r) = (map_option (\<lambda>p. (fst p, s)) (fst (sw_view r)), displays (\<not> s) r)"
proof -
  obtain tx where tx: "transmitter r = Some tx" using assms by auto
  define a where "a = (if is_remote r then r else abort_capture r)"
  have a: "sw_view a = sw_view r" "sw_flags a = sw_flags r" by (simp_all add: a_def)
  have d: "displays b a = displays b r" for b
    using a sw_flagsD [OF a(2)] by (auto simp: displays_def sw_view_def fun_eq_iff)
  have "rxtx s r = (if s then rxtx_on tx a else rxtx_off tx a)"
    by (simp add: rxtx_def tx a_def)
  then show "sw_flags (rxtx s r) = sw_flags r"
    "sw_view (rxtx s r) = (map_option (\<lambda>p. (fst p, s)) (fst (sw_view r)), displays (\<not> s) r)"
    using rxtx_on_view [of tx a] rxtx_off_view [of tx a] a d by auto
qed

subsection \<open>The abstract switch\<close>

datatype tx_state = Receiving | Sending_MOX | Sending_VOX | Tuning

definition abs_tx :: "radio_state \<Rightarrow> tx_state" where
  "abs_tx r = (if mox r then Sending_MOX else if vox r then Sending_VOX
     else if (\<exists>tx. transmitter r = Some tx \<and> tx_tune tx) then Tuning else Receiving)"

fun spec_mox :: "bool \<Rightarrow> bool \<Rightarrow> bool \<Rightarrow> tx_state \<Rightarrow> tx_state" where
  "spec_mox allowed inhibit s a =
     (if s \<and> allowed then if inhibit then a else Sending_MOX else Receiving)"

fun spec_vox :: "bool \<Rightarrow> bool \<Rightarrow> tx_state \<Rightarrow> tx_state" where
  "spec_vox inhibit s Sending_MOX = Sending_MOX"
| "spec_vox inhibit s Tuning = Tuning"
| "spec_vox inhibit s a = (if s then if inhibit then a else Sending_VOX else Receiving)"

fun spec_tune :: "bool \<Rightarrow> bool \<Rightarrow> bool \<Rightarrow> tx_state \<Rightarrow> tx_state" where
  "spec_tune allowed inhibit s a =
     (if s then if inhibit \<or> \<not> allowed \<and> a \<noteq> Tuning then a else if allowed then Tuning else Receiving
      else if a = Tuning then Receiving else a)"

text \<open>
  The states the switch can be in: the flags of state \<open>a\<close>, a transmitter that runs exactly
  in the sending states, and receivers that run exactly in the receiving state (or always, in
  duplex).
\<close>

definition tx_in :: "tx_state \<Rightarrow> radio_state \<Rightarrow> bool" where
  "tx_in a r \<longleftrightarrow> mox r = (a = Sending_MOX) \<and> vox r = (a = Sending_VOX)
     \<and> fst (sw_view r) = Some (a = Tuning, a \<noteq> Receiving)
     \<and> (\<not> duplex r \<longrightarrow> (\<forall>i < receivers r. snd (sw_view r) i = (a = Receiving)))"

lemma tx_in_transmitter: "tx_in a r \<Longrightarrow> transmitter r \<noteq> None"
  by (auto simp: tx_in_def sw_view_def)

lemma tx_in_abs: "tx_in a r \<Longrightarrow> abs_tx r = a"
  by (cases a) (auto simp: tx_in_def abs_tx_def sw_view_def)

lemma tx_in_tune: "tx_in a r \<Longrightarrow> transmitter r = Some tx \<Longrightarrow> tx_tune tx = (a = Tuning)"
  by (simp add: tx_in_def sw_view_def)

lemma tx_in_transmitting: "tx_in a r \<Longrightarrow> radio_is_transmitting r = (a \<noteq> Receiving)"
  by (cases a) (auto simp: tx_in_def sw_view_def radio_is_transmitting_def split: option.split)

lemma tx_in_same:
  assumes "sw_flags r' = sw_flags r" and "sw_view r' = sw_view r"
  shows "tx_in a r' = tx_in a r"
  using sw_flagsD [OF assms(1)] assms(2) by (simp add: tx_in_def)

lemma tx_in_simps [simp]:
  "tx_in a (emit e r) = tx_in a r" "tx_in a (vox_cancel r) = tx_in a r"
  "tx_in a (tx_set_out_of_band r) = tx_in a r" "tx_in a (schedule_high_priority r) = tx_in a r"
  "tx_in a (schedule_receive_specific r) = tx_in a r" "tx_in a (schedule_transmit_specific r) = tx_in a r"
  by (rule tx_in_same, simp, simp)+

text \<open>A transition of \<open>rxtx\<close> together with the flags that are set after it.\<close>

lemma tx_in_rxtx:
  assumes "tx_in a r" and "sw_view q = (map_option (\<lambda>p. (t, snd p)) (fst (sw_view (rxtx s r))), snd (sw_view (rxtx s r)))"
    and "mox q = (b = Sending_MOX)" and "vox q = (b = Sending_VOX)" and "t = (b = Tuning)"
    and "s = (b \<noteq> Receiving)" and "duplex q = duplex r" and "receivers q = receivers r"
  shows "tx_in b q"
  using assms rxtx_view [OF tx_in_transmitter [OF assms(1)], of s]
  by (auto simp: tx_in_def displays_def)

lemma displays_cong: "sw_flags q = sw_flags r \<Longrightarrow> snd (sw_view q) = snd (sw_view r) \<Longrightarrow> displays b q = displays b r"
  using sw_flagsD [of q r] by (simp add: displays_def)

lemma displays_twice: "sw_flags q = sw_flags r \<Longrightarrow> snd (sw_view q) = displays c r \<Longrightarrow> displays b q = displays b r"
  using sw_flagsD [of q r] by (simp add: displays_def)

lemma transmitter_view: "(transmitter r \<noteq> None) = (fst (sw_view r) \<noteq> None)"
  by (simp add: sw_view_def)

lemma sw_view_Some: "transmitter r \<noteq> None \<Longrightarrow> \<exists>t d. fst (sw_view r) = Some (t, d)"
  by (auto simp: sw_view_def)

lemma tune_on_view:
  assumes "transmitter r \<noteq> None"
  shows "sw_flags (tune_on r) = sw_flags r \<and> sw_view (tune_on r) = (Some (True, True), displays False r)"
proof -
  define a where "a = (if duplex r then r else fold silence_for_tune [0..<receivers r] r)"
  define m where "m = vfo_get_tx_mode a"
  define b where "b = emit (Switch (Tx_singletone True))
      (a\<lparr>pre_tune_mode := m, pre_tune_cw_internal := cw_keyer_internal a\<rparr>)"
  define c where "c = (if m = modeCWL then tx_set_mode modeLSB (b\<lparr>cw_keyer_internal := False\<rparr>)
      else if m = modeCWU then tx_set_mode modeUSB (b\<lparr>cw_keyer_internal := False\<rparr>) else b)"
  define q where "q = radio_calc_drive_level (upd_tx (\<lambda>tx. tx\<lparr>tx_tune := True\<rparr>) c)"
  have eq: "tune_on r = rxtx True q"
    by (simp only: tune_on_def Let_def a_def m_def b_def c_def q_def)
  have a: "fst (sw_view a) = fst (sw_view r)" "snd (sw_view a) = displays False r" "sw_flags a = sw_flags r"
    using fold_tune [of "receivers r" r] by (auto simp: a_def displays_def sw_view_def)
  have c: "sw_view c = sw_view a" "sw_flags c = sw_flags r"
    using a(3) by (simp_all add: c_def b_def)
  have q: "sw_view q = (map_option (\<lambda>p. (True, snd p)) (fst (sw_view r)), displays False r)" "sw_flags q = sw_flags r"
    using a c by (simp_all add: q_def sw_view_tx_displaying)
  obtain t d where td: "fst (sw_view r) = Some (t, d)" using sw_view_Some [OF assms] by blast
  then have "transmitter q \<noteq> None" using q(1) transmitter_view [of q] by simp
  moreover have "displays False q = displays False r" by (rule displays_twice [OF q(2)]) (simp add: q)
  ultimately show ?thesis
    using rxtx_view [of q True] q td by (simp add: eq)
qed

lemma tune_off_view:
  assumes "transmitter r \<noteq> None"
  shows "sw_flags (tune_off tx r) = sw_flags r \<and> sw_view (tune_off tx r) = (Some (False, False), displays True r)"
proof -
  define a where "a = rxtx False (emit (Switch (Tx_singletone False)) r)"
  define b where "b = (if pre_tune_mode a = modeCWL \<or> pre_tune_mode a = modeCWU
      then (tx_set_mode (pre_tune_mode a) a)\<lparr>cw_keyer_internal := pre_tune_cw_internal a\<rparr> else a)"
  define c where "c = (if tx_puresignal tx \<and> \<not> tx_ps_oneshot tx then emit (Switch Tx_ps_resume) b else b)"
  have eq: "tune_off tx r = radio_calc_drive_level (upd_tx (\<lambda>t. t\<lparr>tx_tune := False\<rparr>)
      (emit (Switch (Tx_set_compressor (tx_cfc tx) (tx_compressor tx))) c))"
    by (simp only: tune_off_def Let_def a_def b_def c_def)
  have t: "transmitter (emit e r) \<noteq> None" for e using assms by (simp add: emit_def)
  have d: "displays True (emit e r) = displays True r" for e by (rule displays_cong) simp_all
  have "sw_view c = sw_view a" "sw_flags c = sw_flags a" by (simp_all add: c_def b_def)
  then show ?thesis
    using rxtx_view [OF t, of False] sw_view_Some [OF assms]
    by (auto simp: eq a_def d sw_view_tx_displaying)
qed

lemma stop_mox_vox_in:
  assumes "tx_in a r"
  shows "tx_in (if a = Tuning then Tuning else Receiving) (stop_mox_vox (vox_cancel r))"
proof -
  have c: "tx_in a (vox_cancel r)" using assms by simp
  show ?thesis
  proof (cases "a = Sending_MOX \<or> a = Sending_VOX")
    case True
    have ne: "transmitter (vox_cancel r) \<noteq> None" by (rule tx_in_transmitter [OF c])
    note v = rxtx_view [OF ne, of False]
    have "stop_mox_vox (vox_cancel r) = (rxtx False (vox_cancel r))\<lparr>vox := False, mox := False\<rparr>"
      using True c by (auto simp: stop_mox_vox_def tx_in_def)
    then show ?thesis
      using True v sw_flagsD [OF v(1)] c by (auto simp: tx_in_def displays_def)
  next
    case False
    then have "stop_mox_vox (vox_cancel r) = vox_cancel r"
      using c by (auto simp: stop_mox_vox_def tx_in_def)
    then show ?thesis using False c by (cases a) auto
  qed
qed

lemma tx_in_of_view:
  assumes "sw_flags q = sw_flags c \<and> sw_view q = (Some (s, s), displays (\<not> s) c)" and "\<not> mox c" and "\<not> vox c"
  shows "tx_in (if s then Tuning else Receiving) q"
  using assms sw_flagsD [of q c] by (auto simp: tx_in_def displays_def)

lemma tune_switch_in:
  assumes "tx_in a r" and "state = (a \<noteq> Tuning)"
  shows "tx_in (if state then Tuning else Receiving) (tune_switch state tx r)"
proof -
  define b where "b = stop_mox_vox (vox_cancel r)"
  define c where "c = schedule_high_priority (if state then tune_prepare tx b else b)"
  have eq: "tune_switch state tx r = (if state then tune_on c else tune_off tx c)"
    by (simp only: tune_switch_def Let_def b_def c_def)
  have bi: "tx_in (if a = Tuning then Tuning else Receiving) b"
    unfolding b_def by (rule stop_mox_vox_in [OF assms(1)])
  have pv: "sw_view (tune_prepare tx b) = sw_view b" "sw_flags (tune_prepare tx b) = sw_flags b"
    by (simp_all add: tune_prepare_def Let_def)
  have "sw_view c = sw_view b" "sw_flags c = sw_flags b" using pv by (simp_all add: c_def)
  then have ci: "tx_in (if a = Tuning then Tuning else Receiving) c"
    using bi tx_in_same [of c b] by simp
  have ne: "transmitter c \<noteq> None" by (rule tx_in_transmitter [OF ci])
  have "\<not> mox c" "\<not> vox c" using ci by (auto simp: tx_in_def split: if_splits)
  then show ?thesis
    using tx_in_of_view [of "tune_on c" c True] tune_on_view [OF ne]
      tx_in_of_view [of "tune_off tx c" c False] tune_off_view [OF ne, of tx]
    by (simp add: eq)
qed

lemma allowed_emit [simp]: "TransmitAllowed (emit e r) = TransmitAllowed r"
  by (cases "transmitter r") (simp_all add: TransmitAllowed_def tx_edges_def vfo_get_tx_freq_def
      vfo_get_tx_mode_def vfo_get_tx_vfo_def band_get_band_def emit_def Let_def)

lemma set_tune_refines:
  assumes "tx_in a r" and "\<not> is_remote r"
  shows "tx_in (spec_tune (TransmitAllowed r) (TxInhibit r) s a) (radio_set_tune s r)"
proof -
  obtain tx where tx: "transmitter r = Some tx" using tx_in_transmitter [OF assms(1)] by auto
  have tune: "tx_tune tx = (a = Tuning)" by (rule tx_in_tune [OF assms(1) tx])
  define q where "q = (if s \<and> \<not> TransmitAllowed r then tx_set_out_of_band r else r)"
  define t where "t = (s \<and> TransmitAllowed r)"
  define u where "u = (if tx_tune tx \<noteq> t then tune_switch t tx q else q)"
  have qi: "tx_in a q" using assms(1) by (simp add: q_def)
  have eq: "radio_set_tune s r = (if s \<and> TxInhibit r then r else emit Vfo_update
      (schedule_receive_specific (schedule_transmit_specific (schedule_high_priority u))))"
    using assms(2) by (simp only: radio_set_tune_def tx option.simps if_False Let_def u_def q_def t_def)
  have "tx_in (if tx_tune tx \<noteq> t then if t then Tuning else Receiving else a) u"
    using tune_switch_in [OF qi, of t tx] qi tune by (auto simp: u_def)
  then show ?thesis
    using assms(1) tune by (auto simp: eq t_def)
qed

lemma set_mox_refines:
  assumes "tx_in a r" and "\<not> is_remote r"
  shows "tx_in (spec_mox (TransmitAllowed r) (TxInhibit r) s a) (radio_set_mox s r)"
proof -
  obtain tx where tx: "transmitter r = Some tx" using tx_in_transmitter [OF assms(1)] by auto
  have tune: "tx_tune tx = (a = Tuning)" by (rule tx_in_tune [OF assms(1) tx])
  define p where "p = (if remoteclient_running r then emit (Setting (Send_mox s)) r else r)"
  define q where "q = (if s \<and> \<not> TransmitAllowed p then tx_set_out_of_band p else p)"
  define t where "t = (s \<and> TransmitAllowed p)"
  define u where "u = (if tx_tune tx then radio_set_tune False q else q)"
  define v where "v = vox_cancel u"
  define w where "w = (if t \<noteq> radio_is_transmitting v then rxtx t v else v)"
  have p: "tx_in a p" "transmitter p = Some tx" "TransmitAllowed p = TransmitAllowed r"
    "TxInhibit p = TxInhibit r" "\<not> is_remote p"
    using assms tx by (simp_all add: p_def) (simp_all add: emit_def)
  have st: "static (tx_set_out_of_band p) = static p"
    by (simp add: tx_set_out_of_band_def frame_simps)
  have q: "tx_in a q" "TxInhibit q = TxInhibit r" "\<not> is_remote q"
    using p staticD(17) [OF st] staticD(11) [OF st] by (simp_all add: q_def)
  have eq: "radio_set_mox s r = (if t \<and> TxInhibit r then q else emit Vfo_update
      (schedule_receive_specific (schedule_high_priority
        (upd_tx (\<lambda>t. t\<lparr>tx_tune := False\<rparr>) (w\<lparr>mox := t, vox := False\<rparr>)))))"
    using assms(2) q(2) p(2) unfolding q_def t_def p_def
    by (simp only: radio_set_mox_def option.simps if_False Let_def w_def v_def u_def q_def t_def p_def)
  define b where "b = (if a = Tuning then Receiving else a)"
  have "tx_in b u"
    using set_tune_refines [OF q(1,3), of False] q(1) tune by (auto simp: u_def b_def)
  then have v: "tx_in b v" by (simp add: v_def)
  define c where "c = (if t then Sending_MOX else Receiving)"
  define x where "x = upd_tx (\<lambda>t. t\<lparr>tx_tune := False\<rparr>) (w\<lparr>mox := t, vox := False\<rparr>)"
  have x: "sw_view x = (map_option (\<lambda>p. (False, snd p)) (fst (sw_view w)), snd (sw_view w))"
    by (simp add: x_def sw_view_tx_displaying)
  have xf: "mox x = t" "vox x = False" "duplex x = duplex w" "receivers x = receivers w"
    by (simp_all add: x_def upd_tx_def)
  have "tx_in c x"
  proof (cases "t \<noteq> radio_is_transmitting v")
    case True
    then have w: "w = rxtx t v" by (simp add: w_def)
    note view = rxtx_view [OF tx_in_transmitter [OF v], of t]
    show ?thesis
      using v view sw_flagsD [OF view(1)] x xf
      by (auto simp: w tx_in_def c_def displays_def)
  next
    case False
    then have "w = v" "t = (b \<noteq> Receiving)" using tx_in_transmitting [OF v] by (auto simp: w_def)
    then show ?thesis
      using v x xf by (auto simp: tx_in_def c_def b_def)
  qed
  then show ?thesis
    using q(1) p(3) by (auto simp: eq x_def c_def t_def)
qed

lemma set_vox_refines:
  assumes "tx_in a r" and "\<not> is_remote r"
  shows "tx_in (spec_vox (TxInhibit r) s a) (radio_set_vox s r)"
proof -
  obtain tx where tx: "transmitter r = Some tx" using tx_in_transmitter [OF assms(1)] by auto
  have tune: "tx_tune tx = (a = Tuning)" by (rule tx_in_tune [OF assms(1) tx])
  define p where "p = (if remoteclient_running r then emit (Setting (Send_vox s)) r else r)"
  have p: "tx_in a p" using assms(1) by (simp add: p_def)
  note view = rxtx_view [OF tx_in_transmitter [OF p], of s]
  define x where "x = (rxtx s p)\<lparr>vox := s\<rparr>"
  have x: "sw_view x = sw_view (rxtx s p)" "vox x = s" "mox x = mox (rxtx s p)"
    "duplex x = duplex (rxtx s p)" "receivers x = receivers (rxtx s p)"
    by (simp_all add: x_def)
  have eq: "radio_set_vox s r = (if mox r \<or> tx_tune tx then r else if s \<and> TxInhibit r then r
      else emit Vfo_update (if vox r \<noteq> s then schedule_receive_specific (schedule_high_priority x) else r))"
    using assms(2) by (simp only: radio_set_vox_def tx option.simps if_False Let_def x_def p_def)
  have "tx_in (if s then Sending_VOX else Receiving) x" if "a \<noteq> Sending_MOX" "a \<noteq> Tuning"
    unfolding tx_in_def using p [unfolded tx_in_def] view x sw_flagsD [OF view(1)] that
    by (cases s) (simp_all add: displays_def)
  moreover have "mox r = (a = Sending_MOX)" "vox r = (a = Sending_VOX)" using assms(1) by (simp_all add: tx_in_def)
  ultimately show ?thesis
    unfolding eq using assms(1) tune by (cases a; cases s) simp_all
qed

lemma toggle_refines:
  assumes "tx_in a r" and "\<not> is_remote r"
  shows "tx_in (spec_tune (TransmitAllowed r) (TxInhibit r) (a \<noteq> Tuning) a) (radio_toggle_tune r)"
proof -
  obtain tx where tx: "transmitter r = Some tx" using tx_in_transmitter [OF assms(1)] by auto
  have tune: "tx_tune tx = (a = Tuning)" by (rule tx_in_tune [OF assms(1) tx])
  have "radio_toggle_tune r = emit Vfo_update (radio_set_tune (\<not> tx_tune tx) r)"
    using assms(2) by (simp add: radio_toggle_tune_def tx)
  then show ?thesis
    using set_tune_refines [OF assms, of "a \<noteq> Tuning"] tune by simp
qed

text \<open>
  C1. The switch of a local radio with a transmitter implements a machine with four states,
  receiving, MOX, VOX and TUNE, which exclude each other. In each of them the flags
  \<open>mox\<close>, \<open>vox\<close> and \<open>tune\<close>, the transmitter (running exactly when one of them is
  set) and the receivers (running exactly when the transmitter does not, or always in duplex)
  agree, and every command moves the machine as specified: MOX and TUNE only when transmitting
  is allowed, nothing starts while transmission is inhibited, a VOX event never interferes with
  MOX or TUNE.
\<close>

theorem tx_switch_refines:
  assumes "tx_in a r" and "\<not> is_remote r"
  shows "tx_in (spec_mox (TransmitAllowed r) (TxInhibit r) s a) (radio_set_mox s r)
    \<and> tx_in (spec_vox (TxInhibit r) s a) (radio_set_vox s r)
    \<and> tx_in (spec_tune (TransmitAllowed r) (TxInhibit r) s a) (radio_set_tune s r)
    \<and> tx_in (spec_tune (TransmitAllowed r) (TxInhibit r) (a \<noteq> Tuning) a) (radio_toggle_tune r)"
  using set_mox_refines [OF assms] set_vox_refines [OF assms] set_tune_refines [OF assms]
    toggle_refines [OF assms] by blast

text \<open>
  C2. A transmission that is not allowed (out of band, or no transmitter) or that is inhibited
  never starts by MOX or TUNE on a receiving radio, and VOX does not start an inhibited one.
\<close>

theorem tx_not_allowed:
  assumes "tx_in Receiving r" and "\<not> is_remote r" and "\<not> TransmitAllowed r \<or> TxInhibit r"
  shows "\<not> radio_is_transmitting (radio_set_mox s r) \<and> \<not> radio_is_transmitting (radio_set_tune s r)
    \<and> \<not> radio_is_transmitting (radio_toggle_tune r)
    \<and> (TxInhibit r \<longrightarrow> \<not> radio_is_transmitting (radio_set_vox s r))"
  using tx_in_transmitting [OF set_mox_refines [OF assms(1,2), of s]]
    tx_in_transmitting [OF set_tune_refines [OF assms(1,2), of s]]
    tx_in_transmitting [OF toggle_refines [OF assms(1,2)]]
    tx_in_transmitting [OF set_vox_refines [OF assms(1,2), of s]] assms(3)
  by (auto split: if_splits)

text \<open>
  C28. VOX is the exception: \<open>radio_set_vox\<close> does not ask \<open>TransmitAllowed\<close>, so a loud
  microphone starts a transmission outside the band.
\<close>

theorem vox_ignores_band_edges:
  assumes "tx_in Receiving r" and "\<not> is_remote r" and "\<not> TransmitAllowed r" and "\<not> TxInhibit r"
  shows "radio_is_transmitting (radio_set_vox True r) \<and> \<not> radio_is_transmitting (radio_set_mox True r)"
  using tx_in_transmitting [OF set_vox_refines [OF assms(1,2), of True]]
    tx_in_transmitting [OF set_mox_refines [OF assms(1,2), of True]] assms(3,4)
  by simp

subsection \<open>The remote client follows the server\<close>

lemma tx_in_send:
  assumes "sw_view x = (Some (False, s), d)" and "mox x = (s \<and> m)" and "vox x = (s \<and> \<not> m)"
    and "\<not> duplex x \<longrightarrow> (\<forall>i < receivers x. d i = (\<not> s))"
  shows "tx_in (if s then if m then Sending_MOX else Sending_VOX else Receiving) x"
  using assms by (cases s; cases m) (simp_all add: tx_in_def)

lemma client_set_refines:
  assumes "tx_in a r"
  shows "tx_in (if s then Sending_VOX else Receiving) (radio_client_set_vox s r)"
    and "tx_in (if s then Sending_MOX else Receiving) (radio_client_set_mox s r)"
proof -
  obtain tx where tx: "transmitter r = Some tx" using tx_in_transmitter [OF assms] by auto
  define w where "w = (if s \<noteq> radio_is_transmitting r then rxtx s r else r)"
  note view = rxtx_view [OF tx_in_transmitter [OF assms], of s]
  have w: "sw_flags w = sw_flags r"
    "fst (sw_view w) = Some (a = Tuning, s)" "\<not> duplex r \<longrightarrow> (\<forall>i < receivers r. snd (sw_view w) i = (\<not> s))"
    using assms view tx_in_transmitting [OF assms] by (auto simp: w_def tx_in_def displays_def)
  define x where "x = upd_tx (\<lambda>t. t\<lparr>tx_tune := False\<rparr>) (w\<lparr>mox := False, vox := s\<rparr>)"
  define y where "y = upd_tx (\<lambda>t. t\<lparr>tx_tune := False\<rparr>) ((vox_cancel w)\<lparr>mox := s, vox := False\<rparr>)"
  have eq: "radio_client_set_vox s r = emit Vfo_update x" "radio_client_set_mox s r = emit Vfo_update y"
    by (simp_all only: radio_client_set_vox_def radio_client_set_mox_def tx option.simps Let_def w_def x_def y_def)
  have x: "sw_view x = (Some (False, s), snd (sw_view w))" "mox x = False" "vox x = s"
    "duplex x = duplex w" "receivers x = receivers w"
    using w(2) by (simp add: x_def sw_view_tx_displaying) (simp_all add: x_def upd_tx_def)
  have y: "sw_view y = (Some (False, s), snd (sw_view w))" "mox y = s" "vox y = False"
    "duplex y = duplex w" "receivers y = receivers w"
    using w(2) by (simp add: y_def sw_view_tx_displaying) (simp_all add: y_def upd_tx_def vox_cancel_def)
  note wf = sw_flagsD(4,5) [OF w(1)]
  have xi: "\<not> duplex x \<longrightarrow> (\<forall>i < receivers x. snd (sw_view w) i = (\<not> s))"
    unfolding x(4,5) wf by (rule w(3))
  have yi: "\<not> duplex y \<longrightarrow> (\<forall>i < receivers y. snd (sw_view w) i = (\<not> s))"
    unfolding y(4,5) wf by (rule w(3))
  show "tx_in (if s then Sending_VOX else Receiving) (radio_client_set_vox s r)"
    unfolding eq tx_in_simps using tx_in_send [OF x(1) _ _ xi, of False] x(2,3) by (cases s) simp_all
  show "tx_in (if s then Sending_MOX else Receiving) (radio_client_set_mox s r)"
    unfolding eq tx_in_simps using tx_in_send [OF y(1) _ _ yi, of True] y(2,3) by (cases s) simp_all
qed

lemma client_tune_refines:
  assumes "tx_in a r"
  shows "tx_in (if s then Tuning else if a = Tuning then Receiving else a) (radio_client_set_tune s r)"
proof -
  obtain tx where tx: "transmitter r = Some tx" using tx_in_transmitter [OF assms] by auto
  have tune: "tx_tune tx = (a = Tuning)" by (rule tx_in_tune [OF assms tx])
  define w where "w = stop_mox_vox (vox_cancel r)"
  have w: "tx_in (if a = Tuning then Tuning else Receiving) w"
    unfolding w_def by (rule stop_mox_vox_in [OF assms])
  note view = rxtx_view [OF tx_in_transmitter [OF w], of s]
  define x where "x = upd_tx (\<lambda>t. t\<lparr>tx_tune := s\<rparr>) (rxtx s w)"
  have eq: "radio_client_set_tune s r = emit Vfo_update (if s \<noteq> tx_tune tx then x else r)"
    by (simp only: radio_client_set_tune_def tx option.simps Let_def w_def x_def)
  have x: "sw_view x = (Some (s, s), displays (\<not> s) w) \<and> sw_flags x = sw_flags w"
    using view w by (auto simp: x_def sw_view_tx_displaying tx_in_def)
  have "\<not> mox w" "\<not> vox w" using w by (auto simp: tx_in_def split: if_splits)
  then have "tx_in (if s then Tuning else Receiving) x"
    using tx_in_of_view [of x w s] x by blast
  then show ?thesis using assms tune by (auto simp: eq)
qed

text \<open>
  A remote client that is told of MOX, VOX and TUNE changes by the server keeps the same
  agreement of flags, transmitter and receivers, and ends in the announced state.
\<close>

lemma client_switch_follows:
  assumes "tx_in a r"
  shows "tx_in (if s then Sending_VOX else Receiving) (radio_client_set_vox s r)
    \<and> tx_in (if s then Sending_MOX else Receiving) (radio_client_set_mox s r)
    \<and> tx_in (if s then Tuning else if a = Tuning then Receiving else a) (radio_client_set_tune s r)"
  using client_set_refines [OF assms] client_tune_refines [OF assms] by blast

subsection \<open>VOX hang time\<close>

text \<open>\<open>n\<close> quiet microphone samples.\<close>

definition quiet_samples :: "nat \<Rightarrow> radio_state \<Rightarrow> radio_state" where
  "quiet_samples n = (vox_sample 0 ^^ n)"

definition vox_ready :: "radio_state \<Rightarrow> bool" where
  "vox_ready r \<longleftrightarrow> vox_enabled r \<and> 0 < vox_threshold r \<and> 0 \<le> vox_max1 r
     \<and> (\<exists>tx. transmitter r = Some tx \<and> \<not> tx_tune tx) \<and> \<not> is_cw (vfo_get_tx_mode r)"

lemma vox_sample_quiet:
  assumes "vox_ready r" and "0 < vox_count r"
  shows "vox_sample 0 r = (if vox_count r = 1
    then emit (Switch (Idle_set_vox False)) (r\<lparr>vox_count := 0, vox_triggered := False\<rparr>)
    else r\<lparr>vox_count := vox_count r - 1\<rparr>)"
proof -
  obtain tx where tx: "transmitter r = Some tx" "\<not> tx_tune tx" using assms(1) by (auto simp: vox_ready_def)
  have m: "(if vox_max1 r \<le> 0 then r\<lparr>vox_max1 := 0\<rparr> else r) = r"
  proof (cases "vox_max1 r \<le> 0")
    case True
    then have "vox_max1 r = 0" using assms(1) by (simp add: vox_ready_def)
    moreover have "r\<lparr>vox_max1 := vox_max1 r\<rparr> = r" by simp
    ultimately have "r\<lparr>vox_max1 := 0\<rparr> = r" by (simp only:)
    then show ?thesis by simp
  qed simp
  show ?thesis
    using assms tx m
    by (simp add: vox_sample_def vox_ready_def is_cw_def Let_def emit_def)
qed

lemma quiet_samples_out:
  assumes "vox_ready r" and "0 < vox_count r" and "int n < vox_count r"
  shows "quiet_samples n r = r\<lparr>vox_count := vox_count r - int n\<rparr>"
  using assms(3)
proof (induction n)
  case 0
  then show ?case by (simp add: quiet_samples_def)
next
  case (Suc n)
  then have IH: "quiet_samples n r = r\<lparr>vox_count := vox_count r - int n\<rparr>" by simp
  have "vox_ready (r\<lparr>vox_count := k\<rparr>)" for k
    using assms(1) by (simp add: vox_ready_def vfo_get_tx_mode_def vfo_get_tx_vfo_def)
  then show ?case
    using Suc.prems IH vox_sample_quiet [of "r\<lparr>vox_count := vox_count r - int n\<rparr>"]
    by (simp add: quiet_samples_def)
qed

text \<open>
  After the last loud microphone sample VOX hangs for exactly the time set: nothing is
  signalled during the first \<open>N - 1\<close> quiet samples, where \<open>N\<close> is 48 samples for each
  millisecond of the hang time (or of the minimum, if that is longer), and the \<open>N\<close>-th one
  ends the transmission, once.
\<close>

lemma vox_hang_time:
  assumes "vox_ready r" and "vox_threshold r \<le> \<bar>s\<bar>"
    and "N = c_trunc (max (vox_hang r) (vox_min_hang r) * 48)" and "0 < N" and "int n < N"
  shows "out (quiet_samples n (vox_sample s r)) = out (vox_sample s r)
    \<and> out (quiet_samples (nat N) (vox_sample s r)) = out (vox_sample s r) @ [Switch (Idle_set_vox False)]
    \<and> \<not> vox_triggered (quiet_samples (nat N) (vox_sample s r))"
proof -
  obtain tx where tx: "transmitter r = Some tx" "\<not> tx_tune tx" using assms(1) by (auto simp: vox_ready_def)
  define q where "q = vox_sample s r"
  have mx: "max (vox_hang r) (vox_min_hang r) = (if vox_min_hang r < vox_hang r then vox_hang r else vox_min_hang r)"
    by (simp add: max_def)
  have q: "vox_count q = N" "vox_enabled q = vox_enabled r" "vox_threshold q = vox_threshold r"
    "transmitter q = transmitter r" "vfo q = vfo r" "split q = split r" "active_id q = active_id r"
    "vox_max1 q = max (vox_max1 r) \<bar>s\<bar>"
    using assms(1,2) tx unfolding q_def assms(3) mx
    by (simp_all add: vox_sample_def vox_ready_def is_cw_def Let_def emit_def max_def)
  have ready: "vox_ready q"
    using assms(1) q by (auto simp: vox_ready_def vfo_get_tx_mode_def vfo_get_tx_vfo_def)
  have "out (quiet_samples n q) = out q"
    using quiet_samples_out [OF ready] q(1) assms(4,5) by simp
  moreover define m where "m = nat N - 1"
  have mN: "nat N = Suc m" "int m = N - 1" using assms(4) by (simp_all add: m_def)
  have u: "quiet_samples m q = q\<lparr>vox_count := 1\<rparr>"
    using quiet_samples_out [OF ready, of m] q(1) assms(4) mN(2) by simp
  have "vox_ready (q\<lparr>vox_count := 1\<rparr>)"
    using ready by (simp add: vox_ready_def vfo_get_tx_mode_def vfo_get_tx_vfo_def)
  then have "quiet_samples (nat N) q = emit (Switch (Idle_set_vox False)) (q\<lparr>vox_count := 0, vox_triggered := False\<rparr>)"
    using vox_sample_quiet [of "q\<lparr>vox_count := 1\<rparr>"] u by (simp add: mN(1) quiet_samples_def)
  then have "out (quiet_samples (nat N) q) = out q @ [Switch (Idle_set_vox False)]"
    "\<not> vox_triggered (quiet_samples (nat N) q)"
    by (simp_all add: emit_def)
  ultimately show ?thesis unfolding q_def by blast
qed

end
