(* ===== verification/Filters.thy ===== *)
theory Filters
  imports Filter_Tables Frame
begin

text \<open>
  The filter component (\<^verbatim>\<open>src/src/filter.c\<close>): the functions that move the edges of
  the receive filter, and the notches. The tables are in theory \<open>Filter_Tables\<close>. The lemmas
  show that the tables are consistent, that no operation turns a filter inside out, and what the
  four "changed" functions do to the CW filters.
\<close>

subsection \<open>Moving the edges\<close>

definition filter_edges_changed :: "nat \<Rightarrow> int \<Rightarrow> int \<Rightarrow> radio_state \<Rightarrow> radio_state" where
  "filter_edges_changed i low high r = (
     let m = v_mode (vfo r i); st = cw_sidetone r in
     if receivers r \<le> i \<or> m = modeFMN then r else
     let off = (if m = modeCWU then st else if m = modeCWL then - st else 0);
         r = upd_rx i (\<lambda>rx. rx\<lparr>rx_filter_low := low + off, rx_filter_high := high + off\<rparr>) r;
         r = (if is_remote r then emit (Cmd (Send_rx_filter_cut i)) r else
              let r = emit (Dsp (Rx_set_bandpass i (low + off) (high + off))) r;
                  r = emit (Dsp (Rx_set_agc i)) r
              in if m = modeCWL \<or> m = modeCWU
                 then emit (Dsp (Rx_set_cw_peak i (v_cwPeak (vfo r i)))) r else r)
     in emit Vfo_update r)"

definition filter_cut_default :: "nat \<Rightarrow> radio_state \<Rightarrow> radio_state" where
  "filter_cut_default i r = (
     let m = v_mode (vfo r i) in
     if receivers r \<le> i \<or> m = modeFMN then r else
     let f = filters r m ! v_filter (vfo r i)
     in filter_edges_changed i (f_low f) (f_high f) r)"

text \<open>
  The \<open>switch\<close> of each of the four functions as a function of the mode, the sidetone
  frequency \<open>st\<close>, the increment and the two edges.
\<close>

definition high_edges :: "mode \<Rightarrow> int \<Rightarrow> int \<Rightarrow> int \<times> int \<Rightarrow> int \<times> int" where
  "high_edges m st inc = (\<lambda>(low, high).
     if m = modeLSB \<or> m = modeDIGL then
       let low = low - inc * 25; low = (if 0 < low then 0 else low)
       in (if high < low then high else low, high)
     else if m = modeCWL then
       let low = low - inc * 5; low = (if - st < low then - st else low)
       in (if high < low then high else low, high)
     else if m = modeCWU then
       let high = high + inc * 5; high = (if high < st then st else high)
       in (low, if high < low then low else high)
     else
       let high = high + inc * (if m = modeUSB \<or> m = modeDIGU then 25 else 50);
           high = (if high < 0 then 0 else high)
       in (low, if high < low then low else high))"

definition low_edges :: "mode \<Rightarrow> int \<Rightarrow> int \<Rightarrow> int \<times> int \<Rightarrow> int \<times> int" where
  "low_edges m st inc = (\<lambda>(low, high).
     if m = modeLSB \<or> m = modeDIGL then
       let high = high - inc * 25; high = (if 0 < high then 0 else high)
       in (low, if high < low then low else high)
     else if m = modeCWL then
       let high = high - inc * 5; high = (if high < - st then - st else high)
       in (low, if high < low then low else high)
     else if m = modeCWU then
       let low = low + inc * 5; low = (if st < low then st else low)
       in (if high < low then high else low, high)
     else if m = modeUSB \<or> m = modeDIGU then
       let low = low + inc * 25; low = (if low < 0 then 0 else low)
       in (if high < low then high else low, high)
     else
       let low = low + inc * 50; low = (if 0 < low then 0 else low)
       in (if high < low then high else low, high))"

definition narrow :: "int \<times> int \<Rightarrow> int \<times> int" where
  "narrow = (\<lambda>(low, high). if high < low then (c_div (low + high) 2, c_div (low + high) 2) else (low, high))"

definition width_edges :: "mode \<Rightarrow> int \<Rightarrow> int \<times> int \<Rightarrow> int \<times> int" where
  "width_edges m inc = (\<lambda>(low, high).
     if m = modeDIGL \<and> high < - 500 then
       let low = low - inc * 13; high = high + inc * 12
       in (if high < low then high else low, high)
     else if m = modeDIGL \<or> m = modeLSB then
       let low = low - inc * 25 in (if high < low then high else low, high)
     else if m = modeDIGU \<and> 500 < low then
       let low = low - inc * 12; high = high + inc * 13
       in (low, if high < low then low else high)
     else if m = modeDIGU \<or> m = modeUSB then
       let high = high + inc * 25 in (low, if high < low then low else high)
     else if m = modeCWL \<or> m = modeCWU then narrow (low - inc * 5, high + inc * 5)
     else narrow (low - inc * 50, high + inc * 50))"

text \<open>\<open>fac\<close>, \<open>ref\<close> and \<open>sgn\<close> of \<open>filter_shift_changed\<close>.\<close>

definition shift_params :: "mode \<Rightarrow> int \<times> int \<times> int" where
  "shift_params m =
     (if m = modeLSB \<or> m = modeDIGL then (25, - 1500, - 1)
      else if m = modeUSB \<or> m = modeDIGU then (25, 1500, 1)
      else if m = modeCWL then (5, 0, - 1) else if m = modeCWU then (5, 0, 1) else (50, 0, 1))"

definition shift_edges :: "mode \<Rightarrow> int \<Rightarrow> int \<times> int \<Rightarrow> int \<times> int" where
  "shift_edges m inc = (\<lambda>(low, high).
     let (fac, ref, sgn) = shift_params m;
         mid = c_div (high + low) 2; wid = high - low;
         shft = mid - ref + inc * fac * sgn
     in (ref + shft - c_div wid 2, ref + shft + c_div wid 2))"

text \<open>What the four functions share: the guards, the edges read from the receiver, the slider.\<close>

definition edges_op :: "(mode \<Rightarrow> int \<Rightarrow> int \<times> int \<Rightarrow> int \<times> int) \<Rightarrow> nat \<Rightarrow> radio_state \<Rightarrow> radio_state" where
  "edges_op op i r = (
     let m = v_mode (vfo r i) in
     if receivers r \<le> i \<or> m = modeFMN then r else
     let rx = receiver r i;
         (low, high) = op m (cw_sidetone r) (rx_filter_low rx, rx_filter_high rx);
         r = filter_edges_changed i low high r
     in if suppress_popup_sliders r = 0 then emit Slider r else r)"

definition filter_high_changed :: "nat \<Rightarrow> int \<Rightarrow> radio_state \<Rightarrow> radio_state" where
  "filter_high_changed i inc r = (
     if receivers r \<le> i \<or> v_mode (vfo r i) = modeFMN then r
     else emit Vfo_update (edges_op (\<lambda>m st. high_edges m st inc) i r))"

definition filter_low_changed :: "nat \<Rightarrow> int \<Rightarrow> radio_state \<Rightarrow> radio_state" where
  "filter_low_changed i inc r = edges_op (\<lambda>m st. low_edges m st inc) i r"

definition filter_width_changed :: "nat \<Rightarrow> int \<Rightarrow> radio_state \<Rightarrow> radio_state" where
  "filter_width_changed i inc r = edges_op (\<lambda>m st. width_edges m inc) i r"

definition filter_shift_changed :: "nat \<Rightarrow> int \<Rightarrow> radio_state \<Rightarrow> radio_state" where
  "filter_shift_changed i inc r = edges_op (\<lambda>m st. shift_edges m inc) i r"

subsection \<open>Notches\<close>

definition notch_center_changed :: "nat \<Rightarrow> nat \<Rightarrow> int \<Rightarrow> radio_state \<Rightarrow> radio_state" where
  "notch_center_changed i pos val r = (
     if i < receivers r then emit (Switch (Rx_set_notch i)) (upd_rx i (\<lambda>rx. rx\<lparr>rx_notch_center :=
       (rx_notch_center rx)(pos := rx_notch_center rx pos + real_of_int val)\<rparr>) r) else r)"

definition notch_width_changed :: "nat \<Rightarrow> nat \<Rightarrow> int \<Rightarrow> radio_state \<Rightarrow> radio_state" where
  "notch_width_changed i pos val r = (
     if i < receivers r then
       let rx = receiver r i;
           w = rx_notch_width rx pos + real_of_int val;
           w = 25 * (w * 0.04);
           w = (if w < rx_notch_min_width rx then rx_notch_min_width rx else w)
       in emit (Switch (Rx_set_notch i))
            (upd_rx i (\<lambda>rx. rx\<lparr>rx_notch_width := (rx_notch_width rx)(pos := w)\<rparr>) r)
     else r)"

definition notch_enable_toggled :: "nat \<Rightarrow> nat \<Rightarrow> radio_state \<Rightarrow> radio_state" where
  "notch_enable_toggled i pos r = (
     if i < receivers r then emit (Switch (Rx_set_notch i)) (upd_rx i (\<lambda>rx. rx\<lparr>rx_notch_enable :=
       (rx_notch_enable rx)(pos := \<not> rx_notch_enable rx pos)\<rparr>) r) else r)"

subsection \<open>The tables\<close>

lemmas filter_tables = filters_table_def filterLSB_def filterUSB_def filterDSB_def filterCWL_def
  filterCWU_def filterFMN_def filterAM_def filterDIGU_def filterSPEC_def filterDIGL_def
  filterSAM_def filterDRM_def flt_def

definition all_modes :: "mode list" where
  "all_modes = [modeLSB, modeUSB, modeDSB, modeCWL, modeCWU, modeFMN, modeAM, modeDIGU, modeSPEC,
     modeDIGL, modeSAM, modeDRM]"

definition edge_pairs :: "mode \<Rightarrow> (int \<times> int) list" where
  "edge_pairs m = map (\<lambda>f. (f_low f, f_high f)) (filters_table m)"

definition mirrored :: "(int \<times> int) list \<Rightarrow> (int \<times> int) list" where
  "mirrored = map (\<lambda>(l, h). (- h, - l))"

lemma set_all_modes: "m \<in> set all_modes"
  by (cases m) (simp_all add: all_modes_def)

text \<open>
  The built-in filter table has 12 filters for each mode, none is inside out, the filters
  of the double-sideband modes and of CW are symmetric about zero, and the filters of LSB and
  DIGL are the mirror images of those of USB and DIGU.
\<close>

lemma filter_table_sound:
  "list_all (\<lambda>m. length (filters_table m) = FILTERS \<and> list_all (\<lambda>(l, h). l \<le> h) (edge_pairs m)) all_modes
   \<and> list_all (\<lambda>m. mirrored (edge_pairs m) = edge_pairs m)
       [modeCWL, modeCWU, modeDSB, modeAM, modeSAM, modeSPEC, modeDRM]
   \<and> mirrored (edge_pairs modeUSB) = edge_pairs modeLSB
   \<and> mirrored (edge_pairs modeDIGU) = edge_pairs modeDIGL"
  by (simp add: filter_tables all_modes_def edge_pairs_def mirrored_def)

subsection \<open>The edges of a running receiver\<close>

definition edges :: "nat \<Rightarrow> radio_state \<Rightarrow> int \<times> int" where
  "edges i r = (rx_filter_low (receiver r i), rx_filter_high (receiver r i))"

text \<open>The offset \<open>filter_edges_changed\<close> adds: the CW sidetone frequency.\<close>

definition cw_offset :: "nat \<Rightarrow> radio_state \<Rightarrow> int" where
  "cw_offset i r = (case v_mode (vfo r i) of modeCWU \<Rightarrow> cw_sidetone r
     | modeCWL \<Rightarrow> - cw_sidetone r | _ \<Rightarrow> 0)"

lemma receiver_emit [simp]: "receiver (emit e r) = receiver r"
  and receiver_upd_rx [simp]: "receiver (upd_rx i f r) = (receiver r)(i := f (receiver r i))"
  by (simp_all add: state_defs)

lemma edges_changed:
  assumes "i < receivers r" and "v_mode (vfo r i) \<noteq> modeFMN"
  shows "edges i (filter_edges_changed i low high r) = (low + cw_offset i r, high + cw_offset i r)"
    and "j \<noteq> i \<Longrightarrow> receiver (filter_edges_changed i low high r) j = receiver r j"
    and "suppress_popup_sliders (filter_edges_changed i low high r) = suppress_popup_sliders r"
  using assms by (simp_all add: filter_edges_changed_def edges_def cw_offset_def Let_def state_defs
      split: mode.split)

lemma edges_emit [simp]: "edges i (emit e r) = edges i r"
  by (simp add: edges_def)

lemma edges_op_edges:
  assumes "i < receivers r" and "v_mode (vfo r i) \<noteq> modeFMN"
    and "op (v_mode (vfo r i)) (cw_sidetone r) (edges i r) = (low, high)"
  shows "edges i (edges_op op i r) = (low + cw_offset i r, high + cw_offset i r)"
  using assms edges_changed(1) [OF assms(1,2)] by (simp add: edges_op_def edges_def Let_def)

lemma edges_op_guard: "\<not> (i < receivers r \<and> v_mode (vfo r i) \<noteq> modeFMN) \<Longrightarrow> edges_op op i r = r"
  by (auto simp: edges_op_def)

lemma high_ordered: "low \<le> high \<Longrightarrow> high_edges m st inc (low, high) = (l, h) \<Longrightarrow> l \<le> h"
  by (auto simp: high_edges_def Let_def split: if_splits)

lemma low_ordered: "low \<le> high \<Longrightarrow> low_edges m st inc (low, high) = (l, h) \<Longrightarrow> l \<le> h"
  by (auto simp: low_edges_def Let_def split: if_splits)

lemma width_ordered: "width_edges m inc (low, high) = (l, h) \<Longrightarrow> l \<le> h"
  by (auto simp: width_edges_def narrow_def Let_def split: if_splits)

lemma shift_ordered: "low \<le> high \<Longrightarrow> shift_edges m inc (low, high) = (l, h) \<Longrightarrow> l \<le> h"
  by (auto simp: shift_edges_def Let_def split: prod.splits)

definition ordered :: "int \<times> int \<Rightarrow> bool" where
  "ordered e \<longleftrightarrow> fst e \<le> snd e"

lemma edges_op_ordered:
  assumes "\<And>m st low high l h. low \<le> high \<Longrightarrow> op m st (low, high) = (l, h) \<Longrightarrow> l \<le> h"
    and "ordered (edges i r)"
  shows "ordered (edges i (edges_op op i r))"
proof (cases "i < receivers r \<and> v_mode (vfo r i) \<noteq> modeFMN")
  case True
  obtain l h where op: "op (v_mode (vfo r i)) (cw_sidetone r) (edges i r) = (l, h)"
    by fastforce
  then have "l \<le> h" using assms(1) [of "fst (edges i r)" "snd (edges i r)"] assms(2) by (simp add: ordered_def)
  then show ?thesis using edges_op_edges [where op = op, OF _ _ op] True by (simp add: ordered_def)
qed (use assms(2) edges_op_guard in auto)

text \<open>
  C29. Whatever the increments, changing the high or the low audio cut, the width or the shift
  never turns the filter of a receiver inside out.
\<close>

theorem filter_ops_ordered:
  assumes "ordered (edges i r)"
  shows "ordered (edges i (filter_high_changed i inc r)) \<and> ordered (edges i (filter_low_changed i inc r))
    \<and> ordered (edges i (filter_width_changed i inc r)) \<and> ordered (edges i (filter_shift_changed i inc r))"
proof -
  have "ordered (edges i (edges_op (\<lambda>m st. high_edges m st inc) i r))"
    "ordered (edges i (edges_op (\<lambda>m st. low_edges m st inc) i r))"
    "ordered (edges i (edges_op (\<lambda>m st. width_edges m inc) i r))"
    "ordered (edges i (edges_op (\<lambda>m st. shift_edges m inc) i r))"
    by (rule edges_op_ordered [OF _ assms], blast intro: high_ordered low_ordered width_ordered shift_ordered)+
  then show ?thesis
    using assms by (simp add: filter_high_changed_def filter_low_changed_def filter_width_changed_def
      filter_shift_changed_def)
qed

lemma static_filters [frame_simps]:
  "static (filter_edges_changed i low high r) = static r" "static (edges_op op i r) = static r"
proof -
  have e: "static (filter_edges_changed i low high r) = static r" for low high
    unfolding filter_edges_changed_def by (intro static_intros; simp add: frame_simps)
  then show "static (filter_edges_changed i low high r) = static r" .
  show "static (edges_op op i r) = static r"
    unfolding edges_op_def by (intro static_intros; simp add: frame_simps e)
qed

lemma vfo_filters [simp]:
  "vfo (filter_edges_changed i low high r) = vfo r" "vfo (edges_op op i r) = vfo r"
proof -
  have e: "vfo (filter_edges_changed i low high r) = vfo r" for low high
    unfolding filter_edges_changed_def by (intro vfo_intros; simp)
  then show "vfo (filter_edges_changed i low high r) = vfo r" .
  show "vfo (edges_op op i r) = vfo r"
    unfolding edges_op_def by (intro vfo_intros; simp add: e)
qed

lemma edges_cut_default:
  assumes "i < receivers r" and "v_mode (vfo r i) \<noteq> modeFMN"
  shows "edges i (filter_cut_default i r) = edges i (rx_set_filter i r)"
  using assms edges_changed(1) [OF assms]
  by (simp add: filter_cut_default_def rx_set_filter_def rx_filter_case_def Let_def cw_offset_def edges_def
      split: mode.split)

lemma edges_rx_set_filter:
  assumes "static q = static r" and "vfo q = vfo r" and "v_mode (vfo r i) \<noteq> modeFMN"
  shows "edges i (rx_set_filter i q) = edges i (rx_set_filter i r)"
  using assms(2,3) staticD(5,23) [OF assms(1)]
  by (simp add: rx_set_filter_def rx_filter_case_def Let_def edges_def split: mode.split)

text \<open>
  \<open>filter_cut_default\<close> undoes every temporary change: after any change of cut, width or
  shift it sets exactly the edges that selecting the filter of the VFO sets.
\<close>

lemma filter_cut_default_nominal:
  assumes "i < receivers r" and "v_mode (vfo r i) \<noteq> modeFMN"
  shows "edges i (filter_cut_default i (edges_op op i r)) = edges i (rx_set_filter i r)"
proof -
  have s: "static (edges_op op i r) = static r" by (simp add: frame_simps)
  have "edges i (filter_cut_default i (edges_op op i r)) = edges i (rx_set_filter i (edges_op op i r))"
    using assms staticD(3) [OF s] by (intro edges_cut_default) simp_all
  also have "\<dots> = edges i (rx_set_filter i r)"
    using assms(2) by (intro edges_rx_set_filter [OF s]) simp_all
  finally show ?thesis .
qed

text \<open>
  In the CW modes the edges of the receiver already contain the sidetone frequency, and
  \<open>filter_edges_changed\<close> adds it again: changing width or shift by zero moves the whole
  passband by the sidetone frequency, while in every other mode width zero changes nothing.
\<close>

lemma cw_filter_drift:
  assumes "i < receivers r" and "v_mode (vfo r i) \<noteq> modeFMN" and "ordered (edges i r)"
  shows "edges i (filter_width_changed i 0 r) =
    (fst (edges i r) + cw_offset i r, snd (edges i r) + cw_offset i r)"
proof -
  have "width_edges (v_mode (vfo r i)) 0 (edges i r) = edges i r"
    using assms(3) by (cases "edges i r") (auto simp: width_edges_def narrow_def ordered_def)
  then show ?thesis
    using edges_op_edges [where op = "\<lambda>m st. width_edges m 0", OF assms(1,2), of "fst (edges i r)" "snd (edges i r)"]
    by (simp add: filter_width_changed_def)
qed

end
