(* ===== verification/TxSwitch_Examples.thy ===== *)
theory TxSwitch_Examples
  imports TxSwitch_Facts Filters Sample_Radio
begin

text \<open>
  The properties of the filters and of the receive/transmit switch at work on the radio of
  theory \<open>Sample_Radio\<close>.
\<close>

lemma ordered_radio0: "ordered (edges 0 radio0)"
  by (simp add: ordered_def edges_def sample_rx_def)

theorem filter_ops_ordered_example: "ordered (edges 0 (filter_high_changed 0 (- 1000) radio0))"
  using filter_ops_ordered [OF ordered_radio0] by blast

lemma filter_cut_default_nominal_example:
  "edges 0 (filter_cut_default 0 (edges_op (\<lambda>_ _ e. e) 0 radio0)) = edges 0 (rx_set_filter 0 radio0)"
  using filter_cut_default_nominal [of 0 radio0 "\<lambda>_ _ e. e"] by (simp add: sample_vfo_def)

lemma cw_filter_drift_example: "edges 0 (filter_width_changed 0 0 radio0) = (1075, 1325)"
  using cw_filter_drift [of 0 radio0] ordered_radio0
  by (simp add: sample_vfo_def edges_def [of 0 radio0] sample_rx_def cw_offset_def)

text \<open>The receiving radio, inside and outside the 20m band.\<close>

definition radio_off_band :: radio_state where
  "radio_off_band = upd_vfo 0 (\<lambda>v. v\<lparr>v_frequency := 14400000\<rparr>) radio0"

lemma receiving_radio0: "tx_in Receiving radio0"
  by (simp add: tx_in_def sw_view_def sample_defs)

lemma receiving_off_band: "tx_in Receiving radio_off_band"
  by (simp add: radio_off_band_def upd_vfo_def tx_in_def sw_view_def sample_defs)

lemma off_band: "\<not> TransmitAllowed radio_off_band" "TransmitAllowed radio0"
  by (simp_all add: radio_off_band_def upd_vfo_def TransmitAllowed_def Let_def vfo_get_tx_vfo_def
      vfo_get_tx_freq_def vfo_get_tx_mode_def tx_edges_def sample_defs band_get_band_def
      init_bands_def band_row_def)

theorem tx_switch_refines_example: "tx_in Sending_MOX (radio_set_mox True radio0)"
  using tx_switch_refines [OF receiving_radio0, of True] off_band by simp

theorem tx_not_allowed_example: "\<not> radio_is_transmitting (radio_set_mox True radio_off_band)"
  using tx_not_allowed [OF receiving_off_band, of True] off_band
  by (simp add: radio_off_band_def upd_vfo_def)

theorem vox_ignores_band_edges_example: "radio_is_transmitting (radio_set_vox True radio_off_band)"
  using vox_ignores_band_edges [OF receiving_off_band] off_band
  by (simp add: radio_off_band_def upd_vfo_def)

lemma client_switch_follows_example: "tx_in Tuning (radio_client_set_tune True radio0)"
  using client_switch_follows [OF receiving_radio0, of True] by simp

definition radio_vox :: radio_state where
  "radio_vox = (upd_vfo 0 (\<lambda>v. v\<lparr>v_mode := modeUSB\<rparr>) radio0)\<lparr>vox_enabled := True\<rparr>"

lemma vox_hang_time_example:
  "out (quiet_samples 11999 (vox_sample 0.5 radio_vox)) = out (vox_sample 0.5 radio_vox)
   \<and> \<not> vox_triggered (quiet_samples 12000 (vox_sample 0.5 radio_vox))"
proof -
  have "vox_ready radio_vox"
    by (simp add: vox_ready_def radio_vox_def upd_vfo_def radio0_def sample_defs is_cw_def
        vfo_get_tx_mode_def vfo_get_tx_vfo_def)
  moreover have "vox_threshold radio_vox \<le> \<bar>0.5\<bar>"
    by (simp add: radio_vox_def upd_vfo_def radio0_def)
  moreover have "12000 = c_trunc (max (vox_hang radio_vox) (vox_min_hang radio_vox) * 48)"
    using c_trunc_of_int [of 12000] by (simp add: radio_vox_def upd_vfo_def radio0_def)
  ultimately show ?thesis
    using vox_hang_time [of radio_vox "0.5" 12000 11999] by simp
qed

end
