(* ===== verification/Ring_Buffers.thy ===== *)
theory Ring_Buffers
  imports Prelude
begin

text \<open>
  The single-reader single-writer ring buffers of the program. All of them have an array, an
  input index that only the writer moves and an output index that only the reader moves, keep
  one slot empty to tell a full ring from an empty one, and differ in the size and in how the
  indices wrap: with a mask when the size is a power of two, with a comparison otherwise. The
  function that wraps an index is a parameter here; the locale \<open>ring_index\<close> states what it
  must do, and every component interprets it on its own index arithmetic. Inside, a ring is
  shown to be a queue: \<open>sublocale ring: fifo\<close>.
\<close>

subsection \<open>Operations\<close>

record 'a ring =
  slots :: "'a list"
  inptr :: nat
  outptr :: nat

text \<open>\<open>None\<close>: the ring is full, or empty, and nothing changes.\<close>

definition ring_put :: "(nat \<Rightarrow> nat) \<Rightarrow> 'a \<Rightarrow> 'a ring \<Rightarrow> 'a ring option" where
  "ring_put nxt x r = (let nptr = nxt (inptr r) in
     if nptr \<noteq> outptr r then Some (r\<lparr>slots := (slots r)[inptr r := x], inptr := nptr\<rparr>) else None)"

definition ring_get :: "(nat \<Rightarrow> nat) \<Rightarrow> 'a ring \<Rightarrow> ('a \<times> 'a ring) option" where
  "ring_get nxt r = (if inptr r = outptr r then None
     else Some (slots r ! outptr r, r\<lparr>outptr := nxt (outptr r)\<rparr>))"

subsection \<open>Queues\<close>

text \<open>
  What a bounded queue promises: \<open>enq\<close> appends and fails only at capacity, \<open>deq\<close> removes
  the first element and fails only when there is none.
\<close>

locale fifo =
  fixes ok :: "'q \<Rightarrow> bool" and contents :: "'q \<Rightarrow> 'a list" and capacity :: nat
    and enq :: "'a \<Rightarrow> 'q \<Rightarrow> 'q option" and deq :: "'q \<Rightarrow> ('a \<times> 'q) option"
  assumes enq_Some: "ok q \<Longrightarrow> enq x q = Some q' \<Longrightarrow> ok q' \<and> contents q' = contents q @ [x]"
    and enq_None: "ok q \<Longrightarrow> enq x q = None \<longleftrightarrow> length (contents q) = capacity"
    and deq_Some: "ok q \<Longrightarrow> deq q = Some (y, q') \<Longrightarrow> ok q' \<and> contents q = y # contents q'"
    and deq_None: "ok q \<Longrightarrow> deq q = None \<longleftrightarrow> contents q = []"
    and bounded: "ok q \<Longrightarrow> length (contents q) \<le> capacity"
begin

text \<open>
  A run of the two threads: at each step the writer offers an element, which is lost if the
  queue is full, or the reader takes one if there is one. \<open>run\<close> collects what was accepted
  and what was read.
\<close>

fun step :: "'a option \<Rightarrow> 'q \<times> 'a list \<times> 'a list \<Rightarrow> 'q \<times> 'a list \<times> 'a list" where
  "step (Some x) (q, ins, outs) = (case enq x q of None \<Rightarrow> (q, ins, outs) | Some q' \<Rightarrow> (q', ins @ [x], outs))"
| "step None (q, ins, outs) = (case deq q of None \<Rightarrow> (q, ins, outs) | Some (y, q') \<Rightarrow> (q', ins, outs @ [y]))"

definition run :: "'a option list \<Rightarrow> 'q \<Rightarrow> 'q \<times> 'a list \<times> 'a list" where
  "run evs q = fold step evs (q, [], [])"

lemma step_inv:
  assumes "ok q \<and> pre @ ins = outs @ contents q" and "step e (q, ins, outs) = (q', ins', outs')"
  shows "ok q' \<and> pre @ ins' = outs' @ contents q'"
proof (cases e)
  case None
  show ?thesis
  proof (cases "deq q")
    case None
    then show ?thesis using assms \<open>e = None\<close> by simp
  next
    case (Some p)
    obtain y q1 where p: "p = (y, q1)" by (cases p)
    have "ok q1 \<and> contents q = y # contents q1" using deq_Some assms(1) Some p by blast
    then show ?thesis using assms \<open>e = None\<close> Some p by simp
  qed
next
  case (Some x)
  show ?thesis
  proof (cases "enq x q")
    case None
    then show ?thesis using assms \<open>e = Some x\<close> by simp
  next
    case s: (Some q1)
    have "ok q1 \<and> contents q1 = contents q @ [x]" using enq_Some assms(1) s by blast
    moreover have "q' = q1" "ins' = ins @ [x]" "outs' = outs" using assms(2) \<open>e = Some x\<close> s by simp_all
    ultimately show ?thesis using assms(1) by (simp flip: append_assoc)
  qed
qed

text \<open>Nothing is lost, repeated or reordered once it is accepted.\<close>

lemma run_order:
  assumes "ok q" and "run evs q = (q', ins, outs)"
  shows "ok q' \<and> contents q @ ins = outs @ contents q'"
proof -
  have "fold step evs (q0, i0, o0) = (q', ins, outs) \<Longrightarrow> ok q0 \<and> contents q @ i0 = o0 @ contents q0 \<Longrightarrow>
      ok q' \<and> contents q @ ins = outs @ contents q'" for q0 i0 o0
  proof (induction evs arbitrary: q0 i0 o0)
    case (Cons e evs)
    obtain q1 i1 o1 where s: "step e (q0, i0, o0) = (q1, i1, o1)" by (cases "step e (q0, i0, o0)") auto
    show ?case
      using Cons.IH [of q1 i1 o1] Cons.prems s step_inv [OF Cons.prems(2) s] by simp
  qed simp
  then show ?thesis using assms by (simp add: run_def)
qed

lemma read_back:
  assumes "ok q" and "contents q = []" and "enq x q = Some q'"
  shows "\<exists>r. deq q' = Some (x, r) \<and> contents r = []"
proof -
  have q: "ok q'" "contents q' = [x]" using enq_Some [OF assms(1,3)] assms(2) by auto
  then obtain y r where "deq q' = Some (y, r)" using deq_None [of q'] by (cases "deq q'") auto
  then show ?thesis using deq_Some [OF q(1)] q(2) by auto
qed

end

subsection \<open>Rings are queues\<close>

definition ring_ok :: "nat \<Rightarrow> 'a ring \<Rightarrow> bool" where
  "ring_ok sz r \<longleftrightarrow> length (slots r) = sz \<and> inptr r < sz \<and> outptr r < sz"

definition ring_count :: "nat \<Rightarrow> 'a ring \<Rightarrow> nat" where
  "ring_count sz r = (inptr r + sz - outptr r) mod sz"

definition ring_list :: "nat \<Rightarrow> 'a ring \<Rightarrow> 'a list" where
  "ring_list sz r = map (\<lambda>k. slots r ! ((outptr r + k) mod sz)) [0..<ring_count sz r]"

locale ring_index =
  fixes sz :: nat and nxt :: "nat \<Rightarrow> nat"
  assumes sz: "1 < sz" and nxt: "i < sz \<Longrightarrow> nxt i = (i + 1) mod sz"
begin

lemma count_cases:
  assumes "ring_ok sz r"
  shows "ring_count sz r = (if outptr r \<le> inptr r then inptr r - outptr r else inptr r + sz - outptr r)"
proof (cases "outptr r \<le> inptr r")
  case True
  then have e: "inptr r + sz - outptr r = (inptr r - outptr r) + sz" by simp
  have "inptr r - outptr r < sz" using assms by (auto simp: ring_ok_def)
  then show ?thesis using True by (simp only: ring_count_def e mod_add_self2 mod_less if_True)
next
  case False
  then have "inptr r + sz - outptr r < sz" using assms by (auto simp: ring_ok_def)
  then show ?thesis using False by (simp only: ring_count_def mod_less if_False)
qed

lemma out_plus_count: "ring_ok sz r \<Longrightarrow> (outptr r + ring_count sz r) mod sz = inptr r"
  by (auto simp: count_cases ring_ok_def)

lemma count_le: "ring_ok sz r \<Longrightarrow> ring_count sz r \<le> sz - 1"
  using sz by (auto simp: count_cases ring_ok_def)

lemma nxt_cases: "i < sz \<Longrightarrow> nxt i = (if i + 1 = sz then 0 else i + 1)"
  using sz by (simp add: nxt)

lemma put_None:
  assumes "ring_ok sz r"
  shows "ring_put nxt x r = None \<longleftrightarrow> ring_count sz r = sz - 1"
  using assms sz by (auto simp: ring_put_def Let_def nxt_cases count_cases ring_ok_def split: if_splits)

lemma slot_free:
  assumes "ring_ok sz r" and "k < ring_count sz r"
  shows "(outptr r + k) mod sz \<noteq> inptr r"
proof -
  note c = count_cases [OF assms(1)]
  have b: "inptr r < sz" "outptr r < sz" using assms(1) by (simp_all add: ring_ok_def)
  show ?thesis
  proof (cases "outptr r + k < sz")
    case True
    then show ?thesis using assms(2) b c by (auto split: if_splits)
  next
    case False
    then have "outptr r + k - sz < sz" using assms(2) b c by (auto split: if_splits)
    with False have "(outptr r + k) mod sz = outptr r + k - sz"
      by (simp add: le_mod_geq)
    then show ?thesis using assms(2) b c False by (auto split: if_splits)
  qed
qed

lemma put_Some:
  assumes "ring_ok sz r" and "ring_put nxt x r = Some r'"
  shows "ring_ok sz r' \<and> ring_list sz r' = ring_list sz r @ [x]"
proof -
  let ?n = "ring_count sz r"
  have r': "r' = r\<lparr>slots := (slots r)[inptr r := x], inptr := nxt (inptr r)\<rparr>"
    using assms(2) by (auto simp: ring_put_def Let_def split: if_splits)
  have ok: "ring_ok sz r'"
    using assms(1) sz by (auto simp: r' ring_ok_def nxt_cases)
  have "?n \<noteq> sz - 1" using assms(2) put_None [OF assms(1), of x] by simp
  then have c: "ring_count sz r' = Suc ?n"
  proof -
    have i: "inptr r' = nxt (inptr r)" "outptr r' = outptr r" by (simp_all add: r')
    show ?thesis
      using \<open>?n \<noteq> sz - 1\<close> assms(1) sz unfolding count_cases [OF ok] count_cases [OF assms(1)] i
      by (auto simp: nxt_cases ring_ok_def)
  qed
  have "slots r' ! ((outptr r' + k) mod sz) = slots r ! ((outptr r + k) mod sz)" if "k < ?n" for k
    using slot_free [OF assms(1) that] by (simp add: r')
  moreover have "slots r' ! ((outptr r' + ?n) mod sz) = x"
    using out_plus_count [OF assms(1)] assms(1) by (simp add: r' ring_ok_def)
  ultimately show ?thesis using ok by (simp add: ring_list_def c)
qed

lemma get_None: "ring_ok sz r \<Longrightarrow> ring_get nxt r = None \<longleftrightarrow> ring_list sz r = []"
  by (auto simp: ring_get_def ring_list_def count_cases ring_ok_def)

lemma get_Some:
  assumes "ring_ok sz r" and "ring_get nxt r = Some (y, r')"
  shows "ring_ok sz r' \<and> ring_list sz r = y # ring_list sz r'"
proof -
  have r': "r' = r\<lparr>outptr := nxt (outptr r)\<rparr>" and y: "y = slots r ! outptr r" and ne: "inptr r \<noteq> outptr r"
    using assms(2) by (auto simp: ring_get_def split: if_splits)
  have o: "outptr r < sz" using assms(1) by (simp add: ring_ok_def)
  have ok: "ring_ok sz r'" using assms(1) sz by (auto simp: r' ring_ok_def nxt_cases)
  have c: "ring_count sz r = Suc (ring_count sz r')"
  proof -
    have i: "inptr r' = inptr r" "outptr r' = nxt (outptr r)" by (simp_all add: r')
    show ?thesis
      using ne assms(1) sz unfolding count_cases [OF ok] count_cases [OF assms(1)] i
      by (auto simp: nxt_cases ring_ok_def)
  qed
  have "(nxt (outptr r) + k) mod sz = (outptr r + Suc k) mod sz" for k
    using o by (simp add: nxt mod_simps)
  then have "ring_list sz r' = map (\<lambda>k. slots r ! ((outptr r + Suc k) mod sz)) [0..<ring_count sz r']"
    by (simp add: ring_list_def r')
  then show ?thesis
    using ok o c y by (simp add: ring_list_def map_upt_Suc del: upt_Suc)
qed

end

sublocale ring_index \<subseteq> ring: fifo "ring_ok sz" "ring_list sz" "sz - 1" "ring_put nxt" "ring_get nxt"
proof
  fix r :: "'a ring" and x y :: 'a and r' :: "'a ring"
  assume ok: "ring_ok sz r"
  show "ring_put nxt x r = Some r' \<Longrightarrow> ring_ok sz r' \<and> ring_list sz r' = ring_list sz r @ [x]"
    by (rule put_Some [OF ok])
  show "(ring_put nxt x r = None) = (length (ring_list sz r) = sz - 1)"
    using put_None [OF ok] by (simp add: ring_list_def)
  show "ring_get nxt r = Some (y, r') \<Longrightarrow> ring_ok sz r' \<and> ring_list sz r = y # ring_list sz r'"
    by (rule get_Some [OF ok])
  show "(ring_get nxt r = None) = (ring_list sz r = [])" by (rule get_None [OF ok])
  show "length (ring_list sz r) \<le> sz - 1" using count_le [OF ok] by (simp add: ring_list_def)
qed

text \<open>An empty ring, and index arithmetic with a mask.\<close>

definition empty_ring :: "nat \<Rightarrow> 'a \<Rightarrow> 'a ring" where
  "empty_ring sz x = \<lparr>slots = replicate sz x, inptr = 0, outptr = 0\<rparr>"

lemma empty_ring: "0 < sz \<Longrightarrow> ring_ok sz (empty_ring sz x)" "ring_list sz (empty_ring sz x) = []"
  by (simp_all add: ring_ok_def ring_list_def ring_count_def empty_ring_def)

lemma mask_mod: "n AND mask k = n mod (2 ^ k :: nat)"
  by (simp add: take_bit_eq_mod flip: take_bit_eq_mask)

lemma mask_next:
  assumes "m = 2 ^ k - 1"
  shows "(i + 1) AND m = (i + 1) mod (2 ^ k :: nat)"
  using mask_mod [of "i + 1" k] by (simp add: assms mask_eq_exp_minus_1)

end
