(* ===== verification/CW.thy ===== *)
theory CW
  imports Ring_Buffers
begin

text \<open>
  CW transmission (\<^verbatim>\<open>src/src/transmitter.c\<close>): the ring of key-up and key-down events
  that the keyer, CAT and MIDI fill (\<open>tx_queue_cw_event\<close>), and the part of
  \<open>tx_add_mic_sample\<close> and \<open>next_cw_sidetone_sample\<close> that executes them, one call for
  each microphone sample (48 for each millisecond), and moves the pointers into the envelope
  tables. The two arrays \<open>cw_ring_state\<close> and \<open>cw_ring_wait\<close> share their indices and are
  one ring of pairs.
\<close>

subsection \<open>State and operations\<close>

abbreviation (input) "CW_RING_SIZE \<equiv> 1024 :: nat"

record cw_state =
  cw_ring :: "(bool \<times> int) ring"
  keydown :: bool
  cw_delay_time :: int
  cw_sent :: "(bool \<times> int) list"   \<comment> \<open>what a remote client sends to the server\<close>
  ramp_audio_ptr :: int
  ramp_audio_len :: int
  ramp_rf_ptr :: int
  ramp_rf_len :: int
  ratio :: nat

definition cw_next :: "nat \<Rightarrow> nat" where
  "cw_next i = (i + 1) AND 1023"

definition tx_queue_cw_event :: "bool \<Rightarrow> bool \<Rightarrow> int \<Rightarrow> cw_state \<Rightarrow> cw_state" where
  "tx_queue_cw_event is_remote down wait s = (
     let s = (if is_remote then s\<lparr>cw_sent := cw_sent s @ [(down, wait)]\<rparr> else s);
         num = (int (inptr (cw_ring s)) - int (outptr (cw_ring s))) AND 1023;
         down = (if int CW_RING_SIZE < num + 16 then False else down)
     in case ring_put cw_next (down, wait) (cw_ring s) of
          Some r \<Rightarrow> s\<lparr>cw_ring := r\<rparr>
        | None \<Rightarrow> s)"

text \<open>The first half of \<open>next_cw_sidetone_sample\<close>: the 20 second limit and the next event.\<close>

definition next_cw_event :: "cw_state \<Rightarrow> cw_state" where
  "next_cw_event s = (
     let s = (if keydown s \<and> 960000 < cw_delay_time s then s\<lparr>keydown := False\<rparr> else s) in
     case ring_get cw_next (cw_ring s) of
       None \<Rightarrow> s
     | Some ((down, wait), r) \<Rightarrow>
         if wait \<le> cw_delay_time s then s\<lparr>cw_delay_time := 0, keydown := down, cw_ring := r\<rparr> else s)"

text \<open>The second half: the envelope pointers.\<close>

definition ramp_up :: "int \<Rightarrow> int \<Rightarrow> int" where
  "ramp_up len p = (if p < len then p + 1 else p)"

definition ramp_down :: "int \<Rightarrow> int" where
  "ramp_down p = (if 0 < p then p - 1 else p)"

definition move_ramps :: "bool \<Rightarrow> cw_state \<Rightarrow> cw_state" where
  "move_ramps is_remote s =
     (if keydown s then
        let s = s\<lparr>ramp_audio_ptr := ramp_up (ramp_audio_len s) (ramp_audio_ptr s)\<rparr>
        in if is_remote then s
           else s\<lparr>ramp_rf_ptr := (ramp_up (ramp_rf_len s) ^^ ratio s) (ramp_rf_ptr s)\<rparr>
      else
        let s = s\<lparr>ramp_audio_ptr := ramp_down (ramp_audio_ptr s)\<rparr>
        in if is_remote then s
           else s\<lparr>ramp_rf_ptr := (ramp_down ^^ ratio s) (ramp_rf_ptr s)\<rparr>)"

definition next_cw_sidetone_sample :: "bool \<Rightarrow> cw_state \<Rightarrow> cw_state" where
  "next_cw_sidetone_sample is_remote s = move_ramps is_remote (next_cw_event s)"

text \<open>
  What \<open>tx_add_mic_sample\<close> does for CW: it produces the tones that tell the SWR while the radio is
  tuning (a tone or a pause, only the audio envelope moves), or CW while it is transmitting in a CW
  mode, or none of both.
\<close>

datatype tx_audio = Tx_swrtune bool | Tx_cw | Tx_other

definition cw_sample :: "tx_audio \<Rightarrow> cw_state \<Rightarrow> cw_state" where
  "cw_sample a s = (
     let s = (if cw_delay_time s < 999999 then s\<lparr>cw_delay_time := cw_delay_time s + 1\<rparr> else s)
     in case a of
          Tx_swrtune tone \<Rightarrow> s\<lparr>ramp_audio_ptr := (if tone then ramp_up (ramp_audio_len s) (ramp_audio_ptr s)
            else ramp_down (ramp_audio_ptr s))\<rparr>
        | Tx_cw \<Rightarrow> next_cw_sidetone_sample False s
        | Tx_other \<Rightarrow> s\<lparr>keydown := False, cw_ring := (cw_ring s)\<lparr>inptr := 0, outptr := 0\<rparr>,
               ramp_audio_ptr := 0, ramp_rf_ptr := 0\<rparr>)"

subsection \<open>The ring\<close>

interpretation cw: ring_index CW_RING_SIZE cw_next
  using mask_next [of 1023 10] by unfold_locales (simp_all add: cw_next_def)

abbreviation cw_events :: "cw_state \<Rightarrow> (bool \<times> int) list" where
  "cw_events s \<equiv> ring_list CW_RING_SIZE (cw_ring s)"

lemma and_1023_int: "x AND 1023 = x mod (1024 :: int)"
  using take_bit_eq_mod [of 10 x] by (simp add: take_bit_eq_mask mask_eq_exp_minus_1)

lemma cw_num:
  assumes "ring_ok CW_RING_SIZE r"
  shows "(int (inptr r) - int (outptr r)) AND 1023 = int (ring_count CW_RING_SIZE r)"
proof -
  have "outptr r \<le> inptr r + 1024" using assms by (simp add: ring_ok_def)
  then have "int (inptr r + 1024 - outptr r) = int (inptr r) - int (outptr r) + 1024"
    by (simp add: of_nat_diff)
  then show ?thesis
    by (simp add: and_1023_int ring_count_def zmod_int)
qed

text \<open>
  Well-formed states: the ring is in order, and the key-down events sit in its first 1009
  places only, because later ones are stored as key-up events.
\<close>

definition downs_early :: "(bool \<times> int) list \<Rightarrow> bool" where
  "downs_early es \<longleftrightarrow> (\<forall>k < length es. fst (es ! k) \<longrightarrow> k < 1009)"

definition cw_ok :: "cw_state \<Rightarrow> bool" where
  "cw_ok s \<longleftrightarrow> ring_ok CW_RING_SIZE (cw_ring s) \<and> downs_early (cw_events s)"

lemma length_cw_events: "length (cw_events s) = ring_count CW_RING_SIZE (cw_ring s)"
  by (simp add: ring_list_def)

lemma queue_event:
  assumes "cw_ok s"
  shows "cw_events (tx_queue_cw_event rem down wait s) =
      (if length (cw_events s) = 1023 then cw_events s
       else cw_events s @ [(down \<and> length (cw_events s) < 1009, wait)])"
    and "cw_ok (tx_queue_cw_event rem down wait s)"
    and "keydown (tx_queue_cw_event rem down wait s) = keydown s"
    and "cw_delay_time (tx_queue_cw_event rem down wait s) = cw_delay_time s"
proof -
  let ?r = "cw_ring s" and ?n = "length (cw_events s)"
  have ok: "ring_ok CW_RING_SIZE ?r" using assms by (simp add: cw_ok_def)
  define d where "d = (down \<and> ?n < 1009)"
  define q where "q = tx_queue_cw_event rem down wait s"
  have q: "q = (let s = (if rem then s\<lparr>cw_sent := cw_sent s @ [(down, wait)]\<rparr> else s)
      in case ring_put cw_next (d, wait) ?r of Some r \<Rightarrow> s\<lparr>cw_ring := r\<rparr> | None \<Rightarrow> s)"
    using cw_num [OF ok] by (auto simp: q_def tx_queue_cw_event_def Let_def d_def length_cw_events
        split: option.split)
  show "keydown (tx_queue_cw_event rem down wait s) = keydown s"
    "cw_delay_time (tx_queue_cw_event rem down wait s) = cw_delay_time s"
    unfolding q_def [symmetric] q by (auto simp: Let_def split: option.split)
  show ev: "cw_events (tx_queue_cw_event rem down wait s) =
      (if ?n = 1023 then cw_events s else cw_events s @ [(down \<and> ?n < 1009, wait)])"
    and "cw_ok (tx_queue_cw_event rem down wait s)"
  proof (atomize (full), cases "ring_put cw_next (d, wait) ?r")
    case None
    then have "?n = 1023" using cw.ring.enq_None [OF ok] by simp
    moreover have "cw_ring q = ?r" unfolding q using None by (simp add: Let_def)
    ultimately show "cw_events (tx_queue_cw_event rem down wait s) =
      (if ?n = 1023 then cw_events s else cw_events s @ [(down \<and> ?n < 1009, wait)])
      \<and> cw_ok (tx_queue_cw_event rem down wait s)"
      using assms by (simp add: q_def [symmetric] cw_ok_def)
  next
    case (Some r)
    have r: "ring_ok CW_RING_SIZE r" "ring_list CW_RING_SIZE r = cw_events s @ [(d, wait)]"
      using cw.ring.enq_Some [OF ok Some] by auto
    have ne: "?n \<noteq> 1023" using Some cw.ring.enq_None [OF ok, of "(d, wait)"] by auto
    have "cw_ring q = r" unfolding q using Some by (simp add: Let_def)
    moreover have "downs_early (cw_events s @ [(d, wait)])"
      using assms by (auto simp: cw_ok_def downs_early_def d_def nth_append less_Suc_eq)
    ultimately show "cw_events (tx_queue_cw_event rem down wait s) =
      (if ?n = 1023 then cw_events s else cw_events s @ [(down \<and> ?n < 1009, wait)])
      \<and> cw_ok (tx_queue_cw_event rem down wait s)"
      using r ne by (simp add: q_def [symmetric] cw_ok_def d_def)
  qed
qed

lemma downs_early_tl: "downs_early (e # es) \<Longrightarrow> downs_early es"
  by (auto simp: downs_early_def)

text \<open>One execution step against the list of pending events.\<close>

lemma next_event:
  assumes "cw_ok s"
  defines "k \<equiv> keydown s \<and> cw_delay_time s \<le> 960000"
  shows "cw_ok (next_cw_event s)"
    and "cw_events s = [] \<Longrightarrow> cw_events (next_cw_event s) = [] \<and> keydown (next_cw_event s) = k
      \<and> cw_delay_time (next_cw_event s) = cw_delay_time s"
    and "cw_events s = (d, w) # es \<Longrightarrow> w \<le> cw_delay_time s \<Longrightarrow> cw_events (next_cw_event s) = es
      \<and> keydown (next_cw_event s) = d \<and> cw_delay_time (next_cw_event s) = 0"
    and "cw_events s = (d, w) # es \<Longrightarrow> cw_delay_time s < w \<Longrightarrow> cw_events (next_cw_event s) = cw_events s
      \<and> keydown (next_cw_event s) = k \<and> cw_delay_time (next_cw_event s) = cw_delay_time s"
proof -
  have ok: "ring_ok CW_RING_SIZE (cw_ring s)" and de: "downs_early (cw_events s)"
    using assms by (simp_all add: cw_ok_def)
  define p where "p = (if keydown s \<and> 960000 < cw_delay_time s then s\<lparr>keydown := False\<rparr> else s)"
  have p: "cw_ring p = cw_ring s" "cw_delay_time p = cw_delay_time s" "keydown p = k"
    by (auto simp: p_def k_def)
  have eq: "next_cw_event s = (case ring_get cw_next (cw_ring s) of None \<Rightarrow> p
     | Some ((down, wait), r) \<Rightarrow>
         if wait \<le> cw_delay_time s then p\<lparr>cw_delay_time := 0, keydown := down, cw_ring := r\<rparr> else p)"
    unfolding next_cw_event_def Let_def p_def [symmetric] p(1,2) ..
  have none: "cw_events s = [] \<Longrightarrow> next_cw_event s = p"
    using cw.ring.deq_None [OF ok] by (simp add: eq)
  have some: "\<exists>r. ring_ok CW_RING_SIZE r \<and> ring_list CW_RING_SIZE r = es \<and> next_cw_event s =
      (if w \<le> cw_delay_time s then p\<lparr>cw_delay_time := 0, keydown := d, cw_ring := r\<rparr> else p)"
    if ne: "cw_events s = (d, w) # es" for d w es
  proof -
    obtain e r where g: "ring_get cw_next (cw_ring s) = Some (e, r)"
      using cw.ring.deq_None [OF ok] ne by (cases "ring_get cw_next (cw_ring s)") auto
    have "ring_ok CW_RING_SIZE r" "e = (d, w)" "ring_list CW_RING_SIZE r = es"
      using cw.ring.deq_Some [OF ok g] ne by auto
    then show ?thesis by (intro exI [of _ r]) (simp add: eq g)
  qed
  show "cw_ok (next_cw_event s)"
  proof (cases "cw_events s")
    case Nil
    then show ?thesis using none p assms(1) by (simp add: cw_ok_def)
  next
    case (Cons e es)
    then obtain d w where "cw_events s = (d, w) # es" by (cases e) auto
    from some [OF this] show ?thesis
      using ok de p Cons downs_early_tl [of e es] by (auto simp: cw_ok_def)
  qed
  show "cw_events s = [] \<Longrightarrow> cw_events (next_cw_event s) = [] \<and> keydown (next_cw_event s) = k
      \<and> cw_delay_time (next_cw_event s) = cw_delay_time s"
    using none p by simp
  show "cw_events s = (d, w) # es \<Longrightarrow> w \<le> cw_delay_time s \<Longrightarrow> cw_events (next_cw_event s) = es
      \<and> keydown (next_cw_event s) = d \<and> cw_delay_time (next_cw_event s) = 0"
    using some [of d w es] by auto
  show "cw_events s = (d, w) # es \<Longrightarrow> cw_delay_time s < w \<Longrightarrow> cw_events (next_cw_event s) = cw_events s
      \<and> keydown (next_cw_event s) = k \<and> cw_delay_time (next_cw_event s) = cw_delay_time s"
    using some [of d w es] p by auto
qed

subsection \<open>Timing of the key\<close>

lemma cw_ramps [simp]:
  "cw_ring (move_ramps b s) = cw_ring s" "keydown (move_ramps b s) = keydown s"
  "cw_delay_time (move_ramps b s) = cw_delay_time s"
  by (simp_all add: move_ramps_def Let_def)

lemma cw_ok_cong: "cw_ring s' = cw_ring s \<Longrightarrow> cw_ok s' = cw_ok s"
  by (simp add: cw_ok_def)

definition tick :: "int \<Rightarrow> int" where
  "tick t = (if t < 999999 then t + 1 else t)"

lemma cw_sample_keying:
  assumes "cw_ok s"
  defines "s' \<equiv> cw_sample Tx_cw s"
  shows "cw_ok s'"
    and "cw_events s = [] \<Longrightarrow> cw_events s' = [] \<and> cw_delay_time s' = tick (cw_delay_time s)
      \<and> keydown s' = (keydown s \<and> tick (cw_delay_time s) \<le> 960000)"
    and "cw_events s = (d, w) # es \<Longrightarrow> w \<le> tick (cw_delay_time s) \<Longrightarrow> cw_events s' = es
      \<and> keydown s' = d \<and> cw_delay_time s' = 0"
    and "cw_events s = (d, w) # es \<Longrightarrow> tick (cw_delay_time s) < w \<Longrightarrow> cw_events s' = cw_events s
      \<and> cw_delay_time s' = tick (cw_delay_time s) \<and> keydown s' = (keydown s \<and> tick (cw_delay_time s) \<le> 960000)"
proof -
  define t where "t = s\<lparr>cw_delay_time := tick (cw_delay_time s)\<rparr>"
  have t: "cw_ring t = cw_ring s" "keydown t = keydown s" "cw_delay_time t = tick (cw_delay_time s)"
    by (simp_all add: t_def)
  have "s' = move_ramps False (next_cw_event t)"
    by (simp add: s'_def cw_sample_def next_cw_sidetone_sample_def t_def tick_def Let_def)
  then have s': "cw_ring s' = cw_ring (next_cw_event t)" "keydown s' = keydown (next_cw_event t)"
    "cw_delay_time s' = cw_delay_time (next_cw_event t)" by simp_all
  have ok: "cw_ok t" using assms(1) t(1) by (simp add: cw_ok_cong [of t s])
  note n = next_event [OF ok, unfolded t]
  show "cw_ok s'" using n(1) by (simp add: cw_ok_cong [OF s'(1)])
  show "cw_events s = [] \<Longrightarrow> cw_events s' = [] \<and> cw_delay_time s' = tick (cw_delay_time s)
      \<and> keydown s' = (keydown s \<and> tick (cw_delay_time s) \<le> 960000)"
    using n(2) by (simp add: s')
  show "cw_events s = (d, w) # es \<Longrightarrow> w \<le> tick (cw_delay_time s) \<Longrightarrow> cw_events s' = es
      \<and> keydown s' = d \<and> cw_delay_time s' = 0"
    using n(3) by (simp add: s')
  show "cw_events s = (d, w) # es \<Longrightarrow> tick (cw_delay_time s) < w \<Longrightarrow> cw_events s' = cw_events s
      \<and> cw_delay_time s' = tick (cw_delay_time s) \<and> keydown s' = (keydown s \<and> tick (cw_delay_time s) \<le> 960000)"
    using n(4) by (simp add: s')
qed

definition cw_samples :: "nat \<Rightarrow> cw_state \<Rightarrow> cw_state" where
  "cw_samples n = (cw_sample Tx_cw ^^ n)"

lemma cw_samples_simps [simp]:
  "cw_samples 0 s = s" "cw_samples (Suc n) s = cw_sample Tx_cw (cw_samples n s)"
  by (simp_all add: cw_samples_def)

lemma cw_samples_ok: "cw_ok s \<Longrightarrow> cw_ok (cw_samples n s)"
  by (induction n) (simp_all add: cw_sample_keying(1))

text \<open>While the next event is not due, only time passes.\<close>

lemma cw_waiting:
  assumes "cw_ok s" and "cw_events s = (d, w) # es" and "keydown s" and "cw_delay_time s = 0"
    and "int n < w" and "w \<le> 960000"
  shows "cw_events (cw_samples n s) = (d, w) # es \<and> keydown (cw_samples n s)
    \<and> cw_delay_time (cw_samples n s) = int n"
  using assms(5)
proof (induction n)
  case 0
  then show ?case using assms by simp
next
  case (Suc n)
  define u where "u = cw_samples n s"
  have u: "cw_events u = (d, w) # es" "keydown u" "cw_delay_time u = int n"
    using Suc by (simp_all add: u_def)
  have tk: "tick (cw_delay_time u) = int n + 1" "tick (cw_delay_time u) < w"
    using u(3) Suc.prems assms(6) by (simp_all add: tick_def)
  have "cw_ok u" using cw_samples_ok [OF assms(1)] by (simp add: u_def)
  from cw_sample_keying(4) [OF this u(1) tk(2)] show ?case
    using u tk Suc.prems assms(6) by (simp add: u_def [symmetric])
qed

text \<open>
  C24. A dot or a dash is keyed for exactly its length: when a key-down event and the key-up
  event \<open>d\<close> samples later are next in the ring, the key is down for the next \<open>d\<close> samples and
  up in the one after them.
\<close>

theorem cw_element_exact:
  assumes "cw_ok s" and "cw_events s = (True, 0) # (False, d) # es" and "0 \<le> cw_delay_time s"
    and "0 < d" and "d \<le> 960000" and "1 \<le> n" and "int n \<le> d"
  shows "keydown (cw_samples n s) \<and> \<not> keydown (cw_samples (Suc (nat d)) s)
    \<and> cw_events (cw_samples (Suc (nat d)) s) = es"
proof -
  define s1 where "s1 = cw_sample Tx_cw s"
  have "0 \<le> tick (cw_delay_time s)" using assms(3) by (simp add: tick_def)
  from cw_sample_keying(3) [OF assms(1,2) this] have s1: "cw_events s1 = (False, d) # es" "keydown s1"
    "cw_delay_time s1 = 0" by (simp_all add: s1_def)
  have ok: "cw_ok s1" using cw_sample_keying(1) [OF assms(1)] by (simp add: s1_def)
  have shift: "cw_samples (Suc m) s = cw_samples m s1" for m
    by (simp add: cw_samples_def s1_def funpow_swap1)
  note w = cw_waiting [OF ok s1 _ assms(5)]
  obtain m where m: "n = Suc m" using assms(6) by (cases n) auto
  have "keydown (cw_samples n s)" unfolding m shift using w [of m] assms(7) m by simp
  moreover obtain l where l: "nat d = Suc l" "int l < d" "int l + 1 = d"
    using assms(4) by (cases "nat d") auto
  define u where "u = cw_samples l s1"
  have u: "cw_events u = (False, d) # es" "cw_delay_time u = int l" "cw_ok u"
    using w [OF l(2)] cw_samples_ok [OF ok] by (simp_all add: u_def)
  have "d \<le> tick (cw_delay_time u)" using u(2) l(3) assms(5) by (simp add: tick_def)
  from cw_sample_keying(3) [OF u(3,1) this]
  have "\<not> keydown (cw_samples (Suc (nat d)) s) \<and> cw_events (cw_samples (Suc (nat d)) s) = es"
    unfolding shift l(1) by (simp add: u_def)
  ultimately show ?thesis by blast
qed

lemma up_event_next:
  assumes "cw_ok s" and "list_all (\<lambda>e. \<not> fst e) (cw_events s)" and "0 \<le> cw_delay_time s"
  defines "s' \<equiv> cw_sample Tx_cw s"
  shows "list_all (\<lambda>e. \<not> fst e) (cw_events s')" and "0 \<le> cw_delay_time s'"
    and "keydown s' \<Longrightarrow> keydown s \<and> cw_delay_time s' = tick (cw_delay_time s) \<and> cw_delay_time s' \<le> 960000"
proof -
  have t: "0 \<le> tick (cw_delay_time s)" using assms(3) by (simp add: tick_def)
  have "list_all (\<lambda>e. \<not> fst e) (cw_events s') \<and> 0 \<le> cw_delay_time s' \<and>
      (keydown s' \<longrightarrow> keydown s \<and> cw_delay_time s' = tick (cw_delay_time s) \<and> cw_delay_time s' \<le> 960000)"
  proof (cases "cw_events s")
    case Nil
    then show ?thesis using cw_sample_keying(2) [OF assms(1) Nil] t by (simp add: s'_def)
  next
    case (Cons e es)
    obtain d w where e: "cw_events s = (d, w) # es" using Cons by (cases e) auto
    have d: "\<not> d" "list_all (\<lambda>e. \<not> fst e) es" using assms(2) by (simp_all add: e)
    show ?thesis
    proof (cases "w \<le> tick (cw_delay_time s)")
      case True
      then show ?thesis using cw_sample_keying(3) [OF assms(1) e] d by (simp add: s'_def)
    next
      case False
      then have "tick (cw_delay_time s) < w" by simp
      from cw_sample_keying(4) [OF assms(1) e this] show ?thesis
        using t assms(2) by (auto simp: s'_def)
    qed
  qed
  then show "list_all (\<lambda>e. \<not> fst e) (cw_events s')" "0 \<le> cw_delay_time s'"
    "keydown s' \<Longrightarrow> keydown s \<and> cw_delay_time s' = tick (cw_delay_time s) \<and> cw_delay_time s' \<le> 960000"
    by auto
qed

text \<open>
  The 20 second limit: when no key-down event is pending, the key is up after at most
  960001 samples, whatever key-up events are still waiting, and it stays up.
\<close>

lemma cw_key_timeout:
  assumes "cw_ok s" and "list_all (\<lambda>e. \<not> fst e) (cw_events s)" and "0 \<le> cw_delay_time s"
    and "960001 \<le> n"
  shows "\<not> keydown (cw_samples n s)"
proof -
  have "list_all (\<lambda>e. \<not> fst e) (cw_events (cw_samples m s)) \<and> 0 \<le> cw_delay_time (cw_samples m s)
      \<and> (keydown (cw_samples m s) \<longrightarrow> int m \<le> cw_delay_time (cw_samples m s)
           \<and> (0 < m \<longrightarrow> cw_delay_time (cw_samples m s) \<le> 960000))" for m
  proof (induction m)
    case 0
    then show ?case using assms(2,3) by simp
  next
    case (Suc m)
    define u where "u = cw_samples m s"
    have u: "cw_ok u" "list_all (\<lambda>e. \<not> fst e) (cw_events u)" "0 \<le> cw_delay_time u"
      using Suc cw_samples_ok [OF assms(1)] by (simp_all add: u_def)
    note n = up_event_next [OF u]
    have "keydown (cw_sample Tx_cw u) \<Longrightarrow> int (Suc m) \<le> cw_delay_time (cw_sample Tx_cw u)"
      using n(3) Suc by (auto simp: u_def [symmetric] tick_def split: if_splits)
    then show ?case using n by (auto simp: u_def [symmetric])
  qed
  from this [of n] show ?thesis using assms(4) by auto
qed

text \<open>
  The envelope pointers stay inside their tables, which have one entry more than
  \<open>ramp_..._len\<close>.
\<close>

definition ramps_ok :: "cw_state \<Rightarrow> bool" where
  "ramps_ok s \<longleftrightarrow> 0 \<le> ramp_audio_ptr s \<and> ramp_audio_ptr s \<le> ramp_audio_len s
     \<and> 0 \<le> ramp_rf_ptr s \<and> ramp_rf_ptr s \<le> ramp_rf_len s"

lemma ramp_up_range: "0 \<le> p \<and> p \<le> len \<Longrightarrow> 0 \<le> (ramp_up len ^^ n) p \<and> (ramp_up len ^^ n) p \<le> len"
  and ramp_down_range: "0 \<le> p \<and> p \<le> len \<Longrightarrow> 0 \<le> (ramp_down ^^ n) p \<and> (ramp_down ^^ n) p \<le> len"
  by (induction n) (auto simp: ramp_up_def ramp_down_def)

lemma ramps_ok_sample: "ramps_ok s \<Longrightarrow> ramps_ok (cw_sample b s)"
proof -
  assume ok: "ramps_ok s"
  have ev: "ramp_audio_ptr (next_cw_event s) = ramp_audio_ptr s" "ramp_rf_ptr (next_cw_event s) = ramp_rf_ptr s"
    "ramp_audio_len (next_cw_event s) = ramp_audio_len s" "ramp_rf_len (next_cw_event s) = ramp_rf_len s" for s
    by (auto simp: next_cw_event_def Let_def split: option.split prod.split)
  have mv: "ramps_ok s \<Longrightarrow> ramps_ok (move_ramps r s)" for r s
    using ramp_up_range [of "ramp_audio_ptr s" "ramp_audio_len s" 1]
      ramp_down_range [of "ramp_audio_ptr s" "ramp_audio_len s" 1]
      ramp_up_range [of "ramp_rf_ptr s" "ramp_rf_len s"]
      ramp_down_range [of "ramp_rf_ptr s" "ramp_rf_len s"]
    by (auto simp: ramps_ok_def move_ramps_def Let_def)
  show ?thesis
    using ok ramp_up_range [of "ramp_audio_ptr s" "ramp_audio_len s" 1] ramp_down_range [of "ramp_audio_ptr s" "ramp_audio_len s" 1]
      mv [of "next_cw_event s"] mv [of "next_cw_event (s\<lparr>cw_delay_time := cw_delay_time s + 1\<rparr>)"]
    by (cases b) (auto simp: cw_sample_def next_cw_sidetone_sample_def Let_def ramps_ok_def ev)
qed

end
