(* ===== verification/Keyer.thy ===== *)
theory Keyer
  imports CW
begin

text \<open>
  The iambic keyer (\<^verbatim>\<open>src/src/iambic.c\<close>): paddle events, the settings, and the keyer
  thread as a step function, one step for each pass of its inner loop. The pointers \<open>kdot\<close>,
  \<open>kdash\<close>, \<open>kmeml\<close> and \<open>kmemr\<close> are chosen together by \<open>keyer_update\<close> and are the flag
  \<open>swapped\<close>. A step takes the time of \<open>clock_gettime\<close> in nanoseconds and returns how long
  the thread sleeps. Waiting for MOX, at most 250 ms, does not change the state of the keyer.
  The radio is built without GPIO.

  The properties: how the next element depends on the paddles (modes A and B, bug), that the
  keyer never leaves the key down, and how long the transmitter hangs.
\<close>

subsection \<open>State\<close>

datatype key_state = CHECK | STRAIGHT | PREDOT | AFTERDOT | PREDASH | AFTERDASH | DOTDELAY
  | DASHDELAY | LETTERSPACE | EXITLOOP

datatype keyer_mode = KEYER_STRAIGHT | KEYER_MODE_A | KEYER_MODE_B

text \<open>Where the thread is: in \<open>sem_wait\<close>, in the inner loop, or gone.\<close>

datatype keyer_phase = Waiting | Looping | Ended

record keyer =
  cw :: cw_state
  kcwl :: bool
  kcwr :: bool
  dot_memory :: bool
  dash_memory :: bool
  dot_held :: bool
  dash_held :: bool
  key_state :: key_state
  dot_length :: int
  dot_samples :: int
  dash_samples :: int
  swapped :: bool
  running :: bool
  kphase :: keyer_phase
  cw_event :: nat        \<comment> \<open>the semaphore\<close>
  enforce_cw_vox :: bool
  moxbefore :: bool
  cwvox :: int
  kdelay :: int
  tdown :: int
  mox_requests :: "bool list"   \<comment> \<open>queued calls of \<open>ext_radio_set_mox\<close>\<close>
  cw_keyer_speed :: int
  cw_keyer_weight :: int
  cw_keyer_mode :: keyer_mode
  cw_keyer_spacing :: bool
  cw_keyer_internal' :: bool
  cw_keys_reversed :: bool
  cw_keyer_hang_time :: int
  cw_breakin :: bool
  kremote :: bool

definition kdot :: "keyer \<Rightarrow> bool" where "kdot k = (if swapped k then kcwr k else kcwl k)"
definition kdash :: "keyer \<Rightarrow> bool" where "kdash k = (if swapped k then kcwl k else kcwr k)"

definition set_kmeml :: "keyer \<Rightarrow> keyer" where
  "set_kmeml k = (if swapped k then k\<lparr>dash_memory := True\<rparr> else k\<lparr>dot_memory := True\<rparr>)"
definition set_kmemr :: "keyer \<Rightarrow> keyer" where
  "set_kmemr k = (if swapped k then k\<lparr>dot_memory := True\<rparr> else k\<lparr>dash_memory := True\<rparr>)"

definition send_cw :: "bool \<Rightarrow> int \<Rightarrow> keyer \<Rightarrow> keyer" where
  "send_cw down wait k = k\<lparr>cw := tx_queue_cw_event (kremote k) down wait (cw k)\<rparr>"

text \<open>A product of type \<open>int\<close>.\<close>

definition int32 :: "int \<Rightarrow> int" where
  "int32 x = sint (word_of_int x :: 32 word)"

subsection \<open>Paddles and settings\<close>

definition keyer_event :: "bool \<Rightarrow> bool \<Rightarrow> bool \<Rightarrow> keyer \<Rightarrow> keyer" where
  "keyer_event CAT_cw_is_active left state k = (
     if \<not> running k then k else
     let k = (if state \<and> CAT_cw_is_active then k\<lparr>enforce_cw_vox := True\<rparr> else k);
         k = (if left then let k = k\<lparr>kcwl := state\<rparr> in if state then set_kmeml k else k
              else let k = k\<lparr>kcwr := state\<rparr> in if state then set_kmemr k else k)
     in if state then k\<lparr>cw_event := cw_event k + 1\<rparr> else k)"

definition keyer_init :: "keyer \<Rightarrow> keyer" where
  "keyer_init k = k\<lparr>cw_event := 0, running := True, enforce_cw_vox := False, kphase := Waiting\<rparr>"

definition keyer_close :: "keyer \<Rightarrow> keyer" where
  "keyer_close k = k\<lparr>running := False, cw_event := cw_event k + 1\<rparr>"

definition keyer_update :: "keyer \<Rightarrow> keyer" where
  "keyer_update k = (
     let k = k\<lparr>dot_length := c_div 1200 (cw_keyer_speed k),
               dot_samples := c_div 57600 (cw_keyer_speed k),
               dash_samples := c_div (3456 * cw_keyer_weight k) (cw_keyer_speed k),
               swapped := cw_keys_reversed k\<rparr>
     in if \<not> cw_keyer_internal' k then if running k then k else keyer_init k
        else if running k then keyer_close k else k)"

subsection \<open>The thread\<close>

definition loop_head :: "keyer \<Rightarrow> keyer" where
  "loop_head k = (if running k then k\<lparr>enforce_cw_vox := False, kphase := Waiting\<rparr> else k\<lparr>kphase := Ended\<rparr>)"

text \<open>After \<open>sem_wait\<close>; \<open>mox\<close> and \<open>txmode_cw\<close> are the state of the radio.\<close>

definition keyer_wake :: "bool \<Rightarrow> bool \<Rightarrow> keyer \<Rightarrow> keyer" where
  "keyer_wake mox txmode_cw k = (
     let k = k\<lparr>cw_event := cw_event k - 1\<rparr> in
     if \<not> kcwl k \<and> \<not> kcwr k then loop_head k else
     let k = k\<lparr>moxbefore := mox \<and> \<not> enforce_cw_vox k, cwvox := 0\<rparr>;
         k = (if cw_breakin k \<and> txmode_cw
              then k\<lparr>mox_requests := mox_requests k @ [True], cwvox := cw_keyer_hang_time k\<rparr> else k)
     in k\<lparr>key_state := CHECK, kphase := Looping\<rparr>)"

definition exitloop_step :: "keyer \<Rightarrow> keyer" where
  "exitloop_step k = (
     let k = k\<lparr>cwvox := cwvox k - 1\<rparr>
     in if cwvox k = 0 then
          if moxbefore k then k else k\<lparr>mox_requests := mox_requests k @ [False]\<rparr>
        else k\<lparr>key_state := CHECK\<rparr>)"

definition check_step :: "int \<Rightarrow> keyer \<Rightarrow> keyer" where
  "check_step now k = (
     let k = k\<lparr>key_state := EXITLOOP\<rparr>;
         k = (if 1 < cwvox k then k\<lparr>cwvox := cwvox k - 1\<rparr> else k)
     in if cw_keyer_mode k = KEYER_STRAIGHT then
          let k = (if kdot k then k\<lparr>key_state := PREDOT\<rparr> else k)
          in if kdash k then (send_cw True 0 (k\<lparr>tdown := now\<rparr>))\<lparr>key_state := STRAIGHT\<rparr> else k
        else
          let k = (if kdash k then k\<lparr>key_state := PREDASH\<rparr> else k)
          in if kdot k then k\<lparr>key_state := PREDOT\<rparr> else k)"

definition straight_step :: "int \<Rightarrow> keyer \<Rightarrow> keyer" where
  "straight_step now k = (if kdash k then k
     else (send_cw False (c_trunc (real_of_int (now - tdown k) / 10 ^ 9 * 48000)) k)\<lparr>key_state := CHECK\<rparr>)"

definition predot_step :: "keyer \<Rightarrow> keyer" where
  "predot_step k = (
     let k = k\<lparr>dash_memory := False, dash_held := kdash k\<rparr>;
         k = send_cw True 0 k;
         k = send_cw False (dot_samples k) k;
         k = send_cw False (dot_samples k) k
     in k\<lparr>key_state := AFTERDOT\<rparr>)"

definition letter_or_exit :: "keyer \<Rightarrow> keyer" where
  "letter_or_exit k = (if cw_keyer_spacing k
     then k\<lparr>dot_memory := False, dash_memory := False, key_state := LETTERSPACE, kdelay := 0\<rparr>
     else k\<lparr>key_state := EXITLOOP\<rparr>)"

definition afterdot_step :: "keyer \<Rightarrow> keyer" where
  "afterdot_step k = (
     if cw_keyer_mode k = KEYER_STRAIGHT then k\<lparr>key_state := (if kdot k then PREDOT else EXITLOOP)\<rparr>
     else
       let k = (if cw_keyer_mode k = KEYER_MODE_A \<and> \<not> kdot k \<and> \<not> kdash k then k\<lparr>dash_held := False\<rparr> else k)
       in if dash_memory k \<or> kdash k \<or> dash_held k then k\<lparr>key_state := PREDASH\<rparr>
          else if kdot k then k\<lparr>key_state := PREDOT\<rparr>
          else letter_or_exit k)"

definition predash_step :: "keyer \<Rightarrow> keyer" where
  "predash_step k = (
     let k = k\<lparr>dot_memory := False, dot_held := kdot k\<rparr>;
         k = send_cw True 0 k;
         k = send_cw False (dash_samples k) k;
         k = send_cw False (dot_samples k) k
     in k\<lparr>key_state := AFTERDASH\<rparr>)"

definition afterdash_step :: "keyer \<Rightarrow> keyer" where
  "afterdash_step k = (
     let k = (if cw_keyer_mode k = KEYER_MODE_A \<and> \<not> kdot k \<and> \<not> kdash k then k\<lparr>dot_held := False\<rparr> else k)
     in if dot_memory k \<or> kdot k \<or> dot_held k then k\<lparr>key_state := PREDOT\<rparr>
        else if kdash k then k\<lparr>key_state := PREDASH\<rparr>
        else letter_or_exit k)"

definition letterspace_step :: "keyer \<Rightarrow> keyer" where
  "letterspace_step k = (
     let k = k\<lparr>kdelay := kdelay k + 1\<rparr>
     in if 2 * dot_length k < kdelay k
        then k\<lparr>key_state := (if dot_memory k then PREDOT else if dash_memory k then PREDASH else EXITLOOP)\<rparr>
        else k)"

definition loop_done :: "keyer \<Rightarrow> bool" where
  "loop_done k \<longleftrightarrow> key_state k = EXITLOOP \<and> \<not> 0 < cwvox k"

text \<open>
  One pass of the inner loop: the new state and the time until the next pass in nanoseconds.
  The states \<open>DOTDELAY\<close> and \<open>DASHDELAY\<close> exist in the enumeration only.
\<close>

definition retrigger_vox :: "keyer \<Rightarrow> keyer" where
  "retrigger_vox k = (if 0 < cwvox k \<and> key_state k \<noteq> EXITLOOP \<and> key_state k \<noteq> CHECK
     then k\<lparr>cwvox := cw_keyer_hang_time k\<rparr> else k)"

definition keyer_switch :: "int \<Rightarrow> keyer \<Rightarrow> keyer \<times> int" where
  "keyer_switch now k = (case key_state k of
     EXITLOOP \<Rightarrow> (exitloop_step k, 1000000)
   | CHECK \<Rightarrow> let k = check_step now k in (k, if key_state k = CHECK then 1000000 else 0)
   | STRAIGHT \<Rightarrow> (straight_step now k, if kdash k then 1000000 else 0)
   | PREDOT \<Rightarrow> (predot_step k, int32 (2 * dot_samples k * 20833))
   | AFTERDOT \<Rightarrow> (afterdot_step k, 0)
   | PREDASH \<Rightarrow> (predash_step k, int32 ((dash_samples k + dot_samples k) * 20833))
   | AFTERDASH \<Rightarrow> (afterdash_step k, 0)
   | LETTERSPACE \<Rightarrow> (letterspace_step k, 1000000)
   | DOTDELAY \<Rightarrow> (k\<lparr>key_state := EXITLOOP\<rparr>, 0)
   | DASHDELAY \<Rightarrow> (k\<lparr>key_state := EXITLOOP\<rparr>, 0))"

definition keyer_pass :: "int \<Rightarrow> keyer \<Rightarrow> keyer \<times> int" where
  "keyer_pass now k = keyer_switch now (retrigger_vox k)"

definition keyer_thread :: "int \<Rightarrow> keyer \<Rightarrow> keyer \<times> int" where
  "keyer_thread now k = (if loop_done k then (loop_head k, 0) else keyer_pass now k)"

text \<open>The events that a pass hands to the CW ring.\<close>

definition pass_events :: "int \<Rightarrow> keyer \<Rightarrow> (bool \<times> int) list" where
  "pass_events now k = (if loop_done k then [] else case key_state k of
     CHECK \<Rightarrow> if cw_keyer_mode k = KEYER_STRAIGHT \<and> kdash k then [(True, 0)] else []
   | STRAIGHT \<Rightarrow> if kdash k then [] else [(False, c_trunc (real_of_int (now - tdown k) / 10 ^ 9 * 48000))]
   | PREDOT \<Rightarrow> [(True, 0), (False, dot_samples k), (False, dot_samples k)]
   | PREDASH \<Rightarrow> [(True, 0), (False, dash_samples k), (False, dot_samples k)]
   | _ \<Rightarrow> [])"

text \<open>Events are queued one by one while the transmitter goes on executing events.\<close>

inductive cw_meanwhile :: "bool \<Rightarrow> (bool \<times> int) list \<Rightarrow> cw_state \<Rightarrow> cw_state \<Rightarrow> bool" for remote where
  mw_done: "cw_meanwhile remote [] s s"
| mw_event: "cw_meanwhile remote es (tx_queue_cw_event remote down wait s) s' \<Longrightarrow> cw_meanwhile remote ((down, wait) # es) s s'"
| mw_sample: "cw_meanwhile remote es (cw_sample a s) s' \<Longrightarrow> cw_meanwhile remote es s s'"

text \<open>
  Everything that happens to the keyer and to the CW ring while no other source keys. Samples of
  the transmitter come between any two events of a pass; the paddles are read at its start.
\<close>

inductive keyer_op :: "keyer \<Rightarrow> keyer \<Rightarrow> bool" where
  op_event: "keyer_op k (keyer_event cat left state k)"
| op_settings: "cw_keyer_speed k' \<noteq> 0 \<Longrightarrow> k' = k\<lparr>cw_keyer_speed := sp, cw_keyer_weight := wt,
    cw_keyer_mode := m, cw_keyer_spacing := spc, cw_keyer_internal' := internal, cw_keys_reversed := reversed,
    cw_keyer_hang_time := hang, cw_breakin := brk\<rparr> \<Longrightarrow> running k \<or> kphase k = Ended \<Longrightarrow>
    keyer_op k (keyer_update k')"
| op_wake: "kphase k = Waiting \<Longrightarrow> 0 < cw_event k \<Longrightarrow> keyer_op k (keyer_wake mox txcw k)"
| op_pass: "kphase k = Looping \<Longrightarrow> cw_meanwhile (kremote k) (pass_events now k) (cw k) s \<Longrightarrow>
    keyer_op k ((fst (keyer_thread now k))\<lparr>cw := s\<rparr>)"
| op_sample: "keyer_op k (k\<lparr>cw := cw_sample a (cw k)\<rparr>)"

inductive_cases keyer_opE: "keyer_op k k'"

end
