(* ===== verification/Keyer_Facts.thy ===== *)
theory Keyer_Facts
  imports Keyer
begin

text \<open>
  The properties of the keyer of theory \<open>Keyer\<close>, together with the CW ring it fills.
\<close>

subsection \<open>The key is never left down\<close>

text \<open>The state of the key after all pending events.\<close>

definition key_end :: "cw_state \<Rightarrow> bool" where
  "key_end s = (if cw_events s = [] then keydown s else fst (last (cw_events s)))"

lemma key_end_full:
  assumes "cw_ok s" and "length (cw_events s) = 1023"
  shows "\<not> key_end s"
proof -
  have "cw_events s \<noteq> []" using assms(2) by auto
  then have "fst (last (cw_events s)) \<Longrightarrow> length (cw_events s) - 1 < 1009"
    using assms(1) by (simp add: cw_ok_def downs_early_def last_conv_nth)
  then show ?thesis using assms(2) \<open>cw_events s \<noteq> []\<close> by (auto simp: key_end_def)
qed

lemma key_end_up:
  assumes "cw_ok s"
  shows "\<not> key_end (tx_queue_cw_event rem False w s)" and "cw_ok (tx_queue_cw_event rem down w' s)"
  using key_end_full [OF assms] queue_event [OF assms, of rem]
  by (auto simp: key_end_def split: if_splits)

lemma cw_reset:
  assumes "cw_ok s"
  shows "cw_ok (cw_sample Tx_other s)" and "\<not> key_end (cw_sample Tx_other s)"
  using assms
  by (auto simp: cw_sample_def Let_def cw_ok_def ring_ok_def key_end_def downs_early_def ring_list_def ring_count_def)

lemma key_end_sample:
  assumes "cw_ok s"
  shows "cw_ok (cw_sample a s)" and "key_end (cw_sample a s) \<Longrightarrow> key_end s"
proof -
  have "cw_ok (cw_sample a s) \<and> (key_end (cw_sample a s) \<longrightarrow> key_end s)"
  proof (cases a)
    case (Tx_swrtune tone)
    then have "cw_ring (cw_sample a s) = cw_ring s" "keydown (cw_sample a s) = keydown s"
      by (simp_all add: cw_sample_def Let_def)
    then show ?thesis using assms cw_ok_cong [of "cw_sample a s" s] by (simp add: key_end_def)
  next
    case Tx_other
    then show ?thesis using cw_reset [OF assms] by simp
  next
    case Tx_cw
    show ?thesis
    proof (cases "cw_events s")
      case Nil
      then show ?thesis using Tx_cw cw_sample_keying(1,2) [OF assms] by (simp add: key_end_def)
    next
      case (Cons e es)
      obtain d w where e: "cw_events s = (d, w) # es" using Cons by (cases e) auto
      show ?thesis
      proof (cases "w \<le> tick (cw_delay_time s)")
        case True
        then show ?thesis using cw_sample_keying(1,3) [OF assms] e Tx_cw by (auto simp: key_end_def)
      next
        case False
        then have "tick (cw_delay_time s) < w" by simp
        from cw_sample_keying(4) [OF assms e this] show ?thesis
          using cw_sample_keying(1) [OF assms] e Tx_cw by (auto simp: key_end_def)
      qed
    qed
  qed
  then show "cw_ok (cw_sample a s)" "key_end (cw_sample a s) \<Longrightarrow> key_end s" by auto
qed

definition keyer_ok :: "keyer \<Rightarrow> bool" where
  "keyer_ok k \<longleftrightarrow> cw_ok (cw k) \<and> (key_end (cw k) \<longrightarrow> kphase k = Looping \<and> key_state k = STRAIGHT)"

lemma cw_event_frame [simp]:
  "cw (keyer_event c l s k) = cw k" "kphase (keyer_event c l s k) = kphase k"
  "key_state (keyer_event c l s k) = key_state k"
  by (auto simp: keyer_event_def Let_def set_kmeml_def set_kmemr_def)

lemma cw_send [simp]: "cw (send_cw d w k) = tx_queue_cw_event (kremote k) d w (cw k)"
  "kphase (send_cw d w k) = kphase k" "key_state (send_cw d w k) = key_state k"
  "kremote (send_cw d w k) = kremote k"
  by (simp_all add: send_cw_def)

lemma loop_head_ok: "keyer_ok k \<Longrightarrow> key_state k \<noteq> STRAIGHT \<or> kphase k \<noteq> Looping \<Longrightarrow> keyer_ok (loop_head k)"
  by (auto simp: keyer_ok_def loop_head_def)

lemma keyer_ok_quiet:
  "cw_ok (cw k') \<Longrightarrow> \<not> key_end (cw k') \<Longrightarrow> keyer_ok k'"
  by (simp add: keyer_ok_def)

text \<open>A pass whose events are queued at once is a special case.\<close>

lemma pass_events_queued:
  "cw (fst (keyer_thread now k)) = fold (\<lambda>(down, wait). tx_queue_cw_event (kremote k) down wait) (pass_events now k) (cw k)"
proof -
  define j where "j = retrigger_vox k"
  have r: "cw j = cw k" "kremote j = kremote k" "kdash j = kdash k" "tdown j = tdown k" "dot_samples j = dot_samples k"
    "dash_samples j = dash_samples k" "cw_keyer_mode j = cw_keyer_mode k"
    by (simp_all add: j_def retrigger_vox_def kdash_def)
  have "cw (exitloop_step j) = cw j" "cw (afterdot_step j) = cw j" "cw (afterdash_step j) = cw j" "cw (letterspace_step j) = cw j"
    by (simp_all add: exitloop_step_def afterdot_step_def afterdash_step_def letterspace_step_def letter_or_exit_def Let_def)
  moreover have "cw (predot_step j) = tx_queue_cw_event (kremote j) False (dot_samples j) (tx_queue_cw_event (kremote j) False (dot_samples j)
      (tx_queue_cw_event (kremote j) True 0 (cw j)))"
    "cw (predash_step j) = tx_queue_cw_event (kremote j) False (dot_samples j) (tx_queue_cw_event (kremote j) False (dash_samples j)
      (tx_queue_cw_event (kremote j) True 0 (cw j)))"
    by (simp_all add: predot_step_def predash_step_def send_cw_def Let_def)
  moreover have "cw (check_step now j) = (if cw_keyer_mode j = KEYER_STRAIGHT \<and> kdash j then tx_queue_cw_event (kremote j) True 0 (cw j) else cw j)"
    by (simp add: check_step_def send_cw_def kdash_def kdot_def Let_def)
  moreover have "cw (straight_step now j) = (if kdash j then cw j else tx_queue_cw_event (kremote j) False
      (c_trunc (real_of_int (now - tdown j) / 10 ^ 9 * 48000)) (cw j))"
    by (simp add: straight_step_def)
  moreover have "key_state j = key_state k" by (simp add: j_def retrigger_vox_def)
  ultimately have "\<not> loop_done k \<Longrightarrow> ?thesis"
    by (cases "key_state k")
      (simp_all add: keyer_thread_def pass_events_def keyer_pass_def keyer_switch_def r Let_def flip: j_def)
  moreover have "loop_done k \<Longrightarrow> ?thesis"
    by (simp add: keyer_thread_def pass_events_def loop_head_def)
  ultimately show ?thesis by blast
qed

lemma meanwhile_queued:
  "cw_meanwhile remote es s (fold (\<lambda>(down, wait). tx_queue_cw_event remote down wait) es s)"
  by (induction es arbitrary: s) (auto intro: cw_meanwhile.intros)

lemma pass_atomic:
  assumes "kphase k = Looping"
  shows "keyer_op k (fst (keyer_thread now k))"
proof -
  define k' where "k' = fst (keyer_thread now k)"
  have "cw_meanwhile (kremote k) (pass_events now k) (cw k) (cw k')"
    unfolding k'_def pass_events_queued by (rule meanwhile_queued)
  from op_pass [OF assms this] show ?thesis by (simp flip: k'_def)
qed

text \<open>The key after a pass: up if the last event is, and as before if there is none.\<close>

lemma key_end_meanwhile:
  "cw_meanwhile remote es s s' \<Longrightarrow> cw_ok s \<Longrightarrow> cw_ok s' \<and> ((if es = [] then \<not> key_end s else \<not> fst (last es)) \<longrightarrow> \<not> key_end s')"
proof (induction rule: cw_meanwhile.induct)
  case (mw_event es down wait s s')
  then have "cw_ok (tx_queue_cw_event remote down wait s)" using queue_event(2) by blast
  with mw_event key_end_up(1) [OF mw_event.prems, of remote wait] show ?case by (cases down) auto
next
  case (mw_sample es a s s')
  then show ?case using key_end_sample [OF mw_sample.prems, of a] by auto
qed simp

lemma keyer_ok_pass:
  fixes k :: keyer and now :: int
  assumes "keyer_ok k" and "kphase k = Looping"
  defines "k' \<equiv> fst (keyer_thread now k)"
  shows "kphase k' = Looping \<and> key_state k' = STRAIGHT
    \<or> (if pass_events now k = [] then \<not> key_end (cw k) else \<not> fst (last (pass_events now k)))"
proof (cases "loop_done k")
  case True
  then show ?thesis using assms by (auto simp: pass_events_def keyer_ok_def loop_done_def)
next
  case False
  define j where "j = retrigger_vox k"
  have j: "kphase j = Looping" "key_state j = key_state k" "kdash j = kdash k" "cw_keyer_mode j = cw_keyer_mode k"
    using assms(2) by (auto simp: j_def retrigger_vox_def kdash_def)
  have k': "k' = fst (keyer_switch now j)"
    using False by (simp add: k'_def keyer_thread_def keyer_pass_def j_def)
  have quiet: "key_state k \<noteq> STRAIGHT \<Longrightarrow> \<not> key_end (cw k)" using assms(1) by (auto simp: keyer_ok_def)
  show ?thesis
    using False quiet j
    by (cases "key_state k") (auto simp: k' pass_events_def keyer_switch_def check_step_def straight_step_def kdash_def Let_def)
qed

lemma keyer_op_ok: "keyer_op k k' \<Longrightarrow> keyer_ok k \<Longrightarrow> keyer_ok k'"
proof (induction rule: keyer_op.induct)
  case (op_pass k now s)
  then have "cw_ok (cw k)" by (simp add: keyer_ok_def)
  from key_end_meanwhile [OF op_pass(2) this] keyer_ok_pass [OF op_pass(3,1), of now] show ?case
    by (auto simp: keyer_ok_def)
next
  case (op_sample k a)
  then show ?case using key_end_sample [of "cw k" a] by (auto simp: keyer_ok_def)
next
  case (op_wake k mox txcw)
  then have q: "cw_ok (cw k)" "\<not> key_end (cw k)" by (auto simp: keyer_ok_def)
  have "cw (keyer_wake mox txcw k) = cw k" by (simp add: keyer_wake_def loop_head_def Let_def)
  then show ?case using q by (intro keyer_ok_quiet) simp_all
next
  case (op_settings k' k)
  then show ?case
    by (auto simp: keyer_ok_def keyer_update_def keyer_init_def keyer_close_def Let_def)
qed (simp add: keyer_ok_def)


subsection \<open>Which element comes next\<close>

text \<open>Paddle events, each with the paddle (left or not) and its new state.\<close>

definition paddle_events :: "bool \<Rightarrow> (bool \<times> bool) list \<Rightarrow> keyer \<Rightarrow> keyer" where
  "paddle_events cat evs k = fold (\<lambda>(left, state). keyer_event cat left state) evs k"

definition hit_dash :: "keyer \<Rightarrow> (bool \<times> bool) list \<Rightarrow> bool" where
  "hit_dash k evs \<longleftrightarrow> (swapped k, True) \<in> set evs"

definition hit_dot :: "keyer \<Rightarrow> (bool \<times> bool) list \<Rightarrow> bool" where
  "hit_dot k evs \<longleftrightarrow> (\<not> swapped k, True) \<in> set evs"

definition keyer_config :: "keyer \<Rightarrow> bool \<times> bool \<times> keyer_mode \<times> bool \<times> key_state \<times> keyer_phase \<times> int \<times> bool \<times> bool" where
  "keyer_config k = (running k, swapped k, cw_keyer_mode k, cw_keyer_spacing k, key_state k, kphase k,
     cwvox k, dot_held k, dash_held k)"

lemma event_config: "keyer_config (keyer_event c l st k) = keyer_config k"
  by (simp add: keyer_config_def keyer_event_def Let_def set_kmeml_def set_kmemr_def)

lemma event_memory:
  assumes "running k"
  shows "dash_memory (keyer_event c l st k) = (dash_memory k \<or> st \<and> l = swapped k)"
    and "dot_memory (keyer_event c l st k) = (dot_memory k \<or> st \<and> l = (\<not> swapped k))"
  using assms by (auto simp: keyer_event_def Let_def set_kmeml_def set_kmemr_def)

lemma paddle_events:
  assumes "running k"
  shows "keyer_config (paddle_events c evs k) = keyer_config k
    \<and> dash_memory (paddle_events c evs k) = (dash_memory k \<or> hit_dash k evs)
    \<and> dot_memory (paddle_events c evs k) = (dot_memory k \<or> hit_dot k evs)"
  using assms
proof (induction evs arbitrary: k)
  case (Cons e evs)
  obtain l st where e: "e = (l, st)" by (cases e)
  define q where "q = keyer_event c l st k"
  have q: "keyer_config q = keyer_config k" by (simp add: q_def event_config)
  then have r: "running q" "swapped q = swapped k" using Cons.prems by (simp_all add: keyer_config_def)
  have "paddle_events c (e # evs) k = paddle_events c evs q" by (simp add: paddle_events_def e q_def)
  then show ?case
    using Cons.IH [OF r(1)] q r(2) event_memory [OF Cons.prems, of c l st]
    by (auto simp: hit_dash_def hit_dot_def e q_def [symmetric])
qed (simp add: paddle_events_def hit_dash_def hit_dot_def)

lemma predot_fields:
  "running (predot_step k) = running k" "swapped (predot_step k) = swapped k"
  "cw_keyer_mode (predot_step k) = cw_keyer_mode k" "cw_keyer_spacing (predot_step k) = cw_keyer_spacing k"
  "\<not> dash_memory (predot_step k)" "dash_held (predot_step k) = kdash k" "key_state (predot_step k) = AFTERDOT"
  by (simp_all add: predot_step_def Let_def send_cw_def kdash_def)

lemma predash_fields:
  "running (predash_step k) = running k" "swapped (predash_step k) = swapped k"
  "cw_keyer_mode (predash_step k) = cw_keyer_mode k" "cw_keyer_spacing (predash_step k) = cw_keyer_spacing k"
  "\<not> dot_memory (predash_step k)" "dot_held (predash_step k) = kdot k" "key_state (predash_step k) = AFTERDASH"
  by (simp_all add: predash_step_def Let_def send_cw_def kdot_def)

lemma retrigger_fields [simp]:
  "running (retrigger_vox k) = running k" "swapped (retrigger_vox k) = swapped k"
  "cw_keyer_mode (retrigger_vox k) = cw_keyer_mode k" "cw_keyer_spacing (retrigger_vox k) = cw_keyer_spacing k"
  "key_state (retrigger_vox k) = key_state k" "kdot (retrigger_vox k) = kdot k" "kdash (retrigger_vox k) = kdash k"
  "dash_memory (retrigger_vox k) = dash_memory k" "dot_memory (retrigger_vox k) = dot_memory k"
  "dash_held (retrigger_vox k) = dash_held k" "dot_held (retrigger_vox k) = dot_held k"
  "kphase (retrigger_vox k) = kphase k" "cw (retrigger_vox k) = cw k"
  "dot_samples (retrigger_vox k) = dot_samples k" "dash_samples (retrigger_vox k) = dash_samples k"
  by (simp_all add: retrigger_vox_def kdot_def kdash_def)

lemma thread_step:
  "key_state k \<noteq> EXITLOOP \<Longrightarrow> keyer_thread t k = keyer_switch t (retrigger_vox k)"
  by (simp add: keyer_thread_def loop_done_def keyer_pass_def)

lemma letter_or_exit_state:
  "key_state (letter_or_exit k) = (if cw_keyer_spacing k then LETTERSPACE else EXITLOOP)"
  by (simp add: letter_or_exit_def)

lemma kdot_held [simp]: "kdot (k\<lparr>dash_held := b\<rparr>) = kdot k" "kdash (k\<lparr>dash_held := b\<rparr>) = kdash k"
  "kdot (k\<lparr>dot_held := b\<rparr>) = kdot k" "kdash (k\<lparr>dot_held := b\<rparr>) = kdash k"
  by (simp_all add: kdot_def kdash_def)

text \<open>
  C20. The iambic rule. After a dot comes a dash if the dash paddle was hit while the dot and
  the pause after it lasted, or is pressed, or was held when the dot began (in mode A only if a
  paddle is still pressed); otherwise another dot if the dot paddle is pressed; otherwise the
  letter space, if that is enabled, or the end. After a dash the roles are exchanged. The paddle
  events in between are arbitrary.
\<close>

theorem iambic_rule:
  assumes "running k" and "cw_keyer_mode k \<noteq> KEYER_STRAIGHT"
    and "k2 = paddle_events cat evs (fst (keyer_thread t k))" and "k3 = fst (keyer_thread t' k2)"
  shows "(key_state k = PREDOT \<longrightarrow> key_state k3 =
      (if hit_dash k evs \<or> kdash k2 \<or> kdash k \<and> (cw_keyer_mode k = KEYER_MODE_B \<or> kdot k2) then PREDASH
       else if kdot k2 then PREDOT else if cw_keyer_spacing k then LETTERSPACE else EXITLOOP))
    \<and> (key_state k = PREDASH \<longrightarrow> key_state k3 =
      (if hit_dot k evs \<or> kdot k2 \<or> kdot k \<and> (cw_keyer_mode k = KEYER_MODE_B \<or> kdash k2) then PREDOT
       else if kdash k2 then PREDASH else if cw_keyer_spacing k then LETTERSPACE else EXITLOOP))"
proof (intro conjI impI)
  assume s: "key_state k = PREDOT"
  define k1 where "k1 = predot_step (retrigger_vox k)"
  have k2: "k2 = paddle_events cat evs k1"
    using s by (simp add: assms(3) thread_step keyer_switch_def k1_def)
  have r: "running k1" "swapped k1 = swapped k" using assms(1) by (simp_all add: k1_def predot_fields)
  note pe = paddle_events [OF r(1), of cat evs, folded k2]
  have f: "key_state k2 = AFTERDOT" "cw_keyer_mode k2 = cw_keyer_mode k" "dash_memory k2 = hit_dash k evs"
    "dash_held k2 = kdash k" "cw_keyer_spacing k2 = cw_keyer_spacing k"
    using pe r by (simp_all add: keyer_config_def k1_def predot_fields hit_dash_def)
  have "key_state k3 = key_state (afterdot_step (retrigger_vox k2))"
    using f(1) by (simp add: assms(4) thread_step keyer_switch_def)
  then show "key_state k3 =
      (if hit_dash k evs \<or> kdash k2 \<or> kdash k \<and> (cw_keyer_mode k = KEYER_MODE_B \<or> kdot k2) then PREDASH
       else if kdot k2 then PREDOT else if cw_keyer_spacing k then LETTERSPACE else EXITLOOP)"
    using f(2-5) assms(2) by (cases "cw_keyer_mode k") (simp_all add: afterdot_step_def Let_def letter_or_exit_state)
next
  assume s: "key_state k = PREDASH"
  define k1 where "k1 = predash_step (retrigger_vox k)"
  have k2: "k2 = paddle_events cat evs k1"
    using s by (simp add: assms(3) thread_step keyer_switch_def k1_def)
  have r: "running k1" "swapped k1 = swapped k" using assms(1) by (simp_all add: k1_def predash_fields)
  note pe = paddle_events [OF r(1), of cat evs, folded k2]
  have f: "key_state k2 = AFTERDASH" "cw_keyer_mode k2 = cw_keyer_mode k" "dot_memory k2 = hit_dot k evs"
    "dot_held k2 = kdot k" "cw_keyer_spacing k2 = cw_keyer_spacing k"
    using pe r by (simp_all add: keyer_config_def k1_def predash_fields hit_dot_def)
  have "key_state k3 = key_state (afterdash_step (retrigger_vox k2))"
    using f(1) by (simp add: assms(4) thread_step keyer_switch_def)
  then show "key_state k3 =
      (if hit_dot k evs \<or> kdot k2 \<or> kdot k \<and> (cw_keyer_mode k = KEYER_MODE_B \<or> kdash k2) then PREDOT
       else if kdash k2 then PREDASH else if cw_keyer_spacing k then LETTERSPACE else EXITLOOP)"
    using f(2-5) assms(2) by (cases "cw_keyer_mode k") (simp_all add: afterdash_step_def Let_def letter_or_exit_state)
qed

subsection \<open>The hang time\<close>

text \<open>\<open>n\<close> passes of the thread without paddle events, and the time they take.\<close>

fun keyer_passes :: "nat \<Rightarrow> int \<Rightarrow> keyer \<Rightarrow> keyer \<times> int" where
  "keyer_passes 0 now k = (k, 0)"
| "keyer_passes (Suc n) now k = (let (k, w) = keyer_thread now k; (k, v) = keyer_passes n (now + w) k in (k, w + v))"

lemma exit_pass:
  assumes "key_state k = EXITLOOP" and "0 < cwvox k"
  shows "keyer_thread now k = (exitloop_step k, 1000000)"
  using assms by (simp add: keyer_thread_def loop_done_def keyer_pass_def retrigger_vox_def keyer_switch_def)

lemma paddles_frame [simp]:
  "kdot (k\<lparr>key_state := x\<rparr>) = kdot k" "kdash (k\<lparr>key_state := x\<rparr>) = kdash k"
  "kdot (k\<lparr>cwvox := v\<rparr>) = kdot k" "kdash (k\<lparr>cwvox := v\<rparr>) = kdash k"
  by (simp_all add: kdot_def kdash_def)

definition check_idle :: "keyer \<Rightarrow> keyer" where
  "check_idle k = (if 1 < cwvox k then k\<lparr>key_state := EXITLOOP, cwvox := cwvox k - 1\<rparr>
     else k\<lparr>key_state := EXITLOOP\<rparr>)"

lemma check_pass:
  assumes "key_state k = CHECK" and "\<not> kdot k" and "\<not> kdash k"
  shows "keyer_thread now k = (check_idle k, 0)"
proof -
  have r: "retrigger_vox k = k" using assms(1) by (simp add: retrigger_vox_def)
  have "check_step now k = check_idle k"
    using assms(2,3) by (cases "1 < cwvox k") (simp_all add: check_step_def check_idle_def Let_def)
  moreover have "key_state (check_idle k) = EXITLOOP" by (simp add: check_idle_def)
  ultimately show ?thesis
    using assms(1) by (simp add: thread_step r keyer_switch_def Let_def)
qed

lemma hang_passes:
  assumes "key_state k = EXITLOOP" and "cwvox k = int (Suc h)" and "\<not> kdot k" and "\<not> kdash k" and "\<not> moxbefore k"
  shows "keyer_passes (2 * (Suc h div 2) + 1) now k =
    (k\<lparr>cwvox := 0, mox_requests := mox_requests k @ [False]\<rparr>, (int (Suc h) div 2 + 1) * 1000000)"
  using assms
proof (induction h arbitrary: k now rule: nat_less_induct)
  case (1 h)
  show ?case
  proof (cases "h = 0")
    case True
    then show ?thesis using 1(2-) by (simp add: exit_pass exitloop_step_def)
  next
    case False
    define k1 where "k1 = k\<lparr>cwvox := int h, key_state := CHECK\<rparr>"
    have t1: "keyer_thread now k = (k1, 1000000)"
      using 1(2-) False by (simp add: exit_pass exitloop_step_def k1_def)
    define k2 where "k2 = k\<lparr>cwvox := (if 1 < h then int h - 1 else int h)\<rparr>"
    have "k\<lparr>cwvox := c, key_state := EXITLOOP\<rparr> = k\<lparr>cwvox := c\<rparr>" for c using 1(2) by (cases k) simp
    then have "check_idle k1 = k2"
      by (auto simp: check_idle_def k1_def k2_def)
    moreover have "key_state k1 = CHECK" "\<not> kdot k1" "\<not> kdash k1"
      using 1(4,5) by (simp_all add: k1_def)
    ultimately have "keyer_thread now' k1 = (k2, 0)" for now' by (simp add: check_pass)
    then have two: "keyer_passes (Suc (Suc n)) now k = (let (x, v) = keyer_passes n (now + 1000000) k2 in (x, 1000000 + v))" for n
      by (simp add: t1 split_beta)
    define g where "g = (if 1 < h then h - 2 else 0)"
    have g: "g < h" "cwvox k2 = int (Suc g)" "Suc h div 2 = Suc (Suc g div 2)"
      using False by (auto simp: g_def k2_def)
    have "keyer_passes (2 * (Suc g div 2) + 1) (now + 1000000) k2 =
        (k2\<lparr>cwvox := 0, mox_requests := mox_requests k2 @ [False]\<rparr>, (int (Suc g) div 2 + 1) * 1000000)"
    proof (rule 1(1) [rule_format, OF g(1)])
      show "cwvox k2 = int (Suc g)" by (rule g(2))
    qed (use 1(2,4,5,6) in \<open>simp_all add: k2_def\<close>)
    moreover have "int (Suc h) div 2 = int (Suc g) div 2 + 1"
      using g(3) by (metis add.commute of_nat_Suc of_nat_div of_nat_numeral)
    ultimately show ?thesis
      using two [of "2 * (Suc g div 2) + 1"] g(3) by (simp add: k2_def algebra_simps)
  qed
qed

text \<open>
  The hang time is half of what was set: after the last element, with the paddles released,
  the request to leave MOX comes after \<open>H div 2 + 1\<close> milliseconds, because each
  \<open>EXITLOOP\<close>/\<open>CHECK\<close> pair, one millisecond long, counts \<open>cwvox\<close> down twice.
\<close>

lemma keyer_hang_halved:
  assumes "key_state k = EXITLOOP" and "cwvox k = cw_keyer_hang_time k" and "0 < cw_keyer_hang_time k"
    and "\<not> kdot k" and "\<not> kdash k" and "\<not> moxbefore k"
  shows "\<exists>n k'. keyer_passes n now k = (k', (cw_keyer_hang_time k div 2 + 1) * 1000000)
    \<and> mox_requests k' = mox_requests k @ [False] \<and> loop_done k'"
proof -
  define h where "h = nat (cw_keyer_hang_time k - 1)"
  have h: "cwvox k = int (Suc h)" "cw_keyer_hang_time k = int (Suc h)"
    using assms(2,3) by (simp_all add: h_def)
  from hang_passes [OF assms(1) h(1) assms(4-6), of now] show ?thesis
    by (intro exI conjI, simp only: h(2)) (simp_all add: loop_done_def assms(1))
qed

subsection \<open>Stopping the keyer\<close>

text \<open>What happens while \<open>keyer_close\<close> waits for the thread to end.\<close>

inductive join_op :: "keyer \<Rightarrow> keyer \<Rightarrow> bool" where
  join_event: "join_op k (keyer_event cat left state k)"
| join_pass: "kphase k = Looping \<Longrightarrow> join_op k (fst (keyer_thread now k))"
| join_sample: "join_op k (k\<lparr>cw := cw_sample cwm (cw k)\<rparr>)"

definition sending_dots :: "keyer \<Rightarrow> bool" where
  "sending_dots k \<longleftrightarrow> \<not> running k \<and> kphase k = Looping \<and> kdot k
     \<and> key_state k \<in> {PREDOT, AFTERDOT, PREDASH, AFTERDASH}"

lemma dots_go_on:
  assumes "kdot k"
  shows "afterdot_step k = k\<lparr>key_state :=
      (if cw_keyer_mode k \<noteq> KEYER_STRAIGHT \<and> (dash_memory k \<or> kdash k \<or> dash_held k) then PREDASH else PREDOT)\<rparr>"
    and "afterdash_step k = k\<lparr>key_state := PREDOT\<rparr>"
  using assms by (simp_all add: afterdot_step_def afterdash_step_def Let_def)

lemma sending_dots_pass:
  assumes "sending_dots k"
  shows "sending_dots (fst (keyer_thread now k))"
proof -
  define j where "j = retrigger_vox k"
  have j: "\<not> running j" "kphase j = Looping" "kdot j" "key_state j = key_state k"
    using assms by (simp_all add: j_def sending_dots_def)
  have pre: "sending_dots (predot_step j)" "sending_dots (predash_step j)"
    using j(1-3) by (simp_all add: sending_dots_def predot_step_def predash_step_def Let_def send_cw_def kdot_def)
  have post: "sending_dots (afterdot_step j)" "sending_dots (afterdash_step j)"
    using j(1-3) by (simp_all add: sending_dots_def dots_go_on)
  have "key_state k \<noteq> EXITLOOP" "key_state k \<in> {PREDOT, AFTERDOT, PREDASH, AFTERDASH}"
    using assms by (auto simp: sending_dots_def)
  then show ?thesis
    using pre post by (auto simp: thread_step keyer_switch_def j(4) j_def [symmetric] simp del: retrigger_fields)
qed

lemma join_op_dots: "join_op k k' \<Longrightarrow> sending_dots k \<Longrightarrow> sending_dots k'"
  by (induction rule: join_op.induct) (auto simp: sending_dots_pass, auto simp: sending_dots_def keyer_event_def kdot_def)

text \<open>
  Stopping the keyer while the dot paddle is pressed and an element is being sent never
  returns: \<open>keyer_event\<close> ignores the release of the paddle once \<open>running\<close> is cleared, so the
  thread keeps sending and \<open>pthread_join\<close> waits for ever.
\<close>

lemma keyer_close_hangs:
  assumes "kphase k = Looping" and "kdot k" and "key_state k \<in> {PREDOT, AFTERDOT, PREDASH, AFTERDASH}"
    and "join_op\<^sup>*\<^sup>* (keyer_close k) k'"
  shows "kphase k' \<noteq> Ended"
proof -
  have "sending_dots (keyer_close k)"
    using assms(1-3) by (simp add: sending_dots_def keyer_close_def kdot_def)
  with assms(4) have "sending_dots k'"
    by (induction rule: rtranclp_induct) (auto simp: join_op_dots)
  then show ?thesis by (simp add: sending_dots_def)
qed

subsection \<open>The length of an element\<close>

lemma int32_id: "- (2 ^ 31) \<le> x \<Longrightarrow> x < 2 ^ 31 \<Longrightarrow> int32 x = x"
  by (simp add: int32_def sint_sbintrunc' signed_take_bit_int_eq_self)

text \<open>
  The thread sleeps for exactly the length of a dot and the pause after it when the speed is
  between 2 and 60 words per minute. At one word per minute the \<open>int\<close> product
  overflows and the time is negative: the thread does not sleep at all.
\<close>

lemma keyer_dot_time:
  assumes "key_state k = PREDOT" and "dot_samples k = c_div 57600 sp" and "1 \<le> sp" and "sp \<le> 60"
  shows "(2 \<le> sp \<longrightarrow> snd (keyer_thread now k) = 2 * dot_samples k * 20833 \<and> 0 < dot_samples k)
    \<and> (sp = 1 \<longrightarrow> snd (keyer_thread now k) < 0)"
proof -
  have t: "snd (keyer_thread now k) = int32 (2 * dot_samples k * 20833)"
    using assms(1) by (simp add: thread_step keyer_switch_def)
  have "dot_samples k = 57600 div sp" using assms(2,3) by simp
  moreover have "57600 div sp \<le> 57600 div 2" "57600 div 60 \<le> 57600 div sp" if "2 \<le> sp"
    using zdiv_mono2 [of 57600 2 sp] zdiv_mono2 [of 57600 sp 60] that assms(4) by simp_all
  ultimately have "2 \<le> sp \<Longrightarrow> 960 \<le> dot_samples k \<and> dot_samples k \<le> 28800" by simp
  then have "2 \<le> sp \<Longrightarrow> snd (keyer_thread now k) = 2 * dot_samples k * 20833 \<and> 0 < dot_samples k"
    unfolding t using int32_id [of "2 * dot_samples k * 20833"] by simp
  moreover have "sp = 1 \<Longrightarrow> snd (keyer_thread now k) < 0"
    unfolding t int32_def using assms(2) by simp
  ultimately show ?thesis by blast
qed

end
