(* ===== verification/Keyer_Examples.thy ===== *)
theory Keyer_Examples
  imports Keyer_Facts
begin

text \<open>
  The properties of the CW ring and of the keyer at work on concrete states: an idle transmitter
  at 48 kHz and a keyer at 20 words per minute.
\<close>

definition cw0 :: cw_state where
  "cw0 = \<lparr>cw_ring = empty_ring CW_RING_SIZE (False, 0), keydown = False, cw_delay_time = 0, cw_sent = [],
     ramp_audio_ptr = 0, ramp_audio_len = 240, ramp_rf_ptr = 0, ramp_rf_len = 336, ratio = 1\<rparr>"

lemma cw0: "cw_ok cw0" "cw_events cw0 = []" "\<not> keydown cw0" "cw_delay_time cw0 = 0"
  by (simp_all add: cw0_def cw_ok_def empty_ring downs_early_def)

text \<open>A dot of 2880 samples in the ring.\<close>

definition cw_dot :: cw_state where
  "cw_dot = tx_queue_cw_event False False 2880 (tx_queue_cw_event False True 0 cw0)"

lemma cw_dot: "cw_ok cw_dot" "cw_events cw_dot = [(True, 0), (False, 2880)]" "cw_delay_time cw_dot = 0"
proof -
  define u where "u = tx_queue_cw_event False True 0 cw0"
  note q = queue_event [OF cw0(1), of False]
  have u: "cw_ok u" "cw_events u = [(True, 0)]" "cw_delay_time u = 0"
    using q cw0 by (simp_all add: u_def)
  then show "cw_ok cw_dot" "cw_events cw_dot = [(True, 0), (False, 2880)]" "cw_delay_time cw_dot = 0"
    using queue_event [OF u(1), of False] by (simp_all add: cw_dot_def u_def [symmetric])
qed

theorem cw_element_exact_example:
  "keydown (cw_samples 2880 cw_dot) \<and> \<not> keydown (cw_samples 2881 cw_dot)"
  using cw_element_exact [OF cw_dot(1), of 2880 "[]" 2880] cw_dot(2,3) by (simp del: cw_samples_simps)

lemma cw_key_timeout_example: "\<not> keydown (cw_samples 960001 (cw0\<lparr>keydown := True\<rparr>))"
  using cw_key_timeout [of "cw0\<lparr>keydown := True\<rparr>" 960001] cw0
  by (simp add: cw_ok_def del: cw_samples_simps)

definition keyer0 :: keyer where
  "keyer0 = \<lparr>cw = cw0, kcwl = False, kcwr = False, dot_memory = False, dash_memory = False,
     dot_held = False, dash_held = False, key_state = CHECK, dot_length = 60, dot_samples = 2880,
     dash_samples = 8640, swapped = False, running = True, kphase = Waiting, cw_event = 0,
     enforce_cw_vox = False, moxbefore = False, cwvox = 0, kdelay = 0, tdown = 0, mox_requests = [],
     cw_keyer_speed = 20, cw_keyer_weight = 50, cw_keyer_mode = KEYER_MODE_A, cw_keyer_spacing = False,
     cw_keyer_internal' = False, cw_keys_reversed = False, cw_keyer_hang_time = 500, cw_breakin = True,
     kremote = False\<rparr>"

text \<open>
  The left paddle is pressed, the thread wakes up and sends a dot, and the transmitter executes
  the first event.
\<close>

definition keyer_dot :: keyer where
  "keyer_dot = (let k = keyer_wake False False (keyer_event False True True keyer0);
     k = fst (keyer_thread 0 (fst (keyer_thread 0 k)))
   in k\<lparr>cw := cw_sample Tx_cw (cw k)\<rparr>)"


text \<open>The dash paddle is tapped during a dot in mode A.\<close>

theorem iambic_rule_example:
  "key_state (fst (keyer_thread 0 (paddle_events False [(False, True), (False, False)]
     (fst (keyer_thread 0 (keyer0\<lparr>key_state := PREDOT\<rparr>)))))) = PREDASH"
  using iambic_rule [of "keyer0\<lparr>key_state := PREDOT\<rparr>" _ False "[(False, True), (False, False)]" 0 _ 0, OF _ _ refl refl]
  by (simp add: hit_dash_def) (simp add: keyer0_def)

lemma keyer_hang_halved_example:
  "\<exists>n k. keyer_passes n 0 (keyer0\<lparr>key_state := EXITLOOP, cwvox := 500\<rparr>) = (k, 251000000)"
  using keyer_hang_halved [of "keyer0\<lparr>key_state := EXITLOOP, cwvox := 500\<rparr>" 0]
  by (auto simp: keyer0_def kdot_def kdash_def)

lemma keyer_close_hangs_example:
  "kphase (keyer_event False True False (keyer_close (keyer0\<lparr>kcwl := True, kphase := Looping, key_state := PREDOT\<rparr>)))
     \<noteq> Ended"
proof -
  define k where "k = keyer0\<lparr>kcwl := True, kphase := Looping, key_state := PREDOT\<rparr>"
  have "join_op\<^sup>*\<^sup>* (keyer_close k) (keyer_event False True False (keyer_close k))"
    by (rule r_into_rtranclp) (rule join_event)
  then show ?thesis
    unfolding k_def [symmetric]
    by (rule keyer_close_hangs [rotated 3]) (simp_all add: k_def keyer0_def kdot_def)
qed

theorem keyer_dot_time_example: "snd (keyer_thread 0 (keyer0\<lparr>key_state := PREDOT\<rparr>)) = 119998080"
  using keyer_dot_time [of "keyer0\<lparr>key_state := PREDOT\<rparr>" 20 0] by (simp add: keyer0_def)

end
