(* ===== verification/P1_Rx.thy ===== *)
theory P1_Rx
  imports Radio_State
begin

text \<open>
  Protocol 1, the decoder (\<^verbatim>\<open>src/src/old_protocol.c\<close>): which receiver of the radio
  carries what (\<open>rx_feedback_channel\<close> to \<open>how_many_receivers\<close>), the status bytes of a frame
  (\<open>process_control_bytes\<close>), and the byte-wise state machine \<open>process_ozy_byte\<close>.

  The static variables of the decoder and the globals it sets are the record \<open>p1\<close>; calls of
  the DSP part and of the GTK thread are appended to the trace \<open>p1_calls\<close>. Samples are kept
  at their width (24 bits in an \<open>int\<close>, 16 bits for the microphone) and converted to reals.
  Software versions that are only printed are left out.
\<close>

subsection \<open>Channels\<close>

definition rx_feedback_channel :: "bool \<Rightarrow> device \<Rightarrow> nat" where
  "rx_feedback_channel anan10E d = (case d of
     DEVICE_METIS \<Rightarrow> 0 | DEVICE_HERMES_LITE \<Rightarrow> 0 | DEVICE_OZY \<Rightarrow> 0 | DEVICE_HERMES2 \<Rightarrow> 0
   | DEVICE_HERMES \<Rightarrow> if anan10E then 0 else 2
   | DEVICE_G2E \<Rightarrow> 2 | DEVICE_STEMLAB \<Rightarrow> 2 | DEVICE_STEMLAB_Z20 \<Rightarrow> 2 | DEVICE_HERMES_LITE2 \<Rightarrow> 2
   | DEVICE_ANGELIA \<Rightarrow> 3 | DEVICE_ORION \<Rightarrow> 3 | DEVICE_ORION2 \<Rightarrow> 3
   | _ \<Rightarrow> 0)"

definition tx_feedback_channel :: "bool \<Rightarrow> device \<Rightarrow> nat" where
  "tx_feedback_channel anan10E d = (case d of
     DEVICE_METIS \<Rightarrow> 1 | DEVICE_HERMES_LITE \<Rightarrow> 1 | DEVICE_OZY \<Rightarrow> 1 | DEVICE_HERMES2 \<Rightarrow> 1
   | DEVICE_HERMES \<Rightarrow> if anan10E then 1 else 3
   | DEVICE_G2E \<Rightarrow> 3 | DEVICE_STEMLAB \<Rightarrow> 3 | DEVICE_STEMLAB_Z20 \<Rightarrow> 3 | DEVICE_HERMES_LITE2 \<Rightarrow> 3
   | DEVICE_ANGELIA \<Rightarrow> 4 | DEVICE_ORION \<Rightarrow> 4 | DEVICE_ORION2 \<Rightarrow> 4
   | _ \<Rightarrow> 1)"

text \<open>The radios of protocol 1 always have a transmitter.\<close>

definition puresignal :: "radio_state \<Rightarrow> bool" where
  "puresignal r = (case transmitter r of None \<Rightarrow> False | Some tx \<Rightarrow> tx_puresignal tx)"

text \<open>\<open>None\<close> stands for \<open>vfonum < 0\<close>, and for \<open>chan = -1\<close>.\<close>

definition channel_freq :: "bool \<Rightarrow> nat option \<Rightarrow> radio_state \<Rightarrow> int" where
  "channel_freq anan10E chan r = (
     let vfonum = (case chan of
           Some 0 \<Rightarrow> Some (rx_id (receiver r 0))
         | Some (Suc 0) \<Rightarrow> Some (if diversity_enabled r then rx_id (receiver r 0) else rx_id (receiver r 1))
         | _ \<Rightarrow> None);
         vfonum = (if radio_is_transmitting r \<and> puresignal r
              \<and> (chan = Some (rx_feedback_channel anan10E (device r)) \<or> chan = Some (tx_feedback_channel anan10E (device r)))
            then None else vfonum);
         freq = (case vfonum of
           None \<Rightarrow>
             let v = vfo r (vfo_get_tx_vfo r);
                 freq = (if v_ctun v then v_ctun_frequency v else v_frequency v);
                 freq = (if v_xit_enabled v then freq + v_xit v else freq)
             in freq - v_lo v
         | Some i \<Rightarrow> v_frequency (vfo r i) - v_lo (vfo r i))
     in calibrated_frequency freq r)"

definition how_many_receivers :: "bool \<Rightarrow> radio_state \<Rightarrow> nat" where
  "how_many_receivers anan10E r = (
     let ret = receivers r;
         ret = (if diversity_enabled r then 2 else ret)
     in if device r = DEVICE_OZY then 2
        else if puresignal r then (case device r of
            DEVICE_METIS \<Rightarrow> 2 | DEVICE_HERMES_LITE \<Rightarrow> 2 | DEVICE_OZY \<Rightarrow> 2 | DEVICE_HERMES2 \<Rightarrow> 2
          | DEVICE_HERMES \<Rightarrow> if anan10E then 2 else 4
          | DEVICE_G2E \<Rightarrow> 4 | DEVICE_STEMLAB \<Rightarrow> 4 | DEVICE_STEMLAB_Z20 \<Rightarrow> 4 | DEVICE_HERMES_LITE2 \<Rightarrow> 4
          | DEVICE_ANGELIA \<Rightarrow> 5 | DEVICE_ORION \<Rightarrow> 5 | DEVICE_ORION2 \<Rightarrow> 5
          | _ \<Rightarrow> 2)
        else ret)"

subsection \<open>State\<close>

datatype p1_parse = SYNC_0 | SYNC_1 | SYNC_2 | CONTROL_0 | CONTROL_1 | CONTROL_2 | CONTROL_3 | CONTROL_4
  | LEFT_SAMPLE_HI | LEFT_SAMPLE_MID | LEFT_SAMPLE_LOW | RIGHT_SAMPLE_HI | RIGHT_SAMPLE_MID
  | RIGHT_SAMPLE_LOW | MIC_SAMPLE_HI | MIC_SAMPLE_LOW | SKIP

type_synonym iq = "real \<times> real"

datatype p1_call =
    Idle_mox bool          \<comment> \<open>\<open>g_idle_add(ext_radio_set_mox)\<close>\<close>
  | Delayed_mox_off        \<comment> \<open>the same after \<open>ptt_delay\<close> milliseconds\<close>
  | Keyer_event bool bool
  | Start_auto_tune
  | Rx_iq nat iq
  | Rx_div_iq iq iq        \<comment> \<open>\<open>rx_add_div_iq_samples\<close>, main and auxiliary\<close>
  | Tx_ps_iq iq iq         \<comment> \<open>\<open>tx_add_ps_iq_samples\<close>, TX and RX feedback\<close>
  | Tx_mic real

record p1 =
  radio :: radio_state
  anan10E :: bool
  pstate :: p1_parse                 \<comment> \<open>\<open>state\<close>\<close>
  control_in :: "byte list"
  hpsdr_ptt :: bool
  hpsdr_dot :: bool
  hpsdr_dash :: bool
  CAT_cw_is_active :: bool
  MIDI_cw_is_active :: bool
  cw_key_hit :: bool
  enable_tx_inhibit :: bool
  enable_auto_tune :: bool
  auto_tune_flag :: bool
  auto_tune_end :: bool
  hl2_iob_present :: bool
  tx_fifo_flag :: bool
  tx_fifo_underrun :: bool
  tx_fifo_overrun :: bool
  mercury_software_version :: "nat \<Rightarrow> byte"
  fwd_acc :: u32
  rev_acc :: u32
  ex_acc :: u32
  adc0_acc :: u32
  adc1_acc :: u32
  exciter_power :: u32
  alex_forward_power :: u32
  alex_reverse_power :: u32
  ADC0 :: u32
  ADC1 :: u32
  st_num_hpsdr_receivers :: nat
  st_rxfdbk :: nat
  st_txfdbk :: nat
  nreceiver :: nat
  nsamples :: nat
  iq_samples :: nat
  left_sample :: u32
  right_sample :: u32
  left_right :: iq                   \<comment> \<open>\<open>left_sample_double\<close>, \<open>right_sample_double\<close>\<close>
  iq_rx :: iq
  iq_tx :: iq
  iq_main :: iq
  iq_aux :: iq
  next_mic_sample :: u16
  mic_samples :: nat
  mic_sample_divisor :: nat
  p1_calls :: "p1_call list"

definition p1_emit :: "p1_call \<Rightarrow> p1 \<Rightarrow> p1" where
  "p1_emit c p = p\<lparr>p1_calls := p1_calls p @ [c]\<rparr>"

definition set_TxInhibit :: "bool \<Rightarrow> p1 \<Rightarrow> p1" where
  "set_TxInhibit b p = p\<lparr>radio := (radio p)\<lparr>TxInhibit := b\<rparr>\<rparr>"

definition or_overload :: "nat \<Rightarrow> bool \<Rightarrow> p1 \<Rightarrow> p1" where
  "or_overload i b p = p\<lparr>radio := upd_adc i (\<lambda>a. a\<lparr>adc_overload := adc_overload a \<or> b\<rparr>) (radio p)\<rparr>"

subsection \<open>Status bytes\<close>

definition ptt_input :: "p1 \<Rightarrow> p1" where
  "ptt_input p = (
     let previous_ptt = hpsdr_ptt p; p = p\<lparr>hpsdr_ptt := bit (control_in p ! 0) 0\<rparr>
     in if previous_ptt \<noteq> hpsdr_ptt p then p1_emit (if hpsdr_ptt p then Idle_mox True else Delayed_mox_off) p
        else p)"

definition hl2_ack :: "p1 \<Rightarrow> p1" where
  "hl2_ack p = (
     let c = control_in p; addr = drop_bit 1 (c ! 0 AND 0x7E)
     in if addr = 0x3D \<and> c ! 1 = 0xF1 \<and> c ! 2 = 0xF1 \<and> c ! 3 = 0xF1 \<and> c ! 4 = 0xF1 \<and> \<not> hl2_iob_present p
        then p\<lparr>hl2_iob_present := True\<rparr> else p)"

definition keyer_inputs :: "p1 \<Rightarrow> p1" where
  "keyer_inputs p = (
     let previous_dot = hpsdr_dot p; previous_dash = hpsdr_dash p;
         p = p\<lparr>hpsdr_dash := bit (control_in p ! 0) 1, hpsdr_dot := bit (control_in p ! 0) 2\<rparr>;
         p = (if hpsdr_dash p \<or> hpsdr_dot p
              then p\<lparr>CAT_cw_is_active := False, MIDI_cw_is_active := False, cw_key_hit := True\<rparr> else p)
     in if \<not> cw_keyer_internal (radio p) then
          let p = (if hpsdr_dash p \<noteq> previous_dash then p1_emit (Keyer_event False (hpsdr_dash p)) p else p)
          in if hpsdr_dot p \<noteq> previous_dot then p1_emit (Keyer_event True (hpsdr_dot p)) p else p
        else p)"

definition tx_inhibit_input :: "p1 \<Rightarrow> p1" where
  "tx_inhibit_input p = (
     if enable_tx_inhibit p then
       let data = (if device (radio p) = DEVICE_ORION2 then bit (control_in p ! 1) 2 else bit (control_in p ! 1) 1);
           p = (if \<not> TxInhibit (radio p) \<and> \<not> data then p1_emit (Idle_mox False) (set_TxInhibit True p) else p)
       in if data then set_TxInhibit False p else p
     else set_TxInhibit False p)"

definition auto_tune_input :: "p1 \<Rightarrow> p1" where
  "auto_tune_input p = (
     if enable_auto_tune p then
       let data = bit (control_in p ! 1) 3; p = p\<lparr>auto_tune_end := data\<rparr>
       in if \<not> data \<and> \<not> auto_tune_flag p
          then p1_emit Start_auto_tune (p\<lparr>auto_tune_flag := True, auto_tune_end := False\<rparr>) else p
     else p\<lparr>auto_tune_end := True\<rparr>)"

definition version_status :: "p1 \<Rightarrow> p1" where
  "version_status p = (
     let c = control_in p; d = device (radio p)
     in if d = DEVICE_METIS \<or> d = DEVICE_OZY then
          if mercury_software_version p 0 \<noteq> c ! 2
          then p\<lparr>mercury_software_version := (mercury_software_version p)(0 := c ! 2)\<rparr> else p
        else if d = DEVICE_HERMES_LITE2 then
          if \<not> radio_is_transmitting (radio p) then p\<lparr>tx_fifo_flag := False, tx_fifo_underrun := False\<rparr>
          else
            let x = c ! 3 AND 0xC0;
                p = (if x \<noteq> 0x80 then p\<lparr>tx_fifo_flag := True\<rparr> else p);
                p = (if x = 0x80 \<and> tx_fifo_flag p then p\<lparr>tx_fifo_underrun := True\<rparr> else p)
            in if x = 0xC0 then p\<lparr>tx_fifo_overrun := True\<rparr> else p
        else p)"

definition control_0 :: "p1 \<Rightarrow> p1" where
  "control_0 p = version_status (auto_tune_input (tx_inhibit_input (or_overload 0 (bit (control_in p ! 1) 0) p)))"

text \<open>The analog inputs: a 16 bit value, and an accumulator of 16 times the smoothed value.\<close>

definition control_val :: "byte \<Rightarrow> byte \<Rightarrow> u32" where
  "control_val hi lo = push_bit 8 (ucast hi) OR ucast lo"

definition smooth :: "u32 \<Rightarrow> u32 \<Rightarrow> u32" where
  "smooth acc val = (15 * acc) div 16 + val"

definition control_1 :: "p1 \<Rightarrow> p1" where
  "control_1 p = (
     let c = control_in p;
         p = p\<lparr>ex_acc := smooth (ex_acc p) (control_val (c ! 1) (c ! 2))\<rparr>;
         p = p\<lparr>exciter_power := ex_acc p div 16\<rparr>;
         val = control_val (c ! 3) (c ! 4);
         p = p\<lparr>fwd_acc := smooth (fwd_acc p) val\<rparr>;
         p = p\<lparr>alex_forward_power := fwd_acc p div 16\<rparr>
     in if alex_forward_max (radio p) < uint val
        then p\<lparr>radio := (radio p)\<lparr>alex_forward_max := uint val\<rparr>\<rparr> else p)"

definition control_2 :: "p1 \<Rightarrow> p1" where
  "control_2 p = (
     let c = control_in p;
         p = p\<lparr>rev_acc := smooth (rev_acc p) (control_val (c ! 1) (c ! 2))\<rparr>;
         p = p\<lparr>alex_reverse_power := rev_acc p div 16\<rparr>;
         p = p\<lparr>adc0_acc := smooth (adc0_acc p) (control_val (c ! 3) (c ! 4))\<rparr>
     in p\<lparr>ADC0 := adc0_acc p div 16\<rparr>)"

definition control_3 :: "p1 \<Rightarrow> p1" where
  "control_3 p = (
     let c = control_in p;
         p = p\<lparr>adc1_acc := smooth (adc1_acc p) (control_val (c ! 1) (c ! 2))\<rparr>
     in p\<lparr>ADC1 := adc1_acc p div 16\<rparr>)"

definition mercury_card :: "nat \<Rightarrow> byte \<Rightarrow> p1 \<Rightarrow> p1" where
  "mercury_card i x p = (
     if mercury_software_version p i \<noteq> drop_bit 1 x \<and> drop_bit 1 x \<noteq> 0x7F then
       let p = p\<lparr>mercury_software_version := (mercury_software_version p)(i := drop_bit 1 x)\<rparr>
       in if i = 0 \<or> 1 < receivers (radio p)
          then p\<lparr>radio := upd_rx i (\<lambda>rx. rx\<lparr>rx_adc := i\<rparr>) (radio p)\<rparr> else p
     else p)"

definition control_4 :: "p1 \<Rightarrow> p1" where
  "control_4 p = (
     let c = control_in p;
         p = or_overload 1 (bit (c ! 2) 0) (or_overload 0 (bit (c ! 1) 0) p)
     in if device (radio p) = DEVICE_METIS \<or> device (radio p) = DEVICE_OZY
        then mercury_card 1 (c ! 2) (mercury_card 0 (c ! 1) p) else p)"

definition process_control_bytes :: "p1 \<Rightarrow> p1" where
  "process_control_bytes p = (
     let p = ptt_input p in
     if device (radio p) = DEVICE_HERMES_LITE2 \<and> bit (control_in p ! 0) 7 then hl2_ack p
     else
       let p = keyer_inputs p; n = unat (drop_bit 3 (control_in p ! 0) AND 0x1F)
       in if n = 0 then control_0 p else if n = 1 then control_1 p else if n = 2 then control_2 p
          else if n = 3 then control_3 p else if n = 4 then control_4 p else p)"

subsection \<open>The decoder\<close>

text \<open>
  The right sample of one receiver is complete: PureSignal feedback, diversity, and the
  receivers, in the order of the code.
\<close>

definition feed_ps :: "p1 \<Rightarrow> p1" where
  "feed_ps p = (
     if radio_is_transmitting (radio p) \<and> puresignal (radio p) then
       let p = (if nreceiver p = st_rxfdbk p then p\<lparr>iq_rx := left_right p\<rparr>
                else if nreceiver p = st_txfdbk p then p\<lparr>iq_tx := left_right p\<rparr> else p)
       in if nreceiver p + 1 = st_num_hpsdr_receivers p then p1_emit (Tx_ps_iq (iq_tx p) (iq_rx p)) p else p
     else p)"

definition feed_div :: "p1 \<Rightarrow> p1" where
  "feed_div p = (
     if \<not> radio_is_transmitting (radio p) \<and> diversity_enabled (radio p) then
       if nreceiver p = 0 then p\<lparr>iq_main := left_right p\<rparr>
       else if nreceiver p = 1 then
         let p = p\<lparr>iq_aux := left_right p\<rparr>; p = p1_emit (Rx_div_iq (iq_main p) (iq_aux p)) p
         in if 1 < receivers (radio p) then p1_emit (Rx_iq 1 (iq_aux p)) p else p
       else p
     else p)"

definition feed_rx :: "p1 \<Rightarrow> p1" where
  "feed_rx p = (
     if (\<not> radio_is_transmitting (radio p) \<or> duplex (radio p)) \<and> \<not> diversity_enabled (radio p) then
       if nreceiver p = 0 then p1_emit (Rx_iq 0 (left_right p)) p
       else if nreceiver p = 1 \<and> 1 < receivers (radio p) then p1_emit (Rx_iq 1 (left_right p)) p else p
     else p)"

definition feed_pair :: "p1 \<Rightarrow> p1" where
  "feed_pair p = feed_rx (feed_div (feed_ps p))"

definition sample_double :: "u32 \<Rightarrow> real" where
  "sample_double s = of_int (sint s) * (1.1920928955078125 / 10 ^ 7)"

definition process_ozy_byte :: "byte \<Rightarrow> p1 \<Rightarrow> p1" where
  "process_ozy_byte b p = (case pstate p of
     SYNC_0 \<Rightarrow> if b = 0x7F then p\<lparr>pstate := SYNC_1\<rparr> else p
   | SYNC_1 \<Rightarrow> p\<lparr>pstate := (if b = 0x7F then SYNC_2 else SYNC_0)\<rparr>
   | SYNC_2 \<Rightarrow> p\<lparr>pstate := (if b = 0x7F then CONTROL_0 else SYNC_0)\<rparr>
   | CONTROL_0 \<Rightarrow> p\<lparr>control_in := (control_in p)[0 := b], pstate := CONTROL_1\<rparr>
   | CONTROL_1 \<Rightarrow> p\<lparr>control_in := (control_in p)[1 := b], pstate := CONTROL_2\<rparr>
   | CONTROL_2 \<Rightarrow> p\<lparr>control_in := (control_in p)[2 := b], pstate := CONTROL_3\<rparr>
   | CONTROL_3 \<Rightarrow> p\<lparr>control_in := (control_in p)[3 := b], pstate := CONTROL_4\<rparr>
   | CONTROL_4 \<Rightarrow>
       (let p = process_control_bytes (p\<lparr>control_in := (control_in p)[4 := b]\<rparr>)
        in p\<lparr>nreceiver := 0, iq_samples := (512 - 8) div (st_num_hpsdr_receivers p * 6 + 2), nsamples := 0,
             pstate := LEFT_SAMPLE_HI\<rparr>)
   | LEFT_SAMPLE_HI \<Rightarrow> p\<lparr>left_sample := push_bit 16 (scast b), pstate := LEFT_SAMPLE_MID\<rparr>
   | LEFT_SAMPLE_MID \<Rightarrow> p\<lparr>left_sample := left_sample p OR (push_bit 8 (ucast b) AND 0xFF00), pstate := LEFT_SAMPLE_LOW\<rparr>
   | LEFT_SAMPLE_LOW \<Rightarrow>
       (let p = p\<lparr>left_sample := left_sample p OR ucast b\<rparr>
        in p\<lparr>left_right := (sample_double (left_sample p), snd (left_right p)), pstate := RIGHT_SAMPLE_HI\<rparr>)
   | RIGHT_SAMPLE_HI \<Rightarrow> p\<lparr>right_sample := push_bit 16 (scast b), pstate := RIGHT_SAMPLE_MID\<rparr>
   | RIGHT_SAMPLE_MID \<Rightarrow> p\<lparr>right_sample := right_sample p OR (push_bit 8 (ucast b) AND 0xFF00), pstate := RIGHT_SAMPLE_LOW\<rparr>
   | RIGHT_SAMPLE_LOW \<Rightarrow>
       (let p = p\<lparr>right_sample := right_sample p OR ucast b\<rparr>;
            p = feed_pair (p\<lparr>left_right := (fst (left_right p), sample_double (right_sample p))\<rparr>);
            p = p\<lparr>nreceiver := nreceiver p + 1\<rparr>
        in p\<lparr>pstate := (if nreceiver p = st_num_hpsdr_receivers p then MIC_SAMPLE_HI else LEFT_SAMPLE_HI)\<rparr>)
   | MIC_SAMPLE_HI \<Rightarrow> p\<lparr>next_mic_sample := push_bit 8 (ucast b), pstate := MIC_SAMPLE_LOW\<rparr>
   | MIC_SAMPLE_LOW \<Rightarrow>
       (let p = p\<lparr>next_mic_sample := next_mic_sample p OR ucast b, mic_samples := mic_samples p + 1\<rparr>;
            p = (if mic_sample_divisor p \<le> mic_samples p
                 then (p1_emit (Tx_mic (of_int (sint (next_mic_sample p)) * 0.00003051)) p)\<lparr>mic_samples := 0\<rparr> else p);
            p = p\<lparr>nsamples := nsamples p + 1\<rparr>
        in if nsamples p = iq_samples p then p\<lparr>pstate := SYNC_0\<rparr> else p\<lparr>nreceiver := 0, pstate := LEFT_SAMPLE_HI\<rparr>)
   | SKIP \<Rightarrow> p)"

text \<open>One buffer from the ring: what \<open>process_ozy_input_buffer_thread\<close> does with it.\<close>

definition process_ozy_input_buffer :: "byte list \<Rightarrow> p1 \<Rightarrow> p1" where
  "process_ozy_input_buffer buf p = (
     let p = p\<lparr>st_num_hpsdr_receivers := how_many_receivers (anan10E p) (radio p),
               st_rxfdbk := rx_feedback_channel (anan10E p) (device (radio p)),
               st_txfdbk := tx_feedback_channel (anan10E p) (device (radio p))\<rparr>
     in fold process_ozy_byte (drop 8 buf) p)"

end
