(* ===== verification/P1_Rx_Facts.thy ===== *)
theory P1_Rx_Facts
  imports P1_Rx
begin

text \<open>
  The decoder inverts the framing of the radio: whatever a well-formed pair of 512 byte frames
  carries arrives at the receivers, the PureSignal feedback, the diversity mixer and the
  microphone input, in order, and the state machine is back at its start. The channel numbers
  that the decoder compares with are always among those it receives. The smoothed power
  readings never overflow, and the decoder finds back to the start from every state.
\<close>

subsection \<open>Channels\<close>

lemma feedback_consistent:
  assumes "puresignal r"
  shows "rx_feedback_channel x (device r) < how_many_receivers x r"
    and "tx_feedback_channel x (device r) < how_many_receivers x r"
    and "rx_feedback_channel x (device r) \<noteq> tx_feedback_channel x (device r)"
  using assms
  by (cases "device r"; simp add: how_many_receivers_def rx_feedback_channel_def tx_feedback_channel_def Let_def)+

lemma how_many_bounds:
  assumes "receivers r \<in> {1, 2}"
  shows "0 < how_many_receivers x r" and "how_many_receivers x r \<le> 5"
  using assms by (cases "device r"; auto simp: how_many_receivers_def Let_def)+

text \<open>The feedback channels of PureSignal are two different channels of the data stream,
  and while transmitting both carry the transmit frequency.\<close>

lemma feedback_channels:
  assumes "puresignal r" and "rxf = rx_feedback_channel x (device r)" and "txf = tx_feedback_channel x (device r)"
  shows "rxf < how_many_receivers x r \<and> txf < how_many_receivers x r \<and> rxf \<noteq> txf
    \<and> (radio_is_transmitting r \<longrightarrow> channel_freq x (Some rxf) r = channel_freq x None r
         \<and> channel_freq x (Some txf) r = channel_freq x None r)"
  using feedback_consistent [OF assms(1)] assms by (simp add: channel_freq_def Let_def)

subsection \<open>Bytes of samples\<close>

type_synonym sample = "24 word"
type_synonym slot = "(sample \<times> sample) list \<times> u16"

definition sample_bytes :: "sample \<Rightarrow> byte list" where
  "sample_bytes w = [ucast (drop_bit 16 w), ucast (drop_bit 8 w), ucast w]"

definition pair_bytes :: "sample \<times> sample \<Rightarrow> byte list" where
  "pair_bytes p = sample_bytes (fst p) @ sample_bytes (snd p)"

definition mic_bytes :: "u16 \<Rightarrow> byte list" where
  "mic_bytes m = [ucast (drop_bit 8 m), ucast m]"

definition slot_bytes :: "slot \<Rightarrow> byte list" where
  "slot_bytes s = concat (map pair_bytes (fst s)) @ mic_bytes (snd s)"

definition frame_bytes :: "byte list \<Rightarrow> slot list \<Rightarrow> byte list \<Rightarrow> byte list" where
  "frame_bytes cc slots pad = [0x7F, 0x7F, 0x7F] @ cc @ concat (map slot_bytes slots) @ pad"

lemma sample_word:
  "(push_bit 16 (scast (ucast (drop_bit 16 w) :: byte)) OR (push_bit 8 (ucast (ucast (drop_bit 8 w) :: byte)) AND 0xFF00))
     OR ucast (ucast w :: byte) = (scast (w :: sample) :: u32)"
proof (rule bit_word_eqI)
  fix n assume n: "n < LENGTH(32)"
  have m: "bit (0xFF00 :: u32) n \<longleftrightarrow> 8 \<le> n \<and> n < 16"
  proof -
    have "(0xFF00 :: u32) = push_bit 8 (mask 8)" by (simp add: mask_eq_exp_minus_1 push_bit_eq_mult)
    then have "bit (0xFF00 :: u32) n \<longleftrightarrow> bit (push_bit 8 (mask 8) :: u32) n" by (rule arg_cong)
    then show ?thesis using n by (simp only: bit_push_bit_iff bit_mask_iff) auto
  qed
  consider "n < 8" | "8 \<le> n" "n < 16" | "16 \<le> n" "n < 24" | "24 \<le> n" by linarith
  then show "bit ((push_bit 16 (scast (ucast (drop_bit 16 w) :: byte)) OR (push_bit 8 (ucast (ucast (drop_bit 8 w) :: byte)) AND 0xFF00))
     OR ucast (ucast w :: byte) :: u32) n \<longleftrightarrow> bit (scast w :: u32) n"
    using n m by cases (auto simp: bit_or_iff bit_and_iff bit_push_bit_iff bit_signed_iff bit_unsigned_iff bit_drop_bit_eq m)
qed

lemma mic_word: "push_bit 8 (ucast (ucast (drop_bit 8 m) :: byte)) OR ucast (ucast m :: byte) = (m :: u16)"
proof (rule bit_word_eqI)
  fix n assume "n < LENGTH(16)"
  then show "bit (push_bit 8 (ucast (ucast (drop_bit 8 m) :: byte)) OR ucast (ucast m :: byte) :: u16) n \<longleftrightarrow> bit m n"
    by (cases "n < 8") (auto simp: bit_or_iff bit_push_bit_iff bit_unsigned_iff bit_drop_bit_eq)
qed

lemma control_word: "unat (control_val hi lo) = 256 * unat hi + unat lo"
proof -
  have "(push_bit 8 (ucast hi) :: u32) AND ucast lo = 0"
    by (rule bit_word_eqI) (auto simp: bit_and_iff bit_push_bit_iff bit_unsigned_iff dest: bit_imp_le_length)
  then have e: "control_val hi lo = push_bit 8 (ucast hi) + ucast lo"
    unfolding control_val_def by (rule disjunctive_add_eq_or [symmetric])
  have b: "unat b < 256" for b :: byte using unsigned_less [of b] by simp
  have u: "unat (ucast b :: u32) = unat b" for b :: byte
    using b [of b] by (simp add: unsigned_ucast_eq take_bit_nat_eq_self)
  have "unat (push_bit 8 (ucast hi) :: u32) = 256 * unat hi"
    using b [of hi] by (simp only: unsigned_push_bit_eq u) (simp add: push_bit_eq_mult take_bit_nat_eq_self)
  then show ?thesis using b [of hi] b [of lo] unfolding e by (simp add: unat_word_ariths u)
qed

subsection \<open>One sample of one receiver\<close>

text \<open>What the calls of a slot of samples have to be, by the state of the radio.\<close>

definition sample_value :: "sample \<Rightarrow> real" where
  "sample_value w = of_int (sint w) * (1.1920928955078125 / 10 ^ 7)"

definition pair_value :: "sample \<times> sample \<Rightarrow> iq" where
  "pair_value p = (sample_value (fst p), sample_value (snd p))"

definition pair_calls :: "radio_state \<Rightarrow> nat \<Rightarrow> nat \<Rightarrow> nat \<Rightarrow> iq list \<Rightarrow> nat \<Rightarrow> p1_call list" where
  "pair_calls r n rxf txf v i =
     (if radio_is_transmitting r \<and> puresignal r \<and> i + 1 = n then [Tx_ps_iq (v ! txf) (v ! rxf)] else [])
     @ (if \<not> radio_is_transmitting r \<and> diversity_enabled r \<and> i = 1
        then Rx_div_iq (v ! 0) (v ! 1) # (if 1 < receivers r then [Rx_iq 1 (v ! 1)] else []) else [])
     @ (if (\<not> radio_is_transmitting r \<or> duplex r) \<and> \<not> diversity_enabled r \<and> (i = 0 \<or> i = 1 \<and> 1 < receivers r)
        then [Rx_iq i (v ! i)] else [])"

text \<open>The part of the state that a frame does not change after its control bytes.\<close>

definition p1_fixed :: "p1 \<Rightarrow> radio_state \<times> nat \<times> nat \<times> nat \<times> nat \<times> nat \<times> byte list" where
  "p1_fixed p = (radio p, st_num_hpsdr_receivers p, st_rxfdbk p, st_txfdbk p, iq_samples p, mic_sample_divisor p, control_in p)"

definition p1_count :: "p1 \<Rightarrow> nat \<times> nat \<times> nat" where
  "p1_count p = (nreceiver p, nsamples p, mic_samples p)"

definition with_pair :: "sample \<times> sample \<Rightarrow> p1 \<Rightarrow> p1" where
  "with_pair w p = p\<lparr>left_sample := scast (fst w), pstate := RIGHT_SAMPLE_LOW, right_sample := scast (snd w),
     left_right := pair_value w\<rparr>"

lemma sample_double_scast: "sample_double (scast (w :: sample)) = sample_value w"
  by (simp add: sample_double_def sample_value_def sint_up_scast is_up)

text \<open>The three parts of \<open>feed_pair\<close>: what they read stays, and what they append.\<close>

definition p1_view :: "p1 \<Rightarrow> (radio_state \<times> nat \<times> nat \<times> nat \<times> nat \<times> nat \<times> byte list) \<times> (nat \<times> nat \<times> nat) \<times> p1_parse \<times> iq" where
  "p1_view p = (p1_fixed p, p1_count p, pstate p, left_right p)"

lemma view_simps [simp]:
  "p1_view (p1_emit c p) = p1_view p" "p1_view (p\<lparr>iq_rx := v\<rparr>) = p1_view p" "p1_view (p\<lparr>iq_tx := v\<rparr>) = p1_view p"
  "p1_view (p\<lparr>iq_main := v\<rparr>) = p1_view p" "p1_view (p\<lparr>iq_aux := v\<rparr>) = p1_view p"
  by (simp_all add: p1_emit_def p1_view_def p1_fixed_def p1_count_def)

lemma feed_view: "p1_view (feed_ps p) = p1_view p" "p1_view (feed_div p) = p1_view p" "p1_view (feed_rx p) = p1_view p"
  by (simp_all add: feed_ps_def feed_div_def feed_rx_def Let_def)

lemma feed_ps_calls:
  "p1_calls (feed_ps p) = p1_calls p @ (if radio_is_transmitting (radio p) \<and> puresignal (radio p)
     \<and> nreceiver p + 1 = st_num_hpsdr_receivers p then [Tx_ps_iq (iq_tx (feed_ps p)) (iq_rx (feed_ps p))] else [])"
  "iq_main (feed_ps p) = iq_main p"
  by (simp_all add: feed_ps_def p1_emit_def)

lemma feed_ps_iq:
  "iq_rx (feed_ps p) = (if radio_is_transmitting (radio p) \<and> puresignal (radio p) \<and> nreceiver p = st_rxfdbk p
     then left_right p else iq_rx p)"
  "iq_tx (feed_ps p) = (if radio_is_transmitting (radio p) \<and> puresignal (radio p) \<and> nreceiver p \<noteq> st_rxfdbk p
     \<and> nreceiver p = st_txfdbk p then left_right p else iq_tx p)"
  by (simp_all add: feed_ps_def p1_emit_def)

lemma feed_div_calls:
  "p1_calls (feed_div p) = p1_calls p @ (if \<not> radio_is_transmitting (radio p) \<and> diversity_enabled (radio p)
     \<and> nreceiver p = 1 then Rx_div_iq (iq_main p) (left_right p)
        # (if 1 < receivers (radio p) then [Rx_iq 1 (left_right p)] else []) else [])"
  "iq_main (feed_div p) = (if \<not> radio_is_transmitting (radio p) \<and> diversity_enabled (radio p) \<and> nreceiver p = 0
     then left_right p else iq_main p)"
  "iq_rx (feed_div p) = iq_rx p" "iq_tx (feed_div p) = iq_tx p"
  by (simp_all add: feed_div_def p1_emit_def Let_def)

lemma feed_rx_calls:
  "p1_calls (feed_rx p) = p1_calls p @ (if (\<not> radio_is_transmitting (radio p) \<or> duplex (radio p))
     \<and> \<not> diversity_enabled (radio p) \<and> (nreceiver p = 0 \<or> nreceiver p = 1 \<and> 1 < receivers (radio p))
     then [Rx_iq (nreceiver p) (left_right p)] else [])"
  "iq_main (feed_rx p) = iq_main p" "iq_rx (feed_rx p) = iq_rx p" "iq_tx (feed_rx p) = iq_tx p"
  by (simp_all add: feed_rx_def p1_emit_def)

text \<open>Six bytes in a row.\<close>

definition next_pair :: "sample \<times> sample \<Rightarrow> p1 \<Rightarrow> p1" where
  "next_pair w p = (let q = feed_pair (with_pair w p)
     in q\<lparr>nreceiver := nreceiver q + 1,
          pstate := (if nreceiver q + 1 = st_num_hpsdr_receivers q then MIC_SAMPLE_HI else LEFT_SAMPLE_HI)\<rparr>)"

lemma six_bytes:
  assumes "pstate p = LEFT_SAMPLE_HI"
  shows "fold process_ozy_byte (pair_bytes w) p = next_pair w p"
proof -
  define l where "l = (scast (fst w) :: u32)"
  define q where "q = p\<lparr>left_sample := l, left_right := (sample_value (fst w), snd (left_right p)), pstate := RIGHT_SAMPLE_HI\<rparr>"
  have "fold process_ozy_byte (sample_bytes (fst w)) p = q"
    using assms by (simp add: sample_bytes_def process_ozy_byte_def Let_def sample_word sample_double_scast q_def l_def)
  moreover have "fold process_ozy_byte (sample_bytes (snd w)) q = next_pair w p"
    by (simp add: sample_bytes_def process_ozy_byte_def Let_def sample_word sample_double_scast q_def
        next_pair_def with_pair_def l_def pair_value_def)
  ultimately show ?thesis by (simp add: pair_bytes_def)
qed

text \<open>How far a slot has been decoded.\<close>

definition slot_at :: "iq list \<Rightarrow> nat \<Rightarrow> p1 \<Rightarrow> p1 \<Rightarrow> bool" where
  "slot_at v k p0 p \<longleftrightarrow> p1_fixed p = p1_fixed p0
     \<and> pstate p = (if k = st_num_hpsdr_receivers p0 then MIC_SAMPLE_HI else LEFT_SAMPLE_HI)
     \<and> p1_count p = (k, nsamples p0, mic_samples p0)
     \<and> p1_calls p = p1_calls p0
         @ concat (map (pair_calls (radio p0) (st_num_hpsdr_receivers p0) (st_rxfdbk p0) (st_txfdbk p0) v) [0..<k])
     \<and> (radio_is_transmitting (radio p0) \<and> puresignal (radio p0) \<longrightarrow>
          (st_rxfdbk p0 < k \<longrightarrow> iq_rx p = v ! st_rxfdbk p0) \<and> (st_txfdbk p0 < k \<longrightarrow> iq_tx p = v ! st_txfdbk p0))
     \<and> (\<not> radio_is_transmitting (radio p0) \<and> diversity_enabled (radio p0) \<and> 0 < k \<longrightarrow> iq_main p = v ! 0)"

definition feedback_ok :: "p1 \<Rightarrow> bool" where
  "feedback_ok p \<longleftrightarrow> (radio_is_transmitting (radio p) \<and> puresignal (radio p) \<longrightarrow>
     st_rxfdbk p < st_num_hpsdr_receivers p \<and> st_txfdbk p < st_num_hpsdr_receivers p \<and> st_rxfdbk p \<noteq> st_txfdbk p)"

lemma fixedD:
  assumes "p1_fixed p = p1_fixed q"
  shows "radio p = radio q" "st_num_hpsdr_receivers p = st_num_hpsdr_receivers q" "st_rxfdbk p = st_rxfdbk q"
    "st_txfdbk p = st_txfdbk q" "iq_samples p = iq_samples q" "mic_sample_divisor p = mic_sample_divisor q"
    "control_in p = control_in q"
  using assms by (simp_all add: p1_fixed_def)

lemma viewD:
  assumes "p1_view p = p1_view q"
  shows "p1_fixed p = p1_fixed q" "p1_count p = p1_count q" "nreceiver p = nreceiver q" "left_right p = left_right q"
  using assms by (simp_all add: p1_view_def p1_count_def)

text \<open>What \<open>feed_pair\<close> does to the feedback samples and to the trace.\<close>

lemma feed_pair_iq:
  assumes "radio p = r" and "nreceiver p = k"
  shows "iq_rx (feed_pair p) = (if radio_is_transmitting r \<and> puresignal r \<and> k = st_rxfdbk p
      then left_right p else iq_rx p)"
    and "iq_tx (feed_pair p) = (if radio_is_transmitting r \<and> puresignal r \<and> k \<noteq> st_rxfdbk p \<and> k = st_txfdbk p
      then left_right p else iq_tx p)"
    and "iq_main (feed_pair p) = (if \<not> radio_is_transmitting r \<and> diversity_enabled r \<and> k = 0
      then left_right p else iq_main p)"
proof -
  note v = viewD [OF feed_view(1) [of p]]
  show "iq_rx (feed_pair p) = (if radio_is_transmitting r \<and> puresignal r \<and> k = st_rxfdbk p
      then left_right p else iq_rx p)"
    "iq_tx (feed_pair p) = (if radio_is_transmitting r \<and> puresignal r \<and> k \<noteq> st_rxfdbk p \<and> k = st_txfdbk p
      then left_right p else iq_tx p)"
    by (simp_all add: feed_pair_def feed_rx_calls feed_div_calls feed_ps_iq assms)
  show "iq_main (feed_pair p) = (if \<not> radio_is_transmitting r \<and> diversity_enabled r \<and> k = 0
      then left_right p else iq_main p)"
    using fixedD(1) [OF v(1)] v(3,4)
    by (simp add: feed_pair_def feed_rx_calls feed_div_calls feed_ps_calls assms)
qed

lemma feed_pair_calls:
  assumes r: "radio p = r" and k: "nreceiver p = k"
  defines "q \<equiv> feed_pair p"
  shows "p1_calls q = p1_calls p
    @ (if radio_is_transmitting r \<and> puresignal r \<and> k + 1 = st_num_hpsdr_receivers p
       then [Tx_ps_iq (iq_tx q) (iq_rx q)] else [])
    @ (if \<not> radio_is_transmitting r \<and> diversity_enabled r \<and> k = 1
       then Rx_div_iq (iq_main p) (left_right p) # (if 1 < receivers r then [Rx_iq 1 (left_right p)] else []) else [])
    @ (if (\<not> radio_is_transmitting r \<or> duplex r) \<and> \<not> diversity_enabled r \<and> (k = 0 \<or> k = 1 \<and> 1 < receivers r)
       then [Rx_iq k (left_right p)] else [])"
proof -
  define b where "b = feed_ps p"
  define c where "c = feed_div b"
  have q: "q = feed_rx c" by (simp add: q_def feed_pair_def b_def c_def)
  have vb: "p1_view b = p1_view p" and vc: "p1_view c = p1_view p" by (simp_all add: b_def c_def feed_view)
  note b = viewD [OF vb] and c = viewD [OF vc]
  have iq: "iq_tx q = iq_tx b" "iq_rx q = iq_rx b" "iq_main b = iq_main p"
    by (simp_all add: q feed_rx_calls c_def feed_div_calls b_def feed_ps_calls)
  have 1: "p1_calls b = p1_calls p @ (if radio_is_transmitting r \<and> puresignal r \<and> k + 1 = st_num_hpsdr_receivers p
       then [Tx_ps_iq (iq_tx b) (iq_rx b)] else [])"
    unfolding b_def feed_ps_calls(1) r k by (rule refl)
  have 2: "p1_calls c = p1_calls b @ (if \<not> radio_is_transmitting r \<and> diversity_enabled r \<and> k = 1
       then Rx_div_iq (iq_main p) (left_right p) # (if 1 < receivers r then [Rx_iq 1 (left_right p)] else []) else [])"
    unfolding c_def feed_div_calls(1) b(3,4) fixedD(1) [OF b(1)] r k iq(3) by (rule refl)
  have 3: "p1_calls q = p1_calls c @ (if (\<not> radio_is_transmitting r \<or> duplex r) \<and> \<not> diversity_enabled r
      \<and> (k = 0 \<or> k = 1 \<and> 1 < receivers r) then [Rx_iq k (left_right p)] else [])"
    unfolding q feed_rx_calls(1) c(3,4) fixedD(1) [OF c(1)] r k by (rule refl)
  show ?thesis unfolding 3 2 1 iq(1,2) append_assoc by (rule refl)
qed

lemma feed_pair_view: "p1_view (feed_pair p) = p1_view p"
  by (simp add: feed_pair_def feed_view)

lemma next_pair_slot:
  assumes s: "slot_at v k p0 p" and k: "k < st_num_hpsdr_receivers p0" and w: "pair_value w = v ! k"
    and f: "feedback_ok p0"
  shows "slot_at v (Suc k) p0 (next_pair w p)"
proof -
  let ?r = "radio p0"
  define a where "a = with_pair w p"
  define d where "d = feed_pair a"
  have p: "p1_fixed p = p1_fixed p0" "p1_count p = (k, nsamples p0, mic_samples p0)" "nreceiver p = k"
    using s by (simp_all add: slot_at_def p1_count_def)
  have a: "p1_fixed a = p1_fixed p0" "p1_count a = (k, nsamples p0, mic_samples p0)" "nreceiver a = k"
    "left_right a = v ! k" "iq_rx a = iq_rx p" "iq_tx a = iq_tx p" "iq_main a = iq_main p" "p1_calls a = p1_calls p"
    using p w by (simp_all add: a_def with_pair_def p1_fixed_def p1_count_def)
  note fa = fixedD [OF a(1)]
  have d: "p1_fixed d = p1_fixed p0" "p1_count d = (k, nsamples p0, mic_samples p0)"
    using viewD(1,2) [OF feed_pair_view [of a]] a(1,2) by (simp_all add: d_def)
  have iq: "iq_rx d = (if radio_is_transmitting ?r \<and> puresignal ?r \<and> k = st_rxfdbk p0 then v ! k else iq_rx p)"
    "iq_tx d = (if radio_is_transmitting ?r \<and> puresignal ?r \<and> k \<noteq> st_rxfdbk p0 \<and> k = st_txfdbk p0 then v ! k else iq_tx p)"
    "iq_main d = (if \<not> radio_is_transmitting ?r \<and> diversity_enabled ?r \<and> k = 0 then v ! k else iq_main p)"
    unfolding d_def feed_pair_iq [OF fa(1) a(3)] fa(3,4) a(4-7) by (rule refl)+
  have fb: "radio_is_transmitting ?r \<and> puresignal ?r \<longrightarrow>
      (st_rxfdbk p0 < Suc k \<longrightarrow> iq_rx d = v ! st_rxfdbk p0) \<and> (st_txfdbk p0 < Suc k \<longrightarrow> iq_tx d = v ! st_txfdbk p0)"
    using s f unfolding iq by (auto simp: slot_at_def feedback_ok_def less_Suc_eq)
  have main: "\<not> radio_is_transmitting ?r \<and> diversity_enabled ?r \<longrightarrow> (0 < k \<longrightarrow> iq_main p = v ! 0) \<and> iq_main d = v ! 0"
    using s unfolding iq by (auto simp: slot_at_def)
  have "p1_calls d = p1_calls p @ pair_calls ?r (st_num_hpsdr_receivers p0) (st_rxfdbk p0) (st_txfdbk p0) v k"
    using feed_pair_calls [OF fa(1) a(3)] fb main f unfolding d_def [symmetric] pair_calls_def a(4,7,8) fa(2)
    by (auto simp: feedback_ok_def)
  moreover have "next_pair w p = d\<lparr>nreceiver := Suc k,
      pstate := (if Suc k = st_num_hpsdr_receivers p0 then MIC_SAMPLE_HI else LEFT_SAMPLE_HI)\<rparr>"
    using fixedD(2) [OF d(1)] d(2) by (simp add: next_pair_def a_def [symmetric] d_def [symmetric] Let_def p1_count_def)
  ultimately show ?thesis
    using s d fb main by (auto simp: slot_at_def p1_fixed_def p1_count_def)
qed

subsection \<open>Slots and frames\<close>

lemma slot_pairs:
  assumes "pstate p = LEFT_SAMPLE_HI" and "nreceiver p = 0" and "length ws = st_num_hpsdr_receivers p"
    and "feedback_ok p" and "k \<le> length ws" and "ws \<noteq> []"
  shows "slot_at (map pair_value ws) k p (fold process_ozy_byte (concat (map pair_bytes (take k ws))) p)"
  using assms(5)
proof (induction k)
  case 0
  have "0 < st_num_hpsdr_receivers p" using assms(3,6) by (cases ws) auto
  then show ?case using assms(1,2) by (simp add: slot_at_def p1_count_def)
next
  case (Suc k)
  define q where "q = fold process_ozy_byte (concat (map pair_bytes (take k ws))) p"
  have q: "slot_at (map pair_value ws) k p q" "k < st_num_hpsdr_receivers p" using Suc assms(3) by (simp_all add: q_def)
  then have "pstate q = LEFT_SAMPLE_HI" by (simp add: slot_at_def)
  then have "fold process_ozy_byte (concat (map pair_bytes (take (Suc k) ws))) p = next_pair (ws ! k) q"
    using Suc.prems by (simp add: take_Suc_conv_app_nth six_bytes q_def)
  then show ?case using next_pair_slot [OF q] assms(4) Suc.prems by simp
qed

definition mic_value :: "u16 \<Rightarrow> real" where
  "mic_value m = of_int (sint m) * 0.00003051"

text \<open>The calls that a list of slots has to cause; \<open>c\<close> counts the microphone samples skipped.\<close>

fun slots_calls :: "radio_state \<Rightarrow> nat \<Rightarrow> nat \<Rightarrow> nat \<Rightarrow> nat \<Rightarrow> nat \<Rightarrow> slot list \<Rightarrow> p1_call list" where
  "slots_calls r n rxf txf q c [] = []"
| "slots_calls r n rxf txf q c ((ws, m) # ss) =
     concat (map (pair_calls r n rxf txf (map pair_value ws)) [0..<n])
     @ (if q \<le> c + 1 then Tx_mic (mic_value m) # slots_calls r n rxf txf q 0 ss
        else slots_calls r n rxf txf q (c + 1) ss)"

lemma mic_two:
  assumes "pstate p = MIC_SAMPLE_HI" and "p' = fold process_ozy_byte (mic_bytes m) p"
  shows "p1_fixed p' = p1_fixed p" and "nsamples p' = nsamples p + 1"
    and "pstate p' = (if nsamples p + 1 = iq_samples p then SYNC_0 else LEFT_SAMPLE_HI)"
    and "nsamples p + 1 \<noteq> iq_samples p \<Longrightarrow> nreceiver p' = 0"
    and "mic_samples p' = (if mic_sample_divisor p \<le> mic_samples p + 1 then 0 else mic_samples p + 1)"
    and "p1_calls p' = p1_calls p @ (if mic_sample_divisor p \<le> mic_samples p + 1 then [Tx_mic (mic_value m)] else [])"
proof -
  define a where "a = p\<lparr>next_mic_sample := m, pstate := MIC_SAMPLE_LOW, mic_samples := mic_samples p + 1\<rparr>"
  define b where "b = (if mic_sample_divisor p \<le> mic_samples p + 1
     then (p1_emit (Tx_mic (mic_value m)) a)\<lparr>mic_samples := 0\<rparr> else a)"
  have "p' = (let p = b\<lparr>nsamples := nsamples b + 1\<rparr>
      in if nsamples p = iq_samples p then p\<lparr>pstate := SYNC_0\<rparr> else p\<lparr>nreceiver := 0, pstate := LEFT_SAMPLE_HI\<rparr>)"
    using assms by (cases "mic_sample_divisor p \<le> mic_samples p + 1")
      (simp_all add: mic_bytes_def process_ozy_byte_def mic_word Let_def a_def b_def mic_value_def p1_emit_def)
  moreover have "p1_fixed b = p1_fixed p" "nsamples b = nsamples p" "iq_samples b = iq_samples p"
    "mic_samples b = (if mic_sample_divisor p \<le> mic_samples p + 1 then 0 else mic_samples p + 1)"
    "p1_calls b = p1_calls p @ (if mic_sample_divisor p \<le> mic_samples p + 1 then [Tx_mic (mic_value m)] else [])"
    by (simp_all add: b_def a_def p1_emit_def p1_fixed_def)
  ultimately show "p1_fixed p' = p1_fixed p" "nsamples p' = nsamples p + 1"
    "pstate p' = (if nsamples p + 1 = iq_samples p then SYNC_0 else LEFT_SAMPLE_HI)"
    "nsamples p + 1 \<noteq> iq_samples p \<Longrightarrow> nreceiver p' = 0"
    "mic_samples p' = (if mic_sample_divisor p \<le> mic_samples p + 1 then 0 else mic_samples p + 1)"
    "p1_calls p' = p1_calls p @ (if mic_sample_divisor p \<le> mic_samples p + 1 then [Tx_mic (mic_value m)] else [])"
    by (simp_all add: Let_def p1_fixed_def)
qed

lemma slots_decoded:
  assumes "pstate p = LEFT_SAMPLE_HI" and "nreceiver p = 0" and "feedback_ok p" and "0 < st_num_hpsdr_receivers p"
    and "\<forall>s \<in> set ss. length (fst s) = st_num_hpsdr_receivers p" and "nsamples p + length ss = iq_samples p"
    and "ss \<noteq> []" and "p' = fold process_ozy_byte (concat (map slot_bytes ss)) p"
  shows "pstate p' = SYNC_0 \<and> p1_fixed p' = p1_fixed p
    \<and> p1_calls p' = p1_calls p @ slots_calls (radio p) (st_num_hpsdr_receivers p) (st_rxfdbk p) (st_txfdbk p)
        (mic_sample_divisor p) (mic_samples p) ss"
  using assms
proof (induction ss arbitrary: p)
  case (Cons s ss)
  obtain ws m where s: "s = (ws, m)" by (cases s)
  have ws: "length ws = st_num_hpsdr_receivers p" "ws \<noteq> []" using Cons.prems(4,5) by (auto simp: s)
  define a where "a = fold process_ozy_byte (concat (map pair_bytes ws)) p"
  have "slot_at (map pair_value ws) (length ws) p a"
    using slot_pairs [OF Cons.prems(1,2) ws(1) Cons.prems(3) order_refl ws(2)] by (simp add: a_def)
  then have a: "p1_fixed a = p1_fixed p" "pstate a = MIC_SAMPLE_HI" "nsamples a = nsamples p" "mic_samples a = mic_samples p"
    "p1_calls a = p1_calls p @ concat (map (pair_calls (radio p) (st_num_hpsdr_receivers p) (st_rxfdbk p) (st_txfdbk p)
       (map pair_value ws)) [0..<st_num_hpsdr_receivers p])"
    using ws(1) by (simp_all add: slot_at_def p1_count_def)
  note fa = fixedD [OF a(1)]
  define b where "b = fold process_ozy_byte (mic_bytes m) a"
  note b = mic_two [OF a(2) b_def]
  have fb: "p1_fixed b = p1_fixed p" using b(1) a(1) by simp
  note fb' = fixedD [OF fb]
  have p': "p' = fold process_ozy_byte (concat (map slot_bytes ss)) b"
  proof -
    have "slot_bytes s = concat (map pair_bytes ws) @ mic_bytes m" by (simp add: s slot_bytes_def)
    then show ?thesis using Cons.prems(8) by (simp add: a_def b_def)
  qed
  show ?case
  proof (cases "ss = []")
    case True
    then show ?thesis using Cons.prems(6) a b fb fa p' by (simp add: s)
  next
    case False
    then have more: "nsamples a + 1 \<noteq> iq_samples a" using Cons.prems(6) a(3) fa(5) by (cases ss) auto
    have "feedback_ok b" using Cons.prems(3) by (simp add: feedback_ok_def fb')
    moreover have "nsamples b + length ss = iq_samples b" using Cons.prems(6) a(3) b(2) fb'(5) by simp
    ultimately have "pstate p' = SYNC_0 \<and> p1_fixed p' = p1_fixed b
      \<and> p1_calls p' = p1_calls b @ slots_calls (radio b) (st_num_hpsdr_receivers b) (st_rxfdbk b) (st_txfdbk b)
          (mic_sample_divisor b) (mic_samples b) ss"
      using Cons.IH [of b] Cons.prems(4,5) b(3) b(4) [OF more] more False p' fb'(2) by auto
    then show ?thesis
      using a b fb fb' fa by (simp add: s)
  qed
qed simp

text \<open>What the status bytes leave alone.\<close>

definition radio_env :: "radio_state \<Rightarrow> transmitter option \<times> bool \<times> bool \<times> device \<times> nat \<times> bool \<times> bool" where
  "radio_env r = (transmitter r, mox r, vox r, device r, receivers r, diversity_enabled r, duplex r)"

definition p1_env :: "p1 \<Rightarrow> (transmitter option \<times> bool \<times> bool \<times> device \<times> nat \<times> bool \<times> bool)
    \<times> bool \<times> nat \<times> nat \<times> nat \<times> nat \<times> nat \<times> byte list" where
  "p1_env p = (radio_env (radio p), anan10E p, st_num_hpsdr_receivers p, st_rxfdbk p, st_txfdbk p,
     mic_sample_divisor p, mic_samples p, control_in p)"

lemma env_simps [simp]:
  "p1_env (p1_emit e p) = p1_env p" "p1_env (set_TxInhibit b p) = p1_env p" "p1_env (or_overload i b p) = p1_env p"
  "p1_env (p\<lparr>hpsdr_ptt := b\<rparr>) = p1_env p" "p1_env (p\<lparr>hl2_iob_present := b\<rparr>) = p1_env p"
  "p1_env (p\<lparr>hpsdr_dash := b, hpsdr_dot := c\<rparr>) = p1_env p"
  "p1_env (p\<lparr>CAT_cw_is_active := b, MIDI_cw_is_active := c, cw_key_hit := d\<rparr>) = p1_env p"
  "p1_env (p\<lparr>auto_tune_end := b\<rparr>) = p1_env p" "p1_env (p\<lparr>auto_tune_flag := c, auto_tune_end := b\<rparr>) = p1_env p"
  "p1_env (p\<lparr>mercury_software_version := f\<rparr>) = p1_env p"
  "p1_env (p\<lparr>tx_fifo_flag := b\<rparr>) = p1_env p" "p1_env (p\<lparr>tx_fifo_underrun := b\<rparr>) = p1_env p"
  "p1_env (p\<lparr>tx_fifo_overrun := b\<rparr>) = p1_env p"
  "p1_env (p\<lparr>ex_acc := x\<rparr>) = p1_env p" "p1_env (p\<lparr>fwd_acc := x\<rparr>) = p1_env p" "p1_env (p\<lparr>rev_acc := x\<rparr>) = p1_env p"
  "p1_env (p\<lparr>adc0_acc := x\<rparr>) = p1_env p" "p1_env (p\<lparr>adc1_acc := x\<rparr>) = p1_env p"
  "p1_env (p\<lparr>exciter_power := x\<rparr>) = p1_env p" "p1_env (p\<lparr>alex_forward_power := x\<rparr>) = p1_env p"
  "p1_env (p\<lparr>alex_reverse_power := x\<rparr>) = p1_env p" "p1_env (p\<lparr>ADC0 := x\<rparr>) = p1_env p" "p1_env (p\<lparr>ADC1 := x\<rparr>) = p1_env p"
  "radio_env (r\<lparr>alex_forward_max := n\<rparr>) = radio_env r" "radio_env (upd_rx i g r) = radio_env r"
  "radio_env r = radio_env (radio p) \<Longrightarrow> p1_env (p\<lparr>radio := r\<rparr>) = p1_env p"
  "p1_env (p\<lparr>auto_tune_flag := b\<rparr>) = p1_env p"
  by (simp_all add: p1_env_def radio_env_def p1_emit_def set_TxInhibit_def or_overload_def upd_adc_def upd_rx_def)

lemma control_env_parts:
  "p1_env (ptt_input p) = p1_env p" "p1_env (hl2_ack p) = p1_env p" "p1_env (keyer_inputs p) = p1_env p"
  "p1_env (tx_inhibit_input p) = p1_env p" "p1_env (auto_tune_input p) = p1_env p"
  "p1_env (control_1 p) = p1_env p" "p1_env (control_2 p) = p1_env p" "p1_env (control_3 p) = p1_env p"
  "p1_env (mercury_card i x p) = p1_env p" "p1_env (version_status p) = p1_env p"
  by (simp_all add: version_status_def ptt_input_def hl2_ack_def keyer_inputs_def tx_inhibit_input_def auto_tune_input_def
      control_1_def control_2_def control_3_def mercury_card_def Let_def)

lemma control_env: "p1_env (process_control_bytes p) = p1_env p"
proof -
  have 0: "p1_env (control_0 p) = p1_env p" for p
    by (simp add: control_0_def Let_def control_env_parts)
  have 4: "p1_env (control_4 p) = p1_env p" for p
    by (simp add: control_4_def Let_def control_env_parts)
  show ?thesis by (simp add: process_control_bytes_def Let_def control_env_parts 0 4)
qed

text \<open>Synchronisation, the status bytes, and the padding.\<close>

definition after_control :: "byte list \<Rightarrow> p1 \<Rightarrow> p1" where
  "after_control cc p = process_control_bytes (p\<lparr>pstate := CONTROL_4, control_in := cc\<rparr>)"

lemma list5: "length xs = 5 \<Longrightarrow> \<exists>a b c d e. xs = [a, b, c, d, e]"
  by (auto simp: numeral_eq_Suc length_Suc_conv)

lemma head_bytes:
  assumes "pstate p = SYNC_0" and "length (control_in p) = 5" and "length cc = 5"
  shows "fold process_ozy_byte ([0x7F, 0x7F, 0x7F] @ cc) p =
    (let q = after_control cc p in q\<lparr>nreceiver := 0,
       iq_samples := 504 div (st_num_hpsdr_receivers q * 6 + 2), nsamples := 0, pstate := LEFT_SAMPLE_HI\<rparr>)"
proof -
  obtain a b c d e where cc: "cc = [a, b, c, d, e]" using list5 [OF assms(3)] by blast
  obtain a' b' c' d' e' where ci: "control_in p = [a', b', c', d', e']" using list5 [OF assms(2)] by blast
  define q where "q = p\<lparr>pstate := CONTROL_4, control_in := [a, b, c, d, e']\<rparr>"
  have 1: "fold process_ozy_byte [0x7F, 0x7F, 0x7F, a, b, c, d] p = q"
    using assms(1) ci by (simp add: process_ozy_byte_def q_def)
  have "q\<lparr>control_in := [a, b, c, d, e]\<rparr> = p\<lparr>pstate := CONTROL_4, control_in := cc\<rparr>"
    by (simp add: q_def cc)
  then have 2: "process_ozy_byte e q = (let q = after_control cc p in q\<lparr>nreceiver := 0,
      iq_samples := 504 div (st_num_hpsdr_receivers q * 6 + 2), nsamples := 0, pstate := LEFT_SAMPLE_HI\<rparr>)"
    unfolding after_control_def by (simp add: process_ozy_byte_def q_def Let_def)
  have "[0x7F, 0x7F, 0x7F] @ cc = [0x7F, 0x7F, 0x7F, a, b, c, d] @ [e]" by (simp add: cc)
  then have "fold process_ozy_byte ([0x7F, 0x7F, 0x7F] @ cc) p
      = process_ozy_byte e (fold process_ozy_byte [0x7F, 0x7F, 0x7F, a, b, c, d] p)" by simp
  then show ?thesis unfolding 1 2 .
qed

lemma padding: "pstate p = SYNC_0 \<Longrightarrow> 0x7F \<notin> set pad \<Longrightarrow> fold process_ozy_byte pad p = p"
  by (induction pad) (auto simp: process_ozy_byte_def)

lemma after_control_env:
  assumes "q = after_control cc p"
  shows "radio_env (radio q) = radio_env (radio p)" "st_num_hpsdr_receivers q = st_num_hpsdr_receivers p"
    "st_rxfdbk q = st_rxfdbk p" "st_txfdbk q = st_txfdbk p" "mic_sample_divisor q = mic_sample_divisor p"
    "mic_samples q = mic_samples p" "control_in q = cc" "feedback_ok q \<longleftrightarrow> feedback_ok p"
proof -
  have e: "p1_env q = p1_env (p\<lparr>pstate := CONTROL_4, control_in := cc\<rparr>)"
    unfolding assms after_control_def by (rule control_env)
  then show r: "radio_env (radio q) = radio_env (radio p)" "st_num_hpsdr_receivers q = st_num_hpsdr_receivers p"
    "st_rxfdbk q = st_rxfdbk p" "st_txfdbk q = st_txfdbk p" "mic_sample_divisor q = mic_sample_divisor p"
    "mic_samples q = mic_samples p" "control_in q = cc"
    by (simp_all add: p1_env_def)
  have "radio_is_transmitting (radio q) = radio_is_transmitting (radio p)" "puresignal (radio q) = puresignal (radio p)"
    using r(1) by (auto simp: radio_env_def radio_is_transmitting_def puresignal_def split: option.split)
  then show "feedback_ok q \<longleftrightarrow> feedback_ok p" using r by (simp add: feedback_ok_def)
qed

lemma frame_decoded:
  assumes "pstate p = SYNC_0" and "length (control_in p) = 5" and "length cc = 5" and "feedback_ok p"
    and "n = st_num_hpsdr_receivers p" and "0 < n" and "n * 6 + 2 \<le> 504" and "length ss = 504 div (n * 6 + 2)"
    and "\<forall>s \<in> set ss. length (fst s) = n" and "0x7F \<notin> set pad"
    and "q = after_control cc p" and "p' = fold process_ozy_byte (frame_bytes cc ss pad) p"
  shows "pstate p' = SYNC_0 \<and> radio p' = radio q \<and> st_num_hpsdr_receivers p' = n \<and> st_rxfdbk p' = st_rxfdbk p
    \<and> st_txfdbk p' = st_txfdbk p \<and> mic_sample_divisor p' = mic_sample_divisor p \<and> control_in p' = cc
    \<and> p1_calls p' = p1_calls q @ slots_calls (radio q) n (st_rxfdbk p) (st_txfdbk p) (mic_sample_divisor p) (mic_samples p) ss"
proof -
  note e = after_control_env [OF assms(11)]
  define a where "a = q\<lparr>nreceiver := 0, iq_samples := 504 div (n * 6 + 2), nsamples := 0, pstate := LEFT_SAMPLE_HI\<rparr>"
  have a: "fold process_ozy_byte ([0x7F, 0x7F, 0x7F] @ cc) p = a"
    using head_bytes [OF assms(1-3)] e(2) assms(5,11) by (simp add: a_def Let_def)
  define b where "b = fold process_ozy_byte (concat (map slot_bytes ss)) a"
  have ne: "ss \<noteq> []" using assms(7,8) by (auto simp: div_eq_0_iff)
  have "pstate b = SYNC_0 \<and> p1_fixed b = p1_fixed a
    \<and> p1_calls b = p1_calls a @ slots_calls (radio a) (st_num_hpsdr_receivers a) (st_rxfdbk a) (st_txfdbk a)
        (mic_sample_divisor a) (mic_samples a) ss"
    by (rule slots_decoded [OF _ _ _ _ _ _ ne b_def])
      (use assms(4-9) e in \<open>simp_all add: a_def feedback_ok_def\<close>)
  moreover have "fold process_ozy_byte (frame_bytes cc ss pad) p = fold process_ozy_byte pad b"
    unfolding frame_bytes_def b_def using a by (simp add: fold_append [symmetric] del: fold_append)
      (simp only: fold_append o_apply append_assoc)
  ultimately have "p' = b" "pstate b = SYNC_0" "p1_fixed b = p1_fixed a"
    "p1_calls b = p1_calls a @ slots_calls (radio a) (st_num_hpsdr_receivers a) (st_rxfdbk a) (st_txfdbk a)
        (mic_sample_divisor a) (mic_samples a) ss"
    using padding [of b pad] assms(10,12) by simp_all
  then show ?thesis
    using e assms(5) by (simp add: a_def p1_fixed_def)
qed

text \<open>C6. The decoder delivers what the radio packed: if a buffer consists of two frames, each
  with five status bytes, as many slots of samples as fit (one 24 bit pair for each receiver and
  a 16 bit microphone sample) and padding, then the calls after the status bytes of each frame
  are exactly those the slots ask for, in order, with every sample intact, and the decoder is
  ready for the next buffer.\<close>

theorem p1_buffer_decoded:
  assumes "pstate p = SYNC_0" and "length (control_in p) = 5" and "receivers (radio p) \<in> {1, 2}"
    and "n = how_many_receivers (anan10E p) (radio p)"
    and "rxf = rx_feedback_channel (anan10E p) (device (radio p))"
    and "txf = tx_feedback_channel (anan10E p) (device (radio p))"
    and "length hdr = 8" and "length cc1 = 5" and "length cc2 = 5"
    and "length ss1 = 504 div (n * 6 + 2)" and "length ss2 = 504 div (n * 6 + 2)"
    and "\<forall>s \<in> set (ss1 @ ss2). length (fst s) = n" and "0x7F \<notin> set (pad1 @ pad2)"
    and "q1 = after_control cc1 (p\<lparr>st_num_hpsdr_receivers := n, st_rxfdbk := rxf, st_txfdbk := txf\<rparr>)"
    and "m = process_ozy_input_buffer (hdr @ frame_bytes cc1 ss1 pad1) p" and "q2 = after_control cc2 m"
    and "p' = process_ozy_input_buffer (hdr @ frame_bytes cc1 ss1 pad1 @ frame_bytes cc2 ss2 pad2) p"
  shows "p1_calls m = p1_calls q1 @ slots_calls (radio q1) n rxf txf (mic_sample_divisor p) (mic_samples p) ss1
    \<and> p1_calls p' = p1_calls q2 @ slots_calls (radio q2) n rxf txf (mic_sample_divisor p) (mic_samples m) ss2
    \<and> pstate p' = SYNC_0 \<and> control_in p' = cc2"
proof -
  define p0 where "p0 = p\<lparr>st_num_hpsdr_receivers := n, st_rxfdbk := rxf, st_txfdbk := txf\<rparr>"
  have p0: "pstate p0 = SYNC_0" "length (control_in p0) = 5" "n = st_num_hpsdr_receivers p0"
    "st_rxfdbk p0 = rxf" "st_txfdbk p0 = txf" "mic_sample_divisor p0 = mic_sample_divisor p" "mic_samples p0 = mic_samples p"
    using assms(1,2) by (simp_all add: p0_def)
  have f0: "feedback_ok p0"
    using feedback_consistent [of "radio p" "anan10E p"] assms(4-6) by (simp add: feedback_ok_def p0_def)
  have n: "0 < n" "n * 6 + 2 \<le> 504"
    using how_many_bounds [OF assms(3), of "anan10E p"] assms(4) by simp_all
  have buf: "process_ozy_input_buffer (hdr @ bs) p = fold process_ozy_byte bs p0" for bs
    using assms(4-7) by (simp add: process_ozy_input_buffer_def p0_def)
  have l1: "\<forall>s \<in> set ss1. length (fst s) = n" "\<forall>s \<in> set ss2. length (fst s) = n" "0x7F \<notin> set pad1" "0x7F \<notin> set pad2"
    using assms(12,13) by auto
  have q1: "q1 = after_control cc1 p0" by (simp add: assms(14) p0_def)
  have m: "m = fold process_ozy_byte (frame_bytes cc1 ss1 pad1) p0" unfolding assms(15) buf ..
  note d1 = frame_decoded [OF p0(1,2) assms(8) f0 p0(3) n assms(10) l1(1,3) q1 m]
  have p': "p' = fold process_ozy_byte (frame_bytes cc2 ss2 pad2) m" unfolding assms(17) buf m by simp
  have "feedback_ok q1" using after_control_env(8) [OF q1] f0 by simp
  then have "feedback_ok m" using d1 after_control_env [OF q1] p0 by (simp add: feedback_ok_def)
  from frame_decoded [OF _ _ assms(9) this _ n assms(11) l1(2,4) assms(16) p'] d1 show ?thesis
    using p0 assms(8) by simp
qed

end
