(* ===== verification/P1_Rx_Safety.thy ===== *)
theory P1_Rx_Safety
  imports P1_Rx_Facts Bands
begin

text \<open>
  The decoder of protocol 1 away from well-formed input: it finds back to the synchronisation
  state from every state it can be in, unless the number of receivers shrinks in the middle of a
  slot; the smoothed analog readings are bounded and settle; the transmit inhibit input stops a
  transmission; and XIT, which the transmit frequency contains, is not seen by the band check.
\<close>

subsection \<open>Back to the start\<close>

text \<open>The state, receiver and sample counters, and what the state machine does to them.\<close>

type_synonym parse_pos = "p1_parse \<times> nat \<times> nat \<times> nat \<times> nat"

definition parse_pos :: "p1 \<Rightarrow> parse_pos" where
  "parse_pos p = (pstate p, nreceiver p, nsamples p, iq_samples p, st_num_hpsdr_receivers p)"

fun pos_next :: "bool \<Rightarrow> parse_pos \<Rightarrow> parse_pos" where
  "pos_next sync (s, r, k, q, n) = (case s of
     SYNC_0 \<Rightarrow> (if sync then SYNC_1 else SYNC_0, r, k, q, n)
   | SYNC_1 \<Rightarrow> (if sync then SYNC_2 else SYNC_0, r, k, q, n)
   | SYNC_2 \<Rightarrow> (if sync then CONTROL_0 else SYNC_0, r, k, q, n)
   | CONTROL_0 \<Rightarrow> (CONTROL_1, r, k, q, n) | CONTROL_1 \<Rightarrow> (CONTROL_2, r, k, q, n)
   | CONTROL_2 \<Rightarrow> (CONTROL_3, r, k, q, n) | CONTROL_3 \<Rightarrow> (CONTROL_4, r, k, q, n)
   | CONTROL_4 \<Rightarrow> (LEFT_SAMPLE_HI, 0, 0, 504 div (n * 6 + 2), n)
   | LEFT_SAMPLE_HI \<Rightarrow> (LEFT_SAMPLE_MID, r, k, q, n) | LEFT_SAMPLE_MID \<Rightarrow> (LEFT_SAMPLE_LOW, r, k, q, n)
   | LEFT_SAMPLE_LOW \<Rightarrow> (RIGHT_SAMPLE_HI, r, k, q, n) | RIGHT_SAMPLE_HI \<Rightarrow> (RIGHT_SAMPLE_MID, r, k, q, n)
   | RIGHT_SAMPLE_MID \<Rightarrow> (RIGHT_SAMPLE_LOW, r, k, q, n)
   | RIGHT_SAMPLE_LOW \<Rightarrow> (if r + 1 = n then MIC_SAMPLE_HI else LEFT_SAMPLE_HI, r + 1, k, q, n)
   | MIC_SAMPLE_HI \<Rightarrow> (MIC_SAMPLE_LOW, r, k, q, n)
   | MIC_SAMPLE_LOW \<Rightarrow> if k + 1 = q then (SYNC_0, r, k + 1, q, n) else (LEFT_SAMPLE_HI, 0, k + 1, q, n)
   | SKIP \<Rightarrow> (SKIP, r, k, q, n))"

lemma control_num: "st_num_hpsdr_receivers (process_control_bytes p) = st_num_hpsdr_receivers p"
  using control_env [of p] by (simp add: p1_env_def)

lemma feed_pos: "parse_pos (feed_pair p) = parse_pos p"
  using feed_pair_view [of p] by (simp add: p1_view_def p1_fixed_def p1_count_def parse_pos_def)

lemma parse_pos_byte: "parse_pos (process_ozy_byte b p) = pos_next (b = 0x7F) (parse_pos p)"
proof (cases "pstate p")
  case RIGHT_SAMPLE_LOW
  define a where "a = p\<lparr>right_sample := right_sample p OR ucast b,
     left_right := (fst (left_right p), sample_double (right_sample p OR ucast b))\<rparr>"
  define d where "d = feed_pair a"
  have "parse_pos d = parse_pos p" by (simp add: d_def feed_pos) (simp add: parse_pos_def a_def)
  moreover have "process_ozy_byte b p = d\<lparr>nreceiver := nreceiver d + 1,
      pstate := (if nreceiver d + 1 = st_num_hpsdr_receivers d then MIC_SAMPLE_HI else LEFT_SAMPLE_HI)\<rparr>"
    using RIGHT_SAMPLE_LOW by (simp add: process_ozy_byte_def Let_def d_def a_def)
  ultimately show ?thesis using RIGHT_SAMPLE_LOW by (simp add: parse_pos_def)
next
  case MIC_SAMPLE_LOW
  then show ?thesis
    by (cases "mic_sample_divisor p \<le> mic_samples p + 1")
      (simp_all add: process_ozy_byte_def parse_pos_def Let_def p1_emit_def)
qed (simp_all add: process_ozy_byte_def parse_pos_def Let_def control_num)

text \<open>How many bytes at most separate a position from \<open>SYNC_0\<close>.\<close>

fun pos_ok :: "parse_pos \<Rightarrow> bool" where
  "pos_ok (s, r, k, q, n) \<longleftrightarrow> s \<noteq> SKIP \<and> 0 < n \<and> n \<le> 83
     \<and> (s \<in> {LEFT_SAMPLE_HI, LEFT_SAMPLE_MID, LEFT_SAMPLE_LOW, RIGHT_SAMPLE_HI, RIGHT_SAMPLE_MID, RIGHT_SAMPLE_LOW}
          \<longrightarrow> r < n \<and> k < q \<and> q * (n * 6 + 2) \<le> 504)
     \<and> (s = MIC_SAMPLE_HI \<or> s = MIC_SAMPLE_LOW \<longrightarrow> k < q \<and> q * (n * 6 + 2) \<le> 504)"

definition data_left :: "nat \<Rightarrow> nat \<Rightarrow> nat \<Rightarrow> nat" where
  "data_left q k n = (q - k) * (n * 6 + 2)"

fun pos_left :: "parse_pos \<Rightarrow> nat" where
  "pos_left (s, r, k, q, n) = (let m = data_left q k n in case s of
     SYNC_0 \<Rightarrow> 0 | SYNC_1 \<Rightarrow> 511 | SYNC_2 \<Rightarrow> 510
   | CONTROL_0 \<Rightarrow> 509 | CONTROL_1 \<Rightarrow> 508 | CONTROL_2 \<Rightarrow> 507 | CONTROL_3 \<Rightarrow> 506 | CONTROL_4 \<Rightarrow> 505
   | LEFT_SAMPLE_HI \<Rightarrow> m - r * 6 | LEFT_SAMPLE_MID \<Rightarrow> m - (r * 6 + 1) | LEFT_SAMPLE_LOW \<Rightarrow> m - (r * 6 + 2)
   | RIGHT_SAMPLE_HI \<Rightarrow> m - (r * 6 + 3) | RIGHT_SAMPLE_MID \<Rightarrow> m - (r * 6 + 4) | RIGHT_SAMPLE_LOW \<Rightarrow> m - (r * 6 + 5)
   | MIC_SAMPLE_HI \<Rightarrow> m - n * 6 | MIC_SAMPLE_LOW \<Rightarrow> m - (n * 6 + 1)
   | SKIP \<Rightarrow> 0)"

lemma pos_step:
  assumes "pos_ok (s, r, k, q, n)" and "s \<noteq> SYNC_0"
  shows "pos_ok (pos_next b (s, r, k, q, n)) \<and> pos_left (pos_next b (s, r, k, q, n)) < pos_left (s, r, k, q, n)"
proof -
  have n: "0 < n" "n \<le> 83" using assms(1) by auto
  have "n * 6 + 2 \<le> 504" using n by linarith
  then have d: "504 div (n * 6 + 2) * (n * 6 + 2) \<le> 504" "0 < 504 div (n * 6 + 2)"
    using div_times_less_eq_dividend [of 504 "n * 6 + 2"] by (simp_all add: div_greater_zero_iff)
  have "q - (k + 1) = (q - k) - 1" by simp
  then have m: "data_left q (k + 1) n = data_left q k n - (n * 6 + 2)"
    by (simp only: data_left_def diff_mult_distrib [of "q - k" 1] mult_1)
  have "k < q \<Longrightarrow> 1 * (n * 6 + 2) \<le> data_left q k n" unfolding data_left_def by (rule mult_le_mono1) simp
  then have m': "k < q \<Longrightarrow> n * 6 + 2 \<le> data_left q k n" by simp
  have d0: "data_left (504 div (n * 6 + 2)) 0 n \<le> 504" using d(1) by (simp only: data_left_def diff_zero)
  show ?thesis
  proof (cases s)
    case CONTROL_4
    then show ?thesis using d n d0 by simp
  qed (use assms m m' n in \<open>auto simp: Let_def\<close>)
qed

lemma resync:
  assumes "pos_ok (parse_pos p)" and "pos_left (parse_pos p) \<le> length bs"
  shows "\<exists>k \<le> pos_left (parse_pos p). pstate (fold process_ozy_byte (take k bs) p) = SYNC_0"
  using assms
proof (induction bs arbitrary: p)
  case Nil
  obtain s r k q n where pos: "parse_pos p = (s, r, k, q, n)" by (cases "parse_pos p") auto
  have "s = SYNC_0"
    using pos_step [of s r k q n False] Nil pos by auto
  then have "pstate p = SYNC_0" using pos by (simp add: parse_pos_def)
  then show ?case by auto
next
  case (Cons b bs)
  obtain s r k q n where pos: "parse_pos p = (s, r, k, q, n)" by (cases "parse_pos p") auto
  have s: "pstate p = s" using pos by (simp add: parse_pos_def)
  show ?case
  proof (cases "s = SYNC_0")
    case True
    then show ?thesis using s by (intro exI [of _ 0]) simp
  next
    case False
    define p1 where "p1 = process_ozy_byte b p"
    have st: "pos_ok (parse_pos p1)" "pos_left (parse_pos p1) < pos_left (parse_pos p)"
      using pos_step [OF _ False, of r k q n "b = 0x7F"] Cons.prems(1) unfolding p1_def parse_pos_byte pos by blast+
    then have "pos_left (parse_pos p1) \<le> length bs" using Cons.prems(2) by simp
    from Cons.IH [OF st(1) this] obtain j where j: "j \<le> pos_left (parse_pos p1)"
        "pstate (fold process_ozy_byte (take j bs) p1) = SYNC_0" by blast
    then show ?thesis using st(2) by (intro exI [of _ "Suc j"]) (simp add: p1_def)
  qed
qed

lemma pos_ok_byte: "pos_ok (parse_pos p) \<Longrightarrow> pos_ok (parse_pos (process_ozy_byte b p))"
proof -
  obtain s r k q n where pos: "parse_pos p = (s, r, k, q, n)" by (cases "parse_pos p") auto
  assume "pos_ok (parse_pos p)"
  then show ?thesis
    using pos_step [of s r k q n "b = 0x7F"] unfolding parse_pos_byte pos by (cases "s = SYNC_0") auto
qed

lemma pos_ok_bytes: "pos_ok (parse_pos p) \<Longrightarrow> pos_ok (parse_pos (fold process_ozy_byte bs p))"
  by (induction bs arbitrary: p) (simp_all add: pos_ok_byte)

lemma pos_left_le:
  assumes "pos_ok (parse_pos p)"
  shows "pos_left (parse_pos p) \<le> 511"
proof -
  obtain s r k q n where pos: "parse_pos p = (s, r, k, q, n)" by (cases "parse_pos p") auto
  have "(q - k) * (n * 6 + 2) \<le> q * (n * 6 + 2)" by (rule mult_le_mono1) simp
  then have "data_left q k n \<le> q * (n * 6 + 2)" by (simp only: data_left_def)
  then show ?thesis using assms unfolding pos by (cases s) (auto simp: Let_def)
qed


text \<open>If the number of receivers shrinks below the one being decoded, the counter has passed the
  value it is compared with and the decoder never leaves the samples.\<close>

definition mid_slot :: "p1_parse set" where
  "mid_slot = {LEFT_SAMPLE_HI, LEFT_SAMPLE_MID, LEFT_SAMPLE_LOW, RIGHT_SAMPLE_HI, RIGHT_SAMPLE_MID, RIGHT_SAMPLE_LOW}"

definition overtaken :: "p1 \<Rightarrow> p1 \<Rightarrow> bool" where
  "overtaken p0 p \<longleftrightarrow> pstate p \<in> mid_slot \<and> how_many_receivers (anan10E p0) (radio p0) \<le> nreceiver p
     \<and> radio p = radio p0 \<and> anan10E p = anan10E p0"

lemma anan10E_feed: "anan10E (feed_pair p) = anan10E p"
proof -
  have "anan10E (feed_ps q) = anan10E q" "anan10E (feed_div q) = anan10E q" "anan10E (feed_rx q) = anan10E q" for q
    by (simp_all add: feed_ps_def feed_div_def feed_rx_def p1_emit_def Let_def)
  then show ?thesis by (simp add: feed_pair_def)
qed

lemma overtaken_byte:
  assumes "overtaken p0 p" and "st_num_hpsdr_receivers p = how_many_receivers (anan10E p0) (radio p0)"
    and "p' = process_ozy_byte b p"
  shows "overtaken p0 p' \<and> st_num_hpsdr_receivers p' = how_many_receivers (anan10E p0) (radio p0)"
proof -
  have pos: "parse_pos p' = pos_next (b = 0x7F) (pstate p, nreceiver p, nsamples p, iq_samples p, st_num_hpsdr_receivers p)"
    unfolding assms(3) parse_pos_byte by (simp add: parse_pos_def)
  have "radio (feed_pair q) = radio q" for q
    using feed_pair_view [of q] by (simp add: p1_view_def p1_fixed_def)
  then have "radio p' = radio p" "anan10E p' = anan10E p"
    using assms(1) by (auto simp: assms(3) overtaken_def mid_slot_def process_ozy_byte_def Let_def anan10E_feed)
  then show ?thesis using assms(1,2) pos by (auto simp: overtaken_def mid_slot_def parse_pos_def)
qed

lemma overtaken_buffer:
  assumes "overtaken p0 p"
  shows "overtaken p0 (process_ozy_input_buffer buf p)"
proof -
  have "overtaken p0 q \<and> st_num_hpsdr_receivers q = how_many_receivers (anan10E p0) (radio p0) \<Longrightarrow>
    overtaken p0 (fold process_ozy_byte bs q)" for bs q
    by (induction bs arbitrary: q) (use overtaken_byte in \<open>auto\<close>)
  then show ?thesis using assms by (simp add: process_ozy_input_buffer_def overtaken_def)
qed

text \<open>If the number of receivers shrinks while a slot is being decoded, so that the counter
  has passed the value it is compared with, no further buffer, whatever it contains, brings the
  decoder back to \<open>SYNC_0\<close>.\<close>

lemma p1_shrink_stuck:
  assumes "pstate p \<in> {LEFT_SAMPLE_HI, LEFT_SAMPLE_MID, LEFT_SAMPLE_LOW, RIGHT_SAMPLE_HI, RIGHT_SAMPLE_MID, RIGHT_SAMPLE_LOW}"
    and "how_many_receivers (anan10E p) (radio p) \<le> nreceiver p"
  shows "pstate (fold process_ozy_input_buffer bufs p) \<noteq> SYNC_0"
proof -
  have "overtaken p q \<Longrightarrow> overtaken p (fold process_ozy_input_buffer bufs q)" for q
    by (induction bufs arbitrary: q) (simp_all add: overtaken_buffer)
  then have "overtaken p (fold process_ozy_input_buffer bufs p)"
    using assms by (simp add: overtaken_def mid_slot_def)
  then show ?thesis by (auto simp: overtaken_def mid_slot_def)
qed

subsection \<open>Analog readings\<close>

definition smooth_nat :: "nat \<Rightarrow> nat \<Rightarrow> nat" where
  "smooth_nat a v = 15 * a div 16 + v"

lemma smooth_bounded:
  assumes "unat acc \<le> 1048560" and "unat v \<le> 65535"
  shows "unat (smooth acc v) = smooth_nat (unat acc) (unat v)" and "unat (smooth acc v) \<le> 1048560"
    and "unat (smooth acc v div 16) \<le> 65535"
proof -
  have m: "unat (15 * acc) = 15 * unat acc" using assms(1) by (simp add: unat_word_ariths)
  then have d: "unat (15 * acc div 16) = 15 * unat acc div 16" by (simp add: unat_div)
  have b: "smooth_nat (unat acc) (unat v) \<le> 1048560" using assms by (simp add: smooth_nat_def)
  show s: "unat (smooth acc v) = smooth_nat (unat acc) (unat v)"
    using b unfolding smooth_def smooth_nat_def by (simp add: unat_word_ariths(1) d)
  show "unat (smooth acc v) \<le> 1048560" using b s by simp
  then show "unat (smooth acc v div 16) \<le> 65535" by (simp add: unat_div)
qed

lemma control_val_le: "unat (control_val hi lo) \<le> 65535"
proof -
  have "unat b < 2 ^ LENGTH(8)" for b :: byte by (rule unsigned_less)
  from this [of hi] this [of lo] show ?thesis by (simp add: control_word)
qed

definition readings_ok :: "p1 \<Rightarrow> bool" where
  "readings_ok p \<longleftrightarrow> (\<forall>x \<in> {fwd_acc p, rev_acc p, ex_acc p, adc0_acc p, adc1_acc p}. unat x \<le> 1048560)
     \<and> (\<forall>x \<in> {exciter_power p, alex_forward_power p, alex_reverse_power p, ADC0 p, ADC1 p}. unat x \<le> 65535)"

lemma readings_simps [simp]:
  "readings_ok (p1_emit e p) = readings_ok p" "readings_ok (set_TxInhibit b p) = readings_ok p"
  "readings_ok (or_overload i b p) = readings_ok p"
  "readings_ok (p\<lparr>hpsdr_ptt := b\<rparr>) = readings_ok p" "readings_ok (p\<lparr>hl2_iob_present := b\<rparr>) = readings_ok p"
  "readings_ok (p\<lparr>hpsdr_dash := b, hpsdr_dot := c\<rparr>) = readings_ok p"
  "readings_ok (p\<lparr>CAT_cw_is_active := b, MIDI_cw_is_active := c, cw_key_hit := d\<rparr>) = readings_ok p"
  "readings_ok (p\<lparr>auto_tune_end := b\<rparr>) = readings_ok p" "readings_ok (p\<lparr>auto_tune_flag := b\<rparr>) = readings_ok p"
  "readings_ok (p\<lparr>mercury_software_version := f\<rparr>) = readings_ok p" "readings_ok (p\<lparr>radio := r\<rparr>) = readings_ok p"
  "readings_ok (p\<lparr>tx_fifo_flag := b\<rparr>) = readings_ok p" "readings_ok (p\<lparr>tx_fifo_underrun := b\<rparr>) = readings_ok p"
  "readings_ok (p\<lparr>tx_fifo_overrun := b\<rparr>) = readings_ok p"
  by (simp_all add: readings_ok_def p1_emit_def set_TxInhibit_def or_overload_def)

lemma readings_parts:
  "readings_ok (ptt_input p) = readings_ok p" "readings_ok (hl2_ack p) = readings_ok p"
  "readings_ok (keyer_inputs p) = readings_ok p" "readings_ok (tx_inhibit_input p) = readings_ok p"
  "readings_ok (auto_tune_input p) = readings_ok p" "readings_ok (mercury_card i x p) = readings_ok p"
  "readings_ok (version_status p) = readings_ok p"
  by (simp_all add: version_status_def ptt_input_def hl2_ack_def keyer_inputs_def tx_inhibit_input_def auto_tune_input_def
      mercury_card_def Let_def)

lemma readings_control:
  assumes "readings_ok p"
  shows "readings_ok (process_control_bytes p)"
proof -
  have 04: "readings_ok (control_0 p) = readings_ok p" "readings_ok (control_4 p) = readings_ok p" for p
    by (simp_all add: control_0_def control_4_def Let_def readings_parts)
  have s: "unat (smooth acc (control_val hi lo)) \<le> 1048560" "unat (smooth acc (control_val hi lo) div 16) \<le> 65535"
    if "unat acc \<le> 1048560" for acc hi lo
    using smooth_bounded [OF that control_val_le] by simp_all
  have 1: "readings_ok q \<Longrightarrow> readings_ok (control_1 q)" for q
    unfolding control_1_def by (simp add: Let_def) (simp add: readings_ok_def s)
  have 2: "readings_ok q \<Longrightarrow> readings_ok (control_2 q)" for q
    by (simp add: control_2_def Let_def readings_ok_def s)
  have 3: "readings_ok q \<Longrightarrow> readings_ok (control_3 q)" for q
    by (simp add: control_3_def Let_def readings_ok_def s)
  show ?thesis using assms by (simp add: process_control_bytes_def Let_def readings_parts 04 1 2 3)
qed

lemma readings_byte:
  assumes "readings_ok p"
  shows "readings_ok (process_ozy_byte b p)"
proof -
  have "readings_ok (feed_ps q) = readings_ok q" "readings_ok (feed_div q) = readings_ok q"
    "readings_ok (feed_rx q) = readings_ok q" for q
    by (simp_all add: feed_ps_def feed_div_def feed_rx_def Let_def) (simp_all add: readings_ok_def p1_emit_def)
  then have f: "readings_ok (feed_pair q) = readings_ok q" for q by (simp add: feed_pair_def)
  have u: "readings_ok (q\<lparr>pstate := st\<rparr>) = readings_ok q" "readings_ok (q\<lparr>control_in := cc\<rparr>) = readings_ok q"
    "readings_ok (q\<lparr>nreceiver := k\<rparr>) = readings_ok q" "readings_ok (q\<lparr>nsamples := k\<rparr>) = readings_ok q"
    "readings_ok (q\<lparr>iq_samples := k\<rparr>) = readings_ok q" "readings_ok (q\<lparr>left_sample := x\<rparr>) = readings_ok q"
    "readings_ok (q\<lparr>right_sample := x\<rparr>) = readings_ok q" "readings_ok (q\<lparr>left_right := lr\<rparr>) = readings_ok q"
    "readings_ok (q\<lparr>next_mic_sample := y\<rparr>) = readings_ok q" "readings_ok (q\<lparr>mic_samples := k\<rparr>) = readings_ok q"
    for q st cc k x lr y
    by (simp_all add: readings_ok_def)
  show ?thesis using assms
    by (cases "pstate p") (simp_all add: process_ozy_byte_def Let_def f u readings_control)
qed

text \<open>The analog readings stay within 16 bits and their 32 bit accumulators never wrap,
  whatever the radio sends.\<close>

lemma readings_bounded:
  assumes "readings_ok p"
  shows "readings_ok (fold process_ozy_byte bs p)"
  using assms by (induction bs arbitrary: p) (simp_all add: readings_byte)

text \<open>The smoothing map on naturals and its fixed points.\<close>

definition off_target :: "nat \<Rightarrow> nat \<Rightarrow> nat" where
  "off_target v a = (if 16 * v < a then a - 16 * v else if a + 16 \<le> 16 * v then 16 * v - 15 - a else 0)"

lemma off_target_step: "off_target v (smooth_nat a v) \<le> off_target v a - 1"
proof -
  define u where "u = 15 * a div 16"
  have u: "16 * u \<le> 15 * a" "15 * a < 16 * u + 16" by (simp_all add: u_def)
  have f: "smooth_nat a v = u + v" by (simp add: smooth_nat_def u_def)
  consider "16 * v < a" | "a + 16 \<le> 16 * v" | "a \<le> 16 * v" "16 * v < a + 16" by linarith
  then show ?thesis
  proof cases
    case 1
    then have "16 * v \<le> u + v" "u + v < a" using u by linarith+
    then show ?thesis using 1 by (simp add: off_target_def f) linarith
  next
    case 2
    then have "u + v \<le> 16 * v" "a < u + v" using u by linarith+
    then show ?thesis using 2 by (simp add: off_target_def f) linarith
  next
    case 3
    then have "u + v = a" using u by linarith
    then show ?thesis using 3 by (simp add: off_target_def f)
  qed
qed

lemma off_target_steps: "off_target v (((\<lambda>a. smooth_nat a v) ^^ k) a) \<le> off_target v a - k"
proof (induction k)
  case (Suc k)
  then show ?case using off_target_step [of v "((\<lambda>a. smooth_nat a v) ^^ k) a"] by simp
qed simp

text \<open>A constant input is reported as it is, or one less: after at most 1048560 status
  frames the reading is in this range, and it stays there.\<close>

lemma readings_settle:
  assumes "unat acc \<le> 1048560" and "1048560 \<le> k"
    and "r = unat (((\<lambda>a. smooth a (control_val hi lo)) ^^ k) acc div 16)"
  shows "r \<le> 256 * unat hi + unat lo \<and> 256 * unat hi + unat lo \<le> r + 1"
proof -
  let ?v = "control_val hi lo"
  have s: "unat (((\<lambda>a. smooth a ?v) ^^ j) acc) \<le> 1048560
      \<and> unat (((\<lambda>a. smooth a ?v) ^^ j) acc) = ((\<lambda>a. smooth_nat a (unat ?v)) ^^ j) (unat acc)" for j
  proof (induction j)
    case (Suc j)
    then show ?case using smooth_bounded(1,2) [OF _ control_val_le, of "((\<lambda>a. smooth a ?v) ^^ j) acc" hi lo] by simp
  qed (use assms(1) in simp)
  have "off_target (unat ?v) (unat acc) \<le> 1048560"
    using assms(1) control_val_le [of hi lo] by (auto simp: off_target_def)
  then have "off_target (unat ?v) (unat (((\<lambda>a. smooth a ?v) ^^ k) acc)) = 0"
    using s [of k] off_target_steps [of "unat ?v" k "unat acc"] assms(2) by simp
  then have "r \<le> unat ?v \<and> unat ?v \<le> r + 1"
    unfolding assms(3) unat_div by (auto simp: off_target_def split: if_splits)
  then show ?thesis by (simp add: control_word)
qed

subsection \<open>Transmit inhibit\<close>

definition mox_request :: "p1_call \<Rightarrow> bool" where
  "mox_request c \<longleftrightarrow> c = Idle_mox True \<or> c = Idle_mox False \<or> c = Delayed_mox_off"

definition mox_view :: "p1 \<Rightarrow> radio_state \<times> byte list \<times> bool \<times> p1_call list" where
  "mox_view p = (radio p, control_in p, enable_tx_inhibit p, filter mox_request (p1_calls p))"

lemma mox_view_simps [simp]:
  "mox_view (p1_emit (Keyer_event l s) p) = mox_view p"
  "mox_view (p\<lparr>hpsdr_dash := b, hpsdr_dot := c\<rparr>) = mox_view p"
  "mox_view (p\<lparr>CAT_cw_is_active := b, MIDI_cw_is_active := c, cw_key_hit := d\<rparr>) = mox_view p"
  by (simp_all add: mox_view_def p1_emit_def mox_request_def)

lemma keyer_inputs_view: "mox_view (keyer_inputs p) = mox_view p"
  by (simp add: keyer_inputs_def Let_def)

text \<open>A status frame of address 0 sets the inhibit flag exactly when the option is enabled
  and the input (IO2 on an Orion 2, IO1 elsewhere) is low. When the flag goes up the last request
  to the transmit switch is to end the transmission, even if the same frame reports that PTT was
  pressed.\<close>

lemma tx_inhibit_status:
  assumes "device (radio p) = DEVICE_HERMES_LITE2 \<longrightarrow> \<not> bit (control_in p ! 0) 7"
    and "drop_bit 3 (control_in p ! 0) AND 0x1F = 0"
    and "inhibit \<longleftrightarrow> enable_tx_inhibit p \<and> \<not> bit (control_in p ! 1) (if device (radio p) = DEVICE_ORION2 then 2 else 1)"
    and "p' = process_control_bytes p"
  shows "TxInhibit (radio p') = inhibit
    \<and> (\<not> TxInhibit (radio p) \<and> inhibit \<longrightarrow>
         (\<exists>xs. filter mox_request (p1_calls p') = filter mox_request (p1_calls p) @ xs @ [Idle_mox False]))"
proof -
  define a where "a = ptt_input p"
  define b where "b = keyer_inputs a"
  define c where "c = or_overload 0 (bit (control_in b ! 1) 0) b"
  define d where "d = tx_inhibit_input c"
  have a: "radio a = radio p" "control_in a = control_in p" "enable_tx_inhibit a = enable_tx_inhibit p"
    "\<exists>xs. filter mox_request (p1_calls a) = filter mox_request (p1_calls p) @ xs"
    by (simp_all add: a_def ptt_input_def Let_def p1_emit_def mox_request_def)
  have b: "radio b = radio a" "control_in b = control_in a" "enable_tx_inhibit b = enable_tx_inhibit a"
    "filter mox_request (p1_calls b) = filter mox_request (p1_calls a)"
    using keyer_inputs_view [of a] by (simp_all add: b_def mox_view_def)
  have c: "device (radio c) = device (radio p)" "TxInhibit (radio c) = TxInhibit (radio p)" "control_in c = control_in p"
    "enable_tx_inhibit c = enable_tx_inhibit p" "p1_calls c = p1_calls b"
    using a b by (simp_all add: c_def or_overload_def upd_adc_def)
  have d: "TxInhibit (radio d) = inhibit"
    "\<not> TxInhibit (radio p) \<and> inhibit \<Longrightarrow> filter mox_request (p1_calls d) = filter mox_request (p1_calls c) @ [Idle_mox False]"
    "device (radio d) = device (radio p)"
    using assms(3) c by (auto simp: d_def tx_inhibit_input_def Let_def p1_emit_def set_TxInhibit_def mox_request_def)
  have e: "TxInhibit (radio (auto_tune_input q)) = TxInhibit (radio q)"
    "filter mox_request (p1_calls (auto_tune_input q)) = filter mox_request (p1_calls q)" for q
    by (simp_all add: auto_tune_input_def Let_def p1_emit_def mox_request_def)
  have "radio (version_status q) = radio q" "p1_calls (version_status q) = p1_calls q" for q
    by (simp_all add: version_status_def Let_def)
  then have "TxInhibit (radio (control_0 b)) = TxInhibit (radio (auto_tune_input d))"
    "p1_calls (control_0 b) = p1_calls (auto_tune_input d)"
    by (simp_all add: control_0_def c_def d_def)
  moreover have "p' = control_0 b"
    using assms(1,2) a b by (auto simp: assms(4) process_control_bytes_def Let_def a_def [symmetric] b_def [symmetric])
  ultimately show ?thesis using d e a(4) b(4) c(5) by auto
qed

subsection \<open>XIT\<close>

text \<open>XIT moves the transmit frequency and is invisible to the band check: whether a
  transmission is allowed does not depend on it.\<close>

lemma xit_unchecked:
  fixes r :: radio_state
  defines "v \<equiv> vfo r (vfo_get_tx_vfo r)"
  shows "TransmitAllowed (upd_vfo (vfo_get_tx_vfo r) (\<lambda>v. v\<lparr>v_xit_enabled := True, v_xit := x\<rparr>) r) = TransmitAllowed r
    \<and> channel_freq an None (upd_vfo (vfo_get_tx_vfo r) (\<lambda>v. v\<lparr>v_xit_enabled := True, v_xit := x\<rparr>) r)
      = calibrated_frequency ((if v_ctun v then v_ctun_frequency v else v_frequency v) + x - v_lo v) r"
proof -
  define q where "q = upd_vfo (vfo_get_tx_vfo r) (\<lambda>v. v\<lparr>v_xit_enabled := True, v_xit := x\<rparr>) r"
  have q: "vfo_get_tx_vfo q = vfo_get_tx_vfo r" "transmitter q = transmitter r"
    "tx_out_of_band_allowed q = tx_out_of_band_allowed r" "bands q = bands r" "channels_60m q = channels_60m r"
    "frequency_calibration q = frequency_calibration r"
    "vfo q (vfo_get_tx_vfo r) = v\<lparr>v_xit_enabled := True, v_xit := x\<rparr>"
    by (simp_all add: q_def upd_vfo_def vfo_get_tx_vfo_def v_def)
  have "tx_edges tx q = tx_edges tx r" for tx
    by (simp add: tx_edges_def vfo_get_tx_freq_def vfo_get_tx_mode_def q Let_def v_def [symmetric] cong: mode.case_cong)
  then have "TransmitAllowed q = TransmitAllowed r"
    by (simp add: TransmitAllowed_def q band_get_band_def v_def [symmetric] cong: option.case_cong)
  moreover have "channel_freq an None q = calibrated_frequency ((if v_ctun v then v_ctun_frequency v else v_frequency v) + x - v_lo v) r"
    by (simp add: channel_freq_def q calibrated_frequency_def Let_def)
  ultimately show ?thesis by (simp add: q_def)
qed

end
