(* ===== verification/P1_Tx.thy ===== *)
theory P1_Tx
  imports P1_Rx
begin

text \<open>
  Protocol 1, towards the radio (\<^verbatim>\<open>src/src/old_protocol.c\<close>): the command bytes of a frame
  (\<open>ozy_send_buffer\<close>), one definition for each command, the HermesLite-II command set, and the
  assembly of two frames into a packet (\<open>metis_write\<close>).

  The settings the commands report are the record \<open>p1_conf\<close>; the static variables of the two
  functions are in \<open>p1_tx\<close>, the packets sent in its trace \<open>sent\<close>. The program is built without
  support for OZY over USB (an OZY gets nothing); \<open>gettimeofday\<close> is \<open>clock_ms\<close>. A command is the list of its five bytes
  \<open>C0\<close> to \<open>C4\<close>.
\<close>

subsection \<open>State\<close>

record p1_conf =
  atlas_mic_source :: bool
  atlas_clock_source_128mhz :: bool
  atlas_clock_source_10mhz :: nat
  OCtune :: byte
  have_alex_att :: bool
  new_pa_board :: bool
  hl2_audio_codec :: bool
  hl2_ah4_atu :: bool
  hl2_cl1_input :: bool
  mic_boost :: bool
  mic_linein :: bool
  have_preamp :: bool
  orion_mic_ptt_enabled :: bool
  orion_mic_bias_enabled :: bool
  orion_mic_ptt_tip :: bool
  linein_gain :: real
  n_adc :: nat
  conf_keys_reversed :: bool          \<comment> \<open>\<open>cw_keys_reversed\<close>\<close>
  conf_keyer_speed :: int             \<comment> \<open>\<open>cw_keyer_speed\<close>, and so on\<close>
  conf_keyer_mode :: int
  conf_keyer_weight :: int
  conf_keyer_spacing :: int
  conf_keyer_ptt_delay :: int
  conf_keyer_hang_time :: int
  conf_sidetone_volume :: int

record p1_tx =
  p1of :: p1
  conf :: p1_conf
  metis_offset :: nat
  current_rx :: nat
  p1_command_loop :: nat
  metis_buffer :: "byte list"
  send_sequence :: u32
  sent :: "byte list list"
  hl2_last_tune :: bool
  hl2_command_loop :: nat
  hl2_query_count :: int
  hl2_iob_tx_freq :: int
  hl2_iob_rx1_code :: int
  hl2_iob_rx2_code :: int
  hl2_iob_rfmode :: byte
  hl2_cl1_loop :: nat
  hl2_old_cl1_setting :: bool
  hl2_new_cl1_setting :: bool

abbreviation tx_radio :: "p1_tx \<Rightarrow> radio_state" where "tx_radio t \<equiv> radio (p1of t)"

text \<open>The transmitter, its flags and its band; protocol 1 radios have one.\<close>

definition txp :: "radio_state \<Rightarrow> transmitter" where
  "txp r = the (transmitter r)"

definition txband :: "radio_state \<Rightarrow> band" where
  "txband r = band_get_band (v_band (vfo r (vfo_get_tx_vfo r))) r"

definition rxband :: "radio_state \<Rightarrow> band" where
  "rxband r = band_get_band (v_band (vfo r (active_id r))) r"

definition flag :: "bool \<Rightarrow> byte \<Rightarrow> byte" where
  "flag b x = (if b then x else 0)"

subsection \<open>The frame with C0 = 0\<close>

definition speed_bits :: "int \<Rightarrow> byte" where
  "speed_bits rate = (if rate = 48000 then 0x00 else if rate = 96000 then 0x01
     else if rate = 192000 then 0x02 else if rate = 384000 then 0x03 else 0)"

definition atlas_bits :: "p1_conf \<Rightarrow> radio_state \<Rightarrow> byte" where
  "atlas_bits c r = (if device r = DEVICE_OZY \<or> device r = DEVICE_METIS then
     0x40 OR flag (atlas_penelope r) 0x20 OR flag (atlas_mic_source c) (0x80 OR 0x20)
     OR (if atlas_clock_source_128mhz c then 0x10 else 0x20)
     OR (if atlas_clock_source_10mhz c = 1 then 0x04 OR 0x20 else if atlas_clock_source_10mhz c = 2 then 0x08 else 0)
     else 0)"

definition oc_bits :: "p1_conf \<Rightarrow> radio_state \<Rightarrow> byte" where
  "oc_bits c r = (if radio_is_transmitting r then
     push_bit 1 (OCtx (txband r))
       OR (if tx_tune (txp r) then
             if full_tune r \<or> memory_tune r then flag (clock_ms r < tune_timeout r) (push_bit 1 (OCtune c))
             else push_bit 1 (OCtune c)
           else 0)
     else push_bit 1 (OCrx (rxband r)))"

text \<open>The receive antenna connector, \<open>i\<close> as computed by the code.\<close>

definition rx_ant_bits :: "int \<Rightarrow> byte" where
  "rx_ant_bits i = (if i \<in> {3, 6, 1006} then 0xC0 else if i = 4 then 0xA0 else if i = 5 then 0xE0
     else if i \<in> {104, 103} then 0x40 else if i = 105 then 0x60 else if i \<in> {106, 107} then 0x20
     else if i = 1003 then 0x40 else if i = 1004 then 0x20 else if i = 1005 then 0x60
     else if i \<in> {7, 1007} then 0x80 else 0)"

definition rx_ant_index :: "p1_conf \<Rightarrow> radio_state \<Rightarrow> int" where
  "rx_ant_index c r = (
     let i = adc_antenna (adc r 0);
         i = (if radio_is_transmitting r \<and> puresignal r then adc_antenna (adc r 2) else i)
     in if device r = DEVICE_ORION2 \<or> device r = DEVICE_G2E then i + 100
        else if new_pa_board c then i + 1000 else i)"

definition c3_bits :: "p1_conf \<Rightarrow> radio_state \<Rightarrow> byte" where
  "c3_bits c r =
     (if have_alex_att c \<and> filter_board r = ALEX \<or> filter_board r = CHARLY25
      then word_of_int (adc_alex_attenuation (adc r 0)) AND 0x03 else 0)
     OR flag (adc_random (adc r 0) \<noteq> 0 \<or> adc_random (adc r 1) \<noteq> 0) 0x10
     OR flag (adc_dither (adc r 0) \<noteq> 0 \<or> adc_dither (adc r 1) \<noteq> 0) 0x08
     OR flag (device r = DEVICE_HERMES_LITE2 \<and> hl2_audio_codec c) 0x08
     OR flag (filter_board r = CHARLY25 \<and> adc_preamp (adc r 0) \<noteq> 0) 0x04
     OR rx_ant_bits (rx_ant_index c r)"

text \<open>The transmit or receive antenna; an illegal transmit antenna is corrected in place.\<close>

definition ant_index :: "p1_conf \<Rightarrow> p1 \<Rightarrow> int \<times> p1" where
  "ant_index c p = (
     let r = radio p; txant = tx_antenna (txp r) in
     if radio_is_transmitting r \<or> hpsdr_ptt p then
       if txant < 0 \<or> 2 < txant then (0, p\<lparr>radio := upd_tx (\<lambda>tx. tx\<lparr>tx_antenna := 0\<rparr>) r\<rparr>) else (txant, p)
     else
       let i = adc_antenna (adc r 0)
       in (if 2 < i \<and> \<not> new_pa_board c then txant else i, p))"

definition ant_bits :: "int \<Rightarrow> byte" where
  "ant_bits i = (if i = 0 then 0x00 else if i = 1 then 0x01 else if i = 2 then 0x02 else 0x03)"

definition general_command :: "p1_tx \<Rightarrow> byte list \<times> p1_tx" where
  "general_command t = (
     let c = conf t; r = tx_radio t; n = how_many_receivers (anan10E (p1of t)) r;
         (i, p) = ant_index c (p1of t)
     in ([0x00, speed_bits (rx_sample_rate (receiver r 0)) OR atlas_bits c r, oc_bits c r, c3_bits c r,
          0x04 OR flag (diversity_enabled r) 0x80 OR push_bit 3 (word_of_int (int n - 1) AND 0x07) OR ant_bits i],
         t\<lparr>p1of := p\<rparr>))"

subsection \<open>The other commands\<close>

definition freq_bytes :: "int \<Rightarrow> byte list" where
  "freq_bytes f = be32 f"

definition tx_freq_command :: "p1_tx \<Rightarrow> byte list \<times> p1_tx" where
  "tx_freq_command t = (0x02 # freq_bytes (channel_freq (anan10E (p1of t)) None (tx_radio t)), t\<lparr>p1_command_loop := 2\<rparr>)"

text \<open>When \<open>current_rx\<close> is too large nothing is stored: \<open>C0\<close> keeps what the buffer held before.\<close>

definition rx_freq_command :: "byte \<Rightarrow> p1_tx \<Rightarrow> byte list \<times> p1_tx" where
  "rx_freq_command old t = (
     let n = how_many_receivers (anan10E (p1of t)) (tx_radio t);
         (cmd, t) = (if current_rx t < n then
             ((0x04 + 2 * of_nat (current_rx t))
                # freq_bytes (channel_freq (anan10E (p1of t)) (Some (current_rx t)) (tx_radio t)),
              t\<lparr>current_rx := current_rx t + 1\<rparr>)
           else ([old, 0, 0, 0, 0], t))
     in (cmd, if n \<le> current_rx t then t\<lparr>current_rx := 0, p1_command_loop := 3\<rparr> else t))"

text \<open>The transmit frequency without calibration, and the drive level that is sent.\<close>

definition TXfreq :: "radio_state \<Rightarrow> int" where
  "TXfreq r = (let v = vfo r (vfo_get_tx_vfo r); f = (if v_ctun v then v_ctun_frequency v else v_frequency v)
     in if v_xit_enabled v then f + v_xit v else f)"

definition tx_power :: "radio_state \<Rightarrow> int" where
  "tx_power r = (if frequencyMin (txband r) \<le> TXfreq r \<and> TXfreq r \<le> frequencyMax (txband r) \<or> tx_out_of_band_allowed r
     then tx_drive_level (txp r) else 0)"

definition lpf_bits :: "int \<Rightarrow> byte" where
  "lpf_bits f = (if 35600000 < f then 0x10 else if 24000000 < f then 0x20 else if 16500000 < f then 0x40
     else if 8000000 < f then 0x01 else if 5000000 < f then 0x02 else if 2500000 < f then 0x04 else 0x08)"

definition drive_command :: "p1_tx \<Rightarrow> byte list \<times> p1_tx" where
  "drive_command t = (
     let c = conf t; r = tx_radio t; tx = txp r; xmit = radio_is_transmitting r;
         no_pa = (disablePA (txband r) \<or> \<not> pa_enabled r);
         c1 = word_of_int (tx_power r);
         c2 = flag (mic_boost c) 0x01 OR flag (mic_linein c) 0x02 OR flag (filter_board r = APOLLO) 0x2C
              OR flag (filter_board r = APOLLO \<and> tx_tune tx) 0x10;
         c3 = flag (v_band (vfo r (active_id r)) = band6) 0x40;
         c3 = (if no_pa then c3 OR 0x80 else c3);
         (c2, c3) = (if no_pa \<and> xmit then (c2 OR 0x40, c3 OR 0x20) else (c2, c3));
         (c2, c3) = (if \<not> xmit \<and> adc_filter_bypass (adc r 0) then (c2 OR 0x40, c3 OR 0x20) else (c2, c3));
         (c2, c3, c4) = (if xmit \<and> puresignal r \<and> adc_antenna (adc r 2) = 6
           then (c2 OR 0x40, (c3 AND 0x80) OR 0x20, lpf_bits (TXfreq r - v_lo (vfo r (vfo_get_tx_vfo r))))
           else (c2, c3, 0));
         (c2, c3, c4) = (if device r = DEVICE_HERMES_LITE2
           then ((if no_pa then 0x04 else 0x08) OR flag (tx_tune tx \<and> hl2_ah4_atu c) 0x10, 0, 0)
           else (c2, c3, c4))
     in ([0x12, c1, c2, c3, c4], t\<lparr>p1_command_loop := 4\<rparr>))"

text \<open>The gain of the HermesLite-II; \<open>adc[].gain\<close> is a double, \<open>rxgain\<close> an \<open>int\<close>.\<close>

definition clamp_gain :: "int \<Rightarrow> int" where
  "clamp_gain g = (let g = (if g < 0 then 0 else g) in if 60 < g then 60 else g)"

definition rx_gain :: "radio_state \<Rightarrow> int" where
  "rx_gain r = c_trunc (adc_gain (adc r (rx_adc (receiver r (active_id r)))) + 12)"

definition preamp_command :: "p1_tx \<Rightarrow> byte list \<times> p1_tx" where
  "preamp_command t = (
     let c = conf t; r = tx_radio t; tx = txp r; xmit = radio_is_transmitting r;
         pa = (pa_enabled r \<and> \<not> disablePA (txband r));
         c1 = (if have_preamp c
               then word_of_int (adc_preamp (adc r 0)) OR push_bit 1 (word_of_int (adc_preamp (adc r 1))) else 0)
              OR flag (\<not> orion_mic_ptt_enabled c) 0x40 OR flag (orion_mic_bias_enabled c) 0x20
              OR flag (orion_mic_ptt_tip c) 0x10;
         c2 = word_of_int (c_trunc ((linein_gain c + 34) * 0.6739 + 0.5)) OR flag (puresignal r) 0x40;
         c4 = (if device r = DEVICE_HERMES_LITE2 then
                 let g = rx_gain r;
                     g = (if xmit \<and> pa then 0 else g);
                     g = (if xmit \<and> puresignal r then 31 - tx_attenuation tx else g)
                 in 0x40 OR word_of_int (clamp_gain g)
               else
                 let a = 0x20 OR (word_of_int (adc_attenuation (adc r 0)) AND 0x1F);
                     a = (if xmit \<and> pa then 0x3F else a)
                 in if xmit \<and> puresignal r then 0x20 OR (word_of_int (tx_attenuation tx) AND 0x1F) else a)
     in ([0x14, c1, c2, 0, c4], t\<lparr>p1_command_loop := 5\<rparr>))"

definition keyer_command :: "p1_tx \<Rightarrow> byte list \<times> p1_tx" where
  "keyer_command t = (
     let c = conf t; r = tx_radio t;
         c1 = (if n_adc c = 2 then
                 if radio_is_transmitting r \<and> pa_enabled r \<and> \<not> disablePA (txband r) then 0x3F
                 else 0x20 OR (word_of_int (adc_attenuation (adc r (if diversity_enabled r then 0 else 1))) AND 0x1F)
               else 0)
     in ([0x16, c1, flag (conf_keys_reversed c) 0x40,
          word_of_int (conf_keyer_speed c OR push_bit 6 (conf_keyer_mode c)),
          word_of_int (conf_keyer_weight c OR push_bit 7 (conf_keyer_spacing c))], t\<lparr>p1_command_loop := 6\<rparr>))"

definition adc_command :: "p1_tx \<Rightarrow> byte list \<times> p1_tx" where
  "adc_command t = (
     let r = tx_radio t; tx = txp r; fb = rx_feedback_channel (anan10E (p1of t)) (device r);
         pa = (pa_enabled r \<and> \<not> disablePA (txband r));
         c1 = (if diversity_enabled r then 0x04
               else (of_nat (rx_adc (receiver r 0)) AND 0x03) OR push_bit 2 (of_nat (rx_adc (receiver r 1)) AND 0x03))
              OR (if 1 < fb \<and> fb < 4 \<and> puresignal r
                  then push_bit (2 * fb) (of_nat (rx_adc (receiver r 3)) AND 0x03) else 0);
         c3 = (if device r = DEVICE_HERMES_LITE2 then
                 let g = (if puresignal r then 31 - tx_attenuation tx else if pa then 0 else rx_gain r)
                 in 0xC0 OR word_of_int (clamp_gain g)
               else if puresignal r then word_of_int (tx_attenuation tx) AND 0x1F
               else if pa then 0x1F else 0)
     in ([0x1C, c1, 0, c3, 0], t\<lparr>p1_command_loop := 7\<rparr>))"

text \<open>The local variables \<open>rfdelay\<close> and \<open>rfmax\<close> have the type \<open>uint8_t\<close>.\<close>

definition cw_command :: "p1_tx \<Rightarrow> byte list \<times> p1_tx" where
  "cw_command t = (
     let c = conf t; r = tx_radio t; p = p1of t; tx = txp r; txmode = vfo_get_tx_mode r;
         c1 = flag ((txmode = modeCWU \<or> txmode = modeCWL) \<and> \<not> tx_tune tx \<and> \<not> tx_twotone tx \<and> cw_keyer_internal r
                    \<and> \<not> MIDI_cw_is_active p \<and> \<not> CAT_cw_is_active p) 0x01;
         rfdelay = (word_of_int (conf_keyer_ptt_delay c) :: byte);
         rfmax = word_of_int (c_div 900 (conf_keyer_speed c));
         rfdelay = (if rfmax < rfdelay then rfmax else rfdelay)
     in ([0x1E, c1, word_of_int (conf_sidetone_volume c), rfdelay, 0], t\<lparr>p1_command_loop := 8\<rparr>))"

definition sidetone_command :: "p1_tx \<Rightarrow> byte list \<times> p1_tx" where
  "sidetone_command t = (
     let c = conf t; h = conf_keyer_hang_time c; f = cw_sidetone (tx_radio t)
     in ([0x20, word_of_int (drop_bit 2 h), word_of_int (h AND 0x03), word_of_int (drop_bit 4 f), word_of_int (f AND 0x0F)],
         t\<lparr>p1_command_loop := 9\<rparr>))"

definition pwm_command :: "p1_tx \<Rightarrow> byte list \<times> p1_tx" where
  "pwm_command t = ([0x22, 25, 0, 100, 0], t\<lparr>p1_command_loop := 10\<rparr>)"

definition alex2_command :: "p1_tx \<Rightarrow> byte list \<times> p1_tx" where
  "alex2_command t = (
     let r = tx_radio t;
         c1 = flag (radio_is_transmitting r) 0x80 OR flag (adc_filter_bypass (adc r 1)) 0x20;
         c2 = flag (adc_antenna (adc r 0) = 5) 0x02 OR flag (puresignal r) 0x40
     in ([0x24, c1, c2, 0, 0], t\<lparr>p1_command_loop := (if device r = DEVICE_HERMES_LITE2 then 11 else 1)\<rparr>))"

subsection \<open>HermesLite-II\<close>

definition HL2CL1on :: "byte list" where
  "HL2CL1on = [0x10, 0xc0, 0x13, 0x03, 0x10, 0x40, 0x2d, 0x01, 0x2e, 0x20, 0x22, 0x03,
     0x23, 0x00, 0x24, 0x00, 0x25, 0x00, 0x19, 0x00, 0x1A, 0x00, 0x1B, 0x00,
     0x18, 0x00, 0x17, 0x12, 0x62, 0x3b, 0x2c, 0x00, 0x31, 0x81, 0x3d, 0x09,
     0x3e, 0x00, 0x32, 0x00, 0x33, 0x00, 0x34, 0x00, 0x35, 0x00, 0x63, 0x01]"

definition HL2CL1off :: "byte list" where
  "HL2CL1off = [0x10, 0xc0, 0x13, 0x00, 0x10, 0x80, 0x2d, 0x01, 0x2e, 0x10, 0x22, 0x00,
     0x23, 0x00, 0x24, 0x00, 0x25, 0x00, 0x19, 0x00, 0x1A, 0x00, 0x1B, 0x00,
     0x18, 0x40, 0x17, 0x04, 0x62, 0x5b, 0x2c, 0x00, 0x31, 0x00, 0x3d, 0x00,
     0x3e, 0x00, 0x32, 0x00, 0x33, 0x00, 0x34, 0x00, 0x35, 0x00, 0x63, 0x00]"

text \<open>A write to a register of the IO board, and the packet sent when there is nothing to do.\<close>

definition iob_write :: "byte \<Rightarrow> byte \<Rightarrow> byte list" where
  "iob_write reg x = [0x7A, 0x06, 0x80 OR 0x1d, reg, x]"

definition hl2_default :: "byte list" where
  "hl2_default = [0x2E, 0, 0, 20, 40]"

definition freq_code :: "int \<Rightarrow> int" where
  "freq_code f = c_trunc (0.5 + 15.47 * ln (real_of_int f / 18748.1))"

definition hl2_record_freq :: "p1_tx \<Rightarrow> p1_tx" where
  "hl2_record_freq t = (
     let r = tx_radio t; t = t\<lparr>hl2_iob_tx_freq := TXfreq r,
           hl2_iob_rx1_code := freq_code (v_frequency (vfo r 0)), hl2_iob_rx2_code := freq_code (v_frequency (vfo r 1))\<rparr>;
         t = (if receivers r < 2 then t\<lparr>hl2_iob_rx2_code := hl2_iob_rx1_code t\<rparr> else t)
     in t\<lparr>hl2_iob_rfmode := (if adc_antenna (adc r 0) \<noteq> 0 then if puresignal r then 2 else 1 else 0), hl2_command_loop := 3\<rparr>)"

definition hl2_cl1_pair :: "p1_tx \<Rightarrow> byte list \<times> p1_tx" where
  "hl2_cl1_pair t = (
     let tab = (if hl2_new_cl1_setting t then HL2CL1on else HL2CL1off); i = hl2_cl1_loop t;
         t = t\<lparr>hl2_cl1_loop := i + 2\<rparr>
     in ([0x78, 0x06, 0xEA, tab ! i, tab ! (i + 1)],
         if 47 < hl2_cl1_loop t then t\<lparr>hl2_command_loop := 0\<rparr> else t))"

definition hl2_loop :: "p1_tx \<Rightarrow> byte list \<times> p1_tx" where
  "hl2_loop t = (
     let f = hl2_iob_tx_freq t; n = hl2_command_loop t in
     if n = 0 then
       (hl2_default,
        if hl2_old_cl1_setting t \<noteq> hl2_cl1_input (conf t) then
          t\<lparr>hl2_old_cl1_setting := hl2_cl1_input (conf t), hl2_new_cl1_setting := hl2_cl1_input (conf t),
            hl2_cl1_loop := 0, hl2_command_loop := 20\<rparr>
        else if hl2_iob_present (p1of t) then t\<lparr>hl2_command_loop := 2\<rparr> else t\<lparr>hl2_command_loop := 1\<rparr>)
     else if n = 1 then
       (if hl2_query_count t = 0 then ([0xFA, 0x07, 0x80 OR 0x41, 0x00, 0x00], t\<lparr>hl2_query_count := 25, hl2_command_loop := 0\<rparr>)
        else (hl2_default, t\<lparr>hl2_query_count := hl2_query_count t - 1, hl2_command_loop := 0\<rparr>))
     else if n = 2 then (hl2_default, hl2_record_freq t)
     else if n = 3 then (iob_write 0 (byte_at 32 f), t\<lparr>hl2_command_loop := 4\<rparr>)
     else if n = 4 then (iob_write 1 (byte_at 24 f), t\<lparr>hl2_command_loop := 5\<rparr>)
     else if n = 5 then (iob_write 2 (byte_at 16 f), t\<lparr>hl2_command_loop := 6\<rparr>)
     else if n = 6 then (iob_write 3 (byte_at 8 f), t\<lparr>hl2_command_loop := 7\<rparr>)
     else if n = 7 then (iob_write 4 (byte_at 0 f), t\<lparr>hl2_command_loop := 8\<rparr>)
     else if n = 8 then (iob_write 11 (hl2_iob_rfmode t), t\<lparr>hl2_command_loop := 9\<rparr>)
     else if n = 9 then (iob_write 13 (word_of_int (hl2_iob_rx1_code t)), t\<lparr>hl2_command_loop := 10\<rparr>)
     else if n = 10 then (iob_write 14 (word_of_int (hl2_iob_rx2_code t)), t\<lparr>hl2_command_loop := 0\<rparr>)
     else if n = 20 then hl2_cl1_pair t
     else (hl2_default, t))"

text \<open>The \<open>break\<close> after starting the tuner skips the reset of \<open>p1_command_loop\<close>.\<close>

definition hl2_command :: "p1_tx \<Rightarrow> byte list \<times> p1_tx" where
  "hl2_command t = (
     let tune = tx_tune (txp (tx_radio t)); t = (if \<not> tune then t\<lparr>hl2_last_tune := False\<rparr> else t) in
     if hl2_iob_present (p1of t) \<and> tune \<and> \<not> hl2_last_tune t \<and> \<not> hl2_ah4_atu (conf t)
     then (iob_write 7 1, t\<lparr>hl2_last_tune := True\<rparr>)
     else let (cmd, t) = hl2_loop t in (cmd, t\<lparr>p1_command_loop := 1\<rparr>))"

subsection \<open>Sending\<close>

definition mox_bit :: "p1_tx \<Rightarrow> bool" where
  "mox_bit t = (
     let r = tx_radio t; p = p1of t; tx = txp r; txmode = vfo_get_tx_mode r in
     radio_is_transmitting r \<and>
       (if txmode = modeCWU \<or> txmode = modeCWL
        then tx_tune tx \<or> CAT_cw_is_active p \<or> MIDI_cw_is_active p \<or> \<not> cw_keyer_internal r \<or> tx_twotone tx \<or> hpsdr_ptt p
        else True))"

text \<open>The commands sent in the odd frames; \<open>old\<close> is the byte \<open>C0\<close> the buffer came with.\<close>

definition loop_command :: "byte \<Rightarrow> p1_tx \<Rightarrow> byte list \<times> p1_tx" where
  "loop_command old t = (
     let n = p1_command_loop t in
     if n = 1 then tx_freq_command t else if n = 2 then rx_freq_command old t
     else if n = 3 then drive_command t else if n = 4 then preamp_command t
     else if n = 5 then keyer_command t else if n = 6 then adc_command t
     else if n = 7 then cw_command t else if n = 8 then sidetone_command t
     else if n = 9 then pwm_command t else if n = 10 then alex2_command t
     else if n = 11 then hl2_command t else ([old, 0, 0, 0, 0], t))"

definition metis_write :: "byte list \<Rightarrow> p1_tx \<Rightarrow> p1_tx" where
  "metis_write buf t = (
     let t = t\<lparr>metis_buffer := put_bytes (metis_offset t) buf (metis_buffer t)\<rparr> in
     if metis_offset t = 8 then t\<lparr>metis_offset := 520\<rparr>
     else
       let s = send_sequence t;
           hdr = [0xEF, 0xFE, 0x01, 0x02, ucast (drop_bit 24 s), ucast (drop_bit 16 s), ucast (drop_bit 8 s), ucast s];
           t = t\<lparr>metis_buffer := put_bytes 0 hdr (metis_buffer t), send_sequence := s + 1\<rparr>
       in t\<lparr>sent := sent t @ [metis_buffer t], metis_offset := 8\<rparr>)"

definition ozy_send_buffer :: "byte list \<Rightarrow> p1_tx \<Rightarrow> byte list \<times> p1_tx" where
  "ozy_send_buffer buf t = (
     let (cmd, t) = (if metis_offset t = 8 then general_command t else loop_command (buf ! 3) t);
         buf = put_bytes 0 ([0x7F, 0x7F, 0x7F] @ cmd) buf;
         buf = (if mox_bit t then buf[3 := buf ! 3 OR 0x01] else buf)
     in (buf, if device (tx_radio t) = DEVICE_OZY then t else metis_write buf t))"

text \<open>
  \<open>old_protocol_txiq_thread\<close> sends a block of 126 samples as two frames in two buffers of its
  own, which keep their contents, the old command bytes included, from one block to the next.
\<close>

definition send_block :: "byte list \<Rightarrow> byte list \<times> byte list \<times> p1_tx \<Rightarrow> byte list \<times> byte list \<times> p1_tx" where
  "send_block blk s = (
     let (buf1, buf2, t) = s;
         buf1 = put_bytes 8 (take 504 blk) buf1; buf2 = put_bytes 8 (drop 504 blk) buf2;
         (buf1, t) = ozy_send_buffer buf1 t;
         (buf2, t) = ozy_send_buffer buf2 t
     in (buf1, buf2, t))"

subsection \<open>Starting and stopping the radio\<close>

definition metis_start_stop :: "bool \<Rightarrow> byte \<Rightarrow> p1_tx \<Rightarrow> p1_tx" where
  "metis_start_stop tcp cmd t = (if device (tx_radio t) = DEVICE_OZY then t
     else t\<lparr>sent := sent t @ [[0xEF, 0xFE, 0x04, cmd] @ replicate ((if tcp then 1032 else 64) - 4) 0]\<rparr>)"

text \<open>
  \<open>old_protocol_run\<close>: up to ten times four frames and a start packet, until a valid packet
  comes back; \<open>answers\<close> tells for each attempt whether \<open>metis_read\<close> returned 0.
\<close>

definition start_frames :: "p1_tx \<Rightarrow> p1_tx" where
  "start_frames t = (
     let t = t\<lparr>metis_offset := 8, current_rx := 0, p1_command_loop := 1\<rparr>;
         (buf, t) = ozy_send_buffer (replicate 512 0) t;
         (buf, t) = ozy_send_buffer buf t;
         (buf, t) = ozy_send_buffer buf t;
         (buf, t) = ozy_send_buffer buf t
     in t)"

fun run_attempts :: "nat \<Rightarrow> bool \<Rightarrow> bool list \<Rightarrow> p1_tx \<Rightarrow> p1_tx" where
  "run_attempts 0 tcp answers t = t"
| "run_attempts (Suc n) tcp answers t = (
     let t = start_frames t in
     if device (tx_radio t) = DEVICE_OZY then t
     else
       let t = metis_start_stop tcp 1 t
       in case answers of [] \<Rightarrow> t | ok # answers \<Rightarrow> if ok then t else run_attempts n tcp answers t)"

definition old_protocol_run :: "bool \<Rightarrow> bool list \<Rightarrow> p1_tx \<Rightarrow> p1_tx" where
  "old_protocol_run tcp answers t = run_attempts 10 tcp answers t"

end
