(* ===== verification/Buffers.thy ===== *)
theory Buffers
  imports Prelude
begin

text \<open>
  The buffer pools (\<^verbatim>\<open>src/src/buffer.c\<close>): buffers are allocated in bunches, never
  returned to the system, and handed out from eight linked lists in turn. A buffer is named by
  its position in the order of allocation, its \<open>free\<close> field is a map from names, and
  \<open>g_new\<close>, which ends the program when memory is exhausted, always returns a new buffer.

  The contract between the pools and the threads that use them is the locale \<open>allocator\<close>:
  a buffer handed out is not in use by anybody else. It is interpreted for every pool.
\<close>

subsection \<open>Pools\<close>

record pool =
  buflist :: "nat list list"
  is_free :: "nat \<Rightarrow> bool"
  numbuf :: nat
  bufcnt :: nat

definition empty_pool :: pool where
  "empty_pool = \<lparr>buflist = replicate 8 [], is_free = (\<lambda>_. False), numbuf = 0, bufcnt = 7\<rparr>"

definition release :: "nat \<Rightarrow> pool \<Rightarrow> pool" where
  "release b p = p\<lparr>is_free := (is_free p)(b := True)\<rparr>"

definition new_buffer :: "pool \<Rightarrow> pool" where
  "new_buffer p = (let b = numbuf p; c = bufcnt p in
     p\<lparr>is_free := (is_free p)(b := True), buflist := (buflist p)[c := b # buflist p ! c],
       numbuf := b + 1\<rparr>)"

text \<open>The functions \<open>get_...buffer\<close> differ in the size of the bunch only.\<close>

definition get_buffer :: "nat \<Rightarrow> pool \<Rightarrow> nat \<times> pool" where
  "get_buffer bunch p = (
     let p = p\<lparr>bufcnt := (bufcnt p + 1) AND 7\<rparr>; c = bufcnt p in
     case find (is_free p) (buflist p ! c) of
       Some b \<Rightarrow> (b, p\<lparr>is_free := (is_free p)(b := False)\<rparr>)
     | None \<Rightarrow> let p = (new_buffer ^^ bunch) p; b = hd (buflist p ! c)
               in (b, p\<lparr>is_free := (is_free p)(b := False)\<rparr>))"

definition get_metisbuffer :: "pool \<Rightarrow> nat \<times> pool" where "get_metisbuffer = get_buffer 64"
definition get_ozybuffer :: "pool \<Rightarrow> nat \<times> pool" where "get_ozybuffer = get_buffer 32"
definition get_p2buffer :: "pool \<Rightarrow> nat \<times> pool" where "get_p2buffer = get_buffer 64"
definition get_satrxbuffer :: "pool \<Rightarrow> nat \<times> pool" where "get_satrxbuffer = get_buffer 64"
definition get_sathpbuffer :: "pool \<Rightarrow> nat \<times> pool" where "get_sathpbuffer = get_buffer 16"
definition get_satmicbuffer :: "pool \<Rightarrow> nat \<times> pool" where "get_satmicbuffer = get_buffer 16"

text \<open>Allocating \<open>n\<close> buffers one after the other, and freeing them again.\<close>

fun get_many :: "('p \<Rightarrow> nat \<times> 'p) \<Rightarrow> nat \<Rightarrow> 'p \<Rightarrow> nat list \<times> 'p" where
  "get_many get 0 p = ([], p)"
| "get_many get (Suc n) p = (let (b, p) = get p; (bs, p) = get_many get n p in (b # bs, p))"

definition preallocate :: "(pool \<Rightarrow> nat \<times> pool) \<Rightarrow> pool \<Rightarrow> pool" where
  "preallocate get p = (let (bs, p) = get_many get 8 p in fold release bs p)"

definition mark_free :: "pool \<Rightarrow> pool" where
  "mark_free p = fold (fold release) (buflist p) p"

definition prealloc_p2buffers :: "pool \<Rightarrow> pool" where
  "prealloc_p2buffers = preallocate get_p2buffer"

definition mark_p2buffers_free :: "pool \<Rightarrow> pool" where
  "mark_p2buffers_free = mark_free"

text \<open>The three pools of the XDMA threads.\<close>

record sat_pools =
  satrx :: pool
  sathp :: pool
  satmic :: pool

definition prealloc_satbuffers :: "sat_pools \<Rightarrow> sat_pools" where
  "prealloc_satbuffers s = s\<lparr>satrx := preallocate get_satrxbuffer (satrx s),
     sathp := preallocate get_sathpbuffer (sathp s), satmic := preallocate get_satmicbuffer (satmic s)\<rparr>"

definition mark_satbuffers_free :: "sat_pools \<Rightarrow> sat_pools" where
  "mark_satbuffers_free s = s\<lparr>satrx := mark_free (satrx s), sathp := mark_free (sathp s),
     satmic := mark_free (satmic s)\<rparr>"

subsection \<open>The contract\<close>

locale allocator =
  fixes ok :: "'p \<Rightarrow> bool" and busy :: "'p \<Rightarrow> nat set"
    and alloc :: "'p \<Rightarrow> nat \<times> 'p" and free :: "nat \<Rightarrow> 'p \<Rightarrow> 'p"
  assumes alloc_ok: "ok p \<Longrightarrow> alloc p = (b, p') \<Longrightarrow> ok p'"
    and alloc_fresh: "ok p \<Longrightarrow> alloc p = (b, p') \<Longrightarrow> b \<notin> busy p"
    and alloc_busy: "ok p \<Longrightarrow> alloc p = (b, p') \<Longrightarrow> busy p' = insert b (busy p)"
    and free_ok: "ok p \<Longrightarrow> b \<in> busy p \<Longrightarrow> ok (free b p)"
    and free_busy: "ok p \<Longrightarrow> b \<in> busy p \<Longrightarrow> busy (free b p) = busy p - {b}"
begin

lemma get_many:
  "ok p \<Longrightarrow> get_many alloc n p = (bs, p') \<Longrightarrow>
   ok p' \<and> length bs = n \<and> distinct bs \<and> set bs \<inter> busy p = {} \<and> busy p' = set bs \<union> busy p"
proof (induction n arbitrary: p bs)
  case (Suc n)
  obtain b q where a: "alloc p = (b, q)" by fastforce
  obtain cs where g: "get_many alloc n q = (cs, p')" and bs: "bs = b # cs"
    using Suc.prems(2) a by (auto split: prod.splits)
  have q: "ok q" "b \<notin> busy p" "busy q = insert b (busy p)"
    using alloc_ok alloc_fresh alloc_busy Suc.prems(1) a by blast+
  from Suc.IH [OF q(1) g] q show ?case by (auto simp: bs)
qed simp

lemma free_many:
  "ok p \<Longrightarrow> distinct bs \<Longrightarrow> set bs \<subseteq> busy p \<Longrightarrow>
   ok (fold free bs p) \<and> busy (fold free bs p) = busy p - set bs"
proof (induction bs arbitrary: p)
  case (Cons b bs)
  then have "ok (free b p)" "busy (free b p) = busy p - {b}"
    using free_ok free_busy by auto
  with Cons show ?case by auto
qed simp

lemma get_and_free:
  assumes "ok p" and "get_many alloc n p = (bs, p')"
  shows "ok (fold free bs p') \<and> busy (fold free bs p') = busy p"
  using get_many [OF assms] free_many [of p' bs] by auto

end

subsection \<open>The pools satisfy the contract\<close>

definition pool_ok :: "pool \<Rightarrow> bool" where
  "pool_ok p \<longleftrightarrow> length (buflist p) = 8 \<and> bufcnt p < 8 \<and> distinct (concat (buflist p))
     \<and> set (concat (buflist p)) = {..<numbuf p}"

definition in_use :: "pool \<Rightarrow> nat set" where
  "in_use p = {b. b < numbuf p \<and> \<not> is_free p b}"

lemma and_7: "n AND 7 = n mod (8 :: nat)"
  using take_bit_eq_mod [of 3 n] by (simp add: take_bit_eq_mask mask_eq_exp_minus_1)

lemma pool_ok_empty: "pool_ok empty_pool" "in_use empty_pool = {}"
  by (simp_all add: pool_ok_def empty_pool_def in_use_def)

lemma set_concat_update:
  assumes "c < length xss"
  shows "set (concat (xss[c := b # xss ! c])) = insert b (set (concat xss))"
proof -
  have x: "xss = take c xss @ xss ! c # drop (Suc c) xss"
    using assms by (simp add: id_take_nth_drop)
  have "set (concat (take c xss @ xss ! c # drop (Suc c) xss)) = set (concat xss)"
    by (simp only: x [symmetric])
  then show ?thesis
    unfolding upd_conv_take_nth_drop [OF assms] by auto
qed

lemma distinct_concat_update:
  assumes "c < length xss" and "distinct (concat xss)" and "b \<notin> set (concat xss)"
  shows "distinct (concat (xss[c := b # xss ! c]))"
proof -
  have x: "xss = take c xss @ xss ! c # drop (Suc c) xss"
    using assms(1) by (simp add: id_take_nth_drop)
  have u: "xss[c := b # xss ! c] = take c xss @ (b # xss ! c) # drop (Suc c) xss"
    using assms(1) by (simp add: upd_conv_take_nth_drop)
  have "distinct (concat (take c xss @ xss ! c # drop (Suc c) xss))"
    "b \<notin> set (concat (take c xss @ xss ! c # drop (Suc c) xss))"
    using assms(2,3) x by simp_all
  then show ?thesis unfolding u by auto
qed

lemma new_buffer_ok:
  assumes "pool_ok p"
  shows "pool_ok (new_buffer p)" and "in_use (new_buffer p) = in_use p"
    and "bufcnt (new_buffer p) = bufcnt p" and "numbuf (new_buffer p) = Suc (numbuf p)"
    and "hd (buflist (new_buffer p) ! bufcnt p) = numbuf p"
proof -
  have c: "bufcnt p < length (buflist p)" using assms by (simp add: pool_ok_def)
  have n: "numbuf p \<notin> set (concat (buflist p))" using assms by (simp add: pool_ok_def)
  show "pool_ok (new_buffer p)"
    using assms set_concat_update [OF c, of "numbuf p"] distinct_concat_update [OF c _ n]
    by (auto simp: pool_ok_def new_buffer_def Let_def lessThan_Suc)
  show "in_use (new_buffer p) = in_use p"
    by (auto simp: in_use_def new_buffer_def Let_def less_Suc_eq)
qed (use assms in \<open>simp_all add: new_buffer_def Let_def pool_ok_def\<close>)

lemma new_buffers_ok:
  assumes "pool_ok p"
  shows "pool_ok ((new_buffer ^^ n) p)" "in_use ((new_buffer ^^ n) p) = in_use p"
    "bufcnt ((new_buffer ^^ n) p) = bufcnt p" "numbuf ((new_buffer ^^ n) p) = numbuf p + n"
proof (induction n)
  case (Suc n)
  { case 1 show ?case using Suc by (simp add: new_buffer_ok) }
  { case 2 show ?case using Suc by (simp add: new_buffer_ok) }
  { case 3 show ?case using Suc by (simp add: new_buffer_ok) }
  { case 4 show ?case using Suc by (simp add: new_buffer_ok) }
qed (simp_all add: assms)

lemma new_buffers_hd:
  assumes "pool_ok p" and "0 < n"
  shows "hd (buflist ((new_buffer ^^ n) p) ! bufcnt p) = numbuf p + n - 1"
proof -
  obtain m where n: "n = Suc m" using assms(2) by (cases n) auto
  note q = new_buffers_ok [OF assms(1), of m]
  show ?thesis using new_buffer_ok(5) [OF q(1)] q(3,4) by (simp add: n)
qed

lemma mark_busy:
  assumes "pool_ok p" and "b < numbuf p" and "b \<notin> in_use p"
  shows "pool_ok (p\<lparr>is_free := (is_free p)(b := False)\<rparr>)"
    and "in_use (p\<lparr>is_free := (is_free p)(b := False)\<rparr>) = insert b (in_use p)"
  using assms by (auto simp: pool_ok_def in_use_def)

lemma get_buffer_alloc:
  assumes "pool_ok p" and "0 < bunch" and "get_buffer bunch p = (b, p')"
  shows "pool_ok p' \<and> b \<notin> in_use p \<and> in_use p' = insert b (in_use p)"
proof -
  define q where "q = p\<lparr>bufcnt := (bufcnt p + 1) AND 7\<rparr>"
  have q: "pool_ok q" "in_use q = in_use p"
    using assms(1) by (auto simp: q_def pool_ok_def in_use_def and_7)
  have mem: "set (buflist q ! bufcnt q) \<subseteq> {..<numbuf q}"
  proof -
    have "buflist q ! bufcnt q \<in> set (buflist q)" using q(1) by (simp add: pool_ok_def)
    then have "set (buflist q ! bufcnt q) \<subseteq> set (concat (buflist q))" by auto
    then show ?thesis using q(1) by (simp only: pool_ok_def)
  qed
  show ?thesis
  proof (cases "find (is_free q) (buflist q ! bufcnt q)")
    case (Some c)
    then have bp: "b = c" "p' = q\<lparr>is_free := (is_free q)(c := False)\<rparr>"
      using assms(3) by (auto simp: get_buffer_def Let_def q_def)
    have "c \<in> set (buflist q ! bufcnt q)" "is_free q c"
      using Some by (auto simp: find_Some_iff)
    then have "c < numbuf q" "c \<notin> in_use q" using mem by (auto simp: in_use_def)
    then show ?thesis using mark_busy [OF q(1)] q(2) bp by simp
  next
    case None
    define s where "s = (new_buffer ^^ bunch) q"
    have s: "pool_ok s" "in_use s = in_use p" "numbuf s = numbuf q + bunch"
      using new_buffers_ok [OF q(1)] q(2) by (simp_all add: s_def)
    have b: "b = hd (buflist s ! bufcnt q)" "p' = s\<lparr>is_free := (is_free s)(b := False)\<rparr>"
      using None assms(3) by (auto simp: get_buffer_def Let_def q_def s_def)
    have "b = numbuf q + bunch - 1"
      using b(1) new_buffers_hd [OF q(1) assms(2)] by (simp add: s_def)
    then have "b < numbuf s" "numbuf q \<le> b"
      using assms(2) s(3) by linarith+
    moreover from this have "b \<notin> in_use p"
      by (simp add: q(2) [symmetric]) (simp add: in_use_def)
    ultimately have "b < numbuf s" "b \<notin> in_use p" by blast+
    then show ?thesis using mark_busy [OF s(1)] s(2) b(2) by simp
  qed
qed

lemma release_ok: "pool_ok p \<Longrightarrow> pool_ok (release b p)"
  and release_busy: "in_use (release b p) = in_use p - {b}"
  by (auto simp: pool_ok_def in_use_def release_def)

lemma allocator_get: "0 < bunch \<Longrightarrow> allocator pool_ok in_use (get_buffer bunch) release"
  using get_buffer_alloc by unfold_locales (auto simp: release_ok release_busy)

interpretation metis: allocator pool_ok in_use get_metisbuffer release
  unfolding get_metisbuffer_def by (rule allocator_get) simp

interpretation ozy: allocator pool_ok in_use get_ozybuffer release
  unfolding get_ozybuffer_def by (rule allocator_get) simp

interpretation p2: allocator pool_ok in_use get_p2buffer release
  unfolding get_p2buffer_def by (rule allocator_get) simp

interpretation satrx: allocator pool_ok in_use get_satrxbuffer release
  unfolding get_satrxbuffer_def by (rule allocator_get) simp

interpretation sathp: allocator pool_ok in_use get_sathpbuffer release
  unfolding get_sathpbuffer_def by (rule allocator_get) simp

interpretation satmic: allocator pool_ok in_use get_satmicbuffer release
  unfolding get_satmicbuffer_def by (rule allocator_get) simp

subsection \<open>Preallocation and mass release\<close>

lemma fold_release_busy:
  "pool_ok p \<Longrightarrow> pool_ok (fold release bs p) \<and> in_use (fold release bs p) = in_use p - set bs"
  by (induction bs arbitrary: p) (auto simp: release_ok release_busy)

lemma mark_free_busy: "pool_ok p \<Longrightarrow> pool_ok (mark_free p) \<and> in_use (mark_free p) = {}"
proof -
  assume ok: "pool_ok p"
  have "fold (fold release) bss q = fold release (concat bss) q" for bss q
    by (induction bss arbitrary: q) simp_all
  then have "mark_free p = fold release (concat (buflist p)) p"
    by (simp add: mark_free_def)
  then show ?thesis
    using fold_release_busy [OF ok, of "concat (buflist p)"] ok
    by (auto simp: pool_ok_def in_use_def)
qed

text \<open>
  One round of eight allocations from an empty pool fills every list with one bunch. \<open>filled\<close>
  is the state after \<open>k\<close> of them.
\<close>

definition filled :: "nat \<Rightarrow> nat \<Rightarrow> pool \<Rightarrow> bool" where
  "filled bunch k p \<longleftrightarrow> pool_ok p \<and> numbuf p = k * bunch \<and> bufcnt p = (k + 7) mod 8
     \<and> (\<forall>c < 8. length (buflist p ! c) = (if c < k then bunch else 0))"

lemma new_buffers_lists:
  assumes "pool_ok p" and "c < 8"
  shows "length (buflist ((new_buffer ^^ n) p) ! c) = (if c = bufcnt p then n else 0) + length (buflist p ! c)"
proof (induction n)
  case (Suc n)
  define q where "q = (new_buffer ^^ n) p"
  have q: "pool_ok q" "bufcnt q = bufcnt p" using new_buffers_ok [OF assms(1)] by (simp_all add: q_def)
  have "length (buflist (new_buffer q) ! c) = (if c = bufcnt q then 1 else 0) + length (buflist q ! c)"
    using q(1) assms(2) by (auto simp: new_buffer_def Let_def pool_ok_def nth_list_update)
  then show ?case using Suc q(2) by (simp add: q_def)
qed simp

lemma filled_step:
  assumes "filled bunch k p" and "k < 8" and "0 < bunch"
  shows "filled bunch (Suc k) (snd (get_buffer bunch p))"
proof -
  define q where "q = p\<lparr>bufcnt := (bufcnt p + 1) AND 7\<rparr>"
  have ok: "pool_ok p" using assms(1) by (simp add: filled_def)
  have cnt: "bufcnt q = k"
    using assms(1,2) by (simp add: q_def filled_def and_7 mod_Suc_eq)
  have q: "pool_ok q" using ok assms(2) cnt by (simp add: q_def pool_ok_def)
  have "buflist q ! bufcnt q = []"
  proof -
    have "length (buflist p ! k) = 0" using assms(1,2) by (simp only: filled_def) simp
    then show ?thesis by (simp only: cnt) (simp add: q_def)
  qed
  then have eq: "snd (get_buffer bunch p) = (new_buffer ^^ bunch) q
      \<lparr>is_free := (is_free ((new_buffer ^^ bunch) q))(hd (buflist ((new_buffer ^^ bunch) q) ! k) := False)\<rparr>"
    using cnt new_buffers_ok(3) [OF q, of bunch] by (simp add: get_buffer_def Let_def q_def)
  obtain b p' where g: "get_buffer bunch p = (b, p')" by fastforce
  have "pool_ok (snd (get_buffer bunch p))" using get_buffer_alloc [OF ok assms(3) g] g by simp
  moreover have "length (buflist (snd (get_buffer bunch p)) ! c) = (if c < Suc k then bunch else 0)"
    if "c < 8" for c
  proof -
    have "length (buflist p ! c) = (if c < k then bunch else 0)"
      using assms(1) that by (simp add: filled_def)
    then show ?thesis
      using new_buffers_lists [OF q that, of bunch] cnt by (simp add: eq q_def)
  qed
  ultimately show ?thesis
    using assms(1,2) new_buffers_ok(3,4) [OF q, of bunch] cnt
    by (simp add: filled_def eq q_def)
qed

lemma filled_many:
  "filled bunch k p \<Longrightarrow> k + n \<le> 8 \<Longrightarrow> 0 < bunch \<Longrightarrow>
   filled bunch (k + n) (snd (get_many (get_buffer bunch) n p))"
proof (induction n arbitrary: k p)
  case (Suc n)
  have "filled bunch (Suc k) (snd (get_buffer bunch p))"
    using Suc.prems by (intro filled_step) auto
  from Suc.IH [OF this] Suc.prems show ?case by (simp add: Let_def split_beta)
qed simp

lemma fold_release_frame:
  "buflist (fold release bs p) = buflist p" "numbuf (fold release bs p) = numbuf p"
  by (induction bs arbitrary: p) (simp_all add: release_def)

lemma preallocate_empty:
  assumes "0 < bunch"
  defines "p \<equiv> preallocate (get_buffer bunch) empty_pool"
  shows "pool_ok p \<and> in_use p = {} \<and> numbuf p = 8 * bunch \<and> (\<forall>c < 8. length (buflist p ! c) = bunch)"
proof -
  obtain bs q where g: "get_many (get_buffer bunch) 8 empty_pool = (bs, q)" by fastforce
  have p: "p = fold release bs q" using g by (simp add: p_def preallocate_def)
  have "filled bunch 0 empty_pool"
    using pool_ok_empty by (simp add: filled_def) (simp add: empty_pool_def)
  then have "filled bunch 8 q"
    using filled_many [of bunch 0 empty_pool 8] assms(1) g by simp
  moreover have "pool_ok p \<and> in_use p = {}"
    using allocator.get_and_free [OF allocator_get [OF assms(1)] pool_ok_empty(1) g]
    by (simp add: p pool_ok_empty(2))
  ultimately show ?thesis by (simp add: p fold_release_frame filled_def)
qed

end
