(* ===== verification/P1_Queue.thy ===== *)
theory P1_Queue
  imports Buffers Ring_Buffers
begin

text \<open>
  Protocol 1, from the network to the decoder (\<^verbatim>\<open>src/src/old_protocol.c\<close>):
  \<open>metis_read\<close> checks a datagram, \<open>metis_receive_thread\<close> puts its buffer into a ring,
  and the decoder thread takes it out. The two threads share the ring, the pool of theory
  \<open>Buffers\<close> and the memory of the buffers without a lock; the steps below are as small as the
  stores that the other thread can observe: the decoder marks a buffer free before it moves
  \<open>metis_ring_outptr\<close>.

  The lemmas show that the threads implement a queue of packets: no buffer is overwritten
  while it is queued or decoded. The overflow branch, which neither queues nor frees the
  buffer, loses it for good.
\<close>

subsection \<open>State and operations\<close>

abbreviation (input) "METISRINGBUFLEN \<equiv> 512 :: nat"
abbreviation (input) "METIS_BUFFER_SIZE \<equiv> 1032 :: nat"

record metis =
  m_pool :: pool
  m_data :: "nat \<Rightarrow> byte list"         \<comment> \<open>the memory of the buffers\<close>
  m_ring :: "nat ring"                 \<comment> \<open>\<open>metis_ringbuf\<close>, pointers to buffers\<close>
  m_skip :: int                        \<comment> \<open>\<open>metis_skip_count\<close>\<close>
  m_filling :: "nat option"            \<comment> \<open>the buffer the receive thread holds\<close>
  m_freed :: bool                      \<comment> \<open>the decoder has freed the buffer at \<open>outptr\<close>\<close>
  m_sem :: nat                         \<comment> \<open>the value of \<open>rxring_sem\<close>\<close>
  last_seq_num :: u32
  sequence_errors :: nat

definition metis_next :: "nat \<Rightarrow> nat" where
  "metis_next i = (i + 1) AND 511"

text \<open>
  \<open>metis_read\<close> after the data arrived in the buffer. \<open>ret\<close> is the result of the last
  \<open>recvfrom\<close>: on TCP it is kept when the header is wrong, on UDP it is not.
\<close>

definition metis_header_ok :: "byte list \<Rightarrow> bool" where
  "metis_header_ok d \<longleftrightarrow> length d = METIS_BUFFER_SIZE \<and> d ! 0 = 0xEF \<and> d ! 1 = 0xFE \<and> d ! 3 = 6"

definition metis_sequence :: "byte list \<Rightarrow> u32" where
  "metis_sequence d = push_bit 24 (ucast (d ! 4)) + push_bit 16 (ucast (d ! 5))
     + push_bit 8 (ucast (d ! 6)) + ucast (d ! 7)"

definition metis_read :: "bool \<Rightarrow> int \<Rightarrow> byte list \<Rightarrow> metis \<Rightarrow> int \<times> metis" where
  "metis_read tcp ret d m = (
     if metis_header_ok d then
       let sequence = metis_sequence d;
           m = (if sequence \<noteq> 0 \<and> sequence \<noteq> last_seq_num m + 1
                then m\<lparr>sequence_errors := sequence_errors m + 1\<rparr> else m)
       in (0, m\<lparr>last_seq_num := sequence\<rparr>)
     else (if tcp then ret else - 1, m))"

definition queue_metis_buffer :: "nat \<Rightarrow> metis \<Rightarrow> metis" where
  "queue_metis_buffer mb m = (
     if m_skip m < 0 then m\<lparr>m_pool := release mb (m_pool m), m_skip := m_skip m + 1\<rparr>
     else case ring_put metis_next mb (m_ring m) of
       Some r \<Rightarrow> m\<lparr>m_ring := r, m_sem := m_sem m + 1\<rparr>
     | None \<Rightarrow> m\<lparr>m_skip := - 256\<rparr>)"

text \<open>The receive thread: get a buffer, let the network write into it, queue or free it.\<close>

definition metis_receive_get :: "metis \<Rightarrow> metis" where
  "metis_receive_get m = (let (b, p) = get_metisbuffer (m_pool m) in m\<lparr>m_pool := p, m_filling := Some b\<rparr>)"

definition metis_receive_write :: "byte list \<Rightarrow> metis \<Rightarrow> metis" where
  "metis_receive_write d m = (case m_filling m of None \<Rightarrow> m | Some b \<Rightarrow> m\<lparr>m_data := (m_data m)(b := d)\<rparr>)"

definition metis_receive_done :: "bool \<Rightarrow> int \<Rightarrow> metis \<Rightarrow> metis" where
  "metis_receive_done tcp recv m = (case m_filling m of
     None \<Rightarrow> m
   | Some b \<Rightarrow>
     let (ret, m) = metis_read tcp recv (m_data m b) m; m = m\<lparr>m_filling := None\<rparr>
     in if 0 \<le> ret then queue_metis_buffer b m else m\<lparr>m_pool := release b (m_pool m)\<rparr>)"

text \<open>
  The decoder thread: when the semaphore lets it through and the ring is not empty it reads the
  buffer at \<open>outptr\<close>, frees it and then moves on. \<open>m_freed\<close> holds between the two stores.
\<close>

definition metis_decode_free :: "metis \<Rightarrow> metis" where
  "metis_decode_free m = (
     if inptr (m_ring m) \<noteq> outptr (m_ring m) then
       m\<lparr>m_sem := m_sem m - 1, m_pool := release (slots (m_ring m) ! outptr (m_ring m)) (m_pool m),
         m_freed := True\<rparr>
     else m\<lparr>m_sem := m_sem m - 1\<rparr>)"

definition metis_decode_next :: "metis \<Rightarrow> metis" where
  "metis_decode_next m = m\<lparr>m_ring := (m_ring m)\<lparr>outptr := metis_next (outptr (m_ring m))\<rparr>, m_freed := False\<rparr>"

subsection \<open>The packets in the queue\<close>

interpretation metis_ring: ring_index METISRINGBUFLEN metis_next
  using mask_next [of 511 9] by unfold_locales (simp_all add: metis_next_def)

abbreviation queued :: "metis \<Rightarrow> nat list" where
  "queued m \<equiv> ring_list METISRINGBUFLEN (m_ring m)"

text \<open>The buffers that still belong to the queue: not the one the decoder has just freed.\<close>

definition owned :: "metis \<Rightarrow> nat list" where
  "owned m = (if m_freed m then tl (queued m) else queued m)"

definition packets :: "metis \<Rightarrow> byte list list" where
  "packets m = map (m_data m) (owned m)"

definition metis_ok :: "metis \<Rightarrow> bool" where
  "metis_ok m \<longleftrightarrow> pool_ok (m_pool m) \<and> ring_ok METISRINGBUFLEN (m_ring m)
     \<and> (m_freed m \<longrightarrow> queued m \<noteq> []) \<and> m_sem m = length (owned m)
     \<and> distinct (owned m) \<and> set (owned m) \<subseteq> in_use (m_pool m)
     \<and> (case m_filling m of None \<Rightarrow> True | Some b \<Rightarrow> b \<in> in_use (m_pool m) \<and> b \<notin> set (owned m))"

lemma ring_head:
  assumes "ring_ok METISRINGBUFLEN r" and "ring_list METISRINGBUFLEN r \<noteq> []"
  shows "slots r ! outptr r = hd (ring_list METISRINGBUFLEN r)"
    and "ring_ok METISRINGBUFLEN (r\<lparr>outptr := metis_next (outptr r)\<rparr>)"
    and "ring_list METISRINGBUFLEN (r\<lparr>outptr := metis_next (outptr r)\<rparr>) = tl (ring_list METISRINGBUFLEN r)"
proof -
  have "ring_get metis_next r \<noteq> None" using metis_ring.ring.deq_None [OF assms(1)] assms(2) by simp
  then have g: "ring_get metis_next r = Some (slots r ! outptr r, r\<lparr>outptr := metis_next (outptr r)\<rparr>)"
    by (auto simp: ring_get_def split: if_splits)
  note s = metis_ring.ring.deq_Some [OF assms(1) g]
  show "slots r ! outptr r = hd (ring_list METISRINGBUFLEN r)"
    "ring_ok METISRINGBUFLEN (r\<lparr>outptr := metis_next (outptr r)\<rparr>)"
    "ring_list METISRINGBUFLEN (r\<lparr>outptr := metis_next (outptr r)\<rparr>) = tl (ring_list METISRINGBUFLEN r)"
    using s by auto
qed

lemma receive_get:
  assumes "metis_ok m" and "m_filling m = None"
  shows "metis_ok (metis_receive_get m)" and "packets (metis_receive_get m) = packets m"
proof -
  obtain b p where g: "get_metisbuffer (m_pool m) = (b, p)" by fastforce
  have ok: "pool_ok (m_pool m)" using assms(1) by (simp add: metis_ok_def)
  have p: "pool_ok p" "b \<notin> in_use (m_pool m)" "in_use p = insert b (in_use (m_pool m))"
    using metis.alloc_ok [OF ok g] metis.alloc_fresh [OF ok g] metis.alloc_busy [OF ok g] by auto
  show "metis_ok (metis_receive_get m)" "packets (metis_receive_get m) = packets m"
    using assms p by (auto simp: metis_receive_get_def g metis_ok_def owned_def packets_def)
qed

lemma receive_write:
  assumes "metis_ok m"
  shows "metis_ok (metis_receive_write d m)" and "packets (metis_receive_write d m) = packets m"
  using assms
  by (auto simp: metis_receive_write_def metis_ok_def owned_def packets_def split: option.split)

lemma read_frame:
  assumes "metis_read tcp ret d m = (x, m')"
  shows "m_pool m' = m_pool m" "m_data m' = m_data m" "m_ring m' = m_ring m" "m_skip m' = m_skip m"
    "m_filling m' = m_filling m" "m_freed m' = m_freed m" "m_sem m' = m_sem m"
  using assms by (auto simp: metis_read_def Let_def split: if_splits)

text \<open>The end of a receive step: the packet is queued, or it is dropped and nothing else changes.\<close>

lemma queue_buffer:
  assumes "metis_ok m" and "m_filling m = Some b" and "m' = queue_metis_buffer b (m\<lparr>m_filling := None\<rparr>)"
  shows "metis_ok m' \<and> packets m' = (if m_skip m < 0 \<or> length (queued m) = 511 then packets m
     else packets m @ [m_data m b])"
proof -
  let ?n = "m\<lparr>m_filling := None\<rparr>"
  have ok: "pool_ok (m_pool m)" "ring_ok METISRINGBUFLEN (m_ring m)" "b \<in> in_use (m_pool m)" "b \<notin> set (owned m)"
    "m_freed m \<Longrightarrow> queued m \<noteq> []"
    using assms(1,2) by (simp_all add: metis_ok_def)
  consider (skip) "m_skip m < 0" | (full) "\<not> m_skip m < 0" "ring_put metis_next b (m_ring m) = None"
    | (put) r where "\<not> m_skip m < 0" "ring_put metis_next b (m_ring m) = Some r"
    by (cases "ring_put metis_next b (m_ring m)") auto
  then show ?thesis
  proof cases
    case skip
    then have m': "m' = ?n\<lparr>m_pool := release b (m_pool m), m_skip := m_skip m + 1\<rparr>"
      by (simp add: assms(3) queue_metis_buffer_def)
    show ?thesis
      using assms(1) ok skip metis.free_ok [OF ok(1,3)] metis.free_busy [OF ok(1,3)]
      by (auto simp: m' metis_ok_def owned_def packets_def)
  next
    case full
    then have "m' = ?n\<lparr>m_skip := - 256\<rparr>" by (simp add: assms(3) queue_metis_buffer_def)
    moreover have "length (queued m) = 511" using full(2) metis_ring.ring.enq_None [OF ok(2)] by simp
    ultimately show ?thesis
      using assms(1) by (auto simp: metis_ok_def owned_def packets_def)
  next
    case (put r)
    then have m': "m' = ?n\<lparr>m_ring := r, m_sem := m_sem m + 1\<rparr>" by (simp add: assms(3) queue_metis_buffer_def)
    have r: "ring_ok METISRINGBUFLEN r" "ring_list METISRINGBUFLEN r = queued m @ [b]"
      using metis_ring.ring.enq_Some [OF ok(2) put(2)] by auto
    have "length (queued m) \<noteq> 511" using put(2) metis_ring.ring.enq_None [OF ok(2), of b] by auto
    moreover have "owned m' = owned m @ [b]"
      using r ok(5) by (simp add: owned_def m')
    ultimately show ?thesis
      using assms(1) ok r put(1) by (auto simp: metis_ok_def packets_def m')
  qed
qed

lemma receive_done:
  assumes "metis_ok m" and "m_filling m = Some b" and "metis_read tcp ret (m_data m b) m = (x, n)"
  shows "metis_ok (metis_receive_done tcp ret m)
    \<and> packets (metis_receive_done tcp ret m) =
       (if x < 0 \<or> m_skip m < 0 \<or> length (queued m) = 511 then packets m else packets m @ [m_data m b])"
proof -
  note f = read_frame [OF assms(3)]
  have own: "owned n = owned m" using f by (simp add: owned_def)
  have n: "metis_ok n" "m_filling n = Some b" "packets n = packets m" "queued n = queued m"
    using assms(1,2) by (simp_all add: metis_ok_def packets_def own f)
  have eq: "metis_receive_done tcp ret m = (if 0 \<le> x then queue_metis_buffer b (n\<lparr>m_filling := None\<rparr>)
      else n\<lparr>m_filling := None, m_pool := release b (m_pool n)\<rparr>)"
    using assms(2,3) by (simp add: metis_receive_done_def Let_def)
  show ?thesis
  proof (cases "0 \<le> x")
    case True
    then show ?thesis
      using queue_buffer [OF n(1,2) refl] n(3,4) f by (simp add: eq)
  next
    case False
    have b: "pool_ok (m_pool n)" "b \<in> in_use (m_pool n)" "b \<notin> set (owned n)"
      using n(1,2) by (simp_all add: metis_ok_def)
    show ?thesis
      using False n metis.free_ok [OF b(1,2)] metis.free_busy [OF b(1,2)] b(3)
      by (auto simp: eq metis_ok_def owned_def packets_def)
  qed
qed

text \<open>What the two decoder steps change, field by field.\<close>

lemma ring_busy: "ring_ok METISRINGBUFLEN r \<Longrightarrow> inptr r = outptr r \<longleftrightarrow> ring_list METISRINGBUFLEN r = []"
  using metis_ring.get_None [of r] by (simp add: ring_get_def split: if_splits)

lemma decode_free_sel:
  assumes "inptr (m_ring m) \<noteq> outptr (m_ring m)"
  shows "m_pool (metis_decode_free m) = release (slots (m_ring m) ! outptr (m_ring m)) (m_pool m)"
  "m_data (metis_decode_free m) = m_data m" "m_ring (metis_decode_free m) = m_ring m"
  "m_filling (metis_decode_free m) = m_filling m" "m_freed (metis_decode_free m)"
  "m_skip (metis_decode_free m) = m_skip m" "m_sem (metis_decode_free m) = m_sem m - 1"
  using assms by (simp_all add: metis_decode_free_def)

lemma decode_next_sel:
  "m_ring (metis_decode_next m) = (m_ring m)\<lparr>outptr := metis_next (outptr (m_ring m))\<rparr>"
  "m_pool (metis_decode_next m) = m_pool m" "m_data (metis_decode_next m) = m_data m"
  "m_filling (metis_decode_next m) = m_filling m" "\<not> m_freed (metis_decode_next m)"
  "m_skip (metis_decode_next m) = m_skip m" "m_sem (metis_decode_next m) = m_sem m"
  by (simp_all add: metis_decode_next_def)

lemma decode_free:
  assumes "metis_ok m" and "queued m \<noteq> []" and "\<not> m_freed m"
  shows "metis_ok (metis_decode_free m)"
    and "packets m = m_data m (slots (m_ring m) ! outptr (m_ring m)) # packets (metis_decode_free m)"
proof -
  let ?b = "slots (m_ring m) ! outptr (m_ring m)" and ?m = "metis_decode_free m"
  have ok: "pool_ok (m_pool m)" "ring_ok METISRINGBUFLEN (m_ring m)" "distinct (owned m)"
    "set (owned m) \<subseteq> in_use (m_pool m)" "m_sem m = length (owned m)"
    "case m_filling m of None \<Rightarrow> True | Some b \<Rightarrow> b \<in> in_use (m_pool m) \<and> b \<notin> set (owned m)"
    using assms(1) by (simp_all only: metis_ok_def)
  have q: "queued m = ?b # tl (queued m)" using ring_head(1) [OF ok(2) assms(2)] assms(2) by simp
  have ne: "inptr (m_ring m) \<noteq> outptr (m_ring m)" using ring_busy [OF ok(2)] assms(2) by simp
  note sel = decode_free_sel [OF ne]
  have own: "owned m = ?b # owned ?m" using q assms(3) by (simp add: owned_def sel)
  have b: "?b \<in> in_use (m_pool m)" using ok(4) own by simp
  show "packets m = m_data m ?b # packets ?m"
    by (simp add: packets_def own sel)
  have "distinct (owned ?m)" "set (owned ?m) \<subseteq> in_use (release ?b (m_pool m))"
    using ok(3,4) own metis.free_busy [OF ok(1) b] by auto
  moreover have "case m_filling m of None \<Rightarrow> True
      | Some b \<Rightarrow> b \<in> in_use (release ?b (m_pool m)) \<and> b \<notin> set (owned ?m)"
    using ok(6) own metis.free_busy [OF ok(1) b] by (simp split: option.splits)
  moreover have "m_sem m - 1 = length (owned ?m)" using ok(5) own by simp
  ultimately show "metis_ok ?m"
    unfolding metis_ok_def sel using metis.free_ok [OF ok(1) b] ok(2) assms(2) by blast
qed

lemma decode_next:
  assumes "metis_ok m" and "m_freed m"
  shows "metis_ok (metis_decode_next m)" and "packets (metis_decode_next m) = packets m"
    and "length (queued (metis_decode_next m)) < length (queued m)"
proof -
  have ok: "ring_ok METISRINGBUFLEN (m_ring m)" "queued m \<noteq> []" using assms by (simp_all add: metis_ok_def)
  note h = ring_head [OF ok]
  have own: "owned (metis_decode_next m) = owned m"
    using h(3) assms(2) by (simp add: owned_def decode_next_sel)
  show "packets (metis_decode_next m) = packets m" by (simp add: packets_def own decode_next_sel)
  show "metis_ok (metis_decode_next m)"
    using assms(1) h(2) decode_next_sel(5) [of m] unfolding metis_ok_def own decode_next_sel(1-4,7) by blast
  show "length (queued (metis_decode_next m)) < length (queued m)"
    using h(3) ok(2) by (cases "queued m") (simp_all add: decode_next_sel)
qed

subsection \<open>The two threads\<close>

text \<open>
  A state of the two threads with two histories: the packets that entered the ring, and the
  packets the decoder has processed. The threads interleave freely, the network may write
  anything.
\<close>

inductive p1_step :: "metis \<times> byte list list \<times> byte list list \<Rightarrow> metis \<times> byte list list \<times> byte list list \<Rightarrow> bool" where
  get: "m_filling m = None \<Longrightarrow> p1_step (m, acc, fin) (metis_receive_get m, acc, fin)"
| receive: "m_filling m \<noteq> None \<Longrightarrow> p1_step (m, acc, fin) (metis_receive_write d m, acc, fin)"
| queue: "m_filling m = Some b \<Longrightarrow> m' = metis_receive_done tcp recv m \<Longrightarrow> inptr (m_ring m') \<noteq> inptr (m_ring m) \<Longrightarrow>
    p1_step (m, acc, fin) (m', acc @ [m_data m b], fin)"
| discard: "m_filling m = Some b \<Longrightarrow> m' = metis_receive_done tcp recv m \<Longrightarrow> inptr (m_ring m') = inptr (m_ring m) \<Longrightarrow>
    p1_step (m, acc, fin) (m', acc, fin)"
| decode: "0 < m_sem m \<Longrightarrow> \<not> m_freed m \<Longrightarrow>
    p1_step (m, acc, fin) (metis_decode_free m, acc, fin @ [m_data m (slots (m_ring m) ! outptr (m_ring m))])"
| move_on: "m_freed m \<Longrightarrow> p1_step (m, acc, fin) (metis_decode_next m, acc, fin)"

definition metis_start :: metis where
  "metis_start = \<lparr>m_pool = empty_pool, m_data = (\<lambda>_. []), m_ring = empty_ring METISRINGBUFLEN 0, m_skip = 0,
     m_filling = None, m_freed = False, m_sem = 0, last_seq_num = 1, sequence_errors = 0\<rparr>"

definition p1_reachable :: "metis \<times> byte list list \<times> byte list list \<Rightarrow> bool" where
  "p1_reachable s \<longleftrightarrow> p1_step\<^sup>*\<^sup>* (metis_start, [], []) s"

lemma metis_ok_start: "metis_ok metis_start" "packets metis_start = []"
  using empty_ring [of METISRINGBUFLEN "0 :: nat"] pool_ok_empty
  by (simp_all add: metis_ok_def metis_start_def owned_def packets_def)

lemma inptr_receive_done:
  assumes "metis_ok m" and "m_filling m = Some b" and "m' = metis_receive_done tcp recv m"
  shows "metis_ok m' \<and> packets m' = packets m @ (if inptr (m_ring m') = inptr (m_ring m) then [] else [m_data m b])"
proof -
  obtain x n where r: "metis_read tcp recv (m_data m b) m = (x, n)" by fastforce
  note f = read_frame [OF r]
  have ok: "ring_ok METISRINGBUFLEN (m_ring m)" using assms(1) by (simp add: metis_ok_def)
  have moved: "inptr (m_ring m') \<noteq> inptr (m_ring m) \<longleftrightarrow> \<not> (x < 0 \<or> m_skip m < 0 \<or> length (queued m) = 511)"
  proof -
    have "metis_next i \<noteq> i" if "i < 512" for i
      using metis_ring.nxt_cases [OF that] by (simp split: if_splits)
    then have nx: "metis_next (inptr (m_ring m)) \<noteq> inptr (m_ring m)" using ok by (simp add: ring_ok_def)
    have full: "length (queued m) = 511 \<longleftrightarrow> metis_next (inptr (m_ring m)) = outptr (m_ring m)"
      using metis_ring.ring.enq_None [OF ok, of b] by (simp add: ring_put_def Let_def split: if_splits)
    show ?thesis
      using assms(2) nx by (simp add: assms(3) metis_receive_done_def r queue_metis_buffer_def f ring_put_def Let_def full)
  qed
  then show ?thesis using receive_done [OF assms(1,2) r] by (auto simp: assms(3))
qed

lemma p1_step_inv:
  assumes "p1_step (m, acc, fin) (m', acc', fin')" and "metis_ok m" and "acc = fin @ packets m"
  shows "metis_ok m' \<and> acc' = fin' @ packets m'"
  using assms(1)
proof cases
  case get
  then show ?thesis using receive_get [OF assms(2)] assms(3) by simp
next
  case (receive d)
  then show ?thesis using receive_write [OF assms(2)] assms(3) by simp
next
  case (queue b tcp recv)
  then show ?thesis using inptr_receive_done [OF assms(2) queue(3,4)] assms(3) by simp
next
  case (discard b tcp recv)
  then show ?thesis using inptr_receive_done [OF assms(2) discard(3,4)] assms(3) by simp
next
  case decode
  then have "queued m \<noteq> []" using assms(2) by (auto simp: metis_ok_def owned_def)
  then show ?thesis using decode decode_free [OF assms(2)] assms(3) by simp
next
  case move_on
  then show ?thesis using decode_next [OF assms(2)] assms(3) by simp
qed

lemma p1_reachable_inv:
  assumes "p1_reachable (m, acc, fin)"
  shows "metis_ok m \<and> acc = fin @ packets m"
proof -
  have "p1_step\<^sup>*\<^sup>* (metis_start, [], []) s \<Longrightarrow> metis_ok (fst s) \<and> fst (snd s) = snd (snd s) @ packets (fst s)" for s
  proof (induction rule: rtranclp_induct)
    case base
    then show ?case by (simp add: metis_ok_start)
  next
    case (step s t)
    obtain m acc fin m' acc' fin' where "s = (m, acc, fin)" "t = (m', acc', fin')" by (cases s, cases t)
    then show ?case using step p1_step_inv [of m acc fin m' acc' fin'] by simp
  qed
  from this [of "(m, acc, fin)"] show ?thesis using assms by (simp add: p1_reachable_def)
qed

lemma p1_reachable_step: "p1_reachable s \<Longrightarrow> p1_step s t \<Longrightarrow> p1_reachable t"
  by (simp add: p1_reachable_def)

text \<open>C4. The queue between the network thread and the decoder loses, repeats and reorders
  nothing: under every interleaving the accepted packets are the processed ones followed by the
  queued ones, at most 511 are queued, the semaphore counts them, and the buffers that hold
  them are distinct, in use, and not the one the network writes into.\<close>

theorem p1_queue_order:
  assumes "p1_reachable (m, acc, fin)"
  shows "acc = fin @ packets m \<and> length (packets m) \<le> 511 \<and> m_sem m = length (packets m)
    \<and> distinct (owned m) \<and> set (owned m) \<subseteq> in_use (m_pool m)
    \<and> (\<forall>b. m_filling m = Some b \<longrightarrow> b \<notin> set (owned m))"
proof -
  have ok: "metis_ok m" "acc = fin @ packets m" using p1_reachable_inv [OF assms] by simp_all
  have "length (queued m) \<le> 511" using metis_ring.ring.bounded [of "m_ring m"] ok(1) by (simp add: metis_ok_def)
  moreover have "length (owned m) \<le> length (queued m)" by (simp add: owned_def)
  ultimately have "length (packets m) \<le> 511" by (simp add: packets_def)
  then show ?thesis using ok by (auto simp: metis_ok_def packets_def)
qed

subsection \<open>The decoder alone\<close>

text \<open>The steps of the decoder thread, and how many of them are left.\<close>

inductive decoder_step :: "metis \<times> byte list list \<times> byte list list \<Rightarrow> metis \<times> byte list list \<times> byte list list \<Rightarrow> bool" where
  d_decode: "0 < m_sem m \<Longrightarrow> \<not> m_freed m \<Longrightarrow>
    decoder_step (m, acc, fin) (metis_decode_free m, acc, fin @ [m_data m (slots (m_ring m) ! outptr (m_ring m))])"
| d_move_on: "m_freed m \<Longrightarrow> decoder_step (m, acc, fin) (metis_decode_next m, acc, fin)"

lemma decoder_step_p1: "decoder_step s t \<Longrightarrow> p1_step s t"
  by (induction rule: decoder_step.induct) (auto intro: p1_step.intros)

lemma decoder_acc: "decoder_step\<^sup>*\<^sup>* s t \<Longrightarrow> fst (snd t) = fst (snd s)"
  by (induction rule: rtranclp_induct) (auto elim: decoder_step.cases)

definition decoder_left :: "metis \<Rightarrow> nat" where
  "decoder_left m = 2 * m_sem m + of_bool (m_freed m)"

lemma decoder_step_less: "decoder_step s t \<Longrightarrow> decoder_left (fst t) < decoder_left (fst s)"
  by (induction rule: decoder_step.induct)
    (auto simp: decoder_left_def metis_decode_free_def metis_decode_next_def of_bool_def)

lemma decoder_run_bound: "(decoder_step ^^ k) s t \<Longrightarrow> k + decoder_left (fst t) \<le> decoder_left (fst s)"
proof (induction k arbitrary: t)
  case (Suc k)
  then obtain u where "(decoder_step ^^ k) s u" "decoder_step u t" by auto
  with Suc.IH [of u] decoder_step_less [of u t] show ?case by simp
qed simp

lemma decoder_stops: "\<exists>t. decoder_step\<^sup>*\<^sup>* s t \<and> \<not> (\<exists>u. decoder_step t u)"
proof (induction "decoder_left (fst s)" arbitrary: s rule: less_induct)
  case less
  show ?case
  proof (cases "\<exists>u. decoder_step s u")
    case True
    then obtain u where u: "decoder_step s u" by blast
    from less [OF decoder_step_less [OF u]] u show ?thesis by (blast intro: converse_rtranclp_into_rtranclp)
  qed blast
qed

lemma decoder_done:
  assumes "p1_reachable (m, acc, fin)" and "decoder_step\<^sup>*\<^sup>* (m, acc, fin) (m', acc', fin')"
    and "\<not> (\<exists>u. decoder_step (m', acc', fin') u)"
  shows "acc' = acc \<and> fin' = acc \<and> queued m' = [] \<and> m_sem m' = 0"
proof -
  have "p1_step\<^sup>*\<^sup>* (m, acc, fin) (m', acc', fin')"
    using assms(2) decoder_step_p1 by (rule mono_rtranclp [rule_format, rotated])
  then have "p1_reachable (m', acc', fin')"
    using assms(1) unfolding p1_reachable_def by (rule rtranclp_trans [rotated])
  then have ok: "metis_ok m'" "acc' = fin' @ packets m'" using p1_reachable_inv by blast+
  have "\<not> m_freed m'" "m_sem m' = 0" using assms(3) decoder_step.intros by blast+
  then show ?thesis
    using ok decoder_acc [OF assms(2)] by (simp add: metis_ok_def packets_def owned_def)
qed

text \<open>C22. No accepted packet waits for another one. From every reachable state the decoder thread
  alone, without any step of the network thread, comes to an end after at most two steps for each
  waiting packet (and one if it has just freed a buffer); whenever it has no step left, it has
  processed everything that was accepted, and the ring and the semaphore are empty.\<close>

theorem p1_decoder_drains:
  assumes "p1_reachable (m, acc, fin)"
  shows "(\<forall>k s. (decoder_step ^^ k) (m, acc, fin) s \<longrightarrow> k \<le> 2 * m_sem m + of_bool (m_freed m))
    \<and> (\<forall>m' acc' fin'. decoder_step\<^sup>*\<^sup>* (m, acc, fin) (m', acc', fin') \<and> \<not> (\<exists>s. decoder_step (m', acc', fin') s)
         \<longrightarrow> acc' = acc \<and> fin' = acc \<and> queued m' = [] \<and> m_sem m' = 0)
    \<and> (\<exists>m'. decoder_step\<^sup>*\<^sup>* (m, acc, fin) (m', acc, acc) \<and> queued m' = [])"
proof (intro conjI allI impI)
  fix k s assume "(decoder_step ^^ k) (m, acc, fin) s"
  from decoder_run_bound [OF this] show "k \<le> 2 * m_sem m + of_bool (m_freed m)" by (simp add: decoder_left_def)
next
  obtain m' acc' fin' where "decoder_step\<^sup>*\<^sup>* (m, acc, fin) (m', acc', fin')" "\<not> (\<exists>u. decoder_step (m', acc', fin') u)"
    using decoder_stops [of "(m, acc, fin)"] by auto
  with decoder_done [OF assms] show "\<exists>m'. decoder_step\<^sup>*\<^sup>* (m, acc, fin) (m', acc, acc) \<and> queued m' = []" by blast
qed (use decoder_done [OF assms] in blast)+

subsection \<open>Overflow\<close>

text \<open>A buffer that is in use, but neither queued nor held by a thread.\<close>

definition lost :: "nat \<Rightarrow> metis \<Rightarrow> bool" where
  "lost b m \<longleftrightarrow> b \<in> in_use (m_pool m) \<and> b \<notin> set (owned m) \<and> m_filling m \<noteq> Some b"

lemma owned_receive_done:
  assumes "metis_ok m" and "m_filling m = Some b" and "m' = metis_receive_done tcp recv m"
  shows "in_use (m_pool m) - {b} \<subseteq> in_use (m_pool m') \<and> set (owned m') \<subseteq> insert b (set (owned m))
    \<and> m_filling m' = None"
proof -
  obtain x n where r: "metis_read tcp recv (m_data m b) m = (x, n)" by fastforce
  note f = read_frame [OF r]
  have ok: "ring_ok METISRINGBUFLEN (m_ring m)" "m_freed m \<Longrightarrow> queued m \<noteq> []" using assms(1) by (simp_all add: metis_ok_def)
  have m': "m' = (if 0 \<le> x then queue_metis_buffer b (n\<lparr>m_filling := None\<rparr>)
      else n\<lparr>m_filling := None, m_pool := release b (m_pool n)\<rparr>)"
    using assms(2) by (simp add: assms(3) metis_receive_done_def r Let_def)
  consider (drop) "in_use (m_pool m') = in_use (m_pool m) - {b}" "m_ring m' = m_ring m"
    | (full) "m_pool m' = m_pool m" "m_ring m' = m_ring m"
    | (put) r where "m_pool m' = m_pool m" "ring_put metis_next b (m_ring m) = Some r" "m_ring m' = r"
    using f by (cases "0 \<le> x"; cases "m_skip m < 0"; cases "ring_put metis_next b (m_ring m)")
      (simp_all add: m' queue_metis_buffer_def release_busy)
  moreover have fr: "m_freed m' = m_freed m" "m_filling m' = None"
    using f by (simp_all add: m' queue_metis_buffer_def split: option.split)
  ultimately show ?thesis
  proof cases
    case put
    have q: "ring_list METISRINGBUFLEN r = queued m @ [b]" using metis_ring.ring.enq_Some [OF ok(1) put(2)] by simp
    then have "set (owned m') \<subseteq> insert b (set (owned m))"
      unfolding owned_def fr put(3) using ok(2) by (cases "m_freed m") auto
    then show ?thesis using put(1) fr by auto
  qed (auto simp: owned_def fr)
qed

lemma lost_step:
  assumes "p1_step (m, acc, fin) (m', acc', fin')" and "metis_ok m" and "lost b m"
  shows "lost b m'"
  using assms(1)
proof cases
  case get
  obtain c p where g: "get_metisbuffer (m_pool m) = (c, p)" by fastforce
  have ok: "pool_ok (m_pool m)" using assms(2) by (simp add: metis_ok_def)
  then show ?thesis
    using assms(3) get metis.alloc_fresh [OF ok g] metis.alloc_busy [OF ok g]
    by (auto simp: lost_def metis_receive_get_def g owned_def)
next
  case (receive d)
  then show ?thesis using assms(3) by (auto simp: lost_def metis_receive_write_def owned_def split: option.split)
next
  case (queue c tcp recv)
  then show ?thesis using owned_receive_done [OF assms(2) queue(3,4)] assms(3) by (auto simp: lost_def)
next
  case (discard c tcp recv)
  then show ?thesis using owned_receive_done [OF assms(2) discard(3,4)] assms(3) by (auto simp: lost_def)
next
  case decode
  have ok: "ring_ok METISRINGBUFLEN (m_ring m)" using assms(2) by (simp add: metis_ok_def)
  have ne: "queued m \<noteq> []" using decode assms(2) by (auto simp: metis_ok_def owned_def)
  then have io: "inptr (m_ring m) \<noteq> outptr (m_ring m)" using ring_busy [OF ok] by simp
  have "queued m = slots (m_ring m) ! outptr (m_ring m) # tl (queued m)" using ring_head(1) [OF ok ne] ne by simp
  then have own: "owned m = slots (m_ring m) ! outptr (m_ring m) # owned (metis_decode_free m)"
    using decode by (simp add: owned_def decode_free_sel [OF io])
  show ?thesis
    using assms(3) own decode(1) by (simp add: lost_def decode_free_sel [OF io] release_busy)
next
  case move_on
  have "owned (metis_decode_next m) = owned m"
    using ring_head(3) [of "m_ring m"] assms(2) move_on by (simp add: owned_def metis_ok_def decode_next_sel)
  then show ?thesis using assms(3) move_on(1) by (simp add: lost_def decode_next_sel)
qed

lemma lost_steps:
  assumes "p1_step\<^sup>*\<^sup>* (m, acc, fin) (m', acc', fin')" and "p1_reachable (m, acc, fin)" and "lost b m"
  shows "lost b m'"
proof -
  have "p1_step\<^sup>*\<^sup>* (m, acc, fin) s \<Longrightarrow> p1_reachable s \<and> lost b (fst s)" for s
  proof (induction rule: rtranclp_induct)
    case base
    then show ?case using assms(2,3) by simp
  next
    case (step s t)
    obtain m acc fin m' acc' fin' where st: "s = (m, acc, fin)" "t = (m', acc', fin')" by (cases s, cases t)
    then have "metis_ok m" using p1_reachable_inv step.IH by blast
    then show ?case using step st lost_step p1_reachable_step by (metis fst_conv)
  qed
  from this [OF assms(1)] show ?thesis by simp
qed

text \<open>C27. A packet that meets a full ring costs its buffer: no step of any continuation frees
  it, queues it, or hands it to the receive thread again.\<close>

theorem p1_overflow_leaks:
  assumes "p1_reachable (m, acc, fin)" and "m_filling m = Some b" and "metis_header_ok (m_data m b)"
    and "0 \<le> m_skip m" and "length (queued m) = 511"
    and "p1_step\<^sup>*\<^sup>* (metis_receive_done tcp recv m, acc, fin) (m', acc', fin')"
  shows "b \<in> in_use (m_pool m') \<and> b \<notin> set (owned m') \<and> m_filling m' \<noteq> Some b"
proof -
  have ok: "metis_ok m" using p1_reachable_inv [OF assms(1)] by simp
  have ring: "ring_ok METISRINGBUFLEN (m_ring m)" using ok by (simp add: metis_ok_def)
  obtain n where r: "metis_read tcp recv (m_data m b) m = (0, n)"
    using assms(3) by (auto simp: metis_read_def Let_def)
  note f = read_frame [OF r]
  have full: "ring_put metis_next b (m_ring m) = None" using metis_ring.ring.enq_None [OF ring] assms(5) by simp
  have d: "metis_receive_done tcp recv m = n\<lparr>m_filling := None, m_skip := - 256\<rparr>"
    using assms(2,4) full by (simp add: metis_receive_done_def r queue_metis_buffer_def f)
  have own: "owned (metis_receive_done tcp recv m) = owned m" by (simp add: d f owned_def)
  have "lost b (metis_receive_done tcp recv m)"
    using ok assms(2) unfolding lost_def own by (simp add: d f metis_ok_def)
  moreover have "p1_reachable (metis_receive_done tcp recv m, acc, fin)"
    by (rule p1_reachable_step [OF assms(1) p1_step.discard [OF assms(2) refl]]) (simp add: d f)
  ultimately show ?thesis using lost_steps [OF assms(6)] by (simp add: lost_def)
qed

text \<open>A full ring is reachable: the network is faster than the decoder for 511 packets.\<close>

definition good_frame :: "byte list" where
  "good_frame = [0xEF, 0xFE, 1, 6] @ replicate 1028 0"

lemma good_frame: "metis_header_ok good_frame"
  by (simp add: metis_header_ok_def good_frame_def)

lemma p1_receive:
  assumes "p1_reachable (m, acc, fin)" and "m_filling m = None"
  defines "m' \<equiv> metis_receive_write good_frame (metis_receive_get m)"
  shows "p1_reachable (m', acc, fin)" and "queued m' = queued m" and "m_freed m' = m_freed m" and "m_skip m' = m_skip m"
    and "\<exists>b. m_filling m' = Some b \<and> m_data m' b = good_frame"
proof -
  obtain b p where g: "get_metisbuffer (m_pool m) = (b, p)" by fastforce
  have "m_filling (metis_receive_get m) \<noteq> None" by (simp add: metis_receive_get_def g)
  then show "p1_reachable (m', acc, fin)"
    unfolding m'_def by (rule p1_reachable_step [OF p1_reachable_step [OF assms(1) p1_step.get [OF assms(2)]] p1_step.receive])
qed (simp_all add: m'_def metis_receive_write_def metis_receive_get_def split_beta)

lemma p1_fill:
  "n \<le> 511 \<Longrightarrow> \<exists>m acc. p1_reachable (m, acc, []) \<and> length (queued m) = n \<and> m_filling m = None
     \<and> m_skip m = 0 \<and> \<not> m_freed m"
proof (induction n)
  case 0
  show ?case
    by (intro exI [of _ metis_start] exI [of _ "[]"])
      (simp add: p1_reachable_def metis_start_def empty_ring)
next
  case (Suc n)
  then obtain m acc where m: "p1_reachable (m, acc, [])" "length (queued m) = n" "m_filling m = None"
      "m_skip m = 0" "\<not> m_freed m" by auto
  define m1 where "m1 = metis_receive_write good_frame (metis_receive_get m)"
  note r = p1_receive [OF m(1,3), folded m1_def]
  obtain b where b: "m_filling m1 = Some b" "m_data m1 b = good_frame" using r(5) by blast
  have ok: "metis_ok m1" using p1_reachable_inv [OF r(1)] by simp
  obtain x where x: "metis_read False 0 (m_data m1 b) m1 = (0, x)"
    using good_frame b(2) by (auto simp: metis_read_def Let_def)
  note f = read_frame [OF x]
  define m2 where "m2 = metis_receive_done False 0 m1"
  have ring: "ring_ok METISRINGBUFLEN (m_ring m1)" using ok by (simp add: metis_ok_def)
  have "ring_put metis_next b (m_ring m1) \<noteq> None" using metis_ring.ring.enq_None [OF ring] m(2) r(2) Suc.prems by simp
  then obtain q where q: "ring_put metis_next b (m_ring m1) = Some q" by blast
  have m2: "m2 = x\<lparr>m_filling := None, m_ring := q, m_sem := m_sem m1 + 1\<rparr>"
    using b(1) q m(4) r(4) by (simp add: m2_def metis_receive_done_def x queue_metis_buffer_def f)
  have len: "length (queued m2) = Suc n"
    using metis_ring.ring.enq_Some [OF ring q] m(2) r(2) by (simp add: m2)
  have "p1_step (m1, acc, []) (m2, (if inptr (m_ring m2) = inptr (m_ring m1) then acc else acc @ [m_data m1 b]), [])"
    using p1_step.queue [OF b(1) m2_def] p1_step.discard [OF b(1) m2_def] by simp
  then have "p1_reachable (m2, (if inptr (m_ring m2) = inptr (m_ring m1) then acc else acc @ [m_data m1 b]), [])"
    by (rule p1_reachable_step [OF r(1)])
  moreover have "m_filling m2 = None" "m_skip m2 = 0" "\<not> m_freed m2" using m r by (simp_all add: m2 f)
  ultimately show ?case using len by blast
qed

lemma p1_full:
  "\<exists>m acc b. p1_reachable (m, acc, []) \<and> m_filling m = Some b \<and> metis_header_ok (m_data m b) \<and> m_skip m = 0
     \<and> length (queued m) = 511"
proof -
  obtain m acc where m: "p1_reachable (m, acc, [])" "length (queued m) = 511" "m_filling m = None" "m_skip m = 0"
    using p1_fill [of 511] by auto
  define m1 where "m1 = metis_receive_write good_frame (metis_receive_get m)"
  note r = p1_receive [OF m(1,3), folded m1_def]
  obtain b where "m_filling m1 = Some b" "m_data m1 b = good_frame" using r(5) by blast
  then show ?thesis using r m good_frame by metis
qed

lemma p1_overflow_leaks_example:
  "\<exists>m acc b. p1_reachable (m, acc, []) \<and> m_filling m = Some b
     \<and> b \<in> in_use (m_pool (metis_receive_done False 0 m)) \<and> b \<notin> set (owned (metis_receive_done False 0 m))"
proof -
  obtain m acc b where m: "p1_reachable (m, acc, [])" "m_filling m = Some b" "metis_header_ok (m_data m b)"
      "m_skip m = 0" "length (queued m) = 511" using p1_full by blast
  show ?thesis
    using p1_overflow_leaks [OF m(1-3) _ m(5) rtranclp.rtrancl_refl, of False 0] m by auto
qed

lemma p1_queue_order_example:
  "\<exists>m acc. p1_reachable (m, acc, []) \<and> length (queued m) = 511 \<and> \<not> m_freed m \<and> acc = packets m \<and> m_sem m = 511"
proof -
  obtain m acc where m: "p1_reachable (m, acc, [])" "length (queued m) = 511" "\<not> m_freed m"
    using p1_fill [of 511] by auto
  show ?thesis using p1_queue_order [OF m(1)] m by (auto simp: packets_def owned_def)
qed

lemma p1_decoder_drains_example:
  "\<exists>m acc m'. p1_reachable (m, acc, []) \<and> length (queued m) = 511 \<and> decoder_step\<^sup>*\<^sup>* (m, acc, []) (m', acc, acc) \<and> queued m' = []"
proof -
  obtain m acc where m: "p1_reachable (m, acc, [])" "length (queued m) = 511" using p1_fill [of 511] by auto
  show ?thesis using p1_decoder_drains [OF m(1)] m by blast
qed

end
