(* ===== verification/P1_Tx_Facts.thy ===== *)
theory P1_Tx_Facts
  imports P1_Tx P1_Queue
begin

text \<open>
  What the radio is told: the command bytes of a frame and where they stand in the packet, the
  rotation of the commands, and the safety of the two fields that make the radio transmit, the
  MOX bit and the drive level.
\<close>

subsection \<open>The commands of a frame\<close>

text \<open>The five command bytes before the MOX bit is set, and the state after them.\<close>

definition next_command :: "byte \<Rightarrow> p1_tx \<Rightarrow> byte list \<times> p1_tx" where
  "next_command old t = (if metis_offset t = 8 then general_command t else loop_command old t)"

lemma send_buffer:
  "ozy_send_buffer buf t = (let (cmd, u) = next_command (buf ! 3) t;
     buf = put_bytes 0 ([0x7F, 0x7F, 0x7F] @ cmd) buf; buf = (if mox_bit u then buf[3 := buf ! 3 OR 0x01] else buf)
     in (buf, if device (tx_radio u) = DEVICE_OZY then u else metis_write buf u))"
  by (simp only: ozy_send_buffer_def next_command_def)

text \<open>The state that the commands read and the parts of it that they do not change.\<close>

definition tx_env :: "p1_tx \<Rightarrow> p1 \<times> p1_conf \<times> nat \<times> byte list \<times> u32 \<times> byte list list" where
  "tx_env t = (p1of t, conf t, metis_offset t, metis_buffer t, send_sequence t, sent t)"

lemma env_updates [simp]:
  "tx_env (t\<lparr>p1_command_loop := n\<rparr>) = tx_env t" "tx_env (t\<lparr>current_rx := n\<rparr>) = tx_env t"
  "tx_env (t\<lparr>hl2_last_tune := b\<rparr>) = tx_env t" "tx_env (t\<lparr>hl2_command_loop := n\<rparr>) = tx_env t"
  "tx_env (t\<lparr>hl2_query_count := i\<rparr>) = tx_env t" "tx_env (t\<lparr>hl2_iob_tx_freq := i\<rparr>) = tx_env t"
  "tx_env (t\<lparr>hl2_iob_rx1_code := i\<rparr>) = tx_env t" "tx_env (t\<lparr>hl2_iob_rx2_code := i\<rparr>) = tx_env t"
  "tx_env (t\<lparr>hl2_iob_rfmode := m\<rparr>) = tx_env t" "tx_env (t\<lparr>hl2_cl1_loop := n\<rparr>) = tx_env t"
  "tx_env (t\<lparr>hl2_old_cl1_setting := b\<rparr>) = tx_env t" "tx_env (t\<lparr>hl2_new_cl1_setting := b\<rparr>) = tx_env t"
  by (simp_all add: tx_env_def)

lemma rx_freq_env: "tx_env (snd (rx_freq_command old t)) = tx_env t"
  by (simp add: rx_freq_command_def Let_def)

lemma hl2_loop_env: "tx_env (snd (hl2_loop t)) = tx_env t"
proof -
  have "tx_env (hl2_record_freq t) = tx_env t" by (simp add: hl2_record_freq_def Let_def)
  moreover have "tx_env (snd (hl2_cl1_pair t)) = tx_env t" by (simp add: hl2_cl1_pair_def Let_def)
  ultimately show ?thesis by (simp add: hl2_loop_def Let_def)
qed

lemma hl2_env: "tx_env (snd (hl2_command t)) = tx_env t"
  by (simp add: hl2_command_def Let_def split_beta hl2_loop_env)

lemma loop_env: "tx_env (snd (loop_command old t)) = tx_env t"
  by (simp add: loop_command_def Let_def tx_freq_command_def rx_freq_env drive_command_def split_beta
      preamp_command_def keyer_command_def adc_command_def cw_command_def sidetone_command_def pwm_command_def
      alex2_command_def hl2_env)

lemmas command_defs = tx_freq_command_def rx_freq_command_def drive_command_def preamp_command_def
  keyer_command_def adc_command_def cw_command_def sidetone_command_def pwm_command_def alex2_command_def

lemma length_freq_bytes [simp]: "length (freq_bytes f) = 4"
  by (simp add: freq_bytes_def)

lemma hl2_command_head:
  "length (fst (hl2_command t)) = 5" "\<not> bit (fst (hl2_command t) ! 0) 0"
proof -
  have l: "length (fst (hl2_loop t)) = 5" "\<not> bit (fst (hl2_loop t) ! 0) 0" for t
    by (simp_all add: hl2_loop_def Let_def hl2_default_def iob_write_def hl2_cl1_pair_def)
  show "length (fst (hl2_command t)) = 5" "\<not> bit (fst (hl2_command t) ! 0) 0"
    by (simp_all add: hl2_command_def Let_def split_beta l iob_write_def)
qed

lemma length_command: "length (fst (next_command old t)) = 5"
  by (simp add: next_command_def general_command_def loop_command_def command_defs split_beta Let_def hl2_command_head)

definition rx_pending :: "p1_tx \<Rightarrow> bool" where
  "rx_pending t \<longleftrightarrow> current_rx t < how_many_receivers (anan10E (p1of t)) (tx_radio t)"

lemma even_rx: "\<not> bit (0x04 + 2 * of_nat k :: byte) 0"
  by (simp add: bit_0)

lemma command_even:
  assumes "metis_offset t = 8 \<or> p1_command_loop t \<in> {1..11} \<and> (p1_command_loop t = 2 \<longrightarrow> rx_pending t)"
  shows "\<not> bit (fst (next_command old t) ! 0) 0"
proof (cases "metis_offset t = 8")
  case True
  then show ?thesis by (simp add: next_command_def general_command_def Let_def split_beta)
next
  case False
  then have "p1_command_loop t \<in> set [1..<12]" using assms by auto
  then consider "p1_command_loop t = 1" | "p1_command_loop t = 2" | "p1_command_loop t = 3" | "p1_command_loop t = 4"
    | "p1_command_loop t = 5" | "p1_command_loop t = 6" | "p1_command_loop t = 7" | "p1_command_loop t = 8"
    | "p1_command_loop t = 9" | "p1_command_loop t = 10" | "p1_command_loop t = 11"
    by (auto simp: upt_rec)
  then show ?thesis
    using False assms
    using hl2_command_head(2) [of t]
    by cases (simp_all add: next_command_def loop_command_def command_defs rx_pending_def split_beta Let_def bit_0)
qed

text \<open>The bytes of the frame.\<close>

lemma put_head:
  assumes "length buf = 512" and "length cmd = 5"
  shows "put_bytes 0 ([0x7F, 0x7F, 0x7F] @ cmd) buf = [0x7F, 0x7F, 0x7F] @ cmd @ drop 8 buf"
proof (rule nth_equalityI)
  fix i assume "i < length (put_bytes 0 ([0x7F, 0x7F, 0x7F] @ cmd) buf)"
  then show "put_bytes 0 ([0x7F, 0x7F, 0x7F] @ cmd) buf ! i = ([0x7F, 0x7F, 0x7F] @ cmd @ drop 8 buf) ! i"
    using assms by (auto simp: nth_put_bytes nth_append nth_Cons' simp del: put_bytes.simps)
qed (use assms in simp)

definition frame_of :: "byte list \<Rightarrow> p1_tx \<Rightarrow> byte list" where
  "frame_of buf t = (let (cmd, u) = next_command (buf ! 3) t
     in [0x7F, 0x7F, 0x7F] @ (cmd ! 0 OR flag (mox_bit u) 0x01) # tl cmd @ drop 8 buf)"

lemma general_device: "device (tx_radio (snd (general_command t))) = device (tx_radio t)"
  by (auto simp: general_command_def Let_def split_beta ant_index_def upd_tx_def split: option.split)

lemma next_device: "device (tx_radio (snd (next_command old t))) = device (tx_radio t)"
  using loop_env [of old t] by (simp add: next_command_def general_device) (simp add: tx_env_def)

lemma send_frame:
  assumes "length buf = 512"
  shows "ozy_send_buffer buf t = (frame_of buf t, let u = snd (next_command (buf ! 3) t)
    in if device (tx_radio t) = DEVICE_OZY then u else metis_write (frame_of buf t) u)"
proof -
  obtain cmd u where n: "next_command (buf ! 3) t = (cmd, u)" by fastforce
  then have l: "length cmd = 5" using length_command [of "buf ! 3" t] by simp
  then obtain x cs where c: "cmd = x # cs" "length cs = 4" by (cases cmd) auto
  have "(put_bytes 0 ([0x7F, 0x7F, 0x7F] @ cmd) buf)[3 := x OR 1] = [0x7F, 0x7F, 0x7F] @ (x OR 1) # cs @ drop 8 buf"
    "put_bytes 0 ([0x7F, 0x7F, 0x7F] @ cmd) buf = [0x7F, 0x7F, 0x7F] @ x # cs @ drop 8 buf"
    unfolding put_head [OF assms l] by (simp_all add: c)
  moreover have "device (tx_radio u) = device (tx_radio t)" using next_device [of "buf ! 3" t] by (simp add: n)
  ultimately show ?thesis
    by (simp add: send_buffer n frame_of_def c flag_def Let_def)
qed

lemma length_frame: "length buf = 512 \<Longrightarrow> length (frame_of buf t) = 512"
  using length_command [of "buf ! 3" t] by (simp add: frame_of_def split_beta)

subsection \<open>What makes the radio transmit\<close>

lemma mox_bit_env:
  assumes "tx_env u = tx_env t"
  shows "mox_bit u = mox_bit t"
  using assms by (simp add: mox_bit_def tx_env_def Let_def)

lemma ant_index_radio:
  assumes "ant_index c p = (i, p')"
  shows "p' = p \<or> p' = p\<lparr>radio := upd_tx (\<lambda>tx. tx\<lparr>tx_antenna := 0\<rparr>) (radio p)\<rparr>"
  using assms by (auto simp: ant_index_def Let_def split: if_splits)

lemma general_mox: "mox_bit (snd (general_command t)) = mox_bit t"
proof -
  obtain i p where a: "ant_index (conf t) (p1of t) = (i, p)" by fastforce
  have m: "mox_bit (t\<lparr>p1of := (p1of t)\<lparr>radio := upd_tx (\<lambda>tx. tx\<lparr>tx_antenna := 0\<rparr>) (tx_radio t)\<rparr>\<rparr>) = mox_bit t"
    by (cases "transmitter (tx_radio t)")
      (simp_all add: mox_bit_def Let_def upd_tx_def radio_is_transmitting_def vfo_get_tx_mode_def vfo_get_tx_vfo_def txp_def)
  have "t\<lparr>p1of := p1of t\<rparr> = t" by (cases t) simp
  then show ?thesis using ant_index_radio [OF a] m by (auto simp: general_command_def a Let_def)
qed

lemma next_mox: "mox_bit (snd (next_command old t)) = mox_bit t"
  using general_mox mox_bit_env [OF loop_env] by (simp add: next_command_def)

lemma or_flag_bit: "\<not> bit x 0 \<Longrightarrow> bit (x OR flag b 0x01) 0 = b" for x :: byte
  by (cases b) (simp_all only: flag_def if_True if_False bit_or_iff or.right_neutral bit_1_iff, simp_all)

lemma addr_byte:
  assumes "addr < 128"
  shows "unat (drop_bit 1 (2 * of_nat addr OR flag b 0x01 :: byte)) = addr"
proof -
  have "drop_bit 1 (2 * of_nat addr OR flag b 0x01 :: byte) = drop_bit 1 (2 * of_nat addr)"
    by (simp add: drop_bit_or flag_def)
  moreover have "unat (2 * of_nat addr :: byte) = 2 * addr"
    using assms by (simp add: unat_word_ariths unsigned_of_nat take_bit_nat_eq_self)
  ultimately show ?thesis unfolding drop_bit_eq_div by (simp add: unat_div)
qed

text \<open>C7. The MOX bit of a frame is set exactly if the radio is transmitting and, in the CW modes,
  the program and not the keyer of the radio makes the signal; in particular it is never set
  during reception.\<close>

theorem p1_mox_bit:
  assumes "length buf = 512"
    and "metis_offset t = 8 \<or> p1_command_loop t \<in> {1..11} \<and> (p1_command_loop t = 2 \<longrightarrow> rx_pending t)"
  shows "bit (fst (ozy_send_buffer buf t) ! 3) 0 \<longleftrightarrow> radio_is_transmitting (tx_radio t) \<and>
    (vfo_get_tx_mode (tx_radio t) \<in> {modeCWU, modeCWL} \<longrightarrow>
       tx_tune (txp (tx_radio t)) \<or> tx_twotone (txp (tx_radio t)) \<or> \<not> cw_keyer_internal (tx_radio t)
       \<or> CAT_cw_is_active (p1of t) \<or> MIDI_cw_is_active (p1of t) \<or> hpsdr_ptt (p1of t))"
proof -
  have "bit (fst (ozy_send_buffer buf t) ! 3) 0 = mox_bit (snd (next_command (buf ! 3) t))"
    using or_flag_bit [OF command_even [OF assms(2)]] by (simp add: send_frame [OF assms(1)] frame_of_def split_beta)
  also have "\<dots> = mox_bit t" by (rule next_mox)
  finally show ?thesis by (auto simp: mox_bit_def Let_def)
qed

text \<open>The drive level of the command that carries it is zero when the transmit frequency, XIT
  included, is outside the band, unless transmitting out of band is allowed.\<close>

lemma p1_drive_in_band:
  assumes "length buf = 512" and "metis_offset t \<noteq> 8" and "p1_command_loop t = 3"
    and "\<not> tx_out_of_band_allowed (tx_radio t)"
    and "TXfreq (tx_radio t) < frequencyMin (txband (tx_radio t)) \<or> frequencyMax (txband (tx_radio t)) < TXfreq (tx_radio t)"
  shows "fst (ozy_send_buffer buf t) ! 4 = 0"
proof -
  have "tx_power (tx_radio t) = 0" using assms(4,5) by (auto simp: tx_power_def)
  then show ?thesis
    using assms(2,3) by (simp add: send_frame [OF assms(1)] frame_of_def next_command_def loop_command_def drive_command_def
        Let_def split_beta)
qed

subsection \<open>Frequencies\<close>

lemma take_freq: "take 4 (freq_bytes f @ xs) = freq_bytes f"
  by (simp add: freq_bytes_def be32_def)

text \<open>The frequency commands carry what \<open>channel_freq\<close> says, modulo \<open>2 ^ 32\<close>: the transmit
  frequency at address 1, and the frequency of receiver \<open>k\<close> at address \<open>k + 2\<close>.\<close>

lemma p1_frequency_command:
  assumes "length buf = 512" and "metis_offset t \<noteq> 8"
    and "p1_command_loop t = 1 \<and> chan = None \<and> addr = 1
      \<or> p1_command_loop t = 2 \<and> rx_pending t \<and> chan = Some (current_rx t) \<and> addr = current_rx t + 2"
    and "addr < 128" and "frame = fst (ozy_send_buffer buf t)"
  shows "unat (drop_bit 1 (frame ! 3)) = addr
    \<and> of_be (take 4 (drop 4 frame)) = channel_freq (anan10E (p1of t)) chan (tx_radio t) mod 2 ^ 32"
proof -
  let ?f = "channel_freq (anan10E (p1of t)) chan (tx_radio t)"
  have cmd: "fst (next_command (buf ! 3) t) = (2 * of_nat addr) # freq_bytes ?f"
    using assms(2,3) by (auto simp: next_command_def loop_command_def tx_freq_command_def rx_freq_command_def rx_pending_def Let_def)
  obtain b where frame: "frame = [0x7F, 0x7F, 0x7F] @ (2 * of_nat addr OR flag b 0x01) # freq_bytes ?f @ drop 8 buf"
    using cmd by (auto simp: assms(5) send_frame [OF assms(1)] frame_of_def split_beta)
  have "unat (drop_bit 1 (frame ! 3)) = addr" using addr_byte [OF assms(4)] by (simp add: frame)
  then show ?thesis
    using of_be_be32 [of ?f] by (simp add: frame take_freq) (simp add: freq_bytes_def)
qed

subsection \<open>Packets\<close>

definition seq_bytes :: "u32 \<Rightarrow> byte list" where
  "seq_bytes s = [ucast (drop_bit 24 s), ucast (drop_bit 16 s), ucast (drop_bit 8 s), ucast s]"

lemma seq_word:
  "push_bit 24 (ucast (ucast (drop_bit 24 s) :: byte)) + push_bit 16 (ucast (ucast (drop_bit 16 s) :: byte))
     + push_bit 8 (ucast (ucast (drop_bit 8 s) :: byte)) + ucast (ucast s :: byte) = (s :: u32)"
proof -
  define a b c d where "a = (push_bit 24 (ucast (ucast (drop_bit 24 s) :: byte)) :: u32)"
    and "b = (push_bit 16 (ucast (ucast (drop_bit 16 s) :: byte)) :: u32)"
    and "c = (push_bit 8 (ucast (ucast (drop_bit 8 s) :: byte)) :: u32)" and "d = (ucast (ucast s :: byte) :: u32)"
  have bits: "bit a n \<longleftrightarrow> 24 \<le> n \<and> n < 32 \<and> bit s n" "bit b n \<longleftrightarrow> 16 \<le> n \<and> n < 24 \<and> bit s n"
    "bit c n \<longleftrightarrow> 8 \<le> n \<and> n < 16 \<and> bit s n" "bit d n \<longleftrightarrow> n < 8 \<and> bit s n" for n
    by (auto simp: a_def b_def c_def d_def bit_push_bit_iff bit_unsigned_iff bit_drop_bit_eq dest: bit_imp_le_length)
  have "a + b = a OR b" by (rule disjunctive_add_eq_or) (auto intro!: bit_word_eqI simp: bit_and_iff bits)
  moreover have "(a OR b) + c = (a OR b) OR c" by (rule disjunctive_add_eq_or) (auto intro!: bit_word_eqI simp: bit_and_iff bit_or_iff bits)
  moreover have "((a OR b) OR c) + d = ((a OR b) OR c) OR d"
    by (rule disjunctive_add_eq_or) (auto intro!: bit_word_eqI simp: bit_and_iff bit_or_iff bits)
  moreover have "((a OR b) OR c) OR d = s" by (rule bit_word_eqI) (auto simp: bit_or_iff bits)
  ultimately show ?thesis by (simp only: a_def [symmetric] b_def [symmetric] c_def [symmetric] d_def [symmetric])
qed

lemma put_bytes_append:
  assumes "i + length bs = length buf"
  shows "put_bytes i bs buf = take i buf @ bs"
  by (rule nth_equalityI) (use assms in \<open>auto simp: nth_put_bytes nth_append\<close>)

lemma metis_write_half:
  assumes "metis_offset t = 8"
  shows "metis_write f t = t\<lparr>metis_buffer := put_bytes 8 f (metis_buffer t), metis_offset := 520\<rparr>"
  using assms by (simp add: metis_write_def Let_def)

lemma metis_write_full:
  assumes "metis_offset t = 520"
  shows "metis_write f t = t\<lparr>metis_buffer := put_bytes 0 ([0xEF, 0xFE, 0x01, 0x02] @ seq_bytes (send_sequence t))
      (put_bytes 520 f (metis_buffer t)), send_sequence := send_sequence t + 1,
      sent := sent t @ [put_bytes 0 ([0xEF, 0xFE, 0x01, 0x02] @ seq_bytes (send_sequence t))
      (put_bytes 520 f (metis_buffer t))], metis_offset := 8\<rparr>"
  using assms by (simp add: metis_write_def Let_def seq_bytes_def del: put_bytes.simps)

lemma packet_bytes:
  assumes "length m = 1032" and "length h = 8" and "length f = 512" and "length g = 512"
  shows "put_bytes 0 h (put_bytes 520 g (put_bytes 8 f m)) = h @ f @ g"
  by (rule nth_equalityI) (use assms in \<open>auto simp: nth_put_bytes nth_append simp del: put_bytes.simps\<close>)

lemma general_env:
  "metis_offset (snd (general_command t)) = metis_offset t" "metis_buffer (snd (general_command t)) = metis_buffer t"
  "send_sequence (snd (general_command t)) = send_sequence t" "sent (snd (general_command t)) = sent t"
  "p1_command_loop (snd (general_command t)) = p1_command_loop t" "current_rx (snd (general_command t)) = current_rx t"
  by (simp_all add: general_command_def Let_def split_beta)

lemma next_env:
  "metis_offset (snd (next_command old t)) = metis_offset t" "metis_buffer (snd (next_command old t)) = metis_buffer t"
  "send_sequence (snd (next_command old t)) = send_sequence t" "sent (snd (next_command old t)) = sent t"
  using loop_env [of old t] by (simp_all add: next_command_def general_env tx_env_def)

lemma drop_frame: "length buf = 512 \<Longrightarrow> drop 8 (frame_of buf t) = drop 8 buf"
  using length_command [of "buf ! 3" t] by (cases "fst (next_command (buf ! 3) t)") (simp_all add: frame_of_def split_beta)

lemma payload:
  assumes "length buf = 512" and "length xs = 504"
  shows "length (put_bytes 8 xs buf) = 512" and "drop 8 (put_bytes 8 xs buf) = xs"
  using put_bytes_append [of 8 xs buf] assms by simp_all

text \<open>The two frames of a block and the state after each of them.\<close>

lemma send_block_frames:
  assumes "length b1 = 512" and "length b2 = 512" and "length blk = 1008" and "metis_offset t = 8"
    and "device (tx_radio t) \<noteq> DEVICE_OZY"
    and "c1 = put_bytes 8 (take 504 blk) b1" and "c2 = put_bytes 8 (drop 504 blk) b2"
    and "t1 = metis_write (frame_of c1 t) (snd (next_command (c1 ! 3) t))"
  shows "send_block blk (b1, b2, t) = (frame_of c1 t, frame_of c2 t1, metis_write (frame_of c2 t1) (snd (next_command (c2 ! 3) t1)))"
    and "metis_offset t1 = 520"
proof -
  have l: "length c1 = 512" "length c2 = 512" using assms(1,2,6,7) by simp_all
  have d: "device (tx_radio t1) \<noteq> DEVICE_OZY"
    using assms(5) next_device [of "c1 ! 3" t] by (simp add: assms(8) metis_write_def Let_def)
  show "send_block blk (b1, b2, t) = (frame_of c1 t, frame_of c2 t1, metis_write (frame_of c2 t1) (snd (next_command (c2 ! 3) t1)))"
    using assms(5) d
    by (simp add: send_block_def assms(6,7) [symmetric] send_frame [OF l(1)] send_frame [OF l(2)] assms(8) [symmetric] Let_def)
  show "metis_offset t1 = 520"
    using assms(4) by (simp add: assms(8) metis_write_half next_env)
qed

text \<open>A block of 126 samples becomes one packet: the header with the running sequence number,
  which \<open>metis_read\<close> would read back, and two frames whose data are the two halves of the block.\<close>

lemma p1_packet:
  assumes "length b1 = 512" and "length b2 = 512" and "length blk = 1008" and "metis_offset t = 8"
    and "length (metis_buffer t) = 1032" and "send_block blk (b1, b2, t) = (f1, f2, t')"
    and "device (tx_radio t) \<noteq> DEVICE_OZY"
  shows "\<exists>h. sent t' = sent t @ [h @ f1 @ f2] \<and> length h = 8 \<and> take 4 h = [0xEF, 0xFE, 0x01, 0x02]
    \<and> metis_sequence (h @ f1 @ f2) = send_sequence t \<and> send_sequence t' = send_sequence t + 1
    \<and> take 3 f1 = [0x7F, 0x7F, 0x7F] \<and> take 3 f2 = [0x7F, 0x7F, 0x7F]
    \<and> drop 8 f1 @ drop 8 f2 = blk \<and> metis_offset t' = 8 \<and> length (metis_buffer t') = 1032"
proof -
  define c1 where "c1 = put_bytes 8 (take 504 blk) b1"
  define c2 where "c2 = put_bytes 8 (drop 504 blk) b2"
  define t1 where "t1 = metis_write (frame_of c1 t) (snd (next_command (c1 ! 3) t))"
  have l: "length (take 504 blk) = 504" "length (drop 504 blk) = 504" using assms(3) by simp_all
  note p1 = payload [OF assms(1) l(1), folded c1_def] and p2 = payload [OF assms(2) l(2), folded c2_def]
  note sb = send_block_frames [OF assms(1-4,7) c1_def c2_def t1_def]
  have f: "f1 = frame_of c1 t" "f2 = frame_of c2 t1" "t' = metis_write (frame_of c2 t1) (snd (next_command (c2 ! 3) t1))"
    using assms(6) unfolding sb(1) by auto
  have lf: "length f1 = 512" "length f2 = 512" unfolding f(1,2) using p1(1) p2(1) by (simp_all add: length_frame)
  have t1: "metis_buffer t1 = put_bytes 8 f1 (metis_buffer t)" "send_sequence t1 = send_sequence t" "sent t1 = sent t"
    using assms(4) by (simp_all add: t1_def f(1) metis_write_half next_env)
  let ?h = "[0xEF, 0xFE, 0x01, 0x02] @ seq_bytes (send_sequence t)"
  have lh: "length ?h = 8" by (simp add: seq_bytes_def)
  have pkt: "put_bytes 0 ?h (put_bytes 520 f2 (metis_buffer t1)) = ?h @ f1 @ f2"
    unfolding t1(1) by (rule packet_bytes [OF assms(5) lh lf])
  have o: "metis_offset (snd (next_command (c2 ! 3) t1)) = 520" by (simp add: next_env sb(2))
  have t': "sent t' = sent t @ [?h @ f1 @ f2]" "send_sequence t' = send_sequence t + 1" "metis_offset t' = 8"
    "metis_buffer t' = ?h @ f1 @ f2"
    using pkt unfolding f(3) metis_write_full [OF o] by (simp_all add: next_env t1 f(2) del: put_bytes.simps append.simps)
  have s: "metis_sequence (?h @ f1 @ f2) = send_sequence t"
    using seq_word [of "send_sequence t"] by (simp add: metis_sequence_def seq_bytes_def nth_append)
  have d: "drop 8 f1 @ drop 8 f2 = blk" unfolding f(1,2) using p1 p2 by (simp add: drop_frame)
  have "take 3 f1 = [0x7F, 0x7F, 0x7F]" "take 3 f2 = [0x7F, 0x7F, 0x7F]"
    by (simp_all add: f frame_of_def split_beta)
  then show ?thesis using t' s d lh lf by (intro exI [of _ ?h]) simp
qed

subsection \<open>The rotation of the commands\<close>

definition nrx :: "p1_tx \<Rightarrow> nat" where
  "nrx t = how_many_receivers (anan10E (p1of t)) (tx_radio t)"

text \<open>The addresses in the odd frames, one round, and the place of a state in it.\<close>

definition round_addr :: "nat \<Rightarrow> byte list" where
  "round_addr n = [0x02] @ map (\<lambda>k. 0x04 + 2 * of_nat k) [0..<n] @ [0x12, 0x14, 0x16, 0x1C, 0x1E, 0x20, 0x22, 0x24]"

definition round_pos :: "nat \<Rightarrow> nat \<Rightarrow> nat \<times> nat" where
  "round_pos n i = (if i = 0 then (1, 0) else if i \<le> n then (2, i - 1) else (i - n + 2, 0))"

definition cmd_pos :: "p1_tx \<Rightarrow> nat \<times> nat" where
  "cmd_pos t = (p1_command_loop t, current_rx t)"

lemma round_nth:
  "i < n + 9 \<Longrightarrow> round_addr n ! i = (if i = 0 then 0x02 else if i \<le> n then 0x04 + 2 * of_nat (i - 1)
     else [0x12, 0x14, 0x16, 0x1C, 0x1E, 0x20, 0x22, 0x24] ! (i - n - 1))"
  by (auto simp: round_addr_def nth_append nth_Cons' of_nat_diff)

lemma round_step:
  assumes "cmd_pos t = round_pos n i" and "i < n + 9" and "n = nrx t" and "0 < n"
    and "device (tx_radio t) \<noteq> DEVICE_HERMES_LITE2"
  shows "fst (loop_command old t) ! 0 = round_addr n ! i
    \<and> cmd_pos (snd (loop_command old t)) = round_pos n (if i = n + 8 then 0 else i + 1)"
proof -
  consider "i = 0" | "0 < i" "i \<le> n" | "n < i" by linarith
  then show ?thesis
  proof cases
    case 1
    then have "p1_command_loop t = 1" "current_rx t = 0" using assms(1) by (simp_all add: cmd_pos_def round_pos_def)
    then show ?thesis using 1 assms(4)
      by (simp add: loop_command_def tx_freq_command_def cmd_pos_def round_pos_def round_addr_def)
  next
    case 2
    then have t: "p1_command_loop t = 2" "current_rx t = i - 1" using assms(1) by (simp_all add: cmd_pos_def round_pos_def)
    then have "current_rx t < how_many_receivers (anan10E (p1of t)) (tx_radio t)" using 2 assms(3) by (simp add: nrx_def)
    then show ?thesis using 2 t assms(2,3)
      by (auto simp: loop_command_def rx_freq_command_def cmd_pos_def round_pos_def round_nth nrx_def Let_def)
  next
    case 3
    define j where "j = i - n - 1"
    have i: "i = n + 1 + j" "j < 8" using 3 assms(2) by (simp_all add: j_def)
    then have t: "p1_command_loop t = 3 + j" "current_rx t = 0" using assms(1) by (simp_all add: cmd_pos_def round_pos_def)
    have "j \<in> {0, 1, 2, 3, 4, 5, 6, 7}" using i(2) by auto
    then show ?thesis using t i(1) assms(5)
      by (elim insertE) (simp_all add: loop_command_def command_defs cmd_pos_def round_pos_def round_nth Let_def split_beta)
  qed
qed

lemma general_nrx:
  "nrx (snd (general_command t)) = nrx t" "device (tx_radio (snd (general_command t))) = device (tx_radio t)"
  "cmd_pos (snd (general_command t)) = cmd_pos t"
proof -
  obtain i p where a: "ant_index (conf t) (p1of t) = (i, p)" by fastforce
  have "anan10E p = anan10E (p1of t) \<and> puresignal (radio p) = puresignal (tx_radio t) \<and> device (radio p) = device (tx_radio t)
      \<and> receivers (radio p) = receivers (tx_radio t) \<and> diversity_enabled (radio p) = diversity_enabled (tx_radio t)"
    using ant_index_radio [OF a] by (auto simp: puresignal_def upd_tx_def split: option.split)
  then show "nrx (snd (general_command t)) = nrx t" "device (tx_radio (snd (general_command t))) = device (tx_radio t)"
    "cmd_pos (snd (general_command t)) = cmd_pos t"
    by (simp_all add: general_command_def a Let_def nrx_def how_many_receivers_def cmd_pos_def)
qed

lemma write_frame_env:
  "nrx (metis_write f t) = nrx t" "tx_radio (metis_write f t) = tx_radio t" "cmd_pos (metis_write f t) = cmd_pos t"
  by (simp_all add: metis_write_def Let_def nrx_def cmd_pos_def)

lemma next_nrx:
  "nrx (snd (next_command old t)) = nrx t" "device (tx_radio (snd (next_command old t))) = device (tx_radio t)"
  using loop_env [of old t] by (simp_all add: next_command_def general_nrx) (simp_all add: tx_env_def nrx_def)

text \<open>The odd frames of a run of blocks: the addresses without the MOX bit.\<close>

fun block_addrs :: "byte list list \<Rightarrow> byte list \<times> byte list \<times> p1_tx \<Rightarrow> byte list" where
  "block_addrs [] s = []"
| "block_addrs (blk # blks) s = (let s = send_block blk s in (fst (snd s) ! 3 AND 0xFE) # block_addrs blks s)"

definition round_at :: "nat \<Rightarrow> nat \<Rightarrow> byte list \<times> byte list \<times> p1_tx \<Rightarrow> bool" where
  "round_at n i s = (case s of (b1, b2, t) \<Rightarrow> length b1 = 512 \<and> length b2 = 512 \<and> metis_offset t = 8
     \<and> n = nrx t \<and> device (tx_radio t) \<notin> {DEVICE_OZY, DEVICE_HERMES_LITE2} \<and> cmd_pos t = round_pos n i)"

lemma even_and: "\<not> bit x 0 \<Longrightarrow> (x OR flag b 0x01) AND 0xFE = x" for x :: byte
proof (rule bit_word_eqI)
  fix n assume x: "\<not> bit x 0" and "n < LENGTH(8)"
  have "bit (0xFE :: byte) n \<longleftrightarrow> n \<noteq> 0" using \<open>n < LENGTH(8)\<close>
  proof -
    have e: "(0xFE :: byte) = NOT 1" by simp
    show ?thesis using \<open>n < LENGTH(8)\<close> unfolding e by (simp add: bit_not_iff)
  qed
  then show "bit ((x OR flag b 0x01) AND 0xFE) n = bit x n"
    using x by (cases "n = 0"; cases b) (auto simp: bit_and_iff bit_or_iff flag_def bit_1_iff)
qed

lemma round_block:
  assumes "round_at n i s" and "i < n + 9" and "0 < n" and "length blk = 1008" and "s' = send_block blk s"
  shows "fst (snd s') ! 3 AND 0xFE = round_addr n ! i \<and> round_at n (if i = n + 8 then 0 else i + 1) s'"
proof -
  obtain b1 b2 t where s: "s = (b1, b2, t)" by (cases s) auto
  have t: "length b1 = 512" "length b2 = 512" "metis_offset t = 8" "n = nrx t" "device (tx_radio t) \<noteq> DEVICE_HERMES_LITE2"
    "cmd_pos t = round_pos n i" "device (tx_radio t) \<noteq> DEVICE_OZY"
    using assms(1) by (simp_all add: round_at_def s)
  define c1 where "c1 = put_bytes 8 (take 504 blk) b1"
  define c2 where "c2 = put_bytes 8 (drop 504 blk) b2"
  define t1 where "t1 = metis_write (frame_of c1 t) (snd (next_command (c1 ! 3) t))"
  note sb = send_block_frames [OF t(1,2) assms(4) t(3,7) c1_def c2_def t1_def]
  have t1: "nrx t1 = n" "device (tx_radio t1) \<noteq> DEVICE_HERMES_LITE2" "cmd_pos t1 = round_pos n i"
    "device (tx_radio t1) \<noteq> DEVICE_OZY"
    using t by (simp_all add: t1_def write_frame_env next_nrx) (simp add: next_command_def general_nrx)
  have nc: "next_command old t1 = loop_command old t1" for old using sb(2) by (simp add: next_command_def)
  note st = round_step [OF t1(3) assms(2) t1(1) [symmetric] assms(3) t1(2), of "c2 ! 3"]
  have "p1_command_loop t1 \<in> {1..11} \<and> (p1_command_loop t1 = 2 \<longrightarrow> rx_pending t1)"
    using t1(1,3) assms(2) by (auto simp: cmd_pos_def round_pos_def rx_pending_def nrx_def split: if_splits)
  then have "\<not> bit (fst (next_command (c2 ! 3) t1) ! 0) 0" by (intro command_even) simp
  then have "fst (snd s') ! 3 AND 0xFE = round_addr n ! i"
    using st even_and by (simp add: assms(5) s sb(1) frame_of_def split_beta nc)
  moreover have "metis_offset (metis_write f (snd (next_command old t1))) = 8" for f old
    using sb(2) by (simp add: metis_write_def Let_def next_env)
  moreover have "cmd_pos (snd (next_command (c2 ! 3) t1)) = round_pos n (if i = n + 8 then 0 else i + 1)"
    using st nc by simp
  ultimately show ?thesis
    using t t1 by (simp add: assms(5) s sb(1) round_at_def length_frame c1_def c2_def write_frame_env next_nrx)
qed

lemma next_round: "i < n + 9 \<Longrightarrow> (if i = n + 8 then 0 else i + 1) = (i + 1) mod (n + 9 :: nat)"
  by (cases "i = n + 8") (simp_all add: add.commute [of 9 n])

text \<open>While the settings stay, every command comes round: the odd frames carry the transmit
  frequency, the frequencies of the \<open>n\<close> receivers and the eight other commands in turn, each once
  in \<open>n + 9\<close> blocks.\<close>

lemma p1_command_cycle:
  assumes "length b1 = 512" and "length b2 = 512" and "metis_offset t = 8" and "p1_command_loop t = 1" and "current_rx t = 0"
    and "device (tx_radio t) \<notin> {DEVICE_OZY, DEVICE_HERMES_LITE2}" and "n = how_many_receivers (anan10E (p1of t)) (tx_radio t)" and "0 < n"
    and "\<forall>blk \<in> set blks. length blk = 1008"
  shows "block_addrs blks (b1, b2, t) = map (\<lambda>j. round_addr n ! (j mod (n + 9))) [0..<length blks]"
proof -
  have "round_at n (i mod (n + 9)) s \<Longrightarrow> \<forall>blk \<in> set bs. length blk = 1008 \<Longrightarrow>
    block_addrs bs s = map (\<lambda>j. round_addr n ! ((i + j) mod (n + 9))) [0..<length bs]" for i s bs
  proof (induction bs arbitrary: i s)
    case (Cons blk bs)
    have l: "i mod (n + 9) < n + 9" "length blk = 1008" using Cons.prems(2) by simp_all
    note r = round_block [OF Cons.prems(1) l(1) assms(8) l(2) refl]
    have "round_at n ((i + 1) mod (n + 9)) (send_block blk s)"
      using r unfolding next_round [OF l(1)] by (simp add: mod_Suc_eq)
    from Cons.IH [OF this] Cons.prems(2) r show ?case
      by (simp add: map_upt_Suc Let_def del: upt_Suc)
  qed simp
  note steps = this [of 0 "(b1, b2, t)" blks]
  have "round_at n (0 mod (n + 9)) (b1, b2, t)"
    using assms(1-8) by (simp add: round_at_def cmd_pos_def round_pos_def nrx_def)
  from steps [OF this assms(9)] show ?thesis by simp
qed

end
