(* ===== verification/Block_Rings.thy ===== *)
theory Block_Rings
  imports Ring_Buffers
begin

text \<open>
  Rings of blocks inside an array of bytes. The rings for outgoing samples of both protocols are
  byte arrays of \<open>nb\<close> blocks of \<open>L\<close> bytes. A block is filled in place at the input index,
  sample by sample, and published by moving the index; the reader copies a whole block. The three
  rings differ in the sizes and in how the index wraps, which are the parameters of the locale
  \<open>block_ring\<close>. Inside, the array is shown to hold a queue of blocks that filling never touches.
\<close>

definition block_view :: "nat \<Rightarrow> nat \<Rightarrow> byte list \<Rightarrow> nat \<Rightarrow> nat \<Rightarrow> byte list ring" where
  "block_view nb L buf ip op = \<lparr>slots = map (\<lambda>k. take L (drop (L * k) buf)) [0..<nb], inptr = ip div L, outptr = op div L\<rparr>"

definition queued :: "nat \<Rightarrow> nat \<Rightarrow> byte list \<Rightarrow> nat \<Rightarrow> nat \<Rightarrow> byte list list" where
  "queued nb L buf ip op = ring_list nb (block_view nb L buf ip op)"

definition aligned :: "nat \<Rightarrow> nat \<Rightarrow> nat \<Rightarrow> bool" where
  "aligned nb L p \<longleftrightarrow> (\<exists>i < nb. p = L * i)"

locale block_ring =
  fixes nb L :: nat and nxt :: "nat \<Rightarrow> nat"
  assumes nb: "1 < nb" and L: "0 < L" and nxt: "i < nb \<Longrightarrow> nxt (L * i) = L * ((i + 1) mod nb)"

sublocale block_ring \<subseteq> idx: ring_index nb "\<lambda>i. (i + 1) mod nb"
  by unfold_locales (use nb in simp_all)

context block_ring
begin

lemma aligned_0: "aligned nb L 0"
  using nb by (auto simp: aligned_def intro: exI [of _ 0])

lemma aligned_nxt: "aligned nb L p \<Longrightarrow> aligned nb L (nxt p)"
proof -
  assume "aligned nb L p"
  then obtain i where "i < nb" "p = L * i" by (auto simp: aligned_def)
  then show ?thesis using nb nxt unfolding aligned_def by (intro exI [of _ "(i + 1) mod nb"]) simp
qed

lemma alignedE:
  assumes "aligned nb L p" obtains i where "i < nb" "p = L * i" "p div L = i"
  using assms L by (auto simp: aligned_def)

lemma view_ok: "aligned nb L ip \<Longrightarrow> aligned nb L op \<Longrightarrow> ring_ok nb (block_view nb L buf ip op)"
  using L by (auto simp: ring_ok_def block_view_def aligned_def)

lemma block_end: "i < nb \<Longrightarrow> L * i + L \<le> nb * L"
  using mult_le_mono1 [of "Suc i" nb L] by (simp add: mult.commute)

lemma fill_other:
  assumes "length buf = nb * L" and "i < nb" and "k < nb" and "k \<noteq> i" and "c + length bs \<le> L"
  shows "take L (drop (L * k) (put_bytes (L * i + c) bs buf)) = take L (drop (L * k) buf)"
proof (rule nth_equalityI)
  fix j assume "j < length (take L (drop (L * k) (put_bytes (L * i + c) bs buf)))"
  then have j: "j < L" "L * k + j < length buf" by auto
  have n: "\<not> (L * i + c \<le> L * k + j \<and> L * k + j < L * i + c + length bs)"
  proof (cases "k < i")
    case True
    then have "L * Suc k \<le> L * i" by (intro mult_le_mono2) simp
    then show ?thesis using j by simp
  next
    case False
    then have "L * Suc i \<le> L * k" using assms(4) by (intro mult_le_mono2) simp
    then show ?thesis using assms(5) by simp
  qed
  have "L * i + c + length bs \<le> length buf" using assms(1,5) block_end [OF assms(2)] by linarith
  from nth_put_bytes [OF this j(2)] n
  have "put_bytes (L * i + c) bs buf ! (L * k + j) = buf ! (L * k + j)" by (simp only: if_False)
  then show "take L (drop (L * k) (put_bytes (L * i + c) bs buf)) ! j = take L (drop (L * k) buf) ! j"
    using j by simp
qed simp

lemma fill_here:
  assumes "length buf = nb * L" and "i < nb" and "c + length bs \<le> L"
  shows "take (c + length bs) (drop (L * i) (put_bytes (L * i + c) bs buf)) = take c (drop (L * i) buf) @ bs"
proof (rule nth_equalityI)
  note l = block_end [OF assms(2)]
  show "length (take (c + length bs) (drop (L * i) (put_bytes (L * i + c) bs buf))) = length (take c (drop (L * i) buf) @ bs)"
    using assms l by simp
  fix j assume "j < length (take (c + length bs) (drop (L * i) (put_bytes (L * i + c) bs buf)))"
  then have j: "j < c + length bs" by simp
  have "L * i + c + length bs \<le> length buf" "L * i \<le> length buf" using assms l by linarith+
  then show "take (c + length bs) (drop (L * i) (put_bytes (L * i + c) bs buf)) ! j = (take c (drop (L * i) buf) @ bs) ! j"
    using j assms(1) l by (auto simp: nth_put_bytes nth_append)
qed

text \<open>Filling changes the slot of the input index only.\<close>

lemma view_fill:
  assumes "length buf = nb * L" and "i < nb" and "c + length bs \<le> L"
  shows "block_view nb L (put_bytes (L * i + c) bs buf) (L * i) op
    = (block_view nb L buf (L * i) op)\<lparr>slots := (slots (block_view nb L buf (L * i) op))[i := take L (drop (L * i) (put_bytes (L * i + c) bs buf))]\<rparr>"
proof -
  have "map (\<lambda>k. take L (drop (L * k) (put_bytes (L * i + c) bs buf))) [0..<nb]
      = (map (\<lambda>k. take L (drop (L * k) buf)) [0..<nb])[i := take L (drop (L * i) (put_bytes (L * i + c) bs buf))]"
  proof (rule nth_equalityI)
    fix k assume "k < length (map (\<lambda>k. take L (drop (L * k) (put_bytes (L * i + c) bs buf))) [0..<nb])"
    then have k: "k < nb" by simp
    then show "map (\<lambda>k. take L (drop (L * k) (put_bytes (L * i + c) bs buf))) [0..<nb] ! k
      = (map (\<lambda>k. take L (drop (L * k) buf)) [0..<nb])[i := take L (drop (L * i) (put_bytes (L * i + c) bs buf))] ! k"
      using fill_other [OF assms(1,2) k _ assms(3)] by (cases "k = i") simp_all
  qed simp
  then show ?thesis by (simp add: block_view_def)
qed

lemma free_slot:
  assumes "ring_ok nb r"
  shows "ring_list nb (r\<lparr>slots := (slots r)[inptr r := x]\<rparr>) = ring_list nb r"
proof -
  have "ring_count nb (r\<lparr>slots := (slots r)[inptr r := x]\<rparr>) = ring_count nb r" by (simp add: ring_count_def)
  moreover have "(slots r)[inptr r := x] ! ((outptr r + k) mod nb) = slots r ! ((outptr r + k) mod nb)"
    if "k < ring_count nb r" for k
    using idx.slot_free [OF assms that] by simp
  ultimately show ?thesis by (simp add: ring_list_def)
qed

lemma queued_fill:
  assumes "length buf = nb * L" and "aligned nb L ip" and "aligned nb L op" and "c + length bs \<le> L"
  shows "queued nb L (put_bytes (ip + c) bs buf) ip op = queued nb L buf ip op"
proof -
  obtain i where i: "i < nb" "ip = L * i" "ip div L = i" using assms(2) by (rule alignedE)
  let ?v = "block_view nb L buf (L * i) op" and ?x = "take L (drop (L * i) (put_bytes (L * i + c) bs buf))"
  have "inptr ?v = i" using L by (simp add: block_view_def)
  then have "ring_list nb (?v\<lparr>slots := (slots ?v)[i := ?x]\<rparr>) = ring_list nb ?v"
    using free_slot [OF view_ok [OF assms(2,3)], of buf ?x] by (simp add: i(2))
  then show ?thesis by (simp add: queued_def i(2) view_fill [OF assms(1) i(1) assms(4)])
qed

lemma put_block:
  assumes "aligned nb L ip" and "aligned nb L op"
  shows "ring_put (\<lambda>i. (i + 1) mod nb) x (block_view nb L buf ip op) = None \<longleftrightarrow> nxt ip = op"
proof -
  obtain i where i: "i < nb" "ip = L * i" "ip div L = i" using assms(1) by (rule alignedE)
  obtain j where j: "j < nb" "op = L * j" "op div L = j" using assms(2) by (rule alignedE)
  show ?thesis using i j L by (simp add: ring_put_def block_view_def Let_def nxt)
qed

lemma queued_length: "aligned nb L ip \<Longrightarrow> aligned nb L op \<Longrightarrow> length (queued nb L buf ip op) \<le> nb - 1"
  using idx.count_le [OF view_ok] by (simp add: queued_def ring_list_def)

lemma queued_full:
  assumes "aligned nb L ip" and "aligned nb L op"
  shows "nxt ip = op \<longleftrightarrow> length (queued nb L buf ip op) = nb - 1"
  using put_block [OF assms] idx.put_None [OF view_ok [OF assms]] by (simp add: queued_def ring_list_def)

lemma queued_empty:
  assumes "aligned nb L ip" and "aligned nb L op"
  shows "queued nb L buf ip op = [] \<longleftrightarrow> ip = op"
proof -
  obtain i where i: "i < nb" "ip = L * i" "ip div L = i" using assms(1) by (rule alignedE)
  obtain j where j: "j < nb" "op = L * j" "op div L = j" using assms(2) by (rule alignedE)
  have "ring_get (\<lambda>i. (i + 1) mod nb) (block_view nb L buf ip op) = None \<longleftrightarrow> ip = op"
    using i j L by (simp add: ring_get_def block_view_def)
  then show ?thesis using idx.get_None [OF view_ok [OF assms]] by (simp add: queued_def)
qed

text \<open>The last bytes of a block and the move of the input index publish it.\<close>

lemma queued_publish:
  assumes "length buf = nb * L" and "aligned nb L ip" and "aligned nb L op" and "c + length bs = L" and "nxt ip \<noteq> op"
  shows "queued nb L (put_bytes (ip + c) bs buf) (nxt ip) op = queued nb L buf ip op @ [take c (drop ip buf) @ bs]"
proof -
  obtain i where i: "i < nb" "ip = L * i" "ip div L = i" using assms(2) by (rule alignedE)
  let ?x = "take c (drop ip buf) @ bs" and ?v = "block_view nb L buf ip op"
  have blk: "take L (drop (L * i) (put_bytes (L * i + c) bs buf)) = ?x"
    using fill_here [OF assms(1) i(1), of c bs] assms(4) by (simp add: i(2))
  have "ring_put (\<lambda>i. (i + 1) mod nb) ?x ?v \<noteq> None" using put_block [OF assms(2,3)] assms(5) by blast
  then have "ring_put (\<lambda>i. (i + 1) mod nb) ?x ?v = Some (?v\<lparr>slots := (slots ?v)[i := ?x], inptr := (i + 1) mod nb\<rparr>)"
    using L by (auto simp: ring_put_def Let_def block_view_def i split: if_splits)
  moreover have "block_view nb L (put_bytes (ip + c) bs buf) (nxt ip) op = ?v\<lparr>slots := (slots ?v)[i := ?x], inptr := (i + 1) mod nb\<rparr>"
  proof -
    have "nxt ip div L = (i + 1) mod nb" using L by (simp add: i(2) nxt [OF i(1)])
    moreover have "slots (block_view nb L (put_bytes (ip + c) bs buf) ip op) = (slots ?v)[i := ?x]"
      using view_fill [OF assms(1) i(1), of c bs op] assms(4) blk by (simp add: i(2))
    ultimately show ?thesis by (simp add: block_view_def)
  qed
  ultimately show ?thesis
    using idx.put_Some [OF view_ok [OF assms(2,3)]] by (simp add: queued_def)
qed

text \<open>The reader takes the oldest block.\<close>

lemma queued_take:
  assumes "aligned nb L ip" and "aligned nb L op" and "ip \<noteq> op"
  shows "queued nb L buf ip op = take L (drop op buf) # queued nb L buf ip (nxt op)"
proof -
  obtain i where i: "i < nb" "ip = L * i" "ip div L = i" using assms(1) by (rule alignedE)
  obtain j where j: "j < nb" "op = L * j" "op div L = j" using assms(2) by (rule alignedE)
  have "ring_get (\<lambda>i. (i + 1) mod nb) (block_view nb L buf ip op) = Some (take L (drop op buf), block_view nb L buf ip (nxt op))"
    using assms(3) i j L by (simp add: ring_get_def block_view_def nxt)
  from idx.get_Some [OF view_ok [OF assms(1,2)] this] show ?thesis by (simp add: queued_def)
qed

lemma block_length:
  assumes "length buf = nb * L" and "aligned nb L op"
  shows "length (take L (drop op buf)) = L"
proof -
  obtain j where j: "j < nb" "op = L * j" "op div L = j" using assms(2) by (rule alignedE)
  show ?thesis using block_end [OF j(1)] by (simp add: assms(1) j(2))
qed

end

end
