(* ===== verification/P1_TxRing.thy ===== *)
theory P1_TxRing
  imports Block_Rings
begin

text \<open>
  The ring between the DSP threads and the sender of protocol 1
  (\<^verbatim>\<open>old_protocol_audio_samples\<close>, \<^verbatim>\<open>old_protocol_iq_samples\<close> and the first half of
  \<^verbatim>\<open>old_protocol_txiq_thread\<close> in \<^verbatim>\<open>src/src/old_protocol.c\<close>): 32 blocks of 126 samples of
  eight bytes, one mutex. A block is filled in place at \<open>txring_inptr\<close> and published when it is
  complete; \<open>txring_count\<close> counts its samples, or, when negative, the samples still to be
  dropped after an overflow.

  Blocks are queued in order (an instance of the ring of theory \<open>Ring_Buffers\<close>), samples are
  converted without overflow, but the first block after a change between receiving and
  transmitting begins with stale bytes.
\<close>

subsection \<open>Conversion\<close>

text \<open>\<open>(int32_t)(x * 32766.672 + 32767.5) - 32767\<close>, and the two bytes stored for it.\<close>

definition to_int16 :: "real \<Rightarrow> int" where
  "to_int16 x = c_trunc (x * 32766.672 + 32767.5) - 32767"

definition be16 :: "int \<Rightarrow> byte list" where
  "be16 s = [byte_at 8 s, byte_at 0 s]"

text \<open>How the radio reads them: a signed 16 bit number.\<close>

definition of_be16 :: "byte list \<Rightarrow> int" where
  "of_be16 bs = signed_take_bit 15 (256 * uint (bs ! 0) + uint (bs ! 1))"

lemma of_be16_be16:
  assumes "- 32768 \<le> s" and "s \<le> 32767"
  shows "of_be16 (be16 s) = s"
proof -
  have "256 * uint (byte_at 8 s) + uint (byte_at 0 s) = s mod 65536"
    using zmod_zmult2_eq [of 256 s 256] by (simp add: uint_byte_at)
  moreover have "signed_take_bit 15 (s mod 65536) = signed_take_bit 15 s"
    using signed_take_bit_take_bit [of 15 16 s] by (simp add: take_bit_eq_mod)
  ultimately show ?thesis
    using assms by (simp add: of_be16_def be16_def signed_take_bit_int_eq_self)
qed

text \<open>Audio and TX samples between -1 and 1 are converted without wrap-around: the radio reads
  back a number between -32767 and 32767 that differs from the scaled sample by at most half a
  unit.\<close>

lemma sample_conversion:
  assumes "- 1 \<le> x" and "x \<le> 1"
  shows "of_be16 (be16 (to_int16 x)) = to_int16 x \<and> \<bar>to_int16 x\<bar> \<le> 32767
    \<and> \<bar>real_of_int (to_int16 x) - x * 32766.672\<bar> \<le> 1 / 2"
proof -
  have nn: "0 \<le> x * 32766.672 + 32767.5" using assms by simp
  define f where "f = \<lfloor>x * 32766.672 + 32767.5\<rfloor>"
  have t: "to_int16 x = f - 32767" using nn by (simp add: to_int16_def c_trunc_def f_def)
  have f: "real_of_int f \<le> x * 32766.672 + 32767.5" "x * 32766.672 + 32767.5 < real_of_int f + 1"
    by (simp_all add: f_def)
  have "0 \<le> f" unfolding f_def using nn by simp
  moreover have "real_of_int f < 65535" using f(1) assms(2) by simp
  ultimately have b: "\<bar>to_int16 x\<bar> \<le> 32767" unfolding t by linarith
  then have "of_be16 (be16 (to_int16 x)) = to_int16 x" by (intro of_be16_be16) linarith+
  moreover have "\<bar>real_of_int (to_int16 x) - x * 32766.672\<bar> \<le> 1 / 2"
  proof -
    have "real_of_int (to_int16 x) = real_of_int f - 32767" by (simp add: t)
    then show ?thesis unfolding abs_le_iff using f by linarith
  qed
  ultimately show ?thesis using b by blast
qed

subsection \<open>The ring\<close>

abbreviation (input) "TXRINGBUFLEN \<equiv> 32256 :: nat"

record tx_ring =
  TXRINGBUF :: "byte list"
  txring_inptr :: nat
  txring_outptr :: nat
  txring_flag :: bool
  txring_count :: int
  txring_sem :: nat

definition tx_next :: "nat \<Rightarrow> nat" where
  "tx_next p = (let nptr = p + 1008 in if TXRINGBUFLEN \<le> nptr then 0 else nptr)"

text \<open>The end of both functions: one sample is stored, and a complete block published.\<close>

definition tx_sample_done :: "tx_ring \<Rightarrow> tx_ring" where
  "tx_sample_done b = (
     let b = b\<lparr>txring_count := txring_count b + 1\<rparr>
     in if 126 \<le> txring_count b then
          let nptr = tx_next (txring_inptr b)
          in if nptr \<noteq> txring_outptr b then b\<lparr>txring_inptr := nptr, txring_sem := txring_sem b + 1, txring_count := 0\<rparr>
             else b\<lparr>txring_count := - 1260\<rparr>
        else b)"

text \<open>Their common body: eight bytes of one sample, during reception or transmission.\<close>

definition tx_put :: "bool \<Rightarrow> byte list \<Rightarrow> tx_ring \<Rightarrow> tx_ring" where
  "tx_put xmit bs b = (
     if txring_count b < 0 then b\<lparr>txring_count := txring_count b + 1\<rparr>
     else
       let b = (if txring_flag b \<noteq> xmit then b\<lparr>txring_inptr := txring_outptr b, txring_flag := xmit\<rparr> else b);
           iptr = txring_inptr b + 8 * nat (txring_count b)
       in tx_sample_done (b\<lparr>TXRINGBUF := put_bytes iptr bs (TXRINGBUF b)\<rparr>))"

text \<open>\<open>silent\<close>: a HermesLite-II without audio codec, which uses these bytes for something else.\<close>

definition audio_bytes :: "bool \<Rightarrow> real \<Rightarrow> real \<Rightarrow> byte list" where
  "audio_bytes silent l r = (if silent then [0, 0, 0, 0] else be16 (to_int16 l) @ be16 (to_int16 r))"

definition old_protocol_audio_samples :: "bool \<Rightarrow> bool \<Rightarrow> real \<Rightarrow> real \<Rightarrow> tx_ring \<Rightarrow> tx_ring" where
  "old_protocol_audio_samples xmit silent l r b =
     (if \<not> xmit then tx_put False (audio_bytes silent l r @ [0, 0, 0, 0]) b else b)"

definition iq_bytes :: "bool \<Rightarrow> real \<Rightarrow> real \<Rightarrow> byte list" where
  "iq_bytes hl2 i q = (
     let is = to_int16 i; qs = to_int16 q in
     if hl2 then [byte_at 8 is, byte_at 0 is AND 0xFE, byte_at 8 qs, byte_at 0 qs AND 0xFE] else be16 is @ be16 qs)"

definition old_protocol_iq_samples :: "bool \<Rightarrow> bool \<Rightarrow> bool \<Rightarrow> real \<Rightarrow> real \<Rightarrow> real \<Rightarrow> tx_ring \<Rightarrow> tx_ring" where
  "old_protocol_iq_samples xmit hl2 silent i q side b =
     (if xmit then tx_put True (audio_bytes silent side side @ iq_bytes hl2 i q) b else b)"

text \<open>The sender, after \<open>sem_wait\<close>: the block it takes, if there is one.\<close>

definition tx_take :: "tx_ring \<Rightarrow> byte list option \<times> tx_ring" where
  "tx_take b = (
     let b = b\<lparr>txring_sem := txring_sem b - 1\<rparr> in
     if txring_inptr b = txring_outptr b then (None, b)
     else (Some (take 1008 (drop (txring_outptr b) (TXRINGBUF b))), b\<lparr>txring_outptr := tx_next (txring_outptr b)\<rparr>))"

subsection \<open>Blocks\<close>

lemma tx_block_ring: "block_ring 32 1008 tx_next"
  by unfold_locales (auto simp: tx_next_def Let_def mod_Suc)

interpretation txb: block_ring 32 1008 tx_next
  by (rule tx_block_ring)

definition tx_ring_ok :: "tx_ring \<Rightarrow> bool" where
  "tx_ring_ok b \<longleftrightarrow> length (TXRINGBUF b) = 32 * 1008
     \<and> aligned 32 1008 (txring_inptr b) \<and> aligned 32 1008 (txring_outptr b) \<and> txring_count b < 126"

text \<open>The bytes of the block being filled, and everything the radio is still going to get.\<close>

definition partial :: "tx_ring \<Rightarrow> byte list" where
  "partial b = take (8 * nat (txring_count b)) (drop (txring_inptr b) (TXRINGBUF b))"

definition queued_blocks :: "tx_ring \<Rightarrow> byte list list" where
  "queued_blocks b = queued 32 1008 (TXRINGBUF b) (txring_inptr b) (txring_outptr b)"

subsection \<open>Samples in, packets out\<close>

lemma tx_put_skip: "txring_count b < 0 \<Longrightarrow> tx_put xmit bs b = b\<lparr>txring_count := txring_count b + 1\<rparr>"
  by (simp add: tx_put_def)

lemma tx_put_part:
  assumes "0 \<le> txring_count b" and "txring_count b < 125" and "txring_flag b = xmit"
  shows "tx_put xmit bs b = b\<lparr>TXRINGBUF := put_bytes (txring_inptr b + 8 * nat (txring_count b)) bs (TXRINGBUF b),
    txring_count := txring_count b + 1\<rparr>"
  using assms by (simp add: tx_put_def tx_sample_done_def Let_def)

lemma tx_put_last:
  assumes "txring_count b = 125" and "txring_flag b = xmit"
  shows "tx_put xmit bs b = (let nptr = tx_next (txring_inptr b);
      b' = b\<lparr>TXRINGBUF := put_bytes (txring_inptr b + 1000) bs (TXRINGBUF b)\<rparr>
    in if nptr \<noteq> txring_outptr b
       then b'\<lparr>txring_count := 0, txring_inptr := nptr, txring_sem := txring_sem b + 1\<rparr>
       else b'\<lparr>txring_count := - 1260\<rparr>)"
  using assms by (simp add: tx_put_def tx_sample_done_def Let_def)

lemma tx_ring_ok_put: "tx_ring_ok b \<Longrightarrow> tx_ring_ok (tx_put xmit bs b)"
  using txb.aligned_nxt by (auto simp: tx_ring_ok_def tx_put_def tx_sample_done_def Let_def)

lemma partial_put:
  assumes "tx_ring_ok b" and "0 \<le> txring_count b" and "txring_count b < 125" and "length bs = 8"
  shows "partial (b\<lparr>TXRINGBUF := put_bytes (txring_inptr b + 8 * nat (txring_count b)) bs (TXRINGBUF b),
    txring_count := txring_count b + 1\<rparr>) = partial b @ bs"
proof -
  obtain i where i: "i < 32" "txring_inptr b = 1008 * i"
    using assms(1) by (auto simp: tx_ring_ok_def aligned_def)
  have len: "length (TXRINGBUF b) = 32 * 1008" using assms(1) by (simp add: tx_ring_ok_def)
  have n: "8 * nat (txring_count b + 1) = 8 * nat (txring_count b) + length bs" using assms(2,4) by simp
  show ?thesis
    using txb.fill_here [OF len i(1), of "8 * nat (txring_count b)" bs] assms(2,3,4)
    by (simp add: partial_def i n del: take_append)
qed

text \<open>A sample that continues in the direction of the previous one (receive audio or transmit
  I/Q) is appended behind everything that is waiting; the 126th completes a block, which is
  handed to the sender unless 31 blocks are waiting: then that block is lost as a whole and so
  are the next 1260 samples. Blocks already queued are never touched.\<close>

lemma tx_ring_step:
  assumes "tx_ring_ok b" and "txring_flag b = xmit" and "length bs = 8"
  shows "tx_ring_ok (tx_put xmit bs b)
    \<and> (if txring_count b < 0 then txring_count (tx_put xmit bs b) = txring_count b + 1
         \<and> queued_blocks (tx_put xmit bs b) = queued_blocks b \<and> partial (tx_put xmit bs b) = []
       else if txring_count b < 125 then queued_blocks (tx_put xmit bs b) = queued_blocks b
         \<and> partial (tx_put xmit bs b) = partial b @ bs
       else if length (queued_blocks b) < 31 then queued_blocks (tx_put xmit bs b) = queued_blocks b @ [partial b @ bs]
         \<and> partial (tx_put xmit bs b) = [] \<and> txring_sem (tx_put xmit bs b) = txring_sem b + 1
       else queued_blocks (tx_put xmit bs b) = queued_blocks b
         \<and> partial (tx_put xmit bs b) = [] \<and> txring_count (tx_put xmit bs b) = - 1260)"
proof -
  have ok: "tx_ring_ok (tx_put xmit bs b)" by (rule tx_ring_ok_put [OF assms(1)])
  have b: "length (TXRINGBUF b) = 32 * 1008" "aligned 32 1008 (txring_inptr b)" "aligned 32 1008 (txring_outptr b)"
    using assms(1) by (simp_all add: tx_ring_ok_def)
  note fill = txb.queued_fill [OF b, of "8 * nat (txring_count b)" bs]
  note full = txb.queued_full [OF b(2,3), of "TXRINGBUF b"] and le = txb.queued_length [OF b(2,3), of "TXRINGBUF b"]
  consider "txring_count b < 0" | "0 \<le> txring_count b" "txring_count b < 125" | "txring_count b = 125"
    using assms(1) by (fastforce simp: tx_ring_ok_def)
  then show ?thesis
  proof cases
    case 1
    then show ?thesis using ok by (simp add: tx_put_skip partial_def queued_blocks_def)
  next
    case 2
    have "8 * nat (txring_count b) + length bs \<le> 1008" using 2 assms(3) by linarith
    from fill [OF this] partial_put [OF assms(1) 2 assms(3)] show ?thesis
      using ok 2 by (simp add: tx_put_part [OF 2 assms(2)] queued_blocks_def)
  next
    case 3
    have "1000 + length bs = 1008" using assms(3) by simp
    from txb.queued_publish [OF b this] fill show ?thesis
      using ok 3 full le assms(3) by (simp add: tx_put_last [OF 3 assms(2)] Let_def partial_def queued_blocks_def)
  qed
qed

text \<open>The sender takes the oldest block; with none waiting (the semaphore can be ahead of the
  ring after a reset) it goes back to sleep.\<close>

lemma tx_ring_take:
  assumes "tx_ring_ok b"
  shows "case tx_take b of
      (None, b') \<Rightarrow> queued_blocks b = [] \<and> queued_blocks b' = [] \<and> partial b' = partial b
    | (Some blk, b') \<Rightarrow> tx_ring_ok b' \<and> queued_blocks b = blk # queued_blocks b' \<and> partial b' = partial b \<and> length blk = 1008"
proof -
  have b: "length (TXRINGBUF b) = 32 * 1008" "aligned 32 1008 (txring_inptr b)" "aligned 32 1008 (txring_outptr b)"
    using assms(1) by (simp_all add: tx_ring_ok_def)
  show ?thesis
  proof (cases "txring_inptr b = txring_outptr b")
    case True
    then show ?thesis
      using txb.queued_empty [OF b(2,3)] by (simp add: tx_take_def Let_def partial_def queued_blocks_def)
  next
    case False
    then show ?thesis
      using txb.queued_take [OF b(2,3) False, of "TXRINGBUF b"] txb.block_length [OF b(1,3)] txb.aligned_nxt [OF b(3)] assms
      by (simp add: tx_take_def Let_def partial_def queued_blocks_def tx_ring_ok_def)
  qed
qed

text \<open>At a change between receiving and transmitting the queue is dropped, but
  \<open>txring_count\<close> keeps its value: the first packet after the change begins with
  \<open>txring_count\<close> samples of the oldest packet of the direction just left.\<close>

lemma stale_samples:
  assumes "tx_ring_ok b" and "txring_flag b \<noteq> xmit" and "0 \<le> txring_count b" and "txring_count b < 125"
    and "queued_blocks b = blk # rest" and "length bs = 8"
  shows "queued_blocks (tx_put xmit bs b) = []
    \<and> partial (tx_put xmit bs b) = take (8 * nat (txring_count b)) blk @ bs"
proof -
  have b: "length (TXRINGBUF b) = 32 * 1008" "aligned 32 1008 (txring_inptr b)" "aligned 32 1008 (txring_outptr b)"
    using assms(1) by (simp_all add: tx_ring_ok_def)
  let ?b = "b\<lparr>txring_inptr := txring_outptr b, txring_flag := xmit\<rparr>"
  have okb: "tx_ring_ok ?b" using assms(1) by (simp add: tx_ring_ok_def)
  have e: "tx_put xmit bs b = tx_put xmit bs ?b" using assms(2,3) by (simp add: tx_put_def)
  have q: "queued_blocks ?b = []" using txb.queued_empty [OF b(3,3)] by (simp add: queued_blocks_def)
  have "txring_inptr b \<noteq> txring_outptr b"
    using assms(5) txb.queued_empty [OF b(2,3)] by (auto simp: queued_blocks_def)
  then have "blk = take 1008 (drop (txring_outptr b) (TXRINGBUF b))"
    using assms(5) txb.queued_take [OF b(2,3)] by (simp add: queued_blocks_def)
  moreover have "8 * nat (txring_count b) \<le> 1008" using assms(3,4) by linarith
  ultimately have p: "partial ?b = take (8 * nat (txring_count b)) blk" by (simp add: partial_def min_def)
  have c: "0 \<le> txring_count ?b" "txring_count ?b < 125" "txring_flag ?b = xmit" using assms(3,4) by simp_all
  have "8 * nat (txring_count ?b) + length bs \<le> 1008" using c assms(6) by linarith
  from txb.queued_fill [OF b(1,3,3) this] partial_put [OF okb c(1,2) assms(6)] show ?thesis
    using q unfolding e tx_put_part [OF c] p [symmetric] by (simp add: queued_blocks_def)
qed

end
