(* ===== verification/P1_Examples.thy ===== *)
theory P1_Examples
  imports Sample_Radio P1_Rx_Safety P1_Tx_Facts P1_TxRing
begin

text \<open>
  The properties of protocol 1 on a concrete radio: a Hermes with two receivers that is in sync,
  with the program's settings at their defaults.
\<close>

definition p1_0 :: p1 where
  "p1_0 = \<lparr>radio = radio0, anan10E = False, pstate = SYNC_0, control_in = replicate 5 0,
     hpsdr_ptt = False, hpsdr_dot = False, hpsdr_dash = False, CAT_cw_is_active = False,
     MIDI_cw_is_active = False, cw_key_hit = False, enable_tx_inhibit = False, enable_auto_tune = False,
     auto_tune_flag = False, auto_tune_end = False, hl2_iob_present = False, tx_fifo_flag = False,
     tx_fifo_underrun = False, tx_fifo_overrun = False, mercury_software_version = (\<lambda>_. 0),
     fwd_acc = 0, rev_acc = 0, ex_acc = 0, adc0_acc = 0, adc1_acc = 0, exciter_power = 0,
     alex_forward_power = 0, alex_reverse_power = 0, ADC0 = 0, ADC1 = 0, st_num_hpsdr_receivers = 2,
     st_rxfdbk = 2, st_txfdbk = 3, nreceiver = 0, nsamples = 0, iq_samples = 36, left_sample = 0,
     right_sample = 0, left_right = (0, 0), iq_rx = (0, 0), iq_tx = (0, 0), iq_main = (0, 0),
     iq_aux = (0, 0), next_mic_sample = 0, mic_samples = 0, mic_sample_divisor = 1, p1_calls = []\<rparr>"

definition conf_0 :: p1_conf where
  "conf_0 = \<lparr>atlas_mic_source = False, atlas_clock_source_128mhz = False, atlas_clock_source_10mhz = 0,
     OCtune = 0, have_alex_att = False, new_pa_board = False, hl2_audio_codec = False, hl2_ah4_atu = False,
     hl2_cl1_input = False, mic_boost = False, mic_linein = False, have_preamp = False,
     orion_mic_ptt_enabled = False, orion_mic_bias_enabled = False, orion_mic_ptt_tip = False,
     linein_gain = 0, n_adc = 1, conf_keys_reversed = False, conf_keyer_speed = 16, conf_keyer_mode = 0,
     conf_keyer_weight = 50, conf_keyer_spacing = 0, conf_keyer_ptt_delay = 30, conf_keyer_hang_time = 500,
     conf_sidetone_volume = 50\<rparr>"

definition tx_0 :: p1_tx where
  "tx_0 = \<lparr>p1of = p1_0, conf = conf_0, metis_offset = 8, current_rx = 0, p1_command_loop = 1,
     metis_buffer = replicate 1032 0, send_sequence = 0, sent = [], hl2_last_tune = False,
     hl2_command_loop = 0, hl2_query_count = 0, hl2_iob_tx_freq = 0, hl2_iob_rx1_code = 0,
     hl2_iob_rx2_code = 0, hl2_iob_rfmode = 0, hl2_cl1_loop = 0, hl2_old_cl1_setting = False,
     hl2_new_cl1_setting = False\<rparr>"

lemma p1_0_simps [simp]:
  "radio p1_0 = radio0" "pstate p1_0 = SYNC_0" "control_in p1_0 = replicate 5 0" "anan10E p1_0 = False"
  "st_num_hpsdr_receivers p1_0 = 2" "nreceiver p1_0 = 0" "nsamples p1_0 = 0" "iq_samples p1_0 = 36"
  "\<not> CAT_cw_is_active p1_0" "p1_calls p1_0 = []"
  by (simp_all add: p1_0_def)

lemma tx_0_simps [simp]:
  "p1of tx_0 = p1_0" "metis_offset tx_0 = 8" "current_rx tx_0 = 0" "p1_command_loop tx_0 = 1" "sent tx_0 = []"
  "send_sequence tx_0 = 0" "length (metis_buffer tx_0) = 1032"
  by (simp_all add: tx_0_def)

lemma device_0 [simp]: "device radio0 = DEVICE_HERMES"
  by (simp add: radio0_def)

lemma how_many_0: "how_many_receivers False radio0 = 2"
  by (simp add: how_many_receivers_def puresignal_def sample_tx_def Let_def radio0_def)

subsection \<open>Decoding\<close>

definition slots_0 :: "slot list" where
  "slots_0 = replicate 36 ([(1, 2), (3, 4)], 5)"

theorem p1_buffer_decoded_example:
  "pstate (process_ozy_input_buffer (replicate 8 0 @ frame_bytes (replicate 5 0) slots_0 []
     @ frame_bytes (replicate 5 0) slots_0 []) p1_0) = SYNC_0"
proof -
  have "0x7F \<notin> set ([] @ [] :: byte list)" by simp
  from p1_buffer_decoded [OF _ _ _ refl refl refl _ _ _ _ _ _ this refl refl refl refl,
      where p = p1_0 and hdr = "replicate 8 0" and ?cc1.0 = "replicate 5 0" and ?cc2.0 = "replicate 5 0"
        and ?ss1.0 = slots_0 and ?ss2.0 = slots_0]
  show ?thesis by (simp add: how_many_0 slots_0_def)
qed


lemma readings_bounded_example: "readings_ok (fold process_ozy_byte (replicate 600 0x7F) p1_0)"
  by (rule readings_bounded) (simp add: readings_ok_def p1_0_def)

lemma tx_inhibit_status_example:
  "TxInhibit (radio (process_control_bytes (p1_0\<lparr>enable_tx_inhibit := True, control_in := [1, 0, 0, 0, 0]\<rparr>)))"
  using tx_inhibit_status [OF _ _ refl refl, of "p1_0\<lparr>enable_tx_inhibit := True, control_in := [1, 0, 0, 0, 0]\<rparr>"]
  by (simp add: drop_bit_eq_div)

subsection \<open>Commands\<close>

definition radio_tx :: radio_state where
  "radio_tx = radio0\<lparr>mox := True\<rparr>"

theorem p1_mox_bit_example:
  "bit (fst (ozy_send_buffer (replicate 512 0) (tx_0\<lparr>p1of := p1_0\<lparr>radio := radio_tx, CAT_cw_is_active := True\<rparr>\<rparr>)) ! 3) 0"
  using p1_mox_bit [of "replicate 512 0" "tx_0\<lparr>p1of := p1_0\<lparr>radio := radio_tx, CAT_cw_is_active := True\<rparr>\<rparr>"]
  by (simp add: radio_tx_def radio_is_transmitting_def)

definition radio_low :: radio_state where
  "radio_low = radio0\<lparr>vfo := (\<lambda>_. sample_vfo\<lparr>v_frequency := 13999000\<rparr>)\<rparr>"

lemma txband_low: "txband radio_low = init_bands ! 7" "TXfreq radio_low = 13999000"
  by (simp_all add: txband_def TXfreq_def vfo_get_tx_vfo_def band_get_band_def radio_low_def sample_vfo_def Let_def)

lemma p1_drive_in_band_example:
  "fst (ozy_send_buffer (replicate 512 0)
     (tx_0\<lparr>metis_offset := 520, p1_command_loop := 3, p1of := p1_0\<lparr>radio := radio_low\<rparr>\<rparr>)) ! 4 = 0"
  by (rule p1_drive_in_band) (simp_all add: txband_low init_bands_def, simp add: radio_low_def)

lemma p1_frequency_command_example:
  "\<exists>frame. unat (drop_bit 1 (frame ! 3 :: byte)) = 1
     \<and> of_be (take 4 (drop 4 frame)) = channel_freq False None radio0 mod 2 ^ 32"
  using p1_frequency_command [OF _ _ _ _ refl, of "replicate 512 0" "tx_0\<lparr>metis_offset := 520\<rparr>" None 1]
  by (simp, blast)

lemma p1_packet_example:
  "\<exists>f1 f2 t'. send_block (replicate 1008 0) (replicate 512 0, replicate 512 0, tx_0) = (f1, f2, t')
     \<and> drop 8 f1 @ drop 8 f2 = replicate 1008 0 \<and> length (sent t') = 1"
proof -
  obtain f1 f2 t' where s: "send_block (replicate 1008 0) (replicate 512 0, replicate 512 0, tx_0) = (f1, f2, t')"
    by (cases "send_block (replicate 1008 0) (replicate 512 0, replicate 512 0, tx_0)") auto
  from p1_packet [OF _ _ _ _ _ this] s show ?thesis by auto
qed

lemma p1_command_cycle_example:
  "block_addrs (replicate 11 (replicate 1008 0)) (replicate 512 0, replicate 512 0, tx_0)
     = [0x02, 0x04, 0x06, 0x12, 0x14, 0x16, 0x1C, 0x1E, 0x20, 0x22, 0x24]"
  using p1_command_cycle [of "replicate 512 0" "replicate 512 0" tx_0 2 "replicate 11 (replicate 1008 0)"]
  by (simp add: how_many_0 round_addr_def upt_rec)

subsection \<open>The transmit ring\<close>

lemma sample_conversion_example:
  "of_be16 (be16 (to_int16 (1 / 2))) = to_int16 (1 / 2) \<and> \<bar>to_int16 (1 / 2)\<bar> \<le> 32767"
  using sample_conversion [of "1 / 2"] by simp

definition txring_0 :: tx_ring where
  "txring_0 = \<lparr>TXRINGBUF = replicate 32256 0, txring_inptr = 0, txring_outptr = 0, txring_flag = False,
     txring_count = 125, txring_sem = 0\<rparr>"

lemma txring_0: "tx_ring_ok txring_0" "queued_blocks txring_0 = []"
  using txb.aligned_0 txb.queued_empty [OF txb.aligned_0 txb.aligned_0]
  by (simp_all add: tx_ring_ok_def queued_blocks_def txring_0_def)

lemma tx_ring_step_example:
  "queued_blocks (tx_put False (replicate 8 1) txring_0) = [partial txring_0 @ replicate 8 1]"
  using tx_ring_step [OF txring_0(1), of False "replicate 8 1"] txring_0(2) by (simp add: txring_0_def)

definition txring_1 :: tx_ring where
  "txring_1 = txring_0\<lparr>txring_inptr := 1008, txring_count := 3\<rparr>"

lemma txring_1: "tx_ring_ok txring_1" "queued_blocks txring_1 = [take 1008 (replicate 32256 0)]"
proof -
  have a: "aligned 32 1008 1008" using txb.aligned_nxt [OF txb.aligned_0] by (simp add: tx_next_def)
  then show "tx_ring_ok txring_1" using txring_0(1) by (simp add: tx_ring_ok_def txring_1_def txring_0_def)
  have "queued 32 1008 (replicate 32256 0) 1008 1008 = []" using txb.queued_empty [OF a a] by simp
  then show "queued_blocks txring_1 = [take 1008 (replicate 32256 0)]"
    using txb.queued_take [OF a txb.aligned_0, of "replicate 32256 0"]
    by (simp add: queued_blocks_def txring_1_def txring_0_def tx_next_def)
qed

lemma tx_ring_take_example: "case tx_take txring_1 of (None, b) \<Rightarrow> False | (Some blk, b) \<Rightarrow> length blk = 1008"
  using tx_ring_take [OF txring_1(1)] txring_1(2) by (auto split: prod.splits option.splits)

lemma stale_samples_example:
  "partial (tx_put True (replicate 8 1) txring_1) = take 24 (take 1008 (replicate 32256 0)) @ replicate 8 1"
proof -
  have "txring_flag txring_1 \<noteq> True" "0 \<le> txring_count txring_1" "txring_count txring_1 < 125"
    by (simp_all add: txring_1_def txring_0_def)
  from stale_samples [OF txring_1(1) this txring_1(2), of "replicate 8 1"]
  show ?thesis by (simp add: txring_1_def)
qed

end
