(* ===== verification/P2_Tx.thy ===== *)
theory P2_Tx
  imports P1_Tx
begin

text \<open>
  Protocol 2, towards the radio (\<^verbatim>\<open>src/src/new_protocol.c\<close>): the four command packets
  (\<open>new_protocol_general\<close>, \<open>new_protocol_high_priority\<close>, \<open>new_protocol_transmit_specific\<close>,
  \<open>new_protocol_receive_specific\<close>), the table that says what is done with the packets of
  each receiver of the radio (\<open>update_action_table\<close>), the restart (\<open>new_protocol_menu_start\<close>)
  and the timer thread.

  Globals that both protocols use are those of the record \<open>p1\<close>, settings those of \<open>p1_conf\<close>;
  the rest is in the records \<open>p2_conf\<close> and \<open>p2\<close>. Packets are appended to the trace
  \<open>p2_sent\<close>, whether they go to the network or to the FPGA; \<open>network_up\<close> tells whether
  \<open>sendto\<close> succeeds.
\<close>

subsection \<open>State\<close>

record p2_conf =
  rigctl_tcp :: "int option"          \<comment> \<open>\<open>rigctl_tcp_port\<close>, if \<open>rigctl_tcp_running()\<close>\<close>
  mute_spkr_amp :: bool
  mute_spkr_xmit :: bool
  have_saturn_xdma :: bool
  conf_cw_breakin :: bool
  conf_cw_ramp_width :: int
  g2_mic_input_xlr :: bool

datatype rxaction = RXACTION_SKIP | RXACTION_RX1 | RXACTION_RX2 | RXACTION_PS | RXACTION_DIV

datatype p2_packet = General_p2 "byte list" | High_priority_p2 "byte list"
  | Transmit_specific_p2 "byte list" | Receive_specific_p2 "byte list"

record p2 =
  glob :: p1
  conf2 :: p1_conf
  conf2x :: p2_conf
  data_socket :: bool                 \<comment> \<open>\<open>data_socket\<close> is not \<open>-1\<close>\<close>
  network_up :: bool
  P2running :: bool
  general_sequence :: u32
  highprio_sent_sequence :: u32
  rx_specific_sequence :: u32
  tx_specific_sequence :: u32
  rxcase :: "rxaction list"
  p2_sent :: "p2_packet list"

abbreviation p2_radio :: "p2 \<Rightarrow> radio_state" where "p2_radio p \<equiv> radio (glob p)"

definition p2_send :: "p2_packet \<Rightarrow> p2 \<Rightarrow> p2" where
  "p2_send pkt p = (if have_saturn_xdma (conf2x p) \<or> network_up p then p\<lparr>p2_sent := p2_sent p @ [pkt]\<rparr>
     else p\<lparr>P2running := False\<rparr>)"

definition p2_xmit :: "p2 \<Rightarrow> bool" where
  "p2_xmit p \<longleftrightarrow> radio_is_transmitting (p2_radio p) \<or> hpsdr_ptt (glob p)"

text \<open>Radios that use the pair 2 and 3 for reception, and those with band pass filters.\<close>

definition newdev :: "device \<Rightarrow> bool" where
  "newdev d \<longleftrightarrow> d = NEW_DEVICE_ANGELIA \<or> d = NEW_DEVICE_ORION \<or> d = NEW_DEVICE_ORION2 \<or> d = NEW_DEVICE_SATURN"

definition bpfdev :: "device \<Rightarrow> bool" where
  "bpfdev d \<longleftrightarrow> d = NEW_DEVICE_ORION2 \<or> d = NEW_DEVICE_SATURN \<or> d = NEW_DEVICE_G2E"

definition pa_on :: "radio_state \<Rightarrow> bool" where
  "pa_on r \<longleftrightarrow> \<not> disablePA (txband r) \<and> pa_enabled r"

subsection \<open>What a received packet is for\<close>

definition action_flag :: "p2 \<Rightarrow> nat" where
  "action_flag p = (let r = p2_radio p; xmit = p2_xmit p in
     (if duplex r \<and> xmit then 10000 else 0) + (if newdev (device r) then 1000 else 0) + (if xmit then 100 else 0)
     + (if puresignal r \<and> xmit then 10 else 0) + (if diversity_enabled r \<and> \<not> xmit then 1 else 0))"

definition action_table :: "nat \<Rightarrow> nat \<Rightarrow> rxaction list" where
  "action_table flg nrx = (
     let rx2 = (if 1 < nrx then RXACTION_RX2 else RXACTION_SKIP) in
     if flg = 0 \<or> flg = 10100 then [RXACTION_RX1, rx2, RXACTION_SKIP, RXACTION_SKIP]
     else if flg = 1 \<or> flg = 1001 then [RXACTION_DIV, RXACTION_SKIP, RXACTION_SKIP, RXACTION_SKIP]
     else if flg = 100 \<or> flg = 1100 then replicate 4 RXACTION_SKIP
     else if flg = 110 \<or> flg = 1110 \<or> flg = 10110 then [RXACTION_PS, RXACTION_SKIP, RXACTION_SKIP, RXACTION_SKIP]
     else if flg = 11110 then [RXACTION_PS, RXACTION_SKIP, RXACTION_RX1, rx2]
     else if flg = 1000 \<or> flg = 11100 then [RXACTION_SKIP, RXACTION_SKIP, RXACTION_RX1, rx2]
     else replicate 4 RXACTION_SKIP)"

definition update_action_table :: "p2 \<Rightarrow> p2" where
  "update_action_table p = p\<lparr>rxcase := action_table (action_flag p) (receivers (p2_radio p))\<rparr>"

subsection \<open>The general packet\<close>

definition general_buffer :: "p2 \<Rightarrow> byte list" where
  "general_buffer p = (
     let r = p2_radio p;
         buf = put_bytes 0 (be32 (uint (general_sequence p))) (replicate 60 0);
         buf = buf[37 := 0x08];
         buf = buf[38 := 0x01];
         buf = buf[58 := (if pa_on r then 0x01 else 0x00)];
         buf = (if filter_board r = APOLLO then buf[58 := buf ! 58 OR 0x02] else buf)
     in if filter_board r = ALEX
        then buf[59 := (if device r = NEW_DEVICE_ORION2 \<or> device r = NEW_DEVICE_SATURN then 0x03 else 0x01)]
        else buf)"

definition new_protocol_general :: "p2 \<Rightarrow> p2" where
  "new_protocol_general p = (let p = p2_send (General_p2 (general_buffer p)) p
     in p\<lparr>general_sequence := general_sequence p + 1\<rparr>)"

subsection \<open>The high priority packet: run, frequencies, drive, outputs\<close>

definition hp_run :: "p2 \<Rightarrow> byte" where
  "hp_run p = (
     let r = p2_radio p; g = glob p; tx = txp r; txmode = vfo_get_tx_mode r in
     flag (P2running p) 0x01 OR
     (if p2_xmit p then
        if txmode = modeCWU \<or> txmode = modeCWL then
          flag (tx_tune tx \<or> CAT_cw_is_active g \<or> MIDI_cw_is_active g \<or> \<not> cw_keyer_internal r \<or> tx_twotone tx \<or> hpsdr_ptt g) 0x02
        else 0x02
      else 0))"

definition DDCfrequency :: "radio_state \<Rightarrow> nat \<Rightarrow> int" where
  "DDCfrequency r i = calibrated_frequency (v_frequency (vfo r i) - v_lo (vfo r i)) r"

definition DUCfrequency :: "radio_state \<Rightarrow> int" where
  "DUCfrequency r = calibrated_frequency (TXfreq r - v_lo (vfo r (vfo_get_tx_vfo r))) r"

text \<open>The frequency as a fraction of the clock of 122.88 MHz.\<close>

definition phase_word :: "int \<Rightarrow> u32" where
  "phase_word f = word_of_int (c_trunc (real_of_int f * 34.952533333333333333333333333333))"

definition phase_bytes :: "int \<Rightarrow> byte list" where
  "phase_bytes f = be32 (uint (phase_word f))"

definition hp_ddc :: "p2 \<Rightarrow> byte list \<Rightarrow> byte list" where
  "hp_ddc p buf = (
     let r = p2_radio p in
     if diversity_enabled r \<and> \<not> p2_xmit p then
       let buf = put_bytes 9 (phase_bytes (DDCfrequency r 0)) buf
       in put_bytes 13 (take 4 (drop 9 buf)) buf
     else
       let buf = put_bytes 9 (phase_bytes (DDCfrequency r 0)) buf;
           buf = (if 1 < receivers r then put_bytes 13 (phase_bytes (DDCfrequency r 1)) buf else buf)
       in if newdev (device r) then put_bytes 17 (take 8 (drop 9 buf)) buf else buf)"

definition hp_duc :: "p2 \<Rightarrow> byte list \<Rightarrow> byte list" where
  "hp_duc p buf = (
     let r = p2_radio p; buf = put_bytes 329 (phase_bytes (DUCfrequency r)) buf
     in if p2_xmit p \<and> puresignal r
        then put_bytes 13 (take 4 (drop 329 buf)) (put_bytes 9 (take 4 (drop 329 buf)) buf) else buf)"

definition hp_port :: "p2 \<Rightarrow> byte list" where
  "hp_port p = (case rigctl_tcp (conf2x p) of Some port \<Rightarrow> [byte_at 8 port, byte_at 0 port] | None \<Rightarrow> [0, 0])"

definition hp_oc :: "p2 \<Rightarrow> byte" where
  "hp_oc p = (let r = p2_radio p in
     if p2_xmit p then
       push_bit 1 (OCtx (txband r))
         OR (if tx_tune (txp r) then
               if full_tune r \<or> memory_tune r then flag (clock_ms r < tune_timeout r) (push_bit 1 (OCtune (conf2 p)))
               else push_bit 1 (OCtune (conf2 p))
             else 0)
     else push_bit 1 (OCrx (rxband r)))"

definition hp_1400 :: "p2 \<Rightarrow> byte" where
  "hp_1400 p = (
     let r = p2_radio p; x = conf2x p; txmode = vfo_get_tx_mode r in
     if device r = NEW_DEVICE_ORION2 \<or> device r = NEW_DEVICE_SATURN then
       flag (adc_antenna (adc r 0) = 5) 0x01
       OR flag (mute_spkr_amp x \<or> mute_spkr_xmit x \<and> p2_xmit p \<and> txmode \<noteq> modeCWL \<and> txmode \<noteq> modeCWU \<and> \<not> tx_tune (txp r)) 0x02
     else 0)"

subsection \<open>The high priority packet: filters and antennas\<close>

text \<open>The bits of \<^verbatim>\<open>src/src/alex.h\<close> as far as they are used.\<close>

abbreviation (input) "ALEX_RX_ANTENNA_XVTR \<equiv> 0x00000100 :: u32"
abbreviation (input) "ALEX_RX_ANTENNA_EXT1 \<equiv> 0x00000200 :: u32"
abbreviation (input) "ALEX_RX_ANTENNA_EXT2 \<equiv> 0x00000400 :: u32"
abbreviation (input) "ALEX_RX_ANTENNA_BYPASS \<equiv> 0x00000800 :: u32"
abbreviation (input) "ALEX_TX_RELAY \<equiv> 0x08000000 :: u32"
abbreviation (input) "ALEX_PS_BIT \<equiv> 0x00040000 :: u32"
abbreviation (input) "ALEX0_ANAN7000_RX_SELECT \<equiv> 0x00004000 :: u32"
abbreviation (input) "ALEX1_ANAN7000_RX_GNDonTX \<equiv> 0x00000100 :: u32"

definition alex_flag :: "bool \<Rightarrow> u32 \<Rightarrow> u32" where
  "alex_flag b x = (if b then x else 0)"

definition alex_att :: "p2 \<Rightarrow> u32" where
  "alex_att p = (
     let r = p2_radio p; a = adc_alex_attenuation (adc r 0) in
     if have_alex_att (conf2 p) \<and> filter_board r = ALEX then
       if a = 1 then 0x00004000 else if a = 2 then 0x00002000 else if a = 3 then 0x00006000 else 0
     else 0)"

definition bpf_bits :: "int \<Rightarrow> u32" where
  "bpf_bits f = (if f < 1500000 then 0x00001000 else if f < 2100000 then 0x00000040 else if f < 5500000 then 0x00000020
     else if f < 11000000 then 0x00000010 else if f < 22000000 then 0x00000002 else if f < 35000000 then 0x00000004
     else 0x00000008)"

definition hpf_bits :: "int \<Rightarrow> u32" where
  "hpf_bits f = (if f < 1800000 then 0x00001000 else if f < 6500000 then 0x00000040 else if f < 9500000 then 0x00000020
     else if f < 13000000 then 0x00000010 else if f < 20000000 then 0x00000002 else if f < 50000000 then 0x00000004
     else 0x00000008)"

definition alex_lpf_bits :: "int \<Rightarrow> u32" where
  "alex_lpf_bits f = (if 35600000 < f then 0x20000000 else if 24000000 < f then 0x40000000 else if 16500000 < f then 0x80000000
     else if 8000000 < f then 0x00100000 else if 5000000 < f then 0x00200000 else if 2500000 < f then 0x00400000
     else 0x00800000)"

text \<open>The frequency that selects the band pass of ADC \<open>k\<close>.\<close>

definition BPFfreq :: "nat \<Rightarrow> radio_state \<Rightarrow> int" where
  "BPFfreq k r = (
     let rxvfo = active_id r; othervfo = 1 - rxvfo;
         f = (if 1 < receivers r \<and> rx_adc (receiver r othervfo) = k then DDCfrequency r othervfo else 0);
         f = (if rx_adc (receiver r rxvfo) = k then DDCfrequency r rxvfo else f);
         f = (if diversity_enabled r then DDCfrequency r 0 else f)
     in if adc_filter_bypass (adc r k) then 0 else f)"

definition HPFfreq :: "bool \<Rightarrow> radio_state \<Rightarrow> int" where
  "HPFfreq xmit r = (
     let f = (if rx_adc (receiver r 0) = 0 then DDCfrequency r 0 else 0);
         f = (if 1 < receivers r \<and> rx_adc (receiver r 1) = 0 \<and> DDCfrequency r 1 < DDCfrequency r 0 then DDCfrequency r 1 else f);
         f = (if xmit \<and> puresignal r \<and> adc_antenna (adc r 2) = 6 then 0 else f)
     in if adc_filter_bypass (adc r 0) then 0 else f)"

definition LPFfreq :: "bool \<Rightarrow> radio_state \<Rightarrow> int" where
  "LPFfreq xmit r = (
     if \<not> xmit \<and> \<not> bpfdev (device r) \<and> adc_antenna (adc r 0) < 3 then
       let f = (if rx_adc (receiver r 0) = 0 then DDCfrequency r 0 else 40000000);
           f = (if 1 < receivers r \<and> rx_adc (receiver r 1) = 0 \<and> DDCfrequency r 0 < DDCfrequency r 1 then DDCfrequency r 1 else f)
       in if adc_filter_bypass (adc r 0) then 40000000 else f
     else DUCfrequency r)"

text \<open>The receive filters, for both words.\<close>

definition rx_filter_bits :: "bool \<Rightarrow> radio_state \<Rightarrow> u32 \<times> u32" where
  "rx_filter_bits xmit r = (
     if device r = NEW_DEVICE_G2E then
       (bpf_bits (if adc_filter_bypass (adc r 0) then 0 else DDCfrequency r (active_id r)), 0)
     else if device r = NEW_DEVICE_SATURN \<or> device r = NEW_DEVICE_ORION2 then
       (bpf_bits (BPFfreq 0 r), bpf_bits (BPFfreq 1 r) OR alex_flag xmit ALEX1_ANAN7000_RX_GNDonTX)
     else (hpf_bits (HPFfreq xmit r), 0))"

definition rx_antenna_index :: "p2 \<Rightarrow> int" where
  "rx_antenna_index p = (
     let r = p2_radio p; i = (if p2_xmit p \<and> puresignal r then adc_antenna (adc r 2) else adc_antenna (adc r 0))
     in if bpfdev (device r) then i + 100 else if new_pa_board (conf2 p) then i + 1000 else i)"

definition rx_antenna_bits :: "int \<Rightarrow> u32" where
  "rx_antenna_bits i = (
     if i \<in> {3, 6, 1006} then ALEX_RX_ANTENNA_EXT1 OR ALEX_RX_ANTENNA_BYPASS
     else if i = 4 then ALEX_RX_ANTENNA_EXT2 OR ALEX_RX_ANTENNA_BYPASS
     else if i = 5 then ALEX_RX_ANTENNA_XVTR OR ALEX_RX_ANTENNA_BYPASS
     else if i \<in> {104, 103} then ALEX_RX_ANTENNA_EXT1 OR ALEX0_ANAN7000_RX_SELECT
     else if i = 105 then ALEX_RX_ANTENNA_XVTR OR ALEX0_ANAN7000_RX_SELECT
     else if i \<in> {106, 107} then ALEX_RX_ANTENNA_BYPASS
     else if i = 1003 then ALEX_RX_ANTENNA_EXT1
     else if i = 1004 then ALEX_RX_ANTENNA_EXT2
     else if i = 1005 then ALEX_RX_ANTENNA_XVTR
     else if i \<in> {7, 1007} then ALEX_RX_ANTENNA_BYPASS
     else 0)"

definition tx_antenna_bits :: "int \<Rightarrow> u32" where
  "tx_antenna_bits i = (if i = 0 then 0x01000000 else if i = 1 then 0x02000000 else if i = 2 then 0x04000000 else 0)"

definition txant :: "radio_state \<Rightarrow> int" where
  "txant r = (let i = tx_antenna (txp r) in if i < 0 \<or> 2 < i then 0 else i)"

definition alex0 :: "p2 \<Rightarrow> u32" where
  "alex0 p = (
     let r = p2_radio p; xmit = p2_xmit p; rxant = adc_antenna (adc r 0);
         rxant = (if 2 < rxant \<or> xmit then txant r else rxant)
     in alex_att p OR alex_flag (pa_on r \<and> xmit) ALEX_TX_RELAY OR alex_flag (puresignal r \<and> xmit) ALEX_PS_BIT
        OR fst (rx_filter_bits xmit r) OR alex_lpf_bits (LPFfreq xmit r) OR rx_antenna_bits (rx_antenna_index p)
        OR tx_antenna_bits rxant)"

definition alex1 :: "p2 \<Rightarrow> u32" where
  "alex1 p = (
     let r = p2_radio p
     in alex_flag (pa_on r) ALEX_TX_RELAY OR alex_flag (puresignal r) ALEX_PS_BIT
        OR snd (rx_filter_bits (p2_xmit p) r) OR alex_lpf_bits (DUCfrequency r) OR tx_antenna_bits (txant r))"

text \<open>The step attenuators: bytes 1442 (ADC1) and 1443 (ADC0).\<close>

definition hp_attenuators :: "p2 \<Rightarrow> byte list" where
  "hp_attenuators p = (
     let r = p2_radio p; xmit = p2_xmit p;
         a0 = word_of_int (adc_attenuation (adc r 0));
         a1 = (if diversity_enabled r then word_of_int (adc_attenuation (adc r 0)) else word_of_int (adc_attenuation (adc r 1)));
         (a1, a0) = (if xmit \<and> pa_on r then (31, 31) else (a1, a0));
         a1 = (if xmit \<and> puresignal r then word_of_int (tx_attenuation (txp r)) else a1)
     in [a1, a0])"

definition high_priority_buffer :: "p2 \<Rightarrow> byte list" where
  "high_priority_buffer p = (
     let buf = put_bytes 0 (be32 (uint (highprio_sent_sequence p))) (replicate 1444 0);
         buf = put_bytes 4 [hp_run p, 0x00] buf;
         buf = hp_ddc p buf;
         buf = hp_duc p buf;
         buf = put_bytes 345 [word_of_int (tx_power (p2_radio p))] buf;
         buf = put_bytes 1398 (hp_port p) buf;
         buf = put_bytes 1400 [hp_1400 p, hp_oc p] buf;
         buf = put_bytes 1432 (be32 (uint (alex0 p))) buf;
         buf = put_bytes 1428 (be32 (uint (alex1 p))) buf
     in put_bytes 1442 (hp_attenuators p) buf)"

definition new_protocol_high_priority :: "p2 \<Rightarrow> p2" where
  "new_protocol_high_priority p = (
     if \<not> data_socket p \<and> \<not> have_saturn_xdma (conf2x p) then p
     else
       let p = p2_send (High_priority_p2 (high_priority_buffer p)) p
       in update_action_table (p\<lparr>highprio_sent_sequence := highprio_sent_sequence p + 1\<rparr>))"

subsection \<open>The transmitter and receiver packets\<close>

definition ts_cw :: "p2 \<Rightarrow> byte" where
  "ts_cw p = (
     let r = p2_radio p; g = glob p; c = conf2 p; txmode = vfo_get_tx_mode r in
     if (txmode = modeCWU \<or> txmode = modeCWL) \<and> cw_keyer_internal r \<and> \<not> CAT_cw_is_active g \<and> \<not> MIDI_cw_is_active g then
       0x02 OR flag (conf_keys_reversed c) 0x04 OR flag (conf_keyer_mode c = 1) 0x08 OR flag (conf_keyer_mode c = 2) 0x28
       OR flag (conf_sidetone_volume c \<noteq> 0) 0x10 OR flag (conf_keyer_spacing c \<noteq> 0) 0x40
       OR flag (conf_cw_breakin (conf2x p)) 0x80
     else 0)"

text \<open>The local variables \<open>rfdelay\<close> and \<open>rfmax\<close> have the type \<open>uint8_t\<close>.\<close>

definition rfdelay :: "p1_conf \<Rightarrow> byte" where
  "rfdelay c = (let d = word_of_int (conf_keyer_ptt_delay c); m = word_of_int (c_div 900 (conf_keyer_speed c))
     in if m < d then m else d)"

definition ts_mic :: "p2 \<Rightarrow> byte" where
  "ts_mic p = (let c = conf2 p in
     flag (mic_linein c) 0x01 OR flag (mic_boost c) 0x02 OR flag (\<not> orion_mic_ptt_enabled c) 0x04
     OR flag (orion_mic_ptt_tip c) 0x08 OR flag (orion_mic_bias_enabled c) 0x10 OR flag (g2_mic_input_xlr (conf2x p)) 0x20)"

text \<open>Bytes 58 (ADC1) and 59 (ADC0).\<close>

definition ts_attenuators :: "radio_state \<Rightarrow> byte list" where
  "ts_attenuators r = (
     let a0 = word_of_int (adc_attenuation (adc r 0));
         a1 = word_of_int (if diversity_enabled r then adc_attenuation (adc r 0) else adc_attenuation (adc r 1));
         (a1, a0) = (if pa_on r then (31, 31) else (a1, a0));
         a0 = (if puresignal r then word_of_int (tx_attenuation (txp r)) else a0)
     in [a1, a0])"

definition transmit_specific_buffer :: "p2 \<Rightarrow> byte list" where
  "transmit_specific_buffer p = (
     let r = p2_radio p; c = conf2 p; f = cw_sidetone r; h = conf_keyer_hang_time c;
         buf = put_bytes 0 (be32 (uint (tx_specific_sequence p))) (replicate 60 0);
         buf = put_bytes 4 [1, ts_cw p, word_of_int (conf_sidetone_volume c AND 0x7F), byte_at 8 f, byte_at 0 f,
           word_of_int (conf_keyer_speed c), word_of_int (conf_keyer_weight c), byte_at 8 h, byte_at 0 h,
           rfdelay c, 0, 0, 0, word_of_int (conf_cw_ramp_width (conf2x p))] buf;
         buf = put_bytes 50 [ts_mic p, word_of_int (c_trunc ((linein_gain c + 34) * 0.6739 + 0.5))] buf
     in put_bytes 58 (ts_attenuators r) buf)"

definition new_protocol_transmit_specific :: "p2 \<Rightarrow> p2" where
  "new_protocol_transmit_specific p = (let p = p2_send (Transmit_specific_p2 (transmit_specific_buffer p)) p
     in p\<lparr>tx_specific_sequence := tx_specific_sequence p + 1\<rparr>)"

definition rate_bytes :: "int \<Rightarrow> byte list" where
  "rate_bytes rate = [byte_at 8 (c_div rate 1000), byte_at 0 (c_div rate 1000)]"

text \<open>One round of the loop over the receivers.\<close>

definition rs_receiver :: "p2 \<Rightarrow> nat \<Rightarrow> byte list \<Rightarrow> byte list" where
  "rs_receiver p i buf = (
     let r = p2_radio p; xmit = p2_xmit p; ddc = (if newdev (device r) then 2 + i else i);
         buf = (if \<not> xmit \<and> \<not> diversity_enabled r then buf[7 := buf ! 7 OR push_bit ddc 1] else buf);
         buf = (if xmit \<and> duplex r then buf[7 := buf ! 7 OR push_bit ddc 1] else buf);
         buf = put_bytes (17 + ddc * 6) (of_nat (rx_adc (receiver r i)) # rate_bytes (rx_sample_rate (receiver r i))) buf
     in buf[22 + ddc * 6 := 24])"

definition rs_puresignal :: "p2 \<Rightarrow> byte list \<Rightarrow> byte list" where
  "rs_puresignal p buf = (
     let r = p2_radio p in
     if puresignal r \<and> p2_xmit p then
       let buf = put_bytes 17 [of_nat (rx_adc (receiver r 3)), 0, 192] buf;
           buf = buf[22 := 24];
           buf = put_bytes 23 [of_nat (n_adc (conf2 p)), 0, 192, 24] buf;
           buf = buf[1363 := 0x02]
       in buf[7 := buf ! 7 OR 1]
     else buf)"

definition rs_diversity :: "p2 \<Rightarrow> byte list \<Rightarrow> byte list" where
  "rs_diversity p buf = (
     let r = p2_radio p; d = word_of_int (adc_dither (adc r 0)); x = word_of_int (adc_random (adc r 0));
         rate = rate_bytes (rx_sample_rate (receiver r 0))
     in if diversity_enabled r \<and> \<not> p2_xmit p then
       let buf = put_bytes 5 [d OR push_bit 1 d, x OR push_bit 1 x] buf;
           buf = put_bytes 17 (0 # rate) buf;
           buf = buf[22 := 24];
           buf = put_bytes 23 (1 # rate @ [24]) buf;
           buf = buf[1363 := 0x02]
       in buf[7 := 1]
     else buf)"

definition receive_specific_buffer :: "p2 \<Rightarrow> byte list" where
  "receive_specific_buffer p = (
     let r = p2_radio p;
         buf = put_bytes 0 (be32 (uint (rx_specific_sequence p))) (replicate 1444 0);
         buf = put_bytes 4 [of_nat (n_adc (conf2 p)),
           word_of_int (adc_dither (adc r 0)) OR push_bit 1 (word_of_int (adc_dither (adc r 1))),
           word_of_int (adc_random (adc r 0)) OR push_bit 1 (word_of_int (adc_random (adc r 1)))] buf;
         buf = fold (rs_receiver p) [0..<receivers r] buf
     in rs_diversity p (rs_puresignal p buf))"

definition new_protocol_receive_specific :: "p2 \<Rightarrow> p2" where
  "new_protocol_receive_specific p = (let p = p2_send (Receive_specific_p2 (receive_specific_buffer p)) p
     in update_action_table (p\<lparr>rx_specific_sequence := rx_specific_sequence p + 1\<rparr>))"

subsection \<open>The timer\<close>

text \<open>One round of the loop of \<open>new_protocol_timer_thread\<close>, every 100 milliseconds.\<close>

definition timer_step :: "nat \<times> p2 \<Rightarrow> nat \<times> p2" where
  "timer_step s = (
     let (cycling, p) = s; cycling = cycling + 1 in
     if cycling \<in> {1, 3, 5, 7} then (cycling, new_protocol_high_priority (new_protocol_transmit_specific p))
     else if cycling \<in> {2, 4, 6} then (cycling, new_protocol_high_priority (new_protocol_receive_specific p))
     else if cycling = 8 then (0, new_protocol_high_priority (new_protocol_receive_specific (new_protocol_general p)))
     else (cycling, p))"

definition timer_thread :: "nat \<times> p2 \<Rightarrow> nat \<times> p2" where
  "timer_thread s = (if P2running (snd s) then timer_step s else s)"

end
