(* ===== verification/P2_Tx_Facts.thy ===== *)
theory P2_Tx_Facts
  imports P2_Tx
begin

text \<open>
  The packets of protocol 2: where the fields of the high priority packet stand, how exact the
  frequencies are, that the relay and filter words are safe, and that the receiver packet and
  the action table agree on which receivers of the radio are in use.
\<close>

subsection \<open>Layout of the high priority packet\<close>

lemma length_phase_bytes [simp]: "length (phase_bytes f) = 4"
  by (simp add: phase_bytes_def)

lemma length_hp_port [simp]: "length (hp_port p) = 2"
  by (simp add: hp_port_def split: option.split)

lemma length_hp_attenuators [simp]: "length (hp_attenuators p) = 2"
  by (simp add: hp_attenuators_def Let_def split_beta)

lemma length_hp_ddc [simp]: "length (hp_ddc p buf) = length buf"
  by (simp add: hp_ddc_def Let_def)

lemma length_hp_duc [simp]: "length (hp_duc p buf) = length buf"
  by (simp add: hp_duc_def Let_def)

lemma length_high_priority [simp]: "length (high_priority_buffer p) = 1444"
  by (simp add: high_priority_buffer_def Let_def)

text \<open>A four byte field of a packet.\<close>

definition field :: "nat \<Rightarrow> byte list \<Rightarrow> byte list" where
  "field k buf = take 4 (drop k buf)"

lemma field_nth: "k + 4 \<le> length buf \<Longrightarrow> field k buf = [buf ! k, buf ! (k + 1), buf ! (k + 2), buf ! (k + 3)]"
  by (rule nth_equalityI) (auto simp: field_def less_Suc_eq numeral_eq_Suc)

lemma field_put_same:
  assumes "k + 4 \<le> length buf" and "length bs = 4"
  shows "field k (put_bytes k bs buf) = bs"
  using take_drop_put_bytes [of k bs buf] assms by (simp add: field_def)

lemma field_put_other:
  assumes "i + length bs \<le> length buf" and "k + 4 \<le> length buf" and "i + length bs \<le> k \<or> k + 4 \<le> i"
  shows "field k (put_bytes i bs buf) = field k buf"
  using assms by (auto simp: field_nth nth_put_bytes)

lemma field_shift:
  assumes "i + 8 \<le> length buf" and "j + 8 \<le> length buf"
  shows "field i (put_bytes i (take 8 (drop j buf)) buf) = field j buf"
    and "field (i + 4) (put_bytes i (take 8 (drop j buf)) buf) = field (j + 4) buf"
  using assms by (auto simp: field_nth nth_put_bytes add.commute add.left_commute)

lemma field_copy:
  assumes "i + 4 \<le> length buf" and "j + 4 \<le> length buf"
  shows "put_bytes i (take 4 (drop j buf)) buf = put_bytes i (field j buf) buf" and "length (field j buf) = 4"
  using assms by (simp_all add: field_def)

text \<open>The frequencies after the two parts that write them.\<close>

definition freq_fields :: "p2 \<Rightarrow> byte list \<Rightarrow> byte list" where
  "freq_fields p buf = hp_duc p (hp_ddc p buf)"

lemma hp_layout:
  assumes "buf = freq_fields p (put_bytes 4 [hp_run p, 0x00] (put_bytes 0 (be32 (uint (highprio_sent_sequence p))) (replicate 1444 0)))"
  shows "k + 4 \<le> 345 \<Longrightarrow> field k (high_priority_buffer p) = field k buf"
    and "k < 345 \<Longrightarrow> high_priority_buffer p ! k = buf ! k"
    and "high_priority_buffer p ! 345 = word_of_int (tx_power (p2_radio p))"
    and "field 1428 (high_priority_buffer p) = be32 (uint (alex1 p))"
    and "field 1432 (high_priority_buffer p) = be32 (uint (alex0 p))"
    and "[high_priority_buffer p ! 1442, high_priority_buffer p ! 1443] = hp_attenuators p"
proof -
  have l: "length buf = 1444" by (simp add: assms freq_fields_def)
  have h: "high_priority_buffer p = put_bytes 1442 (hp_attenuators p) (put_bytes 1428 (be32 (uint (alex1 p)))
      (put_bytes 1432 (be32 (uint (alex0 p))) (put_bytes 1400 [hp_1400 p, hp_oc p] (put_bytes 1398 (hp_port p)
      (put_bytes 345 [word_of_int (tx_power (p2_radio p))] buf)))))"
    by (simp only: assms freq_fields_def high_priority_buffer_def Let_def)
  show "k + 4 \<le> 345 \<Longrightarrow> field k (high_priority_buffer p) = field k buf"
    unfolding h by (simp add: field_put_other l del: put_bytes.simps)
  show "k < 345 \<Longrightarrow> high_priority_buffer p ! k = buf ! k"
    unfolding h by (simp add: nth_put_bytes l del: put_bytes.simps)
  show "high_priority_buffer p ! 345 = word_of_int (tx_power (p2_radio p))"
    unfolding h by (simp add: nth_put_bytes l del: put_bytes.simps)
  show "field 1428 (high_priority_buffer p) = be32 (uint (alex1 p))"
    unfolding h by (simp add: field_put_other field_put_same l del: put_bytes.simps)
  show "field 1432 (high_priority_buffer p) = be32 (uint (alex0 p))"
    unfolding h by (simp add: field_put_other field_put_same l del: put_bytes.simps)
  obtain a b where "hp_attenuators p = [a, b]" by (simp add: hp_attenuators_def Let_def split_beta)
  then show "[high_priority_buffer p ! 1442, high_priority_buffer p ! 1443] = hp_attenuators p"
    unfolding h by (simp add: nth_put_bytes l del: put_bytes.simps)
qed

lemma hp_ddc_low: "length buf = 1444 \<Longrightarrow> k < 9 \<Longrightarrow> hp_ddc p buf ! k = buf ! k"
  by (simp add: hp_ddc_def Let_def nth_put_bytes)

lemma hp_duc_low: "length buf = 1444 \<Longrightarrow> k < 9 \<Longrightarrow> hp_duc p buf ! k = buf ! k"
  by (simp add: hp_duc_def Let_def nth_put_bytes)

lemma hp_run_byte: "high_priority_buffer p ! 4 = hp_run p"
proof -
  let ?b = "put_bytes 4 [hp_run p, 0x00] (put_bytes 0 (be32 (uint (highprio_sent_sequence p))) (replicate 1444 0))"
  have "high_priority_buffer p ! 4 = freq_fields p ?b ! 4" by (rule hp_layout(2) [OF refl]) simp
  also have "\<dots> = ?b ! 4" by (simp add: freq_fields_def hp_ddc_low hp_duc_low del: put_bytes.simps)
  also have "\<dots> = hp_run p" by (simp add: nth_put_bytes del: put_bytes.simps)
  finally show ?thesis .
qed

lemma hp_run_bit:
  "bit (hp_run p) 1 \<longleftrightarrow> p2_xmit p \<and>
    (vfo_get_tx_mode (p2_radio p) \<in> {modeCWU, modeCWL} \<longrightarrow>
       tx_tune (txp (p2_radio p)) \<or> tx_twotone (txp (p2_radio p)) \<or> \<not> cw_keyer_internal (p2_radio p)
       \<or> CAT_cw_is_active (glob p) \<or> MIDI_cw_is_active (glob p) \<or> hpsdr_ptt (glob p))"
proof -
  have "bit (flag a 0x01 OR flag b 0x02) 1 = b" for a b by (cases a; cases b) (simp_all add: flag_def)
  moreover have "flag True x = x" "flag False x = 0" for x by (simp_all add: flag_def)
  ultimately have "bit (flag (P2running p) 0x01 OR (if c then 0x02 else 0)) 1 = c" for c
    by (metis (full_types))
  moreover have "hp_run p = flag (P2running p) 0x01 OR (if p2_xmit p \<and>
    (vfo_get_tx_mode (p2_radio p) \<in> {modeCWU, modeCWL} \<longrightarrow>
       tx_tune (txp (p2_radio p)) \<or> tx_twotone (txp (p2_radio p)) \<or> \<not> cw_keyer_internal (p2_radio p)
       \<or> CAT_cw_is_active (glob p) \<or> MIDI_cw_is_active (glob p) \<or> hpsdr_ptt (glob p)) then 0x02 else 0)"
    by (auto simp: hp_run_def Let_def flag_def)
  ultimately show ?thesis by (simp only:)
qed

text \<open>C13. What makes a protocol 2 radio transmit: the transmit bit of the high priority packet is
  set exactly if the program transmits (or the radio reports PTT) and, in the CW modes, the
  program and not the keyer of the radio makes the signal; and the drive level in the packet is
  zero when the transmit frequency, XIT included, is outside the band, unless transmitting out of
  band is allowed.\<close>

theorem p2_transmit_fields:
  "(bit (high_priority_buffer p ! 4) 1 \<longleftrightarrow> p2_xmit p \<and>
      (vfo_get_tx_mode (p2_radio p) \<in> {modeCWU, modeCWL} \<longrightarrow>
         tx_tune (txp (p2_radio p)) \<or> tx_twotone (txp (p2_radio p)) \<or> \<not> cw_keyer_internal (p2_radio p)
         \<or> CAT_cw_is_active (glob p) \<or> MIDI_cw_is_active (glob p) \<or> hpsdr_ptt (glob p)))
    \<and> (\<not> tx_out_of_band_allowed (p2_radio p)
       \<and> (TXfreq (p2_radio p) < frequencyMin (txband (p2_radio p)) \<or> frequencyMax (txband (p2_radio p)) < TXfreq (p2_radio p))
       \<longrightarrow> high_priority_buffer p ! 345 = 0)"
  unfolding hp_run_byte hp_run_bit hp_layout(3) [OF refl] by (auto simp: tx_power_def)

subsection \<open>Frequencies\<close>

lemma ddc_fields:
  assumes "length buf = 1444" and "receivers r = 2 \<or> receivers r = 1" and "i < receivers r" and "r = p2_radio p"
    and "\<not> (diversity_enabled r \<and> \<not> p2_xmit p)"
  shows "field (9 + 4 * i) (hp_ddc p buf) = phase_bytes (DDCfrequency r i)"
    and "newdev (device r) \<Longrightarrow> field (17 + 4 * i) (hp_ddc p buf) = phase_bytes (DDCfrequency r i)"
proof -
  define b where "b = put_bytes 9 (phase_bytes (DDCfrequency r 0)) buf"
  define c where "c = (if 1 < receivers r then put_bytes 13 (phase_bytes (DDCfrequency r 1)) b else b)"
  have h: "hp_ddc p buf = (if newdev (device r) then put_bytes 17 (take 8 (drop 9 c)) c else c)"
    unfolding hp_ddc_def Let_def b_def c_def assms(4) [symmetric] if_not_P [OF assms(5)] by (rule refl)
  have l: "length b = 1444" "length c = 1444" by (simp_all add: b_def c_def assms(1))
  have c: "field (9 + 4 * i) c = phase_bytes (DDCfrequency r i)"
    using assms(2,3) by (auto simp: c_def b_def assms(1) field_put_same field_put_other less_Suc_eq numeral_eq_Suc)
  have "field (9 + 4 * i) (put_bytes 17 (take 8 (drop 9 c)) c) = field (9 + 4 * i) c"
    using assms(2,3) by (intro field_put_other) (auto simp: l)
  then show "field (9 + 4 * i) (hp_ddc p buf) = phase_bytes (DDCfrequency r i)" by (simp add: h c)
  have "field (17 + 4 * i) (put_bytes 17 (take 8 (drop 9 c)) c) = field (9 + 4 * i) c"
    using field_shift [of 17 c 9] l assms(2,3) by (auto simp: less_Suc_eq numeral_eq_Suc)
  then show "newdev (device r) \<Longrightarrow> field (17 + 4 * i) (hp_ddc p buf) = phase_bytes (DDCfrequency r i)"
    by (simp add: h c)
qed

lemma duc_fields:
  assumes "length buf = 1444" and "r = p2_radio p"
  shows "field 329 (hp_duc p buf) = phase_bytes (DUCfrequency r)"
    and "p2_xmit p \<and> puresignal r \<Longrightarrow> field 9 (hp_duc p buf) = phase_bytes (DUCfrequency r)
      \<and> field 13 (hp_duc p buf) = phase_bytes (DUCfrequency r)"
    and "\<not> (p2_xmit p \<and> puresignal r) \<or> 17 \<le> k \<Longrightarrow> k + 4 \<le> 329 \<Longrightarrow> field k (hp_duc p buf) = field k buf"
proof -
  define b where "b = put_bytes 329 (phase_bytes (DUCfrequency r)) buf"
  have l: "length b = 1444" by (simp add: b_def assms(1))
  have f: "field 329 b = phase_bytes (DUCfrequency r)" by (simp add: b_def field_put_same assms(1))
  have t: "take 4 (drop 329 b) = phase_bytes (DUCfrequency r)" using f by (simp add: field_def)
  have h: "hp_duc p buf = (if p2_xmit p \<and> puresignal r
      then put_bytes 13 (phase_bytes (DUCfrequency r)) (put_bytes 9 (phase_bytes (DUCfrequency r)) b) else b)"
    by (simp add: hp_duc_def Let_def t flip: assms(2) b_def)
  show "field 329 (hp_duc p buf) = phase_bytes (DUCfrequency r)"
    by (simp add: h f field_put_other l)
  show "p2_xmit p \<and> puresignal r \<Longrightarrow> field 9 (hp_duc p buf) = phase_bytes (DUCfrequency r)
      \<and> field 13 (hp_duc p buf) = phase_bytes (DUCfrequency r)"
    by (simp add: h field_put_other field_put_same l)
  show "\<not> (p2_xmit p \<and> puresignal r) \<or> 17 \<le> k \<Longrightarrow> k + 4 \<le> 329 \<Longrightarrow> field k (hp_duc p buf) = field k buf"
    by (auto simp: h field_put_other l b_def assms(1))
qed

lemma of_be_phase: "of_be (phase_bytes f) = uint (phase_word f)"
  unfolding phase_bytes_def by (rule of_be_be32_id) (use uint_range_size [of "phase_word f"] in \<open>simp_all add: word_size\<close>)

text \<open>The high priority packet carries the phase of the transmit frequency and of the
  frequency of every receiver, at the place of the receiver of the radio that is used for it; for
  PureSignal both feedback receivers get the transmit frequency.\<close>

lemma p2_frequencies:
  assumes "r = p2_radio p" and "buf = high_priority_buffer p" and "receivers r = 1 \<or> receivers r = 2" and "i < receivers r"
    and "diversity_enabled r \<longrightarrow> p2_xmit p" and "p2_xmit p \<and> puresignal r \<longrightarrow> newdev (device r)"
    and "ddc = (if newdev (device r) then i + 2 else i)"
  shows "of_be (field (9 + 4 * ddc) buf) = uint (phase_word (DDCfrequency r i))
    \<and> of_be (field 329 buf) = uint (phase_word (DUCfrequency r))
    \<and> (p2_xmit p \<and> puresignal r \<longrightarrow> field 9 buf = field 329 buf \<and> field 13 buf = field 329 buf)"
proof -
  define b0 where "b0 = put_bytes 4 [hp_run p, 0x00] (put_bytes 0 (be32 (uint (highprio_sent_sequence p))) (replicate 1444 0))"
  define b1 where "b1 = hp_ddc p b0"
  have l: "length b0 = 1444" "length b1 = 1444" by (simp_all add: b0_def b1_def)
  have buf: "k + 4 \<le> 345 \<Longrightarrow> field k buf = field k (hp_duc p b1)" for k
    using hp_layout(1) [OF refl, of k p] by (simp only: assms(2) b1_def b0_def freq_fields_def)
  note ddc = ddc_fields [OF l(1) _ assms(4,1), folded b1_def] and duc = duc_fields [OF l(2) assms(1)]
  have "9 + 4 * ddc + 4 \<le> 329" using assms(3,4,7) by auto
  moreover have "\<not> (p2_xmit p \<and> puresignal r) \<or> 17 \<le> 9 + 4 * ddc" using assms(6,7) by auto
  ultimately have "field (9 + 4 * ddc) (hp_duc p b1) = field (9 + 4 * ddc) b1" by (intro duc(3)) simp_all
  also have "\<dots> = phase_bytes (DDCfrequency r i)"
    using ddc assms(3,5,7) by (auto simp: algebra_simps)
  finally have "field (9 + 4 * ddc) (hp_duc p b1) = phase_bytes (DDCfrequency r i)" .
  then show ?thesis
    using duc(1,2) buf [of 329] buf [of 9] buf [of 13] buf [of "9 + 4 * ddc"] \<open>9 + 4 * ddc + 4 \<le> 329\<close>
    by (simp add: of_be_phase)
qed

text \<open>The phase word never wraps for frequencies below the clock frequency, and the radio is
  tuned to the frequency asked for, or less than 0.03 Hz below it.\<close>

lemma phase_accuracy:
  assumes "0 \<le> f" and "f < 122880000"
  shows "real_of_int (uint (phase_word f)) * 122880000 / 2 ^ 32 \<le> of_int f
    \<and> of_int f - real_of_int (uint (phase_word f)) * 122880000 / 2 ^ 32 < 0.03"
proof -
  define x where "x = real_of_int f * 34.952533333333333333333333333333"
  have "real_of_int f \<le> 122879999" using assms(2) by linarith
  then have x: "0 \<le> x" "x < 4294967296" using assms(1) by (simp_all add: x_def)
  have fl: "real_of_int \<lfloor>x\<rfloor> \<le> x" "x < real_of_int \<lfloor>x\<rfloor> + 1" by simp_all
  have "0 \<le> \<lfloor>x\<rfloor>" "\<lfloor>x\<rfloor> < 4294967296" using x by (simp_all add: floor_less_iff)
  then have u: "uint (phase_word f) = \<lfloor>x\<rfloor>"
  proof -
    have "phase_word f = word_of_int \<lfloor>x\<rfloor>"
      using x(1) unfolding phase_word_def x_def [symmetric] c_trunc_def by simp
    then show ?thesis using \<open>0 \<le> \<lfloor>x\<rfloor>\<close> \<open>\<lfloor>x\<rfloor> < 4294967296\<close> by (simp add: uint_word_of_int)
  qed
  have lo: "x * 122880000 / 2 ^ 32 \<le> of_int f" using assms(1) by (simp add: x_def)
  have hi: "of_int f - x * 122880000 / 2 ^ 32 < 0.001" using \<open>real_of_int f \<le> 122879999\<close> assms(1) by (simp add: x_def)
  have "real_of_int \<lfloor>x\<rfloor> * 122880000 / 2 ^ 32 \<le> x * 122880000 / 2 ^ 32" using fl(1) by (simp add: divide_right_mono)
  moreover have "x * 122880000 / 2 ^ 32 - real_of_int \<lfloor>x\<rfloor> * 122880000 / 2 ^ 32 < 0.0287"
    using fl(2) by (simp add: field_simps)
  ultimately show ?thesis using lo hi unfolding u by (intro conjI; simp; linarith)
qed

subsection \<open>Relay and filter words\<close>

text \<open>Which bits each part of the words can set.\<close>

lemma part_masks:
  "alex_att p AND 0xFFFF9FFF = 0" "bpf_bits f AND 0xFFFFEF81 = 0" "hpf_bits f AND 0xFFFFEF81 = 0"
  "rx_antenna_bits i AND 0xFFFFB0FF = 0" "tx_antenna_bits i AND 0xF8FFFFFF = 0" "alex_lpf_bits f AND 0x1F0FFFFF = 0"
  "alex_flag b ALEX_TX_RELAY AND 0xF7FFFFFF = 0" "alex_flag b ALEX_PS_BIT AND 0xFFFBFFFF = 0"
  "alex_flag b ALEX1_ANAN7000_RX_GNDonTX AND 0xFFFFFEFF = 0"
  by (simp_all add: alex_att_def Let_def bpf_bits_def hpf_bits_def rx_antenna_bits_def tx_antenna_bits_def
      alex_lpf_bits_def alex_flag_def)

lemma mask_sub:
  fixes x :: u32
  assumes "x AND m = 0" and "m AND k = k"
  shows "x AND k = 0"
proof -
  have "x AND k = x AND (m AND k)" by (simp only: assms(2))
  also have "\<dots> = (x AND m) AND k" by (simp only: and.assoc)
  finally show ?thesis by (simp add: assms(1))
qed

text \<open>The upper halves of the two words, from the parts that matter there.\<close>

definition tx_bits :: "bool \<Rightarrow> bool \<Rightarrow> int \<Rightarrow> int \<Rightarrow> u32" where
  "tx_bits relay ps f ant = alex_flag relay ALEX_TX_RELAY OR alex_flag ps ALEX_PS_BIT OR alex_lpf_bits f OR tx_antenna_bits ant"

lemma alex_upper:
  "alex0 p AND 0xFFFF0000 = tx_bits (pa_on (p2_radio p) \<and> p2_xmit p) (puresignal (p2_radio p) \<and> p2_xmit p)
     (LPFfreq (p2_xmit p) (p2_radio p))
     (if 2 < adc_antenna (adc (p2_radio p) 0) \<or> p2_xmit p then txant (p2_radio p) else adc_antenna (adc (p2_radio p) 0)) AND 0xFFFF0000"
  "alex1 p AND 0xFFFF0000 = tx_bits (pa_on (p2_radio p)) (puresignal (p2_radio p)) (DUCfrequency (p2_radio p)) (txant (p2_radio p))
     AND 0xFFFF0000"
proof -
  have z: "alex_att p AND 0xFFFF0000 = 0" "bpf_bits f AND 0xFFFF0000 = 0" "hpf_bits f AND 0xFFFF0000 = 0"
    "rx_antenna_bits i AND 0xFFFF0000 = 0" "alex_flag b ALEX1_ANAN7000_RX_GNDonTX AND 0xFFFF0000 = 0" for f i b
    by (rule mask_sub [OF part_masks(1)] mask_sub [OF part_masks(2)] mask_sub [OF part_masks(3)] mask_sub [OF part_masks(4)]
        mask_sub [OF part_masks(9)], simp)+
  have f: "fst (rx_filter_bits x r) AND 0xFFFF0000 = 0" "snd (rx_filter_bits x r) AND 0xFFFF0000 = 0" for x r
    by (simp_all add: rx_filter_bits_def Let_def z bit.conj_disj_distrib2)
  show "alex0 p AND 0xFFFF0000 = tx_bits (pa_on (p2_radio p) \<and> p2_xmit p) (puresignal (p2_radio p) \<and> p2_xmit p)
     (LPFfreq (p2_xmit p) (p2_radio p))
     (if 2 < adc_antenna (adc (p2_radio p) 0) \<or> p2_xmit p then txant (p2_radio p) else adc_antenna (adc (p2_radio p) 0)) AND 0xFFFF0000"
    by (simp add: alex0_def Let_def tx_bits_def z f bit.conj_disj_distrib2 or.assoc)
  show "alex1 p AND 0xFFFF0000 = tx_bits (pa_on (p2_radio p)) (puresignal (p2_radio p)) (DUCfrequency (p2_radio p)) (txant (p2_radio p))
     AND 0xFFFF0000"
    by (simp add: alex1_def Let_def tx_bits_def f bit.conj_disj_distrib2 or.assoc)
qed

lemma upper_mask: "x AND k = (x AND 0xFFFF0000) AND k" if "k AND 0xFFFF0000 = k" for x k :: u32
proof -
  have "k = 0xFFFF0000 AND k" using that by (simp add: and.commute)
  then show ?thesis by (metis and.assoc)
qed

lemma tx_bits_parts:
  "tx_bits relay ps f ant AND 0x08000000 = alex_flag relay ALEX_TX_RELAY"
  "tx_bits relay ps f ant AND 0x07000000 = tx_antenna_bits ant"
  "tx_bits relay ps f ant AND 0xE0F00000 = alex_lpf_bits f"
  by (simp_all add: tx_bits_def bit.conj_disj_distrib2 alex_flag_def tx_antenna_bits_def alex_lpf_bits_def)

lemma alex_parts:
  "alex0 p AND 0x08000000 = alex_flag (pa_on (p2_radio p) \<and> p2_xmit p) ALEX_TX_RELAY"
  "alex0 p AND 0x07000000 = tx_antenna_bits (if 2 < adc_antenna (adc (p2_radio p) 0) \<or> p2_xmit p then txant (p2_radio p)
     else adc_antenna (adc (p2_radio p) 0))"
  "alex0 p AND 0xE0F00000 = alex_lpf_bits (LPFfreq (p2_xmit p) (p2_radio p))"
  "alex1 p AND 0x08000000 = alex_flag (pa_on (p2_radio p)) ALEX_TX_RELAY"
  "alex1 p AND 0x07000000 = tx_antenna_bits (txant (p2_radio p))"
  "alex1 p AND 0xE0F00000 = alex_lpf_bits (DUCfrequency (p2_radio p))"
  by (subst upper_mask, simp, simp only: alex_upper, subst upper_mask [symmetric], simp, rule tx_bits_parts)+

text \<open>While transmitting the transmit halves of the two filter words agree, as the protocol
  demands; and the relay of the first word is switched to transmit only while transmitting with
  the power amplifier enabled for the band.\<close>

lemma alex_words_agree:
  "(p2_xmit p \<longrightarrow> alex0 p AND 0xFFFF0000 = alex1 p AND 0xFFFF0000)
    \<and> (alex0 p AND 0x08000000 \<noteq> 0 \<longleftrightarrow> p2_xmit p \<and> pa_enabled (p2_radio p) \<and> \<not> disablePA (txband (p2_radio p)))"
proof -
  have "LPFfreq True r = DUCfrequency r" for r by (simp add: LPFfreq_def)
  then show ?thesis unfolding alex_upper alex_parts by (auto simp: alex_flag_def pa_on_def)
qed

text \<open>The upper edge that belongs to a low pass bit.\<close>

definition lpf_edge :: "u32 \<Rightarrow> int option" where
  "lpf_edge b = map_of [(0x00800000, 2500000), (0x00400000, 5000000), (0x00200000, 8000000), (0x00100000, 16500000),
     (0x80000000, 24000000), (0x40000000, 35600000)] b"

text \<open>Each word selects exactly one of the antennas 1 to 3 (the first word if the receive
  antenna is a number that exists) and exactly one transmit low pass; the one for the transmit
  frequency is the lowest that lets it pass, and while transmitting both words have it.\<close>

lemma alex_exclusive:
  assumes "f = DUCfrequency (p2_radio p)" and "0 \<le> adc_antenna (adc (p2_radio p) 0)"
  shows "alex0 p AND 0x07000000 \<in> {0x01000000, 0x02000000, 0x04000000} \<and> alex1 p AND 0x07000000 \<in> {0x01000000, 0x02000000, 0x04000000}
    \<and> (case lpf_edge (alex1 p AND 0xE0F00000) of
         Some e \<Rightarrow> f \<le> e \<and> (\<forall>b e'. lpf_edge b = Some e' \<and> f \<le> e' \<longrightarrow> e \<le> e')
       | None \<Rightarrow> alex1 p AND 0xE0F00000 = 0x20000000 \<and> (\<forall>b e'. lpf_edge b = Some e' \<longrightarrow> e' < f))
    \<and> (p2_xmit p \<longrightarrow> alex0 p AND 0xE0F00000 = alex1 p AND 0xE0F00000)"
proof -
  have t: "txant r \<in> {0, 1, 2}" for r by (auto simp: txant_def Let_def)
  have a: "tx_antenna_bits (txant r) \<in> {0x01000000, 0x02000000, 0x04000000}" for r
    using t [of r] by (auto simp: tx_antenna_bits_def)
  have b: "tx_antenna_bits i \<in> {0x01000000, 0x02000000, 0x04000000}" if "0 \<le> i" "\<not> 2 < i" for i
  proof -
    have "i = 0 \<or> i = 1 \<or> i = 2" using that by linarith
    then show ?thesis by (auto simp: tx_antenna_bits_def)
  qed
  have edges: "lpf_edge c = Some e' \<Longrightarrow> e' \<in> {2500000, 5000000, 8000000, 16500000, 24000000, 35600000}" for c e'
    by (auto simp: lpf_edge_def split: if_splits)
  have "case lpf_edge (alex_lpf_bits f) of
         Some e \<Rightarrow> f \<le> e \<and> (\<forall>b e'. lpf_edge b = Some e' \<and> f \<le> e' \<longrightarrow> e \<le> e')
       | None \<Rightarrow> alex_lpf_bits f = 0x20000000 \<and> (\<forall>b e'. lpf_edge b = Some e' \<longrightarrow> e' < f)"
    by (auto simp: alex_lpf_bits_def lpf_edge_def split: if_splits)
  moreover have "LPFfreq True (p2_radio p) = f" by (simp add: LPFfreq_def assms(1))
  ultimately show ?thesis
    unfolding alex_parts assms(1) [symmetric] using a b assms(2) by auto
qed

subsection \<open>Which receivers of the radio are in use\<close>

lemma length_rs [simp]:
  "length (rs_receiver p i buf) = length buf" "length (rs_puresignal p buf) = length buf" "length (rs_diversity p buf) = length buf"
  by (simp_all add: rs_receiver_def rs_puresignal_def rs_diversity_def Let_def rate_bytes_def)

text \<open>The bit that a receiver sets in byte 7.\<close>

definition ddc_on :: "p2 \<Rightarrow> nat \<Rightarrow> byte" where
  "ddc_on p i = (let r = p2_radio p in
     if \<not> p2_xmit p \<and> \<not> diversity_enabled r \<or> p2_xmit p \<and> duplex r
     then push_bit (if newdev (device r) then 2 + i else i) 1 else 0)"

lemma rs_receiver_7:
  assumes "length buf = 1444" and "i < 2"
  shows "rs_receiver p i buf ! 7 = buf ! 7 OR ddc_on p i"
  using assms by (simp add: rs_receiver_def ddc_on_def Let_def rate_bytes_def nth_put_bytes nth_list_update)

lemma loop_7:
  assumes "length buf = 1444" and "receivers (p2_radio p) = 1 \<or> receivers (p2_radio p) = 2"
  shows "fold (rs_receiver p) [0..<receivers (p2_radio p)] buf ! 7
    = buf ! 7 OR ddc_on p 0 OR (if receivers (p2_radio p) = 2 then ddc_on p 1 else 0)"
  using assms(2) by (elim disjE) (simp_all add: upt_rec rs_receiver_7 assms(1) or.assoc)

lemma receive_specific_7:
  assumes "receivers (p2_radio p) = 1 \<or> receivers (p2_radio p) = 2"
  shows "receive_specific_buffer p ! 7 = (if diversity_enabled (p2_radio p) \<and> \<not> p2_xmit p then 1
    else ddc_on p 0 OR (if receivers (p2_radio p) = 2 then ddc_on p 1 else 0) OR flag (puresignal (p2_radio p) \<and> p2_xmit p) 1)"
proof -
  define b0 where "b0 = put_bytes 4 [of_nat (n_adc (conf2 p)),
           word_of_int (adc_dither (adc (p2_radio p) 0)) OR push_bit 1 (word_of_int (adc_dither (adc (p2_radio p) 1))),
           word_of_int (adc_random (adc (p2_radio p) 0)) OR push_bit 1 (word_of_int (adc_random (adc (p2_radio p) 1)))]
         (put_bytes 0 (be32 (uint (rx_specific_sequence p))) (replicate 1444 0))"
  define b1 where "b1 = fold (rs_receiver p) [0..<receivers (p2_radio p)] b0"
  have l0: "length b0 = 1444" by (simp add: b0_def)
  have "length (fold (rs_receiver p) xs b0) = 1444" for xs
    using fold_invariant_list [of "\<lambda>b. length b = 1444" b0 xs "rs_receiver p"] l0 by simp
  then have l1: "length b1 = 1444" by (simp add: b1_def)
  have "b0 ! 7 = 0" by (simp add: b0_def nth_put_bytes del: put_bytes.simps)
  then have 7: "b1 ! 7 = ddc_on p 0 OR (if receivers (p2_radio p) = 2 then ddc_on p 1 else 0)"
    using loop_7 [OF l0 assms] by (simp add: b1_def)
  have ps: "rs_puresignal p b1 ! 7 = b1 ! 7 OR flag (puresignal (p2_radio p) \<and> p2_xmit p) 1"
    using l1 by (simp add: rs_puresignal_def Let_def nth_put_bytes nth_list_update flag_def del: put_bytes.simps)
  have dv: "rs_diversity p b ! 7 = (if diversity_enabled (p2_radio p) \<and> \<not> p2_xmit p then 1 else b ! 7)" if "length b = 1444" for b
    using that by (simp add: rs_diversity_def Let_def del: put_bytes.simps)
  have "receive_specific_buffer p = rs_diversity p (rs_puresignal p b1)"
    by (simp add: receive_specific_buffer_def Let_def b1_def b0_def del: put_bytes.simps)
  then show ?thesis using dv [of "rs_puresignal p b1"] l1 by (simp add: ps 7 or.assoc)
qed

lemma action_flag_cases:
  "action_flag p = (case (p2_xmit p, newdev (device (p2_radio p))) of
     (False, n) \<Rightarrow> (if n then 1000 else 0) + (if diversity_enabled (p2_radio p) then 1 else 0)
   | (True, n) \<Rightarrow> (if duplex (p2_radio p) then 10000 else 0) + (if n then 1000 else 0) + 100
       + (if puresignal (p2_radio p) then 10 else 0))"
  by (simp add: action_flag_def Let_def)

lemma less_4: "k < 4 \<Longrightarrow> k = 0 \<or> k = 1 \<or> k = 2 \<or> k = (3 :: nat)"
  by linarith

definition ddc_used :: "bool \<Rightarrow> bool \<Rightarrow> bool \<Rightarrow> bool \<Rightarrow> bool \<Rightarrow> nat \<Rightarrow> nat \<Rightarrow> bool" where
  "ddc_used x n d ps dv nrx k \<longleftrightarrow> (if dv \<and> \<not> x then k = 0
     else (x \<longrightarrow> d) \<and> (k = (if n then 2 else 0) \<or> nrx = 2 \<and> k = (if n then 3 else 1)) \<or> ps \<and> x \<and> k = 0)"

lemma replicate_4: "replicate 4 x = [x, x, x, x]"
  by (simp add: numeral_eq_Suc)

lemma table_value:
  assumes "flg = (if x then (if d then 10000 else 0) + (if n then 1000 else 0) + 100 + (if ps then 10 else 0)
       else (if n then 1000 else 0) + (if dv then 1 else 0))"
    and "rx2 = (if 1 < nrx then RXACTION_RX2 else RXACTION_SKIP)"
  shows "action_table flg nrx = (
     if dv \<and> \<not> x then [RXACTION_DIV, RXACTION_SKIP, RXACTION_SKIP, RXACTION_SKIP]
     else if ps \<and> x then
       if d \<and> n then [RXACTION_PS, RXACTION_SKIP, RXACTION_RX1, rx2] else [RXACTION_PS, RXACTION_SKIP, RXACTION_SKIP, RXACTION_SKIP]
     else if x \<longrightarrow> d then
       if n then [RXACTION_SKIP, RXACTION_SKIP, RXACTION_RX1, rx2] else [RXACTION_RX1, rx2, RXACTION_SKIP, RXACTION_SKIP]
     else [RXACTION_SKIP, RXACTION_SKIP, RXACTION_SKIP, RXACTION_SKIP])"
  unfolding assms(1) action_table_def Let_def assms(2) [symmetric]
  by (cases x; cases n; cases d; cases ps; cases dv; simp add: replicate_4)

lemma table_used:
  assumes "nrx = 1 \<or> nrx = 2" and "\<not> (x \<and> d \<and> ps \<and> \<not> n \<and> nrx = 2)" and "k < 4"
    and "flg = (if x then (if d then 10000 else 0) + (if n then 1000 else 0) + 100 + (if ps then 10 else 0)
       else (if n then 1000 else 0) + (if dv then 1 else 0))"
  shows "action_table flg nrx ! k \<noteq> RXACTION_SKIP \<longleftrightarrow> ddc_used x n d ps dv nrx k"
  using assms(1,2) less_4 [OF assms(3)] unfolding table_value [OF assms(4) refl] ddc_used_def
  by (elim disjE) auto


subsection \<open>Two places where the packets disagree\<close>

lemma ts_layout:
  "[transmit_specific_buffer p ! 58, transmit_specific_buffer p ! 59] = ts_attenuators (p2_radio p)"
proof -
  have put: "[put_bytes 58 xs b ! 58, put_bytes 58 xs b ! 59] = xs" if "length b = 60" "length xs = 2" for b xs :: "byte list"
    using that by (simp add: nth_put_bytes) (rule nth_equalityI, auto simp: less_Suc_eq numeral_eq_Suc)
  have "length (ts_attenuators r) = 2" for r by (simp add: ts_attenuators_def Let_def split_beta)
  then show ?thesis unfolding transmit_specific_buffer_def Let_def
    by (intro put) (simp_all only: length_put_bytes length_replicate)
qed

text \<open>While transmitting with PureSignal the two packets that set the attenuators contradict
  each other: the transmitter packet gives the feedback attenuation to ADC0 and 31 dB to ADC1,
  the high priority packet the other way round.\<close>

lemma ps_attenuators_swapped:
  assumes "p2_xmit p" and "puresignal (p2_radio p)" and "pa_on (p2_radio p)"
    and "hp = high_priority_buffer p" and "ts = transmit_specific_buffer p"
  shows "hp ! 1443 = 31 \<and> hp ! 1442 = word_of_int (tx_attenuation (txp (p2_radio p)))
    \<and> ts ! 59 = word_of_int (tx_attenuation (txp (p2_radio p))) \<and> ts ! 58 = 31"
proof -
  have hp: "[hp ! 1442, hp ! 1443] = [word_of_int (tx_attenuation (txp (p2_radio p))), 31]"
    unfolding assms(4) hp_layout(6) [OF refl] using assms(1-3) by (simp add: hp_attenuators_def Let_def)
  have "ts_attenuators (p2_radio p) = [31, word_of_int (tx_attenuation (txp (p2_radio p)))]"
    using assms(2,3) by (simp add: ts_attenuators_def Let_def)
  moreover have "[transmit_specific_buffer p ! 58, transmit_specific_buffer p ! 59] = ts_attenuators (p2_radio p)"
    by (rule ts_layout)
  ultimately have "ts ! 58 = 31" "ts ! 59 = word_of_int (tx_attenuation (txp (p2_radio p)))"
    by (simp_all add: assms(5))
  with hp show ?thesis by simp
qed

lemma rs_receiver_other:
  assumes "length buf = 1444" and "i < 2" and "newdev (device (p2_radio p))" and "k \<in> {26, 28}"
  shows "rs_receiver p i buf ! k = buf ! k"
  using assms by (auto simp: rs_receiver_def Let_def rate_bytes_def nth_put_bytes)

text \<open>The sample width of receiver \<open>k\<close> of the radio stands at byte \<open>22 + 6 * k\<close>; the width of
  the second PureSignal feedback receiver is written to byte 26 instead of 28, so it stays 0.\<close>

lemma ddc1_width_missing:
  assumes "r = p2_radio p" and "p2_xmit p" and "puresignal r" and "newdev (device r)" and "receivers r = 1 \<or> receivers r = 2"
    and "buf = receive_specific_buffer p"
  shows "buf ! (22 + 6 * 0) = 24 \<and> buf ! (22 + 6 * 1) = 0 \<and> buf ! 26 = 24"
proof -
  define b0 where "b0 = put_bytes 4 [of_nat (n_adc (conf2 p)),
           word_of_int (adc_dither (adc r 0)) OR push_bit 1 (word_of_int (adc_dither (adc r 1))),
           word_of_int (adc_random (adc r 0)) OR push_bit 1 (word_of_int (adc_random (adc r 1)))]
         (put_bytes 0 (be32 (uint (rx_specific_sequence p))) (replicate 1444 0))"
  define b1 where "b1 = fold (rs_receiver p) [0..<receivers r] b0"
  have l0: "length b0 = 1444" by (simp add: b0_def)
  have "b0 ! 28 = 0" by (simp add: b0_def nth_put_bytes del: put_bytes.simps)
  then have "length b1 = 1444 \<and> b1 ! 28 = 0"
    using assms(5) assms(4) l0 unfolding b1_def assms(1) by (elim disjE) (simp_all add: upt_rec rs_receiver_other)
  moreover have "buf = rs_diversity p (rs_puresignal p b1)"
    by (simp add: assms(6) receive_specific_buffer_def Let_def b1_def b0_def assms(1) del: put_bytes.simps)
  moreover have "rs_diversity p b = b" for b using assms(2) by (simp add: rs_diversity_def Let_def)
  ultimately show ?thesis
    using assms(2,3) by (simp add: rs_puresignal_def Let_def nth_put_bytes flip: assms(1))
qed

end
