(* ===== verification/P2_Queue.thy ===== *)
theory P2_Queue
  imports Buffers Ring_Buffers
begin

text \<open>
  Protocol 2, from the network to the threads that process the packets
  (\<^verbatim>\<open>src/src/new_protocol.c\<close>): \<open>new_protocol_thread\<close> sorts the datagrams by their port into
  six rings, four for the receivers of the radio, one for high priority status and one for the
  microphone, each read by a thread of its own. All buffers come from one pool. Ring \<open>k\<close> is
  that of receiver \<open>k\<close> for \<open>k < 4\<close>; 4 is the status ring and 5 the microphone ring.

  A reader takes a buffer out of the ring before it processes and frees it, so the buffer it
  holds is part of the state. The lemmas show that the seven threads deliver every accepted
  packet once, in order and unharmed, and that no buffer is ever lost; and that a restart with a
  pending wake-up leaves a receiver deaf.
\<close>

subsection \<open>State and operations\<close>

abbreviation (input) "HP_RING \<equiv> 4 :: nat"
abbreviation (input) "MIC_RING \<equiv> 5 :: nat"

record p2q =
  q_running :: bool                   \<comment> \<open>\<open>P2running\<close>\<close>
  q_pool :: pool
  q_data :: "nat \<Rightarrow> byte list"
  q_ring :: "nat \<Rightarrow> nat ring"
  q_sem :: "nat \<Rightarrow> nat"
  q_count :: "nat \<Rightarrow> int"             \<comment> \<open>\<open>iq_count\<close> and \<open>mic_count\<close>\<close>
  q_held :: "nat \<Rightarrow> nat option"       \<comment> \<open>\<open>mybuf\<close> of the reader\<close>
  q_filling :: "nat option"           \<comment> \<open>\<open>mybuf\<close> of the network thread\<close>

definition p2_size :: "nat \<Rightarrow> nat" where
  "p2_size k = (if k < 4 then 512 else 64)"

definition p2_next :: "nat \<Rightarrow> nat \<Rightarrow> nat" where
  "p2_next k i = (i + 1) AND (p2_size k - 1)"

definition p2_free :: "nat \<Rightarrow> p2q \<Rightarrow> p2q" where
  "p2_free b q = q\<lparr>q_pool := release b (q_pool q)\<rparr>"

text \<open>The common part of the three functions: \<open>skip\<close> is what an overflow does to the counter.\<close>

definition p2_put :: "nat \<Rightarrow> int \<Rightarrow> nat \<Rightarrow> p2q \<Rightarrow> p2q" where
  "p2_put k skip b q = (case ring_put (p2_next k) b (q_ring q k) of
     Some r \<Rightarrow> q\<lparr>q_ring := (q_ring q)(k := r), q_sem := (q_sem q)(k := q_sem q k + 1)\<rparr>
   | None \<Rightarrow> let q = p2_free b q in q\<lparr>q_count := (q_count q)(k := skip)\<rparr>)"

definition saturn_post_high_priority :: "nat \<Rightarrow> p2q \<Rightarrow> p2q" where
  "saturn_post_high_priority b q = (if \<not> q_running q then p2_free b q else p2_put HP_RING (q_count q HP_RING) b q)"

definition saturn_post_micaudio :: "nat \<Rightarrow> p2q \<Rightarrow> p2q" where
  "saturn_post_micaudio b q = (
     if \<not> q_running q then p2_free b q
     else if q_count q MIC_RING < 0 then p2_free b (q\<lparr>q_count := (q_count q)(MIC_RING := q_count q MIC_RING + 1)\<rparr>)
     else p2_put MIC_RING (- 16) b q)"

definition saturn_post_iq_data :: "int \<Rightarrow> nat \<Rightarrow> p2q \<Rightarrow> p2q" where
  "saturn_post_iq_data ddc b q = (
     if ddc < 0 \<or> 4 \<le> ddc then p2_free b q
     else if \<not> q_running q then p2_free b q
     else
       let k = nat ddc in
       if q_count q k < 0 then p2_free b (q\<lparr>q_count := (q_count q)(k := q_count q k + 1)\<rparr>)
       else p2_put k (- 128) b q)"

text \<open>One round of \<open>new_protocol_thread\<close>: a buffer, a datagram, and what its port asks for.\<close>

definition p2_receive_get :: "p2q \<Rightarrow> p2q" where
  "p2_receive_get q = (let (b, p) = get_p2buffer (q_pool q) in q\<lparr>q_pool := p, q_filling := Some b\<rparr>)"

definition p2_receive_write :: "byte list \<Rightarrow> p2q \<Rightarrow> p2q" where
  "p2_receive_write d q = (case q_filling q of None \<Rightarrow> q | Some b \<Rightarrow> q\<lparr>q_data := (q_data q)(b := d)\<rparr>)"

definition p2_receive_port :: "int \<Rightarrow> p2q \<Rightarrow> p2q" where
  "p2_receive_port sourceport q = (case q_filling q of
     None \<Rightarrow> q
   | Some b \<Rightarrow>
     let q = q\<lparr>q_filling := None\<rparr> in
     if \<not> q_running q then p2_free b q
     else if sourceport \<in> {1035, 1036, 1037, 1038} then saturn_post_iq_data (sourceport - 1035) b q
     else if sourceport = 1024 then p2_free b q
     else if sourceport = 1025 then saturn_post_high_priority b q
     else if sourceport = 1026 then saturn_post_micaudio b q
     else p2_free b q)"

text \<open>
  The readers (\<open>iq_thread\<close>, \<open>high_priority_thread\<close>, \<open>mic_line_thread\<close>): after the semaphore
  the buffer is taken and the index moved, without looking whether the ring is empty; a buffer
  that is marked free is ignored. Then it is processed and freed.
\<close>

definition p2_take :: "nat \<Rightarrow> p2q \<Rightarrow> p2q" where
  "p2_take k q = (
     let r = q_ring q k; b = slots r ! outptr r;
         q = q\<lparr>q_sem := (q_sem q)(k := q_sem q k - 1), q_ring := (q_ring q)(k := r\<lparr>outptr := p2_next k (outptr r)\<rparr>)\<rparr>
     in if is_free (q_pool q) b then q else q\<lparr>q_held := (q_held q)(k := Some b)\<rparr>)"

definition p2_done :: "nat \<Rightarrow> p2q \<Rightarrow> p2q" where
  "p2_done k q = (case q_held q k of None \<Rightarrow> q | Some b \<Rightarrow> p2_free b (q\<lparr>q_held := (q_held q)(k := None)\<rparr>))"

text \<open>
  The part of \<open>new_protocol_menu_start\<close> that concerns the queues: the indices are reset and all
  buffers marked free, the semaphores and \<open>mic_count\<close> stay.
\<close>

definition p2_restart :: "p2q \<Rightarrow> p2q" where
  "p2_restart q = q\<lparr>q_ring := (\<lambda>k. (q_ring q k)\<lparr>inptr := 0, outptr := 0\<rparr>),
     q_count := (\<lambda>k. if k < 4 then 0 else q_count q k),
     q_pool := mark_p2buffers_free (prealloc_p2buffers (q_pool q)), q_running := True\<rparr>"

subsection \<open>The rings\<close>

lemma p2_ring_index: "ring_index (p2_size k) (p2_next k)"
proof
  show "1 < p2_size k" by (simp add: p2_size_def)
  show "p2_next k i = (i + 1) mod p2_size k" for i
    using mask_next [of 511 9 i] mask_next [of 63 6 i] by (simp add: p2_next_def p2_size_def)
qed

interpretation p2_ring: ring_index "p2_size k" "p2_next k" for k
  by (rule p2_ring_index)

abbreviation queued2 :: "nat \<Rightarrow> p2q \<Rightarrow> nat list" where
  "queued2 k q \<equiv> ring_list (p2_size k) (q_ring q k)"

definition held2 :: "nat \<Rightarrow> p2q \<Rightarrow> nat list" where
  "held2 k q = (case q_held q k of None \<Rightarrow> [] | Some b \<Rightarrow> [b])"

definition owned2 :: "nat \<Rightarrow> p2q \<Rightarrow> nat list" where
  "owned2 k q = held2 k q @ queued2 k q"

definition packets2 :: "nat \<Rightarrow> p2q \<Rightarrow> byte list list" where
  "packets2 k q = map (q_data q) (owned2 k q)"

text \<open>Every buffer in use has exactly one place.\<close>

definition p2q_ok :: "p2q \<Rightarrow> bool" where
  "p2q_ok q \<longleftrightarrow> pool_ok (q_pool q) \<and> q_running q
     \<and> (\<forall>k < 6. ring_ok (p2_size k) (q_ring q k) \<and> q_sem q k = length (queued2 k q) \<and> distinct (owned2 k q))
     \<and> (\<forall>j < 6. \<forall>k < 6. j \<noteq> k \<longrightarrow> set (owned2 j q) \<inter> set (owned2 k q) = {})
     \<and> (\<forall>k < 6. \<forall>b. q_filling q = Some b \<longrightarrow> b \<notin> set (owned2 k q))
     \<and> in_use (q_pool q) = (\<Union>k < 6. set (owned2 k q)) \<union> set_option (q_filling q)"

subsection \<open>The steps keep the invariant\<close>

lemma owned_frame:
  "q_ring q' = q_ring q \<Longrightarrow> q_held q' = q_held q \<Longrightarrow> owned2 k q' = owned2 k q"
  by (simp add: owned2_def held2_def)

lemma receive_get2:
  assumes "p2q_ok q" and "q_filling q = None"
  shows "p2q_ok (p2_receive_get q)" and "packets2 k (p2_receive_get q) = packets2 k q"
proof -
  obtain b p where g: "get_p2buffer (q_pool q) = (b, p)" by fastforce
  have ok: "pool_ok (q_pool q)" using assms(1) by (simp add: p2q_ok_def)
  have p: "pool_ok p" "b \<notin> in_use (q_pool q)" "in_use p = insert b (in_use (q_pool q))"
    using p2.alloc_ok [OF ok g] p2.alloc_fresh [OF ok g] p2.alloc_busy [OF ok g] by auto
  have e: "p2_receive_get q = q\<lparr>q_pool := p, q_filling := Some b\<rparr>" by (simp add: p2_receive_get_def g)
  have o: "owned2 j (q\<lparr>q_pool := p, q_filling := Some b\<rparr>) = owned2 j q" for j by (rule owned_frame) simp_all
  show "p2q_ok (p2_receive_get q)" using assms p unfolding e p2q_ok_def o by auto
  show "packets2 k (p2_receive_get q) = packets2 k q" unfolding e packets2_def o by simp
qed

lemma receive_write2:
  assumes "p2q_ok q" and "k < 6"
  shows "p2q_ok (p2_receive_write d q)" and "packets2 k (p2_receive_write d q) = packets2 k q"
proof -
  have o: "owned2 j (p2_receive_write d q) = owned2 j q" for j
    by (simp add: p2_receive_write_def owned2_def held2_def split: option.split)
  show "p2q_ok (p2_receive_write d q)"
    using assms unfolding p2q_ok_def o by (simp add: p2_receive_write_def split: option.split)
  show "packets2 k (p2_receive_write d q) = packets2 k q"
    using assms unfolding packets2_def o by (auto simp: p2_receive_write_def p2q_ok_def split: option.split)
qed

text \<open>Freeing the buffer that the network thread holds.\<close>

lemma free_filling:
  assumes "p2q_ok q" and "q_filling q = Some b"
    and "q' = p2_free b (q\<lparr>q_filling := None, q_count := c\<rparr>)"
  shows "p2q_ok q'" and "packets2 k q' = packets2 k q"
proof -
  have b: "b \<in> in_use (q_pool q)" and ok: "pool_ok (q_pool q)" using assms(1,2) by (auto simp: p2q_ok_def)
  note f = p2.free_ok [OF ok b] p2.free_busy [OF ok b]
  have o: "owned2 j q' = owned2 j q" for j by (simp add: assms(3) p2_free_def owned2_def held2_def)
  show "p2q_ok q'"
    using assms(1,2) f unfolding p2q_ok_def o by (auto simp: assms(3) p2_free_def)
  show "packets2 k q' = packets2 k q" unfolding packets2_def o by (simp add: assms(3) p2_free_def)
qed

lemma put2:
  assumes "p2q_ok q" and "q_filling q = Some b" and "k < 6" and "q' = p2_put k n b (q\<lparr>q_filling := None\<rparr>)"
  shows "p2q_ok q' \<and> packets2 j q' = (if j = k \<and> length (queued2 k q) < p2_size k - 1 then packets2 j q @ [q_data q b] else packets2 j q)"
proof -
  have ok: "ring_ok (p2_size k) (q_ring q k)" using assms(1,3) by (simp add: p2q_ok_def)
  have le: "length (queued2 k q) \<le> p2_size k - 1" by (rule p2_ring.ring.bounded [OF ok])
  show ?thesis
  proof (cases "ring_put (p2_next k) b (q_ring q k)")
    case None
    have e: "q' = p2_free b (q\<lparr>q_filling := None, q_count := (q_count q)(k := n)\<rparr>)"
      using None by (simp add: assms(4) p2_put_def p2_free_def)
    have "length (queued2 k q) = p2_size k - 1" using None p2_ring.ring.enq_None [OF ok] by simp
    then show ?thesis
      using free_filling [OF assms(1,2) e] by simp
  next
    case (Some r)
    have e: "q' = q\<lparr>q_filling := None, q_ring := (q_ring q)(k := r), q_sem := (q_sem q)(k := q_sem q k + 1)\<rparr>"
      using Some by (simp add: assms(4) p2_put_def)
    have r: "ring_ok (p2_size k) r" "ring_list (p2_size k) r = queued2 k q @ [b]"
      using p2_ring.ring.enq_Some [OF ok Some] by auto
    have lt: "length (queued2 k q) < p2_size k - 1" using Some p2_ring.ring.enq_None [OF ok, of b] le by auto
    have o: "owned2 j q' = (if j = k then owned2 j q @ [b] else owned2 j q)" for j
      by (simp add: e owned2_def held2_def r)
    have old: "\<And>j. j < 6 \<Longrightarrow> b \<notin> set (owned2 j q)" "in_use (q_pool q) = (\<Union>k < 6. set (owned2 k q)) \<union> {b}"
      using assms(1,2) by (auto simp: p2q_ok_def)
    have p: "packets2 j q' = (if j = k \<and> length (queued2 k q) < p2_size k - 1 then packets2 j q @ [q_data q b] else packets2 j q)"
      using lt unfolding packets2_def o by (simp add: e)
    have u: "(\<Union>j < 6. set (owned2 j q')) = insert b (\<Union>j < 6. set (owned2 j q))"
      unfolding o using assms(3) by (auto split: if_splits)
    have "p2q_ok q'"
      unfolding p2q_ok_def
    proof (intro conjI allI impI)
      show "in_use (q_pool q') = (\<Union>k < 6. set (owned2 k q')) \<union> set_option (q_filling q')"
        unfolding u using old(2) by (simp add: e)
      show "distinct (owned2 i q')" if "i < 6" for i
        using assms(1) old(1) that unfolding o by (simp add: p2q_ok_def)
      show "set (owned2 i q') \<inter> set (owned2 l q') = {}" if "i < 6" "l < 6" "i \<noteq> l" for i l
        using assms(1) old(1) that unfolding o p2q_ok_def by auto
    qed (use assms(1) r in \<open>auto simp: e p2q_ok_def\<close>)
    then show ?thesis using p by blast
  qed
qed

text \<open>Whatever the port, the packet is offered to one ring or freed.\<close>

lemma port_cases:
  assumes "q_filling q = Some b" and "q' = p2_receive_port port q" and "q_running q"
  shows "(\<exists>c. q' = p2_free b (q\<lparr>q_filling := None, q_count := c\<rparr>)) \<or> (\<exists>k < 6. \<exists>n. q' = p2_put k n b (q\<lparr>q_filling := None\<rparr>))"
proof -
  let ?q = "q\<lparr>q_filling := None\<rparr>"
  have same: "?q = q\<lparr>q_filling := None, q_count := q_count q\<rparr>" by simp
  have iq: "(\<exists>c. saturn_post_iq_data d b ?q = p2_free b (q\<lparr>q_filling := None, q_count := c\<rparr>))
      \<or> (\<exists>k < 6. \<exists>n. saturn_post_iq_data d b ?q = p2_put k n b ?q)" if "d \<in> {0, 1, 2, 3}" for d
  proof -
    have "nat d < 6" using that by auto
    then show ?thesis using that assms(3) by (auto simp: saturn_post_iq_data_def Let_def)
  qed
  have mic: "(\<exists>c. saturn_post_micaudio b ?q = p2_free b (q\<lparr>q_filling := None, q_count := c\<rparr>))
      \<or> (\<exists>k < 6. \<exists>n. saturn_post_micaudio b ?q = p2_put k n b ?q)"
  proof (cases "q_count q MIC_RING < 0")
    case False
    then have "saturn_post_micaudio b ?q = p2_put MIC_RING (- 16) b ?q" using assms(3) by (simp add: saturn_post_micaudio_def)
    moreover have "MIC_RING < 6" by simp
    ultimately show ?thesis by blast
  qed (use assms(3) in \<open>auto simp: saturn_post_micaudio_def\<close>)
  have hp: "\<exists>k < 6. \<exists>n. saturn_post_high_priority b ?q = p2_put k n b ?q"
    using assms(3) by (intro exI [of _ HP_RING] conjI exI [of _ "q_count q HP_RING"]) (simp_all add: saturn_post_high_priority_def)
  consider "port \<in> {1035, 1036, 1037, 1038}" | "port = 1025" | "port = 1026" | "port \<notin> {1025, 1026, 1035, 1036, 1037, 1038}"
    by blast
  then show ?thesis
  proof cases
    case 1
    then show ?thesis using iq [of "port - 1035"] assms by (auto simp: p2_receive_port_def)
  next
    case 4
    then have "q' = p2_free b ?q" using assms by (simp add: p2_receive_port_def Let_def)
    then show ?thesis using same by metis
  qed (use hp mic assms in \<open>auto simp: p2_receive_port_def\<close>)
qed

lemma receive_port2:
  assumes "p2q_ok q" and "q_filling q = Some b" and "q' = p2_receive_port port q" and "j < 6"
  shows "p2q_ok q' \<and> packets2 j q' = packets2 j q @ (if inptr (q_ring q' j) = inptr (q_ring q j) then [] else [q_data q b])"
proof -
  have "q_running q" using assms(1) by (simp add: p2q_ok_def)
  from port_cases [OF assms(2,3) this] show ?thesis
  proof (elim disjE exE conjE)
    fix c assume e: "q' = p2_free b (q\<lparr>q_filling := None, q_count := c\<rparr>)"
    then have "q_ring q' = q_ring q" by (simp add: p2_free_def)
    then show ?thesis using free_filling [OF assms(1,2) e] by simp
  next
    fix k n assume k: "k < 6" and e: "q' = p2_put k n b (q\<lparr>q_filling := None\<rparr>)"
    have ok: "ring_ok (p2_size k) (q_ring q k)" using assms(1) k by (simp add: p2q_ok_def)
    have "p2_next k (inptr (q_ring q k)) \<noteq> inptr (q_ring q k)"
      using p2_ring.nxt_cases [of "inptr (q_ring q k)" k] ok by (auto simp: ring_ok_def p2_size_def split: if_splits)
    moreover have "length (queued2 k q) < p2_size k - 1 \<longleftrightarrow> p2_next k (inptr (q_ring q k)) \<noteq> outptr (q_ring q k)"
      using p2_ring.ring.enq_None [OF ok, of b] p2_ring.ring.bounded [OF ok]
      by (auto simp: ring_put_def Let_def split: if_splits)
    ultimately have "inptr (q_ring q' j) \<noteq> inptr (q_ring q j) \<longleftrightarrow> j = k \<and> length (queued2 k q) < p2_size k - 1"
      by (auto simp: e p2_put_def p2_free_def ring_put_def Let_def)
    then show ?thesis using put2 [OF assms(1,2) k e, of j] by auto
  qed
qed

lemma take2:
  assumes "p2q_ok q" and "k < 6" and "0 < q_sem q k" and "q_held q k = None"
  shows "p2q_ok (p2_take k q)" and "packets2 j (p2_take k q) = packets2 j q"
proof -
  let ?r = "q_ring q k"
  have ok: "ring_ok (p2_size k) ?r" and ne: "queued2 k q \<noteq> []" using assms(1-3) by (auto simp: p2q_ok_def)
  have "ring_get (p2_next k) ?r \<noteq> None" using p2_ring.ring.deq_None [OF ok] ne by simp
  then have g: "ring_get (p2_next k) ?r = Some (slots ?r ! outptr ?r, ?r\<lparr>outptr := p2_next k (outptr ?r)\<rparr>)"
    by (auto simp: ring_get_def split: if_splits)
  note d = p2_ring.ring.deq_Some [OF ok g]
  define b where "b = slots ?r ! outptr ?r"
  have q: "queued2 k q = b # ring_list (p2_size k) (?r\<lparr>outptr := p2_next k (outptr ?r)\<rparr>)" using d by (simp add: b_def)
  have "b \<in> set (owned2 k q)" using q by (simp add: owned2_def)
  then have "b \<in> in_use (q_pool q)" using assms(1,2) by (auto simp: p2q_ok_def)
  then have e: "p2_take k q = q\<lparr>q_sem := (q_sem q)(k := q_sem q k - 1), q_ring := (q_ring q)(k := ?r\<lparr>outptr := p2_next k (outptr ?r)\<rparr>),
      q_held := (q_held q)(k := Some b)\<rparr>"
    by (simp add: p2_take_def Let_def b_def in_use_def)
  have o: "owned2 i (p2_take k q) = owned2 i q" for i
    using q assms(4) by (simp add: e owned2_def held2_def)
  show "packets2 j (p2_take k q) = packets2 j q" unfolding packets2_def o by (simp add: e)
  have l: "length (queued2 k q) = Suc (length (ring_list (p2_size k) (?r\<lparr>outptr := p2_next k (outptr ?r)\<rparr>)))" using q by simp
  show "p2q_ok (p2_take k q)"
    using assms(1,2) d l unfolding p2q_ok_def o by (auto simp: e)
qed

lemma done2:
  assumes "p2q_ok q" and "k < 6" and "q_held q k = Some b"
  shows "p2q_ok (p2_done k q)" and "packets2 j q = (if j = k then [q_data q b] else []) @ packets2 j (p2_done k q)"
proof -
  have ok: "pool_ok (q_pool q)" using assms(1) by (simp add: p2q_ok_def)
  have ob: "owned2 k q = b # queued2 k q" using assms(3) by (simp add: owned2_def held2_def)
  then have "b \<in> set (owned2 k q)" by simp
  then have "b \<in> in_use (q_pool q)" using assms(1,2) unfolding p2q_ok_def by blast
  note f = p2.free_ok [OF ok this] p2.free_busy [OF ok this]
  have e: "p2_done k q = q\<lparr>q_held := (q_held q)(k := None), q_pool := release b (q_pool q)\<rparr>"
    using assms(3) by (simp add: p2_done_def p2_free_def)
  have o: "owned2 i (p2_done k q) = (if i = k then tl (owned2 k q) else owned2 i q)" for i
    using ob by (simp add: e owned2_def held2_def)
  show "packets2 j q = (if j = k then [q_data q b] else []) @ packets2 j (p2_done k q)"
    unfolding packets2_def o using ob by (simp add: e)
  have out: "b \<notin> set (queued2 k q)" "\<And>i. i < 6 \<Longrightarrow> i \<noteq> k \<Longrightarrow> b \<notin> set (owned2 i q)" "q_filling q \<noteq> Some b"
    using assms(1,2) ob by (auto simp: p2q_ok_def)
  have "set (owned2 i q) - {b} = set (owned2 i (p2_done k q))" if "i < 6" for i
    unfolding o using out that by (auto simp: ob)
  then have "(\<Union>i < 6. set (owned2 i q)) - {b} = (\<Union>i < 6. set (owned2 i (p2_done k q)))" by auto
  then have u: "in_use (q_pool (p2_done k q)) = (\<Union>i < 6. set (owned2 i (p2_done k q))) \<union> set_option (q_filling (p2_done k q))"
    using assms(1) out(3) f(2) by (auto simp: p2q_ok_def e)
  have sub: "set (owned2 i (p2_done k q)) \<subseteq> set (owned2 i q)" "distinct (owned2 i q) \<Longrightarrow> distinct (owned2 i (p2_done k q))" for i
    unfolding o by (auto simp: ob)
  show "p2q_ok (p2_done k q)"
    unfolding p2q_ok_def
  proof (intro conjI allI impI)
    show "in_use (q_pool (p2_done k q)) = (\<Union>i < 6. set (owned2 i (p2_done k q))) \<union> set_option (q_filling (p2_done k q))" by (rule u)
    show "set (owned2 i (p2_done k q)) \<inter> set (owned2 l (p2_done k q)) = {}" if "i < 6" "l < 6" "i \<noteq> l" for i l
    proof -
      have "set (owned2 i q) \<inter> set (owned2 l q) = {}" using assms(1) that by (simp add: p2q_ok_def)
      then show ?thesis using sub(1) [of i] sub(1) [of l] by blast
    qed
    show "c \<notin> set (owned2 i (p2_done k q))" if "i < 6" "q_filling (p2_done k q) = Some c" for i c
    proof -
      have "c \<notin> set (owned2 i q)" using assms(1) that by (simp add: p2q_ok_def e)
      then show ?thesis using sub(1) [of i] by blast
    qed
    show "distinct (owned2 i (p2_done k q))" if "i < 6" for i
      using assms(1) that by (intro sub(2)) (simp add: p2q_ok_def)
  qed (use assms(1) f(1) in \<open>simp_all add: e p2q_ok_def\<close>)
qed

subsection \<open>All interleavings\<close>

text \<open>
  The steps of the seven threads, with the packets accepted for each ring and those whose
  processing has ended.
\<close>

type_synonym p2_run = "p2q \<times> (nat \<Rightarrow> byte list list) \<times> (nat \<Rightarrow> byte list list)"

inductive p2_step :: "p2_run \<Rightarrow> p2_run \<Rightarrow> bool" where
  get: "q_filling q = None \<Longrightarrow> p2_step (q, acc, fin) (p2_receive_get q, acc, fin)"
| receive: "p2_step (q, acc, fin) (p2_receive_write d q, acc, fin)"
| dispatch: "q_filling q = Some b \<Longrightarrow> q' = p2_receive_port port q \<Longrightarrow>
    p2_step (q, acc, fin) (q', \<lambda>k. acc k @ (if inptr (q_ring q' k) = inptr (q_ring q k) then [] else [q_data q b]), fin)"
| take: "k < 6 \<Longrightarrow> 0 < q_sem q k \<Longrightarrow> q_held q k = None \<Longrightarrow> p2_step (q, acc, fin) (p2_take k q, acc, fin)"
| finish: "k < 6 \<Longrightarrow> q_held q k = Some b \<Longrightarrow>
    p2_step (q, acc, fin) (p2_done k q, acc, fin(k := fin k @ [q_data q b]))"

definition p2q_start :: p2q where
  "p2q_start = \<lparr>q_running = True, q_pool = empty_pool, q_data = (\<lambda>_. []), q_ring = (\<lambda>k. empty_ring (p2_size k) 0),
     q_sem = (\<lambda>_. 0), q_count = (\<lambda>_. 0), q_held = (\<lambda>_. None), q_filling = None\<rparr>"

definition p2_reachable :: "p2_run \<Rightarrow> bool" where
  "p2_reachable s \<longleftrightarrow> p2_step\<^sup>*\<^sup>* (p2q_start, \<lambda>_. [], \<lambda>_. []) s"

lemma p2q_ok_start: "p2q_ok p2q_start" "packets2 k p2q_start = []"
proof -
  have r: "ring_ok (p2_size k) (empty_ring (p2_size k) (0 :: nat))" "ring_list (p2_size k) (empty_ring (p2_size k) (0 :: nat)) = []" for k
  proof -
    have "0 < p2_size k" by (simp add: p2_size_def)
    then show "ring_ok (p2_size k) (empty_ring (p2_size k) (0 :: nat))" "ring_list (p2_size k) (empty_ring (p2_size k) (0 :: nat)) = []"
      by (simp_all only: empty_ring)
  qed
  then have o: "owned2 k p2q_start = []" for k by (simp add: owned2_def held2_def p2q_start_def)
  show "packets2 k p2q_start = []" by (simp add: packets2_def o)
  show "p2q_ok p2q_start"
    unfolding p2q_ok_def o using r pool_ok_empty by (simp add: p2q_start_def)
qed

lemma p2_step_inv:
  assumes "p2_step (q, acc, fin) (q', acc', fin')" and "p2q_ok q" and "\<forall>k < 6. acc k = fin k @ packets2 k q"
  shows "p2q_ok q' \<and> (\<forall>k < 6. acc' k = fin' k @ packets2 k q')"
  using assms(1)
proof cases
  case get
  then show ?thesis using receive_get2 [OF assms(2)] assms(3) by simp
next
  case (receive d)
  then show ?thesis using receive_write2 [OF assms(2)] receive_write2(1) [OF assms(2), of 0] assms(3) by simp
next
  case (dispatch b port)
  then show ?thesis using receive_port2 [OF assms(2)] receive_port2 [OF assms(2), of b q' port 0] assms(3) by auto
next
  case (take k)
  then show ?thesis using take2 [OF assms(2)] assms(3) by simp
next
  case (finish k b)
  have "packets2 j q = (if j = k then [q_data q b] else []) @ packets2 j (p2_done k q)" for j
    by (rule done2(2) [OF assms(2) finish(4,5)])
  then show ?thesis using done2(1) [OF assms(2) finish(4,5)] assms(3) finish(1-3) by auto
qed

lemma p2_reachable_inv:
  assumes "p2_reachable (q, acc, fin)"
  shows "p2q_ok q \<and> (\<forall>k < 6. acc k = fin k @ packets2 k q)"
proof -
  have "p2_step\<^sup>*\<^sup>* (p2q_start, \<lambda>_. [], \<lambda>_. []) s \<Longrightarrow>
      p2q_ok (fst s) \<and> (\<forall>k < 6. fst (snd s) k = snd (snd s) k @ packets2 k (fst s))" for s
  proof (induction rule: rtranclp_induct)
    case base
    then show ?case by (simp add: p2q_ok_start)
  next
    case (step s t)
    obtain q acc fin q' acc' fin' where "s = (q, acc, fin)" "t = (q', acc', fin')" by (cases s, cases t)
    then show ?case using step p2_step_inv [of q acc fin q' acc' fin'] by simp
  qed
  from this [of "(q, acc, fin)"] show ?thesis using assms by (simp add: p2_reachable_def)
qed

text \<open>C8. Under every interleaving of the network thread and the six readers each ring delivers the
  packets it accepted, once and in order, and every buffer of the pool that is marked as used is
  held by exactly one thread or ring: nothing leaks, and at most 2177 buffers are ever in use.\<close>

theorem p2_queue_order:
  assumes "p2_reachable (q, acc, fin)" and "k < 6"
  shows "acc k = fin k @ packets2 k q
    \<and> in_use (q_pool q) = (\<Union>j < 6. set (owned2 j q)) \<union> set_option (q_filling q)
    \<and> card (in_use (q_pool q)) \<le> 2177"
proof -
  have ok: "p2q_ok q" and acc: "acc k = fin k @ packets2 k q" using p2_reachable_inv [OF assms(1)] assms(2) by simp_all
  have u: "in_use (q_pool q) = (\<Union>j < 6. set (owned2 j q)) \<union> set_option (q_filling q)" using ok by (simp add: p2q_ok_def)
  have "card (set (owned2 j q)) \<le> p2_size j" if "j < 6" for j
  proof -
    have "ring_ok (p2_size j) (q_ring q j)" using ok that by (simp add: p2q_ok_def)
    then have "length (queued2 j q) \<le> p2_size j - 1" by (rule p2_ring.ring.bounded)
    moreover have "length (held2 j q) \<le> 1" by (simp add: held2_def split: option.split)
    ultimately have "length (owned2 j q) \<le> p2_size j" by (simp add: owned2_def p2_size_def split: if_splits)
    then show ?thesis using card_length [of "owned2 j q"] by simp
  qed
  then have "(\<Sum>j < 6. card (set (owned2 j q))) \<le> (\<Sum>j < 6. p2_size j)" by (intro sum_mono) simp
  also have "\<dots> = 2176" by (simp add: p2_size_def lessThan_Suc eval_nat_numeral)
  finally have "card (\<Union>j < 6. set (owned2 j q)) \<le> 2176" using card_UN_le [of "{..<6}" "\<lambda>j. set (owned2 j q)"] by simp
  moreover have "card (set_option (q_filling q)) \<le> 1" by (cases "q_filling q") simp_all
  ultimately have "card (in_use (q_pool q)) \<le> 2177"
    unfolding u using card_Un_le [of "\<Union>j < 6. set (owned2 j q)" "set_option (q_filling q)"] by linarith
  then show ?thesis using acc u by blast
qed

subsection \<open>Restart\<close>

lemma deaf_step:
  assumes "q_sem q k = 0" and "inptr (q_ring q k) = 0" and "outptr (q_ring q k) = 1" and "k < 4"
    and "q' = saturn_post_iq_data (int k) b q"
  shows "q_sem q' k = 0 \<and> inptr (q_ring q' k) = 0 \<and> outptr (q_ring q' k) = 1"
proof -
  have "p2_next k 0 = 1" using assms(4) by (simp add: p2_next_def p2_size_def)
  then have "ring_put (p2_next k) b (q_ring q k) = None" using assms(2,3) by (simp add: ring_put_def)
  then show ?thesis using assms by (simp add: saturn_post_iq_data_def p2_put_def p2_free_def Let_def)
qed

text \<open>The restart empties the rings but not the semaphores. If one wake-up of a receiver is
  pending, its reader takes a slot that is not there, the ring counts as full from then on, and no
  packet of the receiver gets through any more, until the next restart.\<close>

lemma restart_deaf_receiver:
  assumes "k < 4" and "q_sem q k = 1" and "q' = p2_take k (p2_restart q)"
  shows "q_sem (fold (saturn_post_iq_data (int k)) bs q') k = 0
    \<and> inptr (q_ring (fold (saturn_post_iq_data (int k)) bs q') k) = inptr (q_ring q' k)"
proof -
  have "p2_next k 0 = 1" using assms(1) by (simp add: p2_next_def p2_size_def)
  then have q': "q_sem q' k = 0 \<and> inptr (q_ring q' k) = 0 \<and> outptr (q_ring q' k) = 1"
    using assms(2) by (simp add: assms(3) p2_take_def p2_restart_def Let_def)
  have "q_sem q k = 0 \<and> inptr (q_ring q k) = 0 \<and> outptr (q_ring q k) = 1 \<Longrightarrow>
    q_sem (fold (saturn_post_iq_data (int k)) bs q) k = 0 \<and> inptr (q_ring (fold (saturn_post_iq_data (int k)) bs q) k) = 0" for q
  proof (induction bs arbitrary: q)
    case (Cons b bs)
    show ?case using Cons.IH [OF deaf_step [OF _ _ _ assms(1) refl, of q b]] Cons.prems by simp
  qed simp
  from this [OF q'] show ?thesis using q' by simp
qed

end
