(* ===== verification/P2_Examples.thy ===== *)
theory P2_Examples
  imports P1_Examples P2_Tx_Facts P2_Queue
begin

text \<open>The properties of protocol 2 on a concrete radio: an Angelia with two receivers.\<close>

definition radio2 :: radio_state where
  "radio2 = radio0\<lparr>protocol := NEW_PROTOCOL, device := NEW_DEVICE_ANGELIA\<rparr>"

definition radio2_ps :: radio_state where
  "radio2_ps = radio2\<lparr>mox := True, transmitter := Some (sample_tx\<lparr>tx_puresignal := True, tx_attenuation := 7\<rparr>)\<rparr>"

definition p2_0 :: p2 where
  "p2_0 = \<lparr>glob = p1_0\<lparr>radio := radio2\<rparr>, conf2 = conf_0, conf2x = \<lparr>rigctl_tcp = None, mute_spkr_amp = False,
     mute_spkr_xmit = False, have_saturn_xdma = False, conf_cw_breakin = False, conf_cw_ramp_width = 9,
     g2_mic_input_xlr = False\<rparr>, data_socket = True, network_up = True, P2running = True, general_sequence = 0,
     highprio_sent_sequence = 0, rx_specific_sequence = 0, tx_specific_sequence = 0,
     rxcase = replicate 4 RXACTION_SKIP, p2_sent = []\<rparr>"

definition p2_ps :: p2 where
  "p2_ps = p2_0\<lparr>glob := p1_0\<lparr>radio := radio2_ps\<rparr>\<rparr>"

lemma hpsdr_ptt_0: "\<not> hpsdr_ptt p1_0"
  by (simp add: p1_0_def)

lemma radio2_simps [simp]:
  "device radio2 = NEW_DEVICE_ANGELIA" "receivers radio2 = 2" "\<not> diversity_enabled radio2" "\<not> duplex radio2"
  "vfo radio2 i = sample_vfo" "adc radio2 i = sample_adc" "bands radio2 = init_bands" "active_id radio2 = 0"
  "device radio2_ps = NEW_DEVICE_ANGELIA" "receivers radio2_ps = 2" "vfo radio2_ps i = sample_vfo" "active_id radio2_ps = 0"
  "pa_enabled radio2_ps" "bands radio2_ps = init_bands" "puresignal radio2_ps" "\<not> split radio2" "\<not> split radio2_ps"
  "txp radio2_ps = sample_tx\<lparr>tx_puresignal := True, tx_attenuation := 7\<rparr>" "\<not> tx_out_of_band_allowed radio2"
  by (simp_all add: radio2_def radio2_ps_def radio0_def puresignal_def txp_def)

lemma p2_0_simps [simp]: "p2_radio p2_0 = radio2" "\<not> p2_xmit p2_0" "p2_radio p2_ps = radio2_ps" "p2_xmit p2_ps"
  using hpsdr_ptt_0
  by (simp_all add: p2_xmit_def p2_0_def p2_ps_def radio_is_transmitting_def radio2_def radio0_def radio2_ps_def sample_tx_def)

lemma newdev_2: "newdev NEW_DEVICE_ANGELIA"
  by (simp add: newdev_def)

lemma no_pa_2: "\<not> disablePA (txband radio2_ps)"
  by (simp add: txband_def vfo_get_tx_vfo_def band_get_band_def sample_vfo_def init_bands_def band_row_def)

lemma pa_2: "pa_on radio2_ps"
  by (simp add: pa_on_def no_pa_2)

theorem p2_transmit_fields_example: "\<not> bit (high_priority_buffer p2_0 ! 4) 1"
  using p2_transmit_fields [of p2_0] by simp

lemma p2_frequencies_example:
  "of_be (field 21 (high_priority_buffer p2_0)) = uint (phase_word (DDCfrequency radio2 1))"
  using p2_frequencies [OF refl refl, of p2_0 1 3] by (simp add: newdev_2)

lemma phase_accuracy_example:
  "\<bar>14010000 - real_of_int (uint (phase_word 14010000)) * 122880000 / 2 ^ 32\<bar> < 0.03"
  using phase_accuracy [of 14010000] by simp

lemma alex_words_agree_example: "alex0 p2_ps AND 0xFFFF0000 = alex1 p2_ps AND 0xFFFF0000"
  using alex_words_agree [of p2_ps] by simp

lemma alex_exclusive_example:
  "alex0 p2_0 AND 0x07000000 \<in> {0x01000000, 0x02000000, 0x04000000} \<and> alex1 p2_0 AND 0x07000000 \<in> {0x01000000, 0x02000000, 0x04000000}"
  using alex_exclusive [OF refl, of p2_0] by (simp add: sample_adc_def)


lemma ps_attenuators_swapped_example:
  "high_priority_buffer p2_ps ! 1443 = 31 \<and> high_priority_buffer p2_ps ! 1442 = 7
    \<and> transmit_specific_buffer p2_ps ! 59 = 7 \<and> transmit_specific_buffer p2_ps ! 58 = 31"
  using ps_attenuators_swapped [OF _ _ _ refl refl, of p2_ps] by (simp add: pa_2)

lemma ddc1_width_missing_example: "receive_specific_buffer p2_ps ! (22 + 6 * 1) = 0"
  using ddc1_width_missing [OF refl _ _ _ _ refl, of p2_ps] by (simp add: newdev_2)

theorem p2_queue_order_example:
  "in_use (q_pool (p2_receive_get p2q_start)) = (\<Union>j < 6. set (owned2 j (p2_receive_get p2q_start)))
     \<union> set_option (q_filling (p2_receive_get p2q_start))"
proof -
  have "p2_step (p2q_start, \<lambda>_. [], \<lambda>_. []) (p2_receive_get p2q_start, \<lambda>_. [], \<lambda>_. [])"
    by (rule p2_step.get) (simp add: p2q_start_def)
  then have "p2_reachable (p2_receive_get p2q_start, \<lambda>_. [], \<lambda>_. [])"
    by (simp add: p2_reachable_def)
  from p2_queue_order [OF this, of 0] show ?thesis by simp
qed

lemma restart_deaf_receiver_example:
  "q_sem (fold (saturn_post_iq_data (int 2)) [0, 1, 2] (p2_take 2 (p2_restart (p2q_start\<lparr>q_sem := \<lambda>_. 1\<rparr>)))) 2 = 0"
proof -
  have "q_sem (p2q_start\<lparr>q_sem := \<lambda>_. 1\<rparr>) 2 = 1" "(2 :: nat) < 4" by simp_all
  from restart_deaf_receiver [OF this(2,1) refl, of "[0, 1, 2]"] show ?thesis by blast
qed

end
