(* ===== verification/Pacing.thy ===== *)
theory Pacing
  imports Prelude
begin

text \<open>
  How the senders of both protocols pace their packets (\<^verbatim>\<open>old_protocol_txiq_thread\<close> in
  \<^verbatim>\<open>src/src/old_protocol.c\<close>, \<^verbatim>\<open>new_protocol_rxaudio_thread\<close> and \<^verbatim>\<open>new_protocol_txiq_thread\<close>
  in \<^verbatim>\<open>src/src/new_protocol.c\<close>): the time before the wait, not the time of sending, is kept in the
  static variable \<open>last\<close>. Times are the seconds and nanoseconds of \<open>clock_gettime\<close>; what the
  thread does apart from waiting takes the time given by the caller.

  The lemmas show what the pacing achieves, a distance of the wanted time between every second
  packet, and that neighbouring packets can be sent without any pause.
\<close>

record timespec =
  tv_sec :: int
  tv_nsec :: int

definition nanoseconds :: "timespec \<Rightarrow> int" where
  "nanoseconds t = 1000000000 * tv_sec t + tv_nsec t"

definition timespec_ok :: "timespec \<Rightarrow> bool" where
  "timespec_ok t \<longleftrightarrow> 0 \<le> tv_nsec t \<and> tv_nsec t \<le> 999999999"

definition wait_until :: "int \<Rightarrow> timespec \<Rightarrow> timespec" where
  "wait_until delay prev = (
     let w = \<lparr>tv_sec = tv_sec prev, tv_nsec = tv_nsec prev + delay\<rparr>
     in if 999999999 < tv_nsec w then \<lparr>tv_sec = tv_sec w + 1, tv_nsec = tv_nsec w - 1000000000\<rparr> else w)"

text \<open>\<open>clock_nanosleep\<close> with an absolute time that is past returns at once.\<close>

definition earlier :: "timespec \<Rightarrow> timespec \<Rightarrow> bool" where
  "earlier a b \<longleftrightarrow> tv_sec a < tv_sec b \<or> tv_sec a = tv_sec b \<and> tv_nsec a < tv_nsec b"

definition clock_nanosleep :: "timespec \<Rightarrow> timespec \<Rightarrow> timespec" where
  "clock_nanosleep wait now = (if earlier now wait then wait else now)"

text \<open>One packet, ready at \<open>now\<close>: when it is sent, and the new value of \<open>last\<close>.\<close>

definition pace :: "int \<Rightarrow> timespec \<Rightarrow> timespec \<Rightarrow> timespec \<times> timespec" where
  "pace delay prev now = (let wait = wait_until delay prev; prev = now in (clock_nanosleep wait now, prev))"

lemma wait_until:
  assumes "timespec_ok t" and "0 \<le> delay" and "delay \<le> 1000000000"
  shows "timespec_ok (wait_until delay t) \<and> nanoseconds (wait_until delay t) = nanoseconds t + delay"
  using assms by (auto simp: wait_until_def timespec_ok_def nanoseconds_def Let_def)

lemma earlier: "timespec_ok a \<Longrightarrow> timespec_ok b \<Longrightarrow> earlier a b \<longleftrightarrow> nanoseconds a < nanoseconds b"
  by (auto simp: earlier_def timespec_ok_def nanoseconds_def)

lemma pace:
  assumes "timespec_ok prev" and "timespec_ok now" and "0 \<le> delay" and "delay \<le> 1000000000"
    and "pace delay prev now = (sent, prev')"
  shows "timespec_ok sent \<and> prev' = now \<and> nanoseconds sent = max (nanoseconds now) (nanoseconds prev + delay)"
  using assms wait_until [OF assms(1,3,4)] earlier [OF assms(2), of "wait_until delay prev"]
  by (auto simp: pace_def clock_nanosleep_def Let_def)

text \<open>
  A run: the packets with the times at which they are ready and sent. The thread looks for the
  next packet after it has sent one, so \<open>ready\<close> times are not before the previous \<open>sent\<close> time.
\<close>

fun paced :: "int \<Rightarrow> timespec \<Rightarrow> (timespec \<times> timespec) list \<Rightarrow> bool" where
  "paced delay prev [] \<longleftrightarrow> True"
| "paced delay prev ((now, sent) # rest) \<longleftrightarrow> timespec_ok now \<and> (sent, now) = pace delay prev now
     \<and> (case rest of [] \<Rightarrow> True | (now', _) # _ \<Rightarrow> nanoseconds sent \<le> nanoseconds now') \<and> paced delay now rest"

lemma paced_nth:
  assumes "paced delay prev run" and "timespec_ok prev" and "0 \<le> delay" and "delay \<le> 1000000000" and "i < length run"
  shows "timespec_ok (fst (run ! i)) \<and> timespec_ok (snd (run ! i))
    \<and> nanoseconds (snd (run ! i)) = max (nanoseconds (fst (run ! i))) (nanoseconds (if i = 0 then prev else fst (run ! (i - 1))) + delay)
    \<and> (Suc i < length run \<longrightarrow> nanoseconds (snd (run ! i)) \<le> nanoseconds (fst (run ! Suc i)))"
  using assms
proof (induction run arbitrary: prev i)
  case (Cons p rest)
  obtain now sent where p: "p = (now, sent)" by (cases p)
  have now: "timespec_ok now" and eq: "pace delay prev now = (sent, now)" and rest: "paced delay now rest"
    and next_ready: "rest \<noteq> [] \<Longrightarrow> nanoseconds sent \<le> nanoseconds (fst (rest ! 0))"
    using Cons.prems(1) by (auto simp: p split: list.splits)
  note sent = pace [OF Cons.prems(2) now Cons.prems(3,4) eq]
  show ?case
  proof (cases i)
    case 0
    then show ?thesis using sent now next_ready by (auto simp: p)
  next
    case (Suc k)
    then have "k < length rest" using Cons.prems(5) by simp
    from Cons.IH [OF rest now Cons.prems(3,4) this] show ?thesis by (cases k) (auto simp: Suc p)
  qed
qed simp

text \<open>The senders keep the wanted distance between a packet and the one after the next:
  1200 microseconds for protocol 1, 600 and 550 for the audio and I/Q packets of protocol 2. So
  no more than two packets are ever sent within that time, whatever the delays are.\<close>

lemma pacing_every_second:
  assumes "paced delay prev run" and "timespec_ok prev" and "delay \<in> {1200000, 600000, 550000}" and "i + 2 < length run"
  shows "nanoseconds (snd (run ! i)) + delay \<le> nanoseconds (snd (run ! (i + 2)))"
proof -
  have d: "0 \<le> delay" "delay \<le> 1000000000" using assms(3) by auto
  note n = paced_nth [OF assms(1,2) d]
  have i: "i < length run" "Suc i < length run" "Suc (Suc i) < length run" using assms(4) by simp_all
  have "nanoseconds (snd (run ! i)) \<le> nanoseconds (fst (run ! Suc i))" using n [OF i(1)] i(2) by blast
  moreover have "nanoseconds (fst (run ! Suc i)) + delay \<le> nanoseconds (snd (run ! Suc (Suc i)))"
    using n [OF i(3)] by simp
  ultimately show ?thesis by simp
qed

text \<open>The distance between neighbouring packets is not kept, although the comments demand it:
  a packet that is ready \<open>e\<close> nanoseconds after the previous one was, and had to wait, is followed
  by the next one after any distance \<open>d\<close> that is not below \<open>e\<close>. When packets are waiting to be
  sent both are close to zero.\<close>

lemma pacing_burst:
  assumes "timespec_ok prev" and "timespec_ok now" and "timespec_ok now'" and "delay \<in> {1200000, 600000, 550000}"
    and "nanoseconds now = nanoseconds prev + e" and "0 \<le> e" and "e \<le> delay"
    and "pace delay prev now = (sent, prev')"
    and "nanoseconds now' = nanoseconds sent + d" and "e \<le> d"
    and "pace delay prev' now' = (sent', prev'')"
  shows "sent' = now' \<and> nanoseconds sent' = nanoseconds sent + d"
proof -
  have d: "0 \<le> delay" "delay \<le> 1000000000" using assms(4) by auto
  have s: "prev' = now" "nanoseconds sent = nanoseconds prev + delay"
    using pace [OF assms(1,2) d assms(8)] assms(5,7) by auto
  have "\<not> earlier now' (wait_until delay now)"
    using wait_until [OF assms(2) d] earlier [OF assms(3)] s(2) assms(5,9,10) by simp
  then have "sent' = now'" using assms(11) by (simp add: pace_def clock_nanosleep_def Let_def s(1))
  then show ?thesis using assms(9) by simp
qed

end
