(* ===== verification/P2_Rings.thy ===== *)
theory P2_Rings
  imports P1_TxRing
begin

text \<open>
  Protocol 2, samples to the radio (\<^verbatim>\<open>src/src/new_protocol.c\<close>): the ring for receive audio,
  64 blocks of 64 stereo samples that is shared by the RX and TX threads under a mutex and drained
  at every change between them (\<open>new_protocol_audio_samples\<close>, \<open>new_protocol_tx_audio_samples\<close>,
  \<open>new_protocol_rxaudio_thread\<close>), and the ring for transmit I/Q, 68 blocks of 240 samples of 24
  bits, without lock and without check for emptiness (\<open>new_protocol_iq_samples\<close>,
  \<open>new_protocol_txiq_thread\<close>).

  Both are instances of \<open>block_ring\<close>. The pacing of the two senders is in theory \<open>Pacing\<close>.
\<close>

subsection \<open>Receive audio\<close>

record rxaudio =
  RXAUDIORINGBUF :: "byte list"
  rxaudio_inptr :: nat
  rxaudio_outptr :: nat
  rxaudio_count :: int
  rxaudio_flag :: nat               \<comment> \<open>0: RX or duplex, 1: TX without duplex, 2: after a start\<close>
  rxaudio_sem :: nat
  audio_sequence :: u32

definition audio_next :: "nat \<Rightarrow> nat" where
  "audio_next p = (p + 256) AND 16383"

text \<open>The drain: \<open>n\<close> blocks of silence are left in the ring.\<close>

definition audio_drain :: "nat \<Rightarrow> nat \<Rightarrow> rxaudio \<Rightarrow> rxaudio" where
  "audio_drain flg n b = b\<lparr>rxaudio_outptr := 0, rxaudio_inptr := 256 * n, rxaudio_count := 0, rxaudio_flag := flg,
     RXAUDIORINGBUF := put_bytes 0 (replicate (256 * n) 0) (RXAUDIORINGBUF b), rxaudio_sem := rxaudio_sem b + n\<rparr>"

definition audio_store :: "byte list \<Rightarrow> rxaudio \<Rightarrow> rxaudio" where
  "audio_store bs b = (
     let iptr = rxaudio_inptr b + 4 * nat (rxaudio_count b);
         b = b\<lparr>RXAUDIORINGBUF := put_bytes iptr bs (RXAUDIORINGBUF b)\<rparr>;
         b = b\<lparr>rxaudio_count := rxaudio_count b + 1\<rparr>
     in if 64 \<le> rxaudio_count b then
          let nptr = audio_next (rxaudio_inptr b)
          in if nptr \<noteq> rxaudio_outptr b then b\<lparr>rxaudio_inptr := nptr, rxaudio_sem := rxaudio_sem b + 1, rxaudio_count := 0\<rparr>
             else b\<lparr>rxaudio_count := - 4096\<rparr>
        else b)"

definition audio_put :: "nat \<Rightarrow> nat \<Rightarrow> byte list \<Rightarrow> rxaudio \<Rightarrow> rxaudio" where
  "audio_put flg n bs b = (
     if rxaudio_count b < 0 then b\<lparr>rxaudio_count := rxaudio_count b + 1\<rparr>
     else audio_store bs (if rxaudio_flag b \<noteq> flg then audio_drain flg n b else b))"

definition new_protocol_tx_audio_samples :: "real \<Rightarrow> rxaudio \<Rightarrow> rxaudio" where
  "new_protocol_tx_audio_samples sample b = (
     let s = to_int16 sample in audio_put 1 1 [byte_at 8 s, byte_at 0 s, byte_at 8 s, byte_at 0 s] b)"

text \<open>\<open>quiet\<close>: the radio is transmitting and not in duplex mode.\<close>

definition new_protocol_audio_samples :: "bool \<Rightarrow> real \<Rightarrow> real \<Rightarrow> rxaudio \<Rightarrow> rxaudio" where
  "new_protocol_audio_samples quiet left right b = (
     if quiet then b
     else let ls = to_int16 left; rs = to_int16 right
          in audio_put 0 3 [byte_at 8 ls, byte_at 0 ls, byte_at 8 rs, byte_at 0 rs] b)"

text \<open>\<open>new_protocol_rxaudio_thread\<close> after \<open>sem_wait\<close>: the packet it sends, if the ring has a block.\<close>

definition audio_take :: "rxaudio \<Rightarrow> byte list option \<times> rxaudio" where
  "audio_take b = (
     let b = b\<lparr>rxaudio_sem := rxaudio_sem b - 1\<rparr> in
     if rxaudio_outptr b = rxaudio_inptr b then (None, b)
     else
       let block = take 256 (drop (rxaudio_outptr b) (RXAUDIORINGBUF b));
           b = b\<lparr>rxaudio_outptr := audio_next (rxaudio_outptr b)\<rparr>;
           pkt = be32 (uint (audio_sequence b)) @ block
       in (Some pkt, b\<lparr>audio_sequence := audio_sequence b + 1\<rparr>))"

subsection \<open>Transmit I/Q\<close>

definition to_int24 :: "real \<Rightarrow> int" where
  "to_int24 x = c_trunc (x * 8388523.114 + 8388607.5) - 8388607"

definition be24 :: "int \<Rightarrow> byte list" where
  "be24 s = [byte_at 16 s, byte_at 8 s, byte_at 0 s]"

record txiq =
  TXIQRINGBUF :: "byte list"
  txiq_inptr :: nat
  txiq_outptr :: nat
  txiq_count :: int
  txiq_sem :: nat
  tx_iq_sequence :: u32
  iqbuffer :: "byte list option"     \<comment> \<open>the packet that the sender has copied\<close>

definition iq_next :: "nat \<Rightarrow> nat" where
  "iq_next p = (let nptr = p + 1440 in if 97920 \<le> nptr then 0 else nptr)"

definition iq_put :: "byte list \<Rightarrow> txiq \<Rightarrow> txiq" where
  "iq_put bs b = (
     if txiq_count b < 0 then b\<lparr>txiq_count := txiq_count b + 1\<rparr>
     else
       let iptr = txiq_inptr b + 6 * nat (txiq_count b);
           b = b\<lparr>TXIQRINGBUF := put_bytes iptr bs (TXIQRINGBUF b)\<rparr>;
           b = b\<lparr>txiq_count := txiq_count b + 1\<rparr>
       in if 240 \<le> txiq_count b then
            let nptr = iq_next (txiq_inptr b)
            in if nptr \<noteq> txiq_outptr b then b\<lparr>txiq_inptr := nptr, txiq_count := 0, txiq_sem := txiq_sem b + 1\<rparr>
               else b\<lparr>txiq_count := - 4800\<rparr>
          else b)"

definition new_protocol_iq_samples :: "real \<Rightarrow> real \<Rightarrow> txiq \<Rightarrow> txiq" where
  "new_protocol_iq_samples isample qsample b = iq_put (be24 (to_int24 isample) @ be24 (to_int24 qsample)) b"

text \<open>
  \<open>new_protocol_txiq_thread\<close>: after \<open>sem_wait\<close> a block is copied, whether the ring has one or
  not; then the index is moved, and the packet sent. The copy and the move are separate steps,
  since this ring has no lock.
\<close>

definition iq_copy :: "txiq \<Rightarrow> txiq" where
  "iq_copy b = b\<lparr>txiq_sem := txiq_sem b - 1, tx_iq_sequence := tx_iq_sequence b + 1,
     iqbuffer := Some (be32 (uint (tx_iq_sequence b)) @ take 1440 (drop (txiq_outptr b) (TXIQRINGBUF b)))\<rparr>"

definition iq_advance :: "txiq \<Rightarrow> byte list \<times> txiq" where
  "iq_advance b = (the (iqbuffer b), b\<lparr>txiq_outptr := iq_next (txiq_outptr b), iqbuffer := None\<rparr>)"

end
