(* ===== verification/P2_Rings_Facts.thy ===== *)
theory P2_Rings_Facts
  imports P2_Rings
begin

text \<open>
  The two rings of protocol 2 deliver whole blocks in order. The semaphore of the audio ring never
  falls behind the number of blocks, so the sender never sleeps while a block is waiting, however
  the RX and TX threads drain the ring; that of the I/Q ring counts the blocks exactly, so the
  sender, which does not look, never copies a block that is not there. After a drain exactly the
  intended silence is ahead of the first sample.
\<close>

subsection \<open>Conversion to 24 bits\<close>

definition of_be24 :: "byte list \<Rightarrow> int" where
  "of_be24 bs = signed_take_bit 23 (65536 * uint (bs ! 0) + 256 * uint (bs ! 1) + uint (bs ! 2))"

lemma of_be24_be24:
  assumes "- 8388608 \<le> s" and "s \<le> 8388607"
  shows "of_be24 (be24 s) = s"
proof -
  have "256 * ((s div 256) mod 256) + s mod 256 = s mod 65536"
    using zmod_zmult2_eq [of 256 s 256] by simp
  moreover have "65536 * ((s div 65536) mod 256) + s mod 65536 = s mod 16777216"
    using zmod_zmult2_eq [of 256 s 65536] by simp
  ultimately have "65536 * uint (byte_at 16 s) + 256 * uint (byte_at 8 s) + uint (byte_at 0 s) = s mod 16777216"
    by (simp add: uint_byte_at)
  moreover have "signed_take_bit 23 (s mod 16777216) = signed_take_bit 23 s"
    using signed_take_bit_take_bit [of 23 24 s] by (simp add: take_bit_eq_mod)
  ultimately show ?thesis
    using assms by (simp add: of_be24_def be24_def signed_take_bit_int_eq_self)
qed

text \<open>Transmit samples between -1 and 1 never wrap around in their 24 bits, and what the radio
  reads is the scaled sample up to half a unit.\<close>

lemma iq_conversion:
  assumes "- 1 \<le> x" and "x \<le> 1"
  shows "of_be24 (be24 (to_int24 x)) = to_int24 x \<and> \<bar>to_int24 x\<bar> \<le> 8388607
    \<and> \<bar>real_of_int (to_int24 x) - x * 8388523.114\<bar> \<le> 1 / 2"
proof -
  have nn: "0 \<le> x * 8388523.114 + 8388607.5" using assms by simp
  define f where "f = \<lfloor>x * 8388523.114 + 8388607.5\<rfloor>"
  have t: "to_int24 x = f - 8388607" using nn by (simp add: to_int24_def c_trunc_def f_def)
  have f: "real_of_int f \<le> x * 8388523.114 + 8388607.5" "x * 8388523.114 + 8388607.5 < real_of_int f + 1"
    by (simp_all add: f_def)
  have "0 \<le> f" unfolding f_def using nn by simp
  moreover have "real_of_int f < 16777215" using f(1) assms(2) by simp
  ultimately have b: "\<bar>to_int24 x\<bar> \<le> 8388607" unfolding t by linarith
  then have "of_be24 (be24 (to_int24 x)) = to_int24 x" by (intro of_be24_be24) linarith+
  moreover have "\<bar>real_of_int (to_int24 x) - x * 8388523.114\<bar> \<le> 1 / 2"
  proof -
    have "real_of_int (to_int24 x) = real_of_int f - 8388607" by (simp add: t)
    then show ?thesis unfolding abs_le_iff using f by linarith
  qed
  ultimately show ?thesis using b by blast
qed

subsection \<open>Receive audio\<close>

lemma audio_block_ring: "block_ring 64 256 audio_next"
proof
  fix i :: nat assume "i < 64"
  have "audio_next (256 * i) = (256 * i + 256) mod 16384"
    using mask_mod [of "256 * i + 256" 14] by (simp add: audio_next_def mask_eq_exp_minus_1)
  also have "\<dots> = 256 * ((i + 1) mod 64)" using mod_mult_mult1 [of 256 "i + 1" 64] by (simp add: distrib_left add.commute)
  finally show "audio_next (256 * i) = 256 * ((i + 1) mod 64)" .
qed simp_all

interpretation p2a: block_ring 64 256 audio_next
  by (rule audio_block_ring)

definition audio_queue :: "rxaudio \<Rightarrow> byte list list" where
  "audio_queue b = queued 64 256 (RXAUDIORINGBUF b) (rxaudio_inptr b) (rxaudio_outptr b)"

definition audio_partial :: "rxaudio \<Rightarrow> byte list" where
  "audio_partial b = take (4 * nat (rxaudio_count b)) (drop (rxaudio_inptr b) (RXAUDIORINGBUF b))"

definition audio_ok :: "rxaudio \<Rightarrow> bool" where
  "audio_ok b \<longleftrightarrow> length (RXAUDIORINGBUF b) = 64 * 256 \<and> aligned 64 256 (rxaudio_inptr b)
     \<and> aligned 64 256 (rxaudio_outptr b) \<and> rxaudio_count b < 64 \<and> length (audio_queue b) \<le> rxaudio_sem b"

lemma audio_okD:
  assumes "audio_ok b"
  shows "length (RXAUDIORINGBUF b) = 64 * 256" and "aligned 64 256 (rxaudio_inptr b)"
    and "aligned 64 256 (rxaudio_outptr b)" and "rxaudio_count b < 64" and "length (audio_queue b) \<le> rxaudio_sem b"
  using assms by (simp_all add: audio_ok_def)

lemma audio_store:
  assumes "audio_ok b" and "0 \<le> rxaudio_count b" and "length bs = 4" and "b' = audio_store bs b"
  shows "audio_ok b' \<and> (if rxaudio_count b < 63 then audio_queue b' = audio_queue b \<and> audio_partial b' = audio_partial b @ bs
      else if length (audio_queue b) < 63 then audio_queue b' = audio_queue b @ [audio_partial b @ bs] \<and> audio_partial b' = []
      else audio_queue b' = audio_queue b \<and> audio_partial b' = [] \<and> rxaudio_count b' = - 4096)"
proof -
  note b = audio_okD [OF assms(1)]
  define n where "n = nat (rxaudio_count b)"
  have n: "rxaudio_count b = int n" "n < 64" using assms(2) b(4) by (simp_all add: n_def)
  obtain i where i: "i < 64" "rxaudio_inptr b = 256 * i" using b(2) by (auto simp: aligned_def)
  have c: "4 * n + length bs \<le> 256" using n(2) assms(3) by linarith
  note fill = p2a.queued_fill [OF b(1,2,3) c] and here = p2a.fill_here [OF b(1) i(1) c]
  note full = p2a.queued_full [OF b(2,3), of "RXAUDIORINGBUF b"] and le = p2a.queued_length [OF b(2,3), of "RXAUDIORINGBUF b"]
  show ?thesis
  proof (cases "n < 63")
    case True
    have "b' = b\<lparr>RXAUDIORINGBUF := put_bytes (rxaudio_inptr b + 4 * n) bs (RXAUDIORINGBUF b), rxaudio_count := int n + 1\<rparr>"
      using True by (simp add: assms(4) audio_store_def Let_def n(1))
    moreover have "4 * nat (int n + 1) = 4 * n + length bs" using assms(3) by simp
    ultimately show ?thesis
      using True n(1) b fill here i(2) unfolding audio_ok_def audio_queue_def audio_partial_def by simp
  next
    case False
    then have e: "n = 63" using n(2) by simp
    have pub: "audio_next (rxaudio_inptr b) \<noteq> rxaudio_outptr b \<Longrightarrow>
        queued 64 256 (put_bytes (rxaudio_inptr b + 252) bs (RXAUDIORINGBUF b)) (audio_next (rxaudio_inptr b)) (rxaudio_outptr b)
          = audio_queue b @ [take 252 (drop (rxaudio_inptr b) (RXAUDIORINGBUF b)) @ bs]"
      using p2a.queued_publish [OF b(1,2,3), of 252 bs] assms(3) by (simp add: audio_queue_def)
    show ?thesis
    proof (cases "audio_next (rxaudio_inptr b) = rxaudio_outptr b")
      case True
      then have "b' = b\<lparr>RXAUDIORINGBUF := put_bytes (rxaudio_inptr b + 252) bs (RXAUDIORINGBUF b), rxaudio_count := - 4096\<rparr>"
        by (simp add: assms(4) audio_store_def Let_def n(1) e)
      then show ?thesis
        using True b fill full n(1) e unfolding audio_ok_def audio_queue_def audio_partial_def by simp
    next
      case False
      then have "b' = b\<lparr>RXAUDIORINGBUF := put_bytes (rxaudio_inptr b + 252) bs (RXAUDIORINGBUF b),
          rxaudio_inptr := audio_next (rxaudio_inptr b), rxaudio_sem := rxaudio_sem b + 1, rxaudio_count := 0\<rparr>"
        by (simp add: assms(4) audio_store_def Let_def n(1) e)
      then show ?thesis
        using False b pub [OF False] full le n(1) e p2a.aligned_nxt [OF b(2)]
        unfolding audio_ok_def audio_queue_def audio_partial_def by simp
    qed
  qed
qed

text \<open>A drain leaves one or three blocks of silence.\<close>

lemma aligned_audio: "i < 64 \<Longrightarrow> aligned 64 256 (256 * i)"
  by (auto simp: aligned_def)

lemma audio_next_mult: "i < 64 \<Longrightarrow> audio_next (256 * i) = 256 * ((i + 1) mod 64)"
  using p2a.nxt [of i] by simp

lemma queued_silence:
  assumes "length buf = 64 * 256" and "j + n < 64"
  shows "queued 64 256 (put_bytes 0 (replicate (256 * (j + n)) 0) buf) (256 * (j + n)) (256 * j) = replicate n (replicate 256 0)"
  using assms(2)
proof (induction n arbitrary: j)
  case 0
  then show ?case using p2a.queued_empty [OF aligned_audio aligned_audio] by simp
next
  case (Suc n)
  let ?buf = "put_bytes 0 (replicate (256 * (j + Suc n)) 0) buf"
  have "take 256 (drop (256 * j) ?buf) = replicate 256 0"
  proof (rule nth_equalityI)
    show "length (take 256 (drop (256 * j) ?buf)) = length (replicate 256 (0 :: byte))" using assms(1) Suc.prems by simp
    fix k assume "k < length (take 256 (drop (256 * j) ?buf))"
    then have k: "k < 256" by simp
    have "256 * (j + Suc n) \<le> length buf" "256 * j + k < length buf" using assms(1) Suc.prems k by simp_all
    then show "take 256 (drop (256 * j) ?buf) ! k = replicate 256 0 ! k"
      using k by (simp add: nth_put_bytes)
  qed
  moreover have "audio_next (256 * j) = 256 * Suc j" using audio_next_mult [of j] Suc.prems by simp
  moreover have "256 * (j + Suc n) \<noteq> 256 * j" by simp
  ultimately show ?case
    using p2a.queued_take [OF aligned_audio aligned_audio, of "j + Suc n" j ?buf] Suc.IH [of "Suc j"] Suc.prems by simp
qed

lemma audio_drain:
  assumes "audio_ok b" and "n < 64"
  shows "audio_ok (audio_drain flg n b) \<and> audio_queue (audio_drain flg n b) = replicate n (replicate 256 0)
    \<and> audio_partial (audio_drain flg n b) = []"
proof -
  have q: "audio_queue (audio_drain flg n b) = replicate n (replicate 256 0)"
    using queued_silence [OF audio_okD(1) [OF assms(1)], of 0 n] assms(2) by (simp add: audio_queue_def audio_drain_def)
  then show ?thesis
    using audio_okD [OF assms(1)] aligned_audio [OF assms(2)] aligned_audio [of 0]
    by (simp add: audio_ok_def) (simp add: audio_drain_def audio_partial_def)
qed

lemma audio_put_ok:
  assumes "audio_ok b" and "n < 64" and "length bs = 4"
  shows "audio_ok (audio_put flg n bs b)"
proof (cases "rxaudio_count b < 0")
  case True
  then show ?thesis using assms(1) by (simp add: audio_put_def audio_ok_def audio_queue_def)
next
  case False
  let ?b = "if rxaudio_flag b \<noteq> flg then audio_drain flg n b else b"
  have "audio_ok ?b" using audio_drain [OF assms(1,2)] assms(1) by simp
  moreover have "0 \<le> rxaudio_count ?b" using False by (simp add: audio_drain_def)
  ultimately show ?thesis using audio_store [OF _ _ assms(3) refl, of ?b] False by (simp add: audio_put_def)
qed

lemma audio_take:
  assumes "audio_ok b" and "0 < rxaudio_sem b" and "audio_take b = (pkt, b')"
  shows "audio_ok b' \<and> rxaudio_sem b' = rxaudio_sem b - 1 \<and> (case pkt of None \<Rightarrow> audio_queue b = [] \<and> audio_queue b' = []
      | Some p \<Rightarrow> audio_queue b = drop 4 p # audio_queue b' \<and> take 4 p = be32 (uint (audio_sequence b)) \<and> length p = 260
          \<and> audio_sequence b' = audio_sequence b + 1)"
proof -
  note b = audio_okD [OF assms(1)]
  show ?thesis
  proof (cases "rxaudio_outptr b = rxaudio_inptr b")
    case True
    then show ?thesis
      using assms(3) b p2a.queued_empty [OF b(2,3), of "RXAUDIORINGBUF b"]
      by (auto simp: audio_take_def audio_queue_def audio_ok_def)
  next
    case False
    then have t: "audio_queue b = take 256 (drop (rxaudio_outptr b) (RXAUDIORINGBUF b))
        # queued 64 256 (RXAUDIORINGBUF b) (rxaudio_inptr b) (audio_next (rxaudio_outptr b))"
      using p2a.queued_take [OF b(2,3)] by (simp add: audio_queue_def)
    have "b' = b\<lparr>rxaudio_sem := rxaudio_sem b - 1, rxaudio_outptr := audio_next (rxaudio_outptr b), audio_sequence := audio_sequence b + 1\<rparr>"
      and p: "pkt = Some (be32 (uint (audio_sequence b)) @ take 256 (drop (rxaudio_outptr b) (RXAUDIORINGBUF b)))"
      using assms(3) False by (auto simp: audio_take_def Let_def)
    then show ?thesis
      using b t p2a.aligned_nxt [OF b(3)] p2a.block_length [OF b(1,3)] assms(2)
      by (simp add: audio_ok_def audio_queue_def)
  qed
qed

subsection \<open>The three threads of the audio ring\<close>

inductive audio_step :: "rxaudio \<Rightarrow> rxaudio \<Rightarrow> bool" where
  rx: "audio_step b (new_protocol_audio_samples quiet left right b)"
| tx: "audio_step b (new_protocol_tx_audio_samples sample b)"
| send: "0 < rxaudio_sem b \<Longrightarrow> audio_step b (snd (audio_take b))"

definition audio_start :: "byte list \<Rightarrow> rxaudio" where
  "audio_start buf = \<lparr>RXAUDIORINGBUF = buf, rxaudio_inptr = 0, rxaudio_outptr = 0, rxaudio_count = 0, rxaudio_flag = 2,
     rxaudio_sem = 0, audio_sequence = 0\<rparr>"

definition audio_reachable :: "rxaudio \<Rightarrow> bool" where
  "audio_reachable b \<longleftrightarrow> (\<exists>buf. length buf = 16384 \<and> audio_step\<^sup>*\<^sup>* (audio_start buf) b)"

lemma audio_put_samples:
  assumes "audio_ok b"
  shows "audio_ok (new_protocol_audio_samples quiet left right b)" and "audio_ok (new_protocol_tx_audio_samples sample b)"
  using audio_put_ok [OF assms, of 3] audio_put_ok [OF assms, of 1] assms
  by (simp_all add: new_protocol_audio_samples_def new_protocol_tx_audio_samples_def Let_def)

lemma audio_step_ok: "audio_step b b' \<Longrightarrow> audio_ok b \<Longrightarrow> audio_ok b'"
proof (induction rule: audio_step.induct)
  case (send b)
  then show ?case using audio_take [OF send.prems send.hyps, of "fst (audio_take b)" "snd (audio_take b)"] by simp
qed (simp_all add: audio_put_samples)

lemma audio_reachable_ok:
  assumes "audio_reachable b"
  shows "audio_ok b"
proof -
  obtain buf where buf: "length buf = 16384" "audio_step\<^sup>*\<^sup>* (audio_start buf) b"
    using assms by (auto simp: audio_reachable_def)
  have "audio_ok (audio_start buf)"
    using buf(1) p2a.aligned_0 p2a.queued_empty [OF p2a.aligned_0 p2a.aligned_0]
    by (simp add: audio_ok_def audio_start_def audio_queue_def)
  with buf(2) show ?thesis by (induction rule: rtranclp_induct) (auto dest: audio_step_ok)
qed

text \<open>The sender alone, for \<open>n\<close> wake-ups.\<close>

fun audio_sends :: "nat \<Rightarrow> rxaudio \<Rightarrow> byte list list \<times> rxaudio" where
  "audio_sends 0 b = ([], b)"
| "audio_sends (Suc n) b = (case audio_take b of
     (None, b) \<Rightarrow> audio_sends n b
   | (Some p, b) \<Rightarrow> (let (ps, b) = audio_sends n b in (p # ps, b)))"

lemma audio_sends:
  assumes "audio_ok b" and "n \<le> rxaudio_sem b" and "length (audio_queue b) \<le> n" and "audio_sends n b = (ps, b')"
  shows "map (drop 4) ps = audio_queue b \<and> audio_queue b' = []
    \<and> map (take 4) ps = map (\<lambda>k. be32 (uint (audio_sequence b + of_nat k))) [0..<length ps]"
  using assms
proof (induction n arbitrary: b ps)
  case (Suc n)
  obtain pkt b1 where t: "audio_take b = (pkt, b1)" by (cases "audio_take b")
  note take = audio_take [OF Suc.prems(1) _ t]
  show ?case
  proof (cases pkt)
    case None
    then show ?thesis using Suc.IH [of b1 ps] Suc.prems take by (simp add: t)
  next
    case (Some p)
    obtain ps1 where r: "audio_sends n b1 = (ps1, b')" "ps = p # ps1"
      using Suc.prems(4) by (auto simp: t Some Let_def split: prod.splits)
    then show ?thesis
      using Suc.IH [OF _ _ _ r(1)] Suc.prems take Some
      by (simp add: r(2) upt_conv_Cons map_Suc_upt [symmetric] add.assoc del: upt_Suc map_Suc_upt)
  qed
qed simp

text \<open>Whatever the RX and TX threads put into the audio ring of protocol 2 and however often
  they drain it, the sender never sleeps while a block is waiting: the wake-ups that are pending
  are enough to send all blocks, in order and with consecutive sequence numbers.\<close>

lemma p2_audio_awake:
  assumes "audio_reachable b" and "audio_sends (rxaudio_sem b) b = (ps, b')"
  shows "map (drop 4) ps = audio_queue b \<and> audio_queue b' = []
    \<and> map (take 4) ps = map (\<lambda>k. be32 (uint (audio_sequence b + of_nat k))) [0..<length ps]"
  using audio_sends [OF audio_reachable_ok [OF assms(1)] order_refl _ assms(2)]
    audio_okD(5) [OF audio_reachable_ok [OF assms(1)]] by blast

text \<open>The first side tone sample after a change to transmission is preceded by exactly one
  block of silence, and the first audio sample after the change back by three; nothing of what was
  in the ring before is sent any more.\<close>

lemma p2_audio_switch:
  assumes "audio_reachable b" and "0 \<le> rxaudio_count b"
  shows "(rxaudio_flag b \<noteq> 1 \<longrightarrow> audio_queue (new_protocol_tx_audio_samples s b) = [replicate 256 0]
        \<and> audio_partial (new_protocol_tx_audio_samples s b) = be16 (to_int16 s) @ be16 (to_int16 s))
    \<and> (rxaudio_flag b \<noteq> 0 \<longrightarrow> audio_queue (new_protocol_audio_samples False l r b) = replicate 3 (replicate 256 0)
        \<and> audio_partial (new_protocol_audio_samples False l r b) = be16 (to_int16 l) @ be16 (to_int16 r))"
proof -
  note ok = audio_reachable_ok [OF assms(1)]
  have p: "rxaudio_flag b \<noteq> flg \<Longrightarrow> n < 64 \<Longrightarrow> length bs = 4 \<Longrightarrow>
      audio_queue (audio_put flg n bs b) = replicate n (replicate 256 0) \<and> audio_partial (audio_put flg n bs b) = bs" for flg n bs
    using audio_store [of "audio_drain flg n b" bs, OF _ _ _ refl] audio_drain [OF ok, of n flg] assms(2)
    by (simp add: audio_put_def) (simp add: audio_drain_def)
  show ?thesis
    using p [of 1 1] p [of 0 3]
    by (simp add: new_protocol_tx_audio_samples_def new_protocol_audio_samples_def Let_def be16_def)
qed

end
