(* ===== verification/P2_Iq_Facts.thy ===== *)
theory P2_Iq_Facts
  imports P2_Rings
begin

text \<open>
  The transmit I/Q ring of protocol 2, under every interleaving of the transmitter thread with the
  two steps of the sender: the packets are the published blocks, in order, with consecutive
  sequence numbers, and the semaphore counts exactly the blocks that are waiting.
\<close>

lemma iq_block_ring: "block_ring 68 1440 iq_next"
  by unfold_locales (auto simp: iq_next_def Let_def mod_Suc)

interpretation p2i: block_ring 68 1440 iq_next
  by (rule iq_block_ring)

definition iq_queue :: "txiq \<Rightarrow> byte list list" where
  "iq_queue b = queued 68 1440 (TXIQRINGBUF b) (txiq_inptr b) (txiq_outptr b)"

definition iq_partial :: "txiq \<Rightarrow> byte list" where
  "iq_partial b = take (6 * nat (txiq_count b)) (drop (txiq_inptr b) (TXIQRINGBUF b))"

definition iq_shape :: "txiq \<Rightarrow> bool" where
  "iq_shape b \<longleftrightarrow> length (TXIQRINGBUF b) = 68 * 1440 \<and> aligned 68 1440 (txiq_inptr b)
     \<and> aligned 68 1440 (txiq_outptr b) \<and> txiq_count b < 240"

text \<open>Whether the next sample publishes a block.\<close>

definition publishes :: "txiq \<Rightarrow> bool" where
  "publishes b \<longleftrightarrow> txiq_count b = 239 \<and> length (iq_queue b) < 67"

lemma iq_put_frame:
  "tx_iq_sequence (iq_put bs b) = tx_iq_sequence b" "iqbuffer (iq_put bs b) = iqbuffer b"
  by (simp_all add: iq_put_def Let_def)

lemma iq_put:
  assumes "iq_shape b" and "length bs = 6" and "b' = iq_put bs b"
  shows "iq_shape b' \<and> iq_queue b' = iq_queue b @ (if publishes b then [iq_partial b @ bs] else [])
    \<and> txiq_sem b' = txiq_sem b + (if publishes b then 1 else 0)
    \<and> iq_partial b' = (if 0 \<le> txiq_count b \<and> txiq_count b < 239 then iq_partial b @ bs else [])"
proof -
  have b: "length (TXIQRINGBUF b) = 68 * 1440" "aligned 68 1440 (txiq_inptr b)" "aligned 68 1440 (txiq_outptr b)" "txiq_count b < 240"
    using assms(1) by (simp_all add: iq_shape_def)
  consider "txiq_count b < 0" | n where "txiq_count b = int n" "n < 239" | "txiq_count b = 239"
  proof (cases "txiq_count b < 0 \<or> txiq_count b = 239")
    case False
    then have "txiq_count b = int (nat (txiq_count b))" "nat (txiq_count b) < 239" using b(4) by linarith+
    then show ?thesis by (rule that(2))
  qed (use that(1,3) in blast)
  then show ?thesis
  proof cases
    case 1
    then have "b' = b\<lparr>txiq_count := txiq_count b + 1\<rparr>" by (simp add: assms(3) iq_put_def)
    then show ?thesis
      using 1 b unfolding iq_shape_def iq_queue_def iq_partial_def publishes_def by simp
  next
    case 2
    obtain i where i: "i < 68" "txiq_inptr b = 1440 * i" using b(2) by (auto simp: aligned_def)
    have c: "6 * n + length bs \<le> 1440" using 2(2) assms(2) by linarith
    have "b' = b\<lparr>TXIQRINGBUF := put_bytes (txiq_inptr b + 6 * n) bs (TXIQRINGBUF b), txiq_count := int n + 1\<rparr>"
      using 2 by (simp add: assms(3) iq_put_def Let_def)
    moreover have "6 * nat (int n + 1) = 6 * n + length bs" using assms(2) by simp
    ultimately show ?thesis
      using 2 b p2i.queued_fill [OF b(1,2,3) c] p2i.fill_here [OF b(1) i(1) c] i(2)
      unfolding iq_shape_def iq_queue_def iq_partial_def publishes_def by simp
  next
    case 3
    have c: "1434 + length bs \<le> 1440" "1434 + length bs = 1440" using assms(2) by simp_all
    note full = p2i.queued_full [OF b(2,3), of "TXIQRINGBUF b"] and le = p2i.queued_length [OF b(2,3), of "TXIQRINGBUF b"]
    show ?thesis
    proof (cases "iq_next (txiq_inptr b) = txiq_outptr b")
      case True
      then have "b' = b\<lparr>TXIQRINGBUF := put_bytes (txiq_inptr b + 1434) bs (TXIQRINGBUF b), txiq_count := - 4800\<rparr>"
        by (simp add: assms(3) iq_put_def Let_def 3)
      then show ?thesis
        using 3 True full b p2i.queued_fill [OF b(1,2,3) c(1)]
        unfolding iq_shape_def iq_queue_def iq_partial_def publishes_def by simp
    next
      case False
      then have "b' = b\<lparr>TXIQRINGBUF := put_bytes (txiq_inptr b + 1434) bs (TXIQRINGBUF b), txiq_inptr := iq_next (txiq_inptr b),
          txiq_count := 0, txiq_sem := txiq_sem b + 1\<rparr>"
        by (simp add: assms(3) iq_put_def Let_def 3)
      then show ?thesis
        using 3 False full le b p2i.queued_publish [OF b(1,2,3) c(2) False] p2i.aligned_nxt [OF b(2)]
        unfolding iq_shape_def iq_queue_def iq_partial_def publishes_def by simp
    qed
  qed
qed

subsection \<open>Runs\<close>

text \<open>The state, the blocks published so far, and the packets sent so far.\<close>

type_synonym iq_run = "txiq \<times> byte list list \<times> byte list list"

inductive iq_step :: "iq_run \<Rightarrow> iq_run \<Rightarrow> bool" where
  sample: "iq_step (b, blks, pkts) (new_protocol_iq_samples i q b, if publishes b
     then blks @ [iq_partial b @ be24 (to_int24 i) @ be24 (to_int24 q)] else blks, pkts)"
| copy: "0 < txiq_sem b \<Longrightarrow> iqbuffer b = None \<Longrightarrow> iq_step (b, blks, pkts) (iq_copy b, blks, pkts)"
| advance: "iqbuffer b \<noteq> None \<Longrightarrow> iq_advance b = (p, b') \<Longrightarrow> iq_step (b, blks, pkts) (b', blks, pkts @ [p])"

definition iq_start :: "byte list \<Rightarrow> txiq" where
  "iq_start buf = \<lparr>TXIQRINGBUF = buf, txiq_inptr = 0, txiq_outptr = 0, txiq_count = 0, txiq_sem = 0, tx_iq_sequence = 0,
     iqbuffer = None\<rparr>"

definition iq_reachable :: "iq_run \<Rightarrow> bool" where
  "iq_reachable s \<longleftrightarrow> (\<exists>buf. length buf = 97920 \<and> iq_step\<^sup>*\<^sup>* (iq_start buf, [], []) s)"

definition copying :: "txiq \<Rightarrow> nat" where
  "copying b = (if iqbuffer b = None then 0 else 1)"

definition iq_inv :: "iq_run \<Rightarrow> bool" where
  "iq_inv s \<longleftrightarrow> (case s of (b, blks, pkts) \<Rightarrow> iq_shape b \<and> length (iq_queue b) = txiq_sem b + copying b
     \<and> blks = map (drop 4) pkts @ iq_queue b
     \<and> map (take 4) pkts = map (\<lambda>k. be32 (uint (of_nat k :: u32))) [0..<length pkts]
     \<and> tx_iq_sequence b = of_nat (length pkts + copying b)
     \<and> (\<forall>p. iqbuffer b = Some p \<longrightarrow> p = be32 (uint (of_nat (length pkts) :: u32)) @ hd (iq_queue b)))"

lemma iq_inv_sample:
  assumes "iq_inv (b, blks, pkts)" and "length bs = 6"
  shows "iq_inv (iq_put bs b, if publishes b then blks @ [iq_partial b @ bs] else blks, pkts)"
proof -
  have h: "hd (iq_queue b @ x) = hd (iq_queue b)" if "iqbuffer b \<noteq> None" for x
  proof -
    have "0 < length (iq_queue b)" using assms(1) that by (simp add: iq_inv_def copying_def)
    then show ?thesis by (cases "iq_queue b") simp_all
  qed
  from assms(1) iq_put [OF _ assms(2) refl, of b] iq_put_frame [of bs b] h show ?thesis
    by (auto simp: iq_inv_def copying_def)
qed

lemma iq_inv_copy:
  assumes "iq_inv (b, blks, pkts)" and "0 < txiq_sem b" and "iqbuffer b = None"
  shows "iq_inv (iq_copy b, blks, pkts)"
proof -
  have b: "aligned 68 1440 (txiq_inptr b)" "aligned 68 1440 (txiq_outptr b)"
    using assms(1) by (simp_all add: iq_inv_def iq_shape_def)
  have "iq_queue b \<noteq> []" using assms by (auto simp: iq_inv_def copying_def)
  then have "txiq_inptr b \<noteq> txiq_outptr b" using p2i.queued_empty [OF b] by (simp add: iq_queue_def)
  from p2i.queued_take [OF b this, of "TXIQRINGBUF b"]
  have "hd (iq_queue b) = take 1440 (drop (txiq_outptr b) (TXIQRINGBUF b))" by (simp add: iq_queue_def)
  moreover have "iq_queue (iq_copy b) = iq_queue b" "iq_shape (iq_copy b) = iq_shape b"
    by (simp_all add: iq_queue_def iq_shape_def iq_copy_def)
  ultimately show ?thesis
    using assms by (simp add: iq_inv_def copying_def) (simp add: iq_copy_def)
qed

lemma iq_inv_advance:
  assumes "iq_inv (b, blks, pkts)" and "iqbuffer b \<noteq> None" and "iq_advance b = (p, b')"
  shows "iq_inv (b', blks, pkts @ [p])"
proof -
  have b: "length (TXIQRINGBUF b) = 68 * 1440" "aligned 68 1440 (txiq_inptr b)" "aligned 68 1440 (txiq_outptr b)"
    using assms(1) by (simp_all add: iq_inv_def iq_shape_def)
  have b': "b' = b\<lparr>txiq_outptr := iq_next (txiq_outptr b), iqbuffer := None\<rparr>" and p: "iqbuffer b = Some p"
    using assms(2,3) by (auto simp: iq_advance_def)
  have "iq_queue b \<noteq> []" using assms(1,2) by (auto simp: iq_inv_def copying_def)
  then have "txiq_inptr b \<noteq> txiq_outptr b" using p2i.queued_empty [OF b(2,3)] by (simp add: iq_queue_def)
  from p2i.queued_take [OF b(2,3) this, of "TXIQRINGBUF b"]
  have q: "iq_queue b = hd (iq_queue b) # iq_queue b'" by (simp add: iq_queue_def b')
  have "iq_shape b' = iq_shape b" using b p2i.aligned_nxt [OF b(3)] by (simp add: iq_shape_def b')
  moreover have "p = be32 (uint (of_nat (length pkts) :: u32)) @ hd (iq_queue b)"
    using assms(1) p by (simp add: iq_inv_def)
  moreover have "length (iq_queue b) = Suc (length (iq_queue b'))" using q by (metis length_Cons)
  ultimately show ?thesis
    using assms(1,2) q by (simp add: iq_inv_def copying_def) (simp add: b')
qed

lemma iq_step_inv: "iq_step s s' \<Longrightarrow> iq_inv s \<Longrightarrow> iq_inv s'"
proof (induction rule: iq_step.induct)
  case (sample b blks pkts i q)
  then show ?case
    using iq_inv_sample [of b blks pkts "be24 (to_int24 i) @ be24 (to_int24 q)"]
    by (simp add: new_protocol_iq_samples_def be24_def)
qed (rule iq_inv_copy, assumption+, rule iq_inv_advance, assumption+)

lemma iq_reachable_inv:
  assumes "iq_reachable s"
  shows "iq_inv s"
proof -
  obtain buf where buf: "length buf = 97920" "iq_step\<^sup>*\<^sup>* (iq_start buf, [], []) s"
    using assms by (auto simp: iq_reachable_def)
  have "iq_inv (iq_start buf, [], [])"
    using buf(1) p2i.aligned_0 p2i.queued_empty [OF p2i.aligned_0 p2i.aligned_0]
    by (simp add: iq_inv_def iq_shape_def iq_start_def iq_queue_def copying_def)
  with buf(2) show ?thesis by (induction rule: rtranclp_induct) (auto dest: iq_step_inv)
qed

text \<open>C11. Under every interleaving of the transmitter with the sender, which copies a block and
  moves the index in two steps and never looks whether the ring has one, the packets sent are the
  blocks published, in order, each with its number as sequence number, and the semaphore is exactly
  the number of blocks still to be taken.\<close>

theorem p2_iq_order:
  assumes "iq_reachable (b, blks, pkts)"
  shows "blks = map (drop 4) pkts @ iq_queue b
    \<and> map (take 4) pkts = map (\<lambda>k. be32 (uint (of_nat k :: u32))) [0..<length pkts]
    \<and> length (iq_queue b) = txiq_sem b + (if iqbuffer b = None then 0 else 1)
    \<and> length (iq_queue b) \<le> 67"
proof -
  have inv: "iq_inv (b, blks, pkts)" by (rule iq_reachable_inv [OF assms])
  then have "aligned 68 1440 (txiq_inptr b)" "aligned 68 1440 (txiq_outptr b)"
    by (simp_all add: iq_inv_def iq_shape_def)
  from p2i.queued_length [OF this, of "TXIQRINGBUF b"] inv show ?thesis
    by (simp add: iq_inv_def iq_queue_def copying_def)
qed

end
