(* ===== verification/P2_Rx.thy ===== *)
theory P2_Rx
  imports P2_Tx "HOL-Library.Monad_Syntax"
begin

text \<open>
  Protocol 2, what is done with the packets of the radio (\<^verbatim>\<open>src/src/new_protocol.c\<close>):
  \<open>iq_thread\<close> with the three functions for I/Q samples, \<open>process_high_priority\<close> for the status
  of the radio and \<open>process_mic_data\<close>.

  A packet is given as the whole array \<open>mybuf->buffer\<close> of \<open>P2_BUFFER_SIZE\<close> bytes. The functions for
  samples read it byte by byte at an index that only they advance; the result \<open>None\<close> is a read at an
  index that the array does not have (the C code reads whatever follows it). The static variables of \<open>process_high_priority\<close>
  have the names of those of \<open>old_protocol.c\<close>; since only one protocol runs, both are the fields of
  the record \<open>p1\<close>. Calls are appended to the trace there.
\<close>

abbreviation (input) "P2_BUFFER_SIZE \<equiv> 1500 :: nat"

record p2_rx =
  proto :: p2
  highprio_rcvd_sequence :: u32
  micsamples_sequence :: u32
  ddc_sequence :: "nat \<Rightarrow> u32"
  sequence_errors :: nat

abbreviation rx_glob :: "p2_rx \<Rightarrow> p1" where "rx_glob x \<equiv> glob (proto x)"
abbreviation rx_radio :: "p2_rx \<Rightarrow> radio_state" where "rx_radio x \<equiv> radio (rx_glob x)"

definition on_glob :: "(p1 \<Rightarrow> p1) \<Rightarrow> p2_rx \<Rightarrow> p2_rx" where
  "on_glob f x = x\<lparr>proto := (proto x)\<lparr>glob := f (rx_glob x)\<rparr>\<rparr>"

definition on_proto :: "(p2 \<Rightarrow> p2) \<Rightarrow> p2_rx \<Rightarrow> p2_rx" where
  "on_proto f x = x\<lparr>proto := f (proto x)\<rparr>"

subsection \<open>Samples\<close>

definition seq_of :: "byte list \<Rightarrow> u32" where
  "seq_of buf = push_bit 24 (ucast (buf ! 0)) + push_bit 16 (ucast (buf ! 1)) + push_bit 8 (ucast (buf ! 2)) + ucast (buf ! 3)"

definition samplesperframe :: "byte list \<Rightarrow> nat" where
  "samplesperframe buf = 256 * unat (buf ! 14) + unat (buf ! 15)"

definition byte_at :: "byte list \<Rightarrow> nat \<Rightarrow> byte option" where
  "byte_at buf b = (if b < length buf then Some (buf ! b) else None)"

definition sample24 :: "byte list \<Rightarrow> nat \<Rightarrow> u32 option" where
  "sample24 buf b = do {
     x \<leftarrow> byte_at buf b;
     y \<leftarrow> byte_at buf (b + 1);
     z \<leftarrow> byte_at buf (b + 2);
     Some ((push_bit 16 (scast x) OR (push_bit 8 (ucast y) AND 0xFF00)) OR ucast z)
   }"

definition iq_at :: "byte list \<Rightarrow> nat \<Rightarrow> iq option" where
  "iq_at buf b = do {
     left \<leftarrow> sample24 buf b;
     right \<leftarrow> sample24 buf (b + 3);
     Some (sample_double left, sample_double right)
   }"

text \<open>The loops: \<open>n\<close> rounds of a body that reads \<open>step\<close> bytes at the index \<open>b\<close>.\<close>

fun sample_loop :: "(nat \<Rightarrow> p1 \<Rightarrow> p1 option) \<Rightarrow> nat \<Rightarrow> nat \<Rightarrow> nat \<Rightarrow> p1 \<Rightarrow> p1 option" where
  "sample_loop body step 0 b p = Some p"
| "sample_loop body step (Suc n) b p = body b p \<bind> sample_loop body step n (b + step)"

definition process_iq_data :: "byte list \<Rightarrow> nat \<Rightarrow> p1 \<Rightarrow> p1 option" where
  "process_iq_data buf rx = sample_loop (\<lambda>b p. do { iq \<leftarrow> iq_at buf b; Some (p1_emit (Rx_iq rx iq) p) })
     6 (samplesperframe buf) 16"

text \<open>Two receivers of the radio in one packet: the loops count the samples in steps of two.\<close>

definition pairs_of :: "byte list \<Rightarrow> nat" where
  "pairs_of buf = (samplesperframe buf + 1) div 2"

definition process_div_iq_data :: "byte list \<Rightarrow> p1 \<Rightarrow> p1 option" where
  "process_div_iq_data buf = sample_loop (\<lambda>b p. do {
       iq0 \<leftarrow> iq_at buf b;
       iq1 \<leftarrow> iq_at buf (b + 6);
       let p = p1_emit (Rx_div_iq iq0 iq1) p;
       let r = radio p;
       Some (if 1 < receivers r \<and> rx_sample_rate (receiver r 0) = rx_sample_rate (receiver r 1)
         then p1_emit (Rx_iq 1 iq1) p else p)
     }) 12 (pairs_of buf) 16"

definition process_ps_iq_data :: "byte list \<Rightarrow> p1 \<Rightarrow> p1 option" where
  "process_ps_iq_data buf = sample_loop (\<lambda>b p. do {
       iq0 \<leftarrow> iq_at buf b;
       iq1 \<leftarrow> iq_at buf (b + 6);
       Some (p1_emit (Tx_ps_iq iq1 iq0) p)
     }) 12 (pairs_of buf) 16"

definition process_rxcase :: "rxaction \<Rightarrow> byte list \<Rightarrow> p1 \<Rightarrow> p1 option" where
  "process_rxcase a buf = (case a of
     RXACTION_SKIP \<Rightarrow> Some
   | RXACTION_RX1 \<Rightarrow> process_iq_data buf 0
   | RXACTION_RX2 \<Rightarrow> process_iq_data buf 1
   | RXACTION_PS \<Rightarrow> process_ps_iq_data buf
   | RXACTION_DIV \<Rightarrow> process_div_iq_data buf)"

text \<open>\<open>iq_thread\<close>, for one packet that is not marked as free.\<close>

definition iq_packet :: "nat \<Rightarrow> byte list \<Rightarrow> p2_rx \<Rightarrow> p2_rx option" where
  "iq_packet ddc buf x = (
     let sequence = seq_of buf;
         x = (if ddc_sequence x ddc \<noteq> sequence then x\<lparr>sequence_errors := sequence_errors x + 1\<rparr> else x);
         x = x\<lparr>ddc_sequence := (ddc_sequence x)(ddc := sequence + 1)\<rparr>
     in map_option (\<lambda>g. on_glob (\<lambda>_. g) x) (process_rxcase (rxcase (proto x) ! ddc) buf (rx_glob x)))"

definition mic_at :: "byte list \<Rightarrow> nat \<Rightarrow> u16" where
  "mic_at buf b = push_bit 8 (ucast (buf ! b)) OR ucast (buf ! (b + 1))"

definition process_mic_data :: "byte list \<Rightarrow> p2_rx \<Rightarrow> p2_rx" where
  "process_mic_data buf x = (
     let sequence = seq_of buf;
         x = (if sequence \<noteq> micsamples_sequence x then x\<lparr>sequence_errors := sequence_errors x + 1\<rparr> else x);
         x = x\<lparr>micsamples_sequence := sequence + 1\<rparr>
     in on_glob (fold (\<lambda>i. p1_emit (Tx_mic (of_int (sint (mic_at buf (4 + 2 * i))) * 0.00003051))) [0..<64]) x)"

subsection \<open>Status of the radio\<close>

definition hp_sequence :: "byte list \<Rightarrow> p2_rx \<Rightarrow> p2_rx" where
  "hp_sequence buf x = (
     let sequence = seq_of buf;
         x = (if sequence \<noteq> highprio_rcvd_sequence x
              then x\<lparr>highprio_rcvd_sequence := sequence, sequence_errors := sequence_errors x + 1\<rparr> else x)
     in x\<lparr>highprio_rcvd_sequence := highprio_rcvd_sequence x + 1\<rparr>)"

definition hp_inputs :: "byte list \<Rightarrow> p1 \<Rightarrow> p1" where
  "hp_inputs buf g = g\<lparr>hpsdr_ptt := bit (buf ! 4) 0, hpsdr_dot := bit (buf ! 4) 1, hpsdr_dash := bit (buf ! 4) 2\<rparr>"

definition hp_flags :: "byte list \<Rightarrow> p1 \<Rightarrow> p1" where
  "hp_flags buf g = (
     let g = g\<lparr>tx_fifo_overrun := tx_fifo_overrun g \<or> bit (buf ! 4) 6, tx_fifo_underrun := tx_fifo_underrun g \<or> bit (buf ! 4) 5\<rparr>
     in or_overload 1 (bit (buf ! 5) 1) (or_overload 0 (bit (buf ! 5) 0) g))"

definition hp_val :: "byte list \<Rightarrow> nat \<Rightarrow> u32" where
  "hp_val buf i = control_val (buf ! i) (buf ! (i + 1))"

definition hp_readings :: "byte list \<Rightarrow> p1 \<Rightarrow> p1" where
  "hp_readings buf g = (
     let g = g\<lparr>ex_acc := smooth (ex_acc g) (hp_val buf 6)\<rparr>;
         val = hp_val buf 14;
         g = g\<lparr>fwd_acc := smooth (fwd_acc g) val\<rparr>;
         g = (if alex_forward_max (radio g) < uint val then g\<lparr>radio := (radio g)\<lparr>alex_forward_max := uint val\<rparr>\<rparr> else g);
         g = g\<lparr>rev_acc := smooth (rev_acc g) (hp_val buf 22)\<rparr>;
         g = g\<lparr>adc1_acc := smooth (adc1_acc g) (hp_val buf 55)\<rparr>;
         g = g\<lparr>adc0_acc := smooth (adc0_acc g) (hp_val buf 57)\<rparr>
     in g\<lparr>exciter_power := ex_acc g div 16, alex_forward_power := fwd_acc g div 16, alex_reverse_power := rev_acc g div 16,
          ADC0 := adc0_acc g div 16, ADC1 := adc1_acc g div 16\<rparr>)"

definition orion2 :: "p1 \<Rightarrow> bool" where
  "orion2 g \<longleftrightarrow> device (radio g) = NEW_DEVICE_ORION2 \<or> device (radio g) = NEW_DEVICE_SATURN"

definition hp_cw :: "byte list \<Rightarrow> p2_rx \<Rightarrow> p2_rx" where
  "hp_cw buf x = (
     let g = rx_glob x; hpsdr_cw = (orion2 g \<and> bit (buf ! 59) 3)
     in if hpsdr_dash g \<or> hpsdr_dot g \<or> hpsdr_cw then
          let x = (if CAT_cw_is_active g \<or> MIDI_cw_is_active g
                   then on_proto new_protocol_transmit_specific
                     (on_glob (\<lambda>g. g\<lparr>CAT_cw_is_active := False, MIDI_cw_is_active := False\<rparr>) x)
                   else x)
          in on_glob (\<lambda>g. g\<lparr>cw_key_hit := True\<rparr>) x
        else x)"

definition hp_keyer :: "bool \<Rightarrow> bool \<Rightarrow> p1 \<Rightarrow> p1" where
  "hp_keyer previous_dot previous_dash g = (
     if \<not> cw_keyer_internal (radio g) then
       let g = (if hpsdr_dash g \<noteq> previous_dash then p1_emit (Keyer_event False (hpsdr_dash g)) g else g)
       in if hpsdr_dot g \<noteq> previous_dot then p1_emit (Keyer_event True (hpsdr_dot g)) g else g
     else g)"

definition hp_mox :: "bool \<Rightarrow> p1 \<Rightarrow> p1" where
  "hp_mox previous_ptt g = (
     if previous_ptt \<noteq> hpsdr_ptt g then p1_emit (if hpsdr_ptt g then Idle_mox True else Delayed_mox_off) g else g)"

definition hp_inhibit :: "byte list \<Rightarrow> p1 \<Rightarrow> p1" where
  "hp_inhibit buf g = (
     if enable_tx_inhibit g then
       let data = (if orion2 g then bit (buf ! 59) 1 else bit (buf ! 59) 0);
           g = (if \<not> TxInhibit (radio g) \<and> \<not> data then p1_emit (Idle_mox False) (set_TxInhibit True g) else g)
       in if data then set_TxInhibit False g else g
     else set_TxInhibit False g)"

text \<open>\<open>radio_start_auto_tune\<close> is the call \<open>Start_auto_tune\<close> with the two flags it sets.\<close>

definition hp_auto_tune :: "byte list \<Rightarrow> p1 \<Rightarrow> p1" where
  "hp_auto_tune buf g = (
     if enable_auto_tune g then
       let data = bit (buf ! 59) 2; g = g\<lparr>auto_tune_end := data\<rparr>
       in if \<not> data \<and> \<not> auto_tune_flag g
          then p1_emit Start_auto_tune (g\<lparr>auto_tune_flag := True, auto_tune_end := False\<rparr>) else g
     else g\<lparr>auto_tune_end := True\<rparr>)"

definition process_high_priority :: "byte list \<Rightarrow> p2_rx \<Rightarrow> p2_rx" where
  "process_high_priority buf x = (
     let x = hp_sequence buf x;
         previous_ptt = hpsdr_ptt (rx_glob x); previous_dot = hpsdr_dot (rx_glob x); previous_dash = hpsdr_dash (rx_glob x);
         x = on_glob (hp_inputs buf) x;
         x = (if \<not> previous_ptt \<and> hpsdr_ptt (rx_glob x) then on_proto new_protocol_high_priority x else x);
         x = on_glob (hp_readings buf \<circ> hp_flags buf) x;
         x = hp_cw buf x;
         x = on_glob (hp_mox previous_ptt \<circ> hp_keyer previous_dot previous_dash) x
     in on_glob (hp_auto_tune buf \<circ> hp_inhibit buf) x)"

end
