(* ===== verification/P2_Status_Facts.thy ===== *)
theory P2_Status_Facts
  imports P2_Rx P2_Tx_Facts P1_Rx_Safety
begin

text \<open>
  The status packets of protocol 2: what is sent and requested in answer to PTT, the inhibit input,
  the analog readings and the sequence numbers.
\<close>

lemma on_simps [simp]:
  "proto (on_proto h x) = h (proto x)" "rx_glob (on_glob f x) = f (rx_glob x)"
  "p2_sent (proto (on_glob f x)) = p2_sent (proto x)" "conf2x (proto (on_glob f x)) = conf2x (proto x)"
  "data_socket (proto (on_glob f x)) = data_socket (proto x)" "network_up (proto (on_glob f x)) = network_up (proto x)"
  "sequence_errors (on_glob f x) = sequence_errors x" "sequence_errors (on_proto h x) = sequence_errors x"
  "highprio_rcvd_sequence (on_glob f x) = highprio_rcvd_sequence x" "micsamples_sequence (on_glob f x) = micsamples_sequence x"
  "highprio_rcvd_sequence (on_proto h x) = highprio_rcvd_sequence x"
  by (simp_all add: on_proto_def on_glob_def)

lemma hp_sequence_proto [simp]: "proto (hp_sequence buf x) = proto x"
  by (simp add: hp_sequence_def Let_def)

lemma send_glob [simp]:
  "glob (new_protocol_high_priority p) = glob p" "glob (new_protocol_transmit_specific p) = glob p"
  by (simp_all add: new_protocol_high_priority_def new_protocol_transmit_specific_def update_action_table_def p2_send_def Let_def)

subsection \<open>Sequence numbers\<close>

text \<open>The number of places where a sequence number is not the successor of the one before.\<close>

fun breaks :: "u32 \<Rightarrow> u32 list \<Rightarrow> nat" where
  "breaks expected [] = 0"
| "breaks expected (s # ss) = (if s = expected then 0 else 1) + breaks (s + 1) ss"

lemma hp_cw_sequence: "sequence_errors (hp_cw buf x) = sequence_errors x"
  "highprio_rcvd_sequence (hp_cw buf x) = highprio_rcvd_sequence x"
  by (simp_all add: hp_cw_def Let_def)

lemma status_sequence:
  "sequence_errors (process_high_priority buf x) = sequence_errors x + (if seq_of buf = highprio_rcvd_sequence x then 0 else 1)"
  "highprio_rcvd_sequence (process_high_priority buf x) = seq_of buf + 1"
  by (simp_all add: process_high_priority_def Let_def hp_cw_sequence) (simp_all add: hp_sequence_def Let_def)

lemma mic_sequence:
  "sequence_errors (process_mic_data buf x) = sequence_errors x + (if seq_of buf = micsamples_sequence x then 0 else 1)"
  "micsamples_sequence (process_mic_data buf x) = seq_of buf + 1"
  by (simp_all add: process_mic_data_def Let_def)

text \<open>The error counter counts every gap in the stream of status packets, and in that of
  microphone packets, exactly once; numbers wrap around at 32 bits without an error.\<close>

lemma sequence_errors_counted:
  "sequence_errors (fold process_high_priority bufs x) = sequence_errors x + breaks (highprio_rcvd_sequence x) (map seq_of bufs)"
  "sequence_errors (fold process_mic_data bufs x) = sequence_errors x + breaks (micsamples_sequence x) (map seq_of bufs)"
  by (induction bufs arbitrary: x) (simp_all add: status_sequence mic_sequence)

subsection \<open>PTT\<close>

lemma hp_cw_sent:
  "\<exists>ys. p2_sent (proto (hp_cw buf x)) = p2_sent (proto x) @ ys \<and> (\<forall>b. High_priority_p2 b \<notin> set ys)"
  by (auto simp: hp_cw_def Let_def new_protocol_transmit_specific_def p2_send_def)

lemma hp_glob [simp]:
  "hpsdr_ptt (hp_readings buf g) = hpsdr_ptt g" "hpsdr_ptt (hp_flags buf g) = hpsdr_ptt g"
  "hpsdr_ptt (hp_keyer a b g) = hpsdr_ptt g" "hpsdr_ptt (hp_inputs buf g) = bit (buf ! 4) 0"
  "p1_calls (hp_readings buf g) = p1_calls g" "p1_calls (hp_flags buf g) = p1_calls g" "p1_calls (hp_inputs buf g) = p1_calls g"
  by (simp_all add: hp_readings_def hp_flags_def or_overload_def hp_keyer_def hp_inputs_def p1_emit_def Let_def)

lemma hp_cw_glob:
  "rx_glob (hp_cw buf x) = rx_glob x \<or> rx_glob (hp_cw buf x) = (rx_glob x)\<lparr>cw_key_hit := True\<rparr>
    \<or> rx_glob (hp_cw buf x) = (rx_glob x)\<lparr>CAT_cw_is_active := False, MIDI_cw_is_active := False, cw_key_hit := True\<rparr>"
  by (simp add: hp_cw_def Let_def)

lemma hp_cw_frame [simp]:
  "hpsdr_ptt (rx_glob (hp_cw buf x)) = hpsdr_ptt (rx_glob x)" "p1_calls (rx_glob (hp_cw buf x)) = p1_calls (rx_glob x)"
  "radio (rx_glob (hp_cw buf x)) = radio (rx_glob x)" "enable_tx_inhibit (rx_glob (hp_cw buf x)) = enable_tx_inhibit (rx_glob x)"
  using hp_cw_glob [of buf x] by auto

text \<open>C9. When the radio reports that PTT was pressed, a high priority packet with the transmit bit
  is sent before anything else is, and the transmit switch is asked to follow; as long as PTT does
  not go up no such packet is sent by the status thread.\<close>

theorem p2_ptt_first:
  assumes "x' = process_high_priority buf x" and "c = conf2x (proto x)"
    and "have_saturn_xdma c \<or> data_socket (proto x) \<and> network_up (proto x)"
  shows "(\<not> hpsdr_ptt (rx_glob x) \<and> bit (buf ! 4) 0 \<longrightarrow>
        (\<exists>pkt rest. p2_sent (proto x') = p2_sent (proto x) @ High_priority_p2 pkt # rest \<and> bit (pkt ! 4) 1)
        \<and> Idle_mox True \<in> set (drop (length (p1_calls (rx_glob x))) (p1_calls (rx_glob x'))))
    \<and> (hpsdr_ptt (rx_glob x) \<or> \<not> bit (buf ! 4) 0 \<longrightarrow>
        (\<forall>b. High_priority_p2 b \<notin> set (drop (length (p2_sent (proto x))) (p2_sent (proto x')))))"
proof -
  define x2 where "x2 = on_glob (hp_inputs buf) (hp_sequence buf x)"
  define up where "up \<longleftrightarrow> \<not> hpsdr_ptt (rx_glob x) \<and> bit (buf ! 4) 0"
  define x3 where "x3 = (if up then on_proto new_protocol_high_priority x2 else x2)"
  define x4 where "x4 = on_glob (hp_readings buf \<circ> hp_flags buf) x3"
  define x5 where "x5 = hp_cw buf x4"
  define x6 where "x6 = on_glob (hp_mox (hpsdr_ptt (rx_glob x)) \<circ> hp_keyer (hpsdr_dot (rx_glob x)) (hpsdr_dash (rx_glob x))) x5"
  have x': "x' = on_glob (hp_auto_tune buf \<circ> hp_inhibit buf) x6"
    by (simp only: assms(1) process_high_priority_def Let_def x6_def x5_def x4_def x3_def x2_def up_def hp_sequence_proto on_simps hp_glob)
  have p2: "hpsdr_ptt (rx_glob x2) \<longleftrightarrow> bit (buf ! 4) 0" "conf2x (proto x2) = c" "p2_sent (proto x2) = p2_sent (proto x)"
    "data_socket (proto x2) = data_socket (proto x)" "network_up (proto x2) = network_up (proto x)" "p1_calls (rx_glob x2) = p1_calls (rx_glob x)"
    by (simp_all add: x2_def assms(2))
  have x3s: "p2_sent (proto x3) = p2_sent (proto x) @ (if up then [High_priority_p2 (high_priority_buffer (proto x2))] else [])"
    using assms(3) p2 by (auto simp: x3_def new_protocol_high_priority_def p2_send_def update_action_table_def Let_def)
  have tx: "up \<Longrightarrow> bit (high_priority_buffer (proto x2) ! 4) 1"
    using p2(1) by (simp add: hp_run_byte hp_run_bit p2_xmit_def up_def del: One_nat_def)
  obtain ys where ys: "p2_sent (proto x5) = p2_sent (proto x3) @ ys" "\<And>b. High_priority_p2 b \<notin> set ys"
    using hp_cw_sent [of buf x4] by (auto simp: x5_def x4_def)
  have s: "p2_sent (proto x') = p2_sent (proto x) @ (if up then [High_priority_p2 (high_priority_buffer (proto x2))] else []) @ ys"
    by (simp add: x' x6_def ys(1) x3s)
  have g5: "hpsdr_ptt (rx_glob x5) \<longleftrightarrow> bit (buf ! 4) 0" "p1_calls (rx_glob x5) = p1_calls (rx_glob x)"
    using p2 by (simp_all add: x5_def x4_def x3_def)
  have ext: "\<exists>zs. p1_calls (hp_keyer a b g) = p1_calls g @ zs" "\<exists>zs. p1_calls (hp_auto_tune buf (hp_inhibit buf g)) = p1_calls g @ zs" for a b g
    by (auto simp: hp_keyer_def hp_auto_tune_def hp_inhibit_def p1_emit_def set_TxInhibit_def Let_def)
  obtain z1 where z1: "p1_calls (hp_keyer (hpsdr_dot (rx_glob x)) (hpsdr_dash (rx_glob x)) (rx_glob x5)) = p1_calls (rx_glob x) @ z1"
    using ext(1) g5(2) by metis
  obtain z2 where z2: "p1_calls (rx_glob x') = p1_calls (rx_glob x6) @ z2"
    using ext(2) [of "rx_glob x6"] by (auto simp: x')
  have "up \<Longrightarrow> p1_calls (rx_glob x6) = p1_calls (rx_glob x) @ z1 @ [Idle_mox True]"
    using z1 g5(1) by (simp add: x6_def hp_mox_def up_def) (simp add: p1_emit_def)
  with z2 s tx ys(2) show ?thesis
    unfolding up_def [symmetric] by (auto simp: up_def)
qed

subsection \<open>Transmit inhibit\<close>

text \<open>What the other parts leave alone.\<close>

definition inhibit_view :: "p1 \<Rightarrow> device \<times> bool \<times> bool" where
  "inhibit_view g = (device (radio g), TxInhibit (radio g), enable_tx_inhibit g)"

lemma inhibit_view_simps:
  "inhibit_view (hp_inputs buf g) = inhibit_view g" "inhibit_view (hp_flags buf g) = inhibit_view g"
  "inhibit_view (hp_readings buf g) = inhibit_view g" "inhibit_view (hp_keyer a b g) = inhibit_view g"
  "inhibit_view (hp_mox a g) = inhibit_view g" "inhibit_view (hp_auto_tune buf g) = inhibit_view g"
  "inhibit_view (rx_glob (hp_cw buf x)) = inhibit_view (rx_glob x)"
  by (simp_all add: inhibit_view_def hp_inputs_def hp_flags_def or_overload_def upd_adc_def hp_readings_def hp_keyer_def
      hp_mox_def hp_auto_tune_def p1_emit_def Let_def)

text \<open>A status packet sets the inhibit flag exactly when the option is enabled and the input
  (IO5 on an Orion 2 or a Saturn, IO4 elsewhere) is low; and when the flag goes up the last request
  to the transmit switch is to end the transmission, even if the same packet reports PTT.\<close>

lemma p2_inhibit_status:
  assumes "x' = process_high_priority buf x"
    and "inhibit \<longleftrightarrow> enable_tx_inhibit (rx_glob x) \<and> \<not> bit (buf ! 59) (if orion2 (rx_glob x) then 1 else 0)"
  shows "TxInhibit (rx_radio x') = inhibit
    \<and> (\<not> TxInhibit (rx_radio x) \<and> inhibit \<longrightarrow>
         (\<exists>xs. filter mox_request (p1_calls (rx_glob x')) = filter mox_request (p1_calls (rx_glob x)) @ xs @ [Idle_mox False]))"
proof -
  define x2 where "x2 = on_glob (hp_inputs buf) (hp_sequence buf x)"
  define x3 where "x3 = (if \<not> hpsdr_ptt (rx_glob x) \<and> bit (buf ! 4) 0 then on_proto new_protocol_high_priority x2 else x2)"
  define x5 where "x5 = hp_cw buf (on_glob (hp_readings buf \<circ> hp_flags buf) x3)"
  define g where "g = hp_mox (hpsdr_ptt (rx_glob x)) (hp_keyer (hpsdr_dot (rx_glob x)) (hpsdr_dash (rx_glob x)) (rx_glob x5))"
  have x': "rx_glob x' = hp_auto_tune buf (hp_inhibit buf g)"
    by (simp add: assms(1) process_high_priority_def Let_def g_def x5_def x3_def x2_def comp_def)
  have v: "inhibit_view g = inhibit_view (rx_glob x)"
    by (simp add: g_def x5_def x3_def x2_def inhibit_view_simps)
  have "p1_calls (rx_glob x5) = p1_calls (rx_glob x)"
    by (simp add: x5_def x3_def x2_def)
  then have c: "\<exists>xs. filter mox_request (p1_calls g) = filter mox_request (p1_calls (rx_glob x)) @ xs"
    by (auto simp: g_def hp_mox_def hp_keyer_def p1_emit_def mox_request_def Let_def)
  have i: "inhibit \<longleftrightarrow> enable_tx_inhibit g \<and> \<not> bit (buf ! 59) (if orion2 g then 1 else 0)"
    "TxInhibit (radio g) = TxInhibit (rx_radio x)"
    using v by (simp_all add: assms(2) inhibit_view_def orion2_def)
  have a: "TxInhibit (radio (hp_auto_tune buf h)) = TxInhibit (radio h)"
    "filter mox_request (p1_calls (hp_auto_tune buf h)) = filter mox_request (p1_calls h)" for h
    by (simp_all add: hp_auto_tune_def Let_def p1_emit_def mox_request_def)
  have "TxInhibit (radio (hp_inhibit buf g)) = inhibit"
    "\<not> TxInhibit (radio g) \<and> inhibit \<Longrightarrow> filter mox_request (p1_calls (hp_inhibit buf g)) = filter mox_request (p1_calls g) @ [Idle_mox False]"
    by (auto simp: i(1) hp_inhibit_def set_TxInhibit_def p1_emit_def mox_request_def Let_def)
  then show ?thesis using c i(2) by (auto simp: x' a)
qed

subsection \<open>Readings\<close>

text \<open>The analog readings stay within 16 bits and their accumulators do not wrap.\<close>

lemma p2_readings_bounded:
  assumes "readings_ok (rx_glob x)"
  shows "readings_ok (rx_glob (process_high_priority buf x))"
proof -
  have s: "unat (smooth acc (hp_val buf i)) \<le> 1048560" "unat (smooth acc (hp_val buf i) div 16) \<le> 65535"
    if "unat acc \<le> 1048560" for acc i
    using smooth_bounded [OF that control_val_le] by (simp_all add: hp_val_def)
  have r: "readings_ok g \<Longrightarrow> readings_ok (hp_readings buf g)" for g
    by (simp add: hp_readings_def Let_def readings_ok_def s)
  have f: "readings_ok (hp_inputs buf g) = readings_ok g" "readings_ok (hp_flags buf g) = readings_ok g"
    "readings_ok (hp_keyer a b g) = readings_ok g" "readings_ok (hp_mox a g) = readings_ok g"
    "readings_ok (hp_inhibit buf g) = readings_ok g" "readings_ok (hp_auto_tune buf g) = readings_ok g"
    "readings_ok (g\<lparr>cw_key_hit := e\<rparr>) = readings_ok g"
    "readings_ok (g\<lparr>CAT_cw_is_active := a, MIDI_cw_is_active := b\<rparr>) = readings_ok g" for a b e g
    by (simp_all add: hp_inputs_def hp_flags_def hp_keyer_def hp_mox_def hp_inhibit_def hp_auto_tune_def readings_ok_def
        or_overload_def set_TxInhibit_def p1_emit_def Let_def)
  have c: "readings_ok (rx_glob (hp_cw buf y)) = readings_ok (rx_glob y)" for y
    using hp_cw_glob [of buf y] by (auto simp: f)
  show ?thesis using assms by (simp add: process_high_priority_def Let_def f c r)
qed

end
