(* ===== verification/P2_Stream_Examples.thy ===== *)
theory P2_Stream_Examples
  imports P2_Examples Pacing P2_Rings_Facts P2_Iq_Facts P2_Rx_Facts P2_Status_Facts
begin

text \<open>The properties of the rings, the pacing and the received packets on concrete states.\<close>

subsection \<open>Pacing\<close>

definition ns :: "int \<Rightarrow> timespec" where
  "ns n = \<lparr>tv_sec = 0, tv_nsec = n\<rparr>"

lemma pacing_every_second_example:
  "nanoseconds (ns 600000) + 600000 \<le> nanoseconds (ns 1200000)"
proof -
  have "paced 600000 (ns 0) [(ns 0, ns 600000), (ns 600000, ns 600000), (ns 600000, ns 1200000)]"
    by (simp add: pace_def clock_nanosleep_def earlier_def wait_until_def timespec_ok_def nanoseconds_def ns_def Let_def)
  from pacing_every_second [OF this, of 0] show ?thesis by (simp add: timespec_ok_def ns_def)
qed

lemma pacing_burst_example:
  "nanoseconds (fst (pace 600000 (ns 100) (ns 600100))) = nanoseconds (ns 600000) + 100"
  by (rule conjunct2 [OF pacing_burst [of "ns 0" "ns 100" "ns 600100" 600000 100 "ns 600000" "ns 100" 100 _ "ns 600100"]])
     (simp_all add: pace_def clock_nanosleep_def earlier_def wait_until_def timespec_ok_def nanoseconds_def ns_def Let_def)

subsection \<open>Rings\<close>

definition audio_0 :: rxaudio where
  "audio_0 = audio_start (replicate 16384 0)"

lemma audio_0: "audio_reachable audio_0"
  unfolding audio_reachable_def audio_0_def by (rule exI [of _ "replicate 16384 0"]) simp

definition audio_1 :: rxaudio where
  "audio_1 = new_protocol_audio_samples False 0 0 audio_0"

lemma audio_1: "audio_reachable audio_1"
proof -
  have "audio_step audio_0 audio_1" unfolding audio_1_def by (rule audio_step.rx)
  then show ?thesis using audio_0 unfolding audio_reachable_def by (blast intro: rtranclp.rtrancl_into_rtrancl)
qed

lemma p2_audio_awake_example: "map (drop 4) (fst (audio_sends (rxaudio_sem audio_1) audio_1)) = audio_queue audio_1"
  using p2_audio_awake [OF audio_1, of "fst (audio_sends (rxaudio_sem audio_1) audio_1)" "snd (audio_sends (rxaudio_sem audio_1) audio_1)"]
  by simp

lemma p2_audio_switch_example: "audio_queue (new_protocol_tx_audio_samples 0 audio_0) = [replicate 256 0]"
proof -
  have "rxaudio_flag audio_0 = 2" "rxaudio_count audio_0 = 0" by (simp_all add: audio_0_def audio_start_def)
  then show ?thesis using p2_audio_switch [OF audio_0, of 0 0 0] by simp
qed

definition iq_0 :: txiq where
  "iq_0 = iq_start (replicate 97920 0)"

theorem p2_iq_order_example: "length (iq_queue iq_0) = 0"
proof -
  have "iq_reachable (iq_0, [], [])"
    unfolding iq_reachable_def iq_0_def by (rule exI [of _ "replicate 97920 0"]) simp
  from p2_iq_order [OF this] show ?thesis by (simp add: iq_0_def iq_start_def)
qed

subsection \<open>Received packets\<close>

definition prx_0 :: p2_rx where
  "prx_0 = \<lparr>proto = p2_0\<lparr>rxcase := [RXACTION_RX1, RXACTION_RX2, RXACTION_SKIP, RXACTION_SKIP]\<rparr>, highprio_rcvd_sequence = 0,
     micsamples_sequence = 0, ddc_sequence = (\<lambda>_. 0), sequence_errors = 0\<rparr>"

definition hdr_1 :: "byte list" where
  "hdr_1 = [0, 0, 0, 0, 0, 0, 0, 0, 0, 0, 0, 0, 0, 24, 0, 1]"

theorem p2_samples_decoded_example:
  "\<exists>x'. iq_packet 1 (iq_bytes_of hdr_1 [(1, 2)] []) prx_0 = Some x'
    \<and> p1_calls (rx_glob x') = p1_calls (rx_glob prx_0) @ [Rx_iq 1 (pair_value (1, 2))]"
proof -
  have "length hdr_1 = 16" "samplesperframe (iq_bytes_of hdr_1 [(1, 2)] []) = length [(1 :: sample, 2 :: sample)]"
    by (simp_all add: hdr_1_def samplesperframe_def iq_bytes_of_def)
  moreover have "RXACTION_RX2 = rxcase (proto prx_0) ! 1" by (simp add: prx_0_def)
  ultimately show ?thesis
    using p2_samples_decoded [OF refl, of hdr_1 "[(1, 2)]" "[]" RXACTION_RX2 prx_0 1] by (auto simp: action_calls_def)
qed

theorem p2_iq_overrun_example: "iq_packet 0 (replicate 1500 255) prx_0 = None"
proof -
  have "length (replicate 1500 (255 :: byte)) = 1500" "RXACTION_RX1 = rxcase (proto prx_0) ! 0"
    "samplesperframe (replicate 1500 255) = 65535"
    by (simp_all add: prx_0_def samplesperframe_def)
  with p2_iq_overrun [OF this(1,2)] show ?thesis by simp
qed

definition ptt_packet :: "byte list" where
  "ptt_packet = [0, 0, 0, 0, 1] @ replicate 55 0"

theorem p2_ptt_first_example:
  "\<exists>pkt rest. p2_sent (proto (process_high_priority ptt_packet prx_0)) = p2_sent (proto prx_0) @ High_priority_p2 pkt # rest
    \<and> bit (pkt ! 4) 1"
proof -
  have "\<not> hpsdr_ptt (rx_glob prx_0)" "bit (ptt_packet ! 4) 0" "data_socket (proto prx_0)" "network_up (proto prx_0)"
    using hpsdr_ptt_0 by (simp_all add: prx_0_def p2_0_def ptt_packet_def)
  then show ?thesis using p2_ptt_first [OF refl refl, of prx_0 ptt_packet] by blast
qed

definition prx_1 :: p2_rx where
  "prx_1 = prx_0\<lparr>proto := p2_0\<lparr>glob := p1_0\<lparr>radio := radio2, enable_tx_inhibit := True\<rparr>\<rparr>\<rparr>"

lemma p2_inhibit_status_example:
  "TxInhibit (rx_radio (process_high_priority ptt_packet prx_1))
    \<and> (\<exists>xs. filter mox_request (p1_calls (rx_glob (process_high_priority ptt_packet prx_1))) = xs @ [Idle_mox False])"
proof -
  have "\<not> orion2 (rx_glob prx_1)" "enable_tx_inhibit (rx_glob prx_1)" "\<not> bit (ptt_packet ! 59) 0"
    by (simp_all add: prx_1_def orion2_def ptt_packet_def)
  moreover have "\<not> TxInhibit (rx_radio prx_1)" by (simp add: prx_1_def radio2_def radio0_def)
  ultimately show ?thesis using p2_inhibit_status [OF refl, of True prx_1 ptt_packet] by (auto simp flip: append_assoc)
qed

end
