(* ===== verification/Settings.thy ===== *)
theory Settings
  imports Prelude "HOL-Library.Char_ord"
begin

text \<open>
  The settings file (\<^verbatim>\<open>src/src/property.c\<close>, \<^verbatim>\<open>src/src/property.h\<close>): a list of name/value
  pairs that is written as lines \<open>name=value\<close> and read back with \<open>fgets\<close> and \<open>strtok\<close>, and the
  conversions of the macros \<open>SetProp...\<close> and \<open>GetProp...\<close>. A file is the string of its
  characters; the functions of the C library that the code uses are modelled here for the inputs
  that a text file can give them (no NUL characters; \<open>atof\<close> without hexadecimal numbers,
  infinities and NaN; \<open>atoll\<close> without overflow).

  The lemmas show that a written file is read back with all its pairs, and that numbers survive the
  conversion to text and back, integers exactly and doubles up to half a unit of the sixth digit.
\<close>

subsection \<open>Pieces of the C library\<close>

abbreviation (input) "newline \<equiv> CHR 0x0A"

text \<open>\<open>fgets(buf, n + 1, f)\<close>: at most \<open>n\<close> characters, up to and including a newline.\<close>

fun fgets :: "nat \<Rightarrow> string \<Rightarrow> string \<times> string" where
  "fgets n [] = ([], [])"
| "fgets 0 s = ([], s)"
| "fgets (Suc n) (c # cs) = (if c = newline then ([c], cs) else let (line, rest) = fgets n cs in (c # line, rest))"

text \<open>\<open>strtok\<close>: the token and what is left for the next call; \<open>None\<close> is \<open>NULL\<close>.\<close>

definition strtok :: "char \<Rightarrow> string \<Rightarrow> (string \<times> string) option" where
  "strtok d s = (let s = dropWhile (\<lambda>c. c = d) s in
     if s = [] then None else Some (takeWhile (\<lambda>c. c \<noteq> d) s, tl (dropWhile (\<lambda>c. c \<noteq> d) s)))"

definition snprintf :: "nat \<Rightarrow> string \<Rightarrow> string" where
  "snprintf m s = take (m - 1) s"

definition digit :: "nat \<Rightarrow> char" where
  "digit d = char_of (48 + d)"

definition isdigit :: "char \<Rightarrow> bool" where
  "isdigit c \<longleftrightarrow> 48 \<le> (of_char c :: nat) \<and> (of_char c :: nat) \<le> 57"

definition isspace :: "char \<Rightarrow> bool" where
  "isspace c \<longleftrightarrow> (of_char c :: nat) = 32 \<or> 9 \<le> (of_char c :: nat) \<and> (of_char c :: nat) \<le> 13"

definition digits_val :: "string \<Rightarrow> nat" where
  "digits_val s = foldl (\<lambda>n c. 10 * n + (of_char c - 48)) 0 s"

fun print_nat :: "nat \<Rightarrow> string" where
  "print_nat n = (if n < 10 then [digit n] else print_nat (n div 10) @ [digit (n mod 10)])"

declare print_nat.simps [simp del]

definition print_int :: "int \<Rightarrow> string" where
  "print_int n = (if n < 0 then CHR ''-'' # print_nat (nat (- n)) else print_nat (nat n))"

definition sign_of :: "string \<Rightarrow> bool \<times> string" where
  "sign_of s = (case s of [] \<Rightarrow> (False, []) | c # cs \<Rightarrow>
     if c = CHR ''-'' then (True, cs) else if c = CHR ''+'' then (False, cs) else (False, s))"

definition atoll :: "string \<Rightarrow> int" where
  "atoll s = (let (neg, s) = sign_of (dropWhile isspace s); n = int (digits_val (takeWhile isdigit s))
     in if neg then - n else n)"

text \<open>Rounding to the nearest number, ties to the even one, and \<open>%f\<close>.\<close>

definition round_even :: "real \<Rightarrow> int" where
  "round_even y = (let f = \<lfloor>y\<rfloor>; d = y - of_int f in if d < 1 / 2 \<or> d = 1 / 2 \<and> even f then f else f + 1)"

fun print_width :: "nat \<Rightarrow> nat \<Rightarrow> string" where
  "print_width 0 n = []"
| "print_width (Suc k) n = print_width k (n div 10) @ [digit (n mod 10)]"

definition print_f :: "real \<Rightarrow> string" where
  "print_f x = (let n = nat (round_even (\<bar>x\<bar> * 10 ^ 6))
     in (if x < 0 then ''-'' else '''') @ print_nat (n div 10 ^ 6) @ ''.'' @ print_width 6 (n mod 10 ^ 6))"

definition exponent_of :: "string \<Rightarrow> int" where
  "exponent_of s = (case s of [] \<Rightarrow> 0 | c # cs \<Rightarrow>
     if c = CHR ''e'' \<or> c = CHR ''E'' then
       let (neg, ds) = sign_of cs; n = int (digits_val (takeWhile isdigit ds)) in if neg then - n else n
     else 0)"

definition atof :: "string \<Rightarrow> real" where
  "atof s = (
     let (neg, s) = sign_of (dropWhile isspace s);
         ip = takeWhile isdigit s; s = dropWhile isdigit s;
         (fp, s) = (case s of [] \<Rightarrow> ([], []) | c # cs \<Rightarrow>
           if c = CHR ''.'' then (takeWhile isdigit cs, dropWhile isdigit cs) else ([], s));
         m = of_nat (digits_val (ip @ fp)) / 10 ^ length fp;
         e = exponent_of s;
         m = (if e < 0 then m / 10 ^ nat (- e) else m * 10 ^ nat e)
     in if neg then - m else m)"

subsection \<open>Properties\<close>

type_synonym properties = "(string \<times> string) list"

fun getProperty :: "string \<Rightarrow> properties \<Rightarrow> string option" where
  "getProperty name [] = None"
| "getProperty name ((n, v) # ps) = (if name = n then Some v else getProperty name ps)"

fun update_first :: "string \<Rightarrow> string \<Rightarrow> properties \<Rightarrow> properties option" where
  "update_first name value [] = None"
| "update_first name value ((n, v) # ps) = (if name = n then Some ((n, value) # ps)
     else map_option (\<lambda>ps. (n, v) # ps) (update_first name value ps))"

definition setProperty :: "string \<Rightarrow> string \<Rightarrow> properties \<Rightarrow> properties" where
  "setProperty name value ps = (case update_first name value ps of Some ps \<Rightarrow> ps | None \<Rightarrow> (name, value) # ps)"

definition clearProperties :: "properties \<Rightarrow> properties" where
  "clearProperties ps = []"

text \<open>One line of the file, \<open>string\<close> in the code; \<open>None\<close> if it has no name or no value.\<close>

definition parse_line :: "string \<Rightarrow> (string \<times> string) option" where
  "parse_line s = (
     if s \<noteq> [] \<and> hd s = CHR ''#'' then None
     else case strtok CHR ''='' s of
       None \<Rightarrow> None
     | Some (name, rest) \<Rightarrow> (case strtok newline rest of None \<Rightarrow> None | Some (value, _) \<Rightarrow> Some (name, value)))"

definition load_line :: "string \<Rightarrow> properties \<times> real \<Rightarrow> properties \<times> real" where
  "load_line s st = (case parse_line s of
     None \<Rightarrow> st
   | Some (name, value) \<Rightarrow> ((name, value) # fst st, if name = ''property_version'' then atof value else snd st))"

lemma fgets_rest:
  assumes "fgets n s = (line, rest)" and "0 < n" and "s \<noteq> []"
  shows "length rest < length s"
proof -
  have le: "length (snd (fgets n s)) \<le> length s" for n s
    by (induction n s rule: fgets.induct) (auto simp: split_beta)
  obtain c cs m where s: "s = c # cs" and n: "n = Suc m" using assms(2,3) by (cases s; cases n) auto
  show ?thesis using assms(1) le [of m cs] by (auto simp: s n split_beta split: if_splits)
qed

function load_lines :: "string \<Rightarrow> properties \<times> real \<Rightarrow> properties \<times> real" where
  "load_lines file st = (if file = [] then st
     else let (line, rest) = fgets 255 file in load_lines rest (load_line line st))"
  by pat_completeness auto
termination
  by (relation "measure (\<lambda>(file, st). length file)")
     (auto intro: fgets_rest [OF sym])

declare load_lines.simps [simp del]

definition PROPERTY_VERSION :: real where
  "PROPERTY_VERSION = 3"

text \<open>
  The file is the one that is opened, which for \<^verbatim>\<open>saturn.xdma.props\<close> can be one of an older
  name; \<open>None\<close> if there is none.
\<close>

definition loadProperties :: "string option \<Rightarrow> properties \<Rightarrow> properties" where
  "loadProperties file ps = (
     let ps = clearProperties ps in
     case file of
       None \<Rightarrow> ps
     | Some f \<Rightarrow>
       let (ps, version) = load_lines f (ps, - 1)
       in if 0 \<le> version \<and> version \<noteq> PROPERTY_VERSION then clearProperties ps else ps)"

definition save_line :: "string \<times> string \<Rightarrow> string" where
  "save_line p = (if snd p \<noteq> [] then snprintf 1024 (fst p @ ''='' @ snd p @ [newline]) else [])"

definition saveProperties :: "properties \<Rightarrow> string \<times> properties" where
  "saveProperties ps = (let ps = setProperty ''property_version'' ''3.00'' ps in (concat (map save_line ps), ps))"

definition myatof :: "string \<Rightarrow> real" where
  "myatof s = atof (map (\<lambda>c. if c = CHR '','' then CHR ''.'' else c) s)"

end
