(* ===== verification/Settings_Facts.thy ===== *)
theory Settings_Facts
  imports Settings
begin

text \<open>
  What the settings file guarantees: a property that is set is found, a file that is written is
  read back with all its pairs as long as no line is longer than the buffer of the reader, and
  integers and doubles survive the way through their text.
\<close>

subsection \<open>Numbers and their text\<close>

lemma of_char_digit: "d < 10 \<Longrightarrow> of_char (digit d) = 48 + d"
  by (simp add: digit_def)

lemma isdigit_digit [simp]: "d < 10 \<Longrightarrow> isdigit (digit d)"
  by (simp add: isdigit_def of_char_digit)

lemma digits_val_append [simp]: "digits_val (s @ [digit d]) = 10 * digits_val s + d" if "d < 10"
  using that by (simp add: digits_val_def of_char_digit)

lemma digits_val_print_nat [simp]: "digits_val (print_nat n) = n"
proof (induction n rule: print_nat.induct)
  case (1 n)
  show ?case
  proof (cases "n < 10")
    case True
    then show ?thesis using digits_val_append [of n "[]"] by (simp add: print_nat.simps [of n] digits_val_def of_char_digit)
  qed (use 1 in \<open>simp add: print_nat.simps [of n]\<close>)
qed

lemma print_nat_isdigit: "\<forall>c \<in> set (print_nat n). isdigit c"
  by (induction n rule: print_nat.induct) (subst print_nat.simps, auto)

lemma print_nat_not_Nil [simp]: "print_nat n \<noteq> []"
  by (subst print_nat.simps) simp

lemma length_print_nat: "n < 10 ^ Suc k \<Longrightarrow> length (print_nat n) \<le> Suc k"
proof (induction k arbitrary: n)
  case (Suc k)
  then show ?case by (cases "n < 10") (auto simp: print_nat.simps [of n])
qed (simp add: print_nat.simps)

lemma print_width_isdigit: "\<forall>c \<in> set (print_width k n). isdigit c"
  by (induction k n rule: print_width.induct) auto

lemma length_print_width [simp]: "length (print_width k n) = k"
  by (induction k n rule: print_width.induct) auto

lemma digits_val_print_width: "digits_val (s @ print_width k n) = 10 ^ k * digits_val s + n mod 10 ^ k"
proof (induction k n rule: print_width.induct)
  case (2 k n)
  have "n mod (10 * 10 ^ k) = 10 * (n div 10 mod 10 ^ k) + n mod 10"
    by (simp add: mod_mult2_eq)
  then show ?case using digits_val_append [of "n mod 10" "s @ print_width k (n div 10)"] 2 by simp
qed simp

lemma takeWhile_digits [simp]:
  assumes "\<forall>c \<in> set s. isdigit c"
  shows "takeWhile isdigit (s @ t) = s @ takeWhile isdigit t" and "dropWhile isdigit (s @ t) = dropWhile isdigit t"
  using assms by (auto simp: takeWhile_append2 dropWhile_append2)

lemma takeWhile_all [simp]:
  "takeWhile isdigit (print_nat n) = print_nat n" "takeWhile isdigit (print_width k n) = print_width k n"
  "dropWhile isdigit (print_width k n) = []"
  using print_nat_isdigit print_width_isdigit by (auto simp: takeWhile_eq_all_conv)

lemma digit_not_special:
  assumes "isdigit c"
  shows "\<not> isspace c" "c \<noteq> CHR ''-''" "c \<noteq> CHR ''+''" "c \<noteq> CHR ''.''" "c \<noteq> CHR '',''" "c \<noteq> newline"
    "c \<noteq> CHR ''=''" "c \<noteq> CHR ''#''"
  using assms by (auto simp: isdigit_def isspace_def)

lemma number_head:
  assumes "isdigit (hd s)" and "s \<noteq> []"
  shows "dropWhile isspace (s @ t) = s @ t" and "sign_of (s @ t) = (False, s @ t)"
  using assms digit_not_special [of "hd s"] by (cases s; auto simp: sign_of_def)+

lemma hd_print_nat: "isdigit (hd (print_nat n))"
  using print_nat_isdigit [of n] by (simp add: list.set_sel)

lemma minus_head [simp]: "\<not> isspace CHR ''-''" "sign_of (CHR ''-'' # s) = (True, s)"
  by (simp_all add: isspace_def sign_of_def)

theorem atoll_print_int [simp]: "atoll (print_int n) = n"
  using number_head [OF hd_print_nat, of "nat n" "[]"]
  by (cases "n < 0") (simp_all add: atoll_def print_int_def)

lemma print_int_chars:
  assumes "c \<in> set (print_int n)"
  shows "isdigit c \<or> c = CHR ''-''"
  using assms print_nat_isdigit by (auto simp: print_int_def split: if_splits)

lemma print_int_not_Nil [simp]: "print_int n \<noteq> []"
  by (simp add: print_int_def)

lemma round_even_close: "\<bar>of_int (round_even y) - y\<bar> \<le> 1 / 2"
  by (auto simp: round_even_def Let_def) (linarith+)?

lemma round_even_nonneg: "0 \<le> y \<Longrightarrow> 0 \<le> round_even y"
  by (auto simp: round_even_def Let_def)

definition printed :: "real \<Rightarrow> real" where
  "printed x = sgn x * of_int (round_even (\<bar>x\<bar> * 10 ^ 6)) / 10 ^ 6"

lemma atof_print_f: "atof (print_f x) = printed x"
proof -
  define n where "n = nat (round_even (\<bar>x\<bar> * 10 ^ 6))"
  have n: "real n = of_int (round_even (\<bar>x\<bar> * 10 ^ 6))"
    using round_even_nonneg [of "\<bar>x\<bar> * 10 ^ 6"] by (simp add: n_def)
  define s where "s = print_nat (n div 10 ^ 6) @ ''.'' @ print_width 6 (n mod 10 ^ 6)"
  have tw: "takeWhile isdigit s = print_nat (n div 10 ^ 6)" "dropWhile isdigit s = CHR ''.'' # print_width 6 (n mod 10 ^ 6)"
    using print_nat_isdigit [of "n div 10 ^ 6"] digit_not_special(4) by (auto simp: s_def)
  have val: "digits_val (print_nat (n div 10 ^ 6) @ print_width 6 (n mod 10 ^ 6)) = n"
    by (simp add: digits_val_print_width del: power_numeral)
  have hd: "dropWhile isspace s = s" "sign_of s = (False, s)"
    unfolding s_def by (rule number_head [OF hd_print_nat print_nat_not_Nil])+
  have neg: "print_f x = (if x < 0 then CHR ''-'' # s else s)"
    by (simp add: print_f_def n_def s_def Let_def)
  have pos: "atof s = real n / 10 ^ 6" 
    by (simp add: atof_def hd tw val Let_def exponent_of_def del: power_numeral)
  have "atof (CHR ''-'' # s) = - (real n / 10 ^ 6)"
    by (simp add: atof_def hd tw val Let_def exponent_of_def del: power_numeral)
  then show ?thesis using pos n by (auto simp: neg printed_def sgn_if round_even_def)
qed

text \<open>A printed double is at most half a unit of the sixth decimal away.\<close>

lemma printed_close: "\<bar>printed x - x\<bar> \<le> 5 / 10 ^ 7"
proof -
  define d where "d = of_int (round_even (\<bar>x\<bar> * 10 ^ 6)) - \<bar>x\<bar> * 10 ^ 6"
  have d: "\<bar>d\<bar> \<le> 1 / 2" unfolding d_def by (rule round_even_close)
  have eq: "printed x - x = sgn x * (d / 10 ^ 6)"
    by (simp add: printed_def d_def sgn_if field_simps)
  have "\<bar>printed x - x\<bar> = \<bar>sgn x\<bar> * (\<bar>d\<bar> / 10 ^ 6)"
    unfolding eq by (simp add: abs_mult)
  also have "\<dots> \<le> \<bar>d\<bar> / 10 ^ 6" by (rule mult_left_le_one_le) (auto simp: sgn_if)
  finally show ?thesis using d by simp
qed

lemma print_f_chars:
  assumes "c \<in> set (print_f x)"
  shows "isdigit c \<or> c = CHR ''-'' \<or> c = CHR ''.''"
  using assms print_nat_isdigit print_width_isdigit by (auto simp: print_f_def Let_def split: if_splits)

lemma myatof_eq_atof: "CHR '','' \<notin> set s \<Longrightarrow> myatof s = atof s"
proof -
  assume "CHR '','' \<notin> set s"
  then have "map (\<lambda>c. if c = CHR '','' then CHR ''.'' else c) s = s" by (intro map_idI) auto
  then show ?thesis by (simp add: myatof_def)
qed

lemma myatof_print_f: "myatof (print_f x) = printed x"
  using print_f_chars [of "CHR '',''" x] digit_not_special(5) [of "CHR '',''"]
  by (subst myatof_eq_atof) (auto simp: atof_print_f)

subsection \<open>The list of properties\<close>

lemma getProperty_map_of: "getProperty k ps = map_of ps k"
  by (induction ps rule: getProperty.induct) auto

lemma update_first_None: "update_first k v ps = None \<longleftrightarrow> k \<notin> fst ` set ps"
  by (induction k v ps rule: update_first.induct) auto

lemma update_first_Some:
  assumes "update_first k v ps = Some qs"
  shows "getProperty j qs = (if j = k then Some v else getProperty j ps)" and "map fst qs = map fst ps"
    and "set qs \<subseteq> insert (k, v) (set ps)"
  using assms by (induction k v ps arbitrary: qs rule: update_first.induct) (auto split: if_splits)

theorem getProperty_setProperty [simp]:
  "getProperty j (setProperty k v ps) = (if j = k then Some v else getProperty j ps)"
  by (auto simp: setProperty_def update_first_Some split: option.split)

text \<open>
  What the components rely on when they save and restore: a store in which a name that is set is
  found with its value and no other name changes. A sequence of settings with different names is
  then found completely, also after later ones with other names.
\<close>

locale name_store =
  fixes get :: "'n \<Rightarrow> 's \<Rightarrow> 'v option" and put :: "'n \<Rightarrow> 'v \<Rightarrow> 's \<Rightarrow> 's"
  assumes get_put: "get j (put n v s) = (if j = n then Some v else get j s)"
begin

lemma get_other: "n \<notin> fst ` set xs \<Longrightarrow> get n (fold (\<lambda>(n, v). put n v) xs s) = get n s"
  by (induction xs arbitrary: s) (auto simp: get_put)

lemma get_all: "distinct (map fst xs) \<Longrightarrow> (n, v) \<in> set xs \<Longrightarrow> get n (fold (\<lambda>(n, v). put n v) xs s) = Some v"
proof (induction xs arbitrary: s)
  case (Cons x xs)
  then show ?case by (cases "(n, v) = x") (auto simp: get_other get_put)
qed simp

lemma get_later:
  "get n s = Some v \<Longrightarrow> n \<notin> fst ` set ys \<Longrightarrow> get n (fold (\<lambda>(n, v). put n v) ys s) = Some v"
  by (simp add: get_other)

end

interpretation settings: name_store getProperty setProperty
  by unfold_locales (rule getProperty_setProperty)

lemma setProperty_set: "set (setProperty k v ps) \<subseteq> insert (k, v) (set ps)"
  using update_first_Some(3) [of k v ps] by (cases "update_first k v ps") (auto simp: setProperty_def)

lemma distinct_setProperty: "distinct (map fst ps) \<Longrightarrow> distinct (map fst (setProperty k v ps))"
  by (auto simp: setProperty_def update_first_None update_first_Some(2) split: option.split)

subsection \<open>Writing and reading the file\<close>

text \<open>A pair that a line of the file holds completely.\<close>

definition storable :: "string \<times> string \<Rightarrow> bool" where
  "storable p \<longleftrightarrow> fst p \<noteq> [] \<and> hd (fst p) \<noteq> CHR ''#'' \<and> CHR ''='' \<notin> set (fst p) \<and> newline \<notin> set (fst p)
     \<and> newline \<notin> set (snd p) \<and> length (fst p) + length (snd p) \<le> 253"

lemma fgets_line: "newline \<notin> set s \<Longrightarrow> length s < n \<Longrightarrow> fgets n (s @ newline # t) = (s @ [newline], t)"
  by (induction n s rule: fgets.induct) (auto simp: fgets.simps neq_Nil_conv gr0_conv_Suc)

lemma strtok_line:
  "s \<noteq> [] \<Longrightarrow> d \<notin> set s \<Longrightarrow> strtok d (s @ d # t) = Some (s, t)"
  by (cases s) (auto simp: strtok_def takeWhile_append dropWhile_append Let_def)

lemma parse_save_line:
  assumes "storable (n, v)" and "v \<noteq> []"
  shows "parse_line (n @ CHR ''='' # v @ [newline]) = Some (n, v)"
  using assms by (auto simp: parse_line_def storable_def strtok_line hd_append)

lemma load_saved_line:
  assumes "storable (n, v)"
  shows "load_lines (save_line (n, v) @ rest) st = (if v = [] then load_lines rest st
    else load_lines rest ((n, v) # fst st, if n = ''property_version'' then atof v else snd st))"
proof (cases "v = []")
  case False
  let ?s = "n @ CHR ''='' # v"
  have line: "save_line (n, v) = ?s @ [newline]"
    using assms False by (simp add: save_line_def snprintf_def storable_def) linarith
  have get: "fgets 255 (?s @ newline # rest) = (?s @ [newline], rest)"
    using assms by (intro fgets_line) (auto simp: storable_def)
  show ?thesis
    using False parse_save_line [OF assms False] get
    by (subst load_lines.simps) (simp add: line load_line_def)
qed (simp add: save_line_def)

lemma load_saved_lines:
  assumes "\<forall>p \<in> set ps. storable p"
  shows "load_lines (concat (map save_line ps)) (qs, v) =
    (rev (filter (\<lambda>p. snd p \<noteq> []) ps) @ qs,
     foldl (\<lambda>w p. if fst p = ''property_version'' \<and> snd p \<noteq> [] then atof (snd p) else w) v ps)"
  using assms
proof (induction ps arbitrary: qs v)
  case Nil
  show ?case by (simp add: load_lines.simps)
next
  case (Cons p ps)
  then show ?case by (cases p) (auto simp: load_saved_line)
qed

definition version_entry :: "string \<times> string" where
  "version_entry = (''property_version'', ''3.00'')"

lemma atof_version: "atof ''3.00'' = PROPERTY_VERSION"
  by (simp add: atof_def sign_of_def isspace_def isdigit_def exponent_of_def digits_val_def PROPERTY_VERSION_def)

lemma foldl_version:
  assumes "\<forall>p \<in> set ps. fst p = ''property_version'' \<longrightarrow> snd p = ''3.00''" and "v = - 1 \<or> v = PROPERTY_VERSION"
  shows "foldl (\<lambda>w p. if fst p = ''property_version'' \<and> snd p \<noteq> [] then atof (snd p) else w) v ps \<in> {- 1, PROPERTY_VERSION}"
  using assms by (induction ps arbitrary: v) (auto simp: atof_version)

lemma map_of_filter_value:
  assumes "distinct (map fst ps)"
  shows "map_of (filter (\<lambda>p. P (snd p)) ps) k = (case map_of ps k of Some v \<Rightarrow> if P v then Some v else None | None \<Rightarrow> None)"
  using assms by (induction ps) (auto split: option.split simp: map_of_eq_None_iff rev_image_eqI)

definition well_formed :: "properties \<Rightarrow> bool" where
  "well_formed ps \<longleftrightarrow> distinct (map fst ps) \<and> (\<forall>p \<in> set ps. storable p)"

lemma well_formed_Nil [simp]: "well_formed []"
  by (simp add: well_formed_def)

lemma well_formed_setProperty: "well_formed ps \<Longrightarrow> storable (k, v) \<Longrightarrow> well_formed (setProperty k v ps)"
  using setProperty_set [of k v ps] by (auto simp: well_formed_def distinct_setProperty)

lemma distinct_value:
  assumes "distinct (map fst ps)" and "(k, v) \<in> set ps"
  shows "getProperty k ps = Some v"
  using assms by (simp add: getProperty_map_of)

theorem load_saved:
  assumes "well_formed ps"
  shows "getProperty k (loadProperties (Some (fst (saveProperties ps))) qs)
    = (case getProperty k (setProperty ''property_version'' ''3.00'' ps) of
        Some v \<Rightarrow> if v = [] then None else Some v | None \<Rightarrow> None)"
proof -
  let ?ps = "setProperty ''property_version'' ''3.00'' ps"
  have wf: "well_formed ?ps"
    by (rule well_formed_setProperty [OF assms]) (simp add: storable_def)
  then have dist: "distinct (map fst ?ps)" and st: "\<forall>p \<in> set ?ps. storable p"
    by (auto simp: well_formed_def)
  have ver: "\<forall>p \<in> set ?ps. fst p = ''property_version'' \<longrightarrow> snd p = ''3.00''"
    using distinct_value [OF dist] by fastforce
  have "foldl (\<lambda>w p. if fst p = ''property_version'' \<and> snd p \<noteq> [] then atof (snd p) else w) (- 1) ?ps
      \<in> {- 1, PROPERTY_VERSION}"
    by (rule foldl_version [OF ver]) simp
  then have "loadProperties (Some (fst (saveProperties ps))) qs = rev (filter (\<lambda>p. snd p \<noteq> []) ?ps)"
    using load_saved_lines [OF st, of "[]" "- 1"]
    by (auto simp: loadProperties_def saveProperties_def clearProperties_def Let_def)
  moreover have "map_of (rev (filter (\<lambda>p. snd p \<noteq> []) ?ps)) = map_of (filter (\<lambda>p. snd p \<noteq> []) ?ps)"
    using distinct_map_filter [OF dist] by (intro map_of_inject_set [THEN iffD2]) (auto simp flip: rev_map)
  ultimately show ?thesis
    using map_of_filter_value [OF dist, of "\<lambda>v. v \<noteq> []"] by (simp add: getProperty_map_of split: option.split)
qed

text \<open>
  C16. A list of settings whose names and values fit the lines of the file survives being written and
  read back: every name has its value again, names with an empty value are gone, and the version
  of the file format is there.
\<close>

theorem settings_round_trip:
  assumes "well_formed ps"
  shows "getProperty k (loadProperties (Some (fst (saveProperties ps))) old) = (if k = ''property_version'' then Some ''3.00''
    else case getProperty k ps of None \<Rightarrow> None | Some v \<Rightarrow> if v = [] then None else Some v)"
  by (simp add: load_saved [OF assms])

end
