(* ===== verification/Saved_State.thy ===== *)
theory Saved_State
  imports Settings_Facts Vfo "HOL-Library.Monad_Syntax"
begin

text \<open>
  Saving and restoring the state (\<^verbatim>\<open>src/src/radio.c\<close>, \<^verbatim>\<open>src/src/vfo.c\<close>, \<^verbatim>\<open>src/src/band.c\<close>,
  \<^verbatim>\<open>src/src/store.c\<close>, with the macros of \<^verbatim>\<open>src/src/property.h\<close>): every component writes its
  fields as properties and reads them back over its defaults. The macros that set a property are
  the pair of name and text that they hand to \<open>setProperty\<close>; those that read one take the function
  that turns the stored integer into the type of the field. Its result \<open>None\<close> is an index that no
  table of the program has; only a file edited by hand can hold one, and the program is not
  followed beyond it.
\<close>

subsection \<open>The macros of property.h\<close>

text \<open>The name \<open>p.%d.f\<close>, and names with a second index, \<open>p.%d.q.%d.f\<close>.\<close>

definition prop_name :: "string \<Rightarrow> nat \<Rightarrow> string \<Rightarrow> string" where
  "prop_name p i f = p @ ''.'' @ print_nat i @ ''.'' @ f"

definition SetPropI :: "string \<Rightarrow> int \<Rightarrow> string \<times> string" where
  "SetPropI name n = (snprintf 128 name, snprintf 128 (print_int n))"

definition SetPropF :: "string \<Rightarrow> real \<Rightarrow> string \<times> string" where
  "SetPropF name x = (snprintf 128 name, snprintf 128 (print_f x))"

definition SetPropS :: "string \<Rightarrow> string \<Rightarrow> string \<times> string" where
  "SetPropS name s = (snprintf 128 name, s)"

definition set_all :: "(string \<times> string) list \<Rightarrow> properties \<Rightarrow> properties" where
  "set_all = fold (\<lambda>(n, v). setProperty n v)"

definition GetPropI :: "string \<Rightarrow> properties \<Rightarrow> (int \<Rightarrow> 'a option) \<Rightarrow> 'a \<Rightarrow> 'a option" where
  "GetPropI name ps dec d = (case getProperty (snprintf 128 name) ps of None \<Rightarrow> Some d | Some v \<Rightarrow> dec (atoll v))"

definition GetPropF :: "string \<Rightarrow> properties \<Rightarrow> real \<Rightarrow> real" where
  "GetPropF name ps d = (case getProperty (snprintf 128 name) ps of None \<Rightarrow> d | Some v \<Rightarrow> myatof v)"

definition GetPropS :: "nat \<Rightarrow> string \<Rightarrow> properties \<Rightarrow> string \<Rightarrow> string" where
  "GetPropS m name ps d = (case getProperty (snprintf 128 name) ps of None \<Rightarrow> d | Some v \<Rightarrow> snprintf m v)"

text \<open>The types of the fields: any integer, a flag, an index, a mode, a SAT mode.\<close>

definition as_flag :: "int \<Rightarrow> bool option" where
  "as_flag n = Some (n \<noteq> 0)"

definition as_index :: "nat \<Rightarrow> int \<Rightarrow> nat option" where
  "as_index m n = (if 0 \<le> n \<and> n < int m then Some (nat n) else None)"

definition modes :: "mode list" where
  "modes = [modeLSB, modeUSB, modeDSB, modeCWL, modeCWU, modeFMN, modeAM, modeDIGU, modeSPEC, modeDIGL, modeSAM, modeDRM]"

fun mode_num :: "mode \<Rightarrow> int" where
  "mode_num modeLSB = 0" | "mode_num modeUSB = 1" | "mode_num modeDSB = 2" | "mode_num modeCWL = 3"
| "mode_num modeCWU = 4" | "mode_num modeFMN = 5" | "mode_num modeAM = 6" | "mode_num modeDIGU = 7"
| "mode_num modeSPEC = 8" | "mode_num modeDIGL = 9" | "mode_num modeSAM = 10" | "mode_num modeDRM = 11"

definition as_mode :: "int \<Rightarrow> mode option" where
  "as_mode n = (if 0 \<le> n \<and> n < 12 then Some (modes ! nat n) else None)"

fun sat_num :: "sat_mode \<Rightarrow> int" where
  "sat_num SAT_NONE = 0" | "sat_num SAT_MODE = 1" | "sat_num RSAT_MODE = 2"

definition as_sat :: "int \<Rightarrow> sat_mode option" where
  "as_sat n = (if n = 0 then Some SAT_NONE else if n = 1 then Some SAT_MODE else if n = 2 then Some RSAT_MODE else None)"

subsection \<open>The VFOs\<close>

definition vfo_props :: "nat \<Rightarrow> vfo \<Rightarrow> (string \<times> string) list" where
  "vfo_props i v = [
     SetPropI (prop_name ''vfo'' i ''band'') (int (v_band v)),
     SetPropI (prop_name ''vfo'' i ''frequency'') (v_frequency v),
     SetPropI (prop_name ''vfo'' i ''ctun'') (of_bool (v_ctun v)),
     SetPropI (prop_name ''vfo'' i ''ctun_frequency'') (v_ctun_frequency v),
     SetPropI (prop_name ''vfo'' i ''rit'') (v_rit v),
     SetPropI (prop_name ''vfo'' i ''rit_enabled'') (of_bool (v_rit_enabled v)),
     SetPropI (prop_name ''vfo'' i ''xit'') (v_xit v),
     SetPropI (prop_name ''vfo'' i ''xit_enabled'') (of_bool (v_xit_enabled v)),
     SetPropI (prop_name ''vfo'' i ''lo'') (v_lo v),
     SetPropI (prop_name ''vfo'' i ''offset'') (v_offset v),
     SetPropI (prop_name ''vfo'' i ''mode'') (mode_num (v_mode v)),
     SetPropI (prop_name ''vfo'' i ''filter'') (int (v_filter v)),
     SetPropI (prop_name ''vfo'' i ''cw_apf'') (v_cwPeak v),
     SetPropI (prop_name ''vfo'' i ''deviation'') (v_deviation v),
     SetPropI (prop_name ''vfo'' i ''step'') (v_step v),
     SetPropI (prop_name ''vfo'' i ''rit_step'') (v_rit_step v)]"

definition vfo_save_state :: "radio_state \<Rightarrow> properties \<Rightarrow> radio_state \<times> properties" where
  "vfo_save_state r ps = (let r = vfo_save_bandstack r
     in (r, set_all (vfo_props 0 (vfo r 0) @ vfo_props 1 (vfo r 1)) ps))"

definition vfo_restore :: "properties \<Rightarrow> nat \<Rightarrow> vfo \<Rightarrow> vfo option" where
  "vfo_restore ps i v = do {
     b \<leftarrow> GetPropI (prop_name ''vfo'' i ''band'') ps (as_index 34) (v_band v);
     f \<leftarrow> GetPropI (prop_name ''vfo'' i ''frequency'') ps Some (v_frequency v);
     ct \<leftarrow> GetPropI (prop_name ''vfo'' i ''ctun'') ps as_flag (v_ctun v);
     cf \<leftarrow> GetPropI (prop_name ''vfo'' i ''ctun_frequency'') ps Some (v_ctun_frequency v);
     rit \<leftarrow> GetPropI (prop_name ''vfo'' i ''rit'') ps Some (v_rit v);
     re \<leftarrow> GetPropI (prop_name ''vfo'' i ''rit_enabled'') ps as_flag (v_rit_enabled v);
     xit \<leftarrow> GetPropI (prop_name ''vfo'' i ''xit'') ps Some (v_xit v);
     xe \<leftarrow> GetPropI (prop_name ''vfo'' i ''xit_enabled'') ps as_flag (v_xit_enabled v);
     lo \<leftarrow> GetPropI (prop_name ''vfo'' i ''lo'') ps Some (v_lo v);
     off \<leftarrow> GetPropI (prop_name ''vfo'' i ''offset'') ps Some (v_offset v);
     m \<leftarrow> GetPropI (prop_name ''vfo'' i ''mode'') ps as_mode (v_mode v);
     fi \<leftarrow> GetPropI (prop_name ''vfo'' i ''filter'') ps (as_index 12) (v_filter v);
     pk \<leftarrow> GetPropI (prop_name ''vfo'' i ''cw_apf'') ps Some (v_cwPeak v);
     dev \<leftarrow> GetPropI (prop_name ''vfo'' i ''deviation'') ps Some (v_deviation v);
     st \<leftarrow> GetPropI (prop_name ''vfo'' i ''step'') ps Some (v_step v);
     rst \<leftarrow> GetPropI (prop_name ''vfo'' i ''rit_step'') ps Some (v_rit_step v);
     Some (v\<lparr>v_band := b, v_frequency := f, v_ctun := ct, v_ctun_frequency := cf, v_rit := rit,
       v_rit_enabled := re, v_xit := xit, v_xit_enabled := xe, v_lo := lo,
       v_offset := (if ct then off else 0), v_mode := m, v_filter := fi, v_cwPeak := pk,
       v_deviation := dev, v_step := st, v_rit_step := rst\<rparr>)
   }"

definition vfo_restore_state :: "properties \<Rightarrow> radio_state \<Rightarrow> radio_state option" where
  "vfo_restore_state ps r = do {
     a \<leftarrow> vfo_restore ps 0 (vfo_defaults r (vfo r 0));
     b \<leftarrow> vfo_restore ps 1 (vfo_defaults r (vfo r 1));
     Some (r\<lparr>vfo := (vfo r)(0 := a, 1 := b)\<rparr>)
   }"

subsection \<open>Memory slots\<close>

record mem =
  m_sat_mode :: sat_mode
  m_split :: bool
  m_duplex :: bool
  m_frequency :: int
  m_ctun_frequency :: int
  m_ctun :: bool
  m_mode :: mode
  m_filter :: nat
  m_deviation :: int
  m_bd :: nat
  m_alt_frequency :: int
  m_alt_ctun_frequency :: int
  m_alt_ctun :: bool
  m_alt_mode :: mode
  m_alt_filter :: nat
  m_alt_deviation :: int
  m_alt_bd :: nat
  m_ctcss_enabled :: bool
  m_ctcss :: nat

abbreviation (input) "NUM_MEMORIES \<equiv> 10 :: nat"
abbreviation (input) "band10 \<equiv> 11 :: nat"

definition mem_props :: "nat \<Rightarrow> mem \<Rightarrow> (string \<times> string) list" where
  "mem_props i m = [
     SetPropI (prop_name ''mem'' i ''sat_mode'') (sat_num (m_sat_mode m)),
     SetPropI (prop_name ''mem'' i ''freqA'') (m_frequency m),
     SetPropI (prop_name ''mem'' i ''freqC'') (m_ctun_frequency m),
     SetPropI (prop_name ''mem'' i ''ctun'') (of_bool (m_ctun m)),
     SetPropI (prop_name ''mem'' i ''mode'') (mode_num (m_mode m)),
     SetPropI (prop_name ''mem'' i ''filter'') (int (m_filter m)),
     SetPropI (prop_name ''mem'' i ''deviation'') (m_deviation m),
     SetPropI (prop_name ''mem'' i ''band'') (int (m_bd m)),
     SetPropI (prop_name ''mem'' i ''altfreqA'') (m_alt_frequency m),
     SetPropI (prop_name ''mem'' i ''altfreqC'') (m_alt_ctun_frequency m),
     SetPropI (prop_name ''mem'' i ''altctun'') (of_bool (m_alt_ctun m)),
     SetPropI (prop_name ''mem'' i ''altmode'') (mode_num (m_alt_mode m)),
     SetPropI (prop_name ''mem'' i ''altfilter'') (int (m_alt_filter m)),
     SetPropI (prop_name ''mem'' i ''altdeviation'') (m_alt_deviation m),
     SetPropI (prop_name ''mem'' i ''altband'') (int (m_alt_bd m)),
     SetPropI (prop_name ''mem'' i ''ctcss_enabled'') (of_bool (m_ctcss_enabled m)),
     SetPropI (prop_name ''mem'' i ''ctcss'') (int (m_ctcss m))]"

definition mem_save_state :: "mem list \<Rightarrow> properties \<Rightarrow> properties" where
  "mem_save_state ms = set_all (concat (map (\<lambda>i. mem_props i (ms ! i)) [0..<NUM_MEMORIES]))"

text \<open>The defaults leave \<open>split\<close> and \<open>duplex\<close> as they are.\<close>

definition mem_default :: "mem \<Rightarrow> mem" where
  "mem_default m = m\<lparr>m_sat_mode := SAT_NONE, m_frequency := 28010000, m_ctun_frequency := 28010000,
     m_ctun := False, m_mode := modeCWU, m_filter := 5, m_deviation := 2500, m_bd := band10,
     m_alt_frequency := 28010000, m_alt_ctun_frequency := 28010000, m_alt_ctun := False,
     m_alt_mode := modeCWU, m_alt_filter := 5, m_alt_deviation := 2500, m_alt_bd := band10,
     m_ctcss_enabled := False, m_ctcss := 0\<rparr>"

definition mem_restore :: "properties \<Rightarrow> nat \<Rightarrow> mem \<Rightarrow> mem option" where
  "mem_restore ps i m = do {
     sat \<leftarrow> GetPropI (prop_name ''mem'' i ''sat_mode'') ps as_sat (m_sat_mode m);
     f \<leftarrow> GetPropI (prop_name ''mem'' i ''freqA'') ps Some (m_frequency m);
     cf \<leftarrow> GetPropI (prop_name ''mem'' i ''freqC'') ps Some (m_ctun_frequency m);
     ct \<leftarrow> GetPropI (prop_name ''mem'' i ''ctun'') ps as_flag (m_ctun m);
     md \<leftarrow> GetPropI (prop_name ''mem'' i ''mode'') ps as_mode (m_mode m);
     fi \<leftarrow> GetPropI (prop_name ''mem'' i ''filter'') ps (as_index 12) (m_filter m);
     dev \<leftarrow> GetPropI (prop_name ''mem'' i ''deviation'') ps Some (m_deviation m);
     bd \<leftarrow> GetPropI (prop_name ''mem'' i ''band'') ps (as_index 34) (m_bd m);
     af \<leftarrow> GetPropI (prop_name ''mem'' i ''altfreqA'') ps Some (m_alt_frequency m);
     acf \<leftarrow> GetPropI (prop_name ''mem'' i ''altfreqC'') ps Some (m_alt_ctun_frequency m);
     act \<leftarrow> GetPropI (prop_name ''mem'' i ''altctun'') ps as_flag (m_alt_ctun m);
     amd \<leftarrow> GetPropI (prop_name ''mem'' i ''altmode'') ps as_mode (m_alt_mode m);
     afi \<leftarrow> GetPropI (prop_name ''mem'' i ''altfilter'') ps (as_index 12) (m_alt_filter m);
     adev \<leftarrow> GetPropI (prop_name ''mem'' i ''altdeviation'') ps Some (m_alt_deviation m);
     abd \<leftarrow> GetPropI (prop_name ''mem'' i ''altband'') ps (as_index 34) (m_alt_bd m);
     ce \<leftarrow> GetPropI (prop_name ''mem'' i ''ctcss_enabled'') ps as_flag (m_ctcss_enabled m);
     cs \<leftarrow> GetPropI (prop_name ''mem'' i ''ctcss'') ps (as_index 38) (m_ctcss m);
     Some (m\<lparr>m_sat_mode := sat, m_frequency := f, m_ctun_frequency := cf, m_ctun := ct, m_mode := md,
       m_filter := fi, m_deviation := dev, m_bd := bd, m_alt_frequency := af,
       m_alt_ctun_frequency := acf, m_alt_ctun := act, m_alt_mode := amd, m_alt_filter := afi,
       m_alt_deviation := adev, m_alt_bd := abd, m_ctcss_enabled := ce, m_ctcss := cs\<rparr>)
   }"

definition mem_restore_state :: "properties \<Rightarrow> mem list \<Rightarrow> mem list option" where
  "mem_restore_state ps ms = those (map (\<lambda>i. mem_restore ps i (mem_default (ms ! i))) [0..<NUM_MEMORIES])"

text \<open>Storing the current setting in a slot. The slot of a remote client is a copy for its menu.\<close>

definition store_vfo :: "vfo \<Rightarrow> mem \<Rightarrow> mem" where
  "store_vfo v m = m\<lparr>m_frequency := v_frequency v, m_ctun_frequency := v_ctun_frequency v, m_ctun := v_ctun v,
     m_mode := v_mode v, m_filter := v_filter v, m_deviation := v_deviation v, m_bd := v_band v\<rparr>"

definition store_alt :: "vfo \<Rightarrow> mem \<Rightarrow> mem" where
  "store_alt v m = m\<lparr>m_alt_frequency := v_frequency v, m_alt_ctun_frequency := v_ctun_frequency v,
     m_alt_ctun := v_ctun v, m_alt_mode := v_mode v, m_alt_filter := v_filter v,
     m_alt_deviation := v_deviation v, m_alt_bd := v_band v\<rparr>"

definition store_memory_slot :: "nat \<Rightarrow> mem list \<times> radio_state \<Rightarrow> mem list \<times> radio_state" where
  "store_memory_slot i = (\<lambda>(ms, r).
     let m = (ms ! i)\<lparr>m_sat_mode := sat_mode r, m_split := split r, m_duplex := duplex r\<rparr>;
         m = (if sat_mode r = SAT_NONE then store_vfo (vfo r (active_id r)) m
              else store_alt (vfo r 1) (store_vfo (vfo r 0) m));
         m = (case transmitter r of None \<Rightarrow> m
              | Some tx \<Rightarrow> m\<lparr>m_ctcss_enabled := tx_ctcss_enabled tx, m_ctcss := tx_ctcss tx\<rparr>)
     in (ms[i := m], if is_remote r then emit (Setting (Send_store i)) r else r))"

definition radio_set_split :: "bool \<Rightarrow> radio_state \<Rightarrow> radio_state" where
  "radio_set_split v r = (
     if transmitter r \<noteq> None then
       let r = r\<lparr>split := v\<rparr>;
           r = (if is_remote r then emit (Setting (Send_split v)) r
                else radio_apply_band_settings False 0 (radio_tx_vfo_changed r))
       in emit Vfo_update r
     else r)"

text \<open>In duplex mode the transmitter panel is moved to a window of its own.\<close>

definition radio_set_duplex :: "bool \<Rightarrow> radio_state \<Rightarrow> radio_state" where
  "radio_set_duplex state r = (
     if transmitter r = None \<or> state = duplex r then r else
     let r = (if is_remote r then emit (Setting (Send_duplex state)) r else r);
         r = emit (Switch (Tx_reconfigure state)) (r\<lparr>duplex := state\<rparr>)
     in emit Vfo_update r)"

text \<open>
  Recalling a slot: the mode with its profile, if the mode changes, and then the other fields of
  one VFO; both VFOs of a SAT slot, with split at once and duplex as a task for GTK.
\<close>

definition recall_mode :: "bool \<Rightarrow> nat \<Rightarrow> mode \<Rightarrow> radio_state \<Rightarrow> radio_state" where
  "recall_mode running i m r = (
     let oldmode = v_mode (vfo r i); r = upd_vfo i (\<lambda>v. v\<lparr>v_mode := m\<rparr>) r
     in if oldmode \<noteq> m \<and> running then profiles_load_rxtx_profile i r else r)"

definition recall_vfo :: "nat \<Rightarrow> nat \<Rightarrow> int \<Rightarrow> int \<Rightarrow> bool \<Rightarrow> nat \<Rightarrow> int \<Rightarrow> radio_state \<Rightarrow> radio_state" where
  "recall_vfo i b f cf ct fi dev r = (
     let band = band_get_band b r; bandstack = bandstack_get_bandstack b r
     in upd_vfo i (\<lambda>v. v\<lparr>v_band := b, v_bandstack := bs_current bandstack, v_frequency := f,
          v_ctun_frequency := cf, v_ctun := ct, v_filter := fi, v_deviation := dev,
          v_lo := frequencyLO band + errorLO band\<rparr>) r)"

definition recall_main :: "nat \<Rightarrow> mem \<Rightarrow> radio_state \<Rightarrow> radio_state" where
  "recall_main i m r = recall_vfo i (m_bd m) (m_frequency m) (m_ctun_frequency m) (m_ctun m) (m_filter m) (m_deviation m)
     (recall_mode True i (m_mode m) r)"

definition recall_alt :: "mem \<Rightarrow> radio_state \<Rightarrow> radio_state" where
  "recall_alt m r = recall_vfo 1 (m_alt_bd m) (m_alt_frequency m) (m_alt_ctun_frequency m) (m_alt_ctun m)
     (m_alt_filter m) (m_alt_deviation m) (recall_mode (1 < receivers r) 1 (m_alt_mode m) r)"

definition recall_both :: "mem \<Rightarrow> radio_state \<Rightarrow> radio_state" where
  "recall_both m r = (
     let r = radio_set_split (m_split m) (recall_alt m (recall_main 0 m r))
     in if \<not> radio_is_transmitting r then emit (Switch (Idle_set_duplex (m_duplex m))) r else r)"

definition recall_ctcss :: "mem \<Rightarrow> radio_state \<Rightarrow> radio_state" where
  "recall_ctcss m r = (
     if transmitter r \<noteq> None then
       emit (Dsp (Tx_set_ctcss (m_ctcss_enabled m) (m_ctcss m)))
         (upd_tx (\<lambda>tx. tx\<lparr>tx_ctcss_enabled := m_ctcss_enabled m, tx_ctcss := m_ctcss m\<rparr>) r)
     else r)"

definition recall_memory_slot :: "nat \<Rightarrow> mem list \<Rightarrow> radio_state \<Rightarrow> radio_state" where
  "recall_memory_slot index ms r = (
     if is_remote r then emit (Setting (Send_recall index)) r else
     let m = ms ! index;
         r = r\<lparr>sat_mode := m_sat_mode m\<rparr>;
         r = (if m_sat_mode m = SAT_NONE then recall_main (active_id r) m r else recall_both m r)
     in vfo_vfos_changed (recall_ctcss m r))"

subsection \<open>The bands and their stacks\<close>

definition entry_props :: "nat \<Rightarrow> nat \<Rightarrow> bandstack_entry \<Rightarrow> (string \<times> string) list" where
  "entry_props b s e = (let name = (\<lambda>f. prop_name ''band'' b (prop_name ''stack'' s f)) in [
     SetPropI (name ''a'') (bse_frequency e),
     SetPropI (name ''mode'') (mode_num (bse_mode e)),
     SetPropI (name ''filter'') (int (bse_filter e)),
     SetPropI (name ''ctun'') (of_bool (bse_ctun e)),
     SetPropI (name ''c'') (bse_ctun_frequency e),
     SetPropI (name ''deviation'') (bse_deviation e),
     SetPropI (name ''ctcss_enabled'') (of_bool (bse_ctcss_enabled e)),
     SetPropI (name ''ctcss'') (int (bse_ctcss e))])"

definition band_props :: "nat \<Rightarrow> radio_state \<Rightarrow> (string \<times> string) list" where
  "band_props b r = (let bd = bands r ! b; name = prop_name ''band'' b in
     if b_title bd = [] then [] else
     (if BANDS \<le> b then [
        SetPropI (name ''frequencyLO'') (frequencyLO bd),
        SetPropI (name ''errorLO'') (errorLO bd),
        SetPropI (name ''gaincalib'') (gaincalib bd)] else [])
     @ [SetPropS (name ''title'') (b_title bd),
        SetPropI (name ''frequencyMin'') (frequencyMin bd),
        SetPropI (name ''frequencyMax'') (frequencyMax bd),
        SetPropI (name ''disablePA'') (of_bool (disablePA bd)),
        SetPropI (name ''current'') (int (bs_current (b_stack bd))),
        SetPropI (name ''preamp'') (b_preamp bd),
        SetPropI (name ''dither'') (b_dither bd),
        SetPropI (name ''panhigh'') (b_panhigh bd),
        SetPropI (name ''panlow'') (b_panlow bd),
        SetPropI (name ''panstep'') (b_panstep bd),
        SetPropF (name ''AGCgain'') (b_AGCgain bd)]
     @ (if have_rx_att r then [SetPropI (name ''attenuation'') (b_attenuation bd)] else [])
     @ (if have_rx_gain r then [SetPropF (name ''gain'') (b_RFgain bd)] else [])
     @ [SetPropI (name ''alexRxAntenna'') (RxAntenna bd),
        SetPropI (name ''alexTxAntenna'') (TxAntenna bd),
        SetPropI (name ''alexAttenuation'') (b_alexAttenuation bd),
        SetPropF (name ''pa_calibration'') (pa_calibration bd),
        SetPropI (name ''OCrx'') (uint (OCrx bd)),
        SetPropI (name ''OCtx'') (uint (OCtx bd))]
     @ concat (map (\<lambda>s. entry_props b s (stack_entry b s r)) [0..<bs_entries (b_stack bd)]))"

definition band_save_state :: "radio_state \<Rightarrow> properties \<Rightarrow> properties" where
  "band_save_state r = set_all (concat (map (\<lambda>b. band_props b r) [0..<BANDS + XVTRS]))"

definition entry_restore :: "properties \<Rightarrow> nat \<Rightarrow> nat \<Rightarrow> bandstack_entry \<Rightarrow> bandstack_entry option" where
  "entry_restore ps b s e = (let name = (\<lambda>f. prop_name ''band'' b (prop_name ''stack'' s f)) in do {
     f \<leftarrow> GetPropI (name ''a'') ps Some (bse_frequency e);
     m \<leftarrow> GetPropI (name ''mode'') ps as_mode (bse_mode e);
     fi \<leftarrow> GetPropI (name ''filter'') ps (as_index 12) (bse_filter e);
     ct \<leftarrow> GetPropI (name ''ctun'') ps as_flag (bse_ctun e);
     cf \<leftarrow> GetPropI (name ''c'') ps Some (bse_ctun_frequency e);
     dev \<leftarrow> GetPropI (name ''deviation'') ps Some (bse_deviation e);
     ce \<leftarrow> GetPropI (name ''ctcss_enabled'') ps as_flag (bse_ctcss_enabled e);
     cs \<leftarrow> GetPropI (name ''ctcss'') ps (as_index 38) (bse_ctcss e);
     Some (e\<lparr>bse_frequency := f, bse_mode := m, bse_filter := fi, bse_ctun := ct,
       bse_ctun_frequency := cf, bse_deviation := dev, bse_ctcss_enabled := ce, bse_ctcss := cs\<rparr>)
   })"

text \<open>The fields of a transverter, which alone has a title and an LO of its own.\<close>

definition xvtr_restore :: "properties \<Rightarrow> nat \<Rightarrow> band \<Rightarrow> band option" where
  "xvtr_restore ps b bd = (let name = prop_name ''band'' b in do {
     lo \<leftarrow> GetPropI (name ''frequencyLO'') ps Some (frequencyLO bd);
     el \<leftarrow> GetPropI (name ''errorLO'') ps Some (errorLO bd);
     gc \<leftarrow> GetPropI (name ''gaincalib'') ps Some (gaincalib bd);
     Some (bd\<lparr>b_title := GetPropS 16 (name ''title'') ps (b_title bd), frequencyLO := lo, errorLO := el,
       gaincalib := gc\<rparr>)
   })"

text \<open>The other fields of a band, over the defaults that depend on the radio.\<close>

definition band_defaults :: "int \<Rightarrow> radio_state \<Rightarrow> band \<Rightarrow> band" where
  "band_defaults rx_gain_calibration r bd = (
     let bd = (if device r = DEVICE_HERMES_LITE2 then bd\<lparr>pa_calibration := 81 / 2\<rparr> else bd)
     in if have_rx_gain r then bd\<lparr>b_RFgain := of_int rx_gain_calibration\<rparr> else bd)"

definition band_fields_restore :: "properties \<Rightarrow> nat \<Rightarrow> radio_state \<Rightarrow> band \<Rightarrow> band option" where
  "band_fields_restore ps b r bd = (let name = prop_name ''band'' b in do {
     fmin \<leftarrow> GetPropI (name ''frequencyMin'') ps Some (frequencyMin bd);
     fmax \<leftarrow> GetPropI (name ''frequencyMax'') ps Some (frequencyMax bd);
     dpa \<leftarrow> GetPropI (name ''disablePA'') ps as_flag (disablePA bd);
     cur \<leftarrow> GetPropI (name ''current'') ps (\<lambda>n. if 0 \<le> n then Some (nat n) else None) (bs_current (b_stack bd));
     pre \<leftarrow> GetPropI (name ''preamp'') ps Some (b_preamp bd);
     dit \<leftarrow> GetPropI (name ''dither'') ps Some (b_dither bd);
     ph \<leftarrow> GetPropI (name ''panhigh'') ps Some (b_panhigh bd);
     pl \<leftarrow> GetPropI (name ''panlow'') ps Some (b_panlow bd);
     pst \<leftarrow> GetPropI (name ''panstep'') ps Some (b_panstep bd);
     att \<leftarrow> (if have_rx_att r then GetPropI (name ''attenuation'') ps Some (b_attenuation bd) else Some (b_attenuation bd));
     ra \<leftarrow> GetPropI (name ''alexRxAntenna'') ps Some (RxAntenna bd);
     ta \<leftarrow> GetPropI (name ''alexTxAntenna'') ps Some (TxAntenna bd);
     aa \<leftarrow> GetPropI (name ''alexAttenuation'') ps Some (b_alexAttenuation bd);
     orx \<leftarrow> GetPropI (name ''OCrx'') ps (\<lambda>n. Some (word_of_int n)) (OCrx bd);
     otx \<leftarrow> GetPropI (name ''OCtx'') ps (\<lambda>n. Some (word_of_int n)) (OCtx bd);
     Some (bd\<lparr>frequencyMin := fmin, frequencyMax := fmax, disablePA := dpa,
       b_stack := (b_stack bd)\<lparr>bs_current := cur\<rparr>, b_preamp := pre, b_dither := dit, b_panhigh := ph,
       b_panlow := pl, b_panstep := pst, b_AGCgain := GetPropF (name ''AGCgain'') ps (b_AGCgain bd),
       b_attenuation := att,
       b_RFgain := (if have_rx_gain r then GetPropF (name ''gain'') ps (b_RFgain bd) else b_RFgain bd),
       RxAntenna := ra, TxAntenna := ta, b_alexAttenuation := aa,
       pa_calibration := GetPropF (name ''pa_calibration'') ps (pa_calibration bd),
       OCrx := orx, OCtx := otx\<rparr>)
   })"

definition band_sane :: "protocol \<Rightarrow> band \<Rightarrow> band" where
  "band_sane p bd = (
     let bd = (if bs_entries (b_stack bd) \<le> bs_current (b_stack bd) then bd\<lparr>b_stack := (b_stack bd)\<lparr>bs_current := 0\<rparr>\<rparr> else bd)
     in if p = ORIGINAL_PROTOCOL \<or> p = NEW_PROTOCOL then
          let bd = (if 2 < TxAntenna bd \<or> TxAntenna bd < 0 then bd\<lparr>TxAntenna := 0\<rparr> else bd);
              bd = (if pa_calibration bd < 194 / 5 then bd\<lparr>pa_calibration := 194 / 5\<rparr> else bd)
          in if 70 < pa_calibration bd then bd\<lparr>pa_calibration := 70\<rparr> else bd
        else bd)"

text \<open>One pass of the first loop, and both loops.\<close>

definition band_restore :: "properties \<Rightarrow> int \<Rightarrow> nat \<Rightarrow> radio_state \<Rightarrow> radio_state option" where
  "band_restore ps gain b r = do {
     let bd = band_defaults gain r (bands r ! b);
     bd \<leftarrow> (if BANDS \<le> b then xvtr_restore ps b bd else Some bd);
     bd \<leftarrow> band_fields_restore ps b r bd;
     let name = bs_entry (b_stack bd);
     es \<leftarrow> those (map (\<lambda>s. entry_restore ps b s (stacks r name ! s)) [0..<bs_entries (b_stack bd)]);
     Some (r\<lparr>bands := (bands r)[b := bd],
       stacks := (stacks r)(name := es @ drop (length es) (stacks r name))\<rparr>)
   }"

fun for_bands :: "nat list \<Rightarrow> (nat \<Rightarrow> radio_state \<Rightarrow> radio_state option) \<Rightarrow> radio_state \<Rightarrow> radio_state option" where
  "for_bands [] f r = Some r"
| "for_bands (b # bs) f r = Option.bind (f b r) (for_bands bs f)"

definition band_restore_state :: "properties \<Rightarrow> int \<Rightarrow> radio_state \<Rightarrow> radio_state option" where
  "band_restore_state ps gain r = do {
     r \<leftarrow> for_bands [0..<BANDS + XVTRS] (band_restore ps gain) r;
     Some (r\<lparr>bands := map (band_sane (protocol r)) (bands r)\<rparr>)
   }"

subsection \<open>The receive filters\<close>

definition tolower :: "char \<Rightarrow> char" where
  "tolower c = (let n = of_char c :: nat in if 65 \<le> n \<and> n \<le> 90 then char_of (n + 32) else c)"

definition filter_name :: "mode \<Rightarrow> string \<Rightarrow> string \<Rightarrow> string" where
  "filter_name m title edge = map tolower (snprintf 128 (''filter.'' @ mode_string m @ ''.'' @ title @ ''.'' @ edge))"

definition filter_props :: "mode \<Rightarrow> filter list \<Rightarrow> (string \<times> string) list" where
  "filter_props m fs = concat (map (\<lambda>f. [
     SetPropI (filter_name m (f_title f) ''low'') (f_low f),
     SetPropI (filter_name m (f_title f) ''high'') (f_high f)]) (take FILTERS fs))"

definition filter_save_state :: "radio_state \<Rightarrow> properties \<Rightarrow> properties" where
  "filter_save_state r = set_all (concat (map (\<lambda>m. filter_props m (filters r m)) modes))"

definition filter_restore :: "properties \<Rightarrow> mode \<Rightarrow> filter \<Rightarrow> filter option" where
  "filter_restore ps m f = do {
     l \<leftarrow> GetPropI (filter_name m (f_title f) ''low'') ps Some (f_low f);
     h \<leftarrow> GetPropI (filter_name m (f_title f) ''high'') ps Some (f_high f);
     Some (f\<lparr>f_low := l, f_high := h\<rparr>)
   }"

text \<open>All twelve modes; every integer is a filter edge, so reading never leaves the model.\<close>

definition filter_restore_state :: "properties \<Rightarrow> radio_state \<Rightarrow> radio_state" where
  "filter_restore_state ps r = r\<lparr>filters := \<lambda>m. map (\<lambda>f. the (filter_restore ps m f)) (filters r m)\<rparr>"

subsection \<open>The whole file\<close>

text \<open>
  \<open>radio_save_state\<close> and \<open>radio_restore_state\<close> as far as the model goes: the region, the filters and
  the four components above; \<open>before\<close> and \<open>after\<close> are the properties that the rest of the program
  sets before and after them.
\<close>

fun region_num :: "region \<Rightarrow> int" where
  "region_num REGION_OTHER = 0" | "region_num REGION_UK = 1" | "region_num REGION_WRC15 = 2"

definition as_region :: "int \<Rightarrow> region option" where
  "as_region n = (if n = 0 then Some REGION_OTHER else if n = 1 then Some REGION_UK
     else if n = 2 then Some REGION_WRC15 else None)"

definition region_props :: "radio_state \<Rightarrow> (string \<times> string) list" where
  "region_props r = [SetPropI ''region'' (region_num (region r))]"

definition radio_save_state :: "(string \<times> string) list \<Rightarrow> (string \<times> string) list \<Rightarrow> mem list \<Rightarrow> radio_state \<Rightarrow> radio_state \<times> string" where
  "radio_save_state before after ms r = (
     let ps = set_all before (clearProperties []);
         ps = set_all (region_props r) ps;
         ps = filter_save_state r ps;
         ps = band_save_state r ps;
         ps = mem_save_state ms ps;
         (r, ps) = vfo_save_state r ps;
         ps = set_all after ps
     in (r, fst (saveProperties ps)))"

definition radio_restore_state :: "string option \<Rightarrow> int \<Rightarrow> properties \<Rightarrow> mem list \<times> radio_state \<Rightarrow> (mem list \<times> radio_state) option" where
  "radio_restore_state file gain old = (\<lambda>(ms, r). do {
     let ps = loadProperties file old;
     reg \<leftarrow> GetPropI ''region'' ps as_region (region r);
     let r = filter_restore_state ps (r\<lparr>region := reg\<rparr>);
     r \<leftarrow> band_restore_state ps gain r;
     ms \<leftarrow> mem_restore_state ps ms;
     r \<leftarrow> vfo_restore_state ps r;
     Some (ms, r)
   })"

text \<open>The start of the program with the settings: the stack and the channels of the 60m band are those of the region.\<close>

definition start_radio :: "string option \<Rightarrow> int \<Rightarrow> properties \<Rightarrow> mem list \<times> radio_state \<Rightarrow> (mem list \<times> radio_state) option" where
  "start_radio file gain old s = do {
     (ms, r) \<leftarrow> radio_restore_state file gain old s;
     Some (ms, radio_change_region (region r) r)
   }"

end
