(* ===== verification/Saved_State_Facts.thy ===== *)
theory Saved_State_Facts
  imports Saved_State
begin

text \<open>
  What is kept from one session to the next: the VFOs except for the band stack entry they stand
  on, the memory slots except for split and duplex, and the band stacks as they were before the
  VFO was stored in them.
\<close>

subsection \<open>Lengths and ranges\<close>

definition long_long :: "int \<Rightarrow> bool" where
  "long_long n \<longleftrightarrow> - (2 ^ 63) \<le> n \<and> n < 2 ^ 63"

lemma length_print_int: "long_long n \<Longrightarrow> length (print_int n) \<le> 20"
  using length_print_nat [of "nat n" 18] length_print_nat [of "nat (- n)" 18]
  by (auto simp: long_long_def print_int_def nat_less_iff)

lemma snprintf_short [simp]: "length s < m \<Longrightarrow> snprintf m s = s"
  by (simp add: snprintf_def)

lemma snd_SetPropI: "long_long n \<Longrightarrow> snd (SetPropI name n) = print_int n"
  using length_print_int [of n] by (simp add: SetPropI_def)

lemma fst_Set [simp]:
  "fst (SetPropI name n) = snprintf 128 name" "fst (SetPropF name x) = snprintf 128 name"
  "fst (SetPropS name s) = snprintf 128 name"
  by (simp_all add: SetPropI_def SetPropF_def SetPropS_def)

subsection \<open>Sets of properties\<close>

definition holds :: "(string \<times> string) list \<Rightarrow> properties \<Rightarrow> bool" where
  "holds xs ps \<longleftrightarrow> (\<forall>p \<in> set xs. getProperty (fst p) ps = Some (snd p))"

lemma holds_simps [simp]:
  "holds [] ps" "holds (x # xs) ps \<longleftrightarrow> getProperty (fst x) ps = Some (snd x) \<and> holds xs ps"
  "holds (xs @ ys) ps \<longleftrightarrow> holds xs ps \<and> holds ys ps"
  by (auto simp: holds_def)

lemma set_all_simps [simp]:
  "set_all [] ps = ps" "set_all (x # xs) ps = set_all xs (setProperty (fst x) (snd x) ps)"
  "set_all (xs @ ys) ps = set_all ys (set_all xs ps)"
  by (auto simp: set_all_def split_beta)

lemma getProperty_set_all: "k \<notin> fst ` set xs \<Longrightarrow> getProperty k (set_all xs ps) = getProperty k ps"
  unfolding set_all_def by (rule settings.get_other)

lemma holds_set_all: "distinct (map fst xs) \<Longrightarrow> holds xs (set_all xs ps)"
  unfolding set_all_def holds_def by (auto intro: settings.get_all)

lemma holds_later: "holds xs ps \<Longrightarrow> fst ` set xs \<inter> fst ` set ys = {} \<Longrightarrow> holds xs (set_all ys ps)"
  unfolding set_all_def holds_def by (auto intro!: settings.get_later)

lemma well_formed_set_all: "well_formed ps \<Longrightarrow> \<forall>x \<in> set xs. storable x \<Longrightarrow> well_formed (set_all xs ps)"
  by (induction xs arbitrary: ps) (auto simp: well_formed_setProperty)

lemma holds_saved:
  assumes "well_formed ps" and "holds xs ps" and "\<forall>x \<in> set xs. snd x \<noteq> [] \<and> fst x \<noteq> ''property_version''"
  shows "holds xs (loadProperties (Some (fst (saveProperties ps))) qs)"
  using assms by (auto simp: holds_def load_saved)

lemma GetPropI_set:
  assumes "getProperty (snprintf 128 name) ps = Some (snd (SetPropI name n))" and "long_long n"
  shows "GetPropI name ps dec d = dec n"
  using assms by (simp add: GetPropI_def snd_SetPropI)

lemma as_flag_of_bool [simp]: "as_flag (of_bool b) = Some b"
  by (simp add: as_flag_def)

lemma as_index_int [simp]: "n < m \<Longrightarrow> as_index m (int n) = Some n"
  by (simp add: as_index_def)

lemma as_mode_num [simp]: "as_mode (mode_num m) = Some m"
  by (cases m) (simp_all add: as_mode_def modes_def)

lemma as_sat_num [simp]: "as_sat (sat_num s) = Some s"
  by (cases s) (simp_all add: as_sat_def)

lemma long_long_small [simp]:
  "long_long (of_bool b)" "long_long (mode_num m)" "long_long (sat_num s)"
  "n < 1000 \<Longrightarrow> long_long (int n)" "long_long 0" "long_long 1"
  by (auto simp: long_long_def) (cases m; simp; fail | cases s; simp; fail)+

subsection \<open>Names\<close>

lemma dot_split:
  assumes "CHR ''.'' \<notin> set a" and "CHR ''.'' \<notin> set b"
  shows "a @ CHR ''.'' # x = b @ CHR ''.'' # y \<longleftrightarrow> a = b \<and> x = y"
  using assms
proof (induction a arbitrary: b)
  case Nil
  then show ?case by (cases b) auto
next
  case (Cons c a)
  then show ?case by (cases b) auto
qed

lemma print_nat_no_dot [simp]: "CHR ''.'' \<notin> set (print_nat n)"
  using print_nat_isdigit [of n] digit_not_special(4) by fastforce

lemma print_nat_inj [simp]: "print_nat m = print_nat n \<longleftrightarrow> m = n"
  by (metis digits_val_print_nat)

lemma prop_name_eq:
  "CHR ''.'' \<notin> set p \<Longrightarrow> CHR ''.'' \<notin> set q \<Longrightarrow> prop_name p i f = prop_name q j g \<longleftrightarrow> p = q \<and> i = j \<and> f = g"
  by (simp add: prop_name_def dot_split)

lemma length_prop_name: "i < 100 \<Longrightarrow> length (prop_name p i f) \<le> length p + length f + 4"
  using length_print_nat [of i 1] by (simp add: prop_name_def)

definition indexed :: "string \<Rightarrow> nat \<Rightarrow> string list \<Rightarrow> string list" where
  "indexed p i fs = map (prop_name p i) fs"

lemma distinct_indexed:
  "CHR ''.'' \<notin> set p \<Longrightarrow> \<forall>i \<in> set is. distinct (F i) \<Longrightarrow> distinct is
    \<Longrightarrow> distinct (concat (map (\<lambda>i. indexed p i (F i)) is))"
  by (induction "is") (auto simp: indexed_def distinct_map inj_on_def prop_name_eq)

lemma snprintf_name [simp]:
  "i < 100 \<Longrightarrow> length p + length f < 120 \<Longrightarrow> snprintf 128 (prop_name p i f) = prop_name p i f"
  using length_prop_name [of i p f] by simp

lemma prop_name_chars: "c \<in> set (prop_name p i f) \<Longrightarrow> c \<in> set p \<or> c \<in> set f \<or> c = CHR ''.'' \<or> isdigit c"
  using print_nat_isdigit [of i] by (auto simp: prop_name_def)

text \<open>A text that a name can contain.\<close>

definition plain :: "string \<Rightarrow> bool" where
  "plain s \<longleftrightarrow> CHR ''='' \<notin> set s \<and> newline \<notin> set s"

lemma plain_prop_name: "plain p \<Longrightarrow> plain f \<Longrightarrow> plain (prop_name p i f)"
  using digit_not_special prop_name_chars by (fastforce simp: plain_def)

lemma storable_int:
  assumes "plain name" and "name \<noteq> []" and "hd name \<noteq> CHR ''#''" and "long_long n"
  shows "storable (SetPropI name n)"
  using assms length_print_int [of n] print_int_chars [of newline n] digit_not_special(6) [of newline]
  by (auto simp: storable_def SetPropI_def plain_def snprintf_def dest: in_set_takeD)

lemma prop_name_head [simp]: "p \<noteq> [] \<Longrightarrow> hd (prop_name p i f) = hd p" "prop_name p i f \<noteq> []"
  by (simp_all add: prop_name_def)

lemma storable_prop:
  "p \<noteq> [] \<Longrightarrow> hd p \<noteq> CHR ''#'' \<Longrightarrow> plain p \<Longrightarrow> plain f \<Longrightarrow> long_long n \<Longrightarrow> storable (SetPropI (prop_name p i f) n)"
  by (rule storable_int) (auto simp: plain_prop_name)

subsection \<open>The VFOs\<close>

definition vfo_fields :: "string list" where
  "vfo_fields = [''band'', ''frequency'', ''ctun'', ''ctun_frequency'', ''rit'', ''rit_enabled'', ''xit'',
     ''xit_enabled'', ''lo'', ''offset'', ''mode'', ''filter'', ''cw_apf'', ''deviation'', ''step'', ''rit_step'']"

definition vfo_storable :: "vfo \<Rightarrow> bool" where
  "vfo_storable v \<longleftrightarrow> v_band v < 34 \<and> v_filter v < 12 \<and> long_long (v_frequency v) \<and> long_long (v_ctun_frequency v)
     \<and> long_long (v_rit v) \<and> long_long (v_xit v) \<and> long_long (v_lo v) \<and> long_long (v_offset v)
     \<and> long_long (v_cwPeak v) \<and> long_long (v_deviation v) \<and> long_long (v_step v) \<and> long_long (v_rit_step v)"

lemma vfo_names: "i < 100 \<Longrightarrow> map fst (vfo_props i v) = indexed ''vfo'' i vfo_fields"
  by (simp add: vfo_props_def indexed_def vfo_fields_def)

lemma vfo_props_storable:
  assumes "vfo_storable v"
  shows "\<forall>x \<in> set (vfo_props i v). storable x"
  using assms by (simp add: vfo_props_def vfo_storable_def storable_prop plain_def)

definition restored_vfo :: "nat \<Rightarrow> vfo \<Rightarrow> vfo" where
  "restored_vfo s v = v\<lparr>v_bandstack := s, v_offset := (if v_ctun v then v_offset v else 0)\<rparr>"

lemma vfo_restored:
  assumes "holds (vfo_props i v) ps" and "vfo_storable v"
  shows "vfo_restore ps i v0 = Some (restored_vfo (v_bandstack v0) v)"
  using assms
  by (simp add: vfo_restore_def vfo_props_def vfo_storable_def GetPropI_set restored_vfo_def)

subsection \<open>Memory slots\<close>

definition mem_fields :: "string list" where
  "mem_fields = [''sat_mode'', ''freqA'', ''freqC'', ''ctun'', ''mode'', ''filter'', ''deviation'', ''band'',
     ''altfreqA'', ''altfreqC'', ''altctun'', ''altmode'', ''altfilter'', ''altdeviation'', ''altband'',
     ''ctcss_enabled'', ''ctcss'']"

definition mem_storable :: "mem \<Rightarrow> bool" where
  "mem_storable m \<longleftrightarrow> m_bd m < 34 \<and> m_filter m < 12 \<and> m_alt_bd m < 34 \<and> m_alt_filter m < 12 \<and> m_ctcss m < 38
     \<and> long_long (m_frequency m) \<and> long_long (m_ctun_frequency m) \<and> long_long (m_deviation m)
     \<and> long_long (m_alt_frequency m) \<and> long_long (m_alt_ctun_frequency m) \<and> long_long (m_alt_deviation m)"

lemma mem_names: "i < 100 \<Longrightarrow> map fst (mem_props i v) = indexed ''mem'' i mem_fields"
  by (simp add: mem_props_def indexed_def mem_fields_def)

lemma mem_props_storable:
  assumes "mem_storable m"
  shows "\<forall>x \<in> set (mem_props i m). storable x"
  using assms by (simp add: mem_props_def mem_storable_def storable_prop plain_def)

lemma mem_restored:
  assumes "holds (mem_props i m) ps" and "mem_storable m"
  shows "mem_restore ps i m0 = Some (m\<lparr>m_split := m_split m0, m_duplex := m_duplex m0\<rparr>)"
  using assms
  by (simp add: mem_restore_def mem_props_def mem_storable_def GetPropI_set)

end
