(* ===== verification/Saved_Bands.thy ===== *)
theory Saved_Bands
  imports Saved_State_Facts
begin

text \<open>
  Saving and restoring the bands: every field of a titled band and the used part of its stack come
  back, the doubles rounded to six decimals, and nothing is restored for an unused transverter.
\<close>

subsection \<open>The names\<close>

lemma snprintf_name2 [simp]:
  assumes "b < 100" and "s < 100" and "length p + length q + length f < 110"
  shows "snprintf 128 (prop_name p b (prop_name q s f)) = prop_name p b (prop_name q s f)"
  using assms length_prop_name [of s q f] by (intro snprintf_name) auto

definition entry_fields :: "string list" where
  "entry_fields = [''a'', ''mode'', ''filter'', ''ctun'', ''c'', ''deviation'', ''ctcss_enabled'', ''ctcss'']"

lemma entry_names:
  "b < 100 \<Longrightarrow> s < 100 \<Longrightarrow> map fst (entry_props b s e) = indexed ''band'' b (indexed ''stack'' s entry_fields)"
  by (simp add: entry_props_def indexed_def entry_fields_def)

definition band_fields :: "nat \<Rightarrow> radio_state \<Rightarrow> string list" where
  "band_fields b r = (if b_title (bands r ! b) = [] then [] else
     (if BANDS \<le> b then [''frequencyLO'', ''errorLO'', ''gaincalib''] else [])
     @ [''title'', ''frequencyMin'', ''frequencyMax'', ''disablePA'', ''current'', ''preamp'', ''dither'',
        ''panhigh'', ''panlow'', ''panstep'', ''AGCgain'']
     @ (if have_rx_att r then [''attenuation''] else []) @ (if have_rx_gain r then [''gain''] else [])
     @ [''alexRxAntenna'', ''alexTxAntenna'', ''alexAttenuation'', ''pa_calibration'', ''OCrx'', ''OCtx'']
     @ concat (map (\<lambda>s. indexed ''stack'' s entry_fields) [0..<bs_entries (b_stack (bands r ! b))]))"

lemma map_fst_concat: "(\<And>s. s \<in> set is \<Longrightarrow> map fst (F s) = indexed p b (G s)) \<Longrightarrow>
    map fst (concat (map F is)) = indexed p b (concat (map G is))"
  by (induction "is") (auto simp: indexed_def)

lemma indexed_append [simp]: "indexed p i (xs @ ys) = indexed p i xs @ indexed p i ys"
  and indexed_Nil [simp]: "indexed p i [] = []"
  and indexed_Cons [simp]: "indexed p i (f # xs) = prop_name p i f # indexed p i xs"
  by (simp_all add: indexed_def)

lemma band_names:
  assumes "b < 100" and "bs_entries (b_stack (bands r ! b)) \<le> 100"
  shows "map fst (band_props b r) = indexed ''band'' b (band_fields b r)"
proof -
  have "map fst (concat (map (\<lambda>s. entry_props b s (stack_entry b s r)) [0..<bs_entries (b_stack (bands r ! b))])) =
      indexed ''band'' b (concat (map (\<lambda>s. indexed ''stack'' s entry_fields) [0..<bs_entries (b_stack (bands r ! b))]))"
    using assms by (intro map_fst_concat entry_names) auto
  then show ?thesis
    using assms(1) by (simp add: band_props_def band_fields_def Let_def)
qed

lemma not_stack_name:
  "CHR ''.'' \<notin> set f \<Longrightarrow> f \<notin> set (concat (map (\<lambda>s. indexed ''stack'' s fs) is))"
  by (auto simp: indexed_def prop_name_def)

lemma distinct_band_fields: "distinct (band_fields b r)"
proof -
  define ss where "ss = concat (map (\<lambda>s. indexed ''stack'' s entry_fields) [0..<bs_entries (b_stack (bands r ! b))])"
  have d: "distinct ss"
    unfolding ss_def by (rule distinct_indexed) (simp_all add: entry_fields_def)
  have n: "CHR ''.'' \<notin> set f \<Longrightarrow> f \<notin> set ss" for f
    unfolding ss_def by (rule not_stack_name)
  show ?thesis
    unfolding band_fields_def ss_def [symmetric] by (simp add: d n disjoint_iff)
qed

subsection \<open>Values\<close>

lemma length_print_f:
  assumes "\<bar>x\<bar> < 10 ^ 100"
  shows "length (print_f x) \<le> 110"
proof -
  define n where "n = nat (round_even (\<bar>x\<bar> * 10 ^ 6))"
  have "\<bar>x\<bar> * 10 ^ 6 < 10 ^ 100 * (10 ^ 6 :: real)" using assms by (intro mult_strict_right_mono) auto
  then have "real_of_int (round_even (\<bar>x\<bar> * 10 ^ 6)) < 10 ^ 100 * 10 ^ 6 + 1"
    using round_even_close [of "\<bar>x\<bar> * 10 ^ 6"] by linarith
  then have "real_of_int (round_even (\<bar>x\<bar> * 10 ^ 6)) < real_of_int (10 ^ 107)" by simp
  then have "round_even (\<bar>x\<bar> * 10 ^ 6) < 10 ^ 107" unfolding of_int_less_iff .
  then have "n < 10 ^ 107" by (simp add: n_def nat_less_iff)
  then have "n div 10 ^ 6 < 10 ^ Suc 101" by simp
  from length_print_nat [OF this] show ?thesis unfolding print_f_def Let_def n_def [symmetric] by simp
qed

lemma GetPropF_set:
  assumes "getProperty (snprintf 128 name) ps = Some (snd (SetPropF name x))" and "\<bar>x\<bar> < 10 ^ 100"
  shows "GetPropF name ps d = printed x"
  using assms length_print_f [of x] by (simp add: GetPropF_def SetPropF_def myatof_print_f)

lemma storable_F:
  assumes "i < 100" and "p \<noteq> []" and "hd p \<noteq> CHR ''#''" and "plain p" and "plain f" and "length p + length f < 100"
    and "\<bar>x\<bar> < 10 ^ 100"
  shows "storable (SetPropF (prop_name p i f) x)"
  using assms length_print_f [of x] length_prop_name [of i p f] plain_prop_name [of p f i]
    print_f_chars [of newline x] digit_not_special(6) [of newline]
  by (auto simp: storable_def SetPropF_def plain_def)

subsection \<open>Band stack entries\<close>

definition entry_storable :: "bandstack_entry \<Rightarrow> bool" where
  "entry_storable e \<longleftrightarrow> bse_filter e < 12 \<and> bse_ctcss e < 38 \<and> long_long (bse_frequency e)
     \<and> long_long (bse_ctun_frequency e) \<and> long_long (bse_deviation e)"

lemma plain_stack [simp]: "plain f \<Longrightarrow> plain (prop_name ''stack'' s f)"
  by (rule plain_prop_name) (simp_all add: plain_def)

lemma storable_stack:
  "plain f \<Longrightarrow> long_long n \<Longrightarrow> storable (SetPropI (prop_name ''band'' b (prop_name ''stack'' s f)) n)"
  by (rule storable_prop) (simp_all, simp add: plain_def)

lemma entry_props_storable:
  assumes "entry_storable e"
  shows "\<forall>x \<in> set (entry_props b s e). storable x"
  using assms by (simp add: entry_props_def entry_storable_def storable_stack plain_def)

lemma entry_restored:
  assumes "holds (entry_props b s e) ps" and "entry_storable e"
  shows "entry_restore ps b s e0 = Some e"
  using assms
  by (simp add: entry_restore_def entry_props_def entry_storable_def GetPropI_set)

subsection \<open>Bands\<close>

definition band_storable :: "nat \<Rightarrow> radio_state \<Rightarrow> bool" where
  "band_storable b r \<longleftrightarrow> (let bd = bands r ! b; k = b_stack bd in
     length (b_title bd) < 16 \<and> newline \<notin> set (b_title bd) \<and> bs_entries k \<le> 100 \<and> bs_current k < 1000
     \<and> (\<forall>s < bs_entries k. entry_storable (stack_entry b s r))
     \<and> list_all long_long [frequencyLO bd, errorLO bd, gaincalib bd, frequencyMin bd, frequencyMax bd, b_preamp bd,
          b_dither bd, b_panhigh bd, b_panlow bd, b_panstep bd, b_attenuation bd, RxAntenna bd, TxAntenna bd,
          b_alexAttenuation bd]
     \<and> list_all (\<lambda>x. \<bar>x\<bar> < 10 ^ 100) [b_AGCgain bd, b_RFgain bd, pa_calibration bd])"

lemma long_long_byte [simp]: "long_long (uint (w :: byte))"
  using uint_lt2p [of w] by (simp add: long_long_def) (smt (verit) uint_ge_0)

lemma storable_band:
  "plain f \<Longrightarrow> long_long n \<Longrightarrow> storable (SetPropI (prop_name ''band'' b f) n)"
  "b < 100 \<Longrightarrow> plain f \<Longrightarrow> length f < 90 \<Longrightarrow> \<bar>x\<bar> < 10 ^ 100 \<Longrightarrow> storable (SetPropF (prop_name ''band'' b f) x)"
  by (rule storable_prop storable_F; simp add: plain_def)+

lemma storable_title:
  "b < 100 \<Longrightarrow> length t < 16 \<Longrightarrow> newline \<notin> set t \<Longrightarrow> storable (SetPropS (prop_name ''band'' b ''title'') t)"
  using plain_prop_name [of "''band''" "''title''" b] length_prop_name [of b "''band''" "''title''"]
  by (simp add: storable_def SetPropS_def plain_def)

lemma band_props_storable:
  assumes "b < 100" and "band_storable b r"
  shows "\<forall>x \<in> set (band_props b r). storable x"
proof -
  have "\<forall>x \<in> set (concat (map (\<lambda>s. entry_props b s (stack_entry b s r)) [0..<bs_entries (b_stack (bands r ! b))])). storable x"
    using assms(2) entry_props_storable by (fastforce simp: band_storable_def Let_def)
  then show ?thesis
    using assms
    by (cases "BANDS \<le> b"; cases "have_rx_att r"; cases "have_rx_gain r")
      (simp_all add: band_props_def band_storable_def Let_def storable_band storable_title plain_def ball_Un)
qed

definition restored_xvtr :: "band \<Rightarrow> band \<Rightarrow> band" where
  "restored_xvtr bd bd0 = bd0\<lparr>b_title := b_title bd, frequencyLO := frequencyLO bd, errorLO := errorLO bd,
     gaincalib := gaincalib bd\<rparr>"

definition restored_fields :: "radio_state \<Rightarrow> band \<Rightarrow> band \<Rightarrow> band" where
  "restored_fields r bd bd0 = bd0\<lparr>frequencyMin := frequencyMin bd, frequencyMax := frequencyMax bd, disablePA := disablePA bd,
     b_stack := (b_stack bd0)\<lparr>bs_current := bs_current (b_stack bd)\<rparr>, b_preamp := b_preamp bd,
     b_dither := b_dither bd, b_panhigh := b_panhigh bd, b_panlow := b_panlow bd, b_panstep := b_panstep bd,
     b_AGCgain := printed (b_AGCgain bd),
     b_attenuation := (if have_rx_att r then b_attenuation bd else b_attenuation bd0),
     b_RFgain := (if have_rx_gain r then printed (b_RFgain bd) else b_RFgain bd0),
     RxAntenna := RxAntenna bd, TxAntenna := TxAntenna bd, b_alexAttenuation := b_alexAttenuation bd,
     pa_calibration := printed (pa_calibration bd), OCrx := OCrx bd, OCtx := OCtx bd\<rparr>"

definition restored_band :: "nat \<Rightarrow> radio_state \<Rightarrow> band \<Rightarrow> band" where
  "restored_band b r bd0 = restored_fields r (bands r ! b) (if BANDS \<le> b then restored_xvtr (bands r ! b) bd0 else bd0)"

lemma holds_if: "holds (if c then xs else []) ps \<longleftrightarrow> (c \<longrightarrow> holds xs ps)"
  by simp

lemma GetProp_if:
  "(c \<Longrightarrow> getProperty (snprintf 128 name) ps = Some (snd (SetPropI name n))) \<Longrightarrow> long_long n
    \<Longrightarrow> (if c then GetPropI name ps Some d else Some d) = Some (if c then n else d)"
  "(c \<Longrightarrow> getProperty (snprintf 128 name) ps = Some (snd (SetPropF name x))) \<Longrightarrow> \<bar>x\<bar> < 10 ^ 100
    \<Longrightarrow> (if c then GetPropF name ps e else e) = (if c then printed x else e)"
  by (simp_all add: GetPropI_set GetPropF_set)

lemma GetPropS_set:
  "getProperty (snprintf 128 name) ps = Some (snd (SetPropS name t)) \<Longrightarrow> length t < m \<Longrightarrow> GetPropS m name ps d = t"
  by (simp add: GetPropS_def SetPropS_def)

lemma xvtr_restored:
  assumes "holds (band_props b r) ps" and "band_storable b r" and "b_title (bands r ! b) \<noteq> []" and "BANDS \<le> b"
  shows "xvtr_restore ps b bd0 = Some (restored_xvtr (bands r ! b) bd0)"
  using assms
  by (simp add: xvtr_restore_def band_props_def band_storable_def Let_def GetPropI_set GetPropS_set restored_xvtr_def)

lemma band_fields_restored:
  assumes "holds (band_props b r) ps" and "band_storable b r" and "b_title (bands r ! b) \<noteq> []"
    and "have_rx_att q = have_rx_att r" and "have_rx_gain q = have_rx_gain r"
  shows "band_fields_restore ps b q bd0 = Some (restored_fields r (bands r ! b) bd0)"
  using assms
  by (simp add: band_fields_restore_def band_props_def band_storable_def Let_def restored_fields_def GetPropI_set GetPropF_set
      GetProp_if holds_if split del: if_split)

lemma band_restored_fields:
  assumes "holds (band_props b r) ps" and "band_storable b r" and "b_title (bands r ! b) \<noteq> []"
    and "have_rx_att q = have_rx_att r" and "have_rx_gain q = have_rx_gain r"
  shows "Option.bind (if BANDS \<le> b then xvtr_restore ps b bd0 else Some bd0) (band_fields_restore ps b q)
    = Some (restored_band b r bd0)"
  using xvtr_restored [OF assms(1,2,3)] band_fields_restored [OF assms] by (simp add: restored_band_def)

end
