(* ===== verification/Saved_Session.thy ===== *)
theory Saved_Session
  imports Saved_Bands Vfo_Bands
begin

text \<open>
  From one session to the next: the file that \<open>radio_save_state\<close> writes, read back by
  \<open>radio_restore_state\<close> into a freshly started program.
\<close>

subsection \<open>One band\<close>

lemma those_map_Some: "(\<And>x. x \<in> set xs \<Longrightarrow> f x = Some (g x)) \<Longrightarrow> those (map f xs) = Some (map g xs)"
  by (induction xs) auto

text \<open>
  The array \<open>es\<close> of a band with \<open>n\<close> entries after reading those that the last session had; only
  the 60m band can have had more of them, or fewer.
\<close>

definition restored_stack :: "nat \<Rightarrow> radio_state \<Rightarrow> nat \<Rightarrow> bandstack_entry list \<Rightarrow> bandstack_entry list" where
  "restored_stack b r n es = map (\<lambda>s. if s < bs_entries (b_stack (bands r ! b)) then stack_entry b s r else es ! s) [0..<n]
     @ drop n es"

definition no_entry :: "nat \<Rightarrow> nat \<Rightarrow> properties \<Rightarrow> bool" where
  "no_entry b s ps \<longleftrightarrow> (\<forall>f. getProperty (prop_name ''band'' b (prop_name ''stack'' s f)) ps = None)"

lemma GetProp_absent:
  "getProperty (snprintf 128 name) ps = None \<Longrightarrow> GetPropI name ps dec d = Some d"
  "getProperty (snprintf 128 name) ps = None \<Longrightarrow> GetPropF name ps x = x"
  "getProperty (snprintf 128 name) ps = None \<Longrightarrow> GetPropS m name ps t = t"
  by (simp_all add: GetPropI_def GetPropF_def GetPropS_def)

lemma no_entry_restore:
  assumes "no_entry b s ps" and "b < 100" and "s < 100"
  shows "entry_restore ps b s en = Some en"
  using assms by (simp add: entry_restore_def GetProp_absent no_entry_def)

lemma band_defaults_stack [simp]: "b_stack (band_defaults g q bd) = b_stack bd"
  by (simp add: band_defaults_def Let_def)

lemma restored_band_stack [simp]:
  "bs_entry (b_stack (restored_band b r bd)) = bs_entry (b_stack bd)"
  "bs_entries (b_stack (restored_band b r bd)) = bs_entries (b_stack bd)"
  by (simp_all add: restored_band_def restored_fields_def restored_xvtr_def)

lemma held_entries:
  assumes "holds (band_props b r) ps" and "b_title (bands r ! b) \<noteq> []" and "s < bs_entries (b_stack (bands r ! b))"
  shows "holds (entry_props b s (stack_entry b s r)) ps"
  using assms by (auto simp: band_props_def Let_def holds_def)

lemma band_restore_held:
  fixes r q :: radio_state and b :: nat
  defines "n \<equiv> bs_entries (b_stack (bands q ! b))"
  assumes "holds (band_props b r) ps" and "band_storable b r" and "b_title (bands r ! b) \<noteq> []"
    and "have_rx_att q = have_rx_att r" and "have_rx_gain q = have_rx_gain r"
    and "\<And>s. bs_entries (b_stack (bands r ! b)) \<le> s \<Longrightarrow> s < n \<Longrightarrow> no_entry b s ps" and "b < 100" and "n \<le> 100"
  shows "band_restore ps gain b q = Some (let bd = bands q ! b; name = bs_entry (b_stack bd) in
    q\<lparr>bands := (bands q)[b := restored_band b r (band_defaults gain q bd)],
      stacks := (stacks q)(name := restored_stack b r n (stacks q name))\<rparr>)"
proof -
  have e: "those (map (\<lambda>s. entry_restore ps b s (es ! s)) [0..<n])
      = Some (map (\<lambda>s. if s < bs_entries (b_stack (bands r ! b)) then stack_entry b s r else es ! s) [0..<n])" for es
  proof (rule those_map_Some)
    fix s assume s: "s \<in> set [0..<n]"
    show "entry_restore ps b s (es ! s)
        = Some (if s < bs_entries (b_stack (bands r ! b)) then stack_entry b s r else es ! s)"
    proof (cases "s < bs_entries (b_stack (bands r ! b))")
      case True
      then show ?thesis
        using held_entries [OF assms(2,4) True] assms(3) by (simp add: entry_restored band_storable_def Let_def)
    next
      case False
      then show ?thesis using assms(7-9) s by (simp add: no_entry_restore)
    qed
  qed
  show ?thesis
    unfolding band_restore_def Let_def bind_assoc [symmetric]
    using band_restored_fields [OF assms(2-6)] e by (simp add: restored_stack_def n_def Let_def)
qed

definition absent :: "nat \<Rightarrow> properties \<Rightarrow> bool" where
  "absent b ps \<longleftrightarrow> (\<forall>f. length f < 60 \<longrightarrow> getProperty (prop_name ''band'' b f) ps = None)"

lemma band_restore_absent:
  assumes "absent b ps" and "b < 100" and "bs_entries (b_stack (bands q ! b)) \<le> 100"
    and "bs_entries (b_stack (bands q ! b)) \<le> length (stacks q (bs_entry (b_stack (bands q ! b))))"
  shows "band_restore ps gain b q = Some (q\<lparr>bands := (bands q)[b := band_defaults gain q (bands q ! b)]\<rparr>)"
proof -
  have g: "getProperty (prop_name ''band'' b f) ps = None" if "length f < 60" for f
    using assms(1) that by (simp add: absent_def)
  have g2: "getProperty (prop_name ''band'' b (prop_name ''stack'' s f)) ps = None" if "length f < 50" and "s < 100" for s f
    using that length_prop_name [of s "''stack''" f] by (intro g) simp
  have e: "entry_restore ps b s en = Some en" if "s < 100" for s en
    using that assms(2) by (simp add: entry_restore_def GetProp_absent g2)
  have f: "band_fields_restore ps b q bd = Some bd" for bd
    using assms(2) by (cases "have_rx_att q"; cases "have_rx_gain q") (simp_all add: band_fields_restore_def GetProp_absent g)
  have x: "xvtr_restore ps b bd = Some bd" for bd
    using assms(2) by (simp add: xvtr_restore_def GetProp_absent g)
  let ?n = "bs_entries (b_stack (bands q ! b))" and ?es = "stacks q (bs_entry (b_stack (bands q ! b)))"
  have "those (map (\<lambda>s. entry_restore ps b s (?es ! s)) [0..<?n]) = Some (map (\<lambda>s. ?es ! s) [0..<?n])"
    using assms(3) by (intro those_map_Some e) auto
  moreover have "map (\<lambda>s. ?es ! s) [0..<?n] = take ?n ?es"
    using assms(4) by (intro nth_equalityI) auto
  ultimately show ?thesis
    using f x assms(4) by (simp add: band_restore_def Let_def min_absorb2 fun_upd_idem)
qed

subsection \<open>All bands\<close>

text \<open>
  The loop over the bands, each of which has a stack array of its own: what a pass does is known
  from the state before the loop.
\<close>

lemma for_bands_all:
  assumes step: "\<And>b q. b \<in> set bs \<Longrightarrow> bands q ! b = bands q0 ! b \<Longrightarrow> stacks q (N b) = stacks q0 (N b)
      \<Longrightarrow> \<exists>bs st. q = q0\<lparr>bands := bs, stacks := st\<rparr>
      \<Longrightarrow> f b q = Some (q\<lparr>bands := (bands q)[b := B b], stacks := (stacks q)(N b := S b)\<rparr>)"
    and "distinct bs" and "inj_on N (set bs)"
    and "\<forall>b \<in> set bs. x ! b = bands q0 ! b \<and> y (N b) = stacks q0 (N b)"
  shows "for_bands bs f (q0\<lparr>bands := x, stacks := y\<rparr>)
    = Some (q0\<lparr>bands := fold (\<lambda>b xs. xs[b := B b]) bs x, stacks := fold (\<lambda>b st. st(N b := S b)) bs y\<rparr>)"
  using assms
proof (induction bs arbitrary: x y)
  case (Cons b bs)
  have "f b (q0\<lparr>bands := x, stacks := y\<rparr>) = Some (q0\<lparr>bands := x[b := B b], stacks := y(N b := S b)\<rparr>)"
    using Cons.prems(4) by (subst Cons.prems(1)) auto
  moreover have "for_bands bs f (q0\<lparr>bands := x[b := B b], stacks := y(N b := S b)\<rparr>) = Some (q0\<lparr>
      bands := fold (\<lambda>b xs. xs[b := B b]) bs (x[b := B b]), stacks := fold (\<lambda>b st. st(N b := S b)) bs (y(N b := S b))\<rparr>)"
  proof (rule Cons.IH)
    show "\<forall>c \<in> set bs. x[b := B b] ! c = bands q0 ! c \<and> (y(N b := S b)) (N c) = stacks q0 (N c)"
    proof
      fix c assume c: "c \<in> set bs"
      then have "c \<noteq> b" and "N c \<noteq> N b" using Cons.prems(2,3) by (auto simp: image_iff)
      then show "x[b := B b] ! c = bands q0 ! c \<and> (y(N b := S b)) (N c) = stacks q0 (N c)"
        using c Cons.prems(4) by simp
    qed
  qed (use Cons.prems in \<open>auto simp: inj_on_def\<close>)
  ultimately show ?case by (simp del: fun_upd_apply)
qed simp

lemma fold_update_nth:
  assumes "distinct bs"
  shows "length (fold (\<lambda>b xs. xs[b := B b]) bs xs) = length xs"
    and "b < length xs \<Longrightarrow> fold (\<lambda>b xs. xs[b := B b]) bs xs ! b = (if b \<in> set bs then B b else xs ! b)"
  using assms by (induction bs arbitrary: xs) auto

lemma fold_fun_upd_other: "n \<notin> N ` set bs \<Longrightarrow> fold (\<lambda>b st. st(N b := S b)) bs st n = st n"
  by (induction bs arbitrary: st) auto

lemma fold_fun_upd:
  "inj_on N (set bs) \<Longrightarrow> distinct bs \<Longrightarrow> b \<in> set bs \<Longrightarrow> fold (\<lambda>b st. st(N b := S b)) bs st (N b) = S b"
proof (induction bs arbitrary: st)
  case (Cons c bs)
  show ?case
  proof (cases "b = c")
    case True
    then have "N b \<notin> N ` set bs" using Cons.prems by (auto dest: inj_onD)
    then show ?thesis using True by (simp add: fold_fun_upd_other del: fun_upd_apply) simp
  qed (use Cons in \<open>auto simp: inj_on_def\<close>)
qed simp

subsection \<open>The file\<close>

text \<open>The part of a name before the first dot tells whose property it is.\<close>

definition section_of :: "string \<Rightarrow> string" where
  "section_of k = takeWhile (\<lambda>c. c \<noteq> CHR ''.'') k"

lemma section_append [simp]: "CHR ''.'' \<notin> set p \<Longrightarrow> section_of (p @ CHR ''.'' # s) = p"
  by (induction p) (auto simp: section_of_def)

lemma section_prop_name [simp]: "CHR ''.'' \<notin> set p \<Longrightarrow> section_of (prop_name p i f) = p"
  by (simp add: prop_name_def)

lemma tolower_eq: "c \<in> {CHR ''='', newline, CHR ''.'', CHR ''#''} \<Longrightarrow> tolower d = c \<longleftrightarrow> d = c"
  by (auto simp: tolower_def Let_def char_of_eq_iff take_bit_eq_mod)

definition own :: "string set" where
  "own = {''region'', ''filter'', ''band'', ''mem'', ''vfo''}"

definition foreign :: "(string \<times> string) list \<Rightarrow> bool" where
  "foreign xs \<longleftrightarrow> (\<forall>x \<in> set xs. storable x \<and> section_of (fst x) \<notin> own \<and> fst x \<noteq> ''property_version'')"

lemma filter_name_eq: "filter_name m t e = ''filter.'' @ map tolower (take 120 (mode_string m @ ''.'' @ t @ ''.'' @ e))"
  by (simp add: filter_name_def snprintf_def tolower_def Let_def)

lemma section_filter_name [simp]: "section_of (filter_name m t e) = ''filter''"
  using section_append [of "''filter''"] by (simp add: filter_name_eq)

lemma length_filter_name: "length (filter_name m t e) \<le> 127"
  by (simp add: filter_name_def snprintf_def)

lemma snprintf_filter_name [simp]: "snprintf 128 (filter_name m t e) = filter_name m t e"
  using length_filter_name [of m t e] by simp

lemma plain_filter_name: "plain t \<Longrightarrow> plain e \<Longrightarrow> plain (filter_name m t e)"
  by (cases m) (auto simp: plain_def filter_name_eq mode_string_def image_iff tolower_eq eq_commute [of "CHR ''=''"]
      eq_commute [of newline] dest: in_set_takeD)

end
