(* ===== verification/Saved_Trip.thy ===== *)
theory Saved_Trip
  imports Saved_Session
begin

text \<open>
  What the next session finds: the VFOs, the memory slots and the bands of the last one, and what
  is missing of them.
\<close>

subsection \<open>Everything in the file\<close>

definition radio_storable :: "mem list \<Rightarrow> radio_state \<Rightarrow> bool" where
  "radio_storable ms r \<longleftrightarrow> vfo_storable (vfo r 0) \<and> vfo_storable (vfo r 1)
     \<and> (\<forall>b < BANDS + XVTRS. band_storable b r) \<and> (\<forall>i < NUM_MEMORIES. mem_storable (ms ! i))
     \<and> (\<forall>m. \<forall>f \<in> set (filters r m). plain (f_title f) \<and> long_long (f_low f) \<and> long_long (f_high f))"

lemma storable_filter_props:
  assumes "\<forall>f \<in> set fs. plain (f_title f) \<and> long_long (f_low f) \<and> long_long (f_high f)"
  shows "\<forall>x \<in> set (filter_props m fs). storable x"
proof -
  have "storable (SetPropI (filter_name m t e) n)" if "plain t" "plain e" "long_long n" for t e n
    using that by (intro storable_int plain_filter_name) (simp_all add: filter_name_eq)
  then show ?thesis
    using assms by (auto simp: filter_props_def plain_def dest!: in_set_takeD)
qed

definition all_bands :: "radio_state \<Rightarrow> (string \<times> string) list" where
  "all_bands r = concat (map (\<lambda>b. band_props b r) [0..<BANDS + XVTRS])"
definition all_mems :: "mem list \<Rightarrow> (string \<times> string) list" where
  "all_mems ms = concat (map (\<lambda>i. mem_props i (ms ! i)) [0..<NUM_MEMORIES])"
definition all_filters :: "radio_state \<Rightarrow> (string \<times> string) list" where
  "all_filters r = concat (map (\<lambda>m. filter_props m (filters r m)) modes)"
definition all_vfos :: "radio_state \<Rightarrow> (string \<times> string) list" where
  "all_vfos r = vfo_props 0 (vfo r 0) @ vfo_props 1 (vfo r 1)"

lemma vfo_save [simp]: "vfo (vfo_save_bandstack r) = vfo r"
  by (simp add: vfo_save_bandstack_def Let_def)

definition saved :: "(string \<times> string) list \<Rightarrow> (string \<times> string) list \<Rightarrow> mem list \<Rightarrow> radio_state \<Rightarrow> properties" where
  "saved before after ms r = set_all (before @ region_props r @ all_filters r @ all_bands r @ all_mems ms @ all_vfos r @ after) []"

lemma radio_save_eq:
  "radio_save_state before after ms r = (vfo_save_bandstack r, fst (saveProperties (saved before after ms r)))"
  by (simp add: radio_save_state_def saved_def Let_def vfo_save_state_def filter_save_state_def band_save_state_def
      mem_save_state_def clearProperties_def all_bands_def all_mems_def all_filters_def all_vfos_def)

lemma section_parts:
  "x \<in> set (all_filters r) \<Longrightarrow> section_of (fst x) = ''filter''"
  "x \<in> set (all_vfos r) \<Longrightarrow> section_of (fst x) = ''vfo''"
  "x \<in> set (region_props r) \<Longrightarrow> section_of (fst x) = ''region''"
  by (auto simp: all_filters_def filter_props_def all_vfos_def vfo_props_def region_props_def)
    (simp add: SetPropI_def section_of_def snprintf_def)

lemma section_indexed: "map fst xs = indexed p i fs \<Longrightarrow> CHR ''.'' \<notin> set p \<Longrightarrow> x \<in> set xs \<Longrightarrow> section_of (fst x) = p"
proof -
  assume eq: "map fst xs = indexed p i fs" and p: "CHR ''.'' \<notin> set p" and x: "x \<in> set xs"
  have "fst x \<in> set (map fst xs)" using x by simp
  then show ?thesis using p unfolding eq by (auto simp: indexed_def)
qed

lemma section_mems: "x \<in> set (all_mems ms) \<Longrightarrow> section_of (fst x) = ''mem''"
  by (auto simp: all_mems_def intro!: section_indexed [OF mem_names])

lemma section_bands:
  assumes "radio_storable ms r" and "x \<in> set (all_bands r)"
  shows "section_of (fst x) = ''band''"
proof -
  obtain b where b: "b < 34" and "x \<in> set (band_props b r)" using assms(2) by (auto simp: all_bands_def)
  then show ?thesis
    using assms(1) band_names [of b r] by (intro section_indexed) (auto simp: radio_storable_def band_storable_def Let_def)
qed

lemma long_long_region [simp]: "long_long (region_num reg)"
  by (cases reg) (simp_all add: long_long_def)

lemma storable_region: "\<forall>x \<in> set (region_props r). storable x"
  by (simp add: region_props_def storable_int plain_def)

lemma saved_well_formed:
  assumes "radio_storable ms r" and "foreign before" and "foreign after"
  shows "well_formed (saved before after ms r)"
proof -
  have "\<forall>x \<in> set (band_props b r). storable x" if "b < 34" for b
    using assms(1) that by (intro band_props_storable) (simp_all add: radio_storable_def)
  then have "\<forall>x \<in> set (all_bands r). storable x"
    by (auto simp: all_bands_def)
  moreover have "\<forall>x \<in> set (mem_props i (ms ! i)). storable x" if "i < 10" for i
    using assms(1) that by (intro mem_props_storable) (simp add: radio_storable_def)
  then have "\<forall>x \<in> set (all_mems ms). storable x"
    by (auto simp: all_mems_def)
  moreover have "\<forall>x \<in> set (filter_props m (filters r m)). storable x" for m
    using assms(1) by (intro storable_filter_props) (simp add: radio_storable_def)
  then have "\<forall>x \<in> set (all_filters r). storable x"
    by (auto simp: all_filters_def)
  moreover have "\<forall>x \<in> set (all_vfos r). storable x"
    using assms(1) vfo_props_storable by (auto simp: radio_storable_def all_vfos_def)
  ultimately show ?thesis
    using assms(2,3) unfolding saved_def by (intro well_formed_set_all) (auto simp: foreign_def storable_region)
qed

lemma disjoint_sections:
  "\<forall>x \<in> set xs. section_of (fst x) \<in> A \<Longrightarrow> \<forall>y \<in> set ys. section_of (fst y) \<notin> A \<Longrightarrow> fst ` set xs \<inter> fst ` set ys = {}"
  by force

lemma distinct_map_concat:
  assumes "\<And>i. i \<in> set is \<Longrightarrow> map fst (X i) = indexed p i (F i)" and "\<And>i. i \<in> set is \<Longrightarrow> distinct (F i)"
    and "distinct is" and "CHR ''.'' \<notin> set p"
  shows "distinct (map fst (concat (map X is)))"
proof -
  have "map fst (concat (map X is)) = concat (map (\<lambda>i. indexed p i (F i)) is)"
    using assms(1) by (simp add: map_concat cong: map_cong)
  then show ?thesis using distinct_indexed [OF assms(4) _ assms(3), of F] assms(2) by simp
qed

lemma band_names_ok:
  "radio_storable ms r \<Longrightarrow> b < 34 \<Longrightarrow> map fst (band_props b r) = indexed ''band'' b (band_fields b r)"
  by (intro band_names) (auto simp: radio_storable_def band_storable_def Let_def)

lemma distinct_vfo_fields: "distinct vfo_fields"
  by (simp add: vfo_fields_def)

lemma distinct_parts:
  assumes "radio_storable ms r"
  shows "distinct (map fst (all_bands r))" and "distinct (map fst (all_mems ms))" and "distinct (map fst (all_vfos r))"
proof -
  show "distinct (map fst (all_bands r))" unfolding all_bands_def
    by (rule distinct_map_concat [where F = "\<lambda>b. band_fields b r"])
      (auto simp: band_names_ok [OF assms] distinct_band_fields)
  show "distinct (map fst (all_mems ms))" unfolding all_mems_def
    by (rule distinct_map_concat [where F = "\<lambda>_. mem_fields"]) (auto simp: mem_names, simp add: mem_fields_def)
  show "distinct (map fst (all_vfos r))"
    using distinct_indexed [of "''vfo''" "[0, 1]" "\<lambda>_. vfo_fields"]
    by (simp add: all_vfos_def vfo_names distinct_vfo_fields)
qed

lemma foreign_disjoint:
  assumes "foreign ys" and "\<And>x. x \<in> set xs \<Longrightarrow> section_of (fst x) \<in> own"
  shows "fst ` set xs \<inter> fst ` set ys = {}"
  using assms by (fastforce simp: foreign_def)

lemma saved_holds:
  assumes "radio_storable ms r" and "foreign after"
  shows "holds (all_bands r @ all_mems ms @ all_vfos r) (saved before after ms r)"
proof -
  note d = distinct_parts [OF assms(1)]
  note t = section_bands [OF assms(1)] section_mems section_parts
  have b: "holds (all_bands r) (set_all (all_bands r) ps)" for ps by (rule holds_set_all [OF d(1)])
  have m: "holds (all_mems ms) (set_all (all_mems ms) ps)" for ps by (rule holds_set_all [OF d(2)])
  have v: "holds (all_vfos r) (set_all (all_vfos r) ps)" for ps by (rule holds_set_all [OF d(3)])
  have "fst ` set (all_bands r) \<inter> fst ` set (all_mems ms) = {}" "fst ` set (all_bands r) \<inter> fst ` set (all_vfos r) = {}"
    "fst ` set (all_mems ms) \<inter> fst ` set (all_vfos r) = {}"
    by (rule disjoint_sections [of _ "{''band''}"] disjoint_sections [of _ "{''mem''}"]; simp add: t)+
  moreover have "fst ` set (all_bands r) \<inter> fst ` set after = {}" "fst ` set (all_mems ms) \<inter> fst ` set after = {}"
    "fst ` set (all_vfos r) \<inter> fst ` set after = {}"
    by (rule foreign_disjoint [OF assms(2)]; simp add: t own_def)+
  ultimately show ?thesis
    unfolding saved_def by (simp add: b m v holds_later)
qed

lemma saved_region:
  assumes "radio_storable ms r" and "foreign after"
  shows "holds (region_props r) (saved before after ms r)"
proof -
  let ?rest = "all_filters r @ all_bands r @ all_mems ms @ all_vfos r @ after"
  have h: "holds (region_props r) (set_all (region_props r) (set_all before []))"
    by (rule holds_set_all) (simp add: region_props_def)
  have "\<forall>y \<in> set ?rest. section_of (fst y) \<notin> {''region''}"
    using section_bands [OF assms(1)] section_mems section_parts assms(2) by (auto simp: foreign_def own_def)
  then have "fst ` set (region_props r) \<inter> fst ` set ?rest = {}"
    using section_parts(3) by (intro disjoint_sections [of _ "{''region''}"]) auto
  from holds_later [OF h this] show ?thesis by (simp add: saved_def)
qed

lemma snd_Set_not_Nil [simp]:
  "snd (SetPropI name n) \<noteq> []" "snd (SetPropF name x) \<noteq> []" "snd (SetPropS name t) = t"
  by (simp_all add: SetPropI_def SetPropF_def SetPropS_def snprintf_def print_f_def Let_def)

lemma value_not_Nil:
  "x \<in> set (all_bands r) \<Longrightarrow> snd x \<noteq> []" "x \<in> set (all_mems ms) \<Longrightarrow> snd x \<noteq> []" "x \<in> set (all_vfos r) \<Longrightarrow> snd x \<noteq> []"
proof -
  have e: "x \<in> set (entry_props b s en) \<Longrightarrow> snd x \<noteq> []" for b s en
    by (auto simp: entry_props_def)
  have "x \<in> set (band_props b r) \<Longrightarrow> snd x \<noteq> []" for b
    by (auto simp: band_props_def Let_def e split: if_splits)
  then show "x \<in> set (all_bands r) \<Longrightarrow> snd x \<noteq> []" by (auto simp: all_bands_def)
  show "x \<in> set (all_mems ms) \<Longrightarrow> snd x \<noteq> []" by (auto simp: all_mems_def mem_props_def)
  show "x \<in> set (all_vfos r) \<Longrightarrow> snd x \<noteq> []" by (auto simp: all_vfos_def vfo_props_def)
qed

lemma section_version: "section_of ''property_version'' \<notin> own"
  by (simp add: section_of_def own_def)

text \<open>What the next session reads.\<close>

definition reloaded :: "(string \<times> string) list \<Rightarrow> (string \<times> string) list \<Rightarrow> mem list \<Rightarrow> radio_state \<Rightarrow> properties \<Rightarrow> properties" where
  "reloaded before after ms r old = loadProperties (Some (snd (radio_save_state before after ms r))) old"

lemma reloaded_keeps:
  assumes "radio_storable ms r" and "foreign before" and "foreign after" and "holds xs (saved before after ms r)"
    and "\<forall>x \<in> set xs. section_of (fst x) \<in> own \<and> snd x \<noteq> []"
  shows "holds xs (reloaded before after ms r old)"
proof -
  have "\<forall>x \<in> set xs. snd x \<noteq> [] \<and> fst x \<noteq> ''property_version''"
    using assms(5) section_version by fastforce
  with holds_saved [OF saved_well_formed [OF assms(1-3)] assms(4)] show ?thesis
    by (simp add: reloaded_def radio_save_eq)
qed

lemma reloaded_holds:
  assumes "radio_storable ms r" and "foreign before" and "foreign after"
  shows "holds (all_bands r @ all_mems ms @ all_vfos r) (reloaded before after ms r old)"
  using section_bands [OF assms(1)] section_mems section_parts value_not_Nil
  by (intro reloaded_keeps [OF assms saved_holds [OF assms(1,3)]]) (auto simp: own_def)

lemma as_region_num [simp]: "as_region (region_num reg) = Some reg"
  by (cases reg) (simp_all add: as_region_def)

lemma reloaded_region:
  assumes "radio_storable ms r" and "foreign before" and "foreign after"
  shows "GetPropI ''region'' (reloaded before after ms r old) as_region d = Some (region r)"
proof -
  have "\<forall>x \<in> set (region_props r). section_of (fst x) \<in> own \<and> snd x \<noteq> []"
    using section_parts(3) [of _ r] by (simp add: own_def region_props_def)
  from reloaded_keeps [OF assms saved_region [OF assms(1,3)] this] show ?thesis
    by (simp add: region_props_def holds_def SetPropI_def GetPropI_set)
qed

lemma reloaded_None:
  assumes "radio_storable ms r" and "foreign before" and "foreign after"
    and "b < BANDS + XVTRS" and "f \<notin> set (band_fields b r)"
  shows "getProperty (prop_name ''band'' b f) (reloaded before after ms r old) = None"
proof -
  let ?k = "prop_name ''band'' b f"
  have s: "section_of ?k = ''band''" by simp
  have "?k \<notin> fst ` set (all_bands r)"
  proof
    assume "?k \<in> fst ` set (all_bands r)"
    then obtain x where x: "x \<in> set (all_bands r)" "fst x = ?k" by auto
    then obtain c where c: "c < 34" and "x \<in> set (band_props c r)" by (auto simp: all_bands_def)
    then have "?k \<in> set (map fst (band_props c r))" using x(2) by force
    then have "c = b" and "f \<in> set (band_fields c r)"
      unfolding band_names_ok [OF assms(1) c] by (auto simp: indexed_def prop_name_eq)
    then show False using assms(5) by simp
  qed
  moreover have n: "?k \<notin> fst ` set xs" if "\<forall>x \<in> set xs. section_of (fst x) \<noteq> ''band''" for xs :: "(string \<times> string) list"
    using that s by force
  have "?k \<notin> fst ` set (region_props r)" "?k \<notin> fst ` set (all_filters r)" "?k \<notin> fst ` set (all_mems ms)"
    "?k \<notin> fst ` set (all_vfos r)" "?k \<notin> fst ` set before" "?k \<notin> fst ` set after"
    by (rule n; use section_parts section_mems assms(2,3) in \<open>auto simp: foreign_def own_def\<close>)+
  ultimately have "?k \<notin> fst ` set (before @ region_props r @ all_filters r @ all_bands r @ all_mems ms @ all_vfos r @ after)"
    by auto
  then have "getProperty ?k (saved before after ms r) = None"
    unfolding saved_def by (subst getProperty_set_all) auto
  moreover have "?k \<noteq> ''property_version''" using s section_version unfolding own_def by (metis insert_iff)
  ultimately show ?thesis
    by (simp add: reloaded_def radio_save_eq load_saved [OF saved_well_formed [OF assms(1-3)]])
qed

lemma reloaded_absent:
  assumes "radio_storable ms r" and "foreign before" and "foreign after"
    and "b < BANDS + XVTRS" and "b_title (bands r ! b) = []"
  shows "absent b (reloaded before after ms r old)"
  using reloaded_None [OF assms(1-4)] assms(5) by (simp add: absent_def band_fields_def)

lemma stack_field: "prop_name ''stack'' s f \<in> set (band_fields b r) \<Longrightarrow> s < bs_entries (b_stack (bands r ! b))"
proof -
  have "prop_name ''stack'' s f \<noteq> g" if "CHR ''.'' \<notin> set g" for g
    using that by (auto simp: prop_name_def)
  moreover assume "prop_name ''stack'' s f \<in> set (band_fields b r)"
  ultimately show ?thesis
    by (auto simp: band_fields_def indexed_def prop_name_eq split: if_splits)
qed

lemma reloaded_no_entry:
  assumes "radio_storable ms r" and "foreign before" and "foreign after"
    and "b < BANDS + XVTRS" and "bs_entries (b_stack (bands r ! b)) \<le> s"
  shows "no_entry b s (reloaded before after ms r old)"
  unfolding no_entry_def using stack_field [of s _ b r] assms(5) by (intro allI reloaded_None [OF assms(1-4)]) auto

subsection \<open>The next session\<close>

text \<open>
  A program that has just been started, before it reads its settings: the same tables of bands and
  stacks as in the last session, whatever is in them. Only the stack of the 60m band can have
  another length, as that depends on the region; \<open>started\<close> is the case that it has not.
\<close>

definition stack_of :: "radio_state \<Rightarrow> nat \<Rightarrow> stack_name" where
  "stack_of q b = bs_entry (b_stack (bands q ! b))"

abbreviation (input) "stack_size b r \<equiv> bs_entries (b_stack (bands r ! b))"

definition fresh :: "radio_state \<Rightarrow> radio_state \<Rightarrow> bool" where
  "fresh q r \<longleftrightarrow> length (bands q) = BANDS + XVTRS \<and> have_rx_att q = have_rx_att r \<and> have_rx_gain q = have_rx_gain r
     \<and> inj_on (stack_of q) {0..<BANDS + XVTRS}
     \<and> (\<forall>b < BANDS + XVTRS. (b \<noteq> band60 \<longrightarrow> stack_size b q = stack_size b r)
          \<and> stack_size b q \<le> length (stacks q (stack_of q b)) \<and> stack_size b q \<le> 100)"

definition started :: "radio_state \<Rightarrow> radio_state \<Rightarrow> bool" where
  "started q r \<longleftrightarrow> length (bands q) = BANDS + XVTRS \<and> have_rx_att q = have_rx_att r \<and> have_rx_gain q = have_rx_gain r
     \<and> inj_on (stack_of q) {0..<BANDS + XVTRS}
     \<and> (\<forall>b < BANDS + XVTRS. bs_entries (b_stack (bands q ! b)) = bs_entries (b_stack (bands r ! b))
          \<and> bs_entries (b_stack (bands q ! b)) \<le> length (stacks q (stack_of q b)))"

lemma started_size: "started q r \<Longrightarrow> b < BANDS + XVTRS \<Longrightarrow> stack_size b q = stack_size b r"
  unfolding started_def by blast

lemma started_fresh: "started q r \<Longrightarrow> radio_storable ms r \<Longrightarrow> fresh q r"
  unfolding started_def fresh_def radio_storable_def band_storable_def Let_def by metis

lemma freshD:
  assumes "fresh q r" and "b < BANDS + XVTRS"
  shows "b \<noteq> band60 \<Longrightarrow> stack_size b q = stack_size b r"
    and "stack_size b q \<le> length (stacks q (stack_of q b))" and "stack_size b q \<le> 100"
  using assms unfolding fresh_def by blast+

lemma fresh_have: "fresh q r \<Longrightarrow> have_rx_att q = have_rx_att r \<and> have_rx_gain q = have_rx_gain r"
  unfolding fresh_def by blast

lemma fresh_filters: "fresh (filter_restore_state ps q) r \<longleftrightarrow> fresh q r" "fresh (q\<lparr>region := reg\<rparr>) r \<longleftrightarrow> fresh q r"
  by (simp_all add: filter_restore_state_def fresh_def stack_of_def [abs_def])

definition next_band :: "int \<Rightarrow> nat \<Rightarrow> radio_state \<Rightarrow> radio_state \<Rightarrow> band" where
  "next_band gain b r q = (let bd = band_defaults gain q (bands q ! b)
     in if b_title (bands r ! b) = [] then bd else restored_band b r bd)"

definition next_stack :: "nat \<Rightarrow> radio_state \<Rightarrow> radio_state \<Rightarrow> bandstack_entry list" where
  "next_stack b r q = (if b_title (bands r ! b) = [] then stacks q (stack_of q b)
     else restored_stack b r (stack_size b q) (stacks q (stack_of q b)))"

lemma holds_part: "holds (concat (map F is)) ps \<Longrightarrow> i \<in> set is \<Longrightarrow> holds (F i) ps"
  by (auto simp: holds_def)

lemma for_bands_restored:
  fixes r q :: radio_state and gain :: int
  defines "B \<equiv> \<lambda>b. next_band gain b r q" and "S \<equiv> \<lambda>b. next_stack b r q"
  assumes "radio_storable ms r" and "fresh q r" and "holds (all_bands r) ps"
    and "\<And>b. b < BANDS + XVTRS \<Longrightarrow> b_title (bands r ! b) = [] \<Longrightarrow> absent b ps"
    and "\<And>b s. b < BANDS + XVTRS \<Longrightarrow> stack_size b r \<le> s \<Longrightarrow> no_entry b s ps"
  shows "for_bands [0..<BANDS + XVTRS] (band_restore ps gain) q = Some (q\<lparr>
     bands := fold (\<lambda>b xs. xs[b := B b]) [0..<BANDS + XVTRS] (bands q),
     stacks := fold (\<lambda>b st. st(stack_of q b := S b)) [0..<BANDS + XVTRS] (stacks q)\<rparr>)"
proof -
  have step: "band_restore ps gain b p = Some (p\<lparr>bands := (bands p)[b := B b], stacks := (stacks p)(stack_of q b := S b)\<rparr>)"
    if b: "b \<in> set [0..<BANDS + XVTRS]" and same: "bands p ! b = bands q ! b" "stacks p (stack_of q b) = stacks q (stack_of q b)"
      and shape: "\<exists>bs st. p = q\<lparr>bands := bs, stacks := st\<rparr>" for b p
  proof -
    have b34: "b < 34" using b by simp
    then have st: "band_storable b r" using assms(3) by (simp add: radio_storable_def)
    have bs: "stack_size b q \<le> 100" "stack_size b q \<le> length (stacks q (bs_entry (b_stack (bands q ! b))))"
      using freshD(2,3) [OF assms(4), of b] b34 by (simp_all add: stack_of_def)
    obtain x y where "p = q\<lparr>bands := x, stacks := y\<rparr>" using shape by blast
    then have p: "have_rx_att p = have_rx_att r" "have_rx_gain p = have_rx_gain r"
      "band_defaults gain p = band_defaults gain q"
      using fresh_have [OF assms(4)] by (simp_all add: band_defaults_def [abs_def])
    show ?thesis
    proof (cases "b_title (bands r ! b) = []")
      case True
      have "band_restore ps gain b p = Some (p\<lparr>bands := (bands p)[b := band_defaults gain p (bands p ! b)]\<rparr>)"
        using b34 same bs by (intro band_restore_absent assms(6) True) (auto simp: stack_of_def)
      then show ?thesis
        using True same p by (simp add: B_def S_def next_band_def next_stack_def fun_upd_idem)
    next
      case False
      have "holds (band_props b r) ps"
        using assms(5) b unfolding all_bands_def by (rule holds_part)
      moreover have "\<And>s. stack_size b r \<le> s \<Longrightarrow> s < stack_size b p \<Longrightarrow> no_entry b s ps" using assms(7) b34 by simp
      moreover have "b < 100" "stack_size b p \<le> 100" using b34 bs(1) same by simp_all
      ultimately show ?thesis
        using band_restore_held [OF _ st False p(1,2), of ps gain] False same p
        by (simp add: B_def S_def next_band_def next_stack_def stack_of_def Let_def)
    qed
  qed
  have "for_bands [0..<BANDS + XVTRS] (band_restore ps gain) (q\<lparr>bands := bands q, stacks := stacks q\<rparr>) = Some (q\<lparr>
     bands := fold (\<lambda>b xs. xs[b := B b]) [0..<BANDS + XVTRS] (bands q),
     stacks := fold (\<lambda>b st. st(stack_of q b := S b)) [0..<BANDS + XVTRS] (stacks q)\<rparr>)"
    using assms(4) by (intro for_bands_all step) (auto simp: fresh_def)
  then show ?thesis by simp
qed

lemma band_sane_stack [simp]:
  "bs_entry (b_stack (band_sane p bd)) = bs_entry (b_stack bd)" "bs_entries (b_stack (band_sane p bd)) = bs_entries (b_stack bd)"
  by (simp_all add: band_sane_def Let_def)

lemma next_band_stack [simp]:
  "bs_entry (b_stack (next_band gain b r q)) = stack_of q b"
  by (simp add: next_band_def stack_of_def Let_def)

lemma bands_session:
  assumes "radio_storable ms r" and "fresh q r" and "holds (all_bands r) ps"
    and "\<And>b. b < BANDS + XVTRS \<Longrightarrow> b_title (bands r ! b) = [] \<Longrightarrow> absent b ps"
    and "\<And>b s. b < BANDS + XVTRS \<Longrightarrow> stack_size b r \<le> s \<Longrightarrow> no_entry b s ps"
  obtains bs st where "band_restore_state ps gain q = Some (q\<lparr>bands := bs, stacks := st\<rparr>)"
    and "\<And>b. b < BANDS + XVTRS \<Longrightarrow> bs ! b = band_sane (protocol q) (next_band gain b r q)"
    and "\<And>b. b < BANDS + XVTRS \<Longrightarrow> st (bs_entry (b_stack (bs ! b))) = next_stack b r q"
    and "length bs = BANDS + XVTRS" and "\<And>n. n \<notin> stack_of q ` {0..<BANDS + XVTRS} \<Longrightarrow> st n = stacks q n"
proof -
  let ?B = "\<lambda>b. next_band gain b r q" and ?S = "\<lambda>b. next_stack b r q" and ?is = "[0..<BANDS + XVTRS]"
  let ?bs = "map (band_sane (protocol q)) (fold (\<lambda>b xs. xs[b := ?B b]) ?is (bands q))"
  let ?st = "fold (\<lambda>b st. st(stack_of q b := ?S b)) ?is (stacks q)"
  have l: "length (bands q) = 34" and inj: "inj_on (stack_of q) (set ?is)"
    using assms(2) by (simp_all add: fresh_def)
  have nth: "?bs ! b = band_sane (protocol q) (?B b)" if "b < 34" for b
    using that l fold_update_nth [where bs = ?is and B = ?B and xs = "bands q"] by simp
  show ?thesis
  proof (rule that)
    show "band_restore_state ps gain q = Some (q\<lparr>bands := ?bs, stacks := ?st\<rparr>)"
      using for_bands_restored [OF assms, of gain] by (simp add: band_restore_state_def)
    fix b :: nat assume b: "b < BANDS + XVTRS"
    then show "?bs ! b = band_sane (protocol q) (?B b)" by (intro nth) simp
    with b show "?st (bs_entry (b_stack (?bs ! b))) = next_stack b r q"
      using fold_fun_upd [OF inj, of b ?S "stacks q"] by simp
  next
    show "length ?bs = BANDS + XVTRS" using l by (simp add: fold_update_nth)
  next
    fix n assume "n \<notin> stack_of q ` {0..<BANDS + XVTRS}"
    then show "?st n = stacks q n" by (intro fold_fun_upd_other) simp
  qed
qed

text \<open>All of it: the VFOs, the memory slots, the bands and their stacks.\<close>

lemma session_restored:
  assumes "radio_storable ms r" and "foreign before" and "foreign after" and "fresh q r"
  obtains ms' q' where
    "radio_restore_state (Some (snd (radio_save_state before after ms r))) gain old (ms0, q) = Some (ms', q')"
    and "\<And>i. i < 2 \<Longrightarrow> vfo q' i = restored_vfo 0 (vfo r i)"
    and "region q' = region r" and "length ms' = NUM_MEMORIES" and "is_remote q' = is_remote q" and "transmitter q' = transmitter q"
    and "\<And>i. i < NUM_MEMORIES \<Longrightarrow> ms' ! i = (ms ! i)\<lparr>m_split := m_split (ms0 ! i), m_duplex := m_duplex (ms0 ! i)\<rparr>"
    and "\<And>b. b < BANDS + XVTRS \<Longrightarrow> bands q' ! b = band_sane (protocol q) (next_band gain b r q)"
    and "\<And>b. b < BANDS + XVTRS \<Longrightarrow> stacks q' (bs_entry (b_stack (bands q' ! b))) = next_stack b r q"
    and "length (bands q') = BANDS + XVTRS" and "\<And>n. n \<notin> stack_of q ` {0..<BANDS + XVTRS} \<Longrightarrow> stacks q' n = stacks q n"
proof -
  let ?ps = "reloaded before after ms r old"
  have h: "holds (all_bands r) ?ps" "holds (all_mems ms) ?ps" "holds (all_vfos r) ?ps"
    using reloaded_holds [OF assms(1-3), of old] by simp_all
  have v: "holds (vfo_props 0 (vfo r 0)) ?ps" "holds (vfo_props 1 (vfo r 1)) ?ps"
    using h(3) by (simp_all add: all_vfos_def)
  let ?q = "filter_restore_state ?ps (q\<lparr>region := region r\<rparr>)"
  have q: "fresh ?q r" using assms(4) by (simp add: fresh_filters)
  have n: "next_band gain b r ?q = next_band gain b r q" "next_stack b r ?q = next_stack b r q" "protocol ?q = protocol q"
      "stack_of ?q = stack_of q" "stacks ?q = stacks q" for b
    by (simp_all add: filter_restore_state_def next_band_def next_stack_def stack_of_def [abs_def] band_defaults_def)
  obtain bs st where b: "band_restore_state ?ps gain ?q = Some (?q\<lparr>bands := bs, stacks := st\<rparr>)"
    and bs: "\<And>b. b < BANDS + XVTRS \<Longrightarrow> bs ! b = band_sane (protocol q) (next_band gain b r q)"
    and st: "\<And>b. b < BANDS + XVTRS \<Longrightarrow> st (bs_entry (b_stack (bs ! b))) = next_stack b r q"
    and le: "length bs = BANDS + XVTRS" and un: "\<And>n. n \<notin> stack_of q ` {0..<BANDS + XVTRS} \<Longrightarrow> st n = stacks q n"
    by (rule bands_session [where gain = gain, OF assms(1) q h(1) reloaded_absent [OF assms(1-3)] reloaded_no_entry [OF assms(1-3)],
        unfolded n]) (assumption | rule that)+
  have st': "st (stack_of q b) = next_stack b r q" if "b < BANDS + XVTRS" for b
    using st [OF that] bs [OF that] by simp
  let ?m = "map (\<lambda>i. (ms ! i)\<lparr>m_split := m_split (ms0 ! i), m_duplex := m_duplex (ms0 ! i)\<rparr>) [0..<NUM_MEMORIES]"
  have m: "mem_restore_state ?ps ms0 = Some ?m" unfolding mem_restore_state_def
  proof (rule those_map_Some)
    fix i assume i: "i \<in> set [0..<NUM_MEMORIES]"
    have "holds (mem_props i (ms ! i)) ?ps" using h(2) i unfolding all_mems_def by (rule holds_part)
    then show "mem_restore ?ps i (mem_default (ms0 ! i)) = Some ((ms ! i)\<lparr>m_split := m_split (ms0 ! i), m_duplex := m_duplex (ms0 ! i)\<rparr>)"
      using assms(1) i by (subst mem_restored) (auto simp: radio_storable_def mem_default_def)
  qed
  let ?p = "?q\<lparr>bands := bs, stacks := st\<rparr>"
  have d: "v_bandstack (vfo_defaults ?p v) = 0" for v by (simp add: vfo_defaults_def Let_def)
  have s: "vfo_storable (vfo r 0)" "vfo_storable (vfo r 1)" using assms(1) by (simp_all add: radio_storable_def)
  have w: "vfo_restore_state ?ps ?p = Some (?p\<lparr>vfo := (vfo ?p)(0 := restored_vfo 0 (vfo r 0), 1 := restored_vfo 0 (vfo r 1))\<rparr>)"
    unfolding vfo_restore_state_def vfo_restored [OF v(1) s(1)] vfo_restored [OF v(2) s(2)] d by simp
  show ?thesis
  proof (rule that)
    show "radio_restore_state (Some (snd (radio_save_state before after ms r))) gain old (ms0, q)
        = Some (?m, ?p\<lparr>vfo := (vfo ?p)(0 := restored_vfo 0 (vfo r 0), 1 := restored_vfo 0 (vfo r 1))\<rparr>)"
      unfolding radio_restore_state_def reloaded_def [symmetric]
      by (simp add: reloaded_region [OF assms(1-3)] b m w Let_def)
  qed (use le un in \<open>auto simp: bs st' less_2_cases_iff filter_restore_state_def\<close>)
qed

end
