(* ===== verification/Memory_Slots.thy ===== *)
theory Memory_Slots
  imports Saved_State Vfo_Trips
begin

text \<open>
  The memory slots (\<^verbatim>\<open>src/src/store.c\<close>, modelled in theory \<open>Saved_State\<close>): recalling a slot
  brings back what was stored in it, whatever happened in between.
\<close>

text \<open>What a slot holds of a VFO.\<close>

definition kept :: "vfo \<Rightarrow> int \<times> bool \<times> int \<times> mode \<times> nat \<times> int \<times> nat" where
  "kept v = (dial v, v_ctun v, v_ctun_frequency v, v_mode v, v_filter v, v_deviation v, v_band v)"

lemma vfos_changed_more [simp]:
  "v_filter (vfo (vfo_vfos_changed r) j) = v_filter (vfo r j)"
  "v_deviation (vfo (vfo_vfos_changed r) j) = v_deviation (vfo r j)"
  by (simp_all add: vfo_vfos_changed_def Let_def new_offset_def)

lemma kept_vfos_changed [simp]: "kept (vfo (vfo_vfos_changed r) j) = kept (vfo r j)"
  by (simp add: kept_def)

lemma recall_vfo_vfo:
  "vfo (recall_vfo i b f cf ct fi dev r) j = (if j = i then (vfo r i)\<lparr>v_band := b,
     v_bandstack := bs_current (bandstack_get_bandstack b r), v_frequency := f, v_ctun_frequency := cf,
     v_ctun := ct, v_filter := fi, v_deviation := dev,
     v_lo := frequencyLO (band_get_band b r) + errorLO (band_get_band b r)\<rparr> else vfo r j)"
  by (simp add: recall_vfo_def Let_def)

lemma static_recall [frame_simps]:
  "static (recall_vfo i b f cf ct fi dev r) = static r" "static (recall_mode c i md r) = static r"
  "static (recall_ctcss m r) = static r"
  by (simp_all add: recall_vfo_def recall_mode_def recall_ctcss_def Let_def frame_simps)

lemma static_recall_both [frame_simps]:
  "static (recall_main i m r) = static r" "static (recall_alt m r) = static r"
  by (simp_all add: recall_main_def recall_alt_def frame_simps)

lemma vfo_set_split [simp]: "vfo (radio_set_split v r) = vfo r"
  by (simp add: radio_set_split_def Let_def)

lemma static_set_split: "transmitter r \<noteq> None \<Longrightarrow> static (radio_set_split v r) = static (r\<lparr>split := v\<rparr>)"
  by (simp add: radio_set_split_def Let_def frame_simps)

lemma split_set_split: "transmitter r \<noteq> None \<Longrightarrow> split (radio_set_split v r) = v"
  using staticD(13) [OF static_set_split, of r v] by simp

lemma split_vfos_changed [simp]: "split (vfo_vfos_changed r) = split r" "sat_mode (vfo_vfos_changed r) = sat_mode r"
  using staticD(13,15) [OF static_vfos_changed] by simp_all

lemma upd_tx_other [simp]: "vfo (upd_tx f r) = vfo r" "split (upd_tx f r) = split r" "sat_mode (upd_tx f r) = sat_mode r"
  "split (emit e r) = split r" "sat_mode (emit e r) = sat_mode r"
  by (simp_all add: upd_tx_def emit_def)

lemma store_slot:
  assumes "i < length ms"
  shows "length (fst (store_memory_slot i (ms, r))) = length ms"
    and "m_sat_mode (fst (store_memory_slot i (ms, r)) ! i) = sat_mode r"
    and "m_split (fst (store_memory_slot i (ms, r)) ! i) = split r"
    and "m_duplex (fst (store_memory_slot i (ms, r)) ! i) = duplex r"
  using assms
  by (auto simp: store_memory_slot_def Let_def store_vfo_def store_alt_def split: option.split)

text \<open>The state in which the slot is recalled, before the transmitter is told of it.\<close>

definition slot_vfo :: "mem \<Rightarrow> int \<times> bool \<times> int \<times> mode \<times> nat \<times> int \<times> nat" where
  "slot_vfo m = (if m_ctun m then m_ctun_frequency m else m_frequency m, m_ctun m, m_ctun_frequency m, m_mode m,
     m_filter m, m_deviation m, m_bd m)"

definition slot_alt :: "mem \<Rightarrow> int \<times> bool \<times> int \<times> mode \<times> nat \<times> int \<times> nat" where
  "slot_alt m = (if m_alt_ctun m then m_alt_ctun_frequency m else m_alt_frequency m, m_alt_ctun m,
     m_alt_ctun_frequency m, m_alt_mode m, m_alt_filter m, m_alt_deviation m, m_alt_bd m)"

lemma kept_recall_vfo:
  "kept (vfo (recall_vfo i b f cf ct fi dev r) j) = (if j = i
     then (if ct then cf else f, ct, cf, v_mode (vfo r i), fi, dev, b) else kept (vfo r j))"
  by (simp add: recall_vfo_vfo kept_def dial_def)

lemma vfo_recall_mode:
  "vfo (recall_mode c i md r) j = vfo r j" if "j \<noteq> i"
  using that by (simp add: recall_mode_def Let_def)

lemma mode_recall_mode: "v_mode (vfo (recall_mode c i md r) i) = md"
  by (simp add: recall_mode_def Let_def profile_vfo_def)

lemma kept_recall_main:
  "kept (vfo (recall_main i m r) j) = (if j = i then slot_vfo m else kept (vfo r j))"
  by (simp add: recall_main_def kept_recall_vfo slot_vfo_def mode_recall_mode vfo_recall_mode)

lemma kept_recall_alt:
  "kept (vfo (recall_alt m r) j) = (if j = 1 then slot_alt m else kept (vfo r j))"
  by (simp add: recall_alt_def kept_recall_vfo slot_alt_def mode_recall_mode vfo_recall_mode)

lemma vfo_recall_ctcss [simp]: "vfo (recall_ctcss m r) = vfo r"
  by (simp add: recall_ctcss_def)

lemma kept_recall_both:
  "kept (vfo (recall_both m r) j) = (if j = 0 then slot_vfo m else if j = 1 then slot_alt m else kept (vfo r j))"
  by (simp add: recall_both_def Let_def kept_recall_main kept_recall_alt)

lemma static_recall_pair: "transmitter r \<noteq> None \<Longrightarrow> static (recall_both m r) = static (r\<lparr>split := m_split m\<rparr>)"
proof -
  let ?q = "recall_alt m (recall_main 0 m r)"
  assume t: "transmitter r \<noteq> None"
  have q: "static ?q = static r" by (simp add: frame_simps)
  then have "transmitter ?q \<noteq> None" using t staticD(24) [OF q] by simp
  then have "static (radio_set_split (m_split m) ?q) = static (?q\<lparr>split := m_split m\<rparr>)" by (rule static_set_split)
  also have "\<dots> = static (static ?q\<lparr>split := m_split m\<rparr>)" by (simp add: static_def option.map_comp comp_def)
  also have "\<dots> = static (r\<lparr>split := m_split m\<rparr>)" unfolding q by (simp add: static_def option.map_comp comp_def)
  finally show ?thesis by (simp add: recall_both_def Let_def frame_simps)
qed

lemma sat_set_split: "sat_mode (radio_set_split v r) = sat_mode r"
  using staticD(15) [OF static_set_split, of r v] by (cases "transmitter r = None") (auto simp: radio_set_split_def)

lemma sat_recall [simp]:
  "sat_mode (recall_main i m r) = sat_mode r" "sat_mode (recall_alt m r) = sat_mode r" "sat_mode (recall_ctcss m r) = sat_mode r"
  "split (recall_ctcss m r) = split r"
  by (rule staticD; simp add: frame_simps)+

lemma recall_split:
  assumes "\<not> is_remote q" and "transmitter q \<noteq> None" and "m_sat_mode (ms ! i) \<noteq> SAT_NONE"
  shows "split (recall_memory_slot i ms q) = m_split (ms ! i)"
  using assms staticD(13) [OF static_recall_pair, of "q\<lparr>sat_mode := m_sat_mode (ms ! i)\<rparr>" "ms ! i"]
  by (simp add: recall_memory_slot_def Let_def)


end
