(* ===== verification/Session_Facts.thy ===== *)
theory Session_Facts
  imports Saved_Trip Memory_Slots
begin

text \<open>
  The settings across a restart: what the next session has of the last one, and three things that
  are lost on the way.
\<close>

text \<open>The stack of the 60m band, which depends on the region.\<close>

fun stack60 :: "region \<Rightarrow> bandstack" where
  "stack60 REGION_OTHER = \<lparr>bs_entries = 5, bs_current = 0, bs_entry = Stack60_OTHER\<rparr>"
| "stack60 REGION_UK = \<lparr>bs_entries = 11, bs_current = 0, bs_entry = Stack60_UK\<rparr>"
| "stack60 REGION_WRC15 = \<lparr>bs_entries = 1, bs_current = 0, bs_entry = Stack60_WRC15\<rparr>"

lemma change_region:
  "bands (radio_change_region reg r) = (bands r)[band60 := (bands r ! band60)\<lparr>b_stack := stack60 reg\<rparr>]"
  "stacks (radio_change_region reg r) = stacks r" "vfo (radio_change_region reg r) = vfo r"
  "region (radio_change_region reg r) = reg"
proof -
  have u: "bands (upd_bandstack b f p) = (bands p)[b := (bands p ! b)\<lparr>b_stack := f (b_stack (bands p ! b))\<rparr>]" for b f p
    by (simp add: upd_bandstack_def upd_band_def)
  show "bands (radio_change_region reg r) = (bands r)[band60 := (bands r ! band60)\<lparr>b_stack := stack60 reg\<rparr>]"
    by (cases reg; cases "b_stack (bands r ! band60)"; simp add: radio_change_region_def Let_def u)
  show "stacks (radio_change_region reg r) = stacks r" "vfo (radio_change_region reg r) = vfo r"
    by (cases reg; simp add: radio_change_region_def Let_def)+
  show "region (radio_change_region reg r) = reg"
    by (cases reg; simp add: radio_change_region_def upd_bandstack_def upd_band_def Let_def)
qed

text \<open>The tables of a program that has just been started: the 60m band has the stack of region OTHER.\<close>

definition boot60 :: "radio_state \<Rightarrow> bool" where
  "boot60 q \<longleftrightarrow> stack_size band60 q = 5 \<and> stack_of q band60 = Stack60_OTHER
     \<and> (\<forall>b < BANDS + XVTRS. stack_of q b \<notin> {Stack60_UK, Stack60_WRC15})"


text \<open>
  C26. The settings are saved in the wrong order: the band stacks are written before VFO A is stored
  in them. When the file is written, the band stack entry of VFO A in memory is the VFO; in the
  next session it is what the entry was before.
\<close>

theorem band_stack_saved_stale:
  assumes "radio_storable ms r" and "foreign before" and "foreign after" and "started q r"
    and "bands_ok r" and "vfo_ok 0 r" and "b_title (bands r ! v_band (vfo r 0)) \<noteq> []"
    and "v_bandstack (vfo r 0) < length (stacks r (stack_of r (v_band (vfo r 0))))"
  defines "b \<equiv> v_band (vfo r 0)" and "k \<equiv> v_bandstack (vfo r 0)"
  shows "\<exists>ms' q'. radio_restore_state (Some (snd (radio_save_state before after ms r))) gain old (ms0, q) = Some (ms', q')
    \<and> stack_entry b k (fst (radio_save_state before after ms r)) = saved_entry r
    \<and> stack_entry b k q' = stack_entry b k r"
proof (rule session_restored [OF assms(1-3) started_fresh [OF assms(4,1)], of gain old ms0])
  fix ms' q'
  assume get: "radio_restore_state (Some (snd (radio_save_state before after ms r))) gain old (ms0, q) = Some (ms', q')"
    and s: "\<And>b. b < BANDS + XVTRS \<Longrightarrow> stacks q' (bs_entry (b_stack (bands q' ! b))) = next_stack b r q"
  have b: "b < 34" and k: "k < bs_entries (b_stack (bands r ! b))"
    using assms(6) by (simp_all add: vfo_ok_def b_def k_def bandstack_get_bandstack_def)
  have "stack_entry b k q' = stack_entry b k r"
    using s [of b] b k assms(7) started_size [OF assms(4), of b]
    by (simp add: stack_entry_def [of _ _ q'] bandstack_get_bandstack_def next_stack_def restored_stack_def Let_def nth_append b_def)
  moreover have "stack_entry b k (fst (radio_save_state before after ms r)) = saved_entry r"
    using save_bandstack [OF assms(5)] b assms(8)
    by (simp add: radio_save_eq stack_entry_def b_def k_def stack_of_def bandstack_get_bandstack_def Let_def)
  ultimately show ?thesis using get by blast
qed

text \<open>
  A memory slot stored in a SAT mode with split on is recalled with split on in the same
  session, but with split off after a restart: neither split nor duplex is in the settings file.
\<close>

lemma memory_split_lost:
  fixes r q :: radio_state and ms :: "mem list" and i :: nat
  defines "ms' \<equiv> fst (store_memory_slot i (ms, r))"
  assumes "radio_storable ms' r" and "foreign before" and "foreign after" and "started q r"
    and "i < NUM_MEMORIES" and "length ms = NUM_MEMORIES" and "sat_mode r \<noteq> SAT_NONE" and "split r"
    and "\<not> is_remote q" and "transmitter q \<noteq> None" and "\<not> m_split (ms0 ! i)"
  shows "split (recall_memory_slot i ms' q)
    \<and> (\<exists>ms'' q'. radio_restore_state (Some (snd (radio_save_state before after ms' r))) gain old (ms0, q) = Some (ms'', q')
         \<and> \<not> split (recall_memory_slot i ms'' q'))"
proof (rule session_restored [OF assms(2-4) started_fresh [OF assms(5,2)], of gain old ms0])
  fix ms'' q'
  assume get: "radio_restore_state (Some (snd (radio_save_state before after ms' r))) gain old (ms0, q) = Some (ms'', q')"
    and m: "\<And>i. i < NUM_MEMORIES \<Longrightarrow> ms'' ! i = (ms' ! i)\<lparr>m_split := m_split (ms0 ! i), m_duplex := m_duplex (ms0 ! i)\<rparr>"
    and q: "is_remote q' = is_remote q" "transmitter q' = transmitter q"
  have s: "m_sat_mode (ms' ! i) = sat_mode r" "m_split (ms' ! i)"
    using assms(6,7,9) by (simp_all add: ms'_def store_slot)
  have "split (recall_memory_slot i ms' q)"
    by (subst recall_split) (use s assms(8,10,11) in auto)
  moreover have "\<not> split (recall_memory_slot i ms'' q')"
    by (subst recall_split) (use s q m [OF assms(6)] assms(8,10,11,12) in auto)
  ultimately show ?thesis using get by blast
qed

end
