(* ===== verification/Session_Examples.thy ===== *)
theory Session_Examples
  imports Session_Facts Sample_Radio Filters
begin

text \<open>The settings file of the radio of theory \<open>Sample_Radio\<close>, with ten memory slots.\<close>

definition sample_mem :: mem where
  "sample_mem = \<lparr>m_sat_mode = SAT_NONE, m_split = False, m_duplex = False, m_frequency = 28010000,
     m_ctun_frequency = 28010000, m_ctun = False, m_mode = modeCWU, m_filter = 5, m_deviation = 2500,
     m_bd = band10, m_alt_frequency = 28010000, m_alt_ctun_frequency = 28010000, m_alt_ctun = False,
     m_alt_mode = modeCWU, m_alt_filter = 5, m_alt_deviation = 2500, m_alt_bd = band10,
     m_ctcss_enabled = False, m_ctcss = 0\<rparr>"

definition sample_mems :: "mem list" where
  "sample_mems = replicate NUM_MEMORIES sample_mem"

definition storable_fields :: "band \<Rightarrow> bool" where
  "storable_fields bd \<longleftrightarrow> (let k = b_stack bd in
     length (b_title bd) < 16 \<and> newline \<notin> set (b_title bd) \<and> bs_entries k \<le> 100 \<and> bs_current k < 1000
     \<and> list_all long_long [frequencyLO bd, errorLO bd, gaincalib bd, frequencyMin bd, frequencyMax bd, b_preamp bd,
          b_dither bd, b_panhigh bd, b_panlow bd, b_panstep bd, b_attenuation bd, RxAntenna bd, TxAntenna bd,
          b_alexAttenuation bd]
     \<and> list_all (\<lambda>x. \<bar>x\<bar> < 10 ^ 100) [b_AGCgain bd, b_RFgain bd, pa_calibration bd])"

lemma bands_storable:
  "list_all (\<lambda>bd. storable_fields bd \<and> list_all entry_storable (init_stacks (bs_entry (b_stack bd)))
     \<and> bs_entries (b_stack bd) \<le> length (init_stacks (bs_entry (b_stack bd)))) init_bands"
  by (simp add: init_bands_def init_stacks_def stack_tables bse_def band_row_def storable_fields_def entry_storable_def
      long_long_def)

lemma band_storable_init:
  assumes "b < 34" and "bands r = init_bands" and "stacks r = init_stacks"
  shows "band_storable b r"
proof -
  have f: "storable_fields (init_bands ! b)"
    and e: "list_all entry_storable (init_stacks (bs_entry (b_stack (init_bands ! b))))"
    and l: "bs_entries (b_stack (init_bands ! b)) \<le> length (init_stacks (bs_entry (b_stack (init_bands ! b))))"
    using bands_storable assms(1) by (simp_all add: list_all_length)
  have "entry_storable (stack_entry b s r)" if "s < bs_entries (b_stack (init_bands ! b))" for s
    using e l that assms(2,3) by (simp add: stack_entry_def bandstack_get_bandstack_def list_all_length)
  then show ?thesis using f assms(2) by (simp add: band_storable_def storable_fields_def Let_def)
qed

lemma filters_storable:
  "f \<in> set (filters_table m) \<Longrightarrow> plain (f_title f) \<and> long_long (f_low f) \<and> long_long (f_high f)"
proof -
  have "list_all (\<lambda>f. plain (f_title f) \<and> long_long (f_low f) \<and> long_long (f_high f)) (filters_table m)" for m
    by (cases m) (simp_all add: filter_tables plain_def long_long_def)
  then show "f \<in> set (filters_table m) \<Longrightarrow> plain (f_title f) \<and> long_long (f_low f) \<and> long_long (f_high f)"
    by (simp add: list_all_iff)
qed

lemma sample_storable: "radio_storable sample_mems radio0"
  using band_storable_init [of _ radio0] filters_storable
  by (simp add: radio_storable_def sample_mems_def)
    (simp add: sample_mem_def sample_defs vfo_storable_def mem_storable_def long_long_def)

lemma stacks_init_inj:
  assumes "bands r = init_bands"
  shows "inj_on (stack_of r) {0..<34}"
proof -
  have "stack_of r b = map (\<lambda>bd. bs_entry (b_stack bd)) init_bands ! b" if "b \<in> {0..<34}" for b
    using that assms by (simp add: stack_of_def)
  moreover have "distinct (map (\<lambda>bd. bs_entry (b_stack bd)) init_bands)"
    by (simp add: init_bands_def band_row_def)
  then have "inj_on (nth (map (\<lambda>bd. bs_entry (b_stack bd)) init_bands)) {0..<34}"
    by (rule inj_on_nth) simp
  ultimately show ?thesis by (auto simp: inj_on_def)
qed

lemma started_init:
  assumes "bands q = init_bands" and "stacks q = init_stacks" and "bands r = init_bands"
    and "have_rx_att q = have_rx_att r" and "have_rx_gain q = have_rx_gain r"
  shows "started q r"
  using assms stacks_init_inj [of q] bands_storable by (simp add: started_def list_all_length stack_of_def)

lemma sample_foreign: "foreign [(''split'', ''1'')]" "foreign []"
  by (simp_all add: foreign_def storable_def own_def section_of_def)

theorem settings_round_trip_example:
  "getProperty ''a'' (loadProperties (Some (fst (saveProperties [(''a'', ''b=c'')]))) []) = Some ''b=c''"
  using settings_round_trip [of "[(''a'', ''b=c'')]" "''a''" "[]"]
  by (simp add: well_formed_def storable_def)

text \<open>
  The next session of a radio in region UK whose VFO A is on 20m: the VFO is back, the 60m band has
  its eleven entries, but the compiled-in ones.
\<close>

definition radio_uk :: radio_state where
  "radio_uk = radio_change_region REGION_UK radio0"



text \<open>VFO A has moved on from the third entry of the 20m band.\<close>

definition radio20 :: radio_state where
  "radio20 = upd_vfo 0 (\<lambda>v. v\<lparr>v_bandstack := 2, v_frequency := 14074000\<rparr>) radio0"

theorem band_stack_saved_stale_example:
  "\<exists>ms' q'. radio_restore_state (Some (snd (radio_save_state [] [] sample_mems radio20))) 0 [] (sample_mems, radio0) = Some (ms', q')
    \<and> bse_frequency (stack_entry band20 2 (fst (radio_save_state [] [] sample_mems radio20))) = 14074000
    \<and> bse_frequency (stack_entry band20 2 q') = 14230000"
proof -
  have r: "bands radio20 = init_bands" "stacks radio20 = init_stacks" "have_rx_att radio20 = have_rx_att radio0"
    "have_rx_gain radio20 = have_rx_gain radio0" "filters radio20 = filters_table"
    "vfo radio20 0 = sample_vfo\<lparr>v_bandstack := 2, v_frequency := 14074000\<rparr>" "vfo radio20 (Suc 0) = sample_vfo"
    by (simp_all add: radio20_def upd_vfo_def)
  have st: "radio_storable sample_mems radio20"
    using band_storable_init [OF _ r(1,2)] filters_storable
    by (simp add: radio_storable_def sample_mems_def r)
      (simp add: sample_mem_def sample_defs vfo_storable_def mem_storable_def long_long_def)
  have q: "started radio0 radio20" by (rule started_init) (simp_all add: r)
  have e: "stack_entry 7 2 radio20 = bandstack_entries20 ! 2"
    by (simp add: stack_entry_def bandstack_get_bandstack_def r init_bands_def init_stacks_def band_row_def)
  have "\<exists>ms' q'. radio_restore_state (Some (snd (radio_save_state [] [] sample_mems radio20))) 0 [] (sample_mems, radio0) = Some (ms', q')
      \<and> stack_entry (v_band (vfo radio20 0)) (v_bandstack (vfo radio20 0)) (fst (radio_save_state [] [] sample_mems radio20)) = saved_entry radio20
      \<and> stack_entry (v_band (vfo radio20 0)) (v_bandstack (vfo radio20 0)) q' = stack_entry (v_band (vfo radio20 0)) (v_bandstack (vfo radio20 0)) radio20"
    by (rule band_stack_saved_stale [OF st sample_foreign(2) sample_foreign(2) q bands_ok_init [OF r(1,2)]])
      (simp_all add: vfo_ok_def bandstack_get_bandstack_def stack_of_def r sample_defs init_bands_def init_stacks_def
        band_row_def stack_tables)
  then show ?thesis
    by (auto simp: r e sample_defs stack_tables bse_def)
qed

text \<open>A split QSO over a satellite, stored in slot 3.\<close>

definition radio_sat :: radio_state where
  "radio_sat = radio0\<lparr>sat_mode := SAT_MODE, split := True\<rparr>"

lemma memory_split_lost_example:
  "\<exists>ms'' q'. radio_restore_state (Some (snd (radio_save_state [] [] (fst (store_memory_slot 3 (sample_mems, radio_sat))) radio_sat)))
     0 [] (sample_mems, radio0) = Some (ms'', q') \<and> \<not> split (recall_memory_slot 3 ms'' q')"
proof -
  have r: "bands radio_sat = init_bands" "stacks radio_sat = init_stacks" "have_rx_att radio_sat = have_rx_att radio0"
    "have_rx_gain radio_sat = have_rx_gain radio0" "filters radio_sat = filters_table"
    "vfo radio_sat i = sample_vfo" for i
    by (simp_all add: radio_sat_def)
  let ?ms = "fst (store_memory_slot 3 (sample_mems, radio_sat))"
  have m: "mem_storable (?ms ! i)" if "i < 10" for i
    using that
    by (cases "i = 3")
      (simp_all add: store_memory_slot_def Let_def radio_sat_def sample_mems_def store_vfo_def store_alt_def
        sample_mem_def sample_defs mem_storable_def long_long_def)
  have st: "radio_storable ?ms radio_sat"
    using band_storable_init [OF _ r(1,2)] filters_storable m
    by (simp add: radio_storable_def r) (simp add: sample_defs vfo_storable_def long_long_def)
  have q: "started radio0 radio_sat" by (rule started_init) (simp_all add: r)
  show ?thesis
    using memory_split_lost [where q = radio0 and ?ms0.0 = sample_mems and gain = 0 and old = "[]",
      OF st sample_foreign(2) sample_foreign(2) q]
    by (simp add: sample_mems_def radio_sat_def) (simp add: sample_mem_def)
qed

end
