(* ===== verification/CW_Text.thy ===== *)
theory CW_Text
  imports Radio_State Ring_Buffers
begin

text \<open>
  CW text from CAT, TCI and the text buttons (\<^verbatim>\<open>src/src/rigctl.c\<close>): a ring of characters,
  and the thread that turns one character after the other into key events and waits while they
  are sent. Every pass of the thread's loop is one step; the events it hands to
  \<open>tx_queue_cw_event\<close> (theory \<open>CW\<close>) and the times it sleeps are a trace.

  Other threads set \<open>cw_key_hit\<close> at any time and only this thread clears it: the state holds after
  how many more tests of the flag it is found set (\<open>None\<close>: never).
\<close>

subsection \<open>The ring of characters\<close>

text \<open>
  A \<open>char\<close> is signed, so that those from 128 on are less than the blank; on machines where it is
  not they are queued and sent as an empty pattern.
\<close>

abbreviation (input) "CW_BUF_SIZE \<equiv> 512 :: nat"

definition cw_buf_next :: "nat \<Rightarrow> nat" where
  "cw_buf_next i = (i + 1) AND 511"

definition rigctl_queue_cw_char :: "char \<Rightarrow> char ring \<Rightarrow> char ring" where
  "rigctl_queue_cw_char c r = (
     if (of_char c :: nat) < 32 \<or> 128 \<le> (of_char c :: nat) then r
     else case ring_put cw_buf_next c r of Some r \<Rightarrow> r | None \<Rightarrow> r)"

definition rigctl_queue_cw_string :: "string \<Rightarrow> char ring \<Rightarrow> char ring" where
  "rigctl_queue_cw_string s = fold rigctl_queue_cw_char s"

text \<open>The text ends with its NUL character, which is not printable and so not queued.\<close>

definition rigctl_queue_cw_text :: "string \<Rightarrow> string \<Rightarrow> char ring \<Rightarrow> char ring" where
  "rigctl_queue_cw_text call text = fold (\<lambda>c. if c = CHR ''#'' then fold rigctl_queue_cw_char call
     else rigctl_queue_cw_char c) text"

text \<open>
  The CAT command \<open>KY\<close>: the answer to the query, and the text after the prefix \<open>KY\<close> and one
  more character, up to the semicolon and without trailing blanks, but at least one character.
\<close>

definition ky_reply :: "char ring \<Rightarrow> string" where
  "ky_reply r = (if (int (inptr r) - int (outptr r)) AND 511 < int CW_BUF_SIZE - 24 then ''KY0;'' else ''KY1;'')"

definition ky_text :: "string \<Rightarrow> string" where
  "ky_text arg = (let s = takeWhile (\<lambda>c. c \<noteq> CHR '';'') arg; t = rev (dropWhile (\<lambda>c. c = CHR '' '') (rev s))
     in if t = [] then take 1 arg else t)"

definition ky_set :: "string \<Rightarrow> char ring \<Rightarrow> char ring" where
  "ky_set arg = fold rigctl_queue_cw_char (ky_text arg)"

subsection \<open>Morse code\<close>

definition morse_table :: "(string \<times> string) list" where
  "morse_table = [
     (''aA'', ''.-''), (''bB'', ''-...''), (''cC'', ''-.-.''), (''dD'', ''-..''), (''eE'', ''.''), (''fF'', ''..-.''),
     (''gG'', ''--.''), (''hH'', ''....''), (''iI'', ''..''), (''jJ'', ''.---''), (''kK'', ''-.-''), (''lL'', ''.-..''),
     (''mM'', ''--''), (''nN'', ''-.''), (''oO'', ''---''), (''pP'', ''.--.''), (''qQ'', ''--.-''), (''rR'', ''.-.''),
     (''sS'', ''...''), (''tT'', ''-''), (''uU'', ''..-''), (''vV'', ''...-''), (''wW'', ''.--''), (''xX'', ''-..-''),
     (''yY'', ''-.--''), (''zZ'', ''--..''),
     (''0'', ''-----''), (''1'', ''.----''), (''2'', ''..---''), (''3'', ''...--''), (''4'', ''....-''),
     (''5'', ''.....''), (''6'', ''-....''), (''7'', ''--...''), (''8'', ''---..''), (''9'', ''----.''),
     (''.'', ''.-.-.-''), ('','', ''--..--''), ('':'', ''---..''), (''?'', ''..--..''), ([CHR 0x27], ''.----.''),
     (''-'', ''-....-''), (''/'', ''-..-.''), (''('', ''-.--.''), ('')'', ''-.--.-''), ([CHR 0x22], ''.-..-.''),
     (''='', ''-...-''), (''+'', ''.-.-.''), (''@'', ''.--.-.''), (''&'', ''.-...'')]"

definition morse :: "char \<Rightarrow> string" where
  "morse c = (case find (\<lambda>(cs, p). c \<in> set cs) morse_table of Some (_, p) \<Rightarrow> p | None \<Rightarrow> [])"

subsection \<open>Sending\<close>

datatype cat_call = Cw_event bool int | Sleep_samples int | Transmit_packet
  | Set_mox bool nat  \<comment> \<open>after so many milliseconds\<close>

record cat_cw =
  cw_buf :: "char ring"
  cw_key_hit_in :: "nat option"
  join_cw_characters :: bool
  buffered_speed :: int
  bracket_command :: bool
  dotsamples :: int
  dashsamples :: int
  CAT_cw_is_active :: bool
  cat_calls :: "cat_call list"

definition call :: "cat_call \<Rightarrow> cat_cw \<Rightarrow> cat_cw" where
  "call e s = s\<lparr>cat_calls := cat_calls s @ [e]\<rparr>"

definition key_hit :: "cat_cw \<Rightarrow> bool" where
  "key_hit s \<longleftrightarrow> cw_key_hit_in s = Some 0"

text \<open>The state after a test of \<open>cw_key_hit\<close>.\<close>

definition tested :: "cat_cw \<Rightarrow> cat_cw" where
  "tested s = s\<lparr>cw_key_hit_in := map_option (\<lambda>n. n - 1) (cw_key_hit_in s)\<rparr>"

definition send_dash :: "cat_cw \<Rightarrow> cat_cw" where
  "send_dash s = (if key_hit s then tested s else
     call (Sleep_samples (dashsamples s + dotsamples s)) (call (Cw_event False (dotsamples s))
       (call (Cw_event False (dashsamples s)) (call (Cw_event True 0) (tested s)))))"

definition send_dot :: "cat_cw \<Rightarrow> cat_cw" where
  "send_dot s = (if key_hit s then tested s else
     call (Sleep_samples (2 * dotsamples s)) (call (Cw_event False (dotsamples s))
       (call (Cw_event False (dotsamples s)) (call (Cw_event True 0) (tested s)))))"

definition send_space :: "int \<Rightarrow> cat_cw \<Rightarrow> cat_cw" where
  "send_space len s = (if key_hit s then tested s else
     call (Sleep_samples (len * dotsamples s)) (call (Cw_event False (len * dotsamples s)) (tested s)))"

definition send_element :: "char \<Rightarrow> cat_cw \<Rightarrow> cat_cw" where
  "send_element p s = (if p = CHR ''-'' then send_dash s else if p = CHR ''.'' then send_dot s else s)"

definition rigctl_send_cw_char :: "char \<Rightarrow> cat_cw \<Rightarrow> cat_cw" where
  "rigctl_send_cw_char c s = (
     let s = fold send_element (morse c) s
     in if c = CHR '' '' then send_space 6 s
        else if \<not> join_cw_characters s then send_space 2 s else s)"

subsection \<open>The thread\<close>

text \<open>What the thread finds in the rest of the program during a pass.\<close>

record cw_env =
  env_mode :: mode          \<comment> \<open>\<open>vfo_get_tx_mode()\<close>\<close>
  env_mox :: bool
  env_mox_comes :: bool     \<comment> \<open>MOX is set within 200 milliseconds\<close>
  env_more :: string        \<comment> \<open>what is queued while the thread waits for more characters\<close>
  env_flow :: "string list" \<comment> \<open>what is queued in the half seconds after an abort, one after the other\<close>
  env_ptt :: bool           \<comment> \<open>\<open>hpsdr_ptt\<close>\<close>
  env_remote :: bool
  env_speed :: int          \<comment> \<open>\<open>cw_keyer_speed\<close>\<close>
  env_weight :: int         \<comment> \<open>\<open>cw_keyer_weight\<close>\<close>

abbreviation (input) "no_char \<equiv> CHR 0x00"

text \<open>The commands in brackets: change of speed and joined characters.\<close>

definition cw_bracket :: "int \<Rightarrow> char \<Rightarrow> cat_cw \<Rightarrow> char \<times> cat_cw" where
  "cw_bracket speed c s = (
     let (c, s) = (if bracket_command s then
           let (c, s) = (if c = CHR ''+'' then (no_char, s\<lparr>buffered_speed := 5 * speed div 4\<rparr>)
                         else if c = CHR ''-'' then (no_char, s\<lparr>buffered_speed := 3 * speed div 4\<rparr>)
                         else if c = CHR ''.'' then (no_char, s\<lparr>join_cw_characters := True\<rparr>)
                         else (c, s))
           in (c, s\<lparr>bracket_command := False\<rparr>)
         else (c, s));
         (c, s) = (if c = CHR ''['' then (no_char, s\<lparr>bracket_command := True\<rparr>) else (c, s))
     in if c = CHR '']'' then (no_char, s\<lparr>buffered_speed := 0, join_cw_characters := False\<rparr>) else (c, s))"

definition cw_lengths :: "cw_env \<Rightarrow> cat_cw \<Rightarrow> cat_cw" where
  "cw_lengths e s = (let v = (if 0 < buffered_speed s then buffered_speed s else env_speed e)
     in s\<lparr>dotsamples := 57600 div v, dashsamples := 3456 * env_weight e div v\<rparr>)"

definition set_cat_cw :: "cw_env \<Rightarrow> bool \<Rightarrow> cat_cw \<Rightarrow> cat_cw" where
  "set_cat_cw e on s = (let s = s\<lparr>CAT_cw_is_active := on\<rparr> in if env_remote e then s else call Transmit_packet s)"

definition cw_drain :: "cat_cw \<Rightarrow> cat_cw" where
  "cw_drain s = s\<lparr>cw_buf := (cw_buf s)\<lparr>outptr := inptr (cw_buf s)\<rparr>\<rparr>"

text \<open>The ring is drained until nothing has been queued for half a second.\<close>

fun cw_drain_loop :: "string list \<Rightarrow> char ring \<Rightarrow> char ring" where
  "cw_drain_loop [] r = r\<lparr>outptr := inptr r\<rparr>"
| "cw_drain_loop (t # ts) r = (let r = rigctl_queue_cw_string t (r\<lparr>outptr := inptr r\<rparr>)
     in if outptr r \<noteq> inptr r then cw_drain_loop ts r else r)"

text \<open>The character is on its way: what is done after it, and instead of it after a key hit.\<close>

definition cw_finish :: "cw_env \<Rightarrow> cat_cw \<Rightarrow> cat_cw" where
  "cw_finish e s = (
     if inptr (cw_buf s) \<noteq> outptr (cw_buf s) then s else
     let s = s\<lparr>cw_buf := rigctl_queue_cw_string (env_more e) (cw_buf s)\<rparr>
     in if inptr (cw_buf s) \<noteq> outptr (cw_buf s) then s else
     let s = set_cat_cw e False s; hit = key_hit s; s = tested s
     in if \<not> hit \<and> \<not> env_ptt e then (call (Set_mox False 50) s)\<lparr>buffered_speed := 0\<rparr> else s)"

definition cw_abort :: "cw_env \<Rightarrow> cat_cw \<Rightarrow> cat_cw" where
  "cw_abort e s = (let s = set_cat_cw e False (s\<lparr>buffered_speed := 0\<rparr>)
     in s\<lparr>cw_buf := cw_drain_loop (env_flow e) (cw_buf s)\<rparr>)"

definition cw_transmit :: "cw_env \<Rightarrow> char \<Rightarrow> cat_cw \<Rightarrow> cat_cw" where
  "cw_transmit e c s = (
     let hit = key_hit s; s = tested s
     in if hit then cw_abort e s
        else cw_finish e (if c \<noteq> no_char then rigctl_send_cw_char c s else s))"

definition rigctl_cw_pass :: "cw_env \<Rightarrow> cat_cw \<Rightarrow> cat_cw" where
  "rigctl_cw_pass e s = (case ring_get cw_buf_next (cw_buf s) of
     None \<Rightarrow> if key_hit s then s\<lparr>cw_key_hit_in := None\<rparr> else s
   | Some (c, r) \<Rightarrow>
       if \<not> is_cw (env_mode e) then cw_drain s else
       let (c, s) = cw_bracket (env_speed e) c (s\<lparr>cw_buf := r\<rparr>);
           s = set_cat_cw e True (cw_lengths e s)
       in if env_mox e then cw_transmit e c s
          else let s = call (Set_mox True 0) s
               in if env_mox_comes e then cw_transmit e c s else set_cat_cw e False s)"

text \<open>
  \<open>rigctl_purge_cw\<close>, called from the GTK thread, first reads \<open>cw_buf_out\<close> and then stores it in
  \<open>cw_buf_in\<close>; the thread can take characters in between.
\<close>

definition purge_read :: "char ring \<Rightarrow> nat" where
  "purge_read r = outptr r"

definition purge_write :: "nat \<Rightarrow> char ring \<Rightarrow> char ring" where
  "purge_write i r = r\<lparr>inptr := i\<rparr>"

end
