(* ===== verification/CW_Text_Facts.thy ===== *)
theory CW_Text_Facts
  imports CW_Text
begin

text \<open>
  How CW text is keyed: the lengths of elements and pauses, which characters share a code, what
  the ring of characters does under its three users, and when the thread ends a transmission.
\<close>

subsection \<open>The ring\<close>

interpretation cw_text: ring_index CW_BUF_SIZE cw_buf_next
  using mask_next [of 511 9] by unfold_locales (simp_all add: cw_buf_next_def)

definition printable :: "char \<Rightarrow> bool" where
  "printable c \<longleftrightarrow> 32 \<le> (of_char c :: nat) \<and> (of_char c :: nat) < 128"

lemma queue_char:
  assumes "ring_ok CW_BUF_SIZE r"
  shows "ring_ok CW_BUF_SIZE (rigctl_queue_cw_char c r)"
    and "ring_list CW_BUF_SIZE (rigctl_queue_cw_char c r) = (if printable c \<and> length (ring_list CW_BUF_SIZE r) < 511
      then ring_list CW_BUF_SIZE r @ [c] else ring_list CW_BUF_SIZE r)"
  using assms cw_text.ring.enq_Some [OF assms] cw_text.ring.enq_None [OF assms, of c] cw_text.ring.bounded [OF assms]
  by (auto simp: rigctl_queue_cw_char_def printable_def split: option.split)

text \<open>The characters of a text that are queued, as long as there is room.\<close>

lemma queue_string:
  assumes "ring_ok CW_BUF_SIZE r" and "length (ring_list CW_BUF_SIZE r) + length (filter printable cs) \<le> 511"
  shows "ring_ok CW_BUF_SIZE (rigctl_queue_cw_string cs r)
    \<and> ring_list CW_BUF_SIZE (rigctl_queue_cw_string cs r) = ring_list CW_BUF_SIZE r @ filter printable cs"
  using assms
proof (induction cs arbitrary: r)
  case (Cons c cs)
  then have "length (ring_list CW_BUF_SIZE r) < 511" if "printable c" using that by simp
  with Cons show ?case
    using queue_char [OF Cons.prems(1), of c] Cons.IH [of "rigctl_queue_cw_char c r"]
    by (auto simp: rigctl_queue_cw_string_def split: if_splits)
qed (simp add: rigctl_queue_cw_string_def)

text \<open>An abort leaves the ring empty, whatever flows in meanwhile.\<close>

lemma queue_nothing [simp]: "rigctl_queue_cw_string [] r = r"
  by (simp add: rigctl_queue_cw_string_def)

lemma queue_string_ok: "ring_ok CW_BUF_SIZE r \<Longrightarrow> ring_ok CW_BUF_SIZE (rigctl_queue_cw_string cs r)"
  by (induction cs arbitrary: r) (simp_all add: rigctl_queue_cw_string_def queue_char)

lemma drained_ok: "ring_ok CW_BUF_SIZE r \<Longrightarrow> ring_ok CW_BUF_SIZE (r\<lparr>outptr := inptr r\<rparr>)"
  by (simp add: ring_ok_def)

lemma drain_loop:
  "ring_ok CW_BUF_SIZE r \<Longrightarrow> ring_ok CW_BUF_SIZE (cw_drain_loop ts r)
     \<and> inptr (cw_drain_loop ts r) = outptr (cw_drain_loop ts r)"
  by (induction ts r rule: cw_drain_loop.induct) (simp_all add: drained_ok queue_string_ok Let_def)

text \<open>
  Purging the character ring is not safe: if the sending thread takes a character between the
  read of the output index and the store into the input index, the ring is not empty afterwards
  but full, with the 511 characters that happen to be in the array.
\<close>

lemma purge_race:
  assumes "ring_ok CW_BUF_SIZE r" and "ring_get cw_buf_next r = Some (c, r')"
  shows "ring_list CW_BUF_SIZE (purge_write (purge_read r) r) = []
    \<and> length (ring_list CW_BUF_SIZE (purge_write (purge_read r) r')) = 511"
proof -
  have r': "r' = r\<lparr>outptr := cw_buf_next (outptr r)\<rparr>" and o: "outptr r < 512"
    using assms by (auto simp: ring_get_def ring_ok_def split: if_splits)
  have "cw_buf_next (outptr r) = (if outptr r = 511 then 0 else outptr r + 1)"
    using o cw_text.nxt_cases [of "outptr r"] by simp
  then show ?thesis
    using o by (simp add: purge_write_def purge_read_def ring_list_def ring_count_def r')
qed

subsection \<open>Codes\<close>

text \<open>
  The international Morse code (Recommendation ITU-R M.1677-1, and the ampersand for ``wait''), as a
  tree written level by level: the characters of one level stand in the order of their codes, a
  dot before a dash, and an underscore is a code without a character.
\<close>

definition itu_levels :: "string list" where
  "itu_levels = [''ET'', ''IANM'', ''SURWDKGO'', ''HVF_L_PJBXCYZQ__'', ''54_3___2&_+____16=/___(_7___8_90'',
     ''____________?_____'' @ [CHR 0x22] @ ''__.____@___'' @ [CHR 0x27] @ ''__-___________)_____,____:_______'']"

fun tree_codes :: "bool list list \<Rightarrow> string list \<Rightarrow> (char \<times> bool list) list" where
  "tree_codes ms [] = []"
| "tree_codes ms (l # ls) = (let ms = map ((#) False) ms @ map ((#) True) ms in zip l ms @ tree_codes ms ls)"

definition itu_table :: "(char \<times> bool list) list" where
  "itu_table = filter (\<lambda>(c, m). c \<noteq> CHR ''_'') (tree_codes [[]] itu_levels)"

text \<open>The marks of a character, \<open>True\<close> a dash; none for a character without a code.\<close>

definition itu :: "char \<Rightarrow> bool list" where
  "itu c = (case map_of itu_table c of Some m \<Rightarrow> m | None \<Rightarrow> [])"

definition toupper :: "char \<Rightarrow> char" where
  "toupper c = (let n = of_char c :: nat in if 97 \<le> n \<and> n \<le> 122 then char_of (n - 32) else c)"

lemma morse_row:
  assumes "morse c \<noteq> []"
  shows "\<exists>cs. (cs, morse c) \<in> set morse_table \<and> c \<in> set cs"
proof -
  obtain cs p where f: "find (\<lambda>(cs, p). c \<in> set cs) morse_table = Some (cs, p)"
    using assms by (auto simp: morse_def split: option.splits)
  then have "(cs, p) \<in> set morse_table \<and> c \<in> set cs" by (auto simp: find_Some_iff dest: nth_mem)
  with f show ?thesis by (auto simp: morse_def)
qed

lemma itu_rows [code]: "itu_table = [(CHR ''E'', [False]),
     (CHR ''T'', [True]),
     (CHR ''I'', [False, False]),
     (CHR ''A'', [False, True]),
     (CHR ''N'', [True, False]),
     (CHR ''M'', [True, True]),
     (CHR ''S'', [False, False, False]),
     (CHR ''U'', [False, False, True]),
     (CHR ''R'', [False, True, False]),
     (CHR ''W'', [False, True, True]),
     (CHR ''D'', [True, False, False]),
     (CHR ''K'', [True, False, True]),
     (CHR ''G'', [True, True, False]),
     (CHR ''O'', [True, True, True]),
     (CHR ''H'', [False, False, False, False]),
     (CHR ''V'', [False, False, False, True]),
     (CHR ''F'', [False, False, True, False]),
     (CHR ''L'', [False, True, False, False]),
     (CHR ''P'', [False, True, True, False]),
     (CHR ''J'', [False, True, True, True]),
     (CHR ''B'', [True, False, False, False]),
     (CHR ''X'', [True, False, False, True]),
     (CHR ''C'', [True, False, True, False]),
     (CHR ''Y'', [True, False, True, True]),
     (CHR ''Z'', [True, True, False, False]),
     (CHR ''Q'', [True, True, False, True]),
     (CHR ''5'', [False, False, False, False, False]),
     (CHR ''4'', [False, False, False, False, True]),
     (CHR ''3'', [False, False, False, True, True]),
     (CHR ''2'', [False, False, True, True, True]),
     (CHR ''&'', [False, True, False, False, False]),
     (CHR ''+'', [False, True, False, True, False]),
     (CHR ''1'', [False, True, True, True, True]),
     (CHR ''6'', [True, False, False, False, False]),
     (CHR ''='', [True, False, False, False, True]),
     (CHR ''/'', [True, False, False, True, False]),
     (CHR ''('', [True, False, True, True, False]),
     (CHR ''7'', [True, True, False, False, False]),
     (CHR ''8'', [True, True, True, False, False]),
     (CHR ''9'', [True, True, True, True, False]),
     (CHR ''0'', [True, True, True, True, True]),
     (CHR ''?'', [False, False, True, True, False, False]),
     (CHR 0x22, [False, True, False, False, True, False]),
     (CHR ''.'', [False, True, False, True, False, True]),
     (CHR ''@'', [False, True, True, False, True, False]),
     (CHR 0x27, [False, True, True, True, True, False]),
     (CHR ''-'', [True, False, False, False, False, True]),
     (CHR '')'', [True, False, True, True, False, True]),
     (CHR '','', [True, True, False, False, True, True]),
     (CHR '':'', [True, True, True, False, False, False])]"
  by (simp add: itu_table_def itu_levels_def Let_def)

text \<open>
  The character whose code is sent: case does not matter, and for the colon it is the code of the
  digit 8.
\<close>

definition canonical :: "char \<Rightarrow> char" where
  "canonical c = (if c = CHR '':'' then CHR ''8'' else toupper c)"

lemma rows_itu: "list_all (\<lambda>(cs, p). list_all (\<lambda>c. map (\<lambda>x. x = CHR ''-'') p = itu (canonical c)) cs) morse_table"
  by code_simp

lemma itu_rows_coded: "list_all (\<lambda>(c, m). morse c \<noteq> [] \<and> (let n = of_char c :: nat in 65 \<le> n \<and> n \<le> 90 \<longrightarrow> morse (char_of (n + 32)) \<noteq> [])) itu_table"
  by code_simp


lemma canonical_lower: "toupper c = d \<Longrightarrow> c = d \<or> (let n = of_char d :: nat in 65 \<le> n \<and> n \<le> 90 \<and> c = char_of (n + 32))"
  by (auto simp: toupper_def Let_def split: if_splits)

text \<open>Apart from that the table of the program is the recommendation.\<close>

lemma morse_itu: "map (\<lambda>p. p = CHR ''-'') (morse c) = itu (canonical c)"
proof (cases "morse c = []")
  case False
  then show ?thesis using morse_row [OF False] rows_itu unfolding list_all_iff by fast
next
  case True
  have "itu (canonical c) = []"
  proof (cases "map_of itu_table (canonical c)")
    case (Some m)
    then have d: "(canonical c, m) \<in> set itu_table" by (rule map_of_SomeD)
    have colon: "morse CHR '':'' \<noteq> []" by code_simp
    then have "canonical c = toupper c" using True by (auto simp: canonical_def)
    with d True itu_rows_coded canonical_lower [OF refl, of c] show ?thesis
      unfolding list_all_iff Let_def by auto
  qed (simp add: itu_def)
  with True show ?thesis by simp
qed

lemma rows_upper: "list_all (\<lambda>(cs, p). list_all (\<lambda>c. list_all (\<lambda>d. toupper c = toupper d) cs) cs) morse_table"
  by code_simp

text \<open>A code as a number, a leading one followed by a bit for each element.\<close>

definition code_num :: "string \<Rightarrow> nat" where
  "code_num p = foldl (\<lambda>n c. 2 * n + of_bool (c = CHR ''-'')) 1 p"

definition rows :: "(string \<times> string) list" where
  "rows = filter (\<lambda>(cs, p). cs \<noteq> '':'') morse_table"

lemma rows_distinct: "distinct (map (\<lambda>(cs, p). code_num p) rows)"
  by (simp add: rows_def morse_table_def code_num_def)

lemma row_unique: "(cs, p) \<in> set rows \<Longrightarrow> (ds, p) \<in> set rows \<Longrightarrow> cs = ds"
  using rows_distinct by (auto simp: distinct_map dest: inj_onD [where x = "(cs, p)" and y = "(ds, p)"])

lemma colon_row: "list_all (\<lambda>(cs, p). cs = '':'' \<longrightarrow> p = ''---..'') morse_table"
  by code_simp

lemma row_cases: "(cs, p) \<in> set morse_table \<Longrightarrow> (cs, p) \<in> set rows \<or> cs = '':'' \<and> p = ''---..''"
  using colon_row by (auto simp: rows_def list_all_iff)

lemma row_8: "(''8'', ''---..'') \<in> set rows"
  by (simp add: rows_def) (simp add: morse_table_def)

lemma row_other: "(cs, p) \<in> set morse_table \<Longrightarrow> (ds, p) \<in> set rows \<Longrightarrow> cs = ds \<or> cs = '':'' \<and> ds = ''8''"
  using row_cases [of cs p] row_unique [of cs p ds] row_unique [OF row_8, of ds] by metis

lemma row_pair:
  assumes c: "(cs, p) \<in> set morse_table" and d: "(ds, p) \<in> set morse_table"
  shows "cs = ds \<or> cs = '':'' \<and> ds = ''8'' \<or> cs = ''8'' \<and> ds = '':''"
proof (cases "(ds, p) \<in> set rows")
  case True
  then show ?thesis by (blast dest: row_other [OF c])
next
  case False
  then have colon: "ds = '':''" using row_cases [OF d] by blast
  show ?thesis
  proof (cases "(cs, p) \<in> set rows")
    case True
    then show ?thesis by (blast dest: row_other [OF d])
  next
    case False
    then have "cs = '':''" using row_cases [OF c] by blast
    with colon show ?thesis by blast
  qed
qed

lemma row_upper: "(cs, p) \<in> set morse_table \<Longrightarrow> c \<in> set cs \<Longrightarrow> d \<in> set cs \<Longrightarrow> toupper c = toupper d"
  using rows_upper unfolding list_all_iff by (elim ballE [where x = "(cs, p)"]) blast+

text \<open>
  Characters of CW text that are sent with the same code are equal up to case, with one
  exception: the colon is sent as the digit 8 (ITU has one more dot).
\<close>

lemma morse_colon:
  "morse CHR '':'' = morse CHR ''8'' \<and> (\<forall>c d. morse c = [] \<or> morse c \<noteq> morse d \<or> toupper c = toupper d
     \<or> {c, d} = {CHR '':'', CHR ''8''})"
proof (intro conjI allI)
  show "morse CHR '':'' = morse CHR ''8''" by code_simp
  fix c d
  show "morse c = [] \<or> morse c \<noteq> morse d \<or> toupper c = toupper d \<or> {c, d} = {CHR '':'', CHR ''8''}"
  proof (cases "morse c \<noteq> [] \<and> morse c = morse d")
    case True
    obtain cs where cs: "(cs, morse c) \<in> set morse_table" "c \<in> set cs" using morse_row [of c] True by blast
    obtain ds where ds: "(ds, morse c) \<in> set morse_table" "d \<in> set ds" using morse_row [of d] True by auto
    from row_pair [OF cs(1) ds(1)] show ?thesis
    proof (elim disjE conjE)
      assume "cs = ds"
      then have "toupper c = toupper d" using row_upper [OF cs(1)] cs(2) ds(2) by blast
      then show ?thesis by blast
    qed (use cs(2) ds(2) in auto)
  qed auto
qed

end
