(* ===== verification/CW_Text_Keying.thy ===== *)
theory CW_Text_Keying
  imports CW_Text_Facts
begin

text \<open>
  The key over time while a text is sent: the elements of a character, the characters of a text
  from the first pass of the thread to the last, the abort by a key, and the transmission that is
  never ended.
\<close>

subsection \<open>Traces\<close>

text \<open>
  An event first waits as many samples as it says, with the key as it is. The key over time of a
  trace, the key at its end, and the time the thread sleeps.
\<close>

fun keyed :: "bool \<Rightarrow> cat_call list \<Rightarrow> bool list" where
  "keyed k [] = []"
| "keyed k (Cw_event down wait # es) = replicate (nat wait) k @ keyed down es"
| "keyed k (_ # es) = keyed k es"

fun key_after :: "bool \<Rightarrow> cat_call list \<Rightarrow> bool" where
  "key_after k [] = k"
| "key_after k (Cw_event down wait # es) = key_after down es"
| "key_after k (_ # es) = key_after k es"

fun slept :: "cat_call list \<Rightarrow> int" where
  "slept [] = 0"
| "slept (Sleep_samples n # es) = n + slept es"
| "slept (_ # es) = slept es"

lemma keyed_append: "keyed k (es @ fs) = keyed k es @ keyed (key_after k es) fs"
  by (induction k es rule: keyed.induct) simp_all

lemma key_after_append: "key_after k (es @ fs) = key_after (key_after k es) fs"
  by (induction k es rule: keyed.induct) simp_all

lemma slept_append: "slept (es @ fs) = slept es + slept fs"
  by (induction es rule: slept.induct) simp_all

text \<open>A trace that keys \<open>w\<close>, sleeps as long, and leaves the key up.\<close>

definition keys :: "cat_call list \<Rightarrow> bool list \<Rightarrow> bool" where
  "keys es w \<longleftrightarrow> keyed False es = w \<and> \<not> key_after False es \<and> slept es = int (length w)"

lemma keys_Nil: "keys [] []"
  by (simp add: keys_def)

lemma keys_append: "keys es v \<Longrightarrow> keys fs w \<Longrightarrow> keys (es @ fs) (v @ w)"
  by (simp add: keys_def keyed_append key_after_append slept_append)

text \<open>An operation that only appends such a trace.\<close>

definition sends :: "cat_cw \<Rightarrow> cat_cw \<Rightarrow> bool list \<Rightarrow> bool" where
  "sends s s' w \<longleftrightarrow> (\<exists>es. s' = s\<lparr>cat_calls := cat_calls s @ es\<rparr> \<and> keys es w)"

lemma sendsI: "s' = s\<lparr>cat_calls := cat_calls s @ es\<rparr> \<Longrightarrow> keys es w \<Longrightarrow> sends s s' w"
  by (auto simp: sends_def)

lemma sends_refl: "sends s s []"
  by (auto simp: sends_def intro: exI [of _ "[]"] keys_Nil)

lemma sends_trans: "sends s s' v \<Longrightarrow> sends s' s'' w \<Longrightarrow> sends s s'' (v @ w)"
  by (auto simp: sends_def) (metis append_assoc keys_append)

lemma sends_frame:
  "sends s s' w \<Longrightarrow> cw_key_hit_in s' = cw_key_hit_in s \<and> dotsamples s' = dotsamples s \<and> dashsamples s' = dashsamples s
    \<and> join_cw_characters s' = join_cw_characters s"
  by (auto simp: sends_def)

subsection \<open>A character\<close>

definition element :: "int \<Rightarrow> int \<Rightarrow> char \<Rightarrow> bool list" where
  "element dot dash p = replicate (nat (if p = CHR ''-'' then dash else dot)) True @ replicate (nat dot) False"

definition pause :: "int \<Rightarrow> bool \<Rightarrow> char \<Rightarrow> bool list" where
  "pause dot join c = (if c = CHR '' '' then replicate (nat (6 * dot)) False
     else if join then [] else replicate (nat (2 * dot)) False)"

definition sign :: "int \<Rightarrow> int \<Rightarrow> bool \<Rightarrow> char \<Rightarrow> bool list" where
  "sign dot dash join c = concat (map (element dot dash) (morse c)) @ pause dot join c"

text \<open>
  The pieces a character should be keyed in: its marks after the recommendation, each with a dot's
  length of pause, and the pause after it, six dots for a blank and two for any other character
  unless characters are joined.
\<close>

definition mark :: "int \<Rightarrow> int \<Rightarrow> bool \<Rightarrow> bool list" where
  "mark dot dash m = replicate (nat (if m then dash else dot)) True @ replicate (nat dot) False"

definition pieces :: "int \<Rightarrow> int \<Rightarrow> bool \<Rightarrow> char \<Rightarrow> bool list list" where
  "pieces dot dash join c = map (mark dot dash) (itu (canonical c))
     @ (if c = CHR '' '' then [replicate (nat (6 * dot)) False]
        else if join then [] else [replicate (nat (2 * dot)) False])"

lemma element_marks: "map (element dot dash) (morse c) = map (mark dot dash) (itu (canonical c))"
  unfolding morse_itu [symmetric] by (simp add: element_def mark_def)

lemma sign_pieces: "sign dot dash join c = concat (pieces dot dash join c)"
  by (simp add: sign_def pieces_def pause_def element_marks)

lemma tested_None: "cw_key_hit_in s = None \<Longrightarrow> tested s = s"
  by (simp add: tested_def)

lemma not_hit: "cw_key_hit_in s = None \<Longrightarrow> \<not> key_hit s"
  by (simp add: key_hit_def)

lemma send_element:
  assumes "cw_key_hit_in s = None" and "0 \<le> dotsamples s" and "0 \<le> dashsamples s" and "p \<in> {CHR ''.'', CHR ''-''}"
  shows "sends s (send_element p s) (element (dotsamples s) (dashsamples s) p)"
  using assms
  by (cases "p = CHR ''-''")
     (auto simp: send_element_def send_dash_def send_dot_def call_def tested_None not_hit keys_def element_def intro!: sendsI)

lemma send_space:
  assumes "cw_key_hit_in s = None" and "0 \<le> dotsamples s" and "0 \<le> n"
  shows "sends s (send_space n s) (replicate (nat (n * dotsamples s)) False)"
  using assms by (auto simp: send_space_def call_def tested_None not_hit keys_def intro!: sendsI)

lemma morse_marks: "p \<in> set (morse c) \<Longrightarrow> p \<in> {CHR ''.'', CHR ''-''}"
proof -
  have "list_all (\<lambda>(cs, m). list_all (\<lambda>p. p = CHR ''.'' \<or> p = CHR ''-'') m) morse_table" by code_simp
  moreover assume p: "p \<in> set (morse c)"
  moreover from p have "morse c \<noteq> []" by auto
  ultimately show ?thesis using morse_row [of c] unfolding list_all_iff by fast
qed

lemma send_elements:
  assumes "cw_key_hit_in s = None" and "0 \<le> dotsamples s" and "0 \<le> dashsamples s"
    and "set ps \<subseteq> {CHR ''.'', CHR ''-''}"
  shows "sends s (fold send_element ps s) (concat (map (element (dotsamples s) (dashsamples s)) ps))"
  using assms
proof (induction ps arbitrary: s)
  case (Cons p ps)
  have p: "sends s (send_element p s) (element (dotsamples s) (dashsamples s) p)"
    using Cons.prems by (intro send_element) auto
  then show ?case
    using sends_trans [OF p] Cons.IH [of "send_element p s"] Cons.prems sends_frame [OF p] by simp
qed (simp add: sends_refl)

lemma send_char:
  assumes "cw_key_hit_in s = None" and "0 \<le> dotsamples s" and "0 \<le> dashsamples s"
  shows "sends s (rigctl_send_cw_char c s) (sign (dotsamples s) (dashsamples s) (join_cw_characters s) c)"
proof -
  let ?s = "fold send_element (morse c) s"
  have e: "sends s ?s (concat (map (element (dotsamples s) (dashsamples s)) (morse c)))"
    using assms morse_marks by (intro send_elements) auto
  note f = sends_frame [OF e]
  have "sends ?s (rigctl_send_cw_char c s) (pause (dotsamples s) (join_cw_characters s) c)"
    using send_space [of ?s 6] send_space [of ?s 2] assms f sends_refl [of ?s]
    by (cases "c = CHR '' ''") (auto simp: rigctl_send_cw_char_def pause_def Let_def)
  from sends_trans [OF e this] show ?thesis by (simp add: sign_def)
qed

subsection \<open>A pass of the thread\<close>

definition emits :: "cat_cw \<Rightarrow> cat_cw \<Rightarrow> bool list \<Rightarrow> bool" where
  "emits s s' w \<longleftrightarrow> (\<exists>es. cat_calls s' = cat_calls s @ es \<and> keys es w)"

lemma emits_trans: "emits s s' v \<Longrightarrow> emits s' s'' w \<Longrightarrow> emits s s'' (v @ w)"
  by (auto simp: emits_def) (metis append_assoc keys_append)

lemma sends_emits: "sends s s' w \<Longrightarrow> emits s s' w"
  by (auto simp: sends_def emits_def)

lemma emits_silent: "cat_calls s' = cat_calls s @ es \<Longrightarrow> keys es [] \<Longrightarrow> emits s s' []"
  by (auto simp: emits_def)

text \<open>The thread between two characters that are not commands, when no key has been hit.\<close>

definition idle_cw :: "cat_cw \<Rightarrow> bool" where
  "idle_cw s \<longleftrightarrow> cw_key_hit_in s = None \<and> \<not> bracket_command s \<and> buffered_speed s = 0"

definition plain :: "char \<Rightarrow> bool" where
  "plain c \<longleftrightarrow> c \<notin> {CHR ''['', CHR '']'', CHR 0x00}"

definition dot_of :: "cw_env \<Rightarrow> int" where
  "dot_of e = 57600 div env_speed e"

definition dash_of :: "cw_env \<Rightarrow> int" where
  "dash_of e = 3456 * env_weight e div env_speed e"

text \<open>A CW mode, transmission on, and nothing arrives while the thread waits.\<close>

definition sending :: "cw_env \<Rightarrow> bool" where
  "sending e \<longleftrightarrow> is_cw (env_mode e) \<and> env_mox e \<and> env_more e = [] \<and> 0 < env_speed e \<and> 0 \<le> env_weight e"

lemma set_cat_cw_same:
  "set_cat_cw e on s = s\<lparr>CAT_cw_is_active := on, cat_calls := cat_calls s @ (if env_remote e then [] else [Transmit_packet])\<rparr>"
  by (simp add: set_cat_cw_def call_def Let_def)

lemma pass_start:
  assumes "ring_get cw_buf_next (cw_buf s) = Some (c, r)" and "sending e" and "idle_cw s" and "plain c"
  defines "t \<equiv> s\<lparr>cw_buf := r, dotsamples := dot_of e, dashsamples := dash_of e, CAT_cw_is_active := True,
      cat_calls := cat_calls s @ (if env_remote e then [] else [Transmit_packet])\<rparr>"
  shows "rigctl_cw_pass e s = cw_finish e (rigctl_send_cw_char c t)" and "emits s t []" and "idle_cw t"
  using assms
  by (simp_all add: rigctl_cw_pass_def sending_def idle_cw_def plain_def cw_bracket_def cw_lengths_def set_cat_cw_same
      cw_transmit_def tested_None not_hit dot_of_def dash_of_def emits_def keys_def Let_def)

lemma finish_more:
  assumes "inptr (cw_buf s) \<noteq> outptr (cw_buf s)"
  shows "cw_finish e s = s"
  using assms by (simp add: cw_finish_def)

lemma finish_last:
  assumes "inptr (cw_buf s) = outptr (cw_buf s)" and "env_more e = []" and "idle_cw s"
  shows "emits s (cw_finish e s) []" and "idle_cw (cw_finish e s)" and "cw_buf (cw_finish e s) = cw_buf s"
    and "\<not> CAT_cw_is_active (cw_finish e s)" and "\<not> env_ptt e \<Longrightarrow> last (cat_calls (cw_finish e s)) = Set_mox False 50"
  using assms
  by (auto simp: cw_finish_def set_cat_cw_same call_def tested_None not_hit idle_cw_def emits_def keys_def Let_def)

lemma finish_idle: "idle_cw s \<Longrightarrow> env_more e = [] \<Longrightarrow> idle_cw (cw_finish e s) \<and> emits s (cw_finish e s) []
    \<and> cw_buf (cw_finish e s) = cw_buf s \<and> join_cw_characters (cw_finish e s) = join_cw_characters s"
  by (auto simp: cw_finish_def set_cat_cw_same call_def tested_None not_hit idle_cw_def emits_def keys_def Let_def)

lemma sends_same:
  "sends s s' w \<Longrightarrow> cw_buf s' = cw_buf s \<and> CAT_cw_is_active s' = CAT_cw_is_active s \<and> idle_cw s' = idle_cw s"
  by (auto simp: sends_def idle_cw_def)

lemma pass_char:
  assumes g: "ring_get cw_buf_next (cw_buf s) = Some (c, r)" and e: "sending e" and s: "idle_cw s" and c: "plain c"
  shows "emits s (rigctl_cw_pass e s) (sign (dot_of e) (dash_of e) (join_cw_characters s) c)"
    and "idle_cw (rigctl_cw_pass e s)" and "cw_buf (rigctl_cw_pass e s) = r"
    and "join_cw_characters (rigctl_cw_pass e s) = join_cw_characters s"
    and "inptr r = outptr r \<Longrightarrow> \<not> CAT_cw_is_active (rigctl_cw_pass e s)
      \<and> (env_ptt e \<or> last (cat_calls (rigctl_cw_pass e s)) = Set_mox False 50)"
    and "inptr r \<noteq> outptr r \<Longrightarrow> CAT_cw_is_active (rigctl_cw_pass e s)"
proof -
  note p = pass_start [OF g e s c]
  let ?t = "s\<lparr>cw_buf := r, dotsamples := dot_of e, dashsamples := dash_of e, CAT_cw_is_active := True,
      cat_calls := cat_calls s @ (if env_remote e then [] else [Transmit_packet])\<rparr>"
  have m: "env_more e = []" and d: "0 \<le> dot_of e" "0 \<le> dash_of e"
    using e by (simp_all add: sending_def dot_of_def dash_of_def pos_imp_zdiv_nonneg_iff)
  have c: "sends ?t (rigctl_send_cw_char c ?t) (sign (dot_of e) (dash_of e) (join_cw_characters s) c)"
    using send_char [of ?t c] p(3) d by (simp add: idle_cw_def)
  obtain u where u: "rigctl_cw_pass e s = cw_finish e u" "cw_buf u = r" "idle_cw u" "CAT_cw_is_active u"
    "join_cw_characters u = join_cw_characters s"
    "emits s u (sign (dot_of e) (dash_of e) (join_cw_characters s) c)"
    using p sends_same [OF c] sends_frame [OF c] emits_trans [OF p(2) sends_emits [OF c]] by simp
  note i = finish_idle [OF u(3) m]
  show "emits s (rigctl_cw_pass e s) (sign (dot_of e) (dash_of e) (join_cw_characters s) c)"
    using emits_trans [OF u(6)] i u(1) by fastforce
  show "idle_cw (rigctl_cw_pass e s)" "cw_buf (rigctl_cw_pass e s) = r"
    "join_cw_characters (rigctl_cw_pass e s) = join_cw_characters s"
    using i u by simp_all
  show "inptr r = outptr r \<Longrightarrow> \<not> CAT_cw_is_active (rigctl_cw_pass e s)
      \<and> (env_ptt e \<or> last (cat_calls (rigctl_cw_pass e s)) = Set_mox False 50)"
    using finish_last(4,5) [of u e] u m by auto
  show "inptr r \<noteq> outptr r \<Longrightarrow> CAT_cw_is_active (rigctl_cw_pass e s)"
    using finish_more [of u e] u by auto
qed

subsection \<open>A text\<close>

lemma ring_empty: "ring_ok CW_BUF_SIZE r \<Longrightarrow> inptr r = outptr r \<longleftrightarrow> ring_list CW_BUF_SIZE r = []"
  using cw_text.ring.deq_None [of r] by (cases "inptr r = outptr r") (simp_all add: ring_get_def)

lemma ring_drained: "ring_ok CW_BUF_SIZE r \<Longrightarrow> ring_list CW_BUF_SIZE (r\<lparr>outptr := inptr r\<rparr>) = []"
  by (simp add: ring_list_def ring_count_def ring_ok_def)

lemma ring_get_Cons:
  assumes "ring_ok CW_BUF_SIZE q" and "ring_list CW_BUF_SIZE q = c # cs"
  shows "\<exists>r. ring_get cw_buf_next q = Some (c, r) \<and> ring_ok CW_BUF_SIZE r \<and> ring_list CW_BUF_SIZE r = cs"
proof -
  have "ring_get cw_buf_next q \<noteq> None" using cw_text.ring.deq_None [OF assms(1)] assms(2) by simp
  then obtain x r where "ring_get cw_buf_next q = Some (x, r)" by auto
  with cw_text.ring.deq_Some [OF assms(1) this] assms(2) show ?thesis by simp
qed

lemma pass_text:
  assumes "ring_ok CW_BUF_SIZE (cw_buf s)" and "ring_list CW_BUF_SIZE (cw_buf s) = c # cs"
    and "sending e" and "idle_cw s" and "plain c"
  shows "emits s (rigctl_cw_pass e s) (sign (dot_of e) (dash_of e) (join_cw_characters s) c)"
    and "idle_cw (rigctl_cw_pass e s)" and "join_cw_characters (rigctl_cw_pass e s) = join_cw_characters s"
    and "ring_ok CW_BUF_SIZE (cw_buf (rigctl_cw_pass e s))" and "ring_list CW_BUF_SIZE (cw_buf (rigctl_cw_pass e s)) = cs"
    and "cs = [] \<Longrightarrow> \<not> CAT_cw_is_active (rigctl_cw_pass e s)
      \<and> (env_ptt e \<or> last (cat_calls (rigctl_cw_pass e s)) = Set_mox False 50)"
proof -
  obtain r where g: "ring_get cw_buf_next (cw_buf s) = Some (c, r)" and r: "ring_ok CW_BUF_SIZE r" "ring_list CW_BUF_SIZE r = cs"
    using ring_get_Cons [OF assms(1,2)] by blast
  note p = pass_char [OF g assms(3-5)]
  show "emits s (rigctl_cw_pass e s) (sign (dot_of e) (dash_of e) (join_cw_characters s) c)"
    "idle_cw (rigctl_cw_pass e s)" "join_cw_characters (rigctl_cw_pass e s) = join_cw_characters s"
    "ring_ok CW_BUF_SIZE (cw_buf (rigctl_cw_pass e s))" "ring_list CW_BUF_SIZE (cw_buf (rigctl_cw_pass e s)) = cs"
    using p r by simp_all
  show "cs = [] \<Longrightarrow> \<not> CAT_cw_is_active (rigctl_cw_pass e s)
      \<and> (env_ptt e \<or> last (cat_calls (rigctl_cw_pass e s)) = Set_mox False 50)"
    using p(5) r ring_empty by blast
qed

lemma text_sent:
  assumes "ring_ok CW_BUF_SIZE (cw_buf s)" and "ring_list CW_BUF_SIZE (cw_buf s) = cs" and "cs \<noteq> []"
    and "sending e" and "idle_cw s" and "list_all plain cs"
  shows "let s' = (rigctl_cw_pass e ^^ length cs) s
    in emits s s' (concat (map (sign (dot_of e) (dash_of e) (join_cw_characters s)) cs))
       \<and> ring_list CW_BUF_SIZE (cw_buf s') = [] \<and> \<not> CAT_cw_is_active s' \<and> (env_ptt e \<or> last (cat_calls s') = Set_mox False 50)"
  using assms
proof (induction cs arbitrary: s)
  case (Cons c cs)
  have c: "plain c" using Cons.prems by simp
  note p = pass_text [OF Cons.prems(1,2,4,5) c]
  show ?case
  proof (cases "cs = []")
    case True
    then show ?thesis using p by (simp add: Let_def)
  next
    case False
    have "list_all plain cs" using Cons.prems by simp
    from Cons.IH [OF p(4,5) False Cons.prems(4) p(2) this] show ?thesis
      using emits_trans [OF p(1)] by (simp add: Let_def p(3) funpow_Suc_right del: funpow.simps)
  qed
qed simp


lemma morse_blank: "morse CHR '' '' = []"
  by code_simp

lemma replicate_ends:
  assumes "0 < n"
  shows "replicate n x = x # replicate (n - 1) x" and "replicate n x = replicate (n - 1) x @ [x]"
  using assms by (cases n, auto simp: replicate_append_same)+

lemma element_first:
  assumes "0 < dot" and "0 < dash"
  shows "\<exists>v. element dot dash p = True # v"
  using assms by (auto simp: element_def replicate_ends(1) [of "nat dot"] replicate_ends(1) [of "nat dash"])

lemma element_last:
  assumes "0 < dot" and "0 < dash"
  shows "\<exists>u. element dot dash p = u @ True # replicate (nat dot) False"
  using assms by (auto simp: element_def replicate_ends(2) [of "nat dot" True] replicate_ends(2) [of "nat dash" True])

text \<open>
  Between two words the key is up for nine dots: the pause of a character, which is sent after
  the last character of a word too, and the pause of the blank add up. The comment in
  \<^verbatim>\<open>rigctl_send_cw_char\<close> wants seven.
\<close>

lemma cw_word_gap:
  assumes "ring_ok CW_BUF_SIZE (cw_buf s)" and "ring_list CW_BUF_SIZE (cw_buf s) = [c, CHR '' '', d]"
    and "sending e" and "idle_cw s" and "\<not> join_cw_characters s" and "plain c" and "plain d"
    and "morse c \<noteq> []" and "morse d \<noteq> []" and "env_speed e \<le> 60" and "0 < env_weight e"
  shows "\<exists>u v. keyed False (drop (length (cat_calls s)) (cat_calls ((rigctl_cw_pass e ^^ 3) s)))
      = u @ True # replicate (nat (9 * (57600 div env_speed e))) False @ True # v"
proof -
  let ?dot = "57600 div env_speed e" and ?dash = "3456 * env_weight e div env_speed e"
  have d: "0 < ?dot" "0 < ?dash"
    using assms by (simp_all add: sending_def pos_imp_zdiv_pos_iff)
  obtain ps p where c: "morse c = ps @ [p]" using assms(8) by (metis rev_exhaust)
  obtain q qs where q: "morse d = q # qs" using assms(9) by (metis list.exhaust)
  obtain u where u: "concat (map (element ?dot ?dash) (morse c)) = u @ [True] @ replicate (nat ?dot) False"
    using element_last [OF d, of p] by (auto simp: c)
  obtain v where v: "concat (map (element ?dot ?dash) (morse d)) = True # v"
    using element_first [OF d, of q] by (auto simp: q)
  have blank: "morse CHR '' '' = []" "c \<noteq> CHR '' ''" "d \<noteq> CHR '' ''" "plain CHR '' ''"
    using assms(8,9) by (auto simp: plain_def morse_blank)
  have "keyed False (drop (length (cat_calls s)) (cat_calls ((rigctl_cw_pass e ^^ 3) s)))
      = concat (map (sign ?dot ?dash False) [c, CHR '' '', d])"
    using text_sent [OF assms(1,2) _ assms(3,4)] assms(5-7) blank(4)
    by (auto simp: Let_def emits_def keys_def dot_of_def dash_of_def numeral_3_eq_3 simp del: funpow.simps)
  also have "\<dots> = u @ True # (replicate (nat ?dot) False @ replicate (nat (2 * ?dot)) False @ replicate (nat (6 * ?dot)) False)
      @ True # v @ replicate (nat (2 * ?dot)) False"
    by (simp add: sign_def pause_def blank u v del: nat_mult_distrib)
  also have "replicate (nat ?dot) False @ replicate (nat (2 * ?dot)) False @ replicate (nat (6 * ?dot)) False
      = replicate (nat (9 * ?dot)) False"
    using d by (simp add: nat_mult_distrib flip: replicate_add)
  finally show ?thesis by blast
qed

subsection \<open>Transmissions that are cut short\<close>

lemma send_char_frame:
  "cw_buf (rigctl_send_cw_char c s) = cw_buf s \<and> CAT_cw_is_active (rigctl_send_cw_char c s) = CAT_cw_is_active s"
proof -
  have e: "cw_buf (send_element p s) = cw_buf s \<and> CAT_cw_is_active (send_element p s) = CAT_cw_is_active s" for p s
    by (simp add: send_element_def send_dash_def send_dot_def call_def tested_def)
  have "cw_buf (fold send_element ps s) = cw_buf s \<and> CAT_cw_is_active (fold send_element ps s) = CAT_cw_is_active s" for ps s
    by (induction ps arbitrary: s) (simp_all add: e)
  then show ?thesis by (simp add: rigctl_send_cw_char_def send_space_def call_def tested_def Let_def)
qed

text \<open>What the commands in brackets leave alone.\<close>

lemma bracket_frame:
  "cw_bracket v c s = (c', s') \<Longrightarrow> cw_buf s' = cw_buf s \<and> cw_key_hit_in s' = cw_key_hit_in s \<and> cat_calls s' = cat_calls s
    \<and> CAT_cw_is_active s' = CAT_cw_is_active s"
  by (auto simp: cw_bracket_def Let_def split: if_splits)

lemma lengths_frame:
  "cw_buf (cw_lengths e s) = cw_buf s \<and> cw_key_hit_in (cw_lengths e s) = cw_key_hit_in s \<and> cat_calls (cw_lengths e s) = cat_calls s"
  by (simp add: cw_lengths_def Let_def)

text \<open>A pass in a CW mode with MOX on: up to the test of the key, and after it.\<close>

lemma pass_cw:
  assumes "ring_get cw_buf_next (cw_buf s) = Some (c, r)" and "is_cw (env_mode e)" and "env_mox e"
  shows "\<exists>c' t. rigctl_cw_pass e s = cw_transmit e c' t \<and> cw_buf t = r \<and> cw_key_hit_in t = cw_key_hit_in s
    \<and> CAT_cw_is_active t \<and> cat_calls t = cat_calls s @ (if env_remote e then [] else [Transmit_packet])"
proof -
  obtain c' t where b: "cw_bracket (env_speed e) c (s\<lparr>cw_buf := r\<rparr>) = (c', t)" by force
  then have "rigctl_cw_pass e s = cw_transmit e c' (set_cat_cw e True (cw_lengths e t))"
    using assms by (simp add: rigctl_cw_pass_def)
  then show ?thesis using bracket_frame [OF b] lengths_frame [of e t]
    by (intro exI [of _ c'] exI [of _ "set_cat_cw e True (cw_lengths e t)"]) (simp add: set_cat_cw_same)
qed

lemma transmit_more:
  assumes "\<not> key_hit s" and "inptr (cw_buf s) \<noteq> outptr (cw_buf s)"
  shows "cw_buf (cw_transmit e c s) = cw_buf s" and "CAT_cw_is_active (cw_transmit e c s) = CAT_cw_is_active s"
  using assms send_char_frame [of c "tested s"] by (simp_all add: cw_transmit_def finish_more tested_def Let_def)

text \<open>A pass outside the CW modes, or with an empty ring.\<close>

lemma pass_not_cw:
  assumes "\<not> is_cw (env_mode e)" and "ring_list CW_BUF_SIZE (cw_buf s) = c # cs" and "ring_ok CW_BUF_SIZE (cw_buf s)"
  shows "rigctl_cw_pass e s = cw_drain s"
  using ring_get_Cons [OF assms(3,2)] assms(1) by (auto simp: rigctl_cw_pass_def)

lemma pass_empty:
  assumes "inptr (cw_buf s) = outptr (cw_buf s)"
  shows "cw_buf (rigctl_cw_pass e s) = cw_buf s \<and> CAT_cw_is_active (rigctl_cw_pass e s) = CAT_cw_is_active s
    \<and> cat_calls (rigctl_cw_pass e s) = cat_calls s"
  using assms by (simp add: rigctl_cw_pass_def ring_get_def)

lemma passes_empty:
  assumes "inptr (cw_buf s) = outptr (cw_buf s)"
  shows "cw_buf (fold rigctl_cw_pass es s) = cw_buf s \<and> CAT_cw_is_active (fold rigctl_cw_pass es s) = CAT_cw_is_active s
    \<and> cat_calls (fold rigctl_cw_pass es s) = cat_calls s"
  using assms
proof (induction es arbitrary: s)
  case (Cons e es)
  then show ?case using pass_empty [of s e] Cons.IH [of "rigctl_cw_pass e s"] by simp
qed simp

text \<open>
  C40. If the operator leaves the CW modes while characters of a text wait, the text is dropped but
  CAT CW is never ended: however long the thread runs after it, in whatever mode, CAT CW stays
  active and the thread never asks for MOX to be taken back.
\<close>

theorem cw_text_stuck:
  assumes "ring_ok CW_BUF_SIZE (cw_buf s)" and "ring_list CW_BUF_SIZE (cw_buf s) = c # d # cs"
    and "is_cw (env_mode e)" and "env_mox e" and "\<not> key_hit s" and "\<not> is_cw (env_mode e')"
  shows "let s' = fold rigctl_cw_pass (e # e' # es) s
    in ring_list CW_BUF_SIZE (cw_buf s') = [] \<and> CAT_cw_is_active s' \<and> cat_calls s' = cat_calls (rigctl_cw_pass e s)"
proof -
  obtain r where g: "ring_get cw_buf_next (cw_buf s) = Some (c, r)" and r: "ring_ok CW_BUF_SIZE r" "ring_list CW_BUF_SIZE r = d # cs"
    using ring_get_Cons [OF assms(1,2)] by blast
  obtain c' t where t: "rigctl_cw_pass e s = cw_transmit e c' t" "cw_buf t = r" "\<not> key_hit t" "CAT_cw_is_active t"
    using pass_cw [OF g assms(3,4)] assms(5) by (auto simp: key_hit_def)
  let ?s = "rigctl_cw_pass e s"
  have s: "cw_buf ?s = r" "CAT_cw_is_active ?s"
    using transmit_more [OF t(3), of e c'] t ring_empty [OF r(1)] r(2) by auto
  have d: "rigctl_cw_pass e' ?s = cw_drain ?s"
    using pass_not_cw [OF assms(6)] s(1) r by simp
  then show ?thesis
    using passes_empty [of "cw_drain ?s" es] s r(1) ring_drained [OF r(1)] by (simp add: cw_drain_def Let_def)
qed

subsection \<open>A key is hit\<close>

text \<open>
  An operation that appends such a trace, without a change of MOX, after which the key is found
  hit at the \<open>m\<close>-th test.
\<close>

definition struck :: "cat_cw \<Rightarrow> cat_cw \<Rightarrow> bool list \<Rightarrow> nat \<Rightarrow> bool" where
  "struck s s' w m \<longleftrightarrow> (\<exists>es. s' = s\<lparr>cw_key_hit_in := Some m, cat_calls := cat_calls s @ es\<rparr> \<and> keys es w
     \<and> (\<forall>b k. Set_mox b k \<notin> set es))"

lemma struckI: "s' = s\<lparr>cw_key_hit_in := Some m, cat_calls := cat_calls s @ es\<rparr> \<Longrightarrow> keys es w
    \<Longrightarrow> \<forall>b k. Set_mox b k \<notin> set es \<Longrightarrow> struck s s' w m"
  by (auto simp: struck_def)

lemma struck_refl: "cw_key_hit_in s = Some m \<Longrightarrow> struck s s [] m"
  by (rule struckI [where es = "[]"]) (simp_all add: keys_Nil)

lemma struck_trans: "struck s s' v m \<Longrightarrow> struck s' s'' w k \<Longrightarrow> struck s s'' (v @ w) k"
  unfolding struck_def by (elim exE conjE) (rule exI, intro conjI, simp, erule (1) keys_append, auto)

lemma struck_frame:
  "struck s s' w m \<Longrightarrow> cw_key_hit_in s' = Some m \<and> dotsamples s' = dotsamples s \<and> dashsamples s' = dashsamples s
    \<and> join_cw_characters s' = join_cw_characters s \<and> cw_buf s' = cw_buf s \<and> CAT_cw_is_active s' = CAT_cw_is_active s"
  by (auto simp: struck_def)

lemma element_hit:
  assumes "cw_key_hit_in s = Some n" and "0 \<le> dotsamples s" and "0 \<le> dashsamples s" and "p \<in> {CHR ''.'', CHR ''-''}"
  shows "struck s (send_element p s) (concat (take n [element (dotsamples s) (dashsamples s) p])) (n - 1)"
proof (cases n)
  case 0
  then show ?thesis using assms
    by (auto simp: send_element_def send_dash_def send_dot_def key_hit_def tested_def keys_def intro!: struckI [where es = "[]"])
next
  case (Suc k)
  then show ?thesis using assms
    by (cases "p = CHR ''-''")
       (auto simp: send_element_def send_dash_def send_dot_def call_def key_hit_def tested_def keys_def element_def
         intro!: struckI)
qed

lemma space_hit:
  assumes "cw_key_hit_in s = Some n" and "0 \<le> dotsamples s" and "0 \<le> l"
  shows "struck s (send_space l s) (concat (take n [replicate (nat (l * dotsamples s)) False])) (n - 1)"
proof (cases n)
  case 0
  then show ?thesis using assms
    by (auto simp: send_space_def key_hit_def tested_def keys_def intro!: struckI [where es = "[]"])
next
  case (Suc k)
  then show ?thesis using assms
    by (auto simp: send_space_def call_def key_hit_def tested_def keys_def intro!: struckI)
qed

lemma elements_hit:
  assumes "cw_key_hit_in s = Some n" and "0 \<le> dotsamples s" and "0 \<le> dashsamples s"
    and "set ps \<subseteq> {CHR ''.'', CHR ''-''}"
  shows "struck s (fold send_element ps s) (concat (take n (map (element (dotsamples s) (dashsamples s)) ps))) (n - length ps)"
  using assms
proof (induction ps arbitrary: s n)
  case (Cons p ps)
  let ?s = "send_element p s"
  have p: "struck s ?s (concat (take n [element (dotsamples s) (dashsamples s) p])) (n - 1)"
    using Cons.prems by (intro element_hit) auto
  have "struck ?s (fold send_element ps ?s) (concat (take (n - 1) (map (element (dotsamples s) (dashsamples s)) ps)))
      (n - 1 - length ps)"
    using Cons.IH [of ?s "n - 1"] Cons.prems struck_frame [OF p] by simp
  from struck_trans [OF p this] show ?case by (cases n) simp_all
qed (simp add: struck_refl)

lemma char_hit:
  fixes c :: char
  assumes "cw_key_hit_in s = Some n" and "0 \<le> dotsamples s" and "0 \<le> dashsamples s"
  defines "ws \<equiv> pieces (dotsamples s) (dashsamples s) (join_cw_characters s) c"
  shows "struck s (rigctl_send_cw_char c s) (concat (take n ws)) (n - length ws)"
proof -
  let ?s = "fold send_element (morse c) s" and ?ms = "map (element (dotsamples s) (dashsamples s)) (morse c)"
  have e: "struck s ?s (concat (take n ?ms)) (n - length ?ms)"
    using elements_hit [OF assms(1-3), of "morse c"] morse_marks by auto
  have ws: "ws = ?ms @ (if c = CHR '' '' then [replicate (nat (6 * dotsamples s)) False]
      else if join_cw_characters s then [] else [replicate (nat (2 * dotsamples s)) False])" (is "_ = _ @ ?p")
    by (simp add: ws_def pieces_def element_marks)
  define m where "m = n - length ?ms"
  note f = struck_frame [OF e [folded m_def]]
  have "struck ?s (rigctl_send_cw_char c s) (concat (take m ?p)) (m - length ?p)"
    using space_hit [of ?s m 6] space_hit [of ?s m 2] assms(2) f struck_refl [of ?s m]
    by (cases "c = CHR '' ''"; cases "join_cw_characters s"; simp add: rigctl_send_cw_char_def Let_def)
  from struck_trans [OF e this] show ?thesis by (simp add: ws m_def)
qed

text \<open>A pass that keys a character that is no command, up to the first test of the flag.\<close>

lemma pass_transmit:
  assumes "ring_get cw_buf_next (cw_buf s) = Some (c, r)" and "is_cw (env_mode e)" and "env_mox e"
    and "\<not> bracket_command s" and "buffered_speed s = 0" and "plain c"
  shows "rigctl_cw_pass e s = cw_transmit e c (s\<lparr>cw_buf := r, dotsamples := dot_of e, dashsamples := dash_of e,
      CAT_cw_is_active := True, cat_calls := cat_calls s @ (if env_remote e then [] else [Transmit_packet])\<rparr>)"
  using assms
  by (simp add: rigctl_cw_pass_def plain_def cw_bracket_def cw_lengths_def set_cat_cw_same dot_of_def dash_of_def Let_def)

text \<open>The thread after a key hit that it has found: CAT CW ends with the text.\<close>

definition aborting :: "cat_cw \<Rightarrow> bool" where
  "aborting s \<longleftrightarrow> cw_key_hit_in s = Some 0 \<and> ring_ok CW_BUF_SIZE (cw_buf s)
     \<and> (inptr (cw_buf s) = outptr (cw_buf s) \<longrightarrow> \<not> CAT_cw_is_active s)"

text \<open>What an operation appends to the calls that neither keys nor changes MOX.\<close>

definition adds :: "cat_cw \<Rightarrow> cat_cw \<Rightarrow> bool list \<Rightarrow> bool" where
  "adds s s' w \<longleftrightarrow> (\<exists>es. cat_calls s' = cat_calls s @ es \<and> keys es w \<and> (\<forall>b k. Set_mox b k \<notin> set es))"

lemma adds_trans: "adds s s' v \<Longrightarrow> adds s' s'' w \<Longrightarrow> adds s s'' (v @ w)"
  unfolding adds_def by (elim exE conjE) (rule exI, intro conjI, simp, erule (1) keys_append, auto)

lemma struck_adds: "struck s s' w m \<Longrightarrow> adds s s' w"
  by (auto simp: struck_def adds_def)

lemma adds_silent: "cat_calls s' = cat_calls s @ es \<Longrightarrow> set es \<subseteq> {Transmit_packet} \<Longrightarrow> adds s s' []"
proof -
  assume a: "cat_calls s' = cat_calls s @ es" "set es \<subseteq> {Transmit_packet}"
  have "keys es []" using a(2) by (induction es) (auto simp: keys_def)
  with a show ?thesis by (auto simp: adds_def)
qed

lemma abort_done:
  assumes "ring_ok CW_BUF_SIZE (cw_buf s)"
  shows "adds s (cw_abort e s) []" and "ring_ok CW_BUF_SIZE (cw_buf (cw_abort e s))"
    and "inptr (cw_buf (cw_abort e s)) = outptr (cw_buf (cw_abort e s))" and "\<not> CAT_cw_is_active (cw_abort e s)"
    and "cw_key_hit_in (cw_abort e s) = cw_key_hit_in s"
  using drain_loop [OF assms, of "env_flow e"]
  by (auto simp: cw_abort_def set_cat_cw_same Let_def intro: adds_silent)

lemma finish_hit:
  assumes "cw_key_hit_in s = Some 0" and "ring_ok CW_BUF_SIZE (cw_buf s)"
  shows "adds s (cw_finish e s) [] \<and> aborting (cw_finish e s)"
  using assms queue_string_ok [OF assms(2), of "env_more e"]
  by (auto simp: cw_finish_def set_cat_cw_same aborting_def key_hit_def tested_def Let_def
      intro: adds_silent [of _ _ "[]"] adds_silent [of _ _ "[Transmit_packet]"])

lemma queue_aborting:
  assumes "aborting s"
  shows "aborting (s\<lparr>cw_buf := rigctl_queue_cw_string t (cw_buf s)\<rparr>)"
proof -
  have ok: "ring_ok CW_BUF_SIZE (cw_buf s)" using assms by (simp add: aborting_def)
  have grows: "ring_list CW_BUF_SIZE (rigctl_queue_cw_string t r) = [] \<Longrightarrow> ring_list CW_BUF_SIZE r = []"
    if "ring_ok CW_BUF_SIZE r" for r
    using that
  proof (induction t arbitrary: r)
    case (Cons c t)
    then have "ring_list CW_BUF_SIZE (rigctl_queue_cw_char c r) = []"
      using Cons.IH [of "rigctl_queue_cw_char c r"] queue_char [OF Cons.prems(2)] by (simp add: rigctl_queue_cw_string_def)
    then show ?case using queue_char(2) [OF Cons.prems(2), of c] by (simp split: if_splits)
  qed (simp add: rigctl_queue_cw_string_def)
  show ?thesis
    using assms grows [OF ok] ring_empty [OF ok] ring_empty [OF queue_string_ok [OF ok]] queue_string_ok [OF ok]
    by (simp add: aborting_def)
qed

lemma aborting_pass:
  assumes "aborting s" and "is_cw (env_mode e)" and "env_mox e"
  shows "adds s (rigctl_cw_pass e s) [] \<and> ring_list CW_BUF_SIZE (cw_buf (rigctl_cw_pass e s)) = []
    \<and> \<not> CAT_cw_is_active (rigctl_cw_pass e s)"
proof (cases "inptr (cw_buf s) = outptr (cw_buf s)")
  case True
  then show ?thesis
    using assms(1) pass_empty [OF True, of e] ring_empty [of "cw_buf s"]
    by (auto simp: aborting_def intro: adds_silent [of _ _ "[]"])
next
  case False
  have ok: "ring_ok CW_BUF_SIZE (cw_buf s)" using assms(1) by (simp add: aborting_def)
  obtain c r where g: "ring_get cw_buf_next (cw_buf s) = Some (c, r)" and r: "ring_ok CW_BUF_SIZE r"
    using ring_get_Cons [OF ok] False ring_empty [OF ok] by (cases "ring_list CW_BUF_SIZE (cw_buf s)") blast+
  obtain c' t where t: "rigctl_cw_pass e s = cw_transmit e c' t" "cw_buf t = r" "cw_key_hit_in t = cw_key_hit_in s"
      "cat_calls t = cat_calls s @ (if env_remote e then [] else [Transmit_packet])"
    using pass_cw [OF g assms(2,3)] by blast
  then have p: "rigctl_cw_pass e s = cw_abort e (tested t)"
    using assms(1) by (simp add: cw_transmit_def key_hit_def aborting_def Let_def)
  have "adds s (tested t) []" using t(4) by (intro adds_silent) (auto simp: tested_def split: if_splits)
  then show ?thesis
    using abort_done [of "tested t" e] adds_trans [of s "tested t" "[]" _ "[]"] t(2) r
      ring_empty [of "cw_buf (cw_abort e (tested t))"]
    by (simp add: p tested_def)
qed

text \<open>
  C39. A key that is hit ends a text at once. If the program finds the key hit when it starts with a
  character, at one of its marks, at the pause after it or at its end (the \<open>n\<close>-th of these tests),
  only the marks before that test are keyed. Whatever is queued then and during the abort, after
  the next pass the ring is empty and CAT CW is over, no further event has been sent, the key is
  up, and MOX is left to the operator.
\<close>

theorem cw_key_aborts:
  assumes "ring_ok CW_BUF_SIZE (cw_buf s)" and "ring_list CW_BUF_SIZE (cw_buf s) = c # cs" and "plain c"
    and "\<not> bracket_command s" and "buffered_speed s = 0"
    and "is_cw (env_mode e)" and "env_mox e" and "0 < env_speed e" and "0 \<le> env_weight e"
    and "is_cw (env_mode e')" and "env_mox e'"
    and "ws = pieces (57600 div env_speed e) (3456 * env_weight e div env_speed e) (join_cw_characters s) c"
    and "cw_key_hit_in s = Some n" and "n \<le> length ws + 1"
  shows "let s1 = rigctl_cw_pass e s; s2 = rigctl_cw_pass e' (s1\<lparr>cw_buf := rigctl_queue_cw_string t (cw_buf s1)\<rparr>);
      sent = drop (length (cat_calls s)) (cat_calls s2)
    in keyed False sent = concat (take (n - 1) ws) \<and> \<not> key_after False sent \<and> (\<forall>b k. Set_mox b k \<notin> set sent)
       \<and> ring_list CW_BUF_SIZE (cw_buf s2) = [] \<and> \<not> CAT_cw_is_active s2"
proof -
  obtain r where g: "ring_get cw_buf_next (cw_buf s) = Some (c, r)" and r: "ring_ok CW_BUF_SIZE r"
    using ring_get_Cons [OF assms(1,2)] by blast
  let ?p = "s\<lparr>cw_buf := r, dotsamples := dot_of e, dashsamples := dash_of e,
      CAT_cw_is_active := True, cat_calls := cat_calls s @ (if env_remote e then [] else [Transmit_packet])\<rparr>"
  let ?s1 = "rigctl_cw_pass e s"
  have p: "?s1 = cw_transmit e c ?p" by (rule pass_transmit [OF g assms(6,7,4,5,3)])
  have d: "0 \<le> dot_of e" "0 \<le> dash_of e"
    using assms(8,9) by (simp_all add: dot_of_def dash_of_def pos_imp_zdiv_nonneg_iff)
  have q: "adds s (tested ?p) []" by (rule adds_silent [of _ _ "if env_remote e then [] else [Transmit_packet]"]) (simp_all add: tested_def)
  have s1: "adds s ?s1 (concat (take (n - 1) ws)) \<and> aborting ?s1"
  proof (cases n)
    case 0
    then have "?s1 = cw_abort e (tested ?p)"
      using assms(13) by (simp add: p cw_transmit_def key_hit_def Let_def)
    then show ?thesis
      using abort_done [of "tested ?p" e] adds_trans [OF q, of _ "[]"] r 0 assms(13) by (simp add: aborting_def tested_def)
  next
    case (Suc k)
    let ?u = "rigctl_send_cw_char c (tested ?p)"
    have s1: "?s1 = cw_finish e ?u"
      using assms(3,13) Suc by (simp add: p cw_transmit_def key_hit_def plain_def Let_def)
    have u: "struck (tested ?p) ?u (concat (take k ws)) (k - length ws)"
      using char_hit [of "tested ?p" k c] assms(12,13) d Suc by (simp add: tested_def dot_of_def dash_of_def)
    have "cw_key_hit_in ?u = Some 0" "ring_ok CW_BUF_SIZE (cw_buf ?u)"
      using struck_frame [OF u] assms(14) Suc r by (simp_all add: tested_def)
    then show ?thesis
      using finish_hit [of ?u e] adds_trans [OF q struck_adds [OF u]] adds_trans [of s ?u "concat (take k ws)" ?s1 "[]"] Suc
      by (simp add: s1)
  qed
  let ?t1 = "?s1\<lparr>cw_buf := rigctl_queue_cw_string t (cw_buf ?s1)\<rparr>"
  have "adds s ?t1 (concat (take (n - 1) ws))" using s1 by (simp add: adds_def)
  then show ?thesis
    using aborting_pass [OF queue_aborting assms(10,11), of ?s1 t] s1 adds_trans [of s ?t1 _ "rigctl_cw_pass e' ?t1" "[]"]
    by (auto simp: Let_def adds_def keys_def)
qed

end
