(* ===== verification/CW_Text_Examples.thy ===== *)
theory CW_Text_Examples
  imports CW_Text_Keying
begin

text \<open>The properties of CW text at concrete texts and radios.\<close>

definition cat_sample :: "string \<Rightarrow> nat option \<Rightarrow> cat_cw" where
  "cat_sample cs hit = \<lparr>cw_buf = rigctl_queue_cw_string cs (empty_ring CW_BUF_SIZE CHR 0x00), cw_key_hit_in = hit,
     join_cw_characters = False, buffered_speed = 0, bracket_command = False, dotsamples = 0, dashsamples = 0,
     CAT_cw_is_active = False, cat_calls = []\<rparr>"

definition cw_env_sample :: "mode \<Rightarrow> cw_env" where
  "cw_env_sample m = \<lparr>env_mode = m, env_mox = True, env_mox_comes = False, env_more = [], env_flow = [], env_ptt = False,
     env_remote = False, env_speed = 20, env_weight = 50\<rparr>"

lemma cw_sample_ring:
  assumes "list_all printable cs" and "length cs \<le> 511"
  shows "ring_ok CW_BUF_SIZE (cw_buf (cat_sample cs hit))" and "ring_list CW_BUF_SIZE (cw_buf (cat_sample cs hit)) = cs"
proof -
  have "filter printable cs = cs" using assms(1) by (simp add: list_all_iff)
  then show "ring_ok CW_BUF_SIZE (cw_buf (cat_sample cs hit))" "ring_list CW_BUF_SIZE (cw_buf (cat_sample cs hit)) = cs"
    using queue_string [of "empty_ring CW_BUF_SIZE CHR 0x00" cs] assms(2) empty_ring [of 512 "CHR 0x00"]
    by (simp_all add: cat_sample_def)
qed

lemma printable_samples: "list_all printable ''EE'' \<and> list_all printable ''E E'' \<and> list_all printable ''A a''"
  by (simp add: printable_def)

lemmas ring_EE = cw_sample_ring [OF conjunct1 [OF printable_samples], simplified]
lemmas ring_E_E = cw_sample_ring [OF conjunct1 [OF conjunct2 [OF printable_samples]], simplified]
lemmas ring_A_a = cw_sample_ring [OF conjunct2 [OF conjunct2 [OF printable_samples]], simplified]

lemma cat_sample_state:
  "idle_cw (cat_sample cs None)" "\<not> join_cw_characters (cat_sample cs hit)" "\<not> key_hit (cat_sample cs None)"
  "key_hit (cat_sample cs (Some 0))" "cat_calls (cat_sample cs hit) = []"
  by (simp_all add: cat_sample_def idle_cw_def key_hit_def)

lemma cw_env_sample:
  "sending (cw_env_sample modeCWU)" "is_cw (env_mode (cw_env_sample modeCWU))" "\<not> is_cw (env_mode (cw_env_sample modeUSB))"
  "env_mox (cw_env_sample m)" "env_speed (cw_env_sample m) = 20" "env_weight (cw_env_sample m) = 50" "\<not> env_ptt (cw_env_sample m)"
  by (simp_all add: cw_env_sample_def sending_def is_cw_def)

lemma cat_sample_rest:
  "\<not> bracket_command (cat_sample cs hit)" "buffered_speed (cat_sample cs hit) = 0" "cw_key_hit_in (cat_sample cs hit) = hit"
  by (simp_all add: cat_sample_def)

lemma cw_env_rest: "0 < env_speed (cw_env_sample m)" "0 \<le> env_weight (cw_env_sample m)"
  by (simp_all add: cw_env_sample_def)

lemma morse_E: "morse CHR ''E'' = ''.''"
  by code_simp

lemma pieces_samples:
  "pieces 2880 8640 False CHR ''A'' = [replicate 2880 True @ replicate 2880 False, replicate 8640 True @ replicate 2880 False,
     replicate 5760 False]"
  "pieces 2880 8640 False CHR ''a'' = pieces 2880 8640 False CHR ''A''"
  "pieces 2880 8640 False CHR '' '' = [replicate 17280 False]"
  "pieces 2880 8640 False CHR '':'' = pieces 2880 8640 False CHR ''8''"
proof -
  have "itu (canonical CHR ''A'') = [False, True]" "itu (canonical CHR ''a'') = [False, True]"
    "itu (canonical CHR '' '') = []" "itu (canonical CHR '':'') = itu (canonical CHR ''8'')"
    by code_simp+
  then show "pieces 2880 8640 False CHR ''A'' = [replicate 2880 True @ replicate 2880 False, replicate 8640 True @ replicate 2880 False,
     replicate 5760 False]"
    "pieces 2880 8640 False CHR ''a'' = pieces 2880 8640 False CHR ''A''"
    "pieces 2880 8640 False CHR '' '' = [replicate 17280 False]"
    "pieces 2880 8640 False CHR '':'' = pieces 2880 8640 False CHR ''8''"
    by (simp_all add: pieces_def mark_def del: replicate.simps)
qed


lemma cw_word_gap_example:
  "\<exists>u v. keyed False (cat_calls ((rigctl_cw_pass (cw_env_sample modeCWU) ^^ 3) (cat_sample ''E E'' None)))
     = u @ True # replicate 25920 False @ True # v"
  using cw_word_gap [OF ring_E_E(1) [of None] ring_E_E(2) [of None] cw_env_sample(1) cat_sample_state(1,2)]
  by (simp add: plain_def cat_sample_state cw_env_sample morse_E del: replicate.simps)

theorem cw_text_stuck_example:
  "let s' = fold rigctl_cw_pass [cw_env_sample modeCWU, cw_env_sample modeUSB, cw_env_sample modeCWU] (cat_sample ''EE'' None)
   in ring_list CW_BUF_SIZE (cw_buf s') = [] \<and> CAT_cw_is_active s'"
  using cw_text_stuck [OF ring_EE(1) [of None] ring_EE(2) [of None] cw_env_sample(2,4) cat_sample_state(3) cw_env_sample(3),
      of "[cw_env_sample modeCWU]"]
  by (simp add: Let_def)

text \<open>
  The key is found hit at the second of the two marks of an A: its dot is keyed, not its dash, and
  nothing of what follows, although more characters are queued meanwhile.
\<close>

theorem cw_key_aborts_example:
  "let e = cw_env_sample modeCWU; s1 = rigctl_cw_pass e (cat_sample ''A a'' (Some 2));
     s2 = rigctl_cw_pass e (s1\<lparr>cw_buf := rigctl_queue_cw_string ''EE'' (cw_buf s1)\<rparr>)
   in keyed False (cat_calls s2) = replicate 2880 True @ replicate 2880 False
      \<and> ring_list CW_BUF_SIZE (cw_buf s2) = [] \<and> \<not> CAT_cw_is_active s2"
  using cw_key_aborts [OF ring_A_a(1) [of "Some 2"] ring_A_a(2) [of "Some 2"] _ cat_sample_rest(1,2) cw_env_sample(2,4)
      cw_env_rest cw_env_sample(2,4) refl cat_sample_rest(3)]
  by (simp add: plain_def cat_sample_state cw_env_sample Let_def pieces_samples del: replicate.simps)

lemma purge_race_example:
  "\<exists>c r'. ring_get cw_buf_next (cw_buf (cat_sample ''EE'' None)) = Some (c, r')
    \<and> length (ring_list CW_BUF_SIZE (purge_write (purge_read (cw_buf (cat_sample ''EE'' None))) r')) = 511"
proof -
  obtain r where r: "ring_get cw_buf_next (cw_buf (cat_sample ''EE'' None)) = Some (CHR ''E'', r)"
    using ring_get_Cons [OF ring_EE(1,2)] by blast
  with purge_race [OF ring_EE(1) r] show ?thesis by blast
qed

end
