(* ===== verification/Action_Table.thy ===== *)
theory Action_Table
  imports Radio_State
begin

text \<open>
  The actions a knob, a button, a toolbar entry or a MIDI control can be assigned to
  (\<^verbatim>\<open>src/src/actions.h\<close> and the tables of \<^verbatim>\<open>src/src/actions.c\<close>). The code computes with
  the constants of \<open>enum ACTION\<close>, so they are numbers here. In the settings file an action has the
  text of its button; the lemmas show which of these texts are found again.
\<close>

subsection \<open>The constants\<close>

abbreviation (input) "NO_ACTION \<equiv> 0 :: nat"
abbreviation (input) "A_SWAP_B \<equiv> 1 :: nat"
abbreviation (input) "B_TO_A \<equiv> 2 :: nat"
abbreviation (input) "A_TO_B \<equiv> 3 :: nat"
abbreviation (input) "AF_GAIN \<equiv> 4 :: nat"
abbreviation (input) "AF_GAIN_RX1 \<equiv> 5 :: nat"
abbreviation (input) "AF_GAIN_RX2 \<equiv> 6 :: nat"
abbreviation (input) "AGC \<equiv> 7 :: nat"
abbreviation (input) "AGC_GAIN \<equiv> 8 :: nat"
abbreviation (input) "AGC_GAIN_RX1 \<equiv> 9 :: nat"
abbreviation (input) "AGC_GAIN_RX2 \<equiv> 10 :: nat"
abbreviation (input) "MENU_AGC \<equiv> 11 :: nat"
abbreviation (input) "ANF \<equiv> 12 :: nat"
abbreviation (input) "ATTENUATION \<equiv> 13 :: nat"
abbreviation (input) "BAND_10 \<equiv> 14 :: nat"
abbreviation (input) "BAND_12 \<equiv> 15 :: nat"
abbreviation (input) "BAND_1240 \<equiv> 16 :: nat"
abbreviation (input) "BAND_136 \<equiv> 17 :: nat"
abbreviation (input) "BAND_144 \<equiv> 18 :: nat"
abbreviation (input) "BAND_15 \<equiv> 19 :: nat"
abbreviation (input) "BAND_160 \<equiv> 20 :: nat"
abbreviation (input) "BAND_17 \<equiv> 21 :: nat"
abbreviation (input) "BAND_20 \<equiv> 22 :: nat"
abbreviation (input) "BAND_220 \<equiv> 23 :: nat"
abbreviation (input) "BAND_2300 \<equiv> 24 :: nat"
abbreviation (input) "BAND_30 \<equiv> 25 :: nat"
abbreviation (input) "BAND_3400 \<equiv> 26 :: nat"
abbreviation (input) "BAND_40 \<equiv> 27 :: nat"
abbreviation (input) "BAND_430 \<equiv> 28 :: nat"
abbreviation (input) "BAND_6 \<equiv> 29 :: nat"
abbreviation (input) "BAND_60 \<equiv> 30 :: nat"
abbreviation (input) "BAND_70 \<equiv> 31 :: nat"
abbreviation (input) "BAND_80 \<equiv> 32 :: nat"
abbreviation (input) "BAND_902 \<equiv> 33 :: nat"
abbreviation (input) "BAND_AIR \<equiv> 34 :: nat"
abbreviation (input) "BAND_GEN \<equiv> 35 :: nat"
abbreviation (input) "BAND_MINUS \<equiv> 36 :: nat"
abbreviation (input) "BAND_PLUS \<equiv> 37 :: nat"
abbreviation (input) "BAND_WWV \<equiv> 38 :: nat"
abbreviation (input) "BANDSTACK_MINUS \<equiv> 39 :: nat"
abbreviation (input) "BANDSTACK_PLUS \<equiv> 40 :: nat"
abbreviation (input) "MENU_BAND \<equiv> 41 :: nat"
abbreviation (input) "MENU_BANDSTACK \<equiv> 42 :: nat"
abbreviation (input) "CAPTURE \<equiv> 43 :: nat"
abbreviation (input) "COMP_ENABLE \<equiv> 44 :: nat"
abbreviation (input) "COMPRESSION \<equiv> 45 :: nat"
abbreviation (input) "CTUN \<equiv> 46 :: nat"
abbreviation (input) "CW_AUDIOPEAKFILTER \<equiv> 47 :: nat"
abbreviation (input) "CW_FREQUENCY \<equiv> 48 :: nat"
abbreviation (input) "CW_LEFT \<equiv> 49 :: nat"
abbreviation (input) "CW_RIGHT \<equiv> 50 :: nat"
abbreviation (input) "CW_SPEED \<equiv> 51 :: nat"
abbreviation (input) "CW_KEYER_KEYDOWN \<equiv> 52 :: nat"
abbreviation (input) "CW_KEYER_PTT \<equiv> 53 :: nat"
abbreviation (input) "CW_KEYER_SPEED \<equiv> 54 :: nat"
abbreviation (input) "CW_TXT_1 \<equiv> 55 :: nat"
abbreviation (input) "CW_TXT_2 \<equiv> 56 :: nat"
abbreviation (input) "CW_TXT_3 \<equiv> 57 :: nat"
abbreviation (input) "CW_TXT_4 \<equiv> 58 :: nat"
abbreviation (input) "CW_TXT_5 \<equiv> 59 :: nat"
abbreviation (input) "DIV \<equiv> 60 :: nat"
abbreviation (input) "DIV_GAIN \<equiv> 61 :: nat"
abbreviation (input) "DIV_GAIN_COARSE \<equiv> 62 :: nat"
abbreviation (input) "DIV_GAIN_FINE \<equiv> 63 :: nat"
abbreviation (input) "DIV_PHASE \<equiv> 64 :: nat"
abbreviation (input) "DIV_PHASE_COARSE \<equiv> 65 :: nat"
abbreviation (input) "DIV_PHASE_FINE \<equiv> 66 :: nat"
abbreviation (input) "MENU_DIVERSITY \<equiv> 67 :: nat"
abbreviation (input) "DUPLEX \<equiv> 68 :: nat"
abbreviation (input) "FILTER_MINUS \<equiv> 69 :: nat"
abbreviation (input) "FILTER_PLUS \<equiv> 70 :: nat"
abbreviation (input) "FILTER_CUT_LOW \<equiv> 71 :: nat"
abbreviation (input) "FILTER_CUT_HIGH \<equiv> 72 :: nat"
abbreviation (input) "FILTER_CUT_DEFAULT \<equiv> 73 :: nat"
abbreviation (input) "MENU_FILTER \<equiv> 74 :: nat"
abbreviation (input) "MENU_FREQUENCY \<equiv> 75 :: nat"
abbreviation (input) "FUNCTION \<equiv> 76 :: nat"
abbreviation (input) "FUNCTIONREV \<equiv> 77 :: nat"
abbreviation (input) "ICONIFY \<equiv> 78 :: nat"
abbreviation (input) "IF_SHIFT \<equiv> 79 :: nat"
abbreviation (input) "IF_SHIFT_RX1 \<equiv> 80 :: nat"
abbreviation (input) "IF_SHIFT_RX2 \<equiv> 81 :: nat"
abbreviation (input) "IF_WIDTH \<equiv> 82 :: nat"
abbreviation (input) "IF_WIDTH_RX1 \<equiv> 83 :: nat"
abbreviation (input) "IF_WIDTH_RX2 \<equiv> 84 :: nat"
abbreviation (input) "LINEIN_GAIN \<equiv> 85 :: nat"
abbreviation (input) "LOCK \<equiv> 86 :: nat"
abbreviation (input) "MENU_MAIN \<equiv> 87 :: nat"
abbreviation (input) "MENU_MEMORY \<equiv> 88 :: nat"
abbreviation (input) "MIC_GAIN \<equiv> 89 :: nat"
abbreviation (input) "MODE_MINUS \<equiv> 90 :: nat"
abbreviation (input) "MODE_PLUS \<equiv> 91 :: nat"
abbreviation (input) "MENU_MODE \<equiv> 92 :: nat"
abbreviation (input) "MOX \<equiv> 93 :: nat"
abbreviation (input) "MULTI_ENC \<equiv> 94 :: nat"
abbreviation (input) "MULTI_SELECT \<equiv> 95 :: nat"
abbreviation (input) "MULTI_BUTTON \<equiv> 96 :: nat"
abbreviation (input) "MUTE \<equiv> 97 :: nat"
abbreviation (input) "MUTE_RX1 \<equiv> 98 :: nat"
abbreviation (input) "MUTE_RX2 \<equiv> 99 :: nat"
abbreviation (input) "NB \<equiv> 100 :: nat"
abbreviation (input) "NOTCH1_CEN \<equiv> 101 :: nat"
abbreviation (input) "NOTCH2_CEN \<equiv> 102 :: nat"
abbreviation (input) "NOTCH3_CEN \<equiv> 103 :: nat"
abbreviation (input) "NOTCH1_WID \<equiv> 104 :: nat"
abbreviation (input) "NOTCH2_WID \<equiv> 105 :: nat"
abbreviation (input) "NOTCH3_WID \<equiv> 106 :: nat"
abbreviation (input) "NOTCH1_EN \<equiv> 107 :: nat"
abbreviation (input) "NOTCH2_EN \<equiv> 108 :: nat"
abbreviation (input) "NOTCH3_EN \<equiv> 109 :: nat"
abbreviation (input) "NR \<equiv> 110 :: nat"
abbreviation (input) "MENU_NOISE \<equiv> 111 :: nat"
abbreviation (input) "NUMPAD_0 \<equiv> 112 :: nat"
abbreviation (input) "NUMPAD_1 \<equiv> 113 :: nat"
abbreviation (input) "NUMPAD_2 \<equiv> 114 :: nat"
abbreviation (input) "NUMPAD_3 \<equiv> 115 :: nat"
abbreviation (input) "NUMPAD_4 \<equiv> 116 :: nat"
abbreviation (input) "NUMPAD_5 \<equiv> 117 :: nat"
abbreviation (input) "NUMPAD_6 \<equiv> 118 :: nat"
abbreviation (input) "NUMPAD_7 \<equiv> 119 :: nat"
abbreviation (input) "NUMPAD_8 \<equiv> 120 :: nat"
abbreviation (input) "NUMPAD_9 \<equiv> 121 :: nat"
abbreviation (input) "NUMPAD_BS \<equiv> 122 :: nat"
abbreviation (input) "NUMPAD_CL \<equiv> 123 :: nat"
abbreviation (input) "NUMPAD_DEC \<equiv> 124 :: nat"
abbreviation (input) "NUMPAD_KHZ \<equiv> 125 :: nat"
abbreviation (input) "NUMPAD_MHZ \<equiv> 126 :: nat"
abbreviation (input) "NUMPAD_ENTER \<equiv> 127 :: nat"
abbreviation (input) "PAN \<equiv> 128 :: nat"
abbreviation (input) "PAN_MINUS \<equiv> 129 :: nat"
abbreviation (input) "PAN_PLUS \<equiv> 130 :: nat"
abbreviation (input) "PANADAPTER_HIGH \<equiv> 131 :: nat"
abbreviation (input) "PANADAPTER_LOW \<equiv> 132 :: nat"
abbreviation (input) "PANADAPTER_STEP \<equiv> 133 :: nat"
abbreviation (input) "PREAMP \<equiv> 134 :: nat"
abbreviation (input) "PS \<equiv> 135 :: nat"
abbreviation (input) "MENU_PS \<equiv> 136 :: nat"
abbreviation (input) "PTT \<equiv> 137 :: nat"
abbreviation (input) "MENU_RADIO \<equiv> 138 :: nat"
abbreviation (input) "RCL0 \<equiv> 139 :: nat"
abbreviation (input) "RCL1 \<equiv> 140 :: nat"
abbreviation (input) "RCL2 \<equiv> 141 :: nat"
abbreviation (input) "RCL3 \<equiv> 142 :: nat"
abbreviation (input) "RCL4 \<equiv> 143 :: nat"
abbreviation (input) "RCL5 \<equiv> 144 :: nat"
abbreviation (input) "RCL6 \<equiv> 145 :: nat"
abbreviation (input) "RCL7 \<equiv> 146 :: nat"
abbreviation (input) "RCL8 \<equiv> 147 :: nat"
abbreviation (input) "RCL9 \<equiv> 148 :: nat"
abbreviation (input) "REPLAY \<equiv> 149 :: nat"
abbreviation (input) "RF_GAIN \<equiv> 150 :: nat"
abbreviation (input) "RF_GAIN_RX1 \<equiv> 151 :: nat"
abbreviation (input) "RF_GAIN_RX2 \<equiv> 152 :: nat"
abbreviation (input) "RIT \<equiv> 153 :: nat"
abbreviation (input) "RIT_CLEAR \<equiv> 154 :: nat"
abbreviation (input) "RIT_ENABLE \<equiv> 155 :: nat"
abbreviation (input) "RIT_MINUS \<equiv> 156 :: nat"
abbreviation (input) "RIT_PLUS \<equiv> 157 :: nat"
abbreviation (input) "RIT_RX1 \<equiv> 158 :: nat"
abbreviation (input) "RIT_RX2 \<equiv> 159 :: nat"
abbreviation (input) "RIT_STEP \<equiv> 160 :: nat"
abbreviation (input) "RITXIT \<equiv> 161 :: nat"
abbreviation (input) "RITSELECT \<equiv> 162 :: nat"
abbreviation (input) "RITXIT_CLEAR \<equiv> 163 :: nat"
abbreviation (input) "RSAT \<equiv> 164 :: nat"
abbreviation (input) "MENU_RX \<equiv> 165 :: nat"
abbreviation (input) "RX1 \<equiv> 166 :: nat"
abbreviation (input) "RX2 \<equiv> 167 :: nat"
abbreviation (input) "SAT \<equiv> 168 :: nat"
abbreviation (input) "SHUTDOWN \<equiv> 169 :: nat"
abbreviation (input) "SNB \<equiv> 170 :: nat"
abbreviation (input) "SPLIT \<equiv> 171 :: nat"
abbreviation (input) "SQUELCH \<equiv> 172 :: nat"
abbreviation (input) "SQUELCH_RX1 \<equiv> 173 :: nat"
abbreviation (input) "SQUELCH_RX2 \<equiv> 174 :: nat"
abbreviation (input) "SWAP_RX \<equiv> 175 :: nat"
abbreviation (input) "TOOLBAR1 \<equiv> 176 :: nat"
abbreviation (input) "TOOLBAR2 \<equiv> 177 :: nat"
abbreviation (input) "TOOLBAR3 \<equiv> 178 :: nat"
abbreviation (input) "TOOLBAR4 \<equiv> 179 :: nat"
abbreviation (input) "TOOLBAR5 \<equiv> 180 :: nat"
abbreviation (input) "TOOLBAR6 \<equiv> 181 :: nat"
abbreviation (input) "TOOLBAR7 \<equiv> 182 :: nat"
abbreviation (input) "TUNE \<equiv> 183 :: nat"
abbreviation (input) "TUNE_DRIVE \<equiv> 184 :: nat"
abbreviation (input) "TUNE_FULL \<equiv> 185 :: nat"
abbreviation (input) "TUNE_MEMORY \<equiv> 186 :: nat"
abbreviation (input) "DRIVE \<equiv> 187 :: nat"
abbreviation (input) "TWO_TONE \<equiv> 188 :: nat"
abbreviation (input) "MENU_TX \<equiv> 189 :: nat"
abbreviation (input) "VFO \<equiv> 190 :: nat"
abbreviation (input) "VFO_STEP_MINUS \<equiv> 191 :: nat"
abbreviation (input) "VFO_STEP_PLUS \<equiv> 192 :: nat"
abbreviation (input) "VFOA \<equiv> 193 :: nat"
abbreviation (input) "VFOB \<equiv> 194 :: nat"
abbreviation (input) "MENU_VFO \<equiv> 195 :: nat"
abbreviation (input) "VOX \<equiv> 196 :: nat"
abbreviation (input) "VOXLEVEL \<equiv> 197 :: nat"
abbreviation (input) "WATERFALL_HIGH \<equiv> 198 :: nat"
abbreviation (input) "WATERFALL_LOW \<equiv> 199 :: nat"
abbreviation (input) "XIT \<equiv> 200 :: nat"
abbreviation (input) "XIT_CLEAR \<equiv> 201 :: nat"
abbreviation (input) "XIT_ENABLE \<equiv> 202 :: nat"
abbreviation (input) "XIT_MINUS \<equiv> 203 :: nat"
abbreviation (input) "XIT_PLUS \<equiv> 204 :: nat"
abbreviation (input) "ZOOM \<equiv> 205 :: nat"
abbreviation (input) "ZOOM_MINUS \<equiv> 206 :: nat"
abbreviation (input) "ZOOM_PLUS \<equiv> 207 :: nat"
abbreviation (input) "ACTIONS \<equiv> 208 :: nat"

abbreviation (input) "AT_NONE \<equiv> 0 :: nat"
abbreviation (input) "AT_BTN \<equiv> 1 :: nat"
abbreviation (input) "AT_KNB \<equiv> 2 :: nat"
abbreviation (input) "AT_ENC \<equiv> 4 :: nat"
abbreviation (input) "AT_SLD \<equiv> 8 :: nat"

datatype action_mode = RELATIVE | ABSOLUTE | PRESSED | RELEASED

subsection \<open>The table\<close>

text \<open>Action, short text of the button, and the kinds of controls it can be assigned to.\<close>

definition ActionTable :: "(nat \<times> string \<times> nat) list" where
  "ActionTable = [
    (NO_ACTION, ''NONE'', AT_NONE), (A_SWAP_B, ''A<>B'', AT_BTN), (B_TO_A, ''A<B'', AT_BTN),
    (A_TO_B, ''A>B'', AT_BTN), (AF_GAIN, ''AFGAIN'', AT_KNB OR AT_ENC OR AT_SLD),
    (AF_GAIN_RX1, ''AFGAIN1'', AT_KNB OR AT_ENC), (AF_GAIN_RX2, ''AFGAIN2'', AT_KNB OR AT_ENC),
    (AGC, ''AGCT'', AT_BTN), (AGC_GAIN, ''AGCGain'', AT_KNB OR AT_ENC OR AT_SLD),
    (AGC_GAIN_RX1, ''AGCGain1'', AT_KNB OR AT_ENC), (AGC_GAIN_RX2, ''AGCGain2'', AT_KNB OR AT_ENC),
    (MENU_AGC, ''AGC'', AT_BTN), (ANF, ''ANF'', AT_BTN),
    (ATTENUATION, ''ATTEN'', AT_KNB OR AT_ENC OR AT_SLD), (BAND_10, ''10'', AT_BTN),
    (BAND_12, ''12'', AT_BTN), (BAND_1240, ''1240'', AT_BTN), (BAND_136, ''136'', AT_BTN),
    (BAND_144, ''144'', AT_BTN), (BAND_15, ''15'', AT_BTN), (BAND_160, ''160'', AT_BTN),
    (BAND_17, ''17'', AT_BTN), (BAND_20, ''20'', AT_BTN), (BAND_220, ''220'', AT_BTN),
    (BAND_2300, ''2300'', AT_BTN), (BAND_30, ''30'', AT_BTN), (BAND_3400, ''3400'', AT_BTN),
    (BAND_40, ''40'', AT_BTN), (BAND_430, ''430'', AT_BTN), (BAND_6, ''6'', AT_BTN),
    (BAND_60, ''60'', AT_BTN), (BAND_70, ''70'', AT_BTN), (BAND_80, ''80'', AT_BTN),
    (BAND_902, ''902'', AT_BTN), (BAND_AIR, ''AIR'', AT_BTN), (BAND_GEN, ''GEN'', AT_BTN),
    (BAND_MINUS, ''BND-'', AT_BTN), (BAND_PLUS, ''BND+'', AT_BTN), (BAND_WWV, ''WWV'', AT_BTN),
    (BANDSTACK_MINUS, ''BSTK-'', AT_BTN), (BANDSTACK_PLUS, ''BSTK+'', AT_BTN),
    (MENU_BAND, ''BAND'', AT_BTN), (MENU_BANDSTACK, ''BSTK'', AT_BTN), (CAPTURE, ''CAPTUR'', AT_BTN),
    (COMP_ENABLE, ''COMP'', AT_BTN), (COMPRESSION, ''COMPVAL'', AT_KNB OR AT_ENC OR AT_SLD),
    (CTUN, ''CTUN'', AT_BTN), (CW_AUDIOPEAKFILTER, ''CW-APF'', AT_BTN),
    (CW_FREQUENCY, ''CWFREQ'', AT_KNB OR AT_ENC), (CW_LEFT, ''CWL'', AT_BTN),
    (CW_RIGHT, ''CWR'', AT_BTN), (CW_SPEED, ''CWSPD'', AT_KNB OR AT_ENC OR AT_SLD),
    (CW_KEYER_KEYDOWN, ''CWKy'', AT_BTN), (CW_KEYER_PTT, ''CWKyPTT'', AT_BTN),
    (CW_KEYER_SPEED, ''CWKySpd'', AT_KNB), (CW_TXT_1, ''CWTxt1'', AT_BTN),
    (CW_TXT_2, ''CWTxt2'', AT_BTN), (CW_TXT_3, ''CWTxt3'', AT_BTN), (CW_TXT_4, ''CWTxt4'', AT_BTN),
    (CW_TXT_5, ''CWTxt5'', AT_BTN), (DIV, ''DIVT'', AT_BTN), (DIV_GAIN, ''DIVG'', AT_ENC),
    (DIV_GAIN_COARSE, ''DIVGC'', AT_ENC), (DIV_GAIN_FINE, ''DIVGF'', AT_ENC),
    (DIV_PHASE, ''DIVP'', AT_ENC), (DIV_PHASE_COARSE, ''DIVPC'', AT_ENC),
    (DIV_PHASE_FINE, ''DIVPF'', AT_ENC), (MENU_DIVERSITY, ''DIV'', AT_BTN), (DUPLEX, ''DUP'', AT_BTN),
    (FILTER_MINUS, ''FL-'', AT_BTN), (FILTER_PLUS, ''FL+'', AT_BTN), (FILTER_CUT_LOW, ''FCUTL'', AT_ENC),
    (FILTER_CUT_HIGH, ''FCUTH'', AT_ENC), (FILTER_CUT_DEFAULT, ''FCUTDEF'', AT_BTN),
    (MENU_FILTER, ''FILT'', AT_BTN), (MENU_FREQUENCY, ''FREQ'', AT_BTN), (FUNCTION, ''FUNC'', AT_BTN),
    (FUNCTIONREV, ''FUNC-'', AT_BTN), (ICONIFY, ''ICON'', AT_BTN), (IF_SHIFT, ''IFSHFT'', AT_ENC),
    (IF_SHIFT_RX1, ''IFSHFT1'', AT_ENC), (IF_SHIFT_RX2, ''IFSHFT2'', AT_ENC),
    (IF_WIDTH, ''IFWIDTH'', AT_ENC), (IF_WIDTH_RX1, ''IFWIDTH1'', AT_ENC),
    (IF_WIDTH_RX2, ''IFWIDTH2'', AT_ENC), (LINEIN_GAIN, ''LIGAIN'', AT_KNB OR AT_ENC OR AT_SLD),
    (LOCK, ''LOCKM'', AT_BTN), (MENU_MAIN, ''MAIN'', AT_BTN), (MENU_MEMORY, ''MEM'', AT_BTN),
    (MIC_GAIN, ''MICGAIN'', AT_KNB OR AT_ENC OR AT_SLD), (MODE_MINUS, ''MD-'', AT_BTN),
    (MODE_PLUS, ''MD+'', AT_BTN), (MENU_MODE, ''MODE'', AT_BTN), (MOX, ''MOX'', AT_BTN),
    (MULTI_ENC, ''MULTI'', AT_ENC), (MULTI_SELECT, ''MULTISEL'', AT_ENC),
    (MULTI_BUTTON, ''MULTIBTN'', AT_BTN), (MUTE, ''MUTE'', AT_BTN), (MUTE_RX1, ''MUTE1'', AT_BTN),
    (MUTE_RX2, ''MUTE2'', AT_BTN), (NB, ''NB'', AT_BTN), (NOTCH1_CEN, ''Notch1C'', AT_ENC),
    (NOTCH2_CEN, ''Notch2C'', AT_ENC), (NOTCH3_CEN, ''Notch3C'', AT_ENC),
    (NOTCH1_WID, ''Notch1W'', AT_ENC), (NOTCH2_WID, ''Notch2W'', AT_ENC),
    (NOTCH3_WID, ''Notch3W'', AT_ENC), (NOTCH1_EN, ''Notch1E'', AT_BTN),
    (NOTCH2_EN, ''Notch2E'', AT_BTN), (NOTCH3_EN, ''Notch3E'', AT_BTN), (NR, ''NR'', AT_BTN),
    (MENU_NOISE, ''NOISE'', AT_BTN), (NUMPAD_0, ''0'', AT_BTN), (NUMPAD_1, ''1'', AT_BTN),
    (NUMPAD_2, ''2'', AT_BTN), (NUMPAD_3, ''3'', AT_BTN), (NUMPAD_4, ''4'', AT_BTN),
    (NUMPAD_5, ''5'', AT_BTN), (NUMPAD_6, ''6'', AT_BTN), (NUMPAD_7, ''7'', AT_BTN),
    (NUMPAD_8, ''8'', AT_BTN), (NUMPAD_9, ''9'', AT_BTN), (NUMPAD_BS, ''BS'', AT_BTN),
    (NUMPAD_CL, ''CL'', AT_BTN), (NUMPAD_DEC, ''DEC'', AT_BTN), (NUMPAD_KHZ, ''KHZ'', AT_BTN),
    (NUMPAD_MHZ, ''MHZ'', AT_BTN), (NUMPAD_ENTER, ''EN'', AT_BTN),
    (PAN, ''PAN'', AT_KNB OR AT_ENC OR AT_SLD), (PAN_MINUS, ''PAN-'', AT_BTN),
    (PAN_PLUS, ''PAN+'', AT_BTN), (PANADAPTER_HIGH, ''PANH'', AT_KNB OR AT_ENC),
    (PANADAPTER_LOW, ''PANL'', AT_KNB OR AT_ENC OR AT_SLD),
    (PANADAPTER_STEP, ''PANS'', AT_KNB OR AT_ENC), (PREAMP, ''PRE'', AT_BTN), (PS, ''PST'', AT_BTN),
    (MENU_PS, ''PS'', AT_BTN), (PTT, ''PTT'', AT_BTN), (MENU_RADIO, ''RADIO'', AT_BTN),
    (RCL0, ''RCL0'', AT_BTN), (RCL1, ''RCL1'', AT_BTN), (RCL2, ''RCL2'', AT_BTN),
    (RCL3, ''RCL3'', AT_BTN), (RCL4, ''RCL4'', AT_BTN), (RCL5, ''RCL5'', AT_BTN),
    (RCL6, ''RCL6'', AT_BTN), (RCL7, ''RCL7'', AT_BTN), (RCL8, ''RCL8'', AT_BTN),
    (RCL9, ''RCL9'', AT_BTN), (REPLAY, ''REPLAY'', AT_BTN),
    (RF_GAIN, ''RFGAIN'', AT_KNB OR AT_ENC OR AT_SLD), (RF_GAIN_RX1, ''RFGAIN1'', AT_KNB OR AT_ENC),
    (RF_GAIN_RX2, ''RFGAIN2'', AT_KNB OR AT_ENC), (RIT, ''RIT'', AT_ENC), (RIT_CLEAR, ''RITCL'', AT_BTN),
    (RIT_ENABLE, ''RITT'', AT_BTN), (RIT_MINUS, ''RIT-'', AT_BTN), (RIT_PLUS, ''RIT+'', AT_BTN),
    (RIT_RX1, ''RIT1'', AT_ENC), (RIT_RX2, ''RIT2'', AT_ENC), (RIT_STEP, ''RITST'', AT_BTN),
    (RITXIT, ''RITXIT'', AT_ENC), (RITSELECT, ''RITXTCYC'', AT_BTN),
    (RITXIT_CLEAR, ''RITXTCLR'', AT_BTN), (RSAT, ''RSAT'', AT_BTN), (MENU_RX, ''RX'', AT_BTN),
    (RX1, ''RX1'', AT_BTN), (RX2, ''RX2'', AT_BTN), (SAT, ''SAT'', AT_BTN), (SHUTDOWN, ''SDWN'', AT_BTN),
    (SNB, ''SNB'', AT_BTN), (SPLIT, ''SPLIT'', AT_BTN),
    (SQUELCH, ''SQUELCH'', AT_KNB OR AT_ENC OR AT_SLD), (SQUELCH_RX1, ''SQUELCH1'', AT_KNB OR AT_ENC),
    (SQUELCH_RX2, ''SQUELCH2'', AT_KNB OR AT_ENC), (SWAP_RX, ''SWAPRX'', AT_BTN),
    (TOOLBAR1, ''TBAR1'', AT_BTN), (TOOLBAR2, ''TBAR2'', AT_BTN), (TOOLBAR3, ''TBAR3'', AT_BTN),
    (TOOLBAR4, ''TBAR4'', AT_BTN), (TOOLBAR5, ''TBAR5'', AT_BTN), (TOOLBAR6, ''TBAR6'', AT_BTN),
    (TOOLBAR7, ''TBAR7'', AT_BTN), (TUNE, ''TUNE'', AT_BTN), (TUNE_DRIVE, ''TUNDRV'', AT_KNB OR AT_ENC),
    (TUNE_FULL, ''TUNF'', AT_BTN), (TUNE_MEMORY, ''TUNM'', AT_BTN),
    (DRIVE, ''TXDRV'', AT_KNB OR AT_ENC OR AT_SLD), (TWO_TONE, ''2TONE'', AT_BTN),
    (MENU_TX, ''TX'', AT_BTN), (VFO, ''VFO'', AT_ENC), (VFO_STEP_MINUS, ''STEP-'', AT_BTN),
    (VFO_STEP_PLUS, ''STEP+'', AT_BTN), (VFOA, ''VFOA'', AT_ENC), (VFOB, ''VFOB'', AT_ENC),
    (MENU_VFO, ''VFOM'', AT_BTN), (VOX, ''VOX'', AT_BTN),
    (VOXLEVEL, ''VOXLEV'', AT_KNB OR AT_ENC OR AT_SLD), (WATERFALL_HIGH, ''WFALLH'', AT_ENC),
    (WATERFALL_LOW, ''WFALLL'', AT_ENC), (XIT, ''XIT'', AT_ENC), (XIT_CLEAR, ''XITCL'', AT_BTN),
    (XIT_ENABLE, ''XITT'', AT_BTN), (XIT_MINUS, ''XIT-'', AT_BTN), (XIT_PLUS, ''XIT+'', AT_BTN),
    (ZOOM, ''ZOOM'', AT_KNB OR AT_ENC OR AT_SLD), (ZOOM_MINUS, ''ZOOM-'', AT_BTN),
    (ZOOM_PLUS, ''ZOOM+'', AT_BTN), (ACTIONS, ''NONE'', AT_NONE)]"

definition multi_action_table :: "nat list" where
  "multi_action_table = [AF_GAIN, AGC_GAIN, ATTENUATION, COMPRESSION, CW_FREQUENCY, CW_SPEED, DIV_GAIN, DIV_PHASE,
     FILTER_CUT_LOW, FILTER_CUT_HIGH, IF_SHIFT, IF_WIDTH, LINEIN_GAIN, MIC_GAIN, PAN, PANADAPTER_HIGH,
     PANADAPTER_LOW, PANADAPTER_STEP, RF_GAIN, RIT, SQUELCH, TUNE_DRIVE, DRIVE, VOXLEVEL, WATERFALL_HIGH,
     WATERFALL_LOW, XIT, ZOOM]"

subsection \<open>Names\<close>

definition button_str :: "nat \<Rightarrow> string" where
  "button_str a = fst (snd (ActionTable ! a))"

definition kinds :: "nat \<Rightarrow> nat" where
  "kinds a = snd (snd (ActionTable ! a))"

definition String2ActionType :: "string \<Rightarrow> nat" where
  "String2ActionType s = (if s = ''Button'' then AT_BTN else if s = ''Slider'' then AT_KNB
     else if s = ''Encoder'' then AT_ENC else AT_NONE)"

definition ActionType2String :: "nat \<Rightarrow> string" where
  "ActionType2String t = (if t = AT_BTN then ''Button'' else if t = AT_KNB then ''Slider''
     else if t = AT_ENC then ''Encoder'' else ''None'')"

definition Action2String :: "nat \<Rightarrow> string" where
  "Action2String a = (if ACTIONS \<le> a then ''NONE'' else button_str a)"

definition String2Action :: "string \<Rightarrow> nat" where
  "String2Action s = (case find (\<lambda>a. s = button_str a) [0..<ACTIONS] of Some a \<Rightarrow> a | None \<Rightarrow> NO_ACTION)"

text \<open>A text as a number, to tell 208 of them apart.\<close>

definition text_num :: "string \<Rightarrow> nat" where
  "text_num s = foldl (\<lambda>n c. 128 * n + of_char c) 1 s"

lemma table_length: "length ActionTable = Suc ACTIONS"
  by (simp add: ActionTable_def)

lemma table_actions: "map fst ActionTable = [0..<Suc ACTIONS]"
  by (simp add: ActionTable_def upt_rec)

text \<open>The rows without the second six: that of the number pad.\<close>

definition named_rows :: "(nat \<times> string \<times> nat) list" where
  "named_rows = filter (\<lambda>(a, _). a < ACTIONS \<and> a \<noteq> NUMPAD_6) ActionTable"

lemma names_distinct: "distinct (map (\<lambda>(_, s, _). text_num s) named_rows)"
  by (simp add: named_rows_def ActionTable_def text_num_def)

lemma row: "a < ACTIONS \<Longrightarrow> ActionTable ! a = (a, button_str a, kinds a) \<and> (a, button_str a, kinds a) \<in> set ActionTable"
proof -
  assume a: "a < ACTIONS"
  have "fst (ActionTable ! a) = map fst ActionTable ! a" using a table_length by simp
  also have "\<dots> = a" using a by (simp add: table_actions del: upt_Suc)
  finally have "ActionTable ! a = (a, button_str a, kinds a)" by (simp add: button_str_def kinds_def prod_eq_iff)
  then show ?thesis using a table_length nth_mem [of a ActionTable] by simp
qed

lemma button_6: "button_str NUMPAD_6 = ''6'' \<and> button_str BAND_6 = ''6''"
  by (simp add: button_str_def ActionTable_def)

lemma button_str_eq:
  assumes "a < ACTIONS" and "b < ACTIONS" and "a \<noteq> NUMPAD_6" and "b \<noteq> NUMPAD_6" and "button_str a = button_str b"
  shows "a = b"
proof -
  have "(a, button_str a, kinds a) \<in> set named_rows" "(b, button_str b, kinds b) \<in> set named_rows"
    using assms(1-4) row [of a] row [of b] by (auto simp: named_rows_def)
  moreover have "inj_on (\<lambda>(_, s, _). text_num s) (set named_rows)"
    using names_distinct by (simp add: distinct_map)
  ultimately have "(a, button_str a, kinds a) = (b, button_str b, kinds b)"
    using assms(5) by (intro inj_onD [of "\<lambda>(_, s, _). text_num s"]) simp_all
  then show ?thesis by simp
qed

lemma String2Action_eq:
  assumes "a < ACTIONS" and "\<And>b. b < a \<Longrightarrow> button_str b \<noteq> button_str a"
  shows "String2Action (button_str a) = a"
proof -
  have "\<forall>j < a. button_str a \<noteq> button_str j" using assms(2) by metis
  then have "find (\<lambda>b. button_str a = button_str b) [0..<ACTIONS] = Some a"
    unfolding find_Some_iff using assms(1) by (intro exI [of _ a]) (simp del: upt_Suc)
  then show ?thesis by (simp add: String2Action_def)
qed

text \<open>
  The text of an action in the settings file is found again for every action but one: the key \<open>6\<close>
  of the number pad shares its text with the 6 m band.
\<close>

lemma action_text:
  "String2Action (Action2String a) = (if a = NUMPAD_6 then BAND_6 else if a < ACTIONS then a else NO_ACTION)"
proof -
  have other: "String2Action (button_str a) = a" if a: "a < ACTIONS" "a \<noteq> NUMPAD_6" for a
  proof (rule String2Action_eq [OF a(1)])
    fix b assume b: "b < a"
    show "button_str b \<noteq> button_str a"
    proof (cases "b = NUMPAD_6")
      case True
      with button_6 button_str_eq [of a BAND_6] a b show ?thesis by auto
    next
      case False
      with button_str_eq [of b a] a b show ?thesis by auto
    qed
  qed
  have "String2Action (button_str NUMPAD_6) = BAND_6"
    using other [of BAND_6] button_6 by simp
  moreover have "String2Action ''NONE'' = NO_ACTION"
    using other [of NO_ACTION] by (simp add: button_str_def ActionTable_def)
  ultimately show ?thesis using other by (simp add: Action2String_def)
qed

end
