(* ===== verification/Panel_Settings.thy ===== *)
theory Panel_Settings
  imports Filters Saved_State TxSwitch Action_Table
begin

text \<open>
  The settings that knobs, buttons, menus and CAT change and that are not part of the VFOs, the
  bands or the transmit switch (\<^verbatim>\<open>src/src/radio.c\<close>, \<^verbatim>\<open>src/src/transmitter.c\<close>,
  \<^verbatim>\<open>src/src/receiver.c\<close>, \<^verbatim>\<open>src/src/vfo_menu.c\<close>): gains, squelch, zoom, keyer speed, two-tone,
  PureSignal, diversity, the active receiver, and the number pad.
\<close>

subsection \<open>The state\<close>

record rx_knobs =
  k_volume :: real
  k_squelch :: real
  k_squelch_enable :: bool
  k_agc :: nat
  k_anf :: bool
  k_snb :: bool
  k_nb :: nat
  k_nr :: nat
  k_mute :: bool
  k_waterfall_high :: int
  k_waterfall_low :: int

type_synonym action_event = "nat \<times> action_mode \<times> int"

text \<open>
  The radio with the variables that only the actions use. \<open>p_idle\<close> is what \<open>g_idle_add\<close> has queued
  for \<open>process_action\<close>; the accumulators of the VFO encoders and \<open>p_key_last\<close> are static variables
  of \<open>process_action\<close> and \<open>schedule_action\<close>.
\<close>

record panel =
  radio :: radio_state
  p_mem :: "mem list"
  p_knobs :: "nat \<Rightarrow> rx_knobs"
  p_entered :: "nat \<Rightarrow> string"    \<comment> \<open>\<open>vfo[].entered_frequency\<close>, an array of 16 characters\<close>
  p_mic_gain :: real
  p_compressor_level :: real
  p_linein_gain :: real
  p_drive_max :: real
  p_div_gain :: real
  p_div_phase :: real
  p_n_adc :: nat
  p_RECEIVERS :: nat
  p_min_gain :: "nat \<Rightarrow> real"
  p_max_gain :: "nat \<Rightarrow> real"
  p_have_preamp :: bool
  p_cw_keyer_speed :: int
  p_cw_key_hit :: bool
  p_MIDI_cw :: bool
  p_hpsdr_ptt :: bool
  p_ptt_delay :: int
  p_twotone_timer :: bool
  p_record_pointer :: nat
  p_replay_pointer :: nat
  p_encoder_divisor :: int
  p_acc :: int
  p_acc_a :: int
  p_acc_b :: int
  p_key_last :: real
  p_clock :: real                    \<comment> \<open>the time in seconds, as \<open>clock_gettime\<close> returns it\<close>
  p_repeat_timer :: bool
  p_repeat_released :: bool
  p_repeat :: action_event
  p_multi_first :: bool
  p_multi_select :: bool
  p_multi_action :: nat
  p_tb_function :: nat
  p_tb_actions :: "nat list list"
  p_idle :: "action_event list"

definition on_radio :: "(radio_state \<Rightarrow> radio_state) \<Rightarrow> panel \<Rightarrow> panel" where
  "on_radio f p = p\<lparr>radio := f (radio p)\<rparr>"

definition tell :: "effect \<Rightarrow> panel \<Rightarrow> panel" where
  "tell e = on_radio (emit e)"

definition upd_knobs :: "nat \<Rightarrow> (rx_knobs \<Rightarrow> rx_knobs) \<Rightarrow> panel \<Rightarrow> panel" where
  "upd_knobs i f p = p\<lparr>p_knobs := (p_knobs p)(i := f (p_knobs p i))\<rparr>"

subsection \<open>Receivers\<close>

abbreviation (input) "MAX_ZOOM \<equiv> 32 :: int"
abbreviation (input) "AGC_FIXED \<equiv> 6 :: nat"
abbreviation (input) "AGC_LAST \<equiv> 7 :: nat"

text \<open>Zoom and pan of the other receiver follow when diversity is on.\<close>

definition radio_set_zoom :: "nat \<Rightarrow> int \<Rightarrow> radio_state \<Rightarrow> radio_state" where
  "radio_set_zoom i value r = (
     if receivers r \<le> i then r else
     let value = (if MAX_ZOOM < value then MAX_ZOOM else value);
         value = (if value < 1 then 1 else value);
         zoom = (\<lambda>k r. emit (Panel (Rx_update_zoom k)) (upd_rx k (\<lambda>rx. rx\<lparr>rx_zoom := value\<rparr>) r));
         r = emit Slider (zoom i r)
     in if diversity_enabled r \<and> 1 < receivers r then zoom (1 - i) r else r)"

definition radio_set_pan :: "nat \<Rightarrow> int \<Rightarrow> radio_state \<Rightarrow> radio_state" where
  "radio_set_pan i value r = (
     if receivers r \<le> i then r else
     let value = (if value < - 100 then - 100 else value);
         value = (if 100 < value then 100 else value);
         pan = (\<lambda>k r. emit (Panel (Rx_update_pan k)) (upd_rx k (\<lambda>rx. rx\<lparr>rx_pan := value\<rparr>) r));
         r = emit Slider (pan i r)
     in if diversity_enabled r \<and> 1 < receivers r then pan (1 - i) r else r)"

definition radio_set_af_gain :: "nat \<Rightarrow> real \<Rightarrow> panel \<Rightarrow> panel" where
  "radio_set_af_gain i value p = (
     if receivers (radio p) \<le> i then p
     else tell Slider (tell (Panel (Rx_set_af_gain i)) (upd_knobs i (\<lambda>k. k\<lparr>k_volume := value\<rparr>) p)))"

definition radio_set_squelch :: "nat \<Rightarrow> real \<Rightarrow> panel \<Rightarrow> panel" where
  "radio_set_squelch i value p = (
     if receivers (radio p) \<le> i then p
     else tell Slider (tell (Panel (Rx_set_squelch i))
       (upd_knobs i (\<lambda>k. k\<lparr>k_squelch := value, k_squelch_enable := 1 / 2 < value\<rparr>) p)))"

definition radio_set_preamp :: "nat \<Rightarrow> int \<Rightarrow> panel \<Rightarrow> panel" where
  "radio_set_preamp i value p = (
     if receivers (radio p) \<le> i \<or> \<not> p_have_preamp p then p else
     on_radio (\<lambda>r. let r = upd_adc (rx_adc (receiver r i)) (\<lambda>a. a\<lparr>adc_preamp := value\<rparr>) r in
       if is_remote r then emit (Panel (Send_rxmenu i)) r
       else if i = 0 then upd_band (v_band (vfo r 0)) (\<lambda>b. b\<lparr>b_preamp := value\<rparr>) r else r) p)"

definition radio_toggle_preamp :: "nat \<Rightarrow> panel \<Rightarrow> panel" where
  "radio_toggle_preamp i p = (let r = radio p in
     if receivers r \<le> i then p
     else radio_set_preamp i (if adc_preamp (adc r (rx_adc (receiver r i))) \<noteq> 0 then 0 else 1) p)"

subsection \<open>The number pad\<close>

text \<open>
  The text has room for 15 characters. Numbers below 10 kHz are not meant seriously; the local
  decimal point is a point.
\<close>

definition num_enter :: "nat \<Rightarrow> real \<Rightarrow> panel \<Rightarrow> panel" where
  "num_enter i mult p = (
     let fl = c_trunc (atof (p_entered p i) * mult + 1 / 2);
         p = p\<lparr>p_entered := (p_entered p)(i := [])\<rparr>
     in if 10000 \<le> fl then on_radio (vfo_id_set_frequency i fl) p else p)"

definition vfo_num_pad :: "int \<Rightarrow> nat \<Rightarrow> panel \<Rightarrow> panel" where
  "vfo_num_pad action i p = (
     let buffer = p_entered p i; put = (\<lambda>s. p\<lparr>p_entered := (p_entered p)(i := s)\<rparr>);
         p = (if action = - 5 then
                if CHR ''.'' \<notin> set buffer \<and> length buffer \<le> 14 then put (buffer @ ''.'') else p
              else if action = - 1 then put []
              else if action = - 6 then put (butlast buffer)
              else if action = - 4 then num_enter i 1000000 p
              else if action = - 3 then num_enter i 1000 p
              else if action = - 2 then num_enter i 1 p
              else if length buffer \<le> 14 then put (buffer @ [char_of (48 + nat action)]) else p)
     in tell Vfo_update p)"

definition rx_set_active :: "nat \<Rightarrow> panel \<Rightarrow> panel" where
  "rx_set_active i p = (
     let p = (if is_remote (radio p) then tell (Panel (Send_rx_select i)) p else p);
         p = vfo_num_pad (- 1) (active_id (radio p)) p;
         p = on_radio (\<lambda>r. r\<lparr>active_id := i\<rparr>) p;
         p = tell Slider (tell Vfo_update (tell (Panel Menu_changed) p))
     in if is_remote (radio p) then p
        else on_radio (\<lambda>r. radio_apply_band_settings False 0 (radio_tx_vfo_changed r)) p)"

subsection \<open>CW\<close>

definition radio_set_cw_speed :: "int \<Rightarrow> panel \<Rightarrow> panel" where
  "radio_set_cw_speed val p = (
     let p = tell (Panel Keyer_update) (tell Slider (p\<lparr>p_cw_keyer_speed := val\<rparr>));
         p = (if is_remote (radio p) then p else on_radio schedule_transmit_specific p)
     in tell Vfo_update p)"

definition radio_set_sidetone_freq :: "int \<Rightarrow> radio_state \<Rightarrow> radio_state" where
  "radio_set_sidetone_freq val r = (
     let r = r\<lparr>cw_sidetone := val\<rparr>;
         r = (if is_remote r then emit (Panel (Send_sidetone_freq val)) r
              else schedule_transmit_specific (rx_set_offset (active_id r) (rx_filter_changed (active_id r) r)))
     in emit Vfo_update r)"

subsection \<open>Transmitter\<close>

definition radio_set_linein_gain :: "real \<Rightarrow> panel \<Rightarrow> panel" where
  "radio_set_linein_gain value p = (
     let p = p\<lparr>p_linein_gain := value\<rparr>
     in tell Slider (if is_remote (radio p) then tell (Panel Send_txmenu) p else on_radio schedule_high_priority p))"

definition radio_set_mic_gain :: "real \<Rightarrow> panel \<Rightarrow> panel" where
  "radio_set_mic_gain value p = tell Slider (
     if transmitter (radio p) \<noteq> None then tell (Panel Tx_set_mic_gain) (p\<lparr>p_mic_gain := value\<rparr>) else p)"

definition radio_get_drive :: "radio_state \<Rightarrow> real" where
  "radio_get_drive r = (case transmitter r of Some tx \<Rightarrow> tx_drive tx | None \<Rightarrow> 0)"

definition tx_set_vox :: "transmitter \<Rightarrow> radio_state \<Rightarrow> radio_state" where
  "tx_set_vox tx r = emit Vfo_update (emit Slider (
     if is_remote r then r\<lparr>vox_min_hang := (if tx_cfc tx then 370 else 230)\<rparr>
     else emit (Panel (Vox_dsp (vox_enabled r) (if tx_cfc tx then 0.125 else 0.075)))
       (r\<lparr>vox_min_hang := (if tx_cfc tx then 350 else 150)\<rparr>)))"

definition tx_set_twotone :: "bool \<Rightarrow> panel \<Rightarrow> panel" where
  "tx_set_twotone state p = (case transmitter (radio p) of None \<Rightarrow> p | Some tx \<Rightarrow>
     if state = tx_twotone tx then p else
     let p = tell (Panel (Twotone_generator state)) (on_radio (upd_tx (\<lambda>t. t\<lparr>tx_twotone := state\<rparr>)) p);
         p = (if state then
                if p_twotone_timer p then p else tell (Panel Twotone_timer) (p\<lparr>p_twotone_timer := True\<rparr>)
              else tell (Panel (Wait_ms 100)) p)
     in tell (Panel (Idle_set_mox state)) p)"

definition radio_set_twotone :: "bool \<Rightarrow> panel \<Rightarrow> panel" where
  "radio_set_twotone state p = (
     if is_remote (radio p) then tell (Setting (Send_twotone state)) p
     else tell Vfo_update (tx_set_twotone state p))"

definition tx_ps_onoff :: "bool \<Rightarrow> radio_state \<Rightarrow> radio_state" where
  "tx_ps_onoff state r = (
     let ps = upd_tx (\<lambda>t. t\<lparr>tx_puresignal := state\<rparr>) in
     if is_remote r then emit Vfo_update (emit (Panel (Send_psonoff state)) (ps r)) else
     let r = (if state then r else
           let r = emit (Switch Tx_ps_reset) r
           in if radio_is_transmitting r then emit (Panel (Wait_ms 100)) r
              else if have_feedback r then emit (Panel Ps_feed_zeros) r else r);
         r = (case protocol r of
             ORIGINAL_PROTOCOL \<Rightarrow> emit (Panel Protocol_run) (ps (emit (Panel (Wait_ms 100)) (emit (Panel Protocol_stop) r)))
           | NEW_PROTOCOL \<Rightarrow> schedule_receive_specific (schedule_high_priority (ps r))
           | SOAPYSDR_PROTOCOL \<Rightarrow> r);
         r = (if state then emit (Panel Ps_setparams) (emit (Switch Tx_ps_resume) (emit (Panel (Wait_ms 100)) r)) else r)
     in emit Vfo_update r)"

definition radio_set_satmode :: "sat_mode \<Rightarrow> radio_state \<Rightarrow> radio_state" where
  "radio_set_satmode m r = (if is_remote r then emit (Panel (Send_sat m)) r else r\<lparr>sat_mode := m\<rparr>)"

definition radio_split_toggle :: "radio_state \<Rightarrow> radio_state" where
  "radio_split_toggle r = radio_set_split (\<not> split r) r"

subsection \<open>Diversity\<close>

definition radio_set_diversity_gain :: "real \<Rightarrow> panel \<Rightarrow> panel" where
  "radio_set_diversity_gain val p = (
     let val = (if val < - 27 then - 27 else val); val = (if 27 < val then 27 else val);
         p = p\<lparr>p_div_gain := val\<rparr>;
         p = (if suppress_popup_sliders (radio p) = 0 then tell Slider p else p)
     in if is_remote (radio p) then tell (Panel (Send_diversity (diversity_enabled (radio p)) val (p_div_phase p))) p else p)"

text \<open>The two loops that bring the phase into the range of 180 degrees.\<close>

function wrap_down :: "real \<Rightarrow> real" where
  "wrap_down v = (if 180 < v then wrap_down (v - 360) else v)"
  by auto
termination
proof (relation "measure (\<lambda>v. nat \<lceil>v\<rceil>)")
  fix v :: real assume "180 < v"
  then have "180 < \<lceil>v\<rceil>" by linarith
  then show "(v - 360, v) \<in> measure (\<lambda>v. nat \<lceil>v\<rceil>)" by simp
qed simp

function wrap_up :: "real \<Rightarrow> real" where
  "wrap_up v = (if v < - 180 then wrap_up (v + 360) else v)"
  by auto
termination
proof (relation "measure (\<lambda>v. nat \<lceil>- v\<rceil>)")
  fix v :: real assume "v < - 180"
  then have "180 < \<lceil>- v\<rceil>" by linarith
  moreover have "\<lceil>- (v + 360)\<rceil> = \<lceil>- v\<rceil> - 360" by linarith
  ultimately show "(v + 360, v) \<in> measure (\<lambda>v. nat \<lceil>- v\<rceil>)" by simp
qed simp

declare wrap_down.simps [simp del] wrap_up.simps [simp del]

definition radio_set_diversity_phase :: "real \<Rightarrow> panel \<Rightarrow> panel" where
  "radio_set_diversity_phase value p = (
     let value = wrap_up (wrap_down value);
         p = p\<lparr>p_div_phase := value\<rparr>;
         p = (if suppress_popup_sliders (radio p) = 0 then tell Slider p else p)
     in if is_remote (radio p) then tell (Panel (Send_diversity (diversity_enabled (radio p)) (p_div_gain p) value)) p else p)"

definition radio_set_diversity :: "bool \<Rightarrow> panel \<Rightarrow> panel" where
  "radio_set_diversity state p = tell Vfo_update (
     if is_remote (radio p) then tell (Panel (Send_diversity state (p_div_gain p) (p_div_phase p))) p
     else on_radio (\<lambda>r.
       let one = (protocol r = ORIGINAL_PROTOCOL \<and> receivers r = 1);
           r = (if one then emit (Panel Protocol_stop) r else r);
           r = r\<lparr>diversity_enabled := state\<rparr>;
           r = (if one then emit (Panel Protocol_run) r else r);
           r = (if protocol r = NEW_PROTOCOL \<and> receivers r = 2 \<and> state
                then emit (Panel (Rx_change_sample_rate 1 (rx_sample_rate (receiver r 0)))) r else r)
       in schedule_receive_specific (schedule_high_priority r)) p)"

end
