(* ===== verification/Actions.thy ===== *)
theory Actions
  imports Panel_Settings
begin

text \<open>
  What a button, knob or encoder does (\<open>schedule_action\<close>, \<open>process_action\<close>, \<open>repeat_cb\<close> in
  \<^verbatim>\<open>src/src/actions.c\<close>). The long \<open>switch\<close> of \<open>process_action\<close> is cut into sections, in the
  order of its cases; a section hands the actions it does not know to the next one.
\<close>

subsection \<open>Knobs and wheels\<close>

definition c_round :: "real \<Rightarrow> real" where
  "c_round x = (if 0 \<le> x then of_int \<lfloor>x + 1 / 2\<rfloor> else - of_int \<lfloor>1 / 2 - x\<rfloor>)"

text \<open>The new value for the event \<open>(m, val)\<close>; 0.0078... is the constant of the code, not 1/127.\<close>

definition KnobOrWheel :: "action_mode \<Rightarrow> int \<Rightarrow> real \<Rightarrow> real \<Rightarrow> real \<Rightarrow> real \<Rightarrow> real" where
  "KnobOrWheel m val oldval minval maxval inc = (
     let v = (if m = RELATIVE then oldval + of_int val * inc
              else if m = ABSOLUTE then minval + of_int val * (maxval - minval) * 0.00787401574803150
              else oldval);
         v = inc * c_round (v / inc);
         v = (if maxval < v then maxval else v)
     in if v < minval then minval else v)"

definition pressed :: "action_mode \<Rightarrow> (panel \<Rightarrow> panel) \<Rightarrow> panel \<Rightarrow> panel" where
  "pressed m f p = (if m = PRESSED then f p else p)"

definition turned :: "action_mode \<Rightarrow> (panel \<Rightarrow> panel) \<Rightarrow> panel \<Rightarrow> panel" where
  "turned m f p = (if m = RELATIVE then f p else p)"

definition moved :: "action_mode \<Rightarrow> (panel \<Rightarrow> panel) \<Rightarrow> panel \<Rightarrow> panel" where
  "moved m f p = (if m = ABSOLUTE \<or> m = RELATIVE then f p else p)"

abbreviation (input) "act p \<equiv> active_id (radio p)"
abbreviation (input) "active_vfo p \<equiv> vfo (radio p) (active_id (radio p))"

subsection \<open>Scheduling\<close>

text \<open>
  Paddles and keys act at once, in the thread of the caller; everything else waits for the GTK
  thread.
\<close>

definition key_down :: "action_mode \<Rightarrow> panel \<Rightarrow> panel" where
  "key_down m p = (
     let wait = c_trunc (48000 * (p_clock p - p_key_last p) + 1 / 2); p = p\<lparr>p_key_last := p_clock p\<rparr>
     in if m = PRESSED \<and> (\<not> cw_keyer_internal (radio p) \<or> p_MIDI_cw p) then
          let wait = (if 24000 < wait then 0 else wait)
          in (tell (Panel (Queue_cw_key True wait)) p)\<lparr>p_cw_key_hit := True\<rparr>
        else tell (Panel (Queue_cw_key False wait)) p)"

definition schedule_action :: "action_event \<Rightarrow> panel \<Rightarrow> panel" where
  "schedule_action e p = (case e of (a, m, val) \<Rightarrow>
     if a = CW_LEFT \<or> a = CW_RIGHT then
       tell (Panel (Keyer_event (a = CW_LEFT) (m = PRESSED))) (p\<lparr>p_cw_key_hit := True\<rparr>)
     else if a = CW_KEYER_KEYDOWN then key_down m p
     else p\<lparr>p_idle := p_idle p @ [e]\<rparr>)"

subsection \<open>The sections of process_action, from the last to the first\<close>

definition keyer_ptt :: "action_mode \<Rightarrow> panel \<Rightarrow> panel" where
  "keyer_ptt m p = (
     if m = PRESSED then
       let p = p\<lparr>p_MIDI_cw := True, p_cw_key_hit := True\<rparr>
       in on_radio (\<lambda>r. if is_remote r then emit (Setting (Send_mox True)) r
            else radio_set_mox True (schedule_transmit_specific r)) p
     else if m = RELEASED then
       let p = p\<lparr>p_MIDI_cw := False\<rparr>
       in on_radio (\<lambda>r. if is_remote r then emit (Setting (Send_mox False)) (emit (Panel (Wait_ms 100)) r)
            else let r = schedule_transmit_specific r in if p_hpsdr_ptt p then r else radio_set_mox False r) p
     else p)"

definition actions_keyer :: "nat \<Rightarrow> action_mode \<Rightarrow> int \<Rightarrow> panel \<Rightarrow> panel" where
  "actions_keyer a m val p = (
     if a = CW_KEYER_PTT then keyer_ptt m p
     else if a = CW_KEYER_SPEED then (if m = ABSOLUTE \<and> 1 \<le> val \<and> val \<le> 60 then radio_set_cw_speed val p else p)
     else p)"

text \<open>The repetition of RIT and XIT buttons that are held down.\<close>

definition repeat_start :: "action_event \<Rightarrow> panel \<Rightarrow> panel" where
  "repeat_start e p = (if p_repeat_timer p then p
     else (tell (Panel Timer_repeat) p)\<lparr>p_repeat := e, p_repeat_timer := True, p_repeat_released := False\<rparr>)"

definition repeat_button :: "action_event \<Rightarrow> (radio_state \<Rightarrow> radio_state) \<Rightarrow> panel \<Rightarrow> panel" where
  "repeat_button e f p = (case e of (a, m, val) \<Rightarrow>
     if m = PRESSED then repeat_start e (on_radio f p)
     else if m = RELEASED then p\<lparr>p_repeat_released := True\<rparr> else p)"

definition xit_step :: "int \<Rightarrow> radio_state \<Rightarrow> radio_state" where
  "xit_step n r = vfo_xit_incr (n * v_rit_step (vfo r (vfo_get_tx_vfo r))) r"

definition actions_waterfall :: "nat \<Rightarrow> action_mode \<Rightarrow> int \<Rightarrow> panel \<Rightarrow> panel" where
  "actions_waterfall a m val p = (
     if a = WATERFALL_HIGH then moved m (\<lambda>p.
       let v = KnobOrWheel m val (of_int (k_waterfall_high (p_knobs p (act p)))) (- 100) 0 1
       in tell (Panel (Popup_slider WATERFALL_HIGH)) (upd_knobs (act p) (\<lambda>k. k\<lparr>k_waterfall_high := c_trunc v\<rparr>) p)) p
     else if a = WATERFALL_LOW then moved m (\<lambda>p.
       let v = KnobOrWheel m val (of_int (k_waterfall_low (p_knobs p (act p)))) (- 150) (- 50) 1
       in tell (Panel (Popup_slider WATERFALL_HIGH)) (upd_knobs (act p) (\<lambda>k. k\<lparr>k_waterfall_low := c_trunc v\<rparr>) p)) p
     else if a = XIT then turned m (on_radio (xit_step val)) p
     else if a = XIT_CLEAR then pressed m (on_radio (vfo_xit_value 0)) p
     else if a = XIT_ENABLE then (if transmitter (radio p) \<noteq> None then pressed m (on_radio vfo_xit_toggle) p else p)
     else if a = XIT_MINUS then
       (if m = PRESSED then repeat_start (a, m, val) (on_radio (xit_step (- 10)) p) else p\<lparr>p_repeat_released := True\<rparr>)
     else if a = XIT_PLUS then repeat_button (a, m, val) (xit_step 10) p
     else if a = ZOOM then moved m (\<lambda>p. on_radio (radio_set_zoom (act p) (c_trunc
         (KnobOrWheel m val (of_int (rx_zoom (receiver (radio p) (act p)))) 1 (of_int MAX_ZOOM) 1))) p) p
     else if a = ZOOM_MINUS then pressed m (\<lambda>p. on_radio (radio_set_zoom (act p) (rx_zoom (receiver (radio p) (act p)) - 1)) p) p
     else if a = ZOOM_PLUS then pressed m (\<lambda>p. on_radio (radio_set_zoom (act p) (rx_zoom (receiver (radio p) (act p)) + 1)) p) p
     else actions_keyer a m val p)"

text \<open>
  The encoders of the VFOs: \<open>vfo_encoder_divisor\<close> events are one step, and what is left over is
  kept for the next time.
\<close>

definition encoder :: "int \<Rightarrow> int \<Rightarrow> int \<Rightarrow> int \<times> int" where
  "encoder d acc val = (let acc = acc + val; new = c_div acc d in (new, acc - new * d))"

definition step_index :: "int \<Rightarrow> panel \<Rightarrow> panel" where
  "step_index inc p = on_radio (\<lambda>r.
     emit Vfo_update (vfo_id_set_step_from_index (active_id r) (int (vfo_id_get_stepindex (active_id r) r) + inc) r)) p"

definition actions_vfo :: "nat \<Rightarrow> action_mode \<Rightarrow> int \<Rightarrow> panel \<Rightarrow> panel" where
  "actions_vfo a m val p = (
     if a = VFO then
       (if m = RELATIVE \<and> \<not> locked (radio p) then
          let (new, rest) = encoder (p_encoder_divisor p) (p_acc p) val; p = p\<lparr>p_acc := rest\<rparr>
          in if new \<noteq> 0 then on_radio (vfo_step new) p else p
        else p)
     else if a = VFO_STEP_MINUS then pressed m (step_index (- 1)) p
     else if a = VFO_STEP_PLUS then pressed m (step_index 1) p
     else if a = VFOA then
       (if m = RELATIVE \<and> \<not> locked (radio p) then
          let (new, rest) = encoder (p_encoder_divisor p) (p_acc_a p) val; p = p\<lparr>p_acc_a := rest\<rparr>
          in if new \<noteq> 0 then on_radio (vfo_id_step 0 new) p else p
        else p)
     else if a = VFOB then
       (if m = RELATIVE \<and> \<not> locked (radio p) then
          let (new, rest) = encoder (p_encoder_divisor p) (p_acc_b p) val; p = p\<lparr>p_acc_b := rest\<rparr>
          in if new \<noteq> 0 then on_radio (vfo_id_step 1 new) p else p
        else p)
     else if a = VOX then
       (case transmitter (radio p) of None \<Rightarrow> p | Some tx \<Rightarrow>
          pressed m (on_radio (\<lambda>r. tx_set_vox tx (r\<lparr>vox_enabled := \<not> vox_enabled r\<rparr>))) p)
     else if a = VOXLEVEL then
       (case transmitter (radio p) of None \<Rightarrow> p | Some tx \<Rightarrow>
          moved m (on_radio (\<lambda>r. tx_set_vox tx (r\<lparr>vox_threshold := of_int (c_trunc (KnobOrWheel m val (vox_threshold r) 0 1 0.01))\<rparr>))) p)
     else actions_waterfall a m val p)"

definition noise_change :: "(rx_knobs \<Rightarrow> rx_knobs) \<Rightarrow> panel \<Rightarrow> panel" where
  "noise_change f p = tell (Panel (Rx_set_noise (act p))) (upd_knobs (act p) f p)"

definition tune_toggle :: "bool \<Rightarrow> bool \<Rightarrow> radio_state \<Rightarrow> radio_state" where
  "tune_toggle full mem r = radio_toggle_tune (r\<lparr>full_tune := full, memory_tune := mem\<rparr>)"

definition actions_rx_tune :: "nat \<Rightarrow> action_mode \<Rightarrow> int \<Rightarrow> panel \<Rightarrow> panel" where
  "actions_rx_tune a m val p = (
     if a = RX1 then (if receivers (radio p) = 2 then pressed m (rx_set_active 0) p else p)
     else if a = RX2 then (if receivers (radio p) = 2 then pressed m (rx_set_active 1) p else p)
     else if a = RSAT then pressed m (on_radio (\<lambda>r.
       emit Vfo_update (radio_set_satmode (if sat_mode r = RSAT_MODE then SAT_NONE else RSAT_MODE) r))) p
     else if a = SAT then pressed m (on_radio (\<lambda>r.
       emit Vfo_update (radio_set_satmode (if sat_mode r = SAT_MODE then SAT_NONE else SAT_MODE) r))) p
     else if a = SHUTDOWN then pressed m (tell (Panel Shutdown)) p
     else if a = SNB then pressed m (noise_change (\<lambda>k. k\<lparr>k_snb := \<not> k_snb k\<rparr>)) p
     else if a = SPLIT then pressed m (on_radio radio_split_toggle) p
     else if a = SQUELCH then moved m (\<lambda>p. radio_set_squelch (act p) (KnobOrWheel m val (k_squelch (p_knobs p (act p))) 0 100 1) p) p
     else if a = SQUELCH_RX1 then moved m (\<lambda>p. radio_set_squelch 0 (KnobOrWheel m val (k_squelch (p_knobs p 0)) 0 100 1) p) p
     else if a = SQUELCH_RX2 then (if receivers (radio p) = 2
       then moved m (\<lambda>p. radio_set_squelch 1 (KnobOrWheel m val (k_squelch (p_knobs p 1)) 0 100 1) p) p else p)
     else if a = SWAP_RX then (if receivers (radio p) = 2
       then pressed m (\<lambda>p. rx_set_active (if act p = 1 then 0 else 1) p) p else p)
     else if TOOLBAR1 \<le> a \<and> a \<le> TOOLBAR7 then
       (if m = PRESSED \<or> m = RELEASED then
          let tb = p_tb_actions p ! p_tb_function p ! (a - TOOLBAR1)
          in if tb < TOOLBAR1 \<or> TOOLBAR7 < tb then schedule_action (tb, m, val) p else p
        else p)
     else if a = TUNE then pressed m (on_radio (tune_toggle False False)) p
     else if a = TUNE_DRIVE then
       (case transmitter (radio p) of None \<Rightarrow> p | Some tx \<Rightarrow> moved m (on_radio (\<lambda>r.
          let v = KnobOrWheel m val (tx_tune_drive tx) 0 100 1;
              r = upd_tx (\<lambda>t. t\<lparr>tx_tune_drive := of_int (c_trunc v), tx_tune_use_drive := False\<rparr>) r;
              r = (if is_remote r then emit (Panel Send_txmenu) r else r)
          in emit (Panel (Popup_slider TUNE_DRIVE)) r)) p)
     else if a = TUNE_FULL then pressed m (on_radio (tune_toggle True False)) p
     else if a = TUNE_MEMORY then pressed m (on_radio (tune_toggle False True)) p
     else if a = TWO_TONE then
       (case transmitter (radio p) of None \<Rightarrow> p | Some tx \<Rightarrow> pressed m (radio_set_twotone (\<not> tx_twotone tx)) p)
     else actions_vfo a m val p)"

definition rit_adjust :: "nat \<Rightarrow> int \<Rightarrow> radio_state \<Rightarrow> radio_state" where
  "rit_adjust i n r = vfo_id_rit_incr i (v_rit_step (vfo r i) * n) r"

definition ritxit :: "int \<Rightarrow> radio_state \<Rightarrow> radio_state" where
  "ritxit n r = (let i = active_id r in
     if \<not> v_rit_enabled (vfo r i) \<and> v_xit_enabled (vfo r (vfo_get_tx_vfo r))
     then vfo_xit_incr (v_rit_step (vfo r i) * n) r else rit_adjust i n r)"

definition ritselect :: "radio_state \<Rightarrow> radio_state" where
  "ritselect r = (
     let i = active_id r; rit = v_rit_enabled (vfo r i); xit = v_xit_enabled (vfo r (vfo_get_tx_vfo r)) in
     if \<not> rit \<and> \<not> xit then vfo_xit_onoff False (vfo_id_rit_onoff i True r)
     else if rit \<and> \<not> xit then vfo_xit_onoff True (vfo_id_rit_onoff i False r)
     else vfo_xit_onoff False (vfo_id_rit_onoff i False r))"

definition rf_gain_knob :: "action_mode \<Rightarrow> int \<Rightarrow> nat \<Rightarrow> panel \<Rightarrow> panel" where
  "rf_gain_knob m val i p = (let k = rx_adc (receiver (radio p) i) in
     on_radio (radio_set_rf_gain i (KnobOrWheel m val (adc_gain (adc (radio p) k)) (p_min_gain p k) (p_max_gain p k) 1)) p)"

definition actions_rf_rit :: "nat \<Rightarrow> action_mode \<Rightarrow> int \<Rightarrow> panel \<Rightarrow> panel" where
  "actions_rf_rit a m val p = (
     if a = RF_GAIN then (if have_rx_gain (radio p) then moved m (\<lambda>p. rf_gain_knob m val (act p) p) p else p)
     else if a = RF_GAIN_RX1 then (if have_rx_gain (radio p) then moved m (rf_gain_knob m val 0) p else p)
     else if a = RF_GAIN_RX2 then
       (if have_rx_gain (radio p) \<and> receivers (radio p) = 2 then moved m (rf_gain_knob m val 1) p else p)
     else if a = RIT then turned m (on_radio (\<lambda>r. rit_adjust (active_id r) val r)) p
     else if a = RIT_CLEAR then pressed m (on_radio (\<lambda>r. vfo_id_rit_value (active_id r) 0 r)) p
     else if a = RIT_ENABLE then pressed m (on_radio (\<lambda>r. vfo_id_rit_toggle (active_id r) r)) p
     else if a = RIT_MINUS then repeat_button (a, m, val) (\<lambda>r. rit_adjust (active_id r) (- 1) r) p
     else if a = RIT_PLUS then repeat_button (a, m, val) (\<lambda>r. rit_adjust (active_id r) 1 r) p
     else if a = RIT_RX1 then turned m (on_radio (rit_adjust 0 val)) p
     else if a = RIT_RX2 then turned m (on_radio (rit_adjust 1 val)) p
     else if a = RIT_STEP then pressed m (on_radio (\<lambda>r.
       let incr = 10 * v_rit_step (vfo r (active_id r)); incr = (if 100 < incr then 100 else incr) in vfo_set_rit_step incr r)) p
     else if a = RITXIT then turned m (on_radio (ritxit val)) p
     else if a = RITSELECT then pressed m (on_radio ritselect) p
     else if a = RITXIT_CLEAR then pressed m (on_radio (\<lambda>r. vfo_xit_value 0 (vfo_id_rit_value (active_id r) 0 r))) p
     else actions_rx_tune a m val p)"

definition actions_pan_recall :: "nat \<Rightarrow> action_mode \<Rightarrow> int \<Rightarrow> panel \<Rightarrow> panel" where
  "actions_pan_recall a m val p = (
     let rx = receiver (radio p) (act p) in
     if a = PAN then moved m (on_radio (radio_set_pan (act p) (c_trunc (KnobOrWheel m val (of_int (rx_pan rx)) (- 100) 100 1)))) p
     else if a = PAN_MINUS then pressed m (on_radio (radio_set_pan (act p) (rx_pan rx - 5))) p
     else if a = PAN_PLUS then pressed m (on_radio (radio_set_pan (act p) (rx_pan rx + 5))) p
     else if a = PANADAPTER_HIGH then moved m (on_radio (radio_set_panhigh (act p)
       (c_trunc (KnobOrWheel m val (of_int (rx_panhigh rx)) (- 60) 20 1)))) p
     else if a = PANADAPTER_LOW then moved m (on_radio (radio_set_panlow (act p)
       (c_trunc (KnobOrWheel m val (of_int (rx_panlow rx)) (- 160) (- 60) 1)))) p
     else if a = PANADAPTER_STEP then moved m (on_radio (radio_set_panstep (act p)
       (c_trunc (KnobOrWheel m val (of_int (rx_panstep rx)) 5 30 5)))) p
     else if a = PREAMP then pressed m (radio_toggle_preamp (act p)) p
     else if a = PS then pressed m (on_radio (\<lambda>r.
       case transmitter r of None \<Rightarrow> r | Some tx \<Rightarrow> tx_ps_onoff (\<not> tx_puresignal tx) r)) p
     else if a = PTT then
       (if m = PRESSED then on_radio (radio_set_mox True) p
        else if m = RELEASED then tell (Panel (Timer_mox_off (p_ptt_delay p))) p else p)
     else if RCL0 \<le> a \<and> a \<le> RCL9 then pressed m (on_radio (recall_memory_slot (a - RCL0) (p_mem p))) p
     else actions_rf_rit a m val p)"

definition actions_numpad :: "nat \<Rightarrow> action_mode \<Rightarrow> int \<Rightarrow> panel \<Rightarrow> panel" where
  "actions_numpad a m val p = (
     if NUMPAD_0 \<le> a \<and> a \<le> NUMPAD_9 then pressed m (vfo_num_pad (int (a - NUMPAD_0)) (act p)) p
     else if a = NUMPAD_BS then pressed m (vfo_num_pad (- 6) (act p)) p
     else if a = NUMPAD_CL then pressed m (vfo_num_pad (- 1) (act p)) p
     else if a = NUMPAD_ENTER then pressed m (vfo_num_pad (- 2) (act p)) p
     else if a = NUMPAD_KHZ then pressed m (vfo_num_pad (- 3) (act p)) p
     else if a = NUMPAD_MHZ then pressed m (vfo_num_pad (- 4) (act p)) p
     else if a = NUMPAD_DEC then pressed m (vfo_num_pad (- 5) (act p)) p
     else actions_pan_recall a m val p)"

text \<open>
  The multifunction encoder runs another action, by a call of \<open>process_action\<close>: the parameter
  \<open>again\<close>. The cases of muting and noise reduction are small changes of a receiver.
\<close>

definition multi_knob :: "action_mode \<Rightarrow> int \<Rightarrow> panel \<Rightarrow> panel" where
  "multi_knob m val p = tell Vfo_update (p\<lparr>p_multi_action := nat (c_trunc (KnobOrWheel m val (of_nat (p_multi_action p)) 0 27 1))\<rparr>)"

definition multi_encoder :: "(nat \<Rightarrow> panel \<Rightarrow> panel) \<Rightarrow> action_mode \<Rightarrow> int \<Rightarrow> panel \<Rightarrow> panel" where
  "multi_encoder again m val p = (
     let p = p\<lparr>p_multi_first := False\<rparr>;
         p = (if p_multi_select p \<and> (m = ABSOLUTE \<or> m = RELATIVE) then multi_knob m val p
              else again (multi_action_table ! p_multi_action p) p)
     in tell Vfo_update p)"

definition mode_step :: "int \<Rightarrow> radio_state \<Rightarrow> radio_state" where
  "mode_step inc r = (
     let n = mode_num (v_mode (vfo r (active_id r))) + inc;
         n = (if n < 0 then 11 else n); n = (if 12 \<le> n then 0 else n)
     in vfo_mode_changed (modes ! nat n) r)"

definition toggle_mute :: "nat \<Rightarrow> panel \<Rightarrow> panel" where
  "toggle_mute i = upd_knobs i (\<lambda>k. k\<lparr>k_mute := \<not> k_mute k\<rparr>)"

definition actions_mic_nr :: "(nat \<Rightarrow> panel \<Rightarrow> panel) \<Rightarrow> nat \<Rightarrow> action_mode \<Rightarrow> int \<Rightarrow> panel \<Rightarrow> panel" where
  "actions_mic_nr again a m val p = (
     if a = MIC_GAIN then (if transmitter (radio p) \<noteq> None
       then moved m (\<lambda>p. radio_set_mic_gain (KnobOrWheel m val (p_mic_gain p) (- 12) 50 1) p) p else p)
     else if a = MODE_MINUS then pressed m (on_radio (mode_step (- 1))) p
     else if a = MODE_PLUS then pressed m (on_radio (mode_step 1)) p
     else if a = MOX then pressed m (\<lambda>p. if mox (radio p) then tell (Panel (Timer_mox_off (p_ptt_delay p))) p
       else on_radio (radio_set_mox True) p) p
     else if a = MULTI_BUTTON then
       pressed m (\<lambda>p. tell Vfo_update (p\<lparr>p_multi_first := False, p_multi_select := \<not> p_multi_select p\<rparr>)) p
     else if a = MULTI_ENC then multi_encoder again m val p
     else if a = MULTI_SELECT then moved m (\<lambda>p. multi_knob m val (p\<lparr>p_multi_first := False\<rparr>)) p
     else if a = MUTE then pressed m (\<lambda>p. toggle_mute (act p) p) p
     else if a = MUTE_RX1 then pressed m (toggle_mute 0) p
     else if a = MUTE_RX2 then (if 1 < receivers (radio p) then pressed m (toggle_mute 1) p else p)
     else if a = NB then pressed m (noise_change (\<lambda>k. k\<lparr>k_nb := (if 2 < k_nb k + 1 then 0 else k_nb k + 1)\<rparr>)) p
     else if NOTCH1_CEN \<le> a \<and> a \<le> NOTCH3_CEN then
       turned m (on_radio (\<lambda>r. notch_center_changed (active_id r) (a - NOTCH1_CEN) (25 * val) r)) p
     else if NOTCH1_WID \<le> a \<and> a \<le> NOTCH3_WID then
       turned m (on_radio (\<lambda>r. notch_width_changed (active_id r) (a - NOTCH1_WID) (25 * val) r)) p
     else if NOTCH1_EN \<le> a \<and> a \<le> NOTCH3_EN then
       pressed m (on_radio (\<lambda>r. notch_enable_toggled (active_id r) (a - NOTCH1_EN) r)) p
     else if a = NR then pressed m (noise_change (\<lambda>k. k\<lparr>k_nr := (if 4 < k_nr k + 1 then 0 else k_nr k + 1)\<rparr>)) p
     else actions_numpad a m val p)"

text \<open>The menus; \<open>MENU_FREQUENCY\<close> and \<open>MENU_VFO\<close> are one.\<close>

definition actions_menu :: "(nat \<Rightarrow> panel \<Rightarrow> panel) \<Rightarrow> nat \<Rightarrow> action_mode \<Rightarrow> int \<Rightarrow> panel \<Rightarrow> panel" where
  "actions_menu again a m val p = (
     if a = MENU_DIVERSITY then (if p_RECEIVERS p = 2 \<and> 1 < p_n_adc p then pressed m (tell (Panel (Start_menu a))) p else p)
     else if a = MENU_FREQUENCY then pressed m (tell (Panel (Start_menu MENU_VFO))) p
     else if a \<in> {MENU_AGC, MENU_BAND, MENU_BANDSTACK, MENU_FILTER, MENU_VFO, MENU_MAIN, MENU_MEMORY, MENU_MODE,
       MENU_NOISE, MENU_PS, MENU_RADIO, MENU_RX, MENU_TX} then pressed m (tell (Panel (Start_menu a))) p
     else actions_mic_nr again a m val p)"

definition tb_turn :: "(nat \<Rightarrow> nat) \<Rightarrow> panel \<Rightarrow> panel" where
  "tb_turn f p = tell (Panel Update_toolbar) (p\<lparr>p_tb_function := f (p_tb_function p)\<rparr>)"

definition actions_filter_lock :: "(nat \<Rightarrow> panel \<Rightarrow> panel) \<Rightarrow> nat \<Rightarrow> action_mode \<Rightarrow> int \<Rightarrow> panel \<Rightarrow> panel" where
  "actions_filter_lock again a m val p = (
     if a = FILTER_MINUS then pressed m (on_radio (\<lambda>r.
       let f = v_filter (vfo r (active_id r)) + 1 in vfo_filter_changed (if FILTERS \<le> f then 0 else f) r)) p
     else if a = FILTER_PLUS then pressed m (on_radio (\<lambda>r.
       let f = v_filter (vfo r (active_id r)) in vfo_filter_changed (if f = 0 then FILTERS - 1 else f - 1) r)) p
     else if a = FILTER_CUT_HIGH then turned m (on_radio (\<lambda>r. filter_high_changed (active_id r) val r)) p
     else if a = FILTER_CUT_LOW then turned m (on_radio (\<lambda>r. filter_low_changed (active_id r) val r)) p
     else if a = FILTER_CUT_DEFAULT then pressed m (on_radio (\<lambda>r. filter_cut_default (active_id r) r)) p
     else if a = FUNCTION then pressed m (tb_turn (\<lambda>n. if 6 \<le> n + 1 then 0 else n + 1)) p
     else if a = FUNCTIONREV then pressed m (tb_turn (\<lambda>n. if n = 0 then 5 else n - 1)) p
     else if a = ICONIFY then pressed m (tell (Panel Iconify)) p
     else if a = IF_SHIFT then turned m (on_radio (\<lambda>r. filter_shift_changed (active_id r) val r)) p
     else if a = IF_SHIFT_RX1 then turned m (on_radio (filter_shift_changed 0 val)) p
     else if a = IF_SHIFT_RX2 then turned m (on_radio (filter_shift_changed 1 val)) p
     else if a = IF_WIDTH then turned m (on_radio (\<lambda>r. filter_width_changed (active_id r) val r)) p
     else if a = IF_WIDTH_RX1 then turned m (on_radio (filter_width_changed 0 val)) p
     else if a = IF_WIDTH_RX2 then turned m (on_radio (filter_width_changed 1 val)) p
     else if a = LINEIN_GAIN then moved m (\<lambda>p. radio_set_linein_gain (KnobOrWheel m val (p_linein_gain p) (- 34) 12.5 1.5) p) p
     else if a = LOCK then pressed m (on_radio (\<lambda>r.
       if is_remote r then emit (Panel (Send_lock (\<not> locked r))) r else emit Vfo_update (r\<lparr>locked := \<not> locked r\<rparr>))) p
     else actions_menu again a m val p)"

text \<open>Diversity settings follow an encoder only, with three widths of step each.\<close>

definition div_gain_turn :: "real \<Rightarrow> int \<Rightarrow> panel \<Rightarrow> panel" where
  "div_gain_turn st val p = radio_set_diversity_gain (p_div_gain p + of_int val * st) p"

definition div_phase_turn :: "real \<Rightarrow> int \<Rightarrow> panel \<Rightarrow> panel" where
  "div_phase_turn st val p = radio_set_diversity_phase (p_div_phase p + of_int val * st) p"

definition compressor_call :: "radio_state \<Rightarrow> radio_state" where
  "compressor_call r = emit Vfo_update (case transmitter r of None \<Rightarrow> r
     | Some tx \<Rightarrow> emit (Switch (Tx_set_compressor (tx_cfc tx) (tx_compressor tx))) r)"

definition actions_comp_duplex :: "(nat \<Rightarrow> panel \<Rightarrow> panel) \<Rightarrow> nat \<Rightarrow> action_mode \<Rightarrow> int \<Rightarrow> panel \<Rightarrow> panel" where
  "actions_comp_duplex again a m val p = (
     if a = COMP_ENABLE then (if transmitter (radio p) \<noteq> None then pressed m (on_radio (\<lambda>r.
       compressor_call (upd_tx (\<lambda>t. t\<lparr>tx_compressor := \<not> tx_compressor t\<rparr>) r))) p else p)
     else if a = COMPRESSION then (if transmitter (radio p) \<noteq> None then moved m (\<lambda>p.
       let v = KnobOrWheel m val (p_compressor_level p) 0 20 1
       in (on_radio (\<lambda>r. compressor_call (upd_tx (\<lambda>t. t\<lparr>tx_compressor := 1 / 2 < v\<rparr>) r)) p)\<lparr>p_compressor_level := v\<rparr>) p else p)
     else if a = CTUN then pressed m (on_radio (\<lambda>r.
       emit Vfo_update (vfo_id_ctun_update (active_id r) (\<not> v_ctun (vfo r (active_id r))) r))) p
     else if a = CW_AUDIOPEAKFILTER then pressed m (on_radio (\<lambda>r.
       vfo_id_cwpeak_changed (active_id r) (if v_cwPeak (vfo r (active_id r)) \<noteq> 0 then 0 else 1) r)) p
     else if a = CW_FREQUENCY then moved m (on_radio (\<lambda>r.
       radio_set_sidetone_freq (c_trunc (KnobOrWheel m val (of_int (cw_sidetone r)) 300 1000 10)) r)) p
     else if a = CW_SPEED then moved m (\<lambda>p.
       radio_set_cw_speed (c_trunc (KnobOrWheel m val (of_int (p_cw_keyer_speed p)) 1 60 1)) p) p
     else if CW_TXT_1 \<le> a \<and> a \<le> CW_TXT_5 then pressed m (tell (Panel (Queue_cw_text (a - CW_TXT_1)))) p
     else if a = DIV then (if 1 < p_n_adc p
       then pressed m (\<lambda>p. radio_set_diversity (\<not> diversity_enabled (radio p)) p) p else p)
     else if a = DIV_GAIN then turned m (div_gain_turn 0.05 val) p
     else if a = DIV_GAIN_COARSE then turned m (div_gain_turn 0.25 val) p
     else if a = DIV_GAIN_FINE then turned m (div_gain_turn 0.01 val) p
     else if a = DIV_PHASE then turned m (div_phase_turn 0.5 val) p
     else if a = DIV_PHASE_COARSE then turned m (div_phase_turn 2.5 val) p
     else if a = DIV_PHASE_FINE then turned m (div_phase_turn 0.1 val) p
     else if a = DRIVE then moved m (\<lambda>p.
       on_radio (radio_set_drive (KnobOrWheel m val (radio_get_drive (radio p)) 0 (p_drive_max p) 1)) p) p
     else if a = DUPLEX then (if transmitter (radio p) \<noteq> None \<and> \<not> radio_is_transmitting (radio p)
       then pressed m (on_radio (\<lambda>r. radio_set_duplex (\<not> duplex r) r)) p else p)
     else actions_filter_lock again a m val p)"

text \<open>Recording and playing the receiver's sound, by one of two buttons.\<close>

definition capture_button :: "nat \<Rightarrow> panel \<Rightarrow> panel" where
  "capture_button a p = (
     let st = (\<lambda>c. on_radio (\<lambda>r. r\<lparr>capture_state := c\<rparr>)) in
     if is_remote (radio p) then tell (Panel (if a = CAPTURE then Send_capture else Send_replay)) p else
     case capture_state (radio p) of
       CAP_INIT \<Rightarrow> st CAP_AVAIL (p\<lparr>p_record_pointer := 0, p_replay_pointer := 0\<rparr>)
     | CAP_AVAIL \<Rightarrow>
         if radio_is_transmitting (radio p) then
           let p = (if transmitter (radio p) \<noteq> None then tell (Panel Xmit_captured_start) p else p)
           in st CAP_XMIT (p\<lparr>p_replay_pointer := 0\<rparr>)
         else if a = CAPTURE then st CAP_RECORDING ((tell (Panel Capture_start) p)\<lparr>p_record_pointer := 0\<rparr>)
         else st CAP_REPLAY (p\<lparr>p_replay_pointer := 0\<rparr>)
     | CAP_RECORDING \<Rightarrow> st CAP_AVAIL (tell (Panel Capture_end) p)
     | CAP_RECORD_DONE \<Rightarrow> st CAP_AVAIL (tell (Panel Capture_end) p)
     | CAP_XMIT \<Rightarrow> st CAP_AVAIL (if transmitter (radio p) \<noteq> None then tell (Panel Xmit_captured_end) p else p)
     | CAP_XMIT_DONE \<Rightarrow> st CAP_AVAIL (if transmitter (radio p) \<noteq> None then tell (Panel Xmit_captured_end) p else p)
     | CAP_REPLAY \<Rightarrow> st CAP_AVAIL p
     | CAP_REPLAY_DONE \<Rightarrow> st CAP_AVAIL p
     | CAP_GOTOSLEEP \<Rightarrow> st CAP_SLEEPING p
     | CAP_SLEEPING \<Rightarrow> st CAP_AVAIL p)"

definition actions_capture :: "(nat \<Rightarrow> panel \<Rightarrow> panel) \<Rightarrow> nat \<Rightarrow> action_mode \<Rightarrow> int \<Rightarrow> panel \<Rightarrow> panel" where
  "actions_capture again a m val p = (
     if a = REPLAY \<or> a = CAPTURE then pressed m (capture_button a) p else actions_comp_duplex again a m val p)"

text \<open>The bands with a button, and what the button selects.\<close>

definition band_buttons :: "(nat \<times> nat) list" where
  "band_buttons = [(BAND_10, 11), (BAND_12, 10), (BAND_1240, 18), (BAND_144, 14), (BAND_15, 9), (BAND_160, 2), (BAND_17, 8),
     (BAND_20, 7), (BAND_220, 15), (BAND_2300, 19), (BAND_30, 6), (BAND_3400, 20), (BAND_40, 5), (BAND_430, 16), (BAND_6, 12),
     (BAND_60, 4), (BAND_70, 13), (BAND_80, 3), (BAND_902, 17), (BAND_AIR, bandAIR), (BAND_GEN, bandGen), (BAND_136, 0),
     (BAND_WWV, bandWWV)]"

definition stack_step :: "int \<Rightarrow> radio_state \<Rightarrow> radio_state" where
  "stack_step inc r = (
     let v = vfo r (active_id r); n = int (bs_entries (bandstack_get_bandstack (v_band v) r)); b = int (v_bandstack v) + inc;
         b = (if inc < 0 then (if b < 0 then n - 1 else b) else (if n \<le> b then 0 else b))
     in vfo_bandstack_changed (nat b) r)"

definition actions_band :: "(nat \<Rightarrow> panel \<Rightarrow> panel) \<Rightarrow> nat \<Rightarrow> action_mode \<Rightarrow> int \<Rightarrow> panel \<Rightarrow> panel" where
  "actions_band again a m val p = (case map_of band_buttons a of
     Some b \<Rightarrow> pressed m (on_radio (\<lambda>r. vfo_id_band_changed (active_id r) b r)) p
   | None \<Rightarrow>
     if a = BAND_MINUS then pressed m (on_radio (\<lambda>r. the (band_minus (active_id r) r))) p
     else if a = BAND_PLUS then pressed m (on_radio (\<lambda>r. the (band_plus (active_id r) r))) p
     else if a = BANDSTACK_MINUS then pressed m (on_radio (stack_step (- 1))) p
     else if a = BANDSTACK_PLUS then pressed m (on_radio (stack_step 1)) p
     else actions_capture again a m val p)"

definition agc_next :: "nat \<Rightarrow> nat" where
  "agc_next n = (let n = n + 1; n = (if n = AGC_FIXED then n + 1 else n) in if AGC_LAST \<le> n then 0 else n)"

definition agc_step :: "panel \<Rightarrow> panel" where
  "agc_step p = (let i = act p; new = agc_next (k_agc (p_knobs p i)) in
     on_radio (\<lambda>r. emit Vfo_update (emit (Dsp (Rx_set_agc i)) (upd_rx i (\<lambda>rx. rx\<lparr>rx_agc_fixed := new = AGC_FIXED\<rparr>) r)))
       (upd_knobs i (\<lambda>k. k\<lparr>k_agc := new\<rparr>) p))"

definition af_gain_knob :: "action_mode \<Rightarrow> int \<Rightarrow> nat \<Rightarrow> panel \<Rightarrow> panel" where
  "af_gain_knob m val i p = radio_set_af_gain i (KnobOrWheel m val (k_volume (p_knobs p i)) (- 40) 0 1) p"

definition agc_gain_knob :: "action_mode \<Rightarrow> int \<Rightarrow> nat \<Rightarrow> panel \<Rightarrow> panel" where
  "agc_gain_knob m val i p =
     on_radio (radio_set_agc_gain i (KnobOrWheel m val (rx_agc_gain (receiver (radio p) i)) (- 20) 120 1)) p"

definition attenuation_knob :: "action_mode \<Rightarrow> int \<Rightarrow> radio_state \<Rightarrow> radio_state" where
  "attenuation_knob m val r = (let i = active_id r in radio_set_attenuation i
     (c_trunc (KnobOrWheel m val (of_int (adc_attenuation (adc r (rx_adc (receiver r i))))) 0 31 1)) r)"

definition process_action_with :: "(nat \<Rightarrow> panel \<Rightarrow> panel) \<Rightarrow> nat \<Rightarrow> action_mode \<Rightarrow> int \<Rightarrow> panel \<Rightarrow> panel" where
  "process_action_with again a m val p = (
     if a = A_SWAP_B then pressed m (on_radio vfo_a_swap_b) p
     else if a = A_TO_B then pressed m (on_radio vfo_a_to_b) p
     else if a = AF_GAIN then moved m (\<lambda>p. af_gain_knob m val (act p) p) p
     else if a = AF_GAIN_RX1 then moved m (af_gain_knob m val 0) p
     else if a = AF_GAIN_RX2 then (if receivers (radio p) = 2 then moved m (af_gain_knob m val 1) p else p)
     else if a = AGC then pressed m agc_step p
     else if a = AGC_GAIN then moved m (\<lambda>p. agc_gain_knob m val (act p) p) p
     else if a = AGC_GAIN_RX1 then moved m (agc_gain_knob m val 0) p
     else if a = AGC_GAIN_RX2 then (if receivers (radio p) = 2 then moved m (agc_gain_knob m val 1) p else p)
     else if a = ANF then pressed m (noise_change (\<lambda>k. k\<lparr>k_anf := \<not> k_anf k\<rparr>)) p
     else if a = ATTENUATION then (if have_rx_att (radio p) then moved m (on_radio (attenuation_knob m val)) p else p)
     else if a = B_TO_A then pressed m (on_radio vfo_b_to_a) p
     else actions_band again a m val p)"

text \<open>
  No entry of the table of the multifunction encoder is that encoder, so its action is processed
  without a further call.
\<close>

definition process_action :: "action_event \<Rightarrow> panel \<Rightarrow> panel" where
  "process_action e = (case e of (a, m, val) \<Rightarrow>
     process_action_with (\<lambda>b. process_action_with (\<lambda>_ p. p) b m val) a m val)"

text \<open>The timer of a held button, and one task of the GTK thread.\<close>

definition repeat_cb :: "panel \<Rightarrow> panel" where
  "repeat_cb p = (if p_repeat_released p then p\<lparr>p_repeat_timer := False\<rparr> else process_action (p_repeat p) p)"

definition run_idle :: "panel \<Rightarrow> panel" where
  "run_idle p = (case p_idle p of [] \<Rightarrow> p | e # es \<Rightarrow> process_action e (p\<lparr>p_idle := es\<rparr>))"

lemma multi_no_nesting: "MULTI_ENC \<notin> set multi_action_table"
  by (simp add: multi_action_table_def)

end
