(* ===== verification/Midi.thy ===== *)
theory Midi
  imports Actions
begin

text \<open>
  MIDI controllers (\<^verbatim>\<open>src/src/midi.h\<close>, \<^verbatim>\<open>src/src/midi2.c\<close>, \<^verbatim>\<open>src/src/midi3.c\<close>, with the
  table operations of \<^verbatim>\<open>src/src/midi_menu.c\<close>): the parser of the byte stream, the table that
  assigns actions to controls, the timers that collect the clicks of a VFO wheel, and the settings.
\<close>

subsection \<open>The data\<close>

datatype midi_event = EVENT_NONE | MIDI_NOTE | MIDI_CTRL | MIDI_PITCH

datatype parse_state = STATE_SKIP | STATE_ARG1 | STATE_ARG2

datatype parse_command = CMD_NOTEON | CMD_NOTEOFF | CMD_CTRL | CMD_PITCH

record midi_parser =
  ps_state :: parse_state
  ps_command :: parse_command
  ps_chan :: nat
  ps_arg1 :: nat
  ps_arg2 :: nat

text \<open>
  An entry of the table. The ranges of controller values of an encoder are pairs: \<open>d_vfl\<close> is
  \<open>(vfl1, vfl2)\<close>. The list that starts in a slot of \<open>MidiCommandsTable\<close> is a list here.
\<close>

record desc =
  d_channel :: int       \<comment> \<open>- 1 for any channel\<close>
  d_event :: midi_event
  d_type :: nat
  d_vfl :: "int \<times> int"
  d_fl :: "int \<times> int"
  d_lft :: "int \<times> int"
  d_rgt :: "int \<times> int"
  d_fr :: "int \<times> int"
  d_vfr :: "int \<times> int"
  d_action :: nat

type_synonym midi_table = "nat \<Rightarrow> desc list"

record vfo_timer =
  t_val :: int
  t_running :: bool      \<comment> \<open>\<open>timeout\<close> is not 0\<close>

text \<open>\<open>timers VFO\<close> is \<open>vfo_timer\<close>, and \<open>timers VFOA\<close> and \<open>timers VFOB\<close> are the other two.\<close>

record midi =
  console :: panel
  parser :: midi_parser
  MidiCommandsTable :: midi_table
  midi_configure :: bool
  midiIgnoreCtrlPairs :: bool
  timers :: "nat \<Rightarrow> vfo_timer"
  configured :: "(midi_event \<times> nat \<times> nat \<times> nat) list"   \<comment> \<open>calls of \<open>NewMidiConfigureEvent\<close>\<close>

definition on_console :: "(panel \<Rightarrow> panel) \<Rightarrow> midi \<Rightarrow> midi" where
  "on_console f s = s\<lparr>console := f (console s)\<rparr>"

subsection \<open>From MIDI to actions\<close>

text \<open>A click of a VFO wheel; the timer runs for 100 milliseconds.\<close>

definition timer_click :: "int \<Rightarrow> vfo_timer \<Rightarrow> vfo_timer" where
  "timer_click val t = (let t = t\<lparr>t_val := t_val t + val\<rparr> in if \<not> t_running t then t\<lparr>t_running := True\<rparr> else t)"

definition DoTheMidi :: "nat \<Rightarrow> nat \<Rightarrow> int \<Rightarrow> midi \<Rightarrow> midi" where
  "DoTheMidi a type val s = (
     if type = AT_BTN then on_console (schedule_action (a, if val \<noteq> 0 then PRESSED else RELEASED, 0)) s
     else if type = AT_KNB then on_console (schedule_action (a, ABSOLUTE, val)) s
     else if type = AT_ENC then
       (if a = VFOA \<or> a = VFOB \<or> a = VFO then s\<lparr>timers := (timers s)(a := timer_click val (timers s a))\<rparr>
        else on_console (schedule_action (a, RELATIVE, val)) s)
     else s)"

definition vfo_timeout_cb :: "nat \<Rightarrow> midi \<Rightarrow> midi" where
  "vfo_timeout_cb a s = (on_console (schedule_action (a, RELATIVE, t_val (timers s a))) s)
     \<lparr>timers := (timers s)(a := (timers s a)\<lparr>t_running := False, t_val := 0\<rparr>)\<rparr>"

text \<open>The direction and speed of an encoder: the last range that holds the value counts.\<close>

definition wheel :: "desc \<Rightarrow> int \<Rightarrow> int" where
  "wheel d val = (
     let new = 0;
         new = (if fst (d_vfl d) \<le> val \<and> val \<le> snd (d_vfl d) then - 16 else new);
         new = (if fst (d_fl d) \<le> val \<and> val \<le> snd (d_fl d) then - 4 else new);
         new = (if fst (d_lft d) \<le> val \<and> val \<le> snd (d_lft d) then - 1 else new);
         new = (if fst (d_rgt d) \<le> val \<and> val \<le> snd (d_rgt d) then 1 else new);
         new = (if fst (d_fr d) \<le> val \<and> val \<le> snd (d_fr d) then 4 else new)
     in if fst (d_vfr d) \<le> val \<and> val \<le> snd (d_vfr d) then 16 else new)"

definition midi_action :: "desc \<Rightarrow> int \<Rightarrow> midi \<Rightarrow> midi" where
  "midi_action d val s = (case d_event d of
     EVENT_NONE \<Rightarrow> s
   | MIDI_NOTE \<Rightarrow> DoTheMidi (d_action d) (d_type d) val s
   | MIDI_CTRL \<Rightarrow>
       if d_type d = AT_KNB then DoTheMidi (d_action d) (d_type d) val s
       else if d_type d = AT_ENC then
         (let new = wheel d val in if new \<noteq> 0 then DoTheMidi (d_action d) (d_type d) new s else s)
       else s
   | MIDI_PITCH \<Rightarrow> if d_type d = AT_KNB then DoTheMidi (d_action d) (d_type d) val s else s)"

definition matches :: "midi_event \<Rightarrow> nat \<Rightarrow> desc \<Rightarrow> bool" where
  "matches event chan d \<longleftrightarrow> (d_channel d = int chan \<or> d_channel d = - 1) \<and> d_event d = event"

definition NewMidiEvent :: "midi_event \<Rightarrow> nat \<Rightarrow> nat \<Rightarrow> nat \<Rightarrow> midi \<Rightarrow> midi" where
  "NewMidiEvent event chan note val s = (
     if event = MIDI_NOTE \<and> chan = 15 \<and> note = 0 then s
     else if event \<noteq> MIDI_PITCH \<and> 127 < note then s
     else case find (matches event chan) (MidiCommandsTable s (if event = MIDI_PITCH then 128 else note)) of
       None \<Rightarrow> s | Some d \<Rightarrow> midi_action d (int val) s)"

subsection \<open>Two threads at a timer\<close>

text \<open>
  The MIDI thread adds a click (a load and a store) and tests the timer; \<open>vfo_timeout_cb\<close> in the GTK
  thread schedules the action, disarms the timer and clears its value. Nothing keeps the steps of
  one from falling between those of the other. \<open>r_clicks\<close> and \<open>r_sched\<close> record what came in and
  what was scheduled.
\<close>

datatype midi_pc = M_idle | M_add int int | M_test

datatype gtk_pc = G_idle | G_disarm | G_clear

record timer_race =
  r_timer :: vfo_timer
  r_midi :: midi_pc
  r_gtk :: gtk_pc
  r_clicks :: "int list"
  r_sched :: "int list"

inductive race_step :: "timer_race \<Rightarrow> timer_race \<Rightarrow> bool" where
  race_load: "r_midi s = M_idle \<Longrightarrow> race_step s (s\<lparr>r_midi := M_add (t_val (r_timer s)) v, r_clicks := r_clicks s @ [v]\<rparr>)"
| race_store: "r_midi s = M_add x v \<Longrightarrow> race_step s (s\<lparr>r_midi := M_test, r_timer := (r_timer s)\<lparr>t_val := x + v\<rparr>\<rparr>)"
| race_test: "r_midi s = M_test \<Longrightarrow> race_step s (s\<lparr>r_midi := M_idle, r_timer := (r_timer s)\<lparr>t_running := True\<rparr>\<rparr>)"
| race_fire: "r_gtk s = G_idle \<Longrightarrow> t_running (r_timer s)
    \<Longrightarrow> race_step s (s\<lparr>r_gtk := G_disarm, r_sched := r_sched s @ [t_val (r_timer s)]\<rparr>)"
| race_disarm: "r_gtk s = G_disarm \<Longrightarrow> race_step s (s\<lparr>r_gtk := G_clear, r_timer := (r_timer s)\<lparr>t_running := False\<rparr>\<rparr>)"
| race_clear: "r_gtk s = G_clear \<Longrightarrow> race_step s (s\<lparr>r_gtk := G_idle, r_timer := (r_timer s)\<lparr>t_val := 0\<rparr>\<rparr>)"

definition race_start :: timer_race where
  "race_start = \<lparr>r_timer = \<lparr>t_val = 0, t_running = False\<rparr>, r_midi = M_idle, r_gtk = G_idle, r_clicks = [], r_sched = []\<rparr>"

definition race_quiet :: "timer_race \<Rightarrow> bool" where
  "race_quiet s \<longleftrightarrow> r_midi s = M_idle \<and> r_gtk s = G_idle \<and> r_timer s = \<lparr>t_val = 0, t_running = False\<rparr>"

subsection \<open>The parser\<close>

definition deliver :: "midi_event \<Rightarrow> nat \<Rightarrow> nat \<Rightarrow> nat \<Rightarrow> midi \<Rightarrow> midi" where
  "deliver event chan note val s = (if midi_configure s then s\<lparr>configured := configured s @ [(event, chan, note, val)]\<rparr>
     else NewMidiEvent event chan note val s)"

definition midi_command :: "midi_parser \<Rightarrow> midi \<Rightarrow> midi" where
  "midi_command p s = (case ps_command p of
     CMD_NOTEON \<Rightarrow> deliver MIDI_NOTE (ps_chan p) (ps_arg1 p) (if ps_arg2 p = 0 then 0 else 1) s
   | CMD_NOTEOFF \<Rightarrow> deliver MIDI_NOTE (ps_chan p) (ps_arg1 p) 0 s
   | CMD_CTRL \<Rightarrow> if \<not> midiIgnoreCtrlPairs s \<or> ps_arg1 p < 32 \<or> 64 \<le> ps_arg1 p
       then deliver MIDI_CTRL (ps_chan p) (ps_arg1 p) (ps_arg2 p) s else s
   | CMD_PITCH \<Rightarrow> deliver MIDI_PITCH (ps_chan p) 0 (ps_arg2 p) s)"

definition status_command :: "nat \<Rightarrow> parse_command option" where
  "status_command n = (if n = 0x80 then Some CMD_NOTEOFF else if n = 0x90 then Some CMD_NOTEON
     else if n = 0xB0 then Some CMD_CTRL else if n = 0xE0 then Some CMD_PITCH else None)"

definition parse_midi_byte :: "8 word \<Rightarrow> midi \<Rightarrow> midi" where
  "parse_midi_byte byte s = (let p = parser s in case ps_state p of
     STATE_SKIP \<Rightarrow>
       let p = p\<lparr>ps_chan := unat byte mod 16\<rparr>
       in (case status_command (16 * (unat byte div 16)) of
            Some c \<Rightarrow> s\<lparr>parser := p\<lparr>ps_command := c, ps_state := STATE_ARG2\<rparr>\<rparr>
          | None \<Rightarrow> s\<lparr>parser := p\<rparr>)
   | STATE_ARG2 \<Rightarrow> s\<lparr>parser := p\<lparr>ps_arg1 := unat byte mod 128, ps_state := STATE_ARG1\<rparr>\<rparr>
   | STATE_ARG1 \<Rightarrow>
       let p = p\<lparr>ps_arg2 := unat byte mod 128\<rparr>
       in (midi_command p s)\<lparr>parser := p\<lparr>ps_state := STATE_SKIP\<rparr>\<rparr>)"

subsection \<open>The table\<close>

definition MidiReleaseCommands :: "midi_table \<Rightarrow> midi_table" where
  "MidiReleaseCommands t = (\<lambda>i. if i < 129 then [] else t i)"

definition MidiAddCommand :: "nat \<Rightarrow> desc \<Rightarrow> midi_table \<Rightarrow> midi_table" where
  "MidiAddCommand note d t = (if 128 < note then t
     else t(note := if 0 \<le> d_channel d then d # t note else t note @ [d]))"

text \<open>The menu changes the entry for the control that was moved, or adds one.\<close>

definition same_control :: "desc \<Rightarrow> desc \<Rightarrow> bool" where
  "same_control d c \<longleftrightarrow> d_channel c = d_channel d \<and> d_event c = d_event d"

fun replace_first :: "desc \<Rightarrow> desc list \<Rightarrow> desc list option" where
  "replace_first d [] = None"
| "replace_first d (c # cs) = (if same_control d c then Some (d # cs) else map_option (\<lambda>cs. c # cs) (replace_first d cs))"

definition updateDescription :: "nat \<Rightarrow> desc \<Rightarrow> midi_table \<Rightarrow> midi_table" where
  "updateDescription note d t = (
     if 128 < note \<or> ACTIONS \<le> d_action d then t
     else case replace_first d (t note) of Some cs \<Rightarrow> t(note := cs) | None \<Rightarrow> MidiAddCommand note d t)"

subsection \<open>Settings\<close>

fun MidiEvent2String :: "midi_event \<Rightarrow> string" where
  "MidiEvent2String EVENT_NONE = ''NONE''"
| "MidiEvent2String MIDI_NOTE = ''NOTE''"
| "MidiEvent2String MIDI_CTRL = ''CTRL''"
| "MidiEvent2String MIDI_PITCH = ''PITCH''"

definition String2MidiEvent :: "string \<Rightarrow> midi_event" where
  "String2MidiEvent s = (if s = ''NOTE'' then MIDI_NOTE else if s = ''CTRL'' then MIDI_CTRL
     else if s = ''PITCH'' then MIDI_PITCH else EVENT_NONE)"

definition SetPropA :: "string \<Rightarrow> nat \<Rightarrow> string \<times> string" where
  "SetPropA name a = (snprintf 128 name, snprintf 128 (Action2String a))"

definition GetPropA :: "string \<Rightarrow> properties \<Rightarrow> nat \<Rightarrow> nat" where
  "GetPropA name ps d = (case getProperty (snprintf 128 name) ps of None \<Rightarrow> d | Some v \<Rightarrow> String2Action v)"

text \<open>The names \<open>midi[%d].entry[%d].channel\<close> and \<open>midi[%d].entry[%d].channel[%d].f\<close>.\<close>

definition entry_name :: "nat \<Rightarrow> nat \<Rightarrow> string" where
  "entry_name i e = ''midi['' @ print_nat i @ ''].entry['' @ print_nat e @ ''].channel''"

definition field_name :: "nat \<Rightarrow> nat \<Rightarrow> int \<Rightarrow> string \<Rightarrow> string" where
  "field_name i e c f = entry_name i e @ ''['' @ print_int c @ ''].'' @ f"

definition count_name :: "nat \<Rightarrow> string" where
  "count_name i = ''midi['' @ print_nat i @ ''].entries''"

definition device_name :: "nat \<Rightarrow> string" where
  "device_name i = ''mididevice['' @ print_nat i @ ''].name''"

definition range_props :: "nat \<Rightarrow> nat \<Rightarrow> desc \<Rightarrow> (string \<times> string) list" where
  "range_props i e d = (let put = (\<lambda>f n. SetPropI (field_name i e (d_channel d) f) n) in
     [put ''vfl1'' (fst (d_vfl d)), put ''vfl2'' (snd (d_vfl d)), put ''fl1'' (fst (d_fl d)), put ''fl2'' (snd (d_fl d)),
      put ''lft1'' (fst (d_lft d)), put ''lft2'' (snd (d_lft d)), put ''rgt1'' (fst (d_rgt d)), put ''rgt2'' (snd (d_rgt d)),
      put ''fr1'' (fst (d_fr d)), put ''fr2'' (snd (d_fr d)), put ''vfr1'' (fst (d_vfr d)), put ''vfr2'' (snd (d_vfr d))])"

definition midi_entry_props :: "nat \<Rightarrow> nat \<Rightarrow> desc \<Rightarrow> (string \<times> string) list" where
  "midi_entry_props i e d = (let c = d_channel d in
     [SetPropI (entry_name i e) c, SetPropS (field_name i e c ''event'') (MidiEvent2String (d_event d)),
      SetPropS (field_name i e c ''type'') (ActionType2String (d_type d)), SetPropA (field_name i e c ''action'') (d_action d)]
     @ (if d_type d = AT_ENC then range_props i e d else []))"

definition slot_props :: "nat \<Rightarrow> desc list \<Rightarrow> (string \<times> string) list" where
  "slot_props i ds = concat (map (\<lambda>e. midi_entry_props i e (ds ! e)) [0..<length ds])
     @ [SetPropI (count_name i) (int (length ds))]"

text \<open>The devices are pairs of name and \<open>active\<close>.\<close>

definition device_props :: "(string \<times> bool) list \<Rightarrow> (string \<times> string) list" where
  "device_props devs = map (\<lambda>i. SetPropS (device_name i) ''NO_MIDI_DEVICE_FOUND'') [0..<10]
     @ (let active = filter snd devs in map (\<lambda>i. SetPropS (device_name i) (fst (active ! i))) [0..<length active])"

definition midi_save_state :: "bool \<Rightarrow> (string \<times> bool) list \<Rightarrow> midi_table \<Rightarrow> properties \<Rightarrow> properties" where
  "midi_save_state ignore devs t = set_all (SetPropI ''midiIgnoreCtrlPairs'' (of_bool ignore) # device_props devs
     @ concat (map (\<lambda>i. slot_props i (t i)) [0..<129]))"

definition restored_type :: "midi_event \<Rightarrow> nat \<Rightarrow> string \<Rightarrow> nat" where
  "restored_type event a str = (case event of
     EVENT_NONE \<Rightarrow> AT_NONE | MIDI_NOTE \<Rightarrow> AT_BTN | MIDI_PITCH \<Rightarrow> AT_KNB
   | MIDI_CTRL \<Rightarrow> if kinds a AND AT_ENC = 0 \<or> String2ActionType str = AT_KNB then AT_KNB else AT_ENC)"

definition get_range :: "nat \<Rightarrow> nat \<Rightarrow> int \<Rightarrow> string \<Rightarrow> properties \<Rightarrow> int \<times> int \<Rightarrow> int \<times> int" where
  "get_range i e c f ps d = (
     let get = (\<lambda>g x. the (GetPropI (field_name i e c g) ps Some x))
     in (get (f @ ''1'') (fst d), get (f @ ''2'') (snd d)))"

definition restore_entry :: "properties \<Rightarrow> nat \<Rightarrow> nat \<Rightarrow> midi_table \<Rightarrow> midi_table" where
  "restore_entry ps i e t = (
     let c = the (GetPropI (entry_name i e) ps Some (- 1)) in
     if c < 0 then t else
     let event = String2MidiEvent (GetPropS 128 (field_name i e c ''event'') ps ''None'');
         a = GetPropA (field_name i e c ''action'') ps NO_ACTION
     in if event = EVENT_NONE \<or> ACTIONS \<le> a then t else
     let type = restored_type event a (GetPropS 128 (field_name i e c ''type'') ps ''None'');
         get = (\<lambda>f d. if type = AT_ENC then get_range i e c f ps d else d)
     in MidiAddCommand i \<lparr>d_channel = c, d_event = event, d_type = type, d_vfl = get ''vfl'' (- 1, - 1), d_fl = get ''fl'' (- 1, - 1),
          d_lft = get ''lft'' (0, 63), d_rgt = get ''rgt'' (65, 127), d_fr = get ''fr'' (- 1, - 1), d_vfr = get ''vfr'' (- 1, - 1),
          d_action = a\<rparr> t)"

definition restore_slot :: "properties \<Rightarrow> nat \<Rightarrow> midi_table \<Rightarrow> midi_table" where
  "restore_slot ps i = fold (restore_entry ps i) [0..<nat (the (GetPropI (count_name i) ps Some (- 1)))]"

definition restore_devices :: "properties \<Rightarrow> (string \<times> bool) list \<Rightarrow> (string \<times> bool) list" where
  "restore_devices ps devs = (let names = map (\<lambda>i. GetPropS 128 (device_name i) ps ''NO_MIDI_DEVICE_FOUND'') [0..<10]
     in map (\<lambda>(n, act). (n, act \<or> n \<in> set names)) devs)"

text \<open>\<open>found\<close> are the devices that \<open>get_midi_devices\<close> finds.\<close>

definition midi_restore_state ::
    "properties \<Rightarrow> (string \<times> bool) list \<Rightarrow> bool \<Rightarrow> midi_table \<Rightarrow> bool \<times> (string \<times> bool) list \<times> midi_table" where
  "midi_restore_state ps found ignore t = (
     the (GetPropI ''midiIgnoreCtrlPairs'' ps as_flag ignore), restore_devices ps found,
     fold (restore_slot ps) [0..<129] (MidiReleaseCommands t))"

end
