(* ===== verification/Midi_Facts.thy ===== *)
theory Midi_Facts
  imports Midi
begin

text \<open>
  The way of a MIDI message: the parser finds the messages of a stream, the clicks of a VFO wheel all
  arrive, and what is lost when the timer of the wheel fires while a message comes in.
\<close>

subsection \<open>The stream\<close>

text \<open>
  A stream of channel messages, with bytes in between that do not start one of the four kinds the
  program uses: other messages with their data, and system exclusive data.
\<close>

datatype midi_item = Message parse_command nat nat nat | Skipped "8 word list"

fun status_of :: "parse_command \<Rightarrow> nat" where
  "status_of CMD_NOTEOFF = 0x80" | "status_of CMD_NOTEON = 0x90" | "status_of CMD_CTRL = 0xB0" | "status_of CMD_PITCH = 0xE0"

fun item_bytes :: "midi_item \<Rightarrow> 8 word list" where
  "item_bytes (Message c ch a b) = [of_nat (status_of c + ch), of_nat a, of_nat b]"
| "item_bytes (Skipped bs) = bs"

fun item_ok :: "midi_item \<Rightarrow> bool" where
  "item_ok (Message c ch a b) \<longleftrightarrow> ch < 16 \<and> a < 128 \<and> b < 128"
| "item_ok (Skipped bs) \<longleftrightarrow> (\<forall>b \<in> set bs. status_command (16 * (unat b div 16)) = None)"

fun item_events :: "bool \<Rightarrow> midi_item \<Rightarrow> (midi_event \<times> nat \<times> nat \<times> nat) list" where
  "item_events ignore (Message CMD_NOTEON ch a b) = [(MIDI_NOTE, ch, a, if b = 0 then 0 else 1)]"
| "item_events ignore (Message CMD_NOTEOFF ch a b) = [(MIDI_NOTE, ch, a, 0)]"
| "item_events ignore (Message CMD_CTRL ch a b) = (if ignore \<and> 32 \<le> a \<and> a < 64 then [] else [(MIDI_CTRL, ch, a, b)])"
| "item_events ignore (Message CMD_PITCH ch a b) = [(MIDI_PITCH, ch, 0, b)]"
| "item_events ignore (Skipped bs) = []"

definition handle :: "(midi_event \<times> nat \<times> nat \<times> nat) list \<Rightarrow> midi \<Rightarrow> midi" where
  "handle = fold (\<lambda>(e, ch, n, v). deliver e ch n v)"

lemma handle_simps [simp]: "handle [] s = s" "handle ((e, ch, n, v) # es) s = handle es (deliver e ch n v s)"
  "handle (xs @ ys) s = handle ys (handle xs s)"
  by (simp_all add: handle_def)

lemma DoTheMidi_keeps:
  "DoTheMidi a t v (s\<lparr>parser := p\<rparr>) = (DoTheMidi a t v s)\<lparr>parser := p\<rparr>"
  "midiIgnoreCtrlPairs (DoTheMidi a t v s) = midiIgnoreCtrlPairs s" "midi_configure (DoTheMidi a t v s) = midi_configure s"
  "MidiCommandsTable (DoTheMidi a t v s) = MidiCommandsTable s" "parser (DoTheMidi a t v s) = parser s"
  by (auto simp: DoTheMidi_def on_console_def)

lemma midi_action_keeps:
  "midi_action d v (s\<lparr>parser := p\<rparr>) = (midi_action d v s)\<lparr>parser := p\<rparr>"
  "midiIgnoreCtrlPairs (midi_action d v s) = midiIgnoreCtrlPairs s" "midi_configure (midi_action d v s) = midi_configure s"
  "MidiCommandsTable (midi_action d v s) = MidiCommandsTable s" "parser (midi_action d v s) = parser s"
  by (cases "d_event d"; simp add: midi_action_def Let_def DoTheMidi_keeps)+

text \<open>The entry for an event.\<close>

definition midi_lookup :: "midi_event \<Rightarrow> nat \<Rightarrow> nat \<Rightarrow> midi_table \<Rightarrow> desc option" where
  "midi_lookup e ch n t = (if e = MIDI_NOTE \<and> ch = 15 \<and> n = 0 \<or> e \<noteq> MIDI_PITCH \<and> 127 < n then None
     else find (matches e ch) (t (if e = MIDI_PITCH then 128 else n)))"

lemma NewMidiEvent_lookup:
  "NewMidiEvent e ch n v s = (case midi_lookup e ch n (MidiCommandsTable s) of None \<Rightarrow> s | Some d \<Rightarrow> midi_action d (int v) s)"
  by (simp add: NewMidiEvent_def midi_lookup_def)

lemma NewMidiEvent_keeps:
  "NewMidiEvent e ch n v (s\<lparr>parser := p\<rparr>) = (NewMidiEvent e ch n v s)\<lparr>parser := p\<rparr>"
  "midiIgnoreCtrlPairs (NewMidiEvent e ch n v s) = midiIgnoreCtrlPairs s"
  "midi_configure (NewMidiEvent e ch n v s) = midi_configure s"
  "MidiCommandsTable (NewMidiEvent e ch n v s) = MidiCommandsTable s" "parser (NewMidiEvent e ch n v s) = parser s"
  unfolding NewMidiEvent_lookup by (simp_all add: midi_action_keeps split: option.split)

lemma deliver_keeps:
  "deliver e ch n v (s\<lparr>parser := p\<rparr>) = (deliver e ch n v s)\<lparr>parser := p\<rparr>"
  "midiIgnoreCtrlPairs (deliver e ch n v s) = midiIgnoreCtrlPairs s" "midi_configure (deliver e ch n v s) = midi_configure s"
  "MidiCommandsTable (deliver e ch n v s) = MidiCommandsTable s" "parser (deliver e ch n v s) = parser s"
  by (simp_all add: deliver_def NewMidiEvent_keeps)

lemma handle_keeps:
  "handle es (s\<lparr>parser := p\<rparr>) = (handle es s)\<lparr>parser := p\<rparr>" "midiIgnoreCtrlPairs (handle es s) = midiIgnoreCtrlPairs s"
  "parser (handle es s) = parser s"
  by (induction es arbitrary: s) (auto simp: deliver_keeps)

lemma midi_command_handle:
  "midi_command p s = handle (item_events (midiIgnoreCtrlPairs s) (Message (ps_command p) (ps_chan p) (ps_arg1 p) (ps_arg2 p))) s"
  by (cases "ps_command p") (auto simp: midi_command_def)

lemma byte_unat: "n < 256 \<Longrightarrow> unat (of_nat n :: 8 word) = n"
  by (simp add: unat_of_nat)

lemma status_byte:
  assumes "ch < 16"
  shows "status_command (16 * (unat (of_nat (status_of c + ch) :: 8 word) div 16)) = Some c"
    and "unat (of_nat (status_of c + ch) :: 8 word) mod 16 = ch"
proof -
  define k where "k = status_of c div 16"
  have k: "status_of c = 16 * k" "k < 16" by (cases c; simp add: k_def)+
  then have n: "status_of c + ch < 256" "(status_of c + ch) div 16 = status_of c div 16" "(status_of c + ch) mod 16 = ch"
    using assms by simp_all
  show "status_command (16 * (unat (of_nat (status_of c + ch) :: 8 word) div 16)) = Some c"
    unfolding byte_unat [OF n(1)] n(2) by (cases c) (simp_all add: status_command_def)
  show "unat (of_nat (status_of c + ch) :: 8 word) mod 16 = ch"
    unfolding byte_unat [OF n(1)] n(3) by simp
qed

lemma skipped:
  assumes "ps_state (parser s) = STATE_SKIP" and "\<forall>b \<in> set bs. status_command (16 * (unat b div 16)) = None"
  shows "\<exists>p. fold parse_midi_byte bs s = s\<lparr>parser := p\<rparr> \<and> ps_state p = STATE_SKIP"
  using assms
proof (induction bs arbitrary: s)
  case Nil
  then show ?case by (intro exI [of _ "parser s"]) simp
next
  case (Cons b bs)
  let ?s = "parse_midi_byte b s"
  have "?s = s\<lparr>parser := (parser s)\<lparr>ps_chan := unat b mod 16\<rparr>\<rparr>"
    using Cons.prems by (simp add: parse_midi_byte_def Let_def)
  then show ?case using Cons.IH [of ?s] Cons.prems by simp
qed

lemma message:
  assumes "ps_state (parser s) = STATE_SKIP" and "ch < 16" and "a < 128" and "b < 128"
  shows "fold parse_midi_byte (item_bytes (Message c ch a b)) s
    = (handle (item_events (midiIgnoreCtrlPairs s) (Message c ch a b)) s)
        \<lparr>parser := \<lparr>ps_state = STATE_SKIP, ps_command = c, ps_chan = ch, ps_arg1 = a, ps_arg2 = b\<rparr>\<rparr>"
proof -
  obtain st co chn a1 a2 where p: "parser s = \<lparr>ps_state = st, ps_command = co, ps_chan = chn, ps_arg1 = a1, ps_arg2 = a2\<rparr>"
    by (cases "parser s")
  define sb where "sb = (of_nat (status_of c + ch) :: 8 word)"
  have sb: "status_command (16 * (unat sb div 16)) = Some c" "unat sb mod 16 = ch"
    unfolding sb_def by (rule status_byte [OF assms(2)])+
  have "unat (of_nat a :: 8 word) mod 128 = a" "unat (of_nat b :: 8 word) mod 128 = b"
    using assms(3,4) by (simp_all add: byte_unat)
  then show ?thesis
    using assms(1) unfolding item_bytes.simps sb_def [symmetric]
    by (simp add: parse_midi_byte_def Let_def sb p midi_command_handle handle_keeps)
qed


subsection \<open>The wheel of a VFO\<close>

text \<open>What can happen to a wheel: it is moved, or its timer fires.\<close>

datatype wheel_input = Moved nat | Fires

fun wheel_step :: "nat \<Rightarrow> nat \<Rightarrow> nat \<Rightarrow> wheel_input \<Rightarrow> midi \<Rightarrow> midi" where
  "wheel_step ch n a (Moved v) s = fold parse_midi_byte (item_bytes (Message CMD_CTRL ch n v)) s"
| "wheel_step ch n a Fires s = (if t_running (timers s a) then vfo_timeout_cb a s else s)"

fun wheel_clicks :: "desc \<Rightarrow> wheel_input \<Rightarrow> int" where
  "wheel_clicks d (Moved v) = wheel d (int v)"
| "wheel_clicks d Fires = 0"

text \<open>The controller \<open>n\<close> of channel \<open>ch\<close> is the wheel of VFO action \<open>a\<close>.\<close>

definition is_wheel :: "nat \<Rightarrow> nat \<Rightarrow> desc \<Rightarrow> midi \<Rightarrow> bool" where
  "is_wheel ch n d s \<longleftrightarrow> find (matches MIDI_CTRL ch) (MidiCommandsTable s n) = Some d \<and> d_type d = AT_ENC
     \<and> d_action d \<in> {VFO, VFOA, VFOB} \<and> ch < 16 \<and> n < 128 \<and> \<not> midi_configure s \<and> ps_state (parser s) = STATE_SKIP
     \<and> (midiIgnoreCtrlPairs s \<longrightarrow> n < 32 \<or> 64 \<le> n)"

lemma click:
  assumes "is_wheel ch n d s" and "v < 128"
  shows "wheel_step ch n (d_action d) (Moved v) s = (if wheel d (int v) = 0 then s
      else s\<lparr>timers := (timers s)(d_action d := timer_click (wheel d (int v)) (timers s (d_action d)))\<rparr>)
      \<lparr>parser := \<lparr>ps_state = STATE_SKIP, ps_command = CMD_CTRL, ps_chan = ch, ps_arg1 = n, ps_arg2 = v\<rparr>\<rparr>"
proof -
  have d: "d_event d = MIDI_CTRL"
    using assms(1) by (auto simp: is_wheel_def find_Some_iff matches_def)
  have "midiIgnoreCtrlPairs s \<longrightarrow> \<not> (32 \<le> n \<and> n < 64)" using assms(1) by (auto simp: is_wheel_def)
  then have "item_events (midiIgnoreCtrlPairs s) (Message CMD_CTRL ch n v) = [(MIDI_CTRL, ch, n, v)]" by auto
  then show ?thesis
    using assms message [of s ch n v CMD_CTRL]
    by (auto simp: is_wheel_def deliver_def NewMidiEvent_def midi_action_def d Let_def DoTheMidi_def simp del: item_bytes.simps item_events.simps)
qed

lemma is_wheel_keeps: "is_wheel ch n d s \<Longrightarrow> \<forall>v. x = Moved v \<longrightarrow> v < 128 \<Longrightarrow> is_wheel ch n d (wheel_step ch n (d_action d) x s)"
  by (cases x) (auto simp: click is_wheel_def vfo_timeout_cb_def on_console_def simp del: wheel_step.simps(1))

definition wheel_ok :: "nat \<Rightarrow> midi \<Rightarrow> bool" where
  "wheel_ok a s \<longleftrightarrow> (t_running (timers s a) \<or> t_val (timers s a) = 0)"

lemma wheel_ok_step:
  assumes "is_wheel ch n d s" and "\<forall>v. x = Moved v \<longrightarrow> v < 128" and "wheel_ok (d_action d) s"
  shows "wheel_ok (d_action d) (wheel_step ch n (d_action d) x s)"
  using assms
  by (cases x) (auto simp: wheel_ok_def click timer_click_def Let_def vfo_timeout_cb_def simp del: wheel_step.simps(1))

lemma wheel_events:
  assumes "is_wheel ch n d s" and "\<forall>v. x = Moved v \<longrightarrow> v < 128"
  shows "\<exists>ts. console (wheel_step ch n (d_action d) x s) = (console s)\<lparr>p_idle := p_idle (console s) @ map (\<lambda>k. (d_action d, RELATIVE, k)) ts\<rparr>
    \<and> sum_list ts + t_val (timers (wheel_step ch n (d_action d) x s) (d_action d)) = t_val (timers s (d_action d)) + wheel_clicks d x"
proof (cases x)
  case (Moved v)
  then show ?thesis using assms
    by (intro exI [of _ "[]"]) (simp add: click timer_click_def Let_def del: wheel_step.simps(1))
next
  case Fires
  show ?thesis
  proof (cases "t_running (timers s (d_action d))")
    case True
    have "d_action d \<in> {VFO, VFOA, VFOB}" using assms(1) by (simp add: is_wheel_def)
    then show ?thesis using True
      by (intro exI [of _ "[t_val (timers s (d_action d))]"]) (auto simp: Fires vfo_timeout_cb_def on_console_def schedule_action_def)
  qed (intro exI [of _ "[]"], simp add: Fires)
qed


subsection \<open>The race for the timer\<close>

lemma race_path:
  assumes "race_step\<^sup>*\<^sup>* s t"
  shows "r_midi t = M_idle \<Longrightarrow> race_step\<^sup>*\<^sup>* s (t\<lparr>r_midi := M_add (t_val (r_timer t)) v, r_clicks := r_clicks t @ [v]\<rparr>)"
    and "r_midi t = M_add x v \<Longrightarrow> race_step\<^sup>*\<^sup>* s (t\<lparr>r_midi := M_test, r_timer := (r_timer t)\<lparr>t_val := x + v\<rparr>\<rparr>)"
    and "r_midi t = M_test \<Longrightarrow> race_step\<^sup>*\<^sup>* s (t\<lparr>r_midi := M_idle, r_timer := (r_timer t)\<lparr>t_running := True\<rparr>\<rparr>)"
    and "r_gtk t = G_idle \<Longrightarrow> t_running (r_timer t) \<Longrightarrow> race_step\<^sup>*\<^sup>* s (t\<lparr>r_gtk := G_disarm, r_sched := r_sched t @ [t_val (r_timer t)]\<rparr>)"
    and "r_gtk t = G_disarm \<Longrightarrow> race_step\<^sup>*\<^sup>* s (t\<lparr>r_gtk := G_clear, r_timer := (r_timer t)\<lparr>t_running := False\<rparr>\<rparr>)"
    and "r_gtk t = G_clear \<Longrightarrow> race_step\<^sup>*\<^sup>* s (t\<lparr>r_gtk := G_idle, r_timer := (r_timer t)\<lparr>t_val := 0\<rparr>\<rparr>)"
  using assms by (auto intro: rtranclp.rtrancl_into_rtrancl race_step.intros)

text \<open>One click, after which the timer runs.\<close>

lemma race_click:
  "race_step\<^sup>*\<^sup>* race_start \<lparr>r_timer = \<lparr>t_val = a, t_running = True\<rparr>, r_midi = M_idle, r_gtk = G_idle, r_clicks = [a], r_sched = []\<rparr>"
  using race_path(3) [OF race_path(2) [OF race_path(1) [OF rtranclp.rtrancl_refl [of race_step race_start], of a], of 0 a]]
  by (simp add: race_start_def)

text \<open>
  C37. When a click of a MIDI wheel comes in while the timer of the VFO fires, it can be lost, and the
  clicks before it can count twice: from two clicks the program can come to rest having scheduled
  only the first, and also having scheduled the first one two times.
\<close>

theorem vfo_clicks_lost:
  "(\<exists>s. race_step\<^sup>*\<^sup>* race_start s \<and> race_quiet s \<and> r_clicks s = [a, b] \<and> r_sched s = [a])
   \<and> (\<exists>s. race_step\<^sup>*\<^sup>* race_start s \<and> race_quiet s \<and> r_clicks s = [a, b] \<and> r_sched s = [a, a + b])"
proof (intro conjI exI)
  note steps = race_path [where s = race_start]
  let ?lost = "\<lparr>r_timer = \<lparr>t_val = 0, t_running = False\<rparr>, r_midi = M_idle, r_gtk = G_idle, r_clicks = [a, b], r_sched = [a]\<rparr>"
  let ?twice = "\<lparr>r_timer = \<lparr>t_val = 0, t_running = False\<rparr>, r_midi = M_idle, r_gtk = G_idle, r_clicks = [a, b], r_sched = [a, a + b]\<rparr>"
  note fire = steps(4) [OF race_click [of a], simplified]
  show "race_step\<^sup>*\<^sup>* race_start ?lost"
    using steps(6) [OF steps(5) [OF steps(3) [OF steps(2) [OF steps(1) [OF fire, of b], of a b]]]] by simp
  show "race_step\<^sup>*\<^sup>* race_start ?twice"
    using steps(6) [OF steps(5) [OF steps(4) [OF steps(3) [OF steps(2) [OF steps(6) [OF steps(5) [OF steps(1)
      [OF steps(4) [OF race_click [of a], simplified], of b]]], of a b]]]]]
    by simp
qed (simp_all add: race_quiet_def)

end
