(* ===== verification/Midi_Saved.thy ===== *)
theory Midi_Saved
  imports Midi_Facts Saved_State_Facts
begin

text \<open>
  What a restart does to the table of MIDI commands: every control keeps its action, except for the
  key 6 of the number pad, and entries for any channel are not read back.
\<close>

subsection \<open>Names\<close>

lemma bracket_split:
  assumes "CHR '']'' \<notin> set a" and "CHR '']'' \<notin> set b"
  shows "a @ CHR '']'' # x = b @ CHR '']'' # y \<longleftrightarrow> a = b \<and> x = y"
  using assms
proof (induction a arbitrary: b)
  case Nil
  then show ?case by (cases b) auto
next
  case (Cons c a)
  then show ?case by (cases b) auto
qed

lemma digits_no_bracket: "CHR '']'' \<notin> set (print_nat n)" "CHR '']'' \<notin> set (print_int k)"
  using print_nat_isdigit [of n] print_int_chars [of "CHR '']''" k] by (auto simp: isdigit_def)

lemma print_int_inj: "print_int m = print_int n \<longleftrightarrow> m = n"
  by (metis atoll_print_int)

lemmas name_split = bracket_split digits_no_bracket print_int_inj

lemma entry_name_eq: "entry_name i e = entry_name j f \<longleftrightarrow> i = j \<and> e = f"
  by (auto simp: entry_name_def name_split)

lemma field_name_eq: "field_name i e c f = field_name j e' c' g \<longleftrightarrow> i = j \<and> e = e' \<and> c = c' \<and> f = g"
  by (auto simp: field_name_def entry_name_def name_split)

lemma entry_field_differ: "entry_name i e \<noteq> field_name j e' c f" "field_name j e' c f \<noteq> entry_name i e"
  by (auto simp: field_name_def entry_name_def name_split)

lemma count_differs:
  "count_name i = count_name j \<longleftrightarrow> i = j" "count_name i \<noteq> entry_name j e" "entry_name j e \<noteq> count_name i"
  "count_name i \<noteq> field_name j e c f" "field_name j e c f \<noteq> count_name i"
  by (auto simp: count_name_def field_name_def entry_name_def name_split)

lemmas names_differ = entry_name_eq field_name_eq entry_field_differ count_differs

text \<open>All names fit the buffer of 128 characters.\<close>

lemma length_names:
  assumes "i < 129" and "e < 1000"
  shows "length (entry_name i e) \<le> 31" "length (count_name i) \<le> 17"
    and "long_long c \<Longrightarrow> length f \<le> 6 \<Longrightarrow> length (field_name i e c f) \<le> 61"
  using assms length_print_nat [of i 2] length_print_nat [of e 2] length_print_int [of c]
  by (auto simp: entry_name_def count_name_def field_name_def)

subsection \<open>The properties of a table\<close>

text \<open>
  The entries the menu makes: the types are those updatePanel offers for the kind of the event, and a
  controller may be an encoder without an action for encoders, for type_changed_cb gives a control
  that has become an encoder no action if its action is none for encoders.
\<close>

definition desc_ok :: "desc \<Rightarrow> bool" where
  "desc_ok d \<longleftrightarrow> long_long (d_channel d) \<and> d_action d < ACTIONS
     \<and> (case d_event d of EVENT_NONE \<Rightarrow> False | MIDI_NOTE \<Rightarrow> d_type d = AT_BTN | MIDI_PITCH \<Rightarrow> d_type d = AT_KNB
        | MIDI_CTRL \<Rightarrow> d_type d = AT_KNB \<or> d_type d = AT_ENC)
     \<and> list_all (\<lambda>(a, b). long_long a \<and> long_long b) [d_vfl d, d_fl d, d_lft d, d_rgt d, d_fr d, d_vfr d]"

definition table_ok :: "midi_table \<Rightarrow> bool" where
  "table_ok t \<longleftrightarrow> (\<forall>i < 129. length (t i) < 1000 \<and> (\<forall>d \<in> set (t i). desc_ok d)
     \<and> distinct (map (\<lambda>d. (d_channel d, d_event d)) (t i)))"

definition entry_fields :: "desc \<Rightarrow> string list" where
  "entry_fields d = [''event'', ''type'', ''action''] @ (if d_type d = AT_ENC
     then [''vfl1'', ''vfl2'', ''fl1'', ''fl2'', ''lft1'', ''lft2'', ''rgt1'', ''rgt2'', ''fr1'', ''fr2'', ''vfr1'', ''vfr2''] else [])"

lemma entry_keys:
  assumes "i < 129" and "e < 1000" and "long_long (d_channel d)"
  shows "map fst (midi_entry_props i e d) = entry_name i e # map (field_name i e (d_channel d)) (entry_fields d)"
proof -
  have "snprintf 128 (entry_name i e) = entry_name i e"
    using length_names(1) [OF assms(1,2)] by simp
  moreover have "snprintf 128 (field_name i e (d_channel d) f) = field_name i e (d_channel d) f" if "length f \<le> 6" for f
    using length_names(3) [OF assms that] by simp
  ultimately show ?thesis
    by (simp add: midi_entry_props_def range_props_def entry_fields_def SetPropA_def Let_def)
qed

lemma distinct_concat_map:
  assumes "distinct is" and "\<forall>i \<in> set is. distinct (F i)" and "\<forall>i \<in> set is. \<forall>j \<in> set is. i \<noteq> j \<longrightarrow> set (F i) \<inter> set (F j) = {}"
  shows "distinct (concat (map F is))"
  using assms
proof (induction "is")
  case (Cons i "is")
  have "set (F i) \<inter> (\<Union>j \<in> set is. set (F j)) = {}" using Cons.prems(1,3) by (fastforce simp: disjoint_iff)
  then show ?case using Cons by simp
qed simp

lemma entry_keys_distinct: "distinct (entry_name i e # map (field_name i e c) (entry_fields d))"
  by (auto simp: entry_fields_def names_differ distinct_map inj_on_def)

lemma slot_keys:
  assumes "i < 129" and "length ds < 1000" and "\<forall>d \<in> set ds. desc_ok d"
  shows "map fst (slot_props i ds) = concat (map (\<lambda>e. entry_name i e # map (field_name i e (d_channel (ds ! e))) (entry_fields (ds ! e)))
      [0..<length ds]) @ [count_name i]"
proof -
  have "snprintf 128 (count_name i) = count_name i" using length_names(2) [OF assms(1), of 0] by simp
  moreover have "map fst (midi_entry_props i e (ds ! e))
      = entry_name i e # map (field_name i e (d_channel (ds ! e))) (entry_fields (ds ! e))" if "e < length ds" for e
    using that assms by (intro entry_keys) (auto simp: desc_ok_def)
  then have "map (\<lambda>e. map fst (midi_entry_props i e (ds ! e))) [0..<length ds]
      = map (\<lambda>e. entry_name i e # map (field_name i e (d_channel (ds ! e))) (entry_fields (ds ! e))) [0..<length ds]"
    by (intro map_cong) auto
  ultimately show ?thesis by (simp add: slot_props_def map_concat comp_def del: map_eq_conv)
qed

lemma slot_keys_distinct:
  assumes "i < 129" and "length ds < 1000" and "\<forall>d \<in> set ds. desc_ok d"
  shows "distinct (map fst (slot_props i ds))"
proof -
  have "distinct (concat (map (\<lambda>e. entry_name i e # map (field_name i e (d_channel (ds ! e))) (entry_fields (ds ! e))) [0..<length ds]))"
    by (intro distinct_concat_map ballI impI entry_keys_distinct) (auto simp: names_differ)
  then show ?thesis by (auto simp: slot_keys [OF assms] names_differ)
qed

lemma slot_keys_disjoint:
  assumes "i < 129" "length ds < 1000" "\<forall>d \<in> set ds. desc_ok d" and "j < 129" "length es < 1000" "\<forall>d \<in> set es. desc_ok d" and "i \<noteq> j"
  shows "fst ` set (slot_props i ds) \<inter> fst ` set (slot_props j es) = {}"
  using assms(7) unfolding set_map [symmetric] slot_keys [OF assms(1-3)] slot_keys [OF assms(4-6)]
  by (auto simp: names_differ)

lemma saved_slots:
  assumes "table_ok t" and "i < 129"
  shows "holds (slot_props i (t i)) (midi_save_state ignore devs t ps)"
proof -
  let ?F = "\<lambda>i. map fst (slot_props i (t i))"
  have "distinct (concat (map ?F [0..<129]))"
    using assms(1) slot_keys_disjoint unfolding table_ok_def
    by (intro distinct_concat_map ballI impI slot_keys_distinct) (simp_all, blast?)
  then have d: "distinct (map fst (concat (map (\<lambda>i. slot_props i (t i)) [0..<129])))"
    by (simp add: map_concat comp_def)
  have "holds (concat (map (\<lambda>i. slot_props i (t i)) [0..<129])) (midi_save_state ignore devs t ps)"
    unfolding midi_save_state_def append_Cons [symmetric] set_all_simps(3) by (rule holds_set_all [OF d])
  then show ?thesis using assms(2) unfolding holds_def by auto
qed

text \<open>The menu never makes two entries for one control.\<close>

lemma replace_first_controls:
  "replace_first d cs = Some cs' \<Longrightarrow> map (\<lambda>d. (d_channel d, d_event d)) cs' = map (\<lambda>d. (d_channel d, d_event d)) cs"
  "replace_first d cs = None \<longleftrightarrow> (d_channel d, d_event d) \<notin> (\<lambda>d. (d_channel d, d_event d)) ` set cs"
  by (induction d cs arbitrary: cs' rule: replace_first.induct) (auto simp: same_control_def split: if_splits)

lemma controls_unique:
  assumes "distinct (map (\<lambda>d. (d_channel d, d_event d)) (t i))"
  shows "distinct (map (\<lambda>d. (d_channel d, d_event d)) (updateDescription n d t i))"
  using assms replace_first_controls [of d "t n"]
  by (cases "i = n") (auto simp: updateDescription_def MidiAddCommand_def split: option.split)

subsection \<open>Reading the table back\<close>

text \<open>What becomes of an entry: an encoder stays one only if its action is one for encoders.\<close>

definition stays_encoder :: "desc \<Rightarrow> bool" where
  "stays_encoder d \<longleftrightarrow> d_type d = AT_ENC \<and> kinds (d_action d) AND AT_ENC \<noteq> 0"

definition reload :: "desc \<Rightarrow> desc" where
  "reload d = (let d = d\<lparr>d_action := (if d_action d = NUMPAD_6 then BAND_6 else d_action d)\<rparr> in
     if stays_encoder d then d
     else d\<lparr>d_type := (if d_type d = AT_ENC then AT_KNB else d_type d), d_vfl := (- 1, - 1), d_fl := (- 1, - 1), d_lft := (0, 63), d_rgt := (65, 127), d_fr := (- 1, - 1), d_vfr := (- 1, - 1)\<rparr>)"

lemma midi_text_read:
  "getProperty (snprintf 128 name) ps = Some s \<Longrightarrow> length s < 128 \<Longrightarrow> GetPropS 128 name ps d = s"
  by (simp add: GetPropS_def)

lemma kinds_6: "kinds NUMPAD_6 = AT_BTN" "kinds BAND_6 = AT_BTN"
  by (simp_all add: kinds_def ActionTable_def)

lemma event_names: "e \<noteq> EVENT_NONE \<Longrightarrow> String2MidiEvent (MidiEvent2String e) = e" "length (MidiEvent2String e) < 128"
  by (cases e; simp add: String2MidiEvent_def)+

lemma type_names: "length (ActionType2String t) < 128" "String2ActionType (ActionType2String t) = (if t \<in> {AT_BTN, AT_KNB, AT_ENC} then t else AT_NONE)"
  by (simp_all add: ActionType2String_def String2ActionType_def)

lemma button_str_short: "length (Action2String a) < 128"
proof -
  have "list_all (\<lambda>r. length (fst (snd r)) < 128) ActionTable" by (simp add: ActionTable_def)
  then show ?thesis
    using table_length by (auto simp: Action2String_def button_str_def list_all_length)
qed

lemma midi_entry_restored:
  assumes "holds (midi_entry_props i e d) ps" and "desc_ok d" and "i < 129" and "e < 1000"
  shows "restore_entry ps i e t = (if d_channel d < 0 then t else MidiAddCommand i (reload d) t)"
proof -
  let ?c = "d_channel d"
  let ?a = "if d_action d = NUMPAD_6 then BAND_6 else d_action d"
  let ?ty = "if d_type d = AT_ENC \<and> \<not> stays_encoder d then AT_KNB else d_type d"
  have l: "long_long ?c" and a: "d_action d < ACTIONS" and e: "d_event d \<noteq> EVENT_NONE"
    using assms(2) by (auto simp: desc_ok_def split: midi_event.splits)
  have c: "GetPropI (entry_name i e) ps Some x = Some ?c" for x
    using assms(1) l by (intro GetPropI_set) (auto simp: midi_entry_props_def Let_def)
  have ev: "String2MidiEvent (GetPropS 128 (field_name i e ?c ''event'') ps x) = d_event d" for x
    using assms(1) e event_names midi_text_read [of "field_name i e ?c ''event''" ps "MidiEvent2String (d_event d)" x]
    by (auto simp: midi_entry_props_def Let_def SetPropS_def)
  have ty: "GetPropS 128 (field_name i e ?c ''type'') ps x = ActionType2String (d_type d)" for x
    using assms(1) type_names by (intro midi_text_read) (auto simp: midi_entry_props_def Let_def SetPropS_def)
  have ac: "GetPropA (field_name i e ?c ''action'') ps x = ?a" for x
    using assms(1) a button_str_short [of "d_action d"] action_text [of "d_action d"]
    by (auto simp: midi_entry_props_def Let_def SetPropA_def GetPropA_def)
  have k: "kinds ?a = kinds (d_action d)" by (simp add: kinds_6)
  have t: "restored_type (d_event d) ?a (ActionType2String (d_type d)) = ?ty"
    using assms(2) unfolding restored_type_def k by (auto simp: desc_ok_def stays_encoder_def type_names split: midi_event.splits)
  have r: "get_range i e ?c f ps x = v"
    if "d_type d = AT_ENC" "(f, v) \<in> {(''vfl'', d_vfl d), (''fl'', d_fl d), (''lft'', d_lft d), (''rgt'', d_rgt d), (''fr'', d_fr d), (''vfr'', d_vfr d)}"
    for f x v
  proof -
    have "(\<lambda>(a, b). long_long a \<and> long_long b) v"
      "getProperty (snprintf 128 (field_name i e ?c (f @ ''1''))) ps = Some (snd (SetPropI (field_name i e ?c (f @ ''1'')) (fst v)))"
      "getProperty (snprintf 128 (field_name i e ?c (f @ ''2''))) ps = Some (snd (SetPropI (field_name i e ?c (f @ ''2'')) (snd v)))"
      using assms(1,2) that by (auto simp: midi_entry_props_def range_props_def Let_def desc_ok_def)
    then show ?thesis by (cases v) (simp add: get_range_def Let_def GetPropI_set)
  qed
  have s: "stays_encoder (d\<lparr>d_action := ?a\<rparr>) = stays_encoder d" using k by (simp add: stays_encoder_def)
  show ?thesis
  proof (cases "stays_encoder d")
    case True
    then have en: "d_type d = AT_ENC" "?ty = AT_ENC" by (auto simp: stays_encoder_def)
    have "reload d = \<lparr>d_channel = ?c, d_event = d_event d, d_type = AT_ENC, d_vfl = d_vfl d, d_fl = d_fl d, d_lft = d_lft d,
        d_rgt = d_rgt d, d_fr = d_fr d, d_vfr = d_vfr d, d_action = ?a\<rparr>"
      unfolding reload_def Let_def s using True en(1) by (cases d) simp
    moreover note t [unfolded en(2)]
    ultimately show ?thesis
      using a e r [OF en(1)] by (simp add: restore_entry_def Let_def c ev ty ac)
  next
    case False
    then have en: "?ty \<noteq> AT_ENC" by auto
    have "reload d = \<lparr>d_channel = ?c, d_event = d_event d, d_type = ?ty, d_vfl = (- 1, - 1), d_fl = (- 1, - 1), d_lft = (0, 63),
        d_rgt = (65, 127), d_fr = (- 1, - 1), d_vfr = (- 1, - 1), d_action = ?a\<rparr>"
      unfolding reload_def Let_def s using False by (cases d) simp
    moreover define T where "T = ?ty"
    ultimately show ?thesis
      using a e en t unfolding T_def [symmetric] by (simp add: restore_entry_def Let_def c ev ty ac)
  qed
qed

lemma restore_entries:
  assumes "holds (slot_props i ds) ps" and "\<forall>d \<in> set ds. desc_ok d" and "i < 129" and "length ds < 1000" and "n \<le> length ds"
    and "t i = []"
  shows "fold (restore_entry ps i) [0..<n] t = t(i := rev (map reload (filter (\<lambda>d. 0 \<le> d_channel d) (take n ds))))"
  using assms(5)
proof (induction n)
  case 0
  then show ?case using assms(6) by (simp add: fun_upd_idem)
next
  case (Suc n)
  have "holds (midi_entry_props i n (ds ! n)) ps" using assms(1) Suc.prems by (auto simp: slot_props_def holds_def)
  moreover have "desc_ok (ds ! n)" using assms(2) Suc.prems by simp
  moreover have "d_channel (reload d) = d_channel d" for d by (simp add: reload_def Let_def)
  ultimately show ?case
    using Suc assms(3,4)
    by (simp add: midi_entry_restored MidiAddCommand_def take_Suc_conv_app_nth) (simp add: fun_upd_def cong: if_cong)
qed

lemma slot_restored:
  assumes "table_ok t" and "i < 129" and "holds (slot_props i (t i)) ps" and "u i = []"
  shows "restore_slot ps i u = u(i := rev (map reload (filter (\<lambda>d. 0 \<le> d_channel d) (t i))))"
proof -
  have l: "length (t i) < 1000" and d: "\<forall>d \<in> set (t i). desc_ok d" using assms(1,2) by (auto simp: table_ok_def)
  have "GetPropI (count_name i) ps Some x = Some (int (length (t i)))" for x
    using assms(3) l by (intro GetPropI_set) (auto simp: slot_props_def)
  then show ?thesis
    using restore_entries [of i "t i" ps "length (t i)" u] assms l d by (simp add: restore_slot_def)
qed

lemma table_restored:
  assumes "table_ok t" and "\<forall>i < 129. holds (slot_props i (t i)) ps" and "n \<le> 129" and "\<forall>i < 129. u i = []"
  shows "\<forall>i < 129. fold (restore_slot ps) [0..<n] u i
    = (if i < n then rev (map reload (filter (\<lambda>d. 0 \<le> d_channel d) (t i))) else [])"
  using assms(3)
proof (induction n)
  case (Suc n)
  let ?u = "fold (restore_slot ps) [0..<n] u"
  have "restore_slot ps n ?u = ?u(n := rev (map reload (filter (\<lambda>d. 0 \<le> d_channel d) (t n))))"
    using Suc assms(2) by (intro slot_restored [OF assms(1)]) auto
  then show ?case using Suc by (auto simp: less_Suc_eq)
qed (simp add: assms(4))

lemma ignore_not_device: "''midiIgnoreCtrlPairs'' \<noteq> snprintf 128 (device_name i)"
  by (simp add: device_name_def snprintf_def)

lemma find_in: "find P xs = Some x \<Longrightarrow> x \<in> set xs \<and> P x"
  by (auto simp: find_Some_iff)

lemma find_unique:
  assumes "\<forall>x \<in> set xs. \<forall>y \<in> set xs. P x \<longrightarrow> P y \<longrightarrow> x = y"
  shows "find P (rev xs) = find P xs"
proof (cases "find P xs")
  case None
  then show ?thesis by (metis find_None_iff set_rev)
next
  case (Some x)
  have x: "x \<in> set xs" "P x" using find_in [OF Some] by simp_all
  obtain y where y: "find P (rev xs) = Some y"
    using x by (metis find_None_iff not_None_eq set_rev)
  then have "y \<in> set xs" "P y" using find_in [OF y] by simp_all
  then have "x = y" using assms x by blast
  then show ?thesis using y Some by simp
qed

lemma find_map_same: "(\<And>x. P (f x) = P x) \<Longrightarrow> find P (map f xs) = map_option f (find P xs)"
  by (induction xs) auto


end
