(* ===== verification/Panel_Frame.thy ===== *)
theory Panel_Frame
  imports Actions Vfo_Trips
begin

text \<open>
  What the operations behind the actions leave alone: the band table, band and band stack entry,
  RIT and XIT of the VFOs, and the active receiver (\<open>core\<close>). The invariant \<open>radio_ok\<close> depends on
  nothing else, so an operation outside the VFOs keeps it by its frame lemma here.
\<close>

definition vcore :: "vfo \<Rightarrow> nat \<times> nat \<times> int \<times> int" where
  "vcore v = (v_band v, v_bandstack v, v_rit v, v_xit v)"

definition core :: "radio_state \<Rightarrow> ((string \<times> bandstack \<times> int \<times> int \<times> int \<times> int) list
    \<times> (stack_name \<Rightarrow> bandstack_entry list)) \<times> (nat \<Rightarrow> nat \<times> nat \<times> int \<times> int) \<times> nat" where
  "core r = (band_view r, \<lambda>k. vcore (vfo r k), active_id r)"

definition radio_ok :: "radio_state \<Rightarrow> bool" where
  "radio_ok r \<longleftrightarrow> vfos_ok r \<and> active_id r < 2"

lemma radio_ok_core:
  assumes "core r' = core r" and "radio_ok r"
  shows "radio_ok r'"
proof -
  have b: "band_view r' = band_view r" and a: "active_id r' = active_id r" using assms(1) by (simp_all add: core_def)
  have v: "vcore (vfo r' k) = vcore (vfo r k)" for k
    using assms(1) by (simp add: core_def) (metis)
  then have f: "v_band (vfo r' k) = v_band (vfo r k)" "v_bandstack (vfo r' k) = v_bandstack (vfo r k)"
    "v_rit (vfo r' k) = v_rit (vfo r k)" "v_xit (vfo r' k) = v_xit (vfo r k)" for k
    using v [of k] by (simp_all add: vcore_def)
  have "vfos_ok r'"
    using assms(2) by (intro vfos_ok_keep [OF _ b]) (auto simp: radio_ok_def vfos_ok_def it_ok_def f)
  then show ?thesis using assms(2) a by (simp add: radio_ok_def)
qed

lemma core_settled: "settled r' r \<Longrightarrow> core r' = core r"
  using staticD(4) [of r' r] by (auto simp: settled_def core_def vcore_def)

lemmas core_intros = frame_letI [where g = core] frame_skipI [where g = core]
  frame_ifI [where g = core] frame_optionI [where g = core] frame_pairI [where g = core]

lemma core_basic [simp]:
  "core (emit e r) = core r" "core (upd_rx i g r) = core r" "core (upd_adc i h r) = core r"
  "core (upd_tx k r) = core r" "core (schedule p r) = core r"
  "core (schedule_high_priority r) = core r" "core (schedule_general r) = core r"
  "core (schedule_receive_specific r) = core r" "core (schedule_transmit_specific r) = core r"
  by (simp_all add: core_def) (simp_all add: state_defs)

lemma core_upd_vfo: "(\<And>v. vcore (g v) = vcore v) \<Longrightarrow> core (upd_vfo i g r) = core r"
  by (auto simp: core_def) (simp add: upd_vfo_def)

lemma core_writes [simp]:
  "core (r\<lparr>mox := b\<rparr>) = core r" "core (r\<lparr>vox := b\<rparr>) = core r" "core (r\<lparr>split := b\<rparr>) = core r"
  "core (r\<lparr>duplex := b\<rparr>) = core r" "core (r\<lparr>locked := b\<rparr>) = core r" "core (r\<lparr>cw_sidetone := n\<rparr>) = core r"
  "core (r\<lparr>cw_keyer_internal := b\<rparr>) = core r" "core (r\<lparr>pre_tune_mode := m\<rparr>) = core r"
  "core (r\<lparr>pre_tune_cw_internal := b\<rparr>) = core r" "core (r\<lparr>vox_count := n\<rparr>) = core r"
  "core (r\<lparr>vox_triggered := b\<rparr>) = core r" "core (r\<lparr>vox_enabled := b\<rparr>) = core r"
  "core (r\<lparr>vox_threshold := x\<rparr>) = core r" "core (r\<lparr>vox_min_hang := x\<rparr>) = core r"
  "core (r\<lparr>capture_state := c\<rparr>) = core r" "core (r\<lparr>alex_forward_max := n\<rparr>) = core r"
  "core (r\<lparr>full_tune := b\<rparr>) = core r" "core (r\<lparr>memory_tune := b\<rparr>) = core r"
  "core (r\<lparr>tune_timeout := n\<rparr>) = core r" "core (r\<lparr>sat_mode := s\<rparr>) = core r"
  "core (r\<lparr>diversity_enabled := b\<rparr>) = core r"
  by (simp_all add: core_def band_view_def)

lemmas core_more [simp] = settled_more [THEN core_settled] settled_steps [THEN core_settled]

lemma core_fold: "(\<And>i r. core (f i r) = core r) \<Longrightarrow> core (fold f is r) = core r"
  by (induction "is" arbitrary: r) simp_all

subsection \<open>The receive/transmit switch\<close>

lemma core_drive [simp]: "core (radio_calc_drive_level r) = core r"
  by (simp add: radio_calc_drive_level_def Let_def split: option.split)

lemma core_set_drive [simp]: "core (radio_set_drive v r) = core r"
  unfolding radio_set_drive_def by (intro core_intros; simp)

lemma core_set_offset [simp]: "core (rx_set_offset i r) = core r"
  unfolding rx_set_offset_def by (intro core_intros; simp)

lemma core_tx_vfo [simp]: "core (radio_tx_vfo_changed r) = core r"
  unfolding radio_tx_vfo_changed_def by (intro core_intros; simp)

lemma core_switch_small [simp]:
  "core (vox_cancel r) = core r" "core (abort_capture r) = core r"
  "core (tx_set_out_of_band r) = core r" "core (silence_for_tune i r) = core r"
  by (simp_all add: vox_cancel_def abort_capture_def tx_set_out_of_band_def silence_for_tune_def split: capture_state.split)

lemma core_silence [simp]: "core (silence_rx i r) = core r"
  unfolding silence_rx_def by (intro core_intros; simp)

lemma core_resume [simp]: "core (resume_rx n i r) = core r"
  unfolding resume_rx_def by (intro core_intros; simp)

lemma core_timeouts [simp]: "core (tune_timeouts r) = core r"
  unfolding tune_timeouts_def by (intro core_intros; simp)

lemma core_rxtx_on [simp]: "core (rxtx_on tx r) = core r"
  unfolding rxtx_on_def by (intro core_intros core_fold; simp add: core_fold)

lemma core_rxtx_off [simp]: "core (rxtx_off tx r) = core r"
  unfolding rxtx_off_def by (intro core_intros; simp add: core_fold)

lemma core_rxtx [simp]: "core (rxtx state r) = core r"
  unfolding rxtx_def by (intro core_intros; simp)

lemma core_tune_on [simp]: "core (tune_on r) = core r"
  unfolding tune_on_def by (intro core_intros; simp add: core_fold)

lemma core_tune_off [simp]: "core (tune_off tx r) = core r"
  unfolding tune_off_def by (intro core_intros; simp)

lemma core_tune_switch [simp]: "core (tune_switch state tx r) = core r"
  unfolding tune_switch_def stop_mox_vox_def tune_prepare_def by (intro core_intros; simp)

lemma core_set_tune [simp]: "core (radio_set_tune state r) = core r"
  unfolding radio_set_tune_def by (intro core_intros; simp)

lemma core_toggle_tune [simp]: "core (radio_toggle_tune r) = core r"
  unfolding radio_toggle_tune_def by (intro core_intros; simp)

lemma core_set_mox [simp]: "core (radio_set_mox state r) = core r"
  unfolding radio_set_mox_def by (intro core_intros; simp)

subsection \<open>Filters, notches, gains\<close>

lemma core_edges [simp]: "core (filter_edges_changed i low high r) = core r"
  unfolding filter_edges_changed_def by (intro core_intros; simp)

lemma core_edges_op [simp]: "core (edges_op f i r) = core r"
  unfolding edges_op_def by (intro core_intros; simp)

lemma core_filters [simp]:
  "core (filter_cut_default i r) = core r" "core (filter_high_changed i n r) = core r"
  "core (filter_low_changed i n r) = core r" "core (filter_width_changed i n r) = core r"
  "core (filter_shift_changed i n r) = core r" "core (notch_center_changed i k n r) = core r"
  "core (notch_width_changed i k n r) = core r" "core (notch_enable_toggled i k r) = core r"
  by (simp_all add: filter_cut_default_def filter_high_changed_def filter_low_changed_def filter_width_changed_def
      filter_shift_changed_def notch_center_changed_def notch_width_changed_def notch_enable_toggled_def Let_def)

lemma core_upd_band: "(\<And>x. row_view (g x) = row_view x) \<Longrightarrow> core (upd_band b g r) = core r"
  by (simp add: core_def band_view_upd_band) (simp add: upd_band_def)

lemma core_by_band [simp]: "(\<And>x. row_view (g x) = row_view x) \<Longrightarrow> core (store_by_band i g r) = core r"
  by (simp add: store_by_band_def core_upd_band)

lemma core_gains [simp]: "core (radio_set_rf_gain i v r) = core r" "core (radio_set_attenuation i n r) = core r"
  "core (radio_set_agc_gain i v r) = core r" "core (radio_set_panhigh i n r) = core r"
  "core (radio_set_panlow i n r) = core r" "core (radio_set_panstep i n r) = core r"
  by (simp_all add: radio_set_rf_gain_def radio_set_attenuation_def radio_set_agc_gain_def radio_set_panhigh_def
      radio_set_panlow_def radio_set_panstep_def Let_def row_view_def)

lemma core_split [simp]: "core (radio_set_split b r) = core r"
  unfolding radio_set_split_def by (intro core_intros; simp)

lemma core_duplex [simp]: "core (radio_set_duplex b r) = core r"
  unfolding radio_set_duplex_def by (intro core_intros; simp)

lemma core_zoom [simp]: "core (radio_set_zoom i n r) = core r" "core (radio_set_pan i n r) = core r"
  by (simp_all add: radio_set_zoom_def radio_set_pan_def Let_def)

lemma core_sidetone [simp]: "core (radio_set_sidetone_freq n r) = core r"
  unfolding radio_set_sidetone_freq_def by (intro core_intros; simp)

lemma core_vox [simp]: "core (tx_set_vox tx r) = core r"
  by (simp add: tx_set_vox_def)

lemma core_ps [simp]: "core (tx_ps_onoff b r) = core r"
  by (simp add: tx_ps_onoff_def Let_def split: protocol.split)

lemma core_satmode [simp]: "core (radio_set_satmode m r) = core r"
  by (simp add: radio_set_satmode_def)

end
