(* ===== verification/Panel_Facts.thy ===== *)
theory Panel_Facts
  imports Panel_Frame
begin

text \<open>
  The actions: knobs stay in their ranges, every click of an encoder counts, the number pad
  enters the number typed, and whatever the operator does the VFOs keep their invariant.
\<close>

subsection \<open>The active receiver\<close>

lemmas act_intros = frame_letI [where g = active_id] frame_skipI [where g = active_id]
  frame_ifI [where g = active_id] frame_optionI [where g = active_id] frame_pairI [where g = active_id]

lemma act_settled: "settled r' r \<Longrightarrow> active_id r' = active_id r"
  using staticD(4) [of r' r] by (simp add: settled_def)

lemmas act_steps [simp] = settled_more [THEN act_settled] settled_steps [THEN act_settled]

lemma act_static: "static r' = static r \<Longrightarrow> active_id r' = active_id r"
  by (rule staticD(4))

lemma act_basic [simp]:
  "active_id (upd_vfo i f r) = active_id r" "active_id (upd_rx i g r) = active_id r"
  "active_id (vfo_id_adjust_band i n r) = active_id r" "active_id (set_dial i n r) = active_id r"
  "active_id (sat_shift j k n r) = active_id r" "active_id (sat_follow j k n r) = active_id r"
  "active_id (rx_set_frequency i n r) = active_id r" "active_id (schedule_receive_specific r) = active_id r"
  by (rule act_static, simp add: frame_simps)+

lemma act_sat: "active_id x = a \<Longrightarrow> active_id y = a \<Longrightarrow> active_id z = a \<Longrightarrow>
    active_id (case m of SAT_NONE \<Rightarrow> x | SAT_MODE \<Rightarrow> y | RSAT_MODE \<Rightarrow> z) = a"
  by (cases m) simp_all

lemma act_fold: "(\<And>i r. active_id (f i r) = active_id r) \<Longrightarrow> active_id (fold f is r) = active_id r"
  by (induction "is" arbitrary: r) simp_all

lemma act_moves: "active_id (vfo_id_step i n r) = active_id r"
  unfolding vfo_id_step_def by (intro act_intros act_sat; simp)

lemma act_rit:
  "active_id (vfo_id_rit_value i x r) = active_id r" "active_id (vfo_id_xit_value i x r) = active_id r"
  "active_id (vfo_id_rit_onoff i e r) = active_id r" "active_id (vfo_id_xit_onoff i e r) = active_id r"
  by (simp_all add: vfo_id_rit_value_def vfo_id_xit_value_def vfo_id_rit_onoff_def vfo_id_xit_onoff_def Let_def)

lemma act_frequency: "active_id (vfo_id_set_frequency i f r) = active_id r"
  unfolding vfo_id_set_frequency_def by (intro act_intros; simp add: Let_def)

lemma act_ctun: "active_id (vfo_id_ctun_update i b r) = active_id r"
  unfolding vfo_id_ctun_update_def by (intro act_intros; simp)

lemma act_mode: "active_id (vfo_id_mode_changed i m r) = active_id r"
  unfolding vfo_id_mode_changed_def by (intro act_intros; simp)

lemma act_cwpeak: "active_id (vfo_id_cwpeak_changed i n r) = active_id r"
  unfolding vfo_id_cwpeak_changed_def by (intro act_intros; simp)

lemma act_filter: "active_id (vfo_id_filter_changed i f r) = active_id r"
  unfolding vfo_id_filter_changed_def by (intro act_intros; simp add: act_fold)

lemma act_step_index: "active_id (vfo_id_set_step_from_index i n r) = active_id r"
  unfolding vfo_id_set_step_from_index_def by (intro act_intros; simp)

lemma act_rit_step: "active_id (vfo_id_set_rit_step i n r) = active_id r"
  unfolding vfo_id_set_rit_step_def by (intro act_intros; simp)

lemma act_copies:
  "active_id (vfo_a_to_b r) = active_id r" "active_id (vfo_b_to_a r) = active_id r" "active_id (vfo_a_swap_b r) = active_id r"
  by (rule act_static, simp add: frame_simps)+

lemma act_enter [simp]: "active_id (enter_entry i m e r) = active_id r"
  using act_settled [OF enter_entry_settled [of i m e r]] by simp

lemma act_bandstack [simp]: "active_id (upd_bandstack b f r) = active_id r"
  by (simp add: upd_bandstack_def upd_band_def)

lemma act_save [simp]: "active_id (vfo_save_bandstack r) = active_id r"
  by (simp add: vfo_save_bandstack_def Let_def)

lemma act_select [simp]: "active_id (select_stack i b r) = active_id r"
  by (simp add: select_stack_def Let_def)

lemma act_band: "active_id (vfo_id_band_changed i b r) = active_id r"
  unfolding vfo_id_band_changed_def by (intro act_intros; simp)

lemma act_stack: "active_id (vfo_id_bandstack_changed i b r) = active_id r"
  unfolding vfo_id_bandstack_changed_def by (intro act_intros; simp)

subsection \<open>The radio behind one action\<close>

lemma radio_ok_keep: "core r' = core r \<Longrightarrow> radio_ok r \<Longrightarrow> radio_ok r'"
  by (rule radio_ok_core)

lemma radio_ok_vfos:
  assumes "radio_ok r"
  shows "radio_ok (vfo_id_step i n r)" "radio_ok (vfo_id_rit_value i x r)" "radio_ok (vfo_id_xit_value i x r)"
    "radio_ok (vfo_id_rit_onoff i e r)" "radio_ok (vfo_id_xit_onoff i e r)" "radio_ok (vfo_id_set_frequency i f r)"
    "radio_ok (vfo_id_ctun_update i e r)" "radio_ok (vfo_id_mode_changed i m r)" "radio_ok (vfo_id_cwpeak_changed i p r)"
    "radio_ok (vfo_id_filter_changed i k r)" "radio_ok (vfo_id_set_step_from_index i n r)"
    "radio_ok (vfo_id_set_rit_step i n r)" "radio_ok (vfo_a_to_b r)" "radio_ok (vfo_b_to_a r)" "radio_ok (vfo_a_swap_b r)"
  using assms
  by (simp_all add: radio_ok_def vfos_ok_moves vfos_ok_rit_xit vfos_ok_set_frequency vfos_ok_ctun vfos_ok_settings
      vfos_ok_copies act_moves act_rit act_frequency act_ctun act_mode act_cwpeak act_filter act_step_index act_rit_step act_copies)

lemma radio_ok_band: "radio_ok r \<Longrightarrow> i < 2 \<Longrightarrow> b < BANDS + XVTRS \<Longrightarrow> radio_ok (vfo_id_band_changed i b r)"
  by (simp add: radio_ok_def vfos_ok_band_changed act_band)

lemma radio_ok_derived:
  assumes "radio_ok r"
  shows "radio_ok (vfo_step n r)" "radio_ok (vfo_mode_changed m r)" "radio_ok (vfo_filter_changed k r)"
    "radio_ok (vfo_set_rit_step n r)" "radio_ok (vfo_xit_value n r)" "radio_ok (vfo_xit_toggle r)"
    "radio_ok (vfo_xit_onoff e r)" "radio_ok (vfo_xit_incr n r)" "radio_ok (vfo_id_rit_incr i n r)" "radio_ok (vfo_id_rit_toggle i r)"
  using assms radio_ok_keep [of "emit e r" r for e]
  by (simp_all add: vfo_step_def vfo_mode_changed_def vfo_filter_changed_def vfo_set_rit_step_def vfo_xit_value_def
      vfo_xit_toggle_def vfo_xit_onoff_def vfo_xit_incr_def vfo_id_rit_incr_def vfo_id_rit_toggle_def vfo_id_xit_toggle_def
      vfo_id_xit_incr_def radio_ok_vfos)

lemma band_loop_ok:
  assumes "radio_ok r" and "i < 2" and "\<And>b. b < 34 \<Longrightarrow> next b < 34" and "b < 34" and "band_loop next i b r = Some r'"
  shows "radio_ok r'"
proof -
  define P where "P = (\<lambda>(n :: nat \<Rightarrow> nat) (j::nat) (b::nat) r r'. (\<forall>b < 34. n b < (34::nat)) \<longrightarrow> j < 2 \<longrightarrow> radio_ok r \<longrightarrow> b < 34 \<longrightarrow> radio_ok r')"
  have "P next i b r r'"
  proof (rule band_loop.raw_induct [OF _ assms(5)])
    fix loop n j b r r'
    assume IH: "\<And>n j b r r'. loop n j b r = Some r' \<Longrightarrow> P n j b r r'"
      and eq: "(let b = n b in if b_title (band_get_band b r) \<noteq> [] then
          let r = vfo_id_band_changed j b r in if v_band (vfo r j) = b then Some r else loop n j b r
        else loop n j b r) = Some r'"
    show "P n j b r r'"
      unfolding P_def
    proof (intro impI)
      assume h: "\<forall>b < 34. n b < 34" "j < 2" "radio_ok r" "b < 34"
      have c: "radio_ok (vfo_id_band_changed j (n b) r)" "n b < 34" using radio_ok_band [of r j "n b"] h by auto
      show "radio_ok r'"
        using eq c IH [of n j "n b" r r'] IH [of n j "n b" "vfo_id_band_changed j (n b) r" r'] h
        by (auto simp: Let_def P_def split: if_splits)
    qed
  qed
  with assms(1-4) show ?thesis by (simp add: P_def)
qed

lemma radio_ok_band_buttons:
  assumes "radio_ok r" and "i < 2"
  shows "band_plus i r = Some r' \<Longrightarrow> radio_ok r'" and "band_minus i r = Some r' \<Longrightarrow> radio_ok r'"
proof -
  have b: "v_band (vfo r i) < 34" using assms by (simp add: radio_ok_def vfos_ok_def vfo_ok_def)
  have n: "b < 34 \<Longrightarrow> band_next b < 34" "b < 34 \<Longrightarrow> band_prev b < 34" for b
    by (auto simp: band_next_def band_prev_def)
  show "band_plus i r = Some r' \<Longrightarrow> radio_ok r'" "band_minus i r = Some r' \<Longrightarrow> radio_ok r'"
    unfolding band_plus_def band_minus_def 
    by (erule band_loop_ok [OF assms _ b, rotated], rule n, assumption)+
qed

lemma radio_ok_stack_step:
  assumes "radio_ok r" and "inc = 1 \<or> inc = - 1"
  shows "radio_ok (stack_step inc r)"
proof -
  let ?v = "vfo r (active_id r)"
  let ?n = "bs_entries (bandstack_get_bandstack (v_band ?v) r)"
  have "active_id r < 2" "v_bandstack ?v < ?n"
    using assms(1) by (auto simp: radio_ok_def vfos_ok_def vfo_ok_def)
  then show ?thesis
    using assms vfos_ok_bandstack_changed [of r "active_id r"]
    by (auto simp: stack_step_def vfo_bandstack_changed_def radio_ok_def act_stack Let_def nat_less_iff)
qed

text \<open>Recalling a slot whose bands exist.\<close>

definition mem_ok :: "mem \<Rightarrow> bool" where
  "mem_ok m \<longleftrightarrow> m_bd m < BANDS + XVTRS \<and> m_alt_bd m < BANDS + XVTRS"

lemma radio_ok_recall_vfo:
  assumes "radio_ok r" and "b < 34"
  shows "radio_ok (recall_vfo i b f cf ct k d r)"
  unfolding recall_vfo_def radio_ok_def Let_def
  using assms current_ok [of r b] by (auto simp: radio_ok_def it_ok_def intro!: vfos_ok_point)

lemma core_recall_mode [simp]: "core (recall_mode b i m r) = core r"
proof -
  have "core (upd_vfo i (\<lambda>v. v\<lparr>v_mode := m\<rparr>) r) = core r" by (rule core_upd_vfo) (simp add: vcore_def)
  then show ?thesis by (simp add: recall_mode_def Let_def)
qed

lemma radio_ok_recall:
  assumes "radio_ok r" and "i < length ms" and "\<forall>m \<in> set ms. mem_ok m"
  shows "radio_ok (recall_memory_slot i ms r)"
proof -
  let ?m = "ms ! i"
  have m: "m_bd ?m < 34" "m_alt_bd ?m < 34" using assms(2,3) by (auto simp: mem_ok_def)
  have main: "radio_ok (recall_main j ?m r)" if "radio_ok r" for j r
    unfolding recall_main_def using that m(1) radio_ok_keep [OF core_recall_mode] by (intro radio_ok_recall_vfo)
  have alt: "radio_ok (recall_alt ?m r)" if "radio_ok r" for r
    unfolding recall_alt_def using that m(2) radio_ok_keep [OF core_recall_mode] by (intro radio_ok_recall_vfo)
  have both: "radio_ok (recall_both ?m r)" if "radio_ok r" for r
  proof (rule radio_ok_keep [OF _ alt [OF main [OF that]]])
    show "core (recall_both ?m r) = core (recall_alt ?m (recall_main 0 ?m r))"
      by (simp add: recall_both_def Let_def)
  qed
  have c: "core (vfo_vfos_changed (recall_ctcss ?m r)) = core r" for r by (simp add: recall_ctcss_def)
  have s: "radio_ok (r\<lparr>sat_mode := m_sat_mode ?m\<rparr>)" using assms(1) by (rule radio_ok_keep [rotated]) simp
  show ?thesis
    using assms(1) radio_ok_keep [OF c main [OF s]] radio_ok_keep [OF c both [OF s]] radio_ok_keep [of "emit e r" r for e]
    by (auto simp: recall_memory_slot_def Let_def)
qed

subsection \<open>Knobs\<close>

lemma knob_range: "lo \<le> hi \<Longrightarrow> lo \<le> KnobOrWheel m n x lo hi inc \<and> KnobOrWheel m n x lo hi inc \<le> hi"
  by (simp add: KnobOrWheel_def Let_def)

lemma c_trunc_mono: "x \<le> y \<Longrightarrow> c_trunc x \<le> c_trunc y"
proof -
  assume "x \<le> y"
  moreover have "\<lceil>x\<rceil> \<le> \<lfloor>y\<rfloor>" if "\<not> 0 \<le> x" "0 \<le> y"
    using that by (meson ceiling_le_zero le_floor_iff not_le_imp_less of_int_0 order.trans zero_le_floor less_imp_le)
  ultimately show ?thesis by (auto simp: c_trunc_def floor_mono ceiling_mono)
qed

lemma knob_trunc:
  assumes "lo \<le> hi"
  shows "lo \<le> c_trunc (KnobOrWheel m n x (of_int lo) (of_int hi) inc) \<and> c_trunc (KnobOrWheel m n x (of_int lo) (of_int hi) inc) \<le> hi"
  using knob_range [of "of_int lo" "of_int hi" m n x inc] assms
    c_trunc_mono [of "of_int lo"] c_trunc_mono [of _ "of_int hi"] by fastforce

subsection \<open>The panel behind one action\<close>

lemma radio_ok_cong: "core r' = core r \<Longrightarrow> radio_ok r' = radio_ok r"
  using radio_ok_core [of r' r] radio_ok_core [of r r'] by auto

lemmas radio_ok_simps [simp] = core_basic [THEN radio_ok_cong] core_writes [THEN radio_ok_cong] core_more [THEN radio_ok_cong]
  core_set_drive [THEN radio_ok_cong] core_set_offset [THEN radio_ok_cong] core_tx_vfo [THEN radio_ok_cong]
  core_set_tune [THEN radio_ok_cong] core_toggle_tune [THEN radio_ok_cong] core_set_mox [THEN radio_ok_cong]
  core_filters [THEN radio_ok_cong] core_gains [THEN radio_ok_cong] core_split [THEN radio_ok_cong]
  core_duplex [THEN radio_ok_cong] core_zoom [THEN radio_ok_cong] core_sidetone [THEN radio_ok_cong]
  core_vox [THEN radio_ok_cong] core_ps [THEN radio_ok_cong] core_satmode [THEN radio_ok_cong]

definition panel_ok :: "panel \<Rightarrow> bool" where
  "panel_ok p \<longleftrightarrow> radio_ok (radio p) \<and> length (p_mem p) = 10 \<and> (\<forall>m \<in> set (p_mem p). mem_ok m) \<and> p_multi_action p < 28"

lemma ok_radio: "panel_ok p \<Longrightarrow> (radio_ok (radio p) \<Longrightarrow> radio_ok (f (radio p))) \<Longrightarrow> panel_ok (on_radio f p)"
  by (simp add: panel_ok_def on_radio_def)

lemma ok_if: "(b \<Longrightarrow> panel_ok x) \<Longrightarrow> (\<not> b \<Longrightarrow> panel_ok y) \<Longrightarrow> panel_ok (if b then x else y)"
  by simp

lemma ok_modes:
  assumes "panel_ok p" and "panel_ok p \<Longrightarrow> panel_ok (f p)"
  shows "panel_ok (pressed m f p)" "panel_ok (turned m f p)" "panel_ok (moved m f p)"
  using assms by (simp_all add: pressed_def turned_def moved_def)

lemma ok_option: "panel_ok x \<Longrightarrow> (\<And>a. z = Some a \<Longrightarrow> panel_ok (f a)) \<Longrightarrow> panel_ok (case z of None \<Rightarrow> x | Some a \<Rightarrow> f a)"
  by (cases z) simp_all

lemmas ok_intros = ok_if ok_modes ok_option ok_radio

lemma ok_tell [simp]: "panel_ok (tell e p) = panel_ok p"
  by (simp add: tell_def on_radio_def panel_ok_def)

lemma ok_knobs [simp]: "panel_ok (upd_knobs i f p) = panel_ok p"
  by (simp add: upd_knobs_def panel_ok_def)

lemma ok_writes [simp]:
  "panel_ok (p\<lparr>p_entered := a1\<rparr>) = panel_ok p" "panel_ok (p\<lparr>p_mic_gain := a2\<rparr>) = panel_ok p"
  "panel_ok (p\<lparr>p_compressor_level := a2\<rparr>) = panel_ok p" "panel_ok (p\<lparr>p_linein_gain := a2\<rparr>) = panel_ok p"
  "panel_ok (p\<lparr>p_div_gain := a2\<rparr>) = panel_ok p" "panel_ok (p\<lparr>p_div_phase := a2\<rparr>) = panel_ok p"
  "panel_ok (p\<lparr>p_cw_keyer_speed := a3\<rparr>) = panel_ok p" "panel_ok (p\<lparr>p_cw_key_hit := b\<rparr>) = panel_ok p"
  "panel_ok (p\<lparr>p_MIDI_cw := b\<rparr>) = panel_ok p" "panel_ok (p\<lparr>p_twotone_timer := b\<rparr>) = panel_ok p"
  "panel_ok (p\<lparr>p_record_pointer := n\<rparr>) = panel_ok p" "panel_ok (p\<lparr>p_replay_pointer := n\<rparr>) = panel_ok p"
  "panel_ok (p\<lparr>p_acc := a3\<rparr>) = panel_ok p" "panel_ok (p\<lparr>p_acc_a := a3\<rparr>) = panel_ok p" "panel_ok (p\<lparr>p_acc_b := a3\<rparr>) = panel_ok p"
  "panel_ok (p\<lparr>p_key_last := a2\<rparr>) = panel_ok p" "panel_ok (p\<lparr>p_clock := a2\<rparr>) = panel_ok p"
  "panel_ok (p\<lparr>p_repeat_timer := b\<rparr>) = panel_ok p" "panel_ok (p\<lparr>p_repeat_released := b\<rparr>) = panel_ok p"
  "panel_ok (p\<lparr>p_repeat := e\<rparr>) = panel_ok p" "panel_ok (p\<lparr>p_multi_first := b\<rparr>) = panel_ok p"
  "panel_ok (p\<lparr>p_multi_select := b\<rparr>) = panel_ok p" "panel_ok (p\<lparr>p_tb_function := n\<rparr>) = panel_ok p"
  "panel_ok (p\<lparr>p_idle := es\<rparr>) = panel_ok p"
  by (simp_all add: panel_ok_def)

lemma ok_settings [simp]:
  assumes "panel_ok p"
  shows "panel_ok (radio_set_af_gain i v p)" "panel_ok (radio_set_squelch i v p)" "panel_ok (radio_toggle_preamp i p)"
    "panel_ok (radio_set_cw_speed n p)" "panel_ok (radio_set_linein_gain v p)" "panel_ok (radio_set_mic_gain v p)"
    "panel_ok (radio_set_twotone b p)" "panel_ok (radio_set_diversity_gain v p)" "panel_ok (radio_set_diversity_phase v p)"
    "panel_ok (radio_set_diversity b p)"
proof -
  show "panel_ok (radio_set_af_gain i v p)" "panel_ok (radio_set_squelch i v p)" "panel_ok (radio_set_linein_gain v p)"
    "panel_ok (radio_set_mic_gain v p)" "panel_ok (radio_set_diversity_gain v p)" "panel_ok (radio_set_diversity_phase v p)"
    "panel_ok (radio_set_cw_speed n p)"
    using assms by (auto simp: radio_set_af_gain_def radio_set_squelch_def radio_set_linein_gain_def radio_set_mic_gain_def
        radio_set_diversity_gain_def radio_set_diversity_phase_def radio_set_cw_speed_def Let_def intro!: ok_radio)
  have "panel_ok (radio_set_preamp i n p)" for n
    using assms by (auto simp: radio_set_preamp_def Let_def row_view_def core_upd_band [THEN radio_ok_cong] intro!: ok_radio)
  then show "panel_ok (radio_toggle_preamp i p)" using assms by (simp add: radio_toggle_preamp_def Let_def)
  show "panel_ok (radio_set_twotone b p)"
    using assms by (auto simp: radio_set_twotone_def tx_set_twotone_def Let_def ok_radio split: option.split)
  show "panel_ok (radio_set_diversity b p)"
    using assms by (auto simp: radio_set_diversity_def Let_def intro!: ok_radio)
qed

lemma ok_num_pad [simp]: "panel_ok p \<Longrightarrow> panel_ok (vfo_num_pad n i p)"
proof -
  assume p: "panel_ok p"
  then have "panel_ok (num_enter i x p)" for x
    by (auto simp: num_enter_def Let_def radio_ok_vfos intro!: ok_radio)
  with p show ?thesis by (simp add: vfo_num_pad_def Let_def)
qed

lemma ok_set_active [simp]: "panel_ok p \<Longrightarrow> i < 2 \<Longrightarrow> panel_ok (rx_set_active i p)"
proof -
  assume p: "panel_ok p" and i: "i < 2"
  have a: "radio_ok (r\<lparr>active_id := i\<rparr>) = radio_ok r" if "radio_ok r" for r
    using that i vfos_ok_keep [of r "r\<lparr>active_id := i\<rparr>"] by (auto simp: radio_ok_def vfos_ok_def band_view_def)
  show ?thesis
    using p by (auto simp: rx_set_active_def Let_def a intro!: ok_radio)
qed

subsection \<open>The sections\<close>

lemma ok_keyer: "panel_ok p \<Longrightarrow> panel_ok (actions_keyer a m val p)"
  unfolding actions_keyer_def keyer_ptt_def Let_def by (intro ok_intros; simp)

lemma ok_repeat: "panel_ok p \<Longrightarrow> panel_ok (repeat_start e p)"
  by (simp add: repeat_start_def)

lemma ok_repeat_button:
  assumes "panel_ok p" and "\<And>r. radio_ok r \<Longrightarrow> radio_ok (f r)"
  shows "panel_ok (repeat_button e f p)"
  using assms by (cases e) (auto simp: repeat_button_def intro!: ok_repeat ok_radio)

lemma ok_waterfall: "panel_ok p \<Longrightarrow> panel_ok (actions_waterfall a m val p)"
  unfolding actions_waterfall_def xit_step_def
  by (intro ok_intros ok_repeat_button ok_repeat ok_keyer; simp add: Let_def radio_ok_derived)

lemma ok_vfo: "panel_ok p \<Longrightarrow> panel_ok (actions_vfo a m val p)"
  unfolding actions_vfo_def step_index_def
  by (intro ok_intros ok_waterfall; auto simp: Let_def radio_ok_derived radio_ok_vfos split: prod.split intro!: ok_radio)

lemma ok_schedule: "panel_ok p \<Longrightarrow> panel_ok (schedule_action e p)"
  by (cases e) (simp add: schedule_action_def key_down_def Let_def)

lemma ok_rx_tune: "panel_ok p \<Longrightarrow> panel_ok (actions_rx_tune a m val p)"
  unfolding actions_rx_tune_def noise_change_def tune_toggle_def radio_split_toggle_def
  by (intro ok_intros ok_vfo; simp add: Let_def ok_schedule)

lemma ok_rf_rit: "panel_ok p \<Longrightarrow> panel_ok (actions_rf_rit a m val p)"
  unfolding actions_rf_rit_def rf_gain_knob_def rit_adjust_def ritxit_def ritselect_def Let_def
  by (intro ok_intros ok_repeat_button ok_rx_tune; simp add: Let_def radio_ok_derived radio_ok_vfos)

lemma ok_pan_recall: "panel_ok p \<Longrightarrow> panel_ok (actions_pan_recall a m val p)"
proof -
  assume p: "panel_ok p"
  have r: "radio_ok (recall_memory_slot (a - RCL0) (p_mem p) r)" if "RCL0 \<le> a \<and> a \<le> RCL9" "radio_ok r" for r
    using p that by (intro radio_ok_recall) (auto simp: panel_ok_def)
  show ?thesis
    unfolding actions_pan_recall_def Let_def
    by (intro ok_intros ok_rf_rit p; simp add: p r split: option.split)
qed

lemma ok_numpad: "panel_ok p \<Longrightarrow> panel_ok (actions_numpad a m val p)"
  unfolding actions_numpad_def by (intro ok_intros ok_pan_recall; simp)

lemma ok_multi: "panel_ok p \<Longrightarrow> panel_ok (multi_knob m val p)"
  using knob_trunc [of 0 27 m val "of_nat (p_multi_action p)" 1] by (simp add: multi_knob_def) (simp add: panel_ok_def, linarith)

text \<open>The action of the multifunction encoder keeps the invariant, which is shown for it first.\<close>

lemma ok_mic_nr:
  assumes "panel_ok p" and "\<And>b p. b \<in> set multi_action_table \<Longrightarrow> panel_ok p \<Longrightarrow> panel_ok (again b p)"
  shows "panel_ok (actions_mic_nr again a m val p)"
proof -
  have "panel_ok (multi_encoder again m val p)"
    using assms nth_mem [of "p_multi_action p" multi_action_table]
    by (auto simp: multi_encoder_def Let_def panel_ok_def [of p] ok_multi multi_action_table_def)
  then show ?thesis
    unfolding actions_mic_nr_def mode_step_def noise_change_def toggle_mute_def
    by (intro ok_intros ok_numpad assms(1); simp add: assms(1) ok_multi radio_ok_derived Let_def)
qed

lemma ok_menu:
  assumes "panel_ok p" and "\<And>b p. b \<in> set multi_action_table \<Longrightarrow> panel_ok p \<Longrightarrow> panel_ok (again b p)"
  shows "panel_ok (actions_menu again a m val p)"
  unfolding actions_menu_def by (intro ok_intros ok_mic_nr assms; simp add: assms(1))

lemma ok_filter_lock:
  assumes "panel_ok p" and "\<And>b p. b \<in> set multi_action_table \<Longrightarrow> panel_ok p \<Longrightarrow> panel_ok (again b p)"
  shows "panel_ok (actions_filter_lock again a m val p)"
  unfolding actions_filter_lock_def tb_turn_def
  by (intro ok_intros ok_menu assms; simp add: assms(1) radio_ok_derived Let_def)

lemma ok_comp_duplex:
  assumes "panel_ok p" and "\<And>b p. b \<in> set multi_action_table \<Longrightarrow> panel_ok p \<Longrightarrow> panel_ok (again b p)"
  shows "panel_ok (actions_comp_duplex again a m val p)"
proof -
  have c: "core (compressor_call r) = core r" for r by (simp add: compressor_call_def split: option.split)
  show ?thesis
    unfolding actions_comp_duplex_def div_gain_turn_def div_phase_turn_def
    by (intro ok_intros ok_filter_lock assms; auto simp: assms(1) Let_def radio_ok_vfos c [THEN radio_ok_cong] intro!: ok_radio)
qed

lemma ok_capture:
  assumes "panel_ok p" and "\<And>b p. b \<in> set multi_action_table \<Longrightarrow> panel_ok p \<Longrightarrow> panel_ok (again b p)"
  shows "panel_ok (actions_capture again a m val p)"
proof -
  have "panel_ok (capture_button a p)" if "panel_ok p" for p
    using that by (auto simp: capture_button_def Let_def intro!: ok_radio split: capture_state.split)
  then show ?thesis
    unfolding actions_capture_def by (intro ok_intros ok_comp_duplex assms)
qed

text \<open>The loops of the band buttons end.\<close>

definition loops_end :: "nat \<Rightarrow> action_mode \<Rightarrow> panel \<Rightarrow> bool" where
  "loops_end a m p \<longleftrightarrow> m = PRESSED \<longrightarrow>
     (a = BAND_PLUS \<longrightarrow> band_plus (act p) (radio p) \<noteq> None) \<and> (a = BAND_MINUS \<longrightarrow> band_minus (act p) (radio p) \<noteq> None)"

lemma band_buttons_exist: "map_of band_buttons a = Some b \<Longrightarrow> b < BANDS + XVTRS"
  by (auto simp: band_buttons_def split: if_splits)

lemma ok_band:
  assumes "panel_ok p" and "\<And>b p. b \<in> set multi_action_table \<Longrightarrow> panel_ok p \<Longrightarrow> panel_ok (again b p)"
    and "loops_end a m p"
  shows "panel_ok (actions_band again a m val p)"
proof -
  have a: "act p < 2" using assms(1) by (simp add: panel_ok_def radio_ok_def)
  have b: "radio_ok (the (band_plus (act p) (radio p)))" if "a = BAND_PLUS" "m = PRESSED"
    using radio_ok_band_buttons(1) [OF _ a] assms(1,3) that by (auto simp: panel_ok_def loops_end_def)
  have c: "radio_ok (the (band_minus (act p) (radio p)))" if "a = BAND_MINUS" "m = PRESSED"
    using radio_ok_band_buttons(2) [OF _ a] assms(1,3) that by (auto simp: panel_ok_def loops_end_def)
  have bc: "panel_ok (pressed m (on_radio (\<lambda>r. the (band_plus (active_id r) r))) p)" if "a = BAND_PLUS"
    using b that assms(1) by (auto simp: pressed_def intro!: ok_radio)
  have cc: "panel_ok (pressed m (on_radio (\<lambda>r. the (band_minus (active_id r) r))) p)" if "a = BAND_MINUS"
    using c that assms(1) by (auto simp: pressed_def intro!: ok_radio)
  show ?thesis
    unfolding actions_band_def
    by (intro ok_if ok_option ok_capture assms(1,2) bc cc ok_modes(1) ok_radio; 
        auto simp: radio_ok_stack_step radio_ok_def [of "radio p"] intro: radio_ok_band dest: band_buttons_exist)
qed

lemma ok_with:
  assumes "panel_ok p" and "\<And>b p. b \<in> set multi_action_table \<Longrightarrow> panel_ok p \<Longrightarrow> panel_ok (again b p)"
    and "loops_end a m p"
  shows "panel_ok (process_action_with again a m val p)"
proof -
  have g: "core (attenuation_knob m val r) = core r" for r by (simp add: attenuation_knob_def Let_def)
  show ?thesis
    unfolding process_action_with_def af_gain_knob_def agc_gain_knob_def agc_step_def noise_change_def
    by (intro ok_intros ok_band assms; simp add: assms(1) radio_ok_vfos g [THEN radio_ok_cong] Let_def ok_radio)
qed

lemma ok_process: "panel_ok p \<Longrightarrow> loops_end a m p \<Longrightarrow> panel_ok (process_action (a, m, val) p)"
  unfolding process_action_def prod.case
  by (intro ok_with) (auto simp: loops_end_def multi_action_table_def)

end
