(* ===== verification/Panel_Trips.thy ===== *)
theory Panel_Trips
  imports Panel_Facts Settings_Facts
begin

text \<open>
  The properties of the actions: the invariant of all states the operator can reach, the range of
  the knobs, the encoders of the VFOs, the number pad, and two knobs that do not do what they
  are for.
\<close>

subsection \<open>Reachable states\<close>

text \<open>
  A thread schedules an action; the GTK thread processes the oldest that waits, or the one of a held
  button; time passes. Pressing the band buttons is a step if their loop returns (theory
  \<open>Vfo_Trips\<close> says when it does).
\<close>

inductive panel_step :: "panel \<Rightarrow> panel \<Rightarrow> bool" where
  step_schedule: "panel_step p (schedule_action e p)"
| step_idle: "p_idle p = (a, m, val) # es \<Longrightarrow> loops_end a m p \<Longrightarrow> panel_step p (run_idle p)"
| step_repeat: "p_repeat_timer p \<Longrightarrow> p_repeat p = (a, m, val) \<Longrightarrow> loops_end a m p \<Longrightarrow> panel_step p (repeat_cb p)"
| step_time: "panel_step p (p\<lparr>p_clock := t\<rparr>)"

lemma panel_step_ok: "panel_step p q \<Longrightarrow> panel_ok p \<Longrightarrow> panel_ok q"
proof (induction rule: panel_step.induct)
  case (step_idle p a m val es)
  then have "loops_end a m (p\<lparr>p_idle := es\<rparr>)" by (simp add: loops_end_def)
  with step_idle show ?case using ok_process [of "p\<lparr>p_idle := es\<rparr>" a m val] by (simp add: run_idle_def)
qed (simp_all add: ok_schedule repeat_cb_def ok_process)

text \<open>
  C30. Whatever buttons are pressed and knobs turned, in whatever order they are scheduled and
  processed, also through the multifunction encoder, the toolbar and held buttons: each VFO
  refers to a band of the table and an existing entry of its band stack, RIT and XIT stay within
  9999 Hz, one of the two receivers is active, and the multifunction encoder points into its
  table.
\<close>

theorem panel_reachable_ok:
  assumes "vfos_ok (radio p)" and "act p < 2" and "length (p_mem p) = 10" and "\<forall>m \<in> set (p_mem p). mem_ok m"
    and "p_multi_action p = 0" and "panel_step\<^sup>*\<^sup>* p q"
  shows "vfos_ok (radio q) \<and> act q < 2 \<and> p_multi_action q < length multi_action_table"
proof -
  have "panel_ok p" using assms(1-5) by (simp add: panel_ok_def radio_ok_def)
  with assms(6) have "panel_ok q"
    by (induction rule: rtranclp_induct) (simp_all add: panel_step_ok)
  then show ?thesis by (simp add: panel_ok_def radio_ok_def multi_action_table_def)
qed

subsection \<open>Knobs\<close>

lemma c_round_int [simp]: "c_round (of_int n) = of_int n"
  by (simp add: c_round_def)

lemma c_round_near:
  assumes "\<bar>x - of_int n\<bar> < 1 / 2"
  shows "c_round x = of_int n"
proof -
  have b: "x - of_int n < 1 / 2" "of_int n - x < 1 / 2" using assms by linarith+
  have "\<lfloor>x + 1 / 2\<rfloor> = n" by (rule floor_unique) (use assms in linarith)+
  moreover have "\<lfloor>1 / 2 - x\<rfloor> = - n" by (rule floor_unique) (use b in simp_all)
  ultimately show ?thesis by (simp add: c_round_def)
qed

lemma c_round_Ints: "\<exists>n. c_round x = of_int n"
  by (auto simp: c_round_def intro: exI [of _ "- \<lfloor>1 / 2 - x\<rfloor>"])


lemmas dispatch = process_action_def process_action_with_def actions_band_def band_buttons_def actions_capture_def
  actions_comp_duplex_def actions_filter_lock_def actions_menu_def actions_mic_nr_def actions_numpad_def
  actions_pan_recall_def actions_rf_rit_def actions_rx_tune_def actions_vfo_def

lemma dispatch_voxlevel: "transmitter (radio p) = Some tx \<Longrightarrow> process_action (VOXLEVEL, m, n) p =
    moved m (on_radio (\<lambda>r. tx_set_vox tx (r\<lparr>vox_threshold := of_int (c_trunc (KnobOrWheel m n (vox_threshold r) 0 1 0.01))\<rparr>))) p"
  by (simp add: dispatch)

text \<open>
  The knob for the VOX threshold can only set 0 or 1: the value is converted to an integer
  before it is stored. From 0 no turn of a wheel by fewer than 100 clicks changes anything, so that
  a microphone level in between can no longer be chosen.
\<close>

lemma vox_knob_broken:
  assumes "transmitter (radio p) \<noteq> None" and "m = ABSOLUTE \<or> m = RELATIVE"
  shows "vox_threshold (radio (process_action (VOXLEVEL, m, n) p)) \<in> {0, 1}
    \<and> (vox_threshold (radio p) = 0 \<longrightarrow> n < 100 \<longrightarrow> vox_threshold (radio (process_action (VOXLEVEL, RELATIVE, n) p)) = 0)"
proof -
  obtain tx where tx: "transmitter (radio p) = Some tx" using assms(1) by auto
  have v: "vox_threshold (tx_set_vox tx r) = vox_threshold r" for r
    by (simp add: tx_set_vox_def emit_def)
  have p: "vox_threshold (radio (process_action (VOXLEVEL, m, n) p))
      = of_int (c_trunc (KnobOrWheel m n (vox_threshold (radio p)) 0 1 0.01))" if "m = ABSOLUTE \<or> m = RELATIVE" for m
    using that by (simp add: dispatch_voxlevel [OF tx] moved_def on_radio_def v)
  have k: "c_trunc (KnobOrWheel m n x 0 1 0.01) \<in> {0, 1}" for m x
    using knob_trunc [of 0 1 m n x "0.01"] by auto
  have "c_trunc (KnobOrWheel RELATIVE n 0 0 1 0.01) = 0" if "n < 100"
    using that by (auto simp: KnobOrWheel_def Let_def c_trunc_def floor_eq_iff)
  with p [OF assms(2)] p [of RELATIVE] k show ?thesis by auto
qed

subsection \<open>The encoders of the VFOs\<close>

lemma dispatch_vfoa: "process_action (VFOA, m, n) p = (if m = RELATIVE \<and> \<not> locked (radio p) then
    let (new, rest) = encoder (p_encoder_divisor p) (p_acc_a p) n; p = p\<lparr>p_acc_a := rest\<rparr>
    in if new \<noteq> 0 then on_radio (vfo_id_step 0 new) p else p else p)"
  by (simp add: dispatch)

text \<open>The steps that a series of encoder events makes.\<close>

fun encoder_steps :: "int \<Rightarrow> int \<Rightarrow> int list \<Rightarrow> int list" where
  "encoder_steps d acc [] = []"
| "encoder_steps d acc (v # vs) = (let (new, rest) = encoder d acc v in (if new \<noteq> 0 then [new] else []) @ encoder_steps d rest vs)"

fun encoder_rest :: "int \<Rightarrow> int \<Rightarrow> int list \<Rightarrow> int" where
  "encoder_rest d acc [] = acc"
| "encoder_rest d acc (v # vs) = encoder_rest d (snd (encoder d acc v)) vs"

lemma encoder_sum: "d * sum_list (encoder_steps d acc vs) + encoder_rest d acc vs = acc + sum_list vs"
proof (induction vs arbitrary: acc)
  case (Cons v vs)
  obtain new rest where e: "encoder d acc v = (new, rest)" by force
  then have "d * new + rest = acc + v" by (auto simp: encoder_def Let_def algebra_simps)
  moreover have "sum_list (encoder_steps d acc (v # vs)) = new + sum_list (encoder_steps d rest vs)"
    by (simp add: e)
  ultimately show ?case using Cons.IH [of rest] by (simp add: e algebra_simps)
qed simp

lemma encoder_rest_less: "0 < d \<Longrightarrow> \<bar>acc\<bar> < d \<Longrightarrow> \<bar>encoder_rest d acc vs\<bar> < d"
  by (induction vs arbitrary: acc) (simp_all add: encoder_def Let_def c_div_bounds(2))

lemma static_step: "static (vfo_id_step i n r) = static r"
  unfolding vfo_id_step_def by (intro static_intros; simp add: frame_simps)

lemma locked_step: "locked (vfo_id_step i n r) = locked r"
  by (rule staticD(12) [OF static_step])

text \<open>
  C35. The encoder of VFO A loses no click: processing any series of events steps the VFO by amounts
  that add up to all the clicks divided by the divisor, and what is left is less than one step and
  counts the next time. Nothing else of the radio changes.
\<close>

theorem vfo_encoder_exact:
  assumes "0 < p_encoder_divisor p" and "\<bar>p_acc_a p\<bar> < p_encoder_divisor p" and "\<not> locked (radio p)"
  shows "\<exists>steps rest. fold (\<lambda>v. process_action (VFOA, RELATIVE, v)) vs p = (on_radio (fold (vfo_id_step 0) steps) p)\<lparr>p_acc_a := rest\<rparr>
    \<and> p_encoder_divisor p * sum_list steps + rest = p_acc_a p + sum_list vs \<and> \<bar>rest\<bar> < p_encoder_divisor p"
proof (intro exI conjI)
  let ?d = "p_encoder_divisor p"
  show "fold (\<lambda>v. process_action (VFOA, RELATIVE, v)) vs p
      = (on_radio (fold (vfo_id_step 0) (encoder_steps ?d (p_acc_a p) vs)) p)\<lparr>p_acc_a := encoder_rest ?d (p_acc_a p) vs\<rparr>"
    using assms(3)
  proof (induction vs arbitrary: p)
    case (Cons v vs)
    obtain new rest where e: "encoder (p_encoder_divisor p) (p_acc_a p) v = (new, rest)" by force
    show ?case
      using Cons.IH [of "process_action (VFOA, RELATIVE, v) p"] Cons.prems
      by (auto simp: dispatch_vfoa e on_radio_def locked_step)
  qed (simp add: on_radio_def)
  show "?d * sum_list (encoder_steps ?d (p_acc_a p) vs) + encoder_rest ?d (p_acc_a p) vs = p_acc_a p + sum_list vs"
    by (rule encoder_sum)
  show "\<bar>encoder_rest ?d (p_acc_a p) vs\<bar> < ?d"
    using assms by (intro encoder_rest_less)
qed

subsection \<open>The number pad\<close>

text \<open>Typing a number: one press for each digit.\<close>

definition type_digits :: "string \<Rightarrow> panel \<Rightarrow> panel" where
  "type_digits = fold (\<lambda>c. process_action (NUMPAD_0 + (of_char c - 48), PRESSED, 0))"

lemma dispatch_digit: "d < 10 \<Longrightarrow> process_action (NUMPAD_0 + d, PRESSED, n) p = vfo_num_pad (int d) (act p) p"
  by (simp add: dispatch pressed_def)

lemma dispatch_enter: "process_action (NUMPAD_ENTER, PRESSED, n) p = vfo_num_pad (- 2) (act p) p"
  by (simp add: dispatch pressed_def)

lemma digit_typed:
  assumes "isdigit c" and "length (p_entered p (act p)) \<le> 14"
  shows "process_action (NUMPAD_0 + (of_char c - 48), PRESSED, 0) p
    = tell Vfo_update (p\<lparr>p_entered := (p_entered p)(act p := p_entered p (act p) @ [c])\<rparr>)"
proof -
  define d :: nat where "d = of_char c - 48"
  have d: "d < 10" "of_char c = 48 + d" using assms(1) by (auto simp: isdigit_def d_def)
  then have c: "char_of (48 + d) = c" by (metis char_of_char)
  have n: "int d \<noteq> - 5" "int d \<noteq> - 1" "int d \<noteq> - 6" "int d \<noteq> - 4" "int d \<noteq> - 3" "int d \<noteq> - 2" by auto
  have "vfo_num_pad (int d) (act p) p = tell Vfo_update (p\<lparr>p_entered := (p_entered p)(act p := p_entered p (act p) @ [c])\<rparr>)"
    using assms(2) by (simp only: vfo_num_pad_def Let_def n if_False if_True nat_int c)
  then show ?thesis by (simp add: dispatch_digit d flip: d_def)
qed

lemma digits_typed:
  assumes "\<forall>c \<in> set s. isdigit c" and "length (p_entered p (act p)) + length s \<le> 15"
  shows "type_digits s p = (on_radio (\<lambda>r. r\<lparr>out := out r @ replicate (length s) Vfo_update\<rparr>) p)
    \<lparr>p_entered := (p_entered p)(act p := p_entered p (act p) @ s)\<rparr>"
  using assms
proof (induction s arbitrary: p)
  case (Cons c s)
  let ?p = "tell Vfo_update (p\<lparr>p_entered := (p_entered p)(act p := p_entered p (act p) @ [c])\<rparr>)"
  have "act ?p = act p" "p_entered ?p = (p_entered p)(act p := p_entered p (act p) @ [c])"
    by (simp_all add: tell_def on_radio_def emit_def)
  then show ?case
    using Cons.IH [of ?p] Cons.prems digit_typed [of c p]
    by (simp add: type_digits_def) (simp add: tell_def on_radio_def emit_def fun_upd_def cong: if_cong)
qed (simp add: type_digits_def on_radio_def)

lemma atof_print_nat: "atof (print_nat n) = of_nat n"
proof -
  have "dropWhile isdigit (print_nat n) = []" using print_nat_isdigit [of n] by simp
  with number_head [OF hd_print_nat print_nat_not_Nil, of n "[]"]
  show ?thesis by (simp add: atof_def Let_def exponent_of_def del: dropWhile_eq_Nil_conv)
qed

text \<open>
  C34. Typing the digits of a frequency of at least 10 kHz on the number pad and pressing Enter sets
  the VFO of the active receiver to exactly this frequency and clears the entry; each press
  redraws the VFO, and nothing else happens.
\<close>

theorem num_pad_round_trip:
  assumes "p_entered p (act p) = []" and "10000 \<le> f" and "f < 10 ^ 15"
  shows "process_action (NUMPAD_ENTER, PRESSED, 0) (type_digits (print_nat f) p)
    = on_radio (\<lambda>r. emit Vfo_update (vfo_id_set_frequency (active_id r) (int f)
        (r\<lparr>out := out r @ replicate (length (print_nat f)) Vfo_update\<rparr>))) p"
proof -
  have l: "length (print_nat f) \<le> 15" using length_print_nat [of f 14] assms(3) by simp
  let ?q = "type_digits (print_nat f) p"
  note q = digits_typed [OF print_nat_isdigit, of p f]
  have "atof (print_nat f) = of_nat f" by (rule atof_print_nat)
  moreover have "c_trunc (real f + 1 / 2) = int f" by (simp add: c_trunc_def)
  ultimately show ?thesis
    using assms(1,2) l by (simp add: dispatch_enter vfo_num_pad_def num_enter_def q tell_def on_radio_def Let_def fun_upd_idem)
qed

end
