(* ===== verification/Panel_Examples.thy ===== *)
theory Panel_Examples
  imports Panel_Trips Vfo_Examples Session_Examples
begin

text \<open>
  The properties of the actions at work: a console with the radio of theory \<open>Sample_Radio\<close>, the
  memory slots of a new configuration, and nothing entered or recorded yet.
\<close>

definition sample_knobs :: rx_knobs where
  "sample_knobs = \<lparr>k_volume = - 20, k_squelch = 0, k_squelch_enable = False, k_agc = 3, k_anf = False, k_snb = False,
     k_nb = 0, k_nr = 0, k_mute = False, k_waterfall_high = - 40, k_waterfall_low = - 140\<rparr>"

definition panel0 :: panel where
  "panel0 = \<lparr>radio = radio0, p_mem = sample_mems, p_knobs = (\<lambda>_. sample_knobs), p_entered = (\<lambda>_. []),
     p_mic_gain = 0, p_compressor_level = 0, p_linein_gain = 0, p_drive_max = 100, p_div_gain = 0, p_div_phase = 0,
     p_n_adc = 1, p_RECEIVERS = 2, p_min_gain = (\<lambda>_. - 12), p_max_gain = (\<lambda>_. 48), p_have_preamp = False,
     p_cw_keyer_speed = 16, p_cw_key_hit = False, p_MIDI_cw = False, p_hpsdr_ptt = False, p_ptt_delay = 30,
     p_twotone_timer = False, p_record_pointer = 0, p_replay_pointer = 0, p_encoder_divisor = 1, p_acc = 0, p_acc_a = 0,
     p_acc_b = 0, p_key_last = 0, p_clock = 0, p_repeat_timer = False, p_repeat_released = False, p_repeat = (NO_ACTION, PRESSED, 0),
     p_multi_first = True, p_multi_select = False, p_multi_action = 0, p_tb_function = 0, p_tb_actions = [], p_idle = []\<rparr>"

lemma panel0_simps [simp]:
  "radio panel0 = radio0" "length (p_mem panel0) = 10" "p_idle panel0 = []" "p_entered panel0 i = []"
  "p_multi_action panel0 = 0" "p_acc_a panel0 = 0" "p_encoder_divisor panel0 = 1"
  by (simp_all add: panel0_def sample_mems_def)

lemma panel0_mem: "\<forall>m \<in> set (p_mem panel0). mem_ok m"
  by (simp add: panel0_def mem_ok_def sample_mems_def sample_mem_def)

text \<open>The button of the 40m band is pressed on the console.\<close>

abbreviation (input) "panel40 \<equiv> run_idle (schedule_action (BAND_40, PRESSED, 0) panel0)"

theorem panel_reachable_ok_example: "vfos_ok (radio panel40) \<and> act panel40 < 2 \<and> p_multi_action panel40 < length multi_action_table"
proof (rule panel_reachable_ok [OF _ _ _ panel0_mem])
  have "panel_step (schedule_action (BAND_40, PRESSED, 0) panel0) panel40"
    by (rule step_idle [of _ BAND_40 PRESSED 0 "[]"]) (simp_all add: schedule_action_def loops_end_def)
  then show "panel_step\<^sup>*\<^sup>* panel0 panel40"
    using step_schedule [of panel0 "(BAND_40, PRESSED, 0)"] by (meson r_into_rtranclp rtranclp.rtrancl_into_rtrancl)
qed (simp_all add: vfos_ok_radio0)


lemma vox_knob_broken_example: "vox_threshold (radio (process_action (VOXLEVEL, ABSOLUTE, 64) panel0)) \<in> {0, 1}"
  using vox_knob_broken [of panel0 ABSOLUTE 64] by simp

theorem vfo_encoder_exact_example:
  "\<exists>steps rest. fold (\<lambda>v. process_action (VFOA, RELATIVE, v)) [1, 2, - 1] panel0
     = (on_radio (fold (vfo_id_step 0) steps) panel0)\<lparr>p_acc_a := rest\<rparr> \<and> sum_list steps + rest = 2 \<and> \<bar>rest\<bar> < 1"
  using vfo_encoder_exact [of panel0 "[1, 2, - 1]"] by simp

theorem num_pad_round_trip_example:
  "process_action (NUMPAD_ENTER, PRESSED, 0) (type_digits (print_nat 7030000) panel0)
     = on_radio (\<lambda>r. emit Vfo_update (vfo_id_set_frequency (active_id r) 7030000
         (r\<lparr>out := out r @ replicate (length (print_nat 7030000)) Vfo_update\<rparr>))) panel0"
  using num_pad_round_trip [of panel0 7030000] by simp

end
