(* ===== verification/Midi_Examples.thy ===== *)
theory Midi_Examples
  imports Midi_Saved Panel_Examples
begin

text \<open>
  A console with a MIDI controller: controller 10 of channel 0 is the wheel of VFO A, key 60 the
  button of the 40m band.
\<close>

definition sample_wheel :: desc where
  "sample_wheel = \<lparr>d_channel = 0, d_event = MIDI_CTRL, d_type = AT_ENC, d_vfl = (- 1, - 1), d_fl = (- 1, - 1), d_lft = (0, 63),
     d_rgt = (65, 127), d_fr = (- 1, - 1), d_vfr = (- 1, - 1), d_action = VFOA\<rparr>"

definition sample_key :: desc where
  "sample_key = \<lparr>d_channel = 0, d_event = MIDI_NOTE, d_type = AT_BTN, d_vfl = (- 1, - 1), d_fl = (- 1, - 1), d_lft = (0, 63),
     d_rgt = (65, 127), d_fr = (- 1, - 1), d_vfr = (- 1, - 1), d_action = BAND_40\<rparr>"

definition sample_table :: midi_table where
  "sample_table = (\<lambda>_. [])(10 := [sample_wheel], 60 := [sample_key])"

definition midi0 :: midi where
  "midi0 = \<lparr>console = panel0, parser = \<lparr>ps_state = STATE_SKIP, ps_command = CMD_NOTEON, ps_chan = 0, ps_arg1 = 0, ps_arg2 = 0\<rparr>,
     MidiCommandsTable = sample_table, midi_configure = False, midiIgnoreCtrlPairs = False,
     timers = (\<lambda>_. \<lparr>t_val = 0, t_running = False\<rparr>), configured = []\<rparr>"

lemmas sample_descs = sample_table_def sample_wheel_def sample_key_def



text \<open>Controller 11 has been learned as an encoder and has no action yet.\<close>

definition learned_table :: midi_table where
  "learned_table = sample_table(11 := [sample_wheel\<lparr>d_fl := (0, 10), d_action := NO_ACTION\<rparr>])"

lemma learned_table_ok: "table_ok learned_table"
  by (auto simp: table_ok_def learned_table_def sample_descs desc_ok_def long_long_def split: if_splits)


end
