(* ===== verification/Spec2Isabelle.thy ===== *)
theory Spec2Isabelle
  imports Vfo_Examples TxSwitch_Examples Keyer_Examples P1_Examples P2_Examples P2_Stream_Examples Session_Examples
    CW_Text_Examples Midi_Examples
begin

text \<open>
  \<^bold>\<open>A verification development for piHPSDR\<close>

  piHPSDR is the host program of a software defined radio. It talks to the radio (a "Hermes" type
  board) over the network in one of two protocols, hands the samples to a DSP library, and keeps
  the state an operator sees: two VFOs, bands with their band stacks, filters, and the switch
  between reception and transmission. All paths below are those of the repository.

  \<^bold>\<open>The parts and how they interact\<close>

  The operator's actions (GTK, CAT, MIDI, hardware knobs) end in functions of
  \<^verbatim>\<open>src/src/vfo.c\<close>, \<^verbatim>\<open>src/src/band.c\<close>, \<^verbatim>\<open>src/src/filter.c\<close>,
  \<^verbatim>\<open>src/src/radio.c\<close>, \<^verbatim>\<open>src/src/receiver.c\<close>, \<^verbatim>\<open>src/src/transmitter.c\<close>,
  \<^verbatim>\<open>src/src/store.c\<close> and \<^verbatim>\<open>src/src/profiles.c\<close>. These change global variables, call
  the DSP library and ask for packets to the radio. The two protocol drivers,
  \<^verbatim>\<open>src/src/old_protocol.c\<close> and \<^verbatim>\<open>src/src/new_protocol.c\<close>, run threads of their own:
  they read the globals when they assemble a packet, and receive packets through buffer pools
  (\<^verbatim>\<open>src/src/buffer.c\<close>) and rings shared between threads. The keyer
  (\<^verbatim>\<open>src/src/iambic.c\<close>) is another thread, which feeds the ring of key events of the
  transmitter. At the end of a session the state goes into a settings file
  (\<^verbatim>\<open>src/src/property.c\<close>), from which the next session starts.

  \<^bold>\<open>How the code is modelled\<close>

  A struct is a record with the fields the modelled functions use, an enum a datatype, a C function
  a definition of the same name that takes the state and returns it changed, with every guard and
  early return. The globals are the record \<open>radio_state\<close> of theory \<open>Radio_State\<close>; static variables
  of a file have a record of their own beside its functions. A call that leaves the model (the WDSP
  library, a task for the GTK thread, a command of a remote client, a request for a packet) is
  appended to the trace \<open>out\<close>, in program order, so that "is called" and "is called before" can be
  stated. Threads are interleaved: each has steps as small as the stores that another thread can
  observe, and an inductive relation lets any of them make the next step. Bytes on the network are
  \<open>8 word\<close>, sequence numbers, phases and filter words \<open>32 word\<close>; \<open>int\<close> and \<open>long long\<close> variables that
  stay far from their limits are integers, with the operations of C (division truncating to zero,
  conversion) from theory \<open>Prelude\<close>; where an overflow is possible and matters it is written out.
  Doubles are reals. A read outside of an array is \<open>None\<close>.

  \<^bold>\<open>The theories\<close>

  \<^item> Shared: \<open>Prelude\<close> (C arithmetic, byte fields, buffers, collections of rewrite rules),
    \<open>Radio_State\<close> (the data model), \<open>Frame\<close> (what each function leaves alone: one lemma for each
    function, so that the invariants below need to look only at what is changed).
  \<^item> Bands and VFOs: \<open>Band_Tables\<close>, \<open>Bands\<close>, \<open>Vfo\<close>, with the lemmas in \<open>Vfo_Facts\<close> (rounding, steps,
    CTUN, SAT coupling), \<open>Vfo_Bands\<close> (the invariant \<open>vfos_ok\<close> of all states that the operations
    \<open>vfo_op\<close> reach) and \<open>Vfo_Trips\<close> (band changes and exchanges undone by their inverses, the loops
    through the bands). \<open>Filter_Tables\<close> and \<open>Filters\<close> are the receive filters, \<open>Receivers\<close> what a
    receiver does when VFO, mode, filter or band change.
  \<^item> Transmission: \<open>Transmitter\<close> (drive level, transmit filter), \<open>TxSwitch\<close> (MOX, VOX, TUNE), refined
    in \<open>TxSwitch_Facts\<close> to a machine of four states; \<open>CW\<close> (the ring of key events and the shaped
    envelope), \<open>Keyer\<close> and \<open>Keyer_Facts\<close> (the iambic keyer).
  \<^item> Queues: \<open>Ring_Buffers\<close> with the locales \<open>fifo\<close> (what a client may expect of a queue) and
    \<open>ring_index\<close> (what the index arithmetic has to provide), a \<open>sublocale\<close> of the former;
    \<open>Block_Rings\<close> with the locale \<open>block_ring\<close> for rings of sample blocks; \<open>Buffers\<close> with the locale
    \<open>allocator\<close> for the six buffer pools. Every ring and every pool of the program is an
    \<open>interpretation\<close>, in the theory of the component that owns it.
  \<^item> Protocol 1: \<open>P1_Queue\<close> (network thread and decoder thread), \<open>P1_Rx\<close> (the byte-wise decoder), with
    \<open>P1_Rx_Facts\<close> and \<open>P1_Rx_Safety\<close>; \<open>P1_Tx\<close> (the commands and packets to the radio) with
    \<open>P1_Tx_Facts\<close>; \<open>P1_TxRing\<close> (samples to the radio).
  \<^item> Protocol 2: \<open>P2_Queue\<close> (one network thread, six readers), \<open>P2_Rx\<close> with \<open>P2_Rx_Facts\<close> and
    \<open>P2_Status_Facts\<close> (packets received), \<open>P2_Tx\<close> with \<open>P2_Tx_Facts\<close> (the four command packets and the
    action table), \<open>P2_Rings\<close> with \<open>P2_Rings_Facts\<close> and \<open>P2_Iq_Facts\<close> (samples to the radio), \<open>Pacing\<close>
    (the distance between packets, for both protocols).
  \<^item> Settings: \<open>Settings\<close> and \<open>Settings_Facts\<close> (the file and the texts of numbers, with the locale
    \<open>name_store\<close> for what the components rely on), \<open>Saved_State\<close> (what VFOs, bands, filters and memory
    slots write and read), \<open>Saved_State_Facts\<close>, \<open>Saved_Bands\<close>, \<open>Saved_Session\<close>, \<open>Saved_Trip\<close> (each part
    comes back), \<open>Memory_Slots\<close>, and \<open>Session_Facts\<close> for what a restart keeps and what it loses.
  \<^item> Examples: \<open>Sample_Radio\<close> is a concrete radio; the theories named \<open>..._Examples\<close> apply every
    property with hypotheses at a state of it.

  \<^bold>\<open>What is shown\<close>

  \<^item> The switch between reception and transmission refines a machine with the states receive, MOX,
    VOX and TUNE, and never starts a transmission that is forbidden or inhibited by MOX or TUNE. VOX
    does not look at the band edges (\<open>vox_ignores_band_edges\<close>).
  \<^item> Whatever the operator does, bands, band stack indices, RIT and XIT stay valid; tuning keeps the
    step grid and the sampled spectrum; SAT modes keep the sum or difference of the dials; leaving
    a band and coming back restores it; the band loops end.
  \<^item> Under every interleaving of their threads the receive queues of both protocols deliver each
    accepted packet once and in order, and the transmit rings each block; a packet that meets a
    full protocol 1 ring leaks its buffer (\<open>p1_overflow_leaks\<close>).
  \<^item> The decoders deliver every sample of a well-formed packet bit for bit to the right consumer, and
    the protocol 1 decoder resynchronises after any bytes. A protocol 2 packet with too large a
    sample count is read beyond its buffer (\<open>p2_iq_overrun\<close>).
  \<^item> The transmit bit that reaches the radio, its drive level and its filter and antenna words are
    those the state asks for, in both protocols.
  \<^item> The keyer chooses the next element by the iambic rule and never leaves the key down, also when
    the event ring overflows; a queued element has exactly its length in samples.
  \<^item> A settings file that is written is read back; a restart keeps VFOs, memory slots, bands and band
    stacks, except for the entry that VFO A stands on, its index, and split and duplex of a memory
    slot (\<open>band_stack_saved_stale\<close>, \<open>memory_split_lost\<close>).

  \<^bold>\<open>Termination, bounds and fuel\<close>

  The loops of the band-up and band-down buttons run until a suitable band is found; they are
  \<open>partial_function (option)\<close>, and \<open>band_plus_minus_end\<close> proves that they return. Reading the settings
  file recurses on its length. All other loops are over lists or fixed ranges. No definition has
  fuel. Assumptions with numbers are those of the code: array sizes, 64 bit ranges for what is
  stored as \<open>long long\<close>, 253 characters for name and value of a stored setting (the reader's buffer).

  \<^bold>\<open>Not modelled\<close>

  Windows, menus and drawing (GTK, Cairo); sound back ends; sockets, USB (OZY) and the discovery
  of radios; the SoapySDR and the direct Saturn hardware interface; the parsers of CAT and TCI
  commands and the network protocol between two instances of the program, which call the modelled
  functions; hardware knobs and MIDI, which do so through a table of actions; the DSP libraries
  under \<^verbatim>\<open>src/wdsp\<close>, \<^verbatim>\<open>src/rnnoise\<close> and \<^verbatim>\<open>src/libspecbleach\<close>, third-party code that
  is only called; simulators and tools. Rounding of doubles is not modelled (they are reals), nor
  the memory model of the processor beyond the interleaving of steps.
\<close>

end
